(* ===== verification/Prelude.thy ===== *)
theory Prelude
  imports Main "HOL-Library.DAList" "HOL-Library.Multiset" "HOL-Library.List_Lexorder"
    "HOL-Library.Char_ord" "HOL-Library.Sublist"
begin

text \<open>
  Shared vocabulary of the development.

  A Go function that returns \<open>(value, error)\<close> is a function into \<open>err + 'a\<close>: \<open>Inl\<close> is an
  early return with an error, \<open>Inr\<close> the value. An \<open>if bad { return nil, err }\<close> of the source
  is \<open>fail_if bad err rest\<close>, so a definition lists the checks in the order and with the
  polarity of the source.

  A Go \<open>map[string]T\<close> is a \<open>'v gmap\<close>, an association list with distinct keys. A \<open>range\<close> loop
  over it visits \<open>m_entries\<close>; Go fixes no order for that loop, so what the code computes by
  such a loop is shown not to depend on the order (locale \<open>any_order\<close> and the lemmas on
  \<open>list_ex\<close>, \<open>find\<close> and counting below).
\<close>

named_theorems guards \<open>when a guarded computation returns a value\<close>
named_theorems frame \<open>which part of the state an operation leaves alone\<close>

subsection \<open>Errors as values\<close>

text \<open>
  \<open>Err\<close> is a plain \<open>errors.New\<close> or \<open>fmt.Errorf\<close> with its text, \<open>NotRegistered\<close> an error that
  wraps the sentinel \<open>model.ErrProviderNotRegistered\<close>, and \<open>Panic\<close> a failed type assertion
  of the one-value form \<open>payload.(T)\<close>, which stops the goroutine.
\<close>

datatype err = Err string | NotRegistered string | Panic

type_synonym 'a result = "err + 'a"

definition fail_if :: "bool \<Rightarrow> 'e \<Rightarrow> 'e + 'a \<Rightarrow> 'e + 'a" where
  "fail_if bad e rest = (if bad then Inl e else rest)"

definition and_then :: "'e + 'a \<Rightarrow> ('a \<Rightarrow> 'e + 'b) \<Rightarrow> 'e + 'b" where
  "and_then r f = (case r of Inl e \<Rightarrow> Inl e | Inr a \<Rightarrow> f a)"

lemma fail_if_Inr [guards, simp]: "fail_if bad e rest = Inr a \<longleftrightarrow> \<not> bad \<and> rest = Inr a"
  by (simp add: fail_if_def)

lemma fail_if_True [simp]: "fail_if True e rest = Inl e"
  by (simp add: fail_if_def)

lemma fail_if_False [simp]: "fail_if False e rest = rest"
  by (simp add: fail_if_def)

lemma fail_if_Inl: "fail_if bad e rest = Inl x \<longleftrightarrow> (bad \<and> x = e) \<or> (\<not> bad \<and> rest = Inl x)"
  by (auto simp: fail_if_def)

lemma and_then_Inr [guards, simp]: "and_then r f = Inr b \<longleftrightarrow> (\<exists>a. r = Inr a \<and> f a = Inr b)"
  by (simp add: and_then_def split: sum.splits)

lemma and_then_Inr_simp [simp]: "and_then (Inr a) f = f a"
  by (simp add: and_then_def)

lemma and_then_Inl_simp [simp]: "and_then (Inl e) f = Inl e"
  by (simp add: and_then_def)

lemma and_then_Inl: "and_then r f = Inl e \<longleftrightarrow> r = Inl e \<or> (\<exists>a. r = Inr a \<and> f a = Inl e)"
  by (auto simp: and_then_def split: sum.splits)

lemma and_then_assoc: "and_then (and_then r f) g = and_then r (\<lambda>a. and_then (f a) g)"
  by (cases r) simp_all

definition is_ok :: "'e + 'a \<Rightarrow> bool" where
  "is_ok r \<longleftrightarrow> (\<exists>a. r = Inr a)"

lemma is_ok_simps [simp]: "is_ok (Inr a)" "\<not> is_ok (Inl e)"
  by (simp_all add: is_ok_def)

lemma is_ok_fail_if [simp]: "is_ok (fail_if bad e rest) \<longleftrightarrow> \<not> bad \<and> is_ok rest"
  by (auto simp: is_ok_def)

subsection \<open>Go maps\<close>

type_synonym 'v gmap = "(string, 'v) alist"

abbreviation m_get :: "'v gmap \<Rightarrow> string \<Rightarrow> 'v option" where
  "m_get \<equiv> DAList.lookup"

abbreviation m_put :: "string \<Rightarrow> 'v \<Rightarrow> 'v gmap \<Rightarrow> 'v gmap" where
  "m_put \<equiv> DAList.update"

abbreviation m_del :: "string \<Rightarrow> 'v gmap \<Rightarrow> 'v gmap" where
  "m_del \<equiv> DAList.delete"

abbreviation m_empty :: "'v gmap" where
  "m_empty \<equiv> DAList.empty"

abbreviation m_entries :: "'v gmap \<Rightarrow> (string \<times> 'v) list" where
  "m_entries \<equiv> DAList.impl_of"

text \<open>A read \<open>m[k]\<close> of a missing key gives the zero value of the element type.\<close>

definition m_read :: "'v \<Rightarrow> 'v gmap \<Rightarrow> string \<Rightarrow> 'v" where
  "m_read zero m k = (case m_get m k of None \<Rightarrow> zero | Some v \<Rightarrow> v)"

definition m_has :: "'v gmap \<Rightarrow> string \<Rightarrow> bool" where
  "m_has m k \<longleftrightarrow> m_get m k \<noteq> None"

definition m_size :: "'v gmap \<Rightarrow> nat" where
  "m_size m = length (m_entries m)"

definition m_vals :: "'v gmap \<Rightarrow> 'v list" where
  "m_vals m = List.map snd (m_entries m)"

definition m_map :: "(string \<Rightarrow> 'v \<Rightarrow> 'v) \<Rightarrow> 'v gmap \<Rightarrow> 'v gmap" where
  "m_map f m = DAList.Alist (List.map (\<lambda>(k, v). (k, f k v)) (m_entries m))"

lemmas m_lookup_update = DAList.lookup_update

lemma m_entries_put [simp]: "m_entries (m_put k v m) = AList.update k v (m_entries m)"
  by (rule DAList.update.rep_eq)

lemma m_entries_empty [simp]: "m_entries m_empty = []"
  by (rule DAList.empty.rep_eq)

lemma m_entries_del [simp]: "m_entries (m_del k m) = AList.delete k (m_entries m)"
  by (rule DAList.delete.rep_eq)

lemma m_get_entries: "m_get m k = map_of (m_entries m) k"
  by (simp add: DAList.lookup.rep_eq)

lemma m_entries_get: "(k, v) \<in> set (m_entries m) \<longleftrightarrow> m_get m k = Some v"
  by (simp add: m_get_entries)

lemma m_vals_set: "v \<in> set (m_vals m) \<longleftrightarrow> (\<exists>k. m_get m k = Some v)"
  by (force simp: m_vals_def m_entries_get[symmetric])

lemma m_read_Some [simp]: "m_get m k = Some v \<Longrightarrow> m_read z m k = v"
  by (simp add: m_read_def)

lemma m_read_None [simp]: "m_get m k = None \<Longrightarrow> m_read z m k = z"
  by (simp add: m_read_def)

lemma m_entries_map: "m_entries (m_map f m) = List.map (\<lambda>(k, v). (k, f k v)) (m_entries m)"
proof -
  have "List.map fst (List.map (\<lambda>(k, v). (k, f k v)) xs) = List.map fst xs" for xs
    by (induction xs) auto
  then have "distinct (List.map fst (List.map (\<lambda>(k, v). (k, f k v)) (m_entries m)))"
    by (metis DAList.impl_of_distinct)
  then show ?thesis
    unfolding m_map_def by (rule DAList.impl_of_Alist)
qed

lemma m_get_map [simp]: "m_get (m_map f m) k = map_option (f k) (m_get m k)"
proof -
  have "map_of (List.map (\<lambda>(k, v). (k, f k v)) xs) k = map_option (f k) (map_of xs k)" for xs
    by (induction xs) auto
  then show ?thesis
    by (simp add: m_get_entries m_entries_map)
qed

text \<open>
  The two read-modify-write idioms: \<open>v := m[k]; change v; m[k] = v\<close>, which creates a missing entry
  from the zero value, and \<open>if v, ok := m[k]; ok { change v; m[k] = v }\<close>, which does not.
\<close>

definition m_write :: "'v \<Rightarrow> ('v \<Rightarrow> 'v) \<Rightarrow> string \<Rightarrow> 'v gmap \<Rightarrow> 'v gmap" where
  "m_write zero f k m = m_put k (f (m_read zero m k)) m"

definition m_adjust :: "('v \<Rightarrow> 'v) \<Rightarrow> string \<Rightarrow> 'v gmap \<Rightarrow> 'v gmap" where
  "m_adjust f k m = (case m_get m k of None \<Rightarrow> m | Some v \<Rightarrow> m_put k (f v) m)"

lemma m_get_put: "m_get (m_put k v m) j = (if j = k then Some v else m_get m j)"
  by (auto simp: m_lookup_update)

lemma m_get_del: "m_get (m_del k m) j = (if j = k then None else m_get m j)"
  by (simp add: DAList.lookup_delete)

lemma m_get_write: "m_get (m_write z f k m) j = (if j = k then Some (f (m_read z m k)) else m_get m j)"
  by (auto simp: m_write_def m_lookup_update)

lemma m_get_adjust: "m_get (m_adjust f k m) j = (if j = k then map_option f (m_get m k) else m_get m j)"
  by (auto simp: m_adjust_def m_lookup_update split: option.splits)

lemma m_put_same: "m_get m k = Some v \<Longrightarrow> m_put k v m = m"
  by (simp add: DAList.alist_eq_iff m_get_entries update_triv)

lemmas m_gets = m_get_put m_get_del m_get_write m_get_adjust

subsection \<open>Loops over a map do not depend on the order\<close>

text \<open>
  A \<open>range\<close> loop whose body commutes with itself, on the entries \<open>ok\<close> admits, computes the same
  result whatever order Go picks. Each loop of the model that folds an accumulator interprets
  this locale.
\<close>

locale any_order =
  fixes body :: "'e \<Rightarrow> 'a \<Rightarrow> 'a" and ok :: "'e \<Rightarrow> bool"
  assumes body_commute: "ok x \<Longrightarrow> ok y \<Longrightarrow> body x (body y acc) = body y (body x acc)"
begin

lemma fold_any_order:
  assumes "mset xs = mset ys" and "\<forall>x\<in>set xs. ok x"
  shows "fold body xs acc = fold body ys acc"
proof -
  have "fold body xs = fold body ys"
    using assms(2) by (intro fold_multiset_equiv [OF _ assms(1)]) (simp add: fun_eq_iff body_commute)
  then show ?thesis by simp
qed

end

lemma list_ex_any_order: "mset xs = mset ys \<Longrightarrow> list_ex P xs = list_ex P ys"
  by (metis list_ex_iff set_mset_mset)

lemma count_any_order:
  "mset xs = mset ys \<Longrightarrow> length (List.filter P xs) = length (List.filter P ys)"
  by (metis mset_filter size_mset)

lemma find_None_any_order:
  "mset xs = mset ys \<Longrightarrow> (List.find P xs = None) = (List.find P ys = None)"
  by (metis find_None_iff set_mset_mset)

subsection \<open>A server that keeps an invariant\<close>

text \<open>
  An authority takes commands one at a time. A rejected command leaves the state as it was
  (its transaction rolls back), an accepted one replaces it.
\<close>

fun serve :: "('s \<Rightarrow> 'c \<Rightarrow> 'e + 's) \<Rightarrow> 's \<Rightarrow> 'c list \<Rightarrow> 's" where
  "serve step s [] = s"
| "serve step s (c # cs) = serve step (case step s c of Inl e \<Rightarrow> s | Inr t \<Rightarrow> t) cs"

lemma serve_append: "serve step s (cs @ ds) = serve step (serve step s cs) ds"
  by (induction cs arbitrary: s) simp_all

locale inv_kept =
  fixes step :: "'s \<Rightarrow> 'c \<Rightarrow> 'e + 's" and inv :: "'s \<Rightarrow> bool"
  assumes step_keeps: "inv s \<Longrightarrow> step s c = Inr t \<Longrightarrow> inv t"
begin

lemma serve_keeps: "inv s \<Longrightarrow> inv (serve step s cs)"
  by (induction cs arbitrary: s) (auto split: sum.splits dest: step_keeps)

end

end
