(* ===== verification/GoText.thy ===== *)
theory GoText
  imports Prelude
begin

text \<open>
  What the program uses of Go's \<open>strings\<close>, \<open>strconv\<close>, \<open>unicode\<close> and \<open>fmt\<close>, on byte strings.
  Letter case and white space are those of ASCII: on bytes above 127 the functions here are the
  identity, where Go would consult the Unicode tables. \<open>rune_count\<close> and \<open>has_control\<close> read
  well-formed UTF-8.
\<close>

definition is_space :: "char \<Rightarrow> bool" where
  "is_space c = (let n = (of_char c :: nat) in n = 32 \<or> (9 \<le> n \<and> n \<le> 13))"

definition trim_space :: "string \<Rightarrow> string" where
  "trim_space s = rev (dropWhile is_space (rev (dropWhile is_space s)))"

definition blank :: "string \<Rightarrow> bool" where
  "blank s = (trim_space s = [])"

definition up_char :: "char \<Rightarrow> char" where
  "up_char c = (let n = (of_char c :: nat) in if 97 \<le> n \<and> n \<le> 122 then char_of (n - 32) else c)"

definition low_char :: "char \<Rightarrow> char" where
  "low_char c = (let n = (of_char c :: nat) in if 65 \<le> n \<and> n \<le> 90 then char_of (n + 32) else c)"

definition to_upper :: "string \<Rightarrow> string" where
  "to_upper s = List.map up_char s"

definition to_lower :: "string \<Rightarrow> string" where
  "to_lower s = List.map low_char s"

definition equal_fold :: "string \<Rightarrow> string \<Rightarrow> bool" where
  "equal_fold s t = (to_lower s = to_lower t)"

abbreviation has_prefix :: "string \<Rightarrow> string \<Rightarrow> bool" where
  "has_prefix s p \<equiv> prefix p s"

fun contains :: "string \<Rightarrow> string \<Rightarrow> bool" where
  "contains [] sub = (sub = [])"
| "contains (c # s) sub = (prefix sub (c # s) \<or> contains s sub)"

text \<open>\<open>strings.Cut(s, sep)\<close> for a one-character separator.\<close>

definition cut_at :: "char \<Rightarrow> string \<Rightarrow> string \<times> string \<times> bool" where
  "cut_at c s = (takeWhile (\<lambda>x. x \<noteq> c) s, drop 1 (dropWhile (\<lambda>x. x \<noteq> c) s), c \<in> set s)"

text \<open>\<open>strings.CutPrefix(s, p)\<close>: the rest of \<open>s\<close> after \<open>p\<close>, when \<open>s\<close> starts with \<open>p\<close>.\<close>

definition cut_prefix :: "string \<Rightarrow> string \<Rightarrow> string option" where
  "cut_prefix s p = (if has_prefix s p then Some (drop (length p) s) else None)"

fun join_with :: "string \<Rightarrow> string list \<Rightarrow> string" where
  "join_with sep [] = []"
| "join_with sep [x] = x"
| "join_with sep (x # y # xs) = x @ sep @ join_with sep (y # xs)"

fun dec_digits :: "nat \<Rightarrow> string" where
  "dec_digits n =
     (if n < 10 then [char_of (48 + n)] else dec_digits (n div 10) @ [char_of (48 + n mod 10)])"

declare dec_digits.simps [simp del]

definition dec_int :: "int \<Rightarrow> string" where
  "dec_int i = (if i < 0 then ''-'' @ dec_digits (nat (- i)) else dec_digits (nat i))"

text \<open>\<open>%q\<close> of a printable ASCII string: quotes around it, quote and backslash escaped.\<close>

definition quoted :: "string \<Rightarrow> string" where
  "quoted s = [CHR 0x22] @
     concat (List.map (\<lambda>c. if c = CHR 0x22 \<or> c = CHR 0x5C then [CHR 0x5C, c] else [c]) s) @
     [CHR 0x22]"

definition is_lower :: "char \<Rightarrow> bool" where
  "is_lower c = (let n = (of_char c :: nat) in 97 \<le> n \<and> n \<le> 122)"

definition is_digit :: "char \<Rightarrow> bool" where
  "is_digit c = (let n = (of_char c :: nat) in 48 \<le> n \<and> n \<le> 57)"

definition digit_val :: "char \<Rightarrow> nat" where
  "digit_val c = of_char c - 48"

text \<open>The number of runes of a UTF-8 string: the bytes that do not continue a rune.\<close>

definition rune_count :: "string \<Rightarrow> nat" where
  "rune_count s = length (List.filter (\<lambda>c. \<not> (128 \<le> (of_char c :: nat) \<and> (of_char c :: nat) < 192)) s)"

text \<open>\<open>unicode.IsControl\<close> on some rune: U+0000 to U+001F, U+007F, U+0080 to U+009F.\<close>

fun has_control :: "string \<Rightarrow> bool" where
  "has_control [] = False"
| "has_control (c # s) =
     (let n = (of_char c :: nat) in
      n < 32 \<or> n = 127 \<or>
      (n = 194 \<and> (case s of [] \<Rightarrow> False | d # _ \<Rightarrow> 128 \<le> (of_char d :: nat) \<and> (of_char d :: nat) < 160)) \<or>
      has_control s)"

lemmas text_eval =
  to_lower_def to_upper_def trim_space_def is_space_def low_char_def up_char_def char_of_def bit_0
  Let_def

subsection \<open>Laws\<close>

lemma up_char_code:
  "(of_char (up_char c) :: nat) =
     (if 97 \<le> (of_char c :: nat) \<and> (of_char c :: nat) \<le> 122 then of_char c - 32 else of_char c)"
  by (auto simp: up_char_def Let_def of_char_of intro!: mod_less)

lemma up_char_idem [simp]: "up_char (up_char c) = up_char c"
proof -
  have "\<not> (97 \<le> (of_char (up_char c) :: nat) \<and> (of_char (up_char c) :: nat) \<le> 122)"
    unfolding up_char_code by (simp split: if_split) arith
  then show ?thesis by (auto simp: up_char_def [of "up_char c"] Let_def)
qed

lemma to_upper_idem [simp]: "to_upper (to_upper s) = to_upper s"
  by (simp add: to_upper_def comp_def)

lemma up_char_space [simp]: "is_space (up_char c) = is_space c"
  unfolding is_space_def Let_def up_char_code by (simp split: if_split) arith

lemma dropWhile_idem [simp]: "dropWhile P (dropWhile P xs) = dropWhile P xs"
  by (induction xs) auto

lemma trim_space_hd: "dropWhile is_space (trim_space s) = trim_space s"
proof -
  have 1: "xs = [] \<or> \<not> P (hd xs) \<Longrightarrow> dropWhile P xs = xs" for P and xs :: string
    by (cases xs) auto
  let ?t = "dropWhile is_space s"
  have "?t = [] \<or> \<not> is_space (hd ?t)"
    by (metis hd_dropWhile)
  moreover have "prefix (trim_space s) ?t"
    by (metis trim_space_def suffix_dropWhile suffix_to_prefix rev_rev_ident)
  ultimately have "trim_space s = [] \<or> \<not> is_space (hd (trim_space s))"
    by (metis hd_append2 prefix_def prefix_bot.extremum_uniqueI)
  then show ?thesis by (rule 1)
qed

lemma trim_space_idem [simp]: "trim_space (trim_space s) = trim_space s"
  by (simp add: trim_space_def [of "trim_space s"] trim_space_hd) (simp add: trim_space_def)

lemma trim_upper: "trim_space (to_upper s) = to_upper (trim_space s)"
  by (simp add: trim_space_def to_upper_def dropWhile_map comp_def rev_map)

lemma upper_trim_idem [simp]:
  "to_upper (trim_space (to_upper (trim_space s))) = to_upper (trim_space s)"
  by (simp add: trim_upper)

lemma blank_Nil [simp]: "blank []"
  by (simp add: blank_def trim_space_def)

lemma contains_iff: "contains s sub \<longleftrightarrow> (\<exists>a b. s = a @ sub @ b)"
proof (induction s)
  case Nil
  then show ?case by auto
next
  case (Cons c s)
  show ?case
  proof
    assume "contains (c # s) sub"
    then consider "prefix sub (c # s)" | "contains s sub" by auto
    then show "\<exists>a b. c # s = a @ sub @ b"
    proof cases
      case 1
      then show ?thesis by (metis append_Nil prefix_def)
    next
      case 2
      then show ?thesis using Cons.IH by (metis append_Cons)
    qed
  next
    assume "\<exists>a b. c # s = a @ sub @ b"
    then obtain a b where ab: "c # s = a @ sub @ b" by blast
    show "contains (c # s) sub"
    proof (cases a)
      case Nil
      with ab show ?thesis by (metis append_Nil contains.simps(2) prefix_def)
    next
      case (Cons x a')
      with ab have "s = a' @ sub @ b" by simp
      with Cons.IH show ?thesis by auto
    qed
  qed
qed

lemma contains_append: "contains s sub \<or> contains t sub \<Longrightarrow> contains (s @ t) sub"
  by (metis append_assoc contains_iff)

lemma to_lower_append [simp]: "to_lower (s @ t) = to_lower s @ to_lower t"
  by (simp add: to_lower_def)

lemma cut_at_prefix: "cut_at c (p @ c # s) = (p, s, True)" if "c \<notin> set p"
proof -
  have "takeWhile (\<lambda>x. x \<noteq> c) (p @ c # s) = p"
    using that by (subst takeWhile_append2) auto
  moreover have "dropWhile (\<lambda>x. x \<noteq> c) (p @ c # s) = c # s"
    using that by (subst dropWhile_append2) auto
  ultimately show ?thesis by (simp add: cut_at_def)
qed

end
