(* ===== verification/GoTime.thy ===== *)
theory GoTime
  imports GoText
begin

text \<open>
  Instants and durations. A \<open>time.Time\<close> is its distance in nanoseconds from Go's zero time
  (1 January of year 1), so \<open>IsZero\<close> is \<open>t = 0\<close>; a \<open>time.Duration\<close> is an int64 count of
  nanoseconds, kept as an \<open>int\<close>. \<open>sub_time\<close> saturates as \<open>Time.Sub\<close> does.
  \<open>parse_duration\<close> is \<open>time.ParseDuration\<close>; a fractional part is scaled exactly where Go
  rounds through float64, which can differ by a nanosecond.
\<close>

type_synonym time = int
type_synonym duration = int

abbreviation is_zero :: "time \<Rightarrow> bool" where
  "is_zero t \<equiv> t = 0"

abbreviation after :: "time \<Rightarrow> time \<Rightarrow> bool" where
  "after t u \<equiv> u < t"

abbreviation before :: "time \<Rightarrow> time \<Rightarrow> bool" where
  "before t u \<equiv> t < u"

definition sub_time :: "time \<Rightarrow> time \<Rightarrow> duration" where
  "sub_time t u = max (- (2 ^ 63)) (min (2 ^ 63 - 1) (t - u))"

abbreviation second :: duration where "second \<equiv> 1000000000"
abbreviation minute :: duration where "minute \<equiv> 60000000000"
abbreviation hour :: duration where "hour \<equiv> 3600000000000"

fun leading_int :: "nat \<Rightarrow> string \<Rightarrow> (nat \<times> string) option" where
  "leading_int x [] = Some (x, [])"
| "leading_int x (c # s) =
     (if \<not> is_digit c then Some (x, c # s)
      else if x > 922337203685477580 then None
      else let y = x * 10 + digit_val c in if y > 2 ^ 63 then None else leading_int y s)"

fun leading_fraction :: "nat \<Rightarrow> nat \<Rightarrow> bool \<Rightarrow> string \<Rightarrow> nat \<times> nat \<times> string" where
  "leading_fraction x scale over [] = (x, scale, [])"
| "leading_fraction x scale over (c # s) =
     (if \<not> is_digit c then (x, scale, c # s)
      else if over then leading_fraction x scale True s
      else if x > 922337203685477580 then leading_fraction x scale True s
      else let y = x * 10 + digit_val c in
        if y > 2 ^ 63 then leading_fraction x scale True s
        else leading_fraction y (scale * 10) False s)"

definition unit_ns :: "string \<Rightarrow> nat option" where
  "unit_ns = map_of
     [(''ns'', 1), (''us'', 1000), ([CHR 0xC2, CHR 0xB5, CHR ''s''], 1000),
      ([CHR 0xCE, CHR 0xBC, CHR ''s''], 1000), (''ms'', 1000000), (''s'', 1000000000),
      (''m'', 60000000000), (''h'', 3600000000000)]"

definition unit_char :: "char \<Rightarrow> bool" where
  "unit_char c = (\<not> (c = CHR ''.'' \<or> is_digit c))"

text \<open>One \<open>number unit\<close> term: its value in nanoseconds and the rest of the text.\<close>

definition duration_term :: "string \<Rightarrow> (nat \<times> string) option" where
  "duration_term s =
     (case leading_int 0 s of None \<Rightarrow> None | Some (v, s1) \<Rightarrow>
      let pre = length s1 \<noteq> length s;
          dot = (s1 \<noteq> [] \<and> hd s1 = CHR ''.'');
          (f, scale, s2) = (if dot then leading_fraction 0 1 False (tl s1) else (0, 1, s1));
          post = (dot \<and> length s2 \<noteq> length (tl s1));
          u = takeWhile unit_char s2;
          s3 = dropWhile unit_char s2
      in if \<not> pre \<and> \<not> post then None
         else if u = [] then None
         else case unit_ns u of None \<Rightarrow> None | Some n \<Rightarrow>
           if v > 2 ^ 63 div n then None
           else let w = v * n + f * n div scale in
             if w > 2 ^ 63 then None else Some (w, s3))"

lemma leading_int_length: "leading_int x s = Some (v, t) \<Longrightarrow> length t \<le> length s"
  by (induction x s rule: leading_int.induct) (auto simp: Let_def split: if_splits)

lemma leading_fraction_length:
  "leading_fraction x sc ov s = (f, sc', t) \<Longrightarrow> length t \<le> length s"
  by (induction x sc ov s rule: leading_fraction.induct) (auto simp: Let_def split: if_splits)

lemma duration_term_shorter: "duration_term s = Some (w, t) \<Longrightarrow> length t < length s"
proof -
  assume a: "duration_term s = Some (w, t)"
  then obtain v s1 where li: "leading_int 0 s = Some (v, s1)"
    by (auto simp: duration_term_def split: option.splits)
  define fr where
    "fr = (if s1 \<noteq> [] \<and> hd s1 = CHR ''.'' then leading_fraction 0 1 False (tl s1) else (0, 1, s1))"
  obtain f sc s2 where fr: "fr = (f, sc, s2)" by (cases fr) auto
  have "length s2 \<le> length s1"
    using fr leading_fraction_length [of 0 1 False "tl s1" f sc s2]
    by (auto simp: fr_def split: if_splits)
  moreover have u: "takeWhile unit_char s2 \<noteq> []" and t: "t = dropWhile unit_char s2"
    using a li fr by (auto simp: duration_term_def Let_def fr_def split: if_splits option.splits)
  moreover have "length s2 = length (takeWhile unit_char s2) + length (dropWhile unit_char s2)"
    by (metis length_append takeWhile_dropWhile_id)
  moreover have "0 < length (takeWhile unit_char s2)"
    using u by (rule iffD2 [OF length_greater_0_conv])
  ultimately have "length t < length s1" by (simp only: t)
  with leading_int_length [OF li] show ?thesis by simp
qed

function duration_terms :: "nat \<Rightarrow> string \<Rightarrow> nat option" where
  "duration_terms d s =
     (if s = [] then Some d
      else case duration_term s of None \<Rightarrow> None | Some (v, t) \<Rightarrow>
        let d' = (d + v) mod 2 ^ 64 in if d' > 2 ^ 63 then None else duration_terms d' t)"
  by pat_completeness auto
termination
  by (relation "measure (\<lambda>(d, s). length s)") (auto dest: duration_term_shorter)

declare duration_terms.simps [simp del]

definition parse_duration :: "string \<Rightarrow> duration option" where
  "parse_duration orig =
     (let neg = (orig \<noteq> [] \<and> hd orig = CHR ''-'');
          s = (if orig \<noteq> [] \<and> (hd orig = CHR ''-'' \<or> hd orig = CHR ''+'') then tl orig else orig)
      in if s = ''0'' then Some 0
         else if s = [] then None
         else case duration_terms 0 s of None \<Rightarrow> None | Some d \<Rightarrow>
           if neg then Some (- int d)
           else if d > 2 ^ 63 - 1 then None else Some (int d))"

text \<open>\<open>d, _ := time.ParseDuration(s)\<close> leaves zero when the text does not parse.\<close>

definition duration_or_zero :: "string \<Rightarrow> duration" where
  "duration_or_zero s = (case parse_duration s of None \<Rightarrow> 0 | Some d \<Rightarrow> d)"

lemmas duration_eval =
  parse_duration_def duration_terms.simps duration_term_def unit_ns_def unit_char_def
  is_digit_def digit_val_def Let_def

lemma parse_4h: "parse_duration ''4h'' = Some (4 * hour)"
  by (simp add: duration_eval)

lemma parse_1h: "parse_duration ''1h'' = Some hour"
  by (simp add: duration_eval)

lemma parse_168h: "parse_duration ''168h'' = Some (168 * hour)"
  by (simp add: duration_eval)

lemma parse_mixed: "parse_duration ''1h30m'' = Some (hour + 30 * minute)"
  by (simp add: duration_eval)

lemma parse_fraction: "parse_duration ''1.5h'' = Some (90 * minute)"
  by (simp add: duration_eval)

lemma parse_no_unit: "parse_duration ''90'' = None"
  by (simp add: duration_eval)

lemma sub_time_less: "sub_time t u < d \<longleftrightarrow> t - u < d" if "- (2 ^ 63) < d" "d < 2 ^ 63"
  using that by (auto simp: sub_time_def)

lemma sub_time_greater: "sub_time t u > d \<longleftrightarrow> t - u > d" if "- (2 ^ 63) \<le> d" "d < 2 ^ 63 - 1"
  using that by (auto simp: sub_time_def)

end
