(* ===== verification/Model_State.thy ===== *)
theory Model_State
  imports GoTime
begin

text \<open>
  The project state of \<open>internal/model/model.go\<close>: one record per struct, in the order of the
  file, with the Go field names behind a short prefix. \<open>*time.Time\<close> is \<open>time option\<close>, a nil
  slice and an empty one are both \<open>[]\<close>, and each struct has its zero value \<open>zero_\<dots>\<close>, which
  Go reads for a key a map lacks. Statuses, kinds, modes and roles are strings, as in the code.
\<close>

abbreviation RoleOwner :: string where "RoleOwner \<equiv> ''OWNER''"
abbreviation RoleOrchestrator :: string where "RoleOrchestrator \<equiv> ''ORCHESTRATOR''"
abbreviation PrincipalHuman :: string where "PrincipalHuman \<equiv> ''HUMAN''"
abbreviation PrincipalAgent :: string where "PrincipalAgent \<equiv> ''AGENT''"
abbreviation RuntimeKindWorker :: string where "RuntimeKindWorker \<equiv> ''WORKER''"
abbreviation RuntimeKindInteractive :: string where "RuntimeKindInteractive \<equiv> ''INTERACTIVE''"
abbreviation ConsumerModeInteractiveOnly :: string where
  "ConsumerModeInteractiveOnly \<equiv> ''INTERACTIVE_ONLY''"
abbreviation ConsumerModeWorkerOnly :: string where "ConsumerModeWorkerOnly \<equiv> ''WORKER_ONLY''"
abbreviation ConsumerModeEither :: string where "ConsumerModeEither \<equiv> ''EITHER''"
abbreviation ProviderStatusActive :: string where "ProviderStatusActive \<equiv> ''ACTIVE''"
abbreviation ProviderStatusRetired :: string where "ProviderStatusRetired \<equiv> ''RETIRED''"

record clock =
  created_at :: time
  updated_at :: time
  created_sequence :: nat
  updated_sequence :: nat

definition zero_clock :: clock where
  "zero_clock = \<lparr>created_at = 0, updated_at = 0, created_sequence = 0, updated_sequence = 0\<rparr>"

record agent =
  ag_clock :: clock
  ag_id :: string
  ag_display_name :: string
  ag_status :: string
  ag_role :: string
  ag_principal_type :: string
  ag_public_key :: string
  ag_key_fingerprint :: string
  ag_capabilities :: "string list"
  ag_scopes :: "string list"
  ag_elevated_public_key :: string
  ag_elevated_key_fingerprint :: string

definition zero_agent :: agent where
  "zero_agent = \<lparr>ag_clock = zero_clock, ag_id = [], ag_display_name = [], ag_status = [],
     ag_role = [], ag_principal_type = [], ag_public_key = [], ag_key_fingerprint = [],
     ag_capabilities = [], ag_scopes = [], ag_elevated_public_key = [],
     ag_elevated_key_fingerprint = []\<rparr>"

record offer =
  of_id :: string
  of_to :: string
  of_expires_at :: time
  of_status :: string

record task =
  tk_clock :: clock
  tk_id :: string
  tk_title :: string
  tk_summary :: string
  tk_status :: string
  tk_owner :: string
  tk_repository :: string
  tk_branch :: string
  tk_worktree :: string
  tk_resources :: "string list"
  tk_external_ref :: string
  tk_risk :: string
  tk_lease_until :: time
  tk_stale_until :: time
  tk_handoff_to :: string
  tk_offers :: "offer list"
  tk_completed_at :: "time option"
  tk_archived :: bool

definition zero_task :: task where
  "zero_task = \<lparr>tk_clock = zero_clock, tk_id = [], tk_title = [], tk_summary = [],
     tk_status = [], tk_owner = [], tk_repository = [], tk_branch = [], tk_worktree = [],
     tk_resources = [], tk_external_ref = [], tk_risk = [], tk_lease_until = 0,
     tk_stale_until = 0, tk_handoff_to = [], tk_offers = [], tk_completed_at = None,
     tk_archived = False\<rparr>"

record recipient_state =
  rs_principal :: string
  rs_status :: string
  rs_at :: "time option"

record message =
  ms_id :: string
  ms_kind :: string
  ms_from :: string
  ms_to :: "string list"
  ms_subject :: string
  ms_body :: string
  ms_task_id :: string
  ms_status :: string
  ms_recipients :: "recipient_state list"
  ms_created_at :: time
  ms_updated_at :: time
  ms_created_sequence :: nat
  ms_updated_sequence :: nat

definition zero_message :: message where
  "zero_message = \<lparr>ms_id = [], ms_kind = [], ms_from = [], ms_to = [], ms_subject = [],
     ms_body = [], ms_task_id = [], ms_status = [], ms_recipients = [], ms_created_at = 0,
     ms_updated_at = 0, ms_created_sequence = 0, ms_updated_sequence = 0\<rparr>"

record invocation =
  iv_id :: string
  iv_requested_by :: string
  iv_target :: string
  iv_message_id :: string
  iv_task_id :: string
  iv_instruction :: string
  iv_expected_result :: string
  iv_scopes :: "string list"
  iv_priority :: string
  iv_consumer_mode :: string
  iv_preferred_runtime_id :: string
  iv_status :: string
  iv_created_at :: time
  iv_updated_at :: time
  iv_created_sequence :: nat
  iv_updated_sequence :: nat
  iv_deadline :: "time option"
  iv_claimed_by :: string
  iv_claimed_at :: "time option"
  iv_runtime_id :: string
  iv_claim_until :: "time option"
  iv_started_at :: "time option"
  iv_completed_at :: "time option"
  iv_next_attempt_at :: "time option"
  iv_result_message_id :: string
  iv_summary :: string
  iv_reason :: string

definition zero_invocation :: invocation where
  "zero_invocation = \<lparr>iv_id = [], iv_requested_by = [], iv_target = [], iv_message_id = [],
     iv_task_id = [], iv_instruction = [], iv_expected_result = [], iv_scopes = [],
     iv_priority = [], iv_consumer_mode = [], iv_preferred_runtime_id = [], iv_status = [],
     iv_created_at = 0, iv_updated_at = 0, iv_created_sequence = 0, iv_updated_sequence = 0,
     iv_deadline = None, iv_claimed_by = [], iv_claimed_at = None, iv_runtime_id = [],
     iv_claim_until = None, iv_started_at = None, iv_completed_at = None,
     iv_next_attempt_at = None, iv_result_message_id = [], iv_summary = [], iv_reason = []\<rparr>"

record delivery_evidence =
  ev_stage :: string
  ev_at :: time

record delivery =
  dl_id :: string
  dl_invocation_id :: string
  dl_runtime_id :: string
  dl_transport :: string
  dl_host_id :: string
  dl_endpoint_id :: string
  dl_attempt :: int
  dl_manual :: bool
  dl_status :: string
  dl_attempted_at :: "time option"
  dl_attempt_until :: "time option"
  dl_notified_at :: "time option"
  dl_failed_at :: "time option"
  dl_next_retry_at :: "time option"
  dl_evidence :: "delivery_evidence list"
  dl_error :: string

definition zero_delivery :: delivery where
  "zero_delivery = \<lparr>dl_id = [], dl_invocation_id = [], dl_runtime_id = [], dl_transport = [],
     dl_host_id = [], dl_endpoint_id = [], dl_attempt = 0, dl_manual = False, dl_status = [],
     dl_attempted_at = None, dl_attempt_until = None, dl_notified_at = None, dl_failed_at = None,
     dl_next_retry_at = None, dl_evidence = [], dl_error = []\<rparr>"

text \<open>
  \<open>AgentRuntime\<close> without \<open>InteractiveSession\<close>, which no signed event and no check reads: it
  is filled in on the reading host by \<open>internal/store\<close>.
\<close>

record runtime =
  rt_id :: string
  rt_agent_id :: string
  rt_kind :: string
  rt_connector :: string
  rt_config_reference :: string
  rt_host_id :: string
  rt_endpoint_id :: string
  rt_status :: string
  rt_health :: string
  rt_max_concurrent :: int
  rt_active_invocations :: "string list"
  rt_scopes :: "string list"
  rt_capabilities :: "string list"
  rt_registered_at :: time
  rt_created_at :: time
  rt_updated_at :: time
  rt_created_sequence :: nat
  rt_updated_sequence :: nat
  rt_last_seen_at :: time
  rt_last_changed_by :: string
  rt_reason :: string

definition zero_runtime :: runtime where
  "zero_runtime = \<lparr>rt_id = [], rt_agent_id = [], rt_kind = [], rt_connector = [],
     rt_config_reference = [], rt_host_id = [], rt_endpoint_id = [], rt_status = [],
     rt_health = [], rt_max_concurrent = 0, rt_active_invocations = [], rt_scopes = [],
     rt_capabilities = [], rt_registered_at = 0, rt_created_at = 0, rt_updated_at = 0,
     rt_created_sequence = 0, rt_updated_sequence = 0, rt_last_seen_at = 0,
     rt_last_changed_by = [], rt_reason = []\<rparr>"

record policy =
  po_agent_id :: string
  po_mode :: string
  po_trusted_actors :: "string list"
  po_allowed_scopes :: "string list"
  po_default_consumer_mode :: string
  po_allowed_consumer_modes :: "string list"
  po_preferred_interactive_runtime_id :: string
  po_require_human_for_sensitive :: bool
  po_updated_by :: string
  po_created_at :: time
  po_created_sequence :: nat
  po_updated_sequence :: nat
  po_updated_at :: time

definition zero_policy :: policy where
  "zero_policy = \<lparr>po_agent_id = [], po_mode = [], po_trusted_actors = [],
     po_allowed_scopes = [], po_default_consumer_mode = [], po_allowed_consumer_modes = [],
     po_preferred_interactive_runtime_id = [], po_require_human_for_sensitive = False,
     po_updated_by = [], po_created_at = 0, po_created_sequence = 0, po_updated_sequence = 0,
     po_updated_at = 0\<rparr>"

record approval =
  ap_clock :: clock
  ap_id :: string
  ap_tier :: string
  ap_action :: string
  ap_subject_digest :: string
  ap_subject :: string
  ap_reason :: string
  ap_status :: string
  ap_requester :: string
  ap_affected :: "string list"
  ap_expires_at :: "time option"
  ap_approver :: string

definition zero_approval :: approval where
  "zero_approval = \<lparr>ap_clock = zero_clock, ap_id = [], ap_tier = [], ap_action = [],
     ap_subject_digest = [], ap_subject = [], ap_reason = [], ap_status = [],
     ap_requester = [], ap_affected = [], ap_expires_at = None, ap_approver = []\<rparr>"

record artifact =
  af_created_at :: time
  af_created_sequence :: nat
  af_sha256 :: string
  af_size :: int
  af_name :: string
  af_media_type :: string
  af_storage :: string

record document =
  dc_clock :: clock
  dc_id :: string
  dc_title :: string
  dc_body :: string
  dc_tags :: "string list"
  dc_status :: string
  dc_version :: int
  dc_author :: string
  dc_supersedes :: string

definition zero_document :: document where
  "zero_document = \<lparr>dc_clock = zero_clock, dc_id = [], dc_title = [], dc_body = [],
     dc_tags = [], dc_status = [], dc_version = 0, dc_author = [], dc_supersedes = []\<rparr>"

record env_entry =
  en_key :: string
  en_value :: string
  en_created_at :: time
  en_created_sequence :: nat
  en_updated_sequence :: nat
  en_updated_at :: time
  en_updated_by :: string

definition zero_env_entry :: env_entry where
  "zero_env_entry = \<lparr>en_key = [], en_value = [], en_created_at = 0, en_created_sequence = 0,
     en_updated_sequence = 0, en_updated_at = 0, en_updated_by = []\<rparr>"

record provider =
  pv_clock :: clock
  pv_name :: string
  pv_display_name :: string
  pv_description :: string
  pv_status :: string
  pv_added_by :: string
  pv_retired_by :: string
  pv_retire_reason :: string

definition zero_provider :: provider where
  "zero_provider = \<lparr>pv_clock = zero_clock, pv_name = [], pv_display_name = [],
     pv_description = [], pv_status = [], pv_added_by = [], pv_retired_by = [],
     pv_retire_reason = []\<rparr>"

record integrity =
  ig_verified :: bool
  ig_event_count :: int
  ig_head :: string
  ig_sync_state :: string

definition zero_integrity :: integrity where
  "zero_integrity = \<lparr>ig_verified = False, ig_event_count = 0, ig_head = [], ig_sync_state = []\<rparr>"

record project_settings =
  se_default_lease :: string
  se_stale_grace :: string
  se_active_retention :: string
  se_summary_limit :: int
  se_artifact_limit_bytes :: int
  se_require_review :: bool
  se_updated_by :: string
  se_updated_at :: time

definition DefaultProjectSettings :: project_settings where
  "DefaultProjectSettings =
     \<lparr>se_default_lease = ''4h'', se_stale_grace = ''1h'', se_active_retention = ''168h'',
      se_summary_limit = 1200, se_artifact_limit_bytes = 5 * 1024 * 1024,
      se_require_review = False, se_updated_by = [], se_updated_at = 0\<rparr>"

definition EffectiveProjectSettings :: "project_settings \<Rightarrow> project_settings" where
  "EffectiveProjectSettings s =
     (let d = DefaultProjectSettings in
      s\<lparr>se_default_lease := (if se_default_lease s = [] then se_default_lease d else se_default_lease s),
        se_stale_grace := (if se_stale_grace s = [] then se_stale_grace d else se_stale_grace s),
        se_active_retention :=
          (if se_active_retention s = [] then se_active_retention d else se_active_retention s),
        se_summary_limit :=
          (if se_summary_limit s = 0 then se_summary_limit d else se_summary_limit s),
        se_artifact_limit_bytes :=
          (if se_artifact_limit_bytes s = 0 then se_artifact_limit_bytes d
           else se_artifact_limit_bytes s)\<rparr>)"

record state =
  st_agents :: "agent gmap"
  st_tasks :: "task gmap"
  st_messages :: "message gmap"
  st_invocations :: "invocation gmap"
  st_deliveries :: "delivery gmap"
  st_runtimes :: "runtime gmap"
  st_policies :: "policy gmap"
  st_approvals :: "approval gmap"
  st_documents :: "document gmap"
  st_env :: "env_entry gmap"
  st_artifacts :: "artifact gmap"
  st_providers :: "provider gmap"
  st_settings :: project_settings
  st_integrity :: integrity

definition EmptyState :: state where
  "EmptyState =
     \<lparr>st_agents = m_empty, st_tasks = m_empty, st_messages = m_empty, st_invocations = m_empty,
      st_deliveries = m_empty, st_runtimes = m_empty, st_policies = m_empty,
      st_approvals = m_empty, st_documents = m_empty, st_env = m_empty, st_artifacts = m_empty,
      st_providers = m_empty, st_settings = DefaultProjectSettings,
      st_integrity = zero_integrity\<rparr>"

lemma EmptyState_sel [simp]:
  "st_agents EmptyState = m_empty" "st_tasks EmptyState = m_empty"
  "st_messages EmptyState = m_empty" "st_invocations EmptyState = m_empty"
  "st_deliveries EmptyState = m_empty" "st_runtimes EmptyState = m_empty"
  "st_policies EmptyState = m_empty" "st_approvals EmptyState = m_empty"
  "st_documents EmptyState = m_empty" "st_env EmptyState = m_empty"
  "st_artifacts EmptyState = m_empty" "st_providers EmptyState = m_empty"
  "st_settings EmptyState = DefaultProjectSettings"
  by (simp_all add: EmptyState_def)

lemma EffectiveProjectSettings_idem:
  "EffectiveProjectSettings (EffectiveProjectSettings s) = EffectiveProjectSettings s"
  by (simp add: EffectiveProjectSettings_def DefaultProjectSettings_def Let_def)

lemma EffectiveProjectSettings_require_review [simp]:
  "se_require_review (EffectiveProjectSettings s) = se_require_review s"
  by (simp add: EffectiveProjectSettings_def Let_def)

text \<open>The lease and the stale grace in force, as \<open>ParseDuration\<close> reads them.\<close>

definition default_lease :: "state \<Rightarrow> duration" where
  "default_lease st = duration_or_zero (se_default_lease (EffectiveProjectSettings (st_settings st)))"

definition stale_grace :: "state \<Rightarrow> duration" where
  "stale_grace st = duration_or_zero (se_stale_grace (EffectiveProjectSettings (st_settings st)))"

lemma default_lease_Empty: "default_lease EmptyState = 4 * hour"
  by (simp add: default_lease_def EffectiveProjectSettings_def DefaultProjectSettings_def
      duration_or_zero_def parse_4h)

end
