(* ===== verification/Payloads.thy ===== *)
theory Payloads
  imports Model_State
begin

text \<open>
  Event types and payloads of \<open>internal/model/payloads.go\<close>. The event-type strings are grouped
  by their prefix, so the code's \<open>strings.HasPrefix(typ, "task.")\<close> is a case on the group;
  \<open>type_name\<close> gives back the string, \<open>parse_type\<close> is the lookup in \<open>payloadFactories\<close>.
  A payload is the struct a type decodes into; \<open>factory\<close> is the table from types to structs.
\<close>

subsection \<open>Event types\<close>

datatype agent_event =
  AgentRegister | AgentActivate | AgentSwitchRole | AgentSuspend | AgentRotateKey | AgentRename |
  AgentRevoke | AgentDelete | AgentElevateKey

datatype task_event =
  TaskCreate | TaskOffer | TaskClaim | TaskStart | TaskRenew | TaskBlock | TaskReview |
  TaskComplete | TaskCancel | TaskHandOver | TaskHandoffAccept | TaskTakeover

datatype message_event = MessagePost | MessageAck | MessageReject | MessageComplete | MessageResolve

datatype invocation_event =
  InvRequest | InvDeliveryAttempt | InvNotify | InvClaim | InvStart | InvWait | InvResume |
  InvComplete | InvReject | InvExpire | InvCancel | InvDeliveryFailed | InvPolicyUpdate

datatype runtime_event =
  RtRegister | RtConfigure | RtHeartbeat | RtOffline | RtDrain | RtResume | RtRevoke | RtDelete

datatype provider_event = ProviderRegister | ProviderRetire
datatype approval_event = ApprovalRequest | ApprovalApprove | ApprovalReject
datatype decision_event = DecisionCreate | DecisionSupersede
datatype document_event = DocumentCreate | DocumentUpdate | DocumentSupersede
datatype env_event = EnvSet | EnvDelete

datatype event_type =
    Agent_ev agent_event
  | Task_ev task_event
  | Message_ev message_event
  | Invocation_ev invocation_event
  | Runtime_ev runtime_event
  | SettingsUpdate
  | Provider_ev provider_event
  | Approval_ev approval_event
  | Decision_ev decision_event
  | ArtifactAdd
  | ArchiveRunEv
  | Document_ev document_event
  | Env_ev env_event

fun agent_event_name :: "agent_event \<Rightarrow> string" where
  "agent_event_name AgentRegister = ''register''"
| "agent_event_name AgentActivate = ''activate''"
| "agent_event_name AgentSwitchRole = ''switch-role''"
| "agent_event_name AgentSuspend = ''suspend''"
| "agent_event_name AgentRotateKey = ''rotate-key''"
| "agent_event_name AgentRename = ''rename''"
| "agent_event_name AgentRevoke = ''revoke''"
| "agent_event_name AgentDelete = ''delete''"
| "agent_event_name AgentElevateKey = ''elevate-key''"

fun task_event_name :: "task_event \<Rightarrow> string" where
  "task_event_name TaskCreate = ''create''"
| "task_event_name TaskOffer = ''offer''"
| "task_event_name TaskClaim = ''claim''"
| "task_event_name TaskStart = ''start''"
| "task_event_name TaskRenew = ''renew''"
| "task_event_name TaskBlock = ''block''"
| "task_event_name TaskReview = ''review''"
| "task_event_name TaskComplete = ''complete''"
| "task_event_name TaskCancel = ''cancel''"
| "task_event_name TaskHandOver = ''handoff''"
| "task_event_name TaskHandoffAccept = ''handoff.accept''"
| "task_event_name TaskTakeover = ''takeover''"

fun message_event_name :: "message_event \<Rightarrow> string" where
  "message_event_name MessagePost = ''post''"
| "message_event_name MessageAck = ''ack''"
| "message_event_name MessageReject = ''reject''"
| "message_event_name MessageComplete = ''complete''"
| "message_event_name MessageResolve = ''resolve''"

fun invocation_event_name :: "invocation_event \<Rightarrow> string" where
  "invocation_event_name InvRequest = ''request''"
| "invocation_event_name InvDeliveryAttempt = ''delivery-attempt''"
| "invocation_event_name InvNotify = ''notify''"
| "invocation_event_name InvClaim = ''claim''"
| "invocation_event_name InvStart = ''start''"
| "invocation_event_name InvWait = ''wait''"
| "invocation_event_name InvResume = ''resume''"
| "invocation_event_name InvComplete = ''complete''"
| "invocation_event_name InvReject = ''reject''"
| "invocation_event_name InvExpire = ''expire''"
| "invocation_event_name InvCancel = ''cancel''"
| "invocation_event_name InvDeliveryFailed = ''delivery-failed''"
| "invocation_event_name InvPolicyUpdate = ''policy.update''"

fun runtime_event_name :: "runtime_event \<Rightarrow> string" where
  "runtime_event_name RtRegister = ''register''"
| "runtime_event_name RtConfigure = ''configure''"
| "runtime_event_name RtHeartbeat = ''heartbeat''"
| "runtime_event_name RtOffline = ''offline''"
| "runtime_event_name RtDrain = ''drain''"
| "runtime_event_name RtResume = ''resume''"
| "runtime_event_name RtRevoke = ''revoke''"
| "runtime_event_name RtDelete = ''delete''"

fun type_name :: "event_type \<Rightarrow> string" where
  "type_name (Agent_ev e) = ''agent.'' @ agent_event_name e"
| "type_name (Task_ev e) = ''task.'' @ task_event_name e"
| "type_name (Message_ev e) = ''message.'' @ message_event_name e"
| "type_name (Invocation_ev e) = ''invocation.'' @ invocation_event_name e"
| "type_name (Runtime_ev e) = ''runtime.'' @ runtime_event_name e"
| "type_name SettingsUpdate = ''project.settings.update''"
| "type_name (Provider_ev ProviderRegister) = ''provider.register''"
| "type_name (Provider_ev ProviderRetire) = ''provider.retire''"
| "type_name (Approval_ev ApprovalRequest) = ''approval.request''"
| "type_name (Approval_ev ApprovalApprove) = ''approval.approve''"
| "type_name (Approval_ev ApprovalReject) = ''approval.reject''"
| "type_name (Decision_ev DecisionCreate) = ''decision.create''"
| "type_name (Decision_ev DecisionSupersede) = ''decision.supersede''"
| "type_name ArtifactAdd = ''artifact.add''"
| "type_name ArchiveRunEv = ''archive.run''"
| "type_name (Document_ev DocumentCreate) = ''document.create''"
| "type_name (Document_ev DocumentUpdate) = ''document.update''"
| "type_name (Document_ev DocumentSupersede) = ''document.supersede''"
| "type_name (Env_ev EnvSet) = ''env.set''"
| "type_name (Env_ev EnvDelete) = ''env.delete''"

definition all_event_types :: "event_type list" where
  "all_event_types =
     List.map Agent_ev [AgentRegister, AgentActivate, AgentSwitchRole, AgentSuspend,
       AgentRotateKey, AgentRename, AgentRevoke, AgentDelete, AgentElevateKey] @
     List.map Task_ev [TaskCreate, TaskOffer, TaskClaim, TaskStart, TaskRenew, TaskBlock,
       TaskReview, TaskComplete, TaskCancel, TaskHandOver, TaskHandoffAccept, TaskTakeover] @
     List.map Message_ev [MessagePost, MessageAck, MessageReject, MessageComplete, MessageResolve] @
     List.map Invocation_ev [InvRequest, InvDeliveryAttempt, InvNotify, InvClaim, InvStart,
       InvWait, InvResume, InvComplete, InvReject, InvExpire, InvCancel, InvDeliveryFailed,
       InvPolicyUpdate] @
     List.map Runtime_ev [RtRegister, RtConfigure, RtHeartbeat, RtOffline, RtDrain, RtResume,
       RtRevoke, RtDelete] @
     [SettingsUpdate, Provider_ev ProviderRegister, Provider_ev ProviderRetire,
      Approval_ev ApprovalRequest, Approval_ev ApprovalApprove, Approval_ev ApprovalReject,
      Decision_ev DecisionCreate, Decision_ev DecisionSupersede, ArtifactAdd, ArchiveRunEv,
      Document_ev DocumentCreate, Document_ev DocumentUpdate, Document_ev DocumentSupersede,
      Env_ev EnvSet, Env_ev EnvDelete]"

definition parse_type :: "string \<Rightarrow> event_type option" where
  "parse_type s = List.find (\<lambda>t. type_name t = s) all_event_types"

definition KnownEventType :: "string \<Rightarrow> bool" where
  "KnownEventType s = (parse_type s \<noteq> None)"

subsection \<open>Payload structs\<close>

record agent_registered =
  ar_public_key :: string
  ar_principal_type :: string
  ar_display_name :: string

record agent_activated =
  aa_role :: string
  aa_capabilities :: "string list"
  aa_scopes :: "string list"

record agent_role_switched = sw_role :: string

record agent_key_rotated =
  kr_public_key :: string
  kr_previous_fingerprint :: string

record agent_elevated_key_registered = ek_public_key :: string
record agent_renamed = rn_display_name :: string
record agent_deleted = ad_reason :: string

record task_created =
  tc_title :: string
  tc_summary :: string
  tc_repository :: string
  tc_branch :: string
  tc_worktree :: string
  tc_resources :: "string list"
  tc_external_ref :: string
  tc_risk :: string

record task_offered =
  to_to :: string
  to_expires_at :: time

record task_claimed =
  cl_lease_until :: time
  cl_offer_id :: string
  cl_worktree :: string

record task_renewed =
  tr_lease_until :: time
  tr_progress :: string

record task_handoff =
  th_to :: string
  th_summary :: string

record task_status_change =
  ts_summary :: string
  ts_evidence :: "string list"
  ts_reviewer :: string
  ts_approval_id :: string

record message_posted =
  mp_kind :: string
  mp_to :: "string list"
  mp_subject :: string
  mp_body :: string
  mp_task_id :: string

record message_response =
  mr_response :: string
  mr_note :: string

record invocation_requested =
  ir_target :: string
  ir_message_id :: string
  ir_task_id :: string
  ir_instruction :: string
  ir_expected_result :: string
  ir_scopes :: "string list"
  ir_priority :: string
  ir_consumer_mode :: string
  ir_preferred_runtime_id :: string
  ir_deadline :: "time option"

record delivery_attempted =
  da_delivery_id :: string
  da_runtime_id :: string
  da_transport :: string
  da_host_id :: string
  da_endpoint_id :: string
  da_attempt :: int
  da_manual :: bool
  da_attempt_until :: time

record invocation_notified =
  no_delivery_id :: string
  no_runtime_id :: string
  no_attempt :: int
  no_transport :: string
  no_endpoint_id :: string
  no_evidence :: "delivery_evidence list"

record invocation_claimed =
  ic_runtime_id :: string
  ic_claim_until :: time

record invocation_progress = ip_summary :: string

record invocation_waiting =
  iw_reason :: string
  iw_next_attempt_at :: "time option"

record invocation_completed =
  co_result_message_id :: string
  co_summary :: string

record invocation_rejected = rj_reason :: string

record delivery_failed =
  df_delivery_id :: string
  df_runtime_id :: string
  df_attempt :: int
  df_error :: string
  df_next_retry :: "time option"
  df_final :: bool

record runtime_registered =
  rr_agent_id :: string
  rr_kind :: string
  rr_connector :: string
  rr_config_reference :: string
  rr_host_id :: string
  rr_max_concurrent :: int
  rr_scopes :: "string list"
  rr_capabilities :: "string list"

record runtime_configured =
  rc_kind :: string
  rc_connector :: string
  rc_config_reference :: string
  rc_host_id :: string
  rc_max_concurrent :: int
  rc_scopes :: "string list"
  rc_capabilities :: "string list"

record runtime_heartbeat =
  hb_health :: string
  hb_endpoint_id :: string
  hb_active_invocations :: "string list"

record runtime_status_changed =
  sc_reason :: string
  sc_endpoint_id :: string

record policy_updated =
  pu_mode :: string
  pu_trusted_actors :: "string list"
  pu_allowed_scopes :: "string list"
  pu_default_consumer_mode :: string
  pu_allowed_consumer_modes :: "string list"
  pu_preferred_interactive_runtime_id :: string
  pu_require_human_for_sensitive :: bool

record settings_updated =
  su_default_lease :: string
  su_stale_grace :: string
  su_active_retention :: string
  su_summary_limit :: int
  su_artifact_limit_bytes :: int
  su_require_review :: bool

record provider_registered =
  pr_display_name :: string
  pr_description :: string

record provider_retired = px_reason :: string

record approval_requested =
  aq_tier :: string
  aq_action :: string
  aq_subject_digest :: string
  aq_subject :: string
  aq_reason :: string
  aq_affected :: "string list"
  aq_expires_at :: "time option"

record approval_response = as_note :: string

record decision_payload =
  de_title :: string
  de_statement :: string
  de_supersedes :: string
  de_to :: "string list"

record artifact_added =
  fa_sha256 :: string
  fa_size :: int
  fa_name :: string
  fa_media_type :: string
  fa_storage :: string

record archive_run =
  xr_before :: time
  xr_task_ids :: "string list"

record env_set_payload =
  es_key :: string
  es_value :: string

record env_delete_payload = ed_key :: string

record document_payload =
  dp_title :: string
  dp_body :: string
  dp_tags :: "string list"
  dp_replacement_id :: string

datatype payload =
    AgentRegistered agent_registered
  | AgentActivated agent_activated
  | AgentRoleSwitched agent_role_switched
  | AgentKeyRotated agent_key_rotated
  | AgentElevatedKeyRegistered agent_elevated_key_registered
  | AgentRenamed agent_renamed
  | AgentDeleted agent_deleted
  | TaskCreated task_created
  | TaskOffered task_offered
  | TaskClaimed task_claimed
  | TaskRenewed task_renewed
  | TaskHandoff task_handoff
  | TaskStatus task_status_change
  | MessagePosted message_posted
  | MessageResponse message_response
  | InvocationRequested invocation_requested
  | InvocationDeliveryAttempted delivery_attempted
  | InvocationNotified invocation_notified
  | InvocationClaimed invocation_claimed
  | InvocationProgress invocation_progress
  | InvocationWaiting invocation_waiting
  | InvocationCompleted invocation_completed
  | InvocationRejected invocation_rejected
  | InvocationDeliveryFailed delivery_failed
  | RuntimeRegistered runtime_registered
  | RuntimeConfigured runtime_configured
  | RuntimeHeartbeat runtime_heartbeat
  | RuntimeStatusChanged runtime_status_changed
  | InvocationPolicyUpdated policy_updated
  | ProjectSettingsUpdated settings_updated
  | ProviderRegistered provider_registered
  | ProviderRetired provider_retired
  | ApprovalRequested approval_requested
  | ApprovalResponse approval_response
  | DecisionPayload decision_payload
  | ArtifactAdded artifact_added
  | ArchiveRun archive_run
  | DocumentPayload document_payload
  | EnvSetPayload env_set_payload
  | EnvDeletePayload env_delete_payload

datatype payload_kind =
    K_AgentRegistered | K_AgentActivated | K_AgentRoleSwitched | K_AgentKeyRotated
  | K_AgentElevatedKeyRegistered | K_AgentRenamed | K_AgentDeleted | K_TaskCreated | K_TaskOffered
  | K_TaskClaimed | K_TaskRenewed | K_TaskHandoff | K_TaskStatus | K_MessagePosted
  | K_MessageResponse | K_InvocationRequested | K_InvocationDeliveryAttempted
  | K_InvocationNotified | K_InvocationClaimed | K_InvocationProgress | K_InvocationWaiting
  | K_InvocationCompleted | K_InvocationRejected | K_InvocationDeliveryFailed
  | K_RuntimeRegistered | K_RuntimeConfigured | K_RuntimeHeartbeat | K_RuntimeStatusChanged
  | K_InvocationPolicyUpdated | K_ProjectSettingsUpdated | K_ProviderRegistered
  | K_ProviderRetired | K_ApprovalRequested | K_ApprovalResponse | K_DecisionPayload
  | K_ArtifactAdded | K_ArchiveRun | K_DocumentPayload | K_EnvSetPayload | K_EnvDeletePayload

primrec kind_of :: "payload \<Rightarrow> payload_kind" where
  "kind_of (AgentRegistered p) = K_AgentRegistered"
| "kind_of (AgentActivated p) = K_AgentActivated"
| "kind_of (AgentRoleSwitched p) = K_AgentRoleSwitched"
| "kind_of (AgentKeyRotated p) = K_AgentKeyRotated"
| "kind_of (AgentElevatedKeyRegistered p) = K_AgentElevatedKeyRegistered"
| "kind_of (AgentRenamed p) = K_AgentRenamed"
| "kind_of (AgentDeleted p) = K_AgentDeleted"
| "kind_of (TaskCreated p) = K_TaskCreated"
| "kind_of (TaskOffered p) = K_TaskOffered"
| "kind_of (TaskClaimed p) = K_TaskClaimed"
| "kind_of (TaskRenewed p) = K_TaskRenewed"
| "kind_of (TaskHandoff p) = K_TaskHandoff"
| "kind_of (TaskStatus p) = K_TaskStatus"
| "kind_of (MessagePosted p) = K_MessagePosted"
| "kind_of (MessageResponse p) = K_MessageResponse"
| "kind_of (InvocationRequested p) = K_InvocationRequested"
| "kind_of (InvocationDeliveryAttempted p) = K_InvocationDeliveryAttempted"
| "kind_of (InvocationNotified p) = K_InvocationNotified"
| "kind_of (InvocationClaimed p) = K_InvocationClaimed"
| "kind_of (InvocationProgress p) = K_InvocationProgress"
| "kind_of (InvocationWaiting p) = K_InvocationWaiting"
| "kind_of (InvocationCompleted p) = K_InvocationCompleted"
| "kind_of (InvocationRejected p) = K_InvocationRejected"
| "kind_of (InvocationDeliveryFailed p) = K_InvocationDeliveryFailed"
| "kind_of (RuntimeRegistered p) = K_RuntimeRegistered"
| "kind_of (RuntimeConfigured p) = K_RuntimeConfigured"
| "kind_of (RuntimeHeartbeat p) = K_RuntimeHeartbeat"
| "kind_of (RuntimeStatusChanged p) = K_RuntimeStatusChanged"
| "kind_of (InvocationPolicyUpdated p) = K_InvocationPolicyUpdated"
| "kind_of (ProjectSettingsUpdated p) = K_ProjectSettingsUpdated"
| "kind_of (ProviderRegistered p) = K_ProviderRegistered"
| "kind_of (ProviderRetired p) = K_ProviderRetired"
| "kind_of (ApprovalRequested p) = K_ApprovalRequested"
| "kind_of (ApprovalResponse p) = K_ApprovalResponse"
| "kind_of (DecisionPayload p) = K_DecisionPayload"
| "kind_of (ArtifactAdded p) = K_ArtifactAdded"
| "kind_of (ArchiveRun p) = K_ArchiveRun"
| "kind_of (DocumentPayload p) = K_DocumentPayload"
| "kind_of (EnvSetPayload p) = K_EnvSetPayload"
| "kind_of (EnvDeletePayload p) = K_EnvDeletePayload"

text \<open>The table \<open>payloadFactories\<close>.\<close>

fun agent_factory :: "agent_event \<Rightarrow> payload_kind" where
  "agent_factory AgentRegister = K_AgentRegistered"
| "agent_factory AgentActivate = K_AgentActivated"
| "agent_factory AgentSwitchRole = K_AgentRoleSwitched"
| "agent_factory AgentSuspend = K_TaskStatus"
| "agent_factory AgentRotateKey = K_AgentKeyRotated"
| "agent_factory AgentRename = K_AgentRenamed"
| "agent_factory AgentRevoke = K_RuntimeStatusChanged"
| "agent_factory AgentDelete = K_AgentDeleted"
| "agent_factory AgentElevateKey = K_AgentElevatedKeyRegistered"

fun task_factory :: "task_event \<Rightarrow> payload_kind" where
  "task_factory TaskCreate = K_TaskCreated"
| "task_factory TaskOffer = K_TaskOffered"
| "task_factory TaskClaim = K_TaskClaimed"
| "task_factory TaskRenew = K_TaskRenewed"
| "task_factory TaskHandOver = K_TaskHandoff"
| "task_factory TaskStart = K_TaskStatus"
| "task_factory TaskBlock = K_TaskStatus"
| "task_factory TaskReview = K_TaskStatus"
| "task_factory TaskComplete = K_TaskStatus"
| "task_factory TaskCancel = K_TaskStatus"
| "task_factory TaskHandoffAccept = K_TaskStatus"
| "task_factory TaskTakeover = K_TaskStatus"

fun invocation_factory :: "invocation_event \<Rightarrow> payload_kind" where
  "invocation_factory InvRequest = K_InvocationRequested"
| "invocation_factory InvDeliveryAttempt = K_InvocationDeliveryAttempted"
| "invocation_factory InvNotify = K_InvocationNotified"
| "invocation_factory InvClaim = K_InvocationClaimed"
| "invocation_factory InvStart = K_InvocationProgress"
| "invocation_factory InvWait = K_InvocationWaiting"
| "invocation_factory InvResume = K_InvocationProgress"
| "invocation_factory InvComplete = K_InvocationCompleted"
| "invocation_factory InvReject = K_InvocationRejected"
| "invocation_factory InvExpire = K_InvocationRejected"
| "invocation_factory InvCancel = K_InvocationRejected"
| "invocation_factory InvDeliveryFailed = K_InvocationDeliveryFailed"
| "invocation_factory InvPolicyUpdate = K_InvocationPolicyUpdated"

fun runtime_factory :: "runtime_event \<Rightarrow> payload_kind" where
  "runtime_factory RtRegister = K_RuntimeRegistered"
| "runtime_factory RtConfigure = K_RuntimeConfigured"
| "runtime_factory RtHeartbeat = K_RuntimeHeartbeat"
| "runtime_factory RtOffline = K_RuntimeStatusChanged"
| "runtime_factory RtDrain = K_RuntimeStatusChanged"
| "runtime_factory RtResume = K_RuntimeStatusChanged"
| "runtime_factory RtRevoke = K_RuntimeStatusChanged"
| "runtime_factory RtDelete = K_RuntimeStatusChanged"

fun factory :: "event_type \<Rightarrow> payload_kind" where
  "factory (Agent_ev e) = agent_factory e"
| "factory (Task_ev e) = task_factory e"
| "factory (Message_ev e) = (if e = MessagePost then K_MessagePosted else K_MessageResponse)"
| "factory (Invocation_ev e) = invocation_factory e"
| "factory (Runtime_ev e) = runtime_factory e"
| "factory SettingsUpdate = K_ProjectSettingsUpdated"
| "factory (Provider_ev ProviderRegister) = K_ProviderRegistered"
| "factory (Provider_ev ProviderRetire) = K_ProviderRetired"
| "factory (Approval_ev e) =
     (if e = ApprovalRequest then K_ApprovalRequested else K_ApprovalResponse)"
| "factory (Decision_ev e) = K_DecisionPayload"
| "factory ArtifactAdd = K_ArtifactAdded"
| "factory ArchiveRunEv = K_ArchiveRun"
| "factory (Document_ev e) = K_DocumentPayload"
| "factory (Env_ev EnvSet) = K_EnvSetPayload"
| "factory (Env_ev EnvDelete) = K_EnvDeletePayload"

definition payload_ok :: "event_type \<Rightarrow> payload \<Rightarrow> bool" where
  "payload_ok t p = (kind_of p = factory t)"

subsection \<open>The type table\<close>

lemma all_event_types_complete: "t \<in> set all_event_types"
proof (cases t)
  case (Agent_ev e)
  then show ?thesis by (cases e) (simp_all add: all_event_types_def)
next
  case (Task_ev e)
  then show ?thesis by (cases e) (simp_all add: all_event_types_def)
next
  case (Message_ev e)
  then show ?thesis by (cases e) (simp_all add: all_event_types_def)
next
  case (Invocation_ev e)
  then show ?thesis by (cases e) (simp_all add: all_event_types_def)
next
  case (Runtime_ev e)
  then show ?thesis by (cases e) (simp_all add: all_event_types_def)
next
  case (Provider_ev e)
  then show ?thesis by (cases e) (simp_all add: all_event_types_def)
next
  case (Approval_ev e)
  then show ?thesis by (cases e) (simp_all add: all_event_types_def)
next
  case (Decision_ev e)
  then show ?thesis by (cases e) (simp_all add: all_event_types_def)
next
  case (Document_ev e)
  then show ?thesis by (cases e) (simp_all add: all_event_types_def)
next
  case (Env_ev e)
  then show ?thesis by (cases e) (simp_all add: all_event_types_def)
qed (simp_all add: all_event_types_def)

lemma type_names_distinct: "distinct (List.map type_name all_event_types)"
  by (simp add: all_event_types_def)

lemma type_name_inj: "type_name t = type_name u \<Longrightarrow> t = u"
  by (metis type_names_distinct all_event_types_complete distinct_map inj_onD)

text \<open>
  The type table is a bijection: every event type is found again under its own name, so a
  stored event is decoded with the struct it was encoded from and never with another one.
\<close>

theorem parse_type_name: "parse_type (type_name t) = Some t"
proof -
  have "List.find (\<lambda>u. type_name u = type_name t) all_event_types \<noteq> None"
    using all_event_types_complete by (auto simp: find_None_iff)
  then obtain u where u: "List.find (\<lambda>u. type_name u = type_name t) all_event_types = Some u"
    by blast
  then have "type_name u = type_name t"
    by (auto simp: find_Some_iff)
  then show ?thesis using u type_name_inj by (simp add: parse_type_def)
qed

lemma parse_type_Some: "parse_type s = Some t \<longleftrightarrow> s = type_name t"
proof
  assume "parse_type s = Some t"
  then show "s = type_name t" by (auto simp: parse_type_def find_Some_iff)
qed (simp add: parse_type_name)

text \<open>The groups are the prefixes the code tests with \<open>strings.HasPrefix\<close>.\<close>

lemma task_prefix: "has_prefix (type_name t) ''task.'' \<longleftrightarrow> (\<exists>e. t = Task_ev e)"
  by (cases t rule: type_name.cases) simp_all

lemma invocation_prefix: "has_prefix (type_name t) ''invocation.'' \<longleftrightarrow> (\<exists>e. t = Invocation_ev e)"
  by (cases t rule: type_name.cases) simp_all

lemma runtime_prefix: "has_prefix (type_name t) ''runtime.'' \<longleftrightarrow> (\<exists>e. t = Runtime_ev e)"
  by (cases t rule: type_name.cases) simp_all

lemma document_prefix: "has_prefix (type_name t) ''document.'' \<longleftrightarrow> (\<exists>e. t = Document_ev e)"
  by (cases t rule: type_name.cases) simp_all

lemma env_prefix: "has_prefix (type_name t) ''env.'' \<longleftrightarrow> (\<exists>e. t = Env_ev e)"
  by (cases t rule: type_name.cases) simp_all

lemma agent_prefix: "has_prefix (type_name t) ''agent.'' \<longleftrightarrow> (\<exists>e. t = Agent_ev e)"
  by (cases t rule: type_name.cases) simp_all

end
