(* ===== verification/Providers.thy ===== *)
theory Providers
  imports Payloads "HOL-Library.Product_Lexorder"
begin

text \<open>
  \<open>internal/model/provider.go\<close>: the provider sets a project accepts, the grammar of agent actor
  ids and provider names, the default id of a new agent and the provider listing. A
  \<open>ProviderSet\<close> is the list of its names, in the order a \<open>range\<close> over the Go map visits them.
\<close>

definition builtInProviders :: "string list" where
  "builtInProviders = [''claude'', ''codex'', ''opencode'']"

abbreviation MaxProviderDisplayName :: nat where "MaxProviderDisplayName \<equiv> 64"
abbreviation MaxProviderDescription :: nat where "MaxProviderDescription \<equiv> 512"
abbreviation MaxProviderRetireReason :: nat where "MaxProviderRetireReason \<equiv> 512"

definition providerName :: "string \<Rightarrow> bool" where
  "providerName s =
     (case s of [] \<Rightarrow> False
      | c # cs \<Rightarrow> is_lower c \<and> list_all (\<lambda>x. is_lower x \<or> is_digit x) cs \<and>
                 1 \<le> length cs \<and> length cs \<le> 23)"

definition reservedProviderNames :: "string list" where
  "reservedProviderNames =
     [''agent'', ''human'', ''system'', ''owner'', ''orchestrator'', ''observer'', ''worker'', ''agc'',
      ''agentcomms'', ''unknown'', ''none'', ''all'']"

type_synonym provider_set = "string list"

definition NewProviderSet :: "string list \<Rightarrow> provider_set" where
  "NewProviderSet extra =
     remdups (builtInProviders @ List.map (\<lambda>n. to_lower (trim_space n)) extra)"

definition BuiltInProviders :: provider_set where
  "BuiltInProviders = NewProviderSet []"

definition RegistrableProviders :: "state \<Rightarrow> provider_set" where
  "RegistrableProviders st =
     NewProviderSet (List.map fst
       (List.filter (\<lambda>(n, p). pv_status p = ProviderStatusActive) (m_entries (st_providers st))))"

definition RecognizedProviders :: "state \<Rightarrow> provider_set" where
  "RecognizedProviders st = NewProviderSet (List.map fst (m_entries (st_providers st)))"

definition provider_names :: "provider_set \<Rightarrow> string list" where
  "provider_names p = sort p"

definition provider_has :: "provider_set \<Rightarrow> string \<Rightarrow> bool" where
  "provider_has p name = (to_lower (trim_space name) \<in> set p)"

definition IsBuiltInProvider :: "string \<Rightarrow> bool" where
  "IsBuiltInProvider name = (to_lower (trim_space name) \<in> set builtInProviders)"

definition actorSuffix :: "string \<Rightarrow> bool" where
  "actorSuffix s =
     (case s of [] \<Rightarrow> False
      | c # cs \<Rightarrow> (is_lower c \<or> is_digit c) \<and>
                 list_all (\<lambda>x. is_lower x \<or> is_digit x \<or> x = CHR ''-'') cs)"

definition longest_body :: "string \<Rightarrow> string \<Rightarrow> string \<Rightarrow> string" where
  "longest_body actorID provider best =
     (if has_prefix actorID (provider @ ''-'') \<and> length best < length provider
      then provider else best)"

definition ProviderOf :: "provider_set \<Rightarrow> string \<Rightarrow> string option" where
  "ProviderOf p actorID =
     (if actorID = [] \<or> actorID \<noteq> to_lower actorID then None
      else if actorID \<in> set p then Some actorID
      else let best = fold (longest_body actorID) p [] in
        if best = [] then None
        else if \<not> actorSuffix (drop (length best + 1) actorID) then None
        else Some best)"

definition defaultSuggestionProvider :: string where
  "defaultSuggestionProvider = ''claude''"

definition suggestedActorID :: "provider_set \<Rightarrow> string \<Rightarrow> string option" where
  "suggestedActorID p actorID =
     (let candidate = to_lower (trim_space actorID) in
      if candidate = [] then None
      else if ProviderOf p candidate \<noteq> None then Some candidate
      else if list_ex (\<lambda>v. candidate = v \<or> has_prefix candidate (v @ ''-'')) p then None
      else if \<not> actorSuffix candidate then None
      else let suggestion = defaultSuggestionProvider @ ''-'' @ candidate in
        if ProviderOf p suggestion = None then None else Some suggestion)"

definition ValidateAgentActorID :: "provider_set \<Rightarrow> string \<Rightarrow> err option" where
  "ValidateAgentActorID p actorID =
     (case ProviderOf p actorID of Some _ \<Rightarrow> None
      | None \<Rightarrow>
        let providers = join_with '', '' (provider_names p) in
        (case suggestedActorID p actorID of
           Some suggestion \<Rightarrow> Some (Err (''agent ID '' @ quoted actorID @
             '' must name its provider: try '' @ quoted suggestion @ ''. Known providers: '' @
             providers))
         | None \<Rightarrow> Some (Err (''agent ID '' @ quoted actorID @
             '' must name its provider: use <provider> or <provider>-<suffix>, where <suffix> is '' @
             ''lower-case letters, digits and hyphens. Known providers: '' @ providers))))"

definition ValidateProviderName :: "string \<Rightarrow> err option" where
  "ValidateProviderName name =
     (if IsBuiltInProvider name then
        Some (Err (quoted name @ '' is a built-in provider and is always accepted''))
      else if \<not> providerName name then
        Some (Err (''provider name '' @ quoted name @
          '' must be 2-24 lower-case letters and digits, starting with a letter (no hyphens)''))
      else if name \<in> set reservedProviderNames then
        Some (Err (''provider name '' @ quoted name @ '' is reserved''))
      else None)"

definition ValidateProviderText :: "string \<Rightarrow> string \<Rightarrow> nat \<Rightarrow> err option" where
  "ValidateProviderText fld value limit =
     (if rune_count value > limit then
        Some (Err (''provider '' @ fld @ '' must be at most '' @ dec_digits limit @ '' characters''))
      else if has_control value then
        Some (Err (''provider '' @ fld @ '' must not contain control characters''))
      else None)"

text \<open>
  \<open>DefaultAgentActorID\<close> counts upwards until an id is free. The loop has no bound of its own, so
  it is a partial function: \<open>None\<close> is a search that never ends.
\<close>

definition numbered_id :: "string \<Rightarrow> nat \<Rightarrow> string" where
  "numbered_id provider n = provider @ ''-'' @ dec_digits n"

partial_function (option) first_free :: "string \<Rightarrow> (string \<Rightarrow> bool) \<Rightarrow> nat \<Rightarrow> string option" where
  "first_free provider taken n =
     (if \<not> taken (numbered_id provider n) then Some (numbered_id provider n)
      else first_free provider taken (n + 1))"

definition DefaultAgentActorID :: "string \<Rightarrow> (string \<Rightarrow> bool) \<Rightarrow> string option" where
  "DefaultAgentActorID name taken =
     (let provider = to_lower (trim_space name) in
      if \<not> taken provider then Some provider else first_free provider taken 2)"

record provider_listing =
  pl_provider :: provider
  pl_built_in :: bool
  pl_active_agents :: "string list"

definition listing_of :: "state \<Rightarrow> provider_set \<Rightarrow> string \<Rightarrow> provider_listing" where
  "listing_of st recognized name =
     (let stored = (m_read zero_provider (st_providers st) name)\<lparr>pv_name := name\<rparr>;
          builtin = IsBuiltInProvider name
      in \<lparr>pl_provider = (if builtin then stored\<lparr>pv_status := ProviderStatusActive\<rparr> else stored),
          pl_built_in = builtin,
          pl_active_agents =
            sort (List.map fst (List.filter (\<lambda>(id, a).
              \<not> (ag_principal_type a \<noteq> PrincipalAgent \<or> ag_status a \<noteq> ''ACTIVE'') \<and>
              ProviderOf recognized id = Some name) (m_entries (st_agents st))))\<rparr>)"

definition ProviderListings :: "state \<Rightarrow> (string \<times> provider_listing) list \<times> string list" where
  "ProviderListings st =
     (let recognized = RecognizedProviders st;
          names = provider_names recognized;
          listings = List.map (\<lambda>n. (n, listing_of st recognized n)) names;
          order = sort_key (\<lambda>n. (\<not> IsBuiltInProvider n, n)) names
      in (listings, order))"

subsection \<open>Reading an agent id\<close>

text \<open>
  Two providers that both prefix an id with their hyphen and have the same length are the same
  name, so the longest match does not depend on the order of the loop.
\<close>

lemma longest_body_commute:
  "longest_body a x (longest_body a y best) = longest_body a y (longest_body a x best)"
proof -
  define P where "P z \<longleftrightarrow> prefix (z @ ''-'') a" for z
  have same: "x = y" if "P x" "P y" "length x = length y"
  proof -
    from that(1) have "take (length x) a = x" by (auto simp: P_def prefix_def)
    moreover from that(2) have "take (length y) a = y" by (auto simp: P_def prefix_def)
    ultimately show ?thesis using that(3) by metis
  qed
  have body: "longest_body a z b = (if P z \<and> length b < length z then z else b)" for z b
    by (simp only: longest_body_def P_def)
  show ?thesis
  proof (cases "P x \<and> P y \<and> length x = length y")
    case True
    then show ?thesis using same by simp
  next
    case False
    then show ?thesis unfolding body by (simp split: if_split) linarith
  qed
qed

interpretation longest: any_order "longest_body a" "\<lambda>_. True" for a
  by unfold_locales (rule longest_body_commute)

lemma ProviderOf_any_order: "mset p = mset q \<Longrightarrow> ProviderOf p a = ProviderOf q a"
  unfolding ProviderOf_def using longest.fold_any_order [of p q a "[]"]
  by (simp add: Let_def) (metis set_mset_mset)

lemma fold_longest_mem:
  "fold (longest_body a) p best \<noteq> best \<Longrightarrow>
   fold (longest_body a) p best \<in> set p \<and> prefix (fold (longest_body a) p best @ ''-'') a"
proof (induction p arbitrary: best)
  case (Cons x p)
  show ?case
  proof (cases "longest_body a x best = best")
    case True
    with Cons show ?thesis by auto
  next
    case False
    then have x: "longest_body a x best = x" "prefix (x @ ''-'') a"
      by (auto simp: longest_body_def split: if_splits)
    show ?thesis
    proof (cases "fold (longest_body a) p x = x")
      case True
      with x show ?thesis by simp
    next
      case False
      with Cons.IH [of x] x show ?thesis by auto
    qed
  qed
qed simp

lemma fold_longest_length: "length best \<le> length (fold (longest_body a) p best)"
proof (induction p arbitrary: best)
  case (Cons x p)
  have "length best \<le> length (longest_body a x best)"
    by (simp add: longest_body_def)
  also have "\<dots> \<le> length (fold (longest_body a) p (longest_body a x best))"
    by (rule Cons.IH)
  finally show ?case by simp
qed simp

lemma fold_longest_max:
  "x \<in> set p \<Longrightarrow> prefix (x @ ''-'') a \<Longrightarrow> length x \<le> length (fold (longest_body a) p best)"
proof (induction p arbitrary: best)
  case (Cons y p)
  show ?case
  proof (cases "x = y")
    case True
    have "length x \<le> length (longest_body a x best)"
      using Cons.prems(2) by (auto simp: longest_body_def)
    also have "\<dots> \<le> length (fold (longest_body a) p (longest_body a x best))"
      by (rule fold_longest_length)
    finally show ?thesis using True by simp
  next
    case False
    with Cons show ?thesis by simp
  qed
qed simp

lemma ProviderOf_SomeD:
  assumes "ProviderOf p a = Some v"
  shows "v \<in> set p" "a = to_lower a"
    "a = v \<or> (\<exists>suffix. a = v @ ''-'' @ suffix \<and> actorSuffix suffix)"
proof -
  from assms have low: "a = to_lower a"
    by (auto simp: ProviderOf_def split: if_splits)
  show "a = to_lower a" by (rule low)
  show "v \<in> set p" "a = v \<or> (\<exists>suffix. a = v @ ''-'' @ suffix \<and> actorSuffix suffix)"
  proof (atomize (full), cases "a \<in> set p")
    case True
    with assms show "v \<in> set p \<and> (a = v \<or> (\<exists>suffix. a = v @ ''-'' @ suffix \<and> actorSuffix suffix))"
      by (auto simp: ProviderOf_def split: if_splits)
  next
    case False
    with assms have v: "v = fold (longest_body a) p []" "v \<noteq> []"
      and sfx: "actorSuffix (drop (length v + 1) a)"
      by (auto simp: ProviderOf_def Let_def split: if_splits)
    then have mem: "v \<in> set p" "prefix (v @ ''-'') a"
      using fold_longest_mem [of a p "[]"] by auto
    then obtain s where "a = (v @ ''-'') @ s" by (auto simp: prefix_def)
    with sfx mem show "v \<in> set p \<and> (a = v \<or> (\<exists>suffix. a = v @ ''-'' @ suffix \<and> actorSuffix suffix))"
      by auto
  qed
qed


subsection \<open>Which ids a provider set accepts\<close>

lemma suffix_char_low: "is_lower c \<or> is_digit c \<or> c = CHR ''-'' \<Longrightarrow> low_char c = c"
  by (auto simp: low_char_def is_lower_def is_digit_def Let_def)

lemma actorSuffix_low: "actorSuffix s \<Longrightarrow> to_lower s = s"
  by (auto simp: actorSuffix_def to_lower_def list_all_iff suffix_char_low intro!: map_idI
      split: list.splits)

definition plain_names :: "provider_set \<Rightarrow> bool" where
  "plain_names p \<longleftrightarrow> (\<forall>v\<in>set p. v \<noteq> [] \<and> CHR ''-'' \<notin> set v \<and> to_lower v = v)"

lemma hyphen_prefix_unique:
  "prefix (w @ ''-'') (v @ ''-'' @ s) \<Longrightarrow> CHR ''-'' \<notin> set w \<Longrightarrow> CHR ''-'' \<notin> set v \<Longrightarrow> w = v"
proof -
  assume "prefix (w @ ''-'') (v @ ''-'' @ s)" and w: "CHR ''-'' \<notin> set w" and v: "CHR ''-'' \<notin> set v"
  then obtain t where "v @ CHR ''-'' # s = w @ CHR ''-'' # t"
    by (auto simp: prefix_def)
  then have "fst (cut_at CHR ''-'' (v @ CHR ''-'' # s)) = fst (cut_at CHR ''-'' (w @ CHR ''-'' # t))"
    by simp
  then show "w = v" by (simp add: cut_at_prefix [OF v] cut_at_prefix [OF w])
qed

lemma ProviderOf_hyphenated:
  assumes p: "plain_names p" and v: "v \<in> set p" and s: "actorSuffix s"
  shows "ProviderOf p (v @ ''-'' @ s) = Some v"
proof -
  let ?a = "v @ ''-'' @ s"
  let ?best = "fold (longest_body ?a) p []"
  from p v have vp: "v \<noteq> []" "CHR ''-'' \<notin> set v" "to_lower v = v"
    by (auto simp: plain_names_def)
  have low: "to_lower ?a = ?a"
    using vp(3) actorSuffix_low [OF s] by (simp add: to_lower_def low_char_def)
  have a: "?a \<noteq> []" by simp
  have new: "?a \<notin> set p"
    using p by (auto simp: plain_names_def)
  have "length v \<le> length ?best"
    by (rule fold_longest_max [OF v]) (simp add: prefix_def)
  with vp(1) have ne: "?best \<noteq> []" by auto
  then have "?best \<in> set p" "prefix (?best @ ''-'') ?a"
    using fold_longest_mem [of ?a p "[]"] by auto
  then have "?best = v"
    using hyphen_prefix_unique [of ?best v s] p vp(2) by (auto simp: plain_names_def)
  moreover have "drop (length v + 1) ?a = s" by simp
  ultimately show ?thesis
    using ne new low a s unfolding ProviderOf_def Let_def by metis
qed

text \<open>
  With hyphen-free lower-case provider names (which the name grammar enforces) an id is a
  valid agent id exactly if it is a provider of the set, or a provider, a hyphen and a suffix of
  lower-case letters, digits and hyphens.
\<close>

theorem agent_id_grammar:
  assumes "plain_names p"
  shows "ValidateAgentActorID p a = None \<longleftrightarrow>
    (\<exists>v\<in>set p. a = v \<or> (\<exists>s. a = v @ ''-'' @ s \<and> actorSuffix s))"
proof -
  have "ValidateAgentActorID p a = None \<longleftrightarrow> ProviderOf p a \<noteq> None"
    by (auto simp: ValidateAgentActorID_def Let_def split: option.splits)
  also have "\<dots> \<longleftrightarrow> (\<exists>v\<in>set p. a = v \<or> (\<exists>s. a = v @ ''-'' @ s \<and> actorSuffix s))"
  proof
    assume "ProviderOf p a \<noteq> None"
    then obtain v where v: "ProviderOf p a = Some v" by blast
    show "\<exists>v\<in>set p. a = v \<or> (\<exists>s. a = v @ ''-'' @ s \<and> actorSuffix s)"
      by (rule bexI) (rule ProviderOf_SomeD(3) [OF v], rule ProviderOf_SomeD(1) [OF v])
  next
    assume "\<exists>v\<in>set p. a = v \<or> (\<exists>s. a = v @ ''-'' @ s \<and> actorSuffix s)"
    then obtain v where v: "v \<in> set p" "a = v \<or> (\<exists>s. a = v @ ''-'' @ s \<and> actorSuffix s)"
      by blast
    from v(1) assms have w: "v \<noteq> []" "to_lower v = v" by (auto simp: plain_names_def)
    from v(2) show "ProviderOf p a \<noteq> None"
    proof
      assume "a = v"
      then show ?thesis using v(1) w by (simp add: ProviderOf_def)
    next
      assume "\<exists>s. a = v @ ''-'' @ s \<and> actorSuffix s"
      then show ?thesis using ProviderOf_hyphenated [OF assms v(1)] by blast
    qed
  qed
  finally show ?thesis .
qed

theorem agent_id_grammar_witness:
  "plain_names BuiltInProviders \<and>
   ValidateAgentActorID BuiltInProviders ''claude-reviewer-2'' = None \<and>
   ValidateAgentActorID BuiltInProviders ''reviewer'' \<noteq> None"
proof -
  have p: "plain_names BuiltInProviders"
    by (simp add: plain_names_def BuiltInProviders_def NewProviderSet_def builtInProviders_def
        to_lower_def low_char_def)
  have "actorSuffix ''reviewer-2''"
    by (simp add: actorSuffix_def is_lower_def is_digit_def)
  then have "ValidateAgentActorID BuiltInProviders ''claude-reviewer-2'' = None"
    using agent_id_grammar [OF p, of "''claude-reviewer-2''"]
    by (auto simp: BuiltInProviders_def NewProviderSet_def builtInProviders_def)
  moreover have "ValidateAgentActorID BuiltInProviders ''reviewer'' \<noteq> None"
    using agent_id_grammar [OF p, of "''reviewer''"]
    by (auto simp: BuiltInProviders_def NewProviderSet_def builtInProviders_def)
  ultimately show ?thesis using p by blast
qed

text \<open>
  The id an error message suggests is always one the validator accepts, so following the
  suggestion never runs into the same error again.
\<close>

theorem suggestion_is_valid:
  assumes "suggestedActorID p a = Some s"
  shows "ValidateAgentActorID p s = None"
proof -
  from assms have "ProviderOf p s \<noteq> None"
    by (auto simp: suggestedActorID_def Let_def split: if_splits)
  then show ?thesis by (auto simp: ValidateAgentActorID_def)
qed

theorem suggestion_is_valid_witness:
  "suggestedActorID [''claude'', ''codex''] ''Reviewer'' = Some ''claude-reviewer'' \<and>
   ValidateAgentActorID [''claude'', ''codex''] ''claude-reviewer'' = None"
proof -
  have "suggestedActorID [''claude'', ''codex''] ''Reviewer'' = Some ''claude-reviewer''"
    by (simp add: suggestedActorID_def ProviderOf_def to_lower_def trim_space_def is_space_def
        low_char_def longest_body_def actorSuffix_def is_lower_def is_digit_def
        defaultSuggestionProvider_def char_of_def bit_0 Let_def)
  from suggestion_is_valid [OF this] this show ?thesis by blast
qed

subsection \<open>Registering a provider does not rename anybody\<close>

lemma fold_longest_skip:
  "\<not> prefix (n @ ''-'') a \<Longrightarrow>
   fold (longest_body a) (List.filter (\<lambda>x. x \<noteq> n) p) best = fold (longest_body a) p best"
  by (induction p arbitrary: best) (auto simp: longest_body_def)

lemma ProviderOf_skip:
  assumes "a \<noteq> n" "\<not> prefix (n @ ''-'') a"
  shows "ProviderOf (List.filter (\<lambda>x. x \<noteq> n) p) a = ProviderOf p a"
  using assms by (simp add: ProviderOf_def fold_longest_skip)

lemma ProviderOf_set_cong:
  assumes "distinct p" "distinct q" "set p = set q"
  shows "ProviderOf p a = ProviderOf q a"
  using assms by (intro ProviderOf_any_order) (simp add: set_eq_iff_mset_eq_distinct)

text \<open>
  RFC 0050's rule for a new provider name: when it is neither the id of an existing principal
  nor a prefix of one followed by a hyphen (the collision check of \<open>provider.register\<close>), adding it
  to the accepted names leaves the provider of every such id as it was.
\<close>

theorem new_provider_keeps_readings:
  assumes "a \<noteq> to_lower (trim_space n)" "\<not> has_prefix a (to_lower (trim_space n) @ ''-'')"
  shows "ProviderOf (NewProviderSet (n # names)) a = ProviderOf (NewProviderSet names) a"
proof -
  let ?n = "to_lower (trim_space n)"
  let ?drop = "List.filter (\<lambda>x. x \<noteq> ?n)"
  have "ProviderOf (?drop (NewProviderSet (n # names))) a = ProviderOf (?drop (NewProviderSet names)) a"
    by (rule ProviderOf_set_cong) (auto simp: NewProviderSet_def)
  then show ?thesis by (simp add: ProviderOf_skip [OF assms])
qed

theorem new_provider_keeps_readings_witness:
  "ProviderOf (NewProviderSet [''gemini'']) ''claude-main'' = Some ''claude'' \<and>
   ProviderOf (NewProviderSet []) ''claude-main'' = Some ''claude''"
proof -
  have n: "to_lower (trim_space ''gemini'') = ''gemini''"
    by (simp add: to_lower_def trim_space_def is_space_def low_char_def)
  have "ProviderOf (NewProviderSet []) ''claude-main'' = Some ''claude''"
    by (simp add: ProviderOf_def NewProviderSet_def builtInProviders_def to_lower_def low_char_def
        longest_body_def actorSuffix_def is_lower_def is_digit_def Let_def)
  then show ?thesis
    using new_provider_keeps_readings [of "''claude-main''" "''gemini''" "[]"] by (simp add: n)
qed

subsection \<open>The default id of a new agent\<close>

definition dec_val :: "string \<Rightarrow> nat" where
  "dec_val s = foldl (\<lambda>acc c. 10 * acc + digit_val c) 0 s"

lemma digit_val_char [simp]: "d < 10 \<Longrightarrow> digit_val (char_of (48 + d)) = d"
  by (simp add: digit_val_def of_char_of)

lemma dec_val_digits: "dec_val (dec_digits n) = n"
proof (induction n rule: dec_digits.induct)
  case (1 n)
  show ?case
  proof (cases "n < 10")
    case True
    then show ?thesis by (subst dec_digits.simps) (simp add: dec_val_def)
  next
    case False
    then have "dec_val (dec_digits n) = 10 * dec_val (dec_digits (n div 10)) + n mod 10"
      by (subst dec_digits.simps) (simp add: dec_val_def)
    then show ?thesis using 1 [OF False] by simp
  qed
qed

lemma numbered_id_inj: "numbered_id p m = numbered_id p n \<Longrightarrow> m = n"
  by (metis append_Cons append_Nil dec_val_digits list.inject numbered_id_def same_append_eq)

lemma first_free_returns:
  "n \<le> m \<Longrightarrow> \<not> taken (numbered_id p m) \<Longrightarrow>
   \<exists>k. n \<le> k \<and> first_free p taken n = Some (numbered_id p k) \<and> \<not> taken (numbered_id p k)"
proof (induction n rule: inc_induct)
  case base
  then show ?case by (auto simp: first_free.simps [of p taken m])
next
  case (step n)
  show ?case
  proof (cases "taken (numbered_id p n)")
    case False
    then show ?thesis by (auto simp: first_free.simps [of p taken n])
  next
    case True
    then have "first_free p taken n = first_free p taken (Suc n)"
      by (simp add: first_free.simps [of p taken n])
    with step show ?thesis by (metis Suc_leD)
  qed
qed

lemma some_number_free: "finite {x. taken x} \<Longrightarrow> \<exists>m\<ge>2. \<not> taken (numbered_id p m)"
proof (rule ccontr)
  assume fin: "finite {x. taken x}" and "\<not> (\<exists>m\<ge>2. \<not> taken (numbered_id p m))"
  then have "numbered_id p ` {2..} \<subseteq> {x. taken x}" by auto
  with fin have "finite (numbered_id p ` {2..})" by (rule rev_finite_subset)
  moreover have "inj_on (numbered_id p) {2..}" by (rule inj_onI) (rule numbered_id_inj)
  ultimately show False by (simp add: finite_image_iff infinite_Ici)
qed

text \<open>
  Picking a default agent id ends whenever finitely many ids are in use, and what it returns is
  free: the provider itself, or the provider with a number from 2 on.
\<close>

theorem default_id_terminates:
  assumes "finite {x. taken x}"
  shows "\<exists>r. DefaultAgentActorID name taken = Some r \<and> \<not> taken r \<and>
    (r = to_lower (trim_space name) \<or>
     (\<exists>k\<ge>2. r = numbered_id (to_lower (trim_space name)) k))"
proof (cases "taken (to_lower (trim_space name))")
  case False
  then show ?thesis by (simp add: DefaultAgentActorID_def)
next
  case True
  let ?p = "to_lower (trim_space name)"
  obtain m where "2 \<le> m" "\<not> taken (numbered_id ?p m)"
    using some_number_free [OF assms] by blast
  then obtain k where "2 \<le> k" "first_free ?p taken 2 = Some (numbered_id ?p k)"
    "\<not> taken (numbered_id ?p k)"
    using first_free_returns by blast
  with True show ?thesis by (auto simp: DefaultAgentActorID_def)
qed

theorem default_id_terminates_witness:
  "finite {x. x \<in> {''claude'', ''claude-2''}} \<and>
   (\<exists>r. DefaultAgentActorID ''Claude'' (\<lambda>x. x \<in> {''claude'', ''claude-2''}) = Some r \<and>
        r \<notin> {''claude'', ''claude-2''})"
proof -
  have fin: "finite {x. x \<in> {''claude'', ''claude-2''}}" by simp
  show ?thesis using fin default_id_terminates [OF fin, of "''Claude''"] by blast
qed

end
