(* ===== verification/Reading.thy ===== *)
theory Reading
  imports Providers
begin

text \<open>
  Reading the state: the signed-event order of entities and the inbox
  (\<open>internal/model/order.go\<close>), and the resolution of a typed reference to a principal
  (\<open>internal/model/resolve.go\<close>).
\<close>

definition order_key :: "'v gmap \<Rightarrow> ('v \<Rightarrow> nat) \<Rightarrow> string \<Rightarrow> int \<times> string" where
  "order_key values sequence k =
     (case m_get values k of None \<Rightarrow> (0, k) | Some v \<Rightarrow> (- int (sequence v), k))"

definition SortedIDsBySequence :: "'v gmap \<Rightarrow> ('v \<Rightarrow> nat) \<Rightarrow> string list" where
  "SortedIDsBySequence values sequence =
     sort_key (order_key values sequence) (List.map fst (m_entries values))"

record inbox_options =
  io_unread :: bool
  io_from :: string
  io_limit :: int

definition addressed_to :: "string \<Rightarrow> message \<Rightarrow> bool" where
  "addressed_to actor m = list_ex (\<lambda>to. to = actor) (ms_to m)"

definition pending_for :: "string \<Rightarrow> message \<Rightarrow> bool" where
  "pending_for actor m =
     list_ex (\<lambda>r. rs_principal r = actor \<and> rs_status r = ''PENDING'') (ms_recipients m)"

definition inbox_keeps :: "string \<Rightarrow> inbox_options \<Rightarrow> message \<Rightarrow> bool" where
  "inbox_keeps actor options m =
     (if \<not> addressed_to actor m then False
      else if io_unread options \<and> \<not> pending_for actor m then False
      else if io_from options \<noteq> [] \<and> ms_from m \<noteq> io_from options then False
      else True)"

definition Inbox :: "state \<Rightarrow> string \<Rightarrow> inbox_options \<Rightarrow> message gmap \<times> string list \<times> bool" where
  "Inbox st actor options =
     (let addressed = list_ex (\<lambda>(id, m). addressed_to actor m) (m_entries (st_messages st));
          messages = DAList.filter (\<lambda>(id, m). inbox_keeps actor options m) (st_messages st);
          order = SortedIDsBySequence messages ms_created_sequence
      in if io_limit options > 0 \<and> int (length order) > io_limit options
         then let order = take (nat (io_limit options)) order
              in (DAList.filter (\<lambda>(id, m). id \<in> set order) messages, order, addressed)
         else (messages, order, addressed))"

text \<open>
  \<open>ResolvePrincipal\<close> answers with an id, or with one of its three errors; \<open>Ambiguous\<close> is the typed
  \<open>AmbiguousPrincipalError\<close> with its candidates.
\<close>

datatype resolve_error = PrincipalRequired | NoPrincipal string | Ambiguous string "string list"

definition display_matches :: "agent gmap \<Rightarrow> string \<Rightarrow> string list" where
  "display_matches agents reference =
     sort (List.map fst (List.filter
       (\<lambda>(id, a). equal_fold (trim_space (ag_display_name a)) reference) (m_entries agents)))"

definition ResolvePrincipal :: "agent gmap \<Rightarrow> string \<Rightarrow> resolve_error + string" where
  "ResolvePrincipal agents ref0 =
     (let reference = trim_space ref0 in
      if reference = [] then Inl PrincipalRequired
      else if m_has agents reference then Inr reference
      else case display_matches agents reference of
          [x] \<Rightarrow> Inr x
        | [] \<Rightarrow> Inl (NoPrincipal reference)
        | xs \<Rightarrow> Inl (Ambiguous reference xs))"

subsection \<open>The order is a function of the content\<close>

lemma keys_eq: "(\<And>k. m_get m k = m_get m' k) \<Longrightarrow>
  mset (List.map fst (m_entries m)) = mset (List.map fst (m_entries m'))"
proof -
  assume "\<And>k. m_get m k = m_get m' k"
  then have "map_of (m_entries m) = map_of (m_entries m')"
    by (auto simp: m_get_entries fun_eq_iff)
  then have "set (List.map fst (m_entries m)) = set (List.map fst (m_entries m'))"
    by (metis dom_map_of_conv_image_fst list.set_map)
  then show ?thesis
    using set_eq_iff_mset_eq_distinct [OF DAList.impl_of_distinct DAList.impl_of_distinct]
    by blast
qed

lemma order_key_inj: "inj (order_key m f)"
  by (rule injI) (auto simp: order_key_def split: option.splits)

text \<open>
  Listing entities by signed sequence gives one list, whatever order Go visits the map in: two
  maps with the same content are listed alike.
\<close>

theorem sorted_ids_any_order:
  assumes "\<And>k. m_get m k = m_get m' k"
  shows "SortedIDsBySequence m f = SortedIDsBySequence m' f"
proof -
  have key: "order_key m f = order_key m' f"
    using assms by (simp add: order_key_def fun_eq_iff)
  have "sort_key (order_key m f) (List.map fst (m_entries m)) =
      sort_key (order_key m f) (List.map fst (m_entries m'))"
  proof (rule properties_for_sort_key)
    show "mset (sort_key (order_key m f) (List.map fst (m_entries m'))) =
        mset (List.map fst (m_entries m))"
      using keys_eq [OF assms] by simp
    show "filter (\<lambda>x. order_key m f k = order_key m f x)
        (sort_key (order_key m f) (List.map fst (m_entries m'))) =
        filter (\<lambda>x. order_key m f k = order_key m f x) (List.map fst (m_entries m))"
      if "k \<in> set (sort_key (order_key m f) (List.map fst (m_entries m')))" for k
    proof -
      have "filter (\<lambda>x. order_key m f k = order_key m f x) xs = filter ((=) k) xs" for xs
        using order_key_inj [of m f] by (auto simp: inj_def intro!: filter_cong)
      moreover have "filter ((=) k) xs = [k]" if "distinct xs" "k \<in> set xs" for xs :: "string list"
        using that by (induction xs) (auto simp: filter_empty_conv)
      moreover have "k \<in> set (List.map fst (m_entries m))"
        using that keys_eq [OF assms] by (metis set_mset_mset set_sort)
      ultimately show ?thesis
        using that by (simp add: DAList.impl_of_distinct)
    qed
  qed simp
  then show ?thesis by (simp add: SortedIDsBySequence_def key)
qed


theorem sorted_ids_any_order_witness:
  "SortedIDsBySequence (m_put ''a'' 5 (m_put ''b'' 9 m_empty)) (\<lambda>n. n) =
   SortedIDsBySequence (m_put ''b'' 9 (m_put ''a'' 5 m_empty)) (\<lambda>n. n)"
proof -
  have "m_get (m_put ''a'' 5 (m_put ''b'' 9 m_empty)) k =
      m_get (m_put ''b'' (9::nat) (m_put ''a'' 5 m_empty)) k" for k
    by (auto simp: m_lookup_update)
  from sorted_ids_any_order [OF this] show ?thesis .
qed

subsection \<open>The inbox\<close>

lemma map_of_filter_distinct:
  "distinct (List.map fst xs) \<Longrightarrow> map_of (List.filter P xs) k =
     (case map_of xs k of None \<Rightarrow> None | Some v \<Rightarrow> if P (k, v) then Some v else None)"
  by (induction xs) (auto split: option.splits simp: map_of_eq_None_iff rev_image_eqI)

lemma m_get_filter [simp]:
  "m_get (DAList.filter P m) k =
     (case m_get m k of None \<Rightarrow> None | Some v \<Rightarrow> if P (k, v) then Some v else None)"
  by (simp add: m_get_entries DAList.filter.rep_eq map_of_filter_distinct DAList.impl_of_distinct)

definition listed_before :: "'v gmap \<Rightarrow> ('v \<Rightarrow> nat) \<Rightarrow> string \<Rightarrow> string \<Rightarrow> bool" where
  "listed_before m f a b \<longleftrightarrow>
     (case (m_get m a, m_get m b) of
        (Some u, Some v) \<Rightarrow> f v < f u \<or> (f u = f v \<and> a < b)
      | _ \<Rightarrow> False)"

lemma set_SortedIDs: "set (SortedIDsBySequence m f) = {k. m_get m k \<noteq> None}"
  by (auto simp: SortedIDsBySequence_def m_get_entries map_of_eq_None_iff)

lemma distinct_SortedIDs: "distinct (SortedIDsBySequence m f)"
  by (simp add: SortedIDsBySequence_def DAList.impl_of_distinct)

lemma SortedIDs_newest_first: "sorted_wrt (listed_before m f) (SortedIDsBySequence m f)"
proof -
  let ?ks = "SortedIDsBySequence m f"
  have "sorted (List.map (order_key m f) ?ks)"
    by (simp add: SortedIDsBySequence_def)
  moreover have "distinct (List.map (order_key m f) ?ks)"
    using order_key_inj [of m f] distinct_SortedIDs [of m f]
    by (simp add: distinct_map inj_on_def inj_def)
  ultimately have "sorted_wrt (<) (List.map (order_key m f) ?ks)"
    by (simp add: strict_sorted_iff)
  then have "sorted_wrt (\<lambda>a b. order_key m f a < order_key m f b) ?ks"
    by (simp add: sorted_wrt_map)
  then show ?thesis
  proof (rule sorted_wrt_mono_rel [rotated])
    fix a b
    assume "a \<in> set ?ks" "b \<in> set ?ks" "order_key m f a < order_key m f b"
    then show "listed_before m f a b"
      by (auto simp: listed_before_def order_key_def set_SortedIDs less_prod_def
          split: option.splits if_splits)
  qed
qed

text \<open>
  The inbox lists exactly the messages addressed to the actor that pass the unread and sender
  filters, newest signed sequence first with ties by id, cut after the limit when one is set; the
  returned map holds the listed messages and no others.
\<close>

theorem inbox_lists_newest_first:
  assumes "Inbox st actor opts = (shown, order, addressed)"
  shows "\<exists>full. set full =
       {k. \<exists>m. m_get (st_messages st) k = Some m \<and> inbox_keeps actor opts m} \<and>
     distinct full \<and>
     sorted_wrt (listed_before (st_messages st) ms_created_sequence) full \<and>
     order = (if io_limit opts > 0 then take (nat (io_limit opts)) full else full) \<and>
     (\<forall>k. m_get shown k = (if k \<in> set order then m_get (st_messages st) k else None))"
proof -
  let ?ms = "DAList.filter (\<lambda>(k, m). inbox_keeps actor opts m) (st_messages st)"
  let ?full = "SortedIDsBySequence ?ms ms_created_sequence"
  have "set ?full = {k. \<exists>m. m_get (st_messages st) k = Some m \<and> inbox_keeps actor opts m}"
    by (auto simp: set_SortedIDs split: option.splits if_splits)
  moreover have "sorted_wrt (listed_before (st_messages st) ms_created_sequence) ?full"
    by (rule sorted_wrt_mono_rel [OF _ SortedIDs_newest_first])
      (auto simp: listed_before_def split: option.splits if_splits)
  moreover have
    "order = (if io_limit opts > 0 then take (nat (io_limit opts)) ?full else ?full)"
    using assms by (auto simp: Inbox_def Let_def split: if_splits)
  moreover have
    "\<forall>k. m_get shown k = (if k \<in> set order then m_get (st_messages st) k else None)"
  proof
    fix k
    have full: "k \<in> set ?full \<longleftrightarrow> m_get ?ms k \<noteq> None"
      by (simp only: set_SortedIDs mem_Collect_eq)
    have sub: "k \<in> set (take n ?full) \<Longrightarrow> k \<in> set ?full" for n
      by (rule in_set_takeD)
    show "m_get shown k = (if k \<in> set order then m_get (st_messages st) k else None)"
    proof (cases "io_limit opts > 0 \<and> int (length ?full) > io_limit opts")
      case True
      then have "shown = DAList.filter (\<lambda>(k, m). k \<in> set order) ?ms"
        "order = take (nat (io_limit opts)) ?full"
        using assms by (auto simp: Inbox_def Let_def)
      then show ?thesis
        using sub [of "nat (io_limit opts)"] full by (auto split: option.splits if_splits)
    next
      case False
      then have "shown = ?ms" "order = ?full"
        using assms by (auto simp: Inbox_def Let_def)
      then show ?thesis using full by (auto split: option.splits if_splits)
    qed
  qed
  ultimately show ?thesis using distinct_SortedIDs by blast
qed

theorem inbox_lists_newest_first_witness:
  "\<exists>st shown order addressed. Inbox st ''bob'' \<lparr>io_unread = False, io_from = [], io_limit = 1\<rparr> =
     (shown, order, addressed) \<and> order = [''m2''] \<and> m_get shown ''m1'' = None"
proof -
  let ?m = "zero_message\<lparr>ms_to := [''bob'']\<rparr>"
  let ?st = "EmptyState\<lparr>st_messages := m_put ''m1'' (?m\<lparr>ms_created_sequence := 3\<rparr>)
      (m_put ''m2'' (?m\<lparr>ms_created_sequence := 7\<rparr>) m_empty)\<rparr>"
  let ?o = "\<lparr>io_unread = False, io_from = [], io_limit = 1\<rparr>"
  obtain shown order addressed where i: "Inbox ?st ''bob'' ?o = (shown, order, addressed)"
    by (cases "Inbox ?st ''bob'' ?o") auto
  have "order = [''m2'']"
    using i by (simp add: Inbox_def Let_def SortedIDsBySequence_def order_key_def
        inbox_keeps_def addressed_to_def DAList.filter.rep_eq m_lookup_update)
  moreover from inbox_lists_newest_first [OF i] have "m_get shown ''m1'' = None"
    using \<open>order = [''m2'']\<close> by auto
  ultimately show ?thesis using i by blast
qed

subsection \<open>Naming a principal\<close>

lemma display_matches_mem:
  "x \<in> set (display_matches agents r) \<longleftrightarrow>
   (\<exists>a. m_get agents x = Some a \<and> equal_fold (trim_space (ag_display_name a)) r)"
  by (force simp: display_matches_def m_entries_get)

lemma distinct_display_matches: "distinct (display_matches agents r)"
  by (simp add: display_matches_def DAList.impl_of_distinct DAList.distinct_map_fst_filter)

text \<open>
  A reference is never guessed: what it resolves to is a principal of the project, the one with
  that actor id, or else the only one with that display name.
\<close>

theorem resolve_never_guesses:
  assumes res: "ResolvePrincipal agents r = Inr x"
  shows "m_has agents x \<and>
    (x = trim_space r \<or>
     (\<not> m_has agents (trim_space r) \<and>
      (\<forall>y a. m_get agents y = Some a \<longrightarrow>
         equal_fold (trim_space (ag_display_name a)) (trim_space r) = (y = x))))"
proof (cases "m_has agents (trim_space r)")
  case True
  with res show ?thesis by (auto simp: ResolvePrincipal_def Let_def split: if_splits)
next
  case False
  with res have one: "display_matches agents (trim_space r) = [x]"
    by (auto simp: ResolvePrincipal_def Let_def split: if_splits list.splits)
  then have mem: "y = x \<longleftrightarrow> (\<exists>a. m_get agents y = Some a \<and>
      equal_fold (trim_space (ag_display_name a)) (trim_space r))" for y
    using display_matches_mem [of y agents "trim_space r"] by simp
  from mem [of x] have "m_has agents x" by (auto simp: m_has_def)
  with False mem show ?thesis by auto
qed

theorem resolve_never_guesses_witness:
  "ResolvePrincipal (m_put ''codex'' (zero_agent\<lparr>ag_display_name := ''Atlas''\<rparr>) m_empty) '' atlas '' =
     Inr ''codex'' \<and>
   m_has (m_put ''codex'' (zero_agent\<lparr>ag_display_name := ''Atlas''\<rparr>) m_empty) ''codex''"
proof -
  have "ResolvePrincipal (m_put ''codex'' (zero_agent\<lparr>ag_display_name := ''Atlas''\<rparr>) m_empty)
      '' atlas '' = Inr ''codex''"
    by (simp add: ResolvePrincipal_def display_matches_def m_has_def trim_space_def is_space_def
        equal_fold_def to_lower_def low_char_def char_of_def bit_0 Let_def)
  from resolve_never_guesses [OF this] this show ?thesis by blast
qed

text \<open>
  When two principals share the display name and no actor id matches, the answer is the
  ambiguity error, and it names both.
\<close>

theorem resolve_reports_ambiguity:
  assumes "m_get agents y = Some a" "m_get agents z = Some b" "y \<noteq> z"
    and "equal_fold (trim_space (ag_display_name a)) (trim_space r)"
    and "equal_fold (trim_space (ag_display_name b)) (trim_space r)"
    and "trim_space r \<noteq> []" "\<not> m_has agents (trim_space r)"
  shows "\<exists>xs. ResolvePrincipal agents r = Inl (Ambiguous (trim_space r) xs) \<and> y \<in> set xs \<and> z \<in> set xs"
proof -
  let ?ms = "display_matches agents (trim_space r)"
  from assms have mem: "y \<in> set ?ms" "z \<in> set ?ms" by (auto simp: display_matches_mem)
  obtain u v ws where "?ms = u # v # ws"
  proof (cases ?ms)
    case Nil
    with mem show ?thesis by simp
  next
    case (Cons u us)
    with mem assms(3) have "us \<noteq> []" by auto
    with Cons show ?thesis using that by (cases us) auto
  qed
  with assms mem show ?thesis by (auto simp: ResolvePrincipal_def Let_def)
qed

theorem resolve_reports_ambiguity_witness:
  "let ag = zero_agent\<lparr>ag_display_name := ''Atlas''\<rparr>;
       agents = m_put ''codex'' ag (m_put ''claude'' ag m_empty)
   in \<exists>xs. ResolvePrincipal agents ''Atlas'' = Inl (Ambiguous ''Atlas'' xs) \<and>
        ''codex'' \<in> set xs \<and> ''claude'' \<in> set xs"
proof -
  let ?ag = "zero_agent\<lparr>ag_display_name := ''Atlas''\<rparr>"
  have t: "trim_space ''Atlas'' = ''Atlas''"
    by (simp add: trim_space_def is_space_def)
  show ?thesis
    using resolve_reports_ambiguity [of "m_put ''codex'' ?ag (m_put ''claude'' ?ag m_empty)"
        "''codex''" ?ag "''claude''" ?ag "''Atlas''"]
    by (simp add: t m_has_def equal_fold_def m_lookup_update)
qed

end
