(* ===== verification/Controlplane.thy ===== *)
theory Controlplane
  imports Reading
begin

text \<open>
  \<open>internal/controlplane/contracts.go\<close>: the limits, the error classes, commands, events, receipts
  and pages, with their validation, canonical forms and hashes.

  SHA-256, Ed25519, base64 and JSON are parameters, the fields of a \<open>crypto\<close> record: each is a
  function of what the code passes to it. A theorem that needs a law of theirs (a signature
  verifies under its own key, a payload decodes to what was encoded) states it as a hypothesis.
\<close>

abbreviation MaxCommandBytes :: int where "MaxCommandBytes \<equiv> 256 * 1024"
abbreviation MaxRecipients :: nat where "MaxRecipients \<equiv> 100"
abbreviation DefaultPageSize :: int where "DefaultPageSize \<equiv> 100"
abbreviation MaxPageSize :: int where "MaxPageSize \<equiv> 500"
abbreviation MaxDraftStorageBytes :: int where "MaxDraftStorageBytes \<equiv> 50 * 1024 * 1024"
abbreviation MaxInvocationBytes :: nat where "MaxInvocationBytes \<equiv> 16 * 1024"
abbreviation MaxDeliveryAttempts :: nat where "MaxDeliveryAttempts \<equiv> 10"
abbreviation MaxDeliveryEvidence :: nat where "MaxDeliveryEvidence \<equiv> 8"
abbreviation DefaultDeliveryAttemptLease :: duration where
  "DefaultDeliveryAttemptLease \<equiv> 30 * second"
abbreviation MaxDeliveryAttemptLease :: duration where "MaxDeliveryAttemptLease \<equiv> 2 * minute"
abbreviation MaxInvocationTTL :: duration where "MaxInvocationTTL \<equiv> 7 * 24 * hour"
abbreviation DefaultClaimLease :: duration where "DefaultClaimLease \<equiv> 15 * minute"
abbreviation MaxClaimLease :: duration where "MaxClaimLease \<equiv> hour"
abbreviation MaxRuntimesPerProject :: nat where "MaxRuntimesPerProject \<equiv> 500"
abbreviation MaxRuntimeConcurrency :: int where "MaxRuntimeConcurrency \<equiv> 100"
abbreviation MinHeartbeatInterval :: duration where "MinHeartbeatInterval \<equiv> 10 * second"
abbreviation RuntimeOfflineAfter :: duration where "RuntimeOfflineAfter \<equiv> 45 * second"
abbreviation CommandClockSkew :: duration where "CommandClockSkew \<equiv> 5 * minute"

datatype error_code =
    CodeOffline | CodeConflict | CodeRateLimited | CodeStalePrecondition | CodeUnavailable
  | CodeAuthorization | CodeValidation | CodeIntegrity

record cp_error =
  ce_code :: error_code
  ce_message :: string
  ce_retry_after :: duration

abbreviation control_error :: "error_code \<Rightarrow> string \<Rightarrow> cp_error" where
  "control_error c m \<equiv> \<lparr>ce_code = c, ce_message = m, ce_retry_after = 0\<rparr>"

text \<open>The text of an error, as \<open>err.Error()\<close> gives it.\<close>

primrec err_text :: "err \<Rightarrow> string" where
  "err_text (Err m) = m"
| "err_text (NotRegistered m) = ''provider is not registered for this project: '' @ m"
| "err_text Panic = []"

definition ClassifyValidationError :: "err \<Rightarrow> cp_error" where
  "ClassifyValidationError e =
     (let message = err_text e; lower = to_lower message in
      if contains lower ''required'' \<and>
         (contains lower ''role'' \<or> contains lower ''principal'' \<or> contains lower ''owner'' \<or>
          contains lower ''scope'')
      then control_error CodeAuthorization message
      else if contains lower ''overlap'' \<or> contains lower ''already leased''
      then control_error CodeConflict message
      else control_error CodeValidation message)"

record command =
  cm_project_id :: string
  cm_actor :: string
  cm_type :: string
  cm_entity_id :: string
  cm_payload :: string
  cm_idempotency_key :: string
  cm_issued_at :: time
  cm_expected_sequence :: nat
  cm_public_key :: string
  cm_signature :: string

record command_canonical =
  cc_project_id :: string
  cc_actor :: string
  cc_type :: string
  cc_entity_id :: string
  cc_payload_hash :: string
  cc_idempotency_key :: string
  cc_issued_at :: time
  cc_expected_sequence :: nat
  cc_public_key :: string

record event =
  ce_project_id :: string
  ce_sequence :: nat
  ce_id :: string
  ce_time :: time
  ce_actor :: string
  ce_actor_key_fingerprint :: string
  ce_type :: string
  ce_entity_id :: string
  ce_payload :: string
  ce_previous_hash :: string
  ce_hash :: string
  ce_actor_intent_hash :: string
  ce_idempotency_key :: string

record event_canonical =
  ec_project_id :: string
  ec_sequence :: nat
  ec_id :: string
  ec_time :: time
  ec_actor :: string
  ec_actor_key_fingerprint :: string
  ec_type :: string
  ec_entity_id :: string
  ec_payload_hash :: string
  ec_previous_hash :: string
  ec_actor_intent_hash :: string
  ec_idempotency_key :: string
  ec_legacy :: bool

record receipt =
  rc_project_id :: string
  rc_sequence :: nat
  rc_event_id :: string
  rc_event_hash :: string
  rc_actor_intent_hash :: string
  rc_committed_at :: time
  rc_key_fingerprint :: string
  rc_signature :: string

record result_metadata =
  md_consistency :: string
  md_server_sequence :: nat
  md_cache_sequence :: nat
  md_connectivity :: string

record page_request =
  pg_cursor :: string
  pg_limit :: int

record event_page =
  ep_items :: "(event \<times> receipt) list"
  ep_next_cursor :: string
  ep_metadata :: result_metadata

text \<open>
  The library functions. \<open>json_normal\<close> is unmarshalling into \<open>any\<close> and marshalling again
  (\<open>None\<close> when the text is not JSON), \<open>marshal_\<dots>\<close> the JSON of the canonical structs,
  \<open>ed_verify\<close> and \<open>ed_sign\<close> take keys as raw bytes, \<open>b64_decode\<close> is the standard encoding and
  \<open>rawurl_\<dots>\<close> the unpadded URL encoding. \<open>encode_payload\<close> marshals a payload
  struct and \<open>decode_payload\<close> unmarshals into a new struct of the given kind.
\<close>

record crypto =
  sha256_hex :: "string \<Rightarrow> string"
  json_normal :: "string \<Rightarrow> string option"
  marshal_command :: "command_canonical \<Rightarrow> string"
  marshal_event :: "event_canonical \<Rightarrow> string"
  marshal_receipt :: "receipt \<Rightarrow> string"
  marshal_subject :: "string \<Rightarrow> string \<Rightarrow> string \<Rightarrow> payload \<Rightarrow> string option"
  encode_payload :: "payload \<Rightarrow> string option"
  decode_payload :: "payload_kind \<Rightarrow> string \<Rightarrow> payload option"
  b64_decode :: "string \<Rightarrow> string option"
  b64_encode :: "string \<Rightarrow> string"
  rawurl_encode :: "string \<Rightarrow> string"
  rawurl_decode :: "string \<Rightarrow> string option"
  ed_verify :: "string \<Rightarrow> string \<Rightarrow> string \<Rightarrow> bool"
  ed_sign :: "string \<Rightarrow> string \<Rightarrow> string"
  ed_public :: "string \<Rightarrow> string"

text \<open>\<open>model.EncodePayload\<close>, \<open>DecodePayload\<close> and \<open>DecodePayloadValue\<close> (the same without the pointer).\<close>

definition EncodePayload :: "crypto \<Rightarrow> string \<Rightarrow> payload \<Rightarrow> string result" where
  "EncodePayload cr typ p =
     fail_if (\<not> KnownEventType typ) (Err (''unsupported event type '' @ quoted typ))
     (case encode_payload cr p of None \<Rightarrow> Inl (Err ''json: unsupported value'') | Some b \<Rightarrow> Inr b)"

definition DecodePayload :: "crypto \<Rightarrow> string \<Rightarrow> string \<Rightarrow> payload result" where
  "DecodePayload cr typ raw =
     (case parse_type typ of
        None \<Rightarrow> Inl (Err (''unsupported event type '' @ quoted typ))
      | Some t \<Rightarrow>
          (case decode_payload cr (factory t) (if raw = [] then ''{}'' else raw) of
             None \<Rightarrow> Inl (Err ''invalid JSON payload'')
           | Some p \<Rightarrow> Inr p))"

definition DecodePayloadValue :: "crypto \<Rightarrow> string \<Rightarrow> string \<Rightarrow> payload result" where
  "DecodePayloadValue cr typ raw = DecodePayload cr typ raw"

definition BoundedLimit :: "page_request \<Rightarrow> err + int" where
  "BoundedLimit p =
     fail_if (pg_limit p < 0 \<or> pg_limit p > MaxPageSize)
       (Err (''limit must be between 0 and '' @ dec_int MaxPageSize))
     (if pg_limit p = 0 then Inr DefaultPageSize else Inr (pg_limit p))"

definition json_or_empty :: "crypto \<Rightarrow> string \<Rightarrow> string option" where
  "json_or_empty cr payload = (if payload = [] then Some ''{}'' else json_normal cr payload)"

definition command_form :: "crypto \<Rightarrow> command \<Rightarrow> err + string" where
  "command_form cr c =
     (case json_or_empty cr (cm_payload c) of
        None \<Rightarrow> Inl (Err ''payload is not valid JSON'')
      | Some payload \<Rightarrow> Inr (marshal_command cr
          \<lparr>cc_project_id = cm_project_id c, cc_actor = cm_actor c, cc_type = cm_type c,
           cc_entity_id = cm_entity_id c, cc_payload_hash = sha256_hex cr payload,
           cc_idempotency_key = cm_idempotency_key c, cc_issued_at = cm_issued_at c,
           cc_expected_sequence = cm_expected_sequence c, cc_public_key = cm_public_key c\<rparr>))"

definition IntentHash :: "crypto \<Rightarrow> command \<Rightarrow> err + string" where
  "IntentHash cr c = and_then (command_form cr c) (\<lambda>b. Inr (sha256_hex cr b))"

definition command_validate :: "crypto \<Rightarrow> command \<Rightarrow> time \<Rightarrow> cp_error option" where
  "command_validate cr c now =
     (if blank (cm_project_id c) \<or> blank (cm_actor c) \<or> blank (cm_type c) \<or>
         blank (cm_idempotency_key c)
      then Some (control_error CodeValidation
             ''project, actor, type, and idempotency key are required'')
      else if int (length (cm_payload c)) > MaxCommandBytes
      then Some (control_error CodeValidation
             (''command payload exceeds '' @ dec_int MaxCommandBytes @ '' bytes''))
      else if is_zero (cm_issued_at c) \<or> before (cm_issued_at c) (now - CommandClockSkew) \<or>
              after (cm_issued_at c) (now + CommandClockSkew)
      then Some (control_error CodeValidation
             ''command issuance time is outside the allowed clock skew'')
      else case IntentHash cr c of
          Inl e \<Rightarrow> Some (control_error CodeValidation (err_text e))
        | Inr _ \<Rightarrow> None)"

definition command_sign :: "crypto \<Rightarrow> string \<Rightarrow> command \<Rightarrow> err + command" where
  "command_sign cr privateKey c =
     (case b64_decode cr privateKey of
        None \<Rightarrow> Inl (Err ''illegal base64 data'')
      | Some raw \<Rightarrow>
          fail_if (length raw \<noteq> 64) (Err ''invalid Ed25519 private key'')
          (and_then (IntentHash cr c)
            (\<lambda>hash. Inr (c\<lparr>cm_signature := b64_encode cr (ed_sign cr raw hash)\<rparr>))))"

definition command_verify :: "crypto \<Rightarrow> command \<Rightarrow> string \<Rightarrow> bool" where
  "command_verify cr c publicKey =
     (case b64_decode cr publicKey of None \<Rightarrow> False | Some pub \<Rightarrow>
      if length pub \<noteq> 32 then False else
      case b64_decode cr (cm_signature c) of None \<Rightarrow> False | Some sig \<Rightarrow>
      case IntentHash cr c of Inl _ \<Rightarrow> False | Inr hash \<Rightarrow> ed_verify cr pub hash sig)"

text \<open>\<open>identity.Fingerprint\<close>: the first eight bytes of the key's SHA-256, in hex.\<close>

definition Fingerprint :: "crypto \<Rightarrow> string \<Rightarrow> string" where
  "Fingerprint cr publicKey =
     take 16 (sha256_hex cr (case b64_decode cr publicKey of None \<Rightarrow> [] | Some b \<Rightarrow> b))"

text \<open>A service signer is its private key; the public key and its fingerprint follow.\<close>

definition receipt_form :: "crypto \<Rightarrow> receipt \<Rightarrow> string" where
  "receipt_form cr r = marshal_receipt cr (r\<lparr>rc_signature := []\<rparr>)"

definition signer_fingerprint :: "crypto \<Rightarrow> string \<Rightarrow> string" where
  "signer_fingerprint cr priv = take 16 (sha256_hex cr (ed_public cr priv))"

definition SignReceipt :: "crypto \<Rightarrow> string \<Rightarrow> receipt \<Rightarrow> receipt" where
  "SignReceipt cr priv r =
     (let r = r\<lparr>rc_key_fingerprint := signer_fingerprint cr priv\<rparr>
      in r\<lparr>rc_signature := b64_encode cr (ed_sign cr priv (receipt_form cr r))\<rparr>)"

definition VerifyReceipt :: "crypto \<Rightarrow> receipt \<Rightarrow> string \<Rightarrow> bool" where
  "VerifyReceipt cr r publicKey =
     (case b64_decode cr publicKey of None \<Rightarrow> False | Some pub \<Rightarrow>
      if length pub \<noteq> 32 then False else
      case b64_decode cr (rc_signature r) of None \<Rightarrow> False | Some sig \<Rightarrow>
      ed_verify cr pub (receipt_form cr r) sig)"

definition event_form :: "event \<Rightarrow> string \<Rightarrow> event_canonical" where
  "event_form e payload_hash =
     \<lparr>ec_project_id = ce_project_id e, ec_sequence = ce_sequence e, ec_id = ce_id e,
      ec_time = ce_time e, ec_actor = ce_actor e,
      ec_actor_key_fingerprint = ce_actor_key_fingerprint e, ec_type = ce_type e,
      ec_entity_id = ce_entity_id e, ec_payload_hash = payload_hash,
      ec_previous_hash = ce_previous_hash e, ec_actor_intent_hash = ce_actor_intent_hash e,
      ec_idempotency_key = ce_idempotency_key e,
      ec_legacy = has_prefix (ce_idempotency_key e) ''legacy:''\<rparr>"

definition HashEvent :: "crypto \<Rightarrow> event \<Rightarrow> err + string" where
  "HashEvent cr e =
     (case json_or_empty cr (ce_payload e) of
        None \<Rightarrow> Inl (Err ''payload is not valid JSON'')
      | Some normalized \<Rightarrow>
          Inr (sha256_hex cr (marshal_event cr (event_form e (sha256_hex cr normalized)))))"

definition VerifyEventHash :: "crypto \<Rightarrow> event \<Rightarrow> bool" where
  "VerifyEventHash cr e =
     (if has_prefix (ce_idempotency_key e) ''legacy:'' \<and>
         (ce_project_id e = [] \<or> ce_sequence e = 0 \<or> ce_id e = [] \<or> is_zero (ce_time e) \<or>
          ce_actor e = [] \<or> ce_type e = [] \<or> ce_actor_intent_hash e = [] \<or> ce_payload e = [] \<or>
          json_normal cr (ce_payload e) = None)
      then False
      else case HashEvent cr e of Inl _ \<Rightarrow> False | Inr hash \<Rightarrow> hash = ce_hash e)"

definition EncodeCursor :: "crypto \<Rightarrow> nat \<Rightarrow> string" where
  "EncodeCursor cr sequence = rawurl_encode cr (dec_digits sequence)"

text \<open>\<open>fmt.Sscanf(s, "%d", &sequence)\<close> into a uint64: leading spaces, then digits.\<close>

definition scan_uint64 :: "string \<Rightarrow> nat option" where
  "scan_uint64 s =
     (let tok = takeWhile (\<lambda>c. is_digit c \<or> c = CHR ''_'') (dropWhile is_space s) in
      if tok = [] \<or> CHR ''_'' \<in> set tok then None
      else if dec_val tok < 2 ^ 64 then Some (dec_val tok) else None)"

definition DecodeCursor :: "crypto \<Rightarrow> string \<Rightarrow> cp_error + nat" where
  "DecodeCursor cr cursor =
     (if cursor = [] then Inr 0
      else case rawurl_decode cr cursor of
          None \<Rightarrow> Inl (control_error CodeValidation ''invalid pagination cursor'')
        | Some raw \<Rightarrow> (case scan_uint64 raw of
            None \<Rightarrow> Inl (control_error CodeValidation ''invalid pagination cursor'')
          | Some n \<Rightarrow> Inr n))"

end
