(* ===== verification/Protocol_Core.thy ===== *)
theory Protocol_Core
  imports Controlplane
begin

text \<open>
  The helper functions of \<open>internal/protocol/transitions.go\<close> that \<open>ValidateTransition\<close>, the
  authorities and the projection share: resource overlap and scopes, standing, approvals, the
  elevated-key classification, roles, runtime kinds and consumer modes, delivery counters and
  evidence, and the expiry of runtime presence. \<open>range\<close> loops over a map run over its entries.
\<close>

subsection \<open>Resources and scopes\<close>

definition resources_clash :: "string \<Rightarrow> string \<Rightarrow> bool" where
  "resources_clash x y =
     (x = y \<or> x = ''*'' \<or> y = ''*'' \<or> has_prefix x (y @ ''/'') \<or> has_prefix y (x @ ''/''))"

definition overlap :: "string list \<Rightarrow> string list \<Rightarrow> bool" where
  "overlap a b = list_ex (\<lambda>x. list_ex (\<lambda>y. resources_clash x y) b) a"

definition scope_covers :: "string \<Rightarrow> string \<Rightarrow> bool" where
  "scope_covers scope resource =
     (scope = ''*'' \<or> scope = resource \<or> has_prefix resource (scope @ ''/''))"

definition scopeAllows :: "string list \<Rightarrow> string list \<Rightarrow> bool" where
  "scopeAllows scopes resources =
     list_all (\<lambda>resource. list_ex (\<lambda>scope. scope_covers scope resource) scopes) resources"

subsection \<open>Standing\<close>

definition active :: "state \<Rightarrow> string \<Rightarrow> agent result" where
  "active st actor =
     (case m_get (st_agents st) actor of
        None \<Rightarrow> Inl (Err ''active principal required'')
      | Some a \<Rightarrow> fail_if (ag_status a \<noteq> ''ACTIVE'') (Err ''active principal required'') (Inr a))"

text \<open>\<open>a, _ := active(st, actor)\<close>: the record even when it is not active, or the zero value.\<close>

abbreviation agent_of :: "state \<Rightarrow> string \<Rightarrow> agent" where
  "agent_of st actor \<equiv> m_read zero_agent (st_agents st) actor"

definition elevated :: "event_type \<Rightarrow> bool" where
  "elevated typ =
     (typ \<in> {Approval_ev ApprovalApprove, Approval_ev ApprovalReject, Agent_ev AgentActivate,
        Agent_ev AgentSuspend, Agent_ev AgentRotateKey, Agent_ev AgentRename,
        Agent_ev AgentRevoke, Agent_ev AgentDelete, SettingsUpdate, Env_ev EnvSet,
        Env_ev EnvDelete, Provider_ev ProviderRegister, Provider_ev ProviderRetire})"

definition actorElevated :: "state \<Rightarrow> string \<Rightarrow> bool" where
  "actorElevated st actor =
     (case m_get (st_agents st) actor of
        None \<Rightarrow> False
      | Some a \<Rightarrow> ag_status a = ''ACTIVE'' \<and>
          (ag_role a = RoleOwner \<or> ag_role a = RoleOrchestrator))"

subsection \<open>Approvals\<close>

definition not_expired :: "time option \<Rightarrow> time \<Rightarrow> bool" where
  "not_expired expires now = (case expires of None \<Rightarrow> True | Some e \<Rightarrow> after e now)"

definition eligible_body ::
  "string \<Rightarrow> time \<Rightarrow> string \<times> approval \<Rightarrow> string \<times> bool \<Rightarrow> string \<times> bool" where
  "eligible_body action now entry acc =
     (case entry of (k, a) \<Rightarrow> case acc of (chosen, expired) \<Rightarrow>
      if ap_action a \<noteq> action \<or> ap_status a \<noteq> ''APPROVED'' then (chosen, expired)
      else if \<not> not_expired (ap_expires_at a) now then (chosen, True)
      else if chosen = [] \<or> k < chosen then (k, expired)
      else (chosen, expired))"

definition eligibleActionApprovalID :: "state \<Rightarrow> string \<Rightarrow> time \<Rightarrow> string \<times> bool" where
  "eligibleActionApprovalID st action now =
     fold (eligible_body action now) (m_entries (st_approvals st)) ([], False)"

definition ApprovalSubjectJSON ::
  "crypto \<Rightarrow> string \<Rightarrow> event_type \<Rightarrow> string \<Rightarrow> payload \<Rightarrow> string" where
  "ApprovalSubjectJSON cr actor typ eid payload =
     (case marshal_subject cr actor (type_name typ) eid payload of None \<Rightarrow> [] | Some s \<Rightarrow> s)"

definition ApprovalSubjectDigestFromJSON :: "crypto \<Rightarrow> string \<Rightarrow> string" where
  "ApprovalSubjectDigestFromJSON cr subject = sha256_hex cr subject"

definition ApprovalSubjectDigest ::
  "crypto \<Rightarrow> string \<Rightarrow> event_type \<Rightarrow> string \<Rightarrow> payload \<Rightarrow> string" where
  "ApprovalSubjectDigest cr actor typ eid payload =
     ApprovalSubjectDigestFromJSON cr (ApprovalSubjectJSON cr actor typ eid payload)"

definition bound_by :: "string \<Rightarrow> string \<Rightarrow> string \<Rightarrow> time \<Rightarrow> approval \<Rightarrow> bool" where
  "bound_by action digest requiredTier now a =
     (ap_action a = action \<and> ap_status a = ''APPROVED'' \<and> ap_subject_digest a = digest \<and>
      (case ap_expires_at a of None \<Rightarrow> False | Some e \<Rightarrow> after e now) \<and>
      (requiredTier = [] \<or> ap_tier a = requiredTier))"

definition hasBoundApproval :: "state \<Rightarrow> string \<Rightarrow> string \<Rightarrow> string \<Rightarrow> time \<Rightarrow> bool" where
  "hasBoundApproval st action digest requiredTier now =
     list_ex (bound_by action digest requiredTier now) (m_vals (st_approvals st))"

definition OrchestratorGrantApprovalAction :: "string \<Rightarrow> string" where
  "OrchestratorGrantApprovalAction eid = ''agent.activate:'' @ eid"

definition OrchestratorGrantApprovalID :: "string \<Rightarrow> string" where
  "OrchestratorGrantApprovalID eid = ''grant-orchestrator-'' @ eid"

definition hasOrchestratorGrantApproval :: "state \<Rightarrow> string \<Rightarrow> time \<Rightarrow> bool" where
  "hasOrchestratorGrantApproval st principalID now =
     (case m_get (st_approvals st) (OrchestratorGrantApprovalID principalID) of
        None \<Rightarrow> False
      | Some a \<Rightarrow> ap_tier a = ''HUMAN'' \<and> ap_status a = ''APPROVED'' \<and>
          ap_action a = OrchestratorGrantApprovalAction principalID \<and>
          not_expired (ap_expires_at a) now)"

definition canReplaceOrchestratorGrantApproval ::
  "string \<Rightarrow> approval \<Rightarrow> approval_requested \<Rightarrow> time \<Rightarrow> bool" where
  "canReplaceOrchestratorGrantApproval eid existing request now =
     (let expired = (case ap_expires_at existing of None \<Rightarrow> False | Some e \<Rightarrow> \<not> after e now);
          recoverable = (ap_status existing = ''CONSUMED'' \<or>
            (expired \<and> (ap_status existing = ''PENDING'' \<or> ap_status existing = ''APPROVED'')))
      in if \<not> recoverable \<or> ap_tier existing \<noteq> ''HUMAN'' \<or> aq_tier request \<noteq> ''HUMAN'' \<or>
            ap_action existing \<noteq> aq_action request
         then False
         else case cut_prefix (aq_action request) ''agent.activate:'' of
             None \<Rightarrow> False
           | Some principalID \<Rightarrow> principalID \<noteq> [] \<and> eid = OrchestratorGrantApprovalID principalID)"

subsection \<open>The elevated key\<close>

definition RequiresElevatedKey :: "state \<Rightarrow> string \<Rightarrow> event_type \<Rightarrow> string \<Rightarrow> payload \<Rightarrow> bool" where
  "RequiresElevatedKey st actor typ eid payload =
     (case typ of
        Agent_ev AgentActivate \<Rightarrow>
          (case payload of AgentActivated p \<Rightarrow> aa_role p = RoleOrchestrator | _ \<Rightarrow> False)
      | Agent_ev AgentSwitchRole \<Rightarrow>
          (case payload of AgentRoleSwitched p \<Rightarrow> sw_role p = RoleOrchestrator | _ \<Rightarrow> False)
      | Approval_ev ApprovalApprove \<Rightarrow>
          ap_tier (m_read zero_approval (st_approvals st) eid) = ''HUMAN''
      | Agent_ev AgentRevoke \<Rightarrow>
          (if eid = actor then False
           else let target = agent_of st eid in
             ag_role target = RoleOrchestrator \<or> ag_principal_type target = PrincipalHuman)
      | Agent_ev AgentDelete \<Rightarrow>
          (case m_get (st_agents st) eid of None \<Rightarrow> False | Some target \<Rightarrow> ag_status target = ''REVOKED'')
      | _ \<Rightarrow> False)"

subsection \<open>Roles\<close>

abbreviation maxRoleLength :: nat where "maxRoleLength \<equiv> 64"

definition normalizeRole :: "string \<Rightarrow> string" where
  "normalizeRole r =
     (let trimmed = trim_space r in
      if to_upper trimmed = RoleOwner then RoleOwner
      else if to_upper trimmed = RoleOrchestrator then RoleOrchestrator
      else trimmed)"

definition validateRoleValue :: "string \<Rightarrow> 'a result \<Rightarrow> 'a result" where
  "validateRoleValue r rest =
     fail_if (r = []) (Err ''a role is required'')
     (fail_if (length r > maxRoleLength)
        (Err (''role exceeds '' @ dec_digits maxRoleLength @ '' characters'')) rest)"

subsection \<open>Runtime kinds and consumer modes\<close>

definition runtimeKind :: "string \<Rightarrow> string \<Rightarrow> string" where
  "runtimeKind kind connector =
     (if kind \<noteq> [] then kind
      else if equal_fold connector ''INTERACTIVE'' then RuntimeKindInteractive
      else RuntimeKindWorker)"

definition validConsumerMode :: "string \<Rightarrow> bool" where
  "validConsumerMode mode =
     (mode = ConsumerModeInteractiveOnly \<or> mode = ConsumerModeWorkerOnly \<or>
      mode = ConsumerModeEither)"

definition effectiveInvocationConsumer :: "string \<Rightarrow> string" where
  "effectiveInvocationConsumer mode = (if validConsumerMode mode then mode else ConsumerModeEither)"

definition consumerAllowsKind :: "string \<Rightarrow> string \<Rightarrow> bool" where
  "consumerAllowsKind mode0 kind =
     (let mode = effectiveInvocationConsumer mode0 in
      if mode = ConsumerModeInteractiveOnly then kind = RuntimeKindInteractive
      else if mode = ConsumerModeWorkerOnly then kind = RuntimeKindWorker
      else if mode = ConsumerModeEither then kind = RuntimeKindWorker \<or> kind = RuntimeKindInteractive
      else False)"

abbreviation all_consumer_modes :: "string list" where
  "all_consumer_modes \<equiv> [ConsumerModeInteractiveOnly, ConsumerModeWorkerOnly, ConsumerModeEither]"

definition effectiveConsumerPolicy :: "policy \<Rightarrow> string \<times> string list" where
  "effectiveConsumerPolicy p =
     ((if \<not> validConsumerMode (po_default_consumer_mode p) then ConsumerModeEither
       else po_default_consumer_mode p),
      (if po_allowed_consumer_modes p = [] then all_consumer_modes
       else po_allowed_consumer_modes p))"

definition containsConsumerMode :: "string list \<Rightarrow> string \<Rightarrow> bool" where
  "containsConsumerMode values target = list_ex (\<lambda>v. v = target) values"

definition containsString :: "string list \<Rightarrow> string \<Rightarrow> bool" where
  "containsString values expected = list_ex (\<lambda>v. v = expected) values"

definition NormalizeInvocationApprovalSubject ::
  "state \<Rightarrow> invocation_requested \<Rightarrow> invocation_requested" where
  "NormalizeInvocationApprovalSubject st p0 =
     (let scopes = (if ir_task_id p0 \<noteq> [] \<and> ir_scopes p0 = [] then
            (case m_get (st_tasks st) (ir_task_id p0) of
               None \<Rightarrow> ir_scopes p0 | Some task \<Rightarrow> tk_resources task)
          else ir_scopes p0);
          priority = to_upper (trim_space (ir_priority p0));
          priority = (if priority = [] then ''NORMAL'' else priority);
          policy = m_read zero_policy (st_policies st) (ir_target p0);
          mode = (if ir_consumer_mode p0 = [] then fst (effectiveConsumerPolicy policy)
                  else ir_consumer_mode p0);
          mode = to_upper (trim_space mode);
          preferred = (if ir_preferred_runtime_id p0 = [] \<and> mode \<noteq> ConsumerModeWorkerOnly
                       then po_preferred_interactive_runtime_id policy
                       else ir_preferred_runtime_id p0)
      in p0\<lparr>ir_scopes := scopes, ir_priority := priority, ir_consumer_mode := mode,
            ir_preferred_runtime_id := preferred\<rparr>)"

definition invocationIsSensitive :: "state \<Rightarrow> invocation_requested \<Rightarrow> bool" where
  "invocationIsSensitive st request =
     (if ir_priority request = ''URGENT'' then True
      else if ir_task_id request = [] then False
      else case m_get (st_tasks st) (ir_task_id request) of
          None \<Rightarrow> False
        | Some task \<Rightarrow> tk_risk task \<noteq> [] \<and> tk_risk task \<noteq> ''ROUTINE'')"

subsection \<open>Deliveries and runtime load\<close>

definition next_attempt_body :: "string \<Rightarrow> delivery \<Rightarrow> int \<Rightarrow> int" where
  "next_attempt_body invocationID d nxt =
     (if dl_invocation_id d = invocationID \<and> nxt \<le> dl_attempt d then dl_attempt d + 1 else nxt)"

definition nextDeliveryAttempt :: "state \<Rightarrow> string \<Rightarrow> int" where
  "nextDeliveryAttempt st invocationID =
     fold (next_attempt_body invocationID) (m_vals (st_deliveries st)) 1"

definition automaticDeliveryAttempts :: "state \<Rightarrow> string \<Rightarrow> nat" where
  "automaticDeliveryAttempts st invocationID =
     length (List.filter (\<lambda>d. dl_invocation_id d = invocationID \<and> \<not> dl_manual d)
       (m_vals (st_deliveries st)))"

definition holds_runtime :: "string \<Rightarrow> invocation \<Rightarrow> bool" where
  "holds_runtime runtimeID i =
     (iv_runtime_id i = runtimeID \<and>
      (iv_status i = ''CLAIMED'' \<or> iv_status i = ''RUNNING'' \<or> iv_status i = ''WAITING''))"

definition runtimeInvocationLoad :: "state \<Rightarrow> string \<Rightarrow> nat" where
  "runtimeInvocationLoad st runtimeID =
     length (List.filter (holds_runtime runtimeID) (m_vals (st_invocations st)))"

fun evidence_loop ::
  "string \<Rightarrow> string list \<Rightarrow> time \<Rightarrow> time \<Rightarrow> string list \<Rightarrow> time \<Rightarrow> delivery_evidence list \<Rightarrow> string list result"
where
  "evidence_loop transport allowed attemptedAt completedAt seen previous [] = Inr seen"
| "evidence_loop transport allowed attemptedAt completedAt seen previous (item # rest) =
     (let stage = to_upper (trim_space (ev_stage item)) in
      fail_if (stage \<notin> set allowed \<or> stage \<in> set seen)
        (Err (''delivery evidence stage '' @ quoted (ev_stage item) @
              '' is invalid or duplicated for '' @ transport))
      (fail_if (before (ev_at item) attemptedAt \<or>
                after (ev_at item) (completedAt + CommandClockSkew) \<or>
                before (ev_at item) previous)
        (Err ''delivery evidence timestamps must be monotonic and within the attempt window'')
      (evidence_loop transport allowed attemptedAt completedAt (stage # seen) (ev_at item) rest)))"

definition validateDeliveryEvidence ::
  "string \<Rightarrow> string \<Rightarrow> delivery_evidence list \<Rightarrow> time \<Rightarrow> time \<Rightarrow> unit result" where
  "validateDeliveryEvidence transport endpointID evidence attemptedAt completedAt =
     fail_if (length evidence = 0 \<or> length evidence > MaxDeliveryEvidence)
       (Err (''delivery evidence must contain from 1 to '' @ dec_digits MaxDeliveryEvidence @
             '' stages''))
     (let interactive = (transport = ''INTERACTIVE'');
          allowed = (if interactive then [''PTY_TEXT_ECHOED'', ''PTY_ENTER_SENT'']
                     else [''CONNECTOR_ACCEPTED''])
      in fail_if (interactive \<and> blank endpointID)
           (Err ''interactive delivery endpoint ID is required'')
         (and_then (evidence_loop transport allowed attemptedAt completedAt [] attemptedAt evidence)
           (\<lambda>seen.
             fail_if (interactive \<and>
                (''PTY_TEXT_ECHOED'' \<notin> set seen \<or> ''PTY_ENTER_SENT'' \<notin> set seen))
               (Err ''interactive delivery requires PTY_TEXT_ECHOED and PTY_ENTER_SENT evidence'')
             (fail_if (\<not> interactive \<and> ''CONNECTOR_ACCEPTED'' \<notin> set seen)
               (Err ''connector delivery requires CONNECTOR_ACCEPTED evidence'')
             (Inr ())))))"

subsection \<open>Runtime definitions\<close>

definition runtime_connectors :: "string list" where
  "runtime_connectors = [''MANUAL'', ''MCP'', ''LOCAL_PROCESS'', ''WEBHOOK'', ''QUEUE'', ''INTERACTIVE'']"

definition normalizeRuntimeDefinition ::
  "string \<Rightarrow> string \<Rightarrow> string \<Rightarrow> string \<Rightarrow> int \<Rightarrow> (string \<times> string) result" where
  "normalizeRuntimeDefinition kind0 connector0 configReference hostID maxConcurrent =
     (let connector = to_upper (trim_space connector0);
          kind = runtimeKind kind0 connector;
          lower = to_lower configReference
      in fail_if (kind \<noteq> RuntimeKindWorker \<and> kind \<noteq> RuntimeKindInteractive)
           (Err ''runtime kind must be WORKER or INTERACTIVE'')
         (fail_if (connector \<notin> set runtime_connectors)
           (Err ''runtime connector must be MANUAL, MCP, LOCAL_PROCESS, WEBHOOK, QUEUE, or INTERACTIVE'')
         (fail_if (maxConcurrent < 1 \<or> maxConcurrent > MaxRuntimeConcurrency)
           (Err (''runtime concurrency must be from 1 to '' @ dec_int MaxRuntimeConcurrency))
         (fail_if ((connector = ''LOCAL_PROCESS'' \<or> connector = ''WEBHOOK'') \<and> blank configReference)
           (Err (connector @ '' runtime requires a connector configuration reference''))
         (fail_if (contains lower ''secret'' \<or> contains lower ''token'' \<or> contains lower ''password'')
           (Err ''runtime config reference must not contain secret material'')
         (if kind = RuntimeKindInteractive then
            fail_if (connector \<noteq> ''INTERACTIVE'')
              (Err ''INTERACTIVE runtime kind requires the INTERACTIVE connector'')
            (fail_if (blank hostID) (Err ''interactive runtime host ID is required'')
            (fail_if (\<not> blank configReference)
              (Err ''interactive runtime must not use a connector configuration reference'')
            (fail_if (maxConcurrent \<noteq> 1) (Err ''interactive runtime concurrency must be 1'')
            (Inr (kind, connector)))))
          else
            fail_if (connector = ''INTERACTIVE'')
              (Err ''INTERACTIVE connector requires the INTERACTIVE runtime kind'')
            (Inr (kind, connector))))))))"

subsection \<open>Presence\<close>

definition presence_expired :: "time \<Rightarrow> runtime \<Rightarrow> bool" where
  "presence_expired now r =
     (rt_status r = ''ONLINE'' \<and> \<not> is_zero (rt_last_seen_at r) \<and>
      sub_time now (rt_last_seen_at r) > RuntimeOfflineAfter)"

definition refresh_runtime :: "time \<Rightarrow> runtime \<Rightarrow> runtime" where
  "refresh_runtime now r =
     (if presence_expired now r
      then r\<lparr>rt_status := ''OFFLINE'', rt_health := ''UNKNOWN'', rt_endpoint_id := [],
             rt_active_invocations := [], rt_reason := ''heartbeat expired''\<rparr>
      else r)"

definition RefreshRuntimePresence :: "state \<Rightarrow> time \<Rightarrow> state" where
  "RefreshRuntimePresence st now =
     st\<lparr>st_runtimes := m_map (\<lambda>_ r. refresh_runtime now r) (st_runtimes st)\<rparr>"


subsection \<open>Scopes\<close>

lemma scope_covers_refl: "scope_covers s s"
  by (simp add: scope_covers_def)

lemma scope_covers_trans:
  assumes "scope_covers a b" "scope_covers b c"
  shows "scope_covers a c"
proof (cases "b = ''*''")
  case True
  then have "a = ''*''"
    using assms(1) by (cases a) (auto simp: scope_covers_def prefix_Cons)
  then show ?thesis by (simp add: scope_covers_def)
next
  case False
  show ?thesis
  proof (cases "b = c \<or> a = b \<or> a = ''*''")
    case True
    then show ?thesis using assms by (auto simp: scope_covers_def)
  next
    case other: False
    with False assms have "prefix (a @ ''/'') b" "prefix (b @ ''/'') c"
      by (auto simp: scope_covers_def)
    then have "prefix (a @ ''/'') c"
      by (meson prefixI prefix_order.trans)
    then show ?thesis by (simp add: scope_covers_def)
  qed
qed

lemma scopeAllows_iff:
  "scopeAllows scopes resources \<longleftrightarrow> (\<forall>r\<in>set resources. \<exists>s\<in>set scopes. scope_covers s r)"
  by (simp add: scopeAllows_def list_all_iff list_ex_iff)

lemma scopeAllows_Nil [simp]: "scopeAllows s []"
  by (simp add: scopeAllows_iff)

text \<open>
  Scopes delegate soundly: what is allowed under a grant that is itself within some scopes is
  within those scopes, so passing work on (a task's resources to an invocation, an invocation's
  scopes to its target) never widens a principal's reach.
\<close>

theorem scope_delegation:
  assumes "scopeAllows granted requested" "scopeAllows held granted"
  shows "scopeAllows held requested"
  using assms unfolding scopeAllows_iff by (meson scope_covers_trans)

theorem scope_delegation_witness:
  "scopeAllows [''src'', ''docs''] [''src/api'', ''docs/a.md''] \<and>
   scopeAllows [''src'', ''docs''] [''src/api/v1'']"
proof -
  have "scopeAllows [''src'', ''docs''] [''src/api'', ''docs/a.md'']"
    "scopeAllows [''src/api'', ''docs/a.md''] [''src/api/v1'']"
    by (simp_all add: scopeAllows_def scope_covers_def)
  then show ?thesis using scope_delegation by blast
qed

lemma resources_clash_sym: "resources_clash x y = resources_clash y x"
  by (auto simp: resources_clash_def)

lemma overlap_sym: "overlap a b = overlap b a"
  unfolding overlap_def list_ex_iff using resources_clash_sym by blast

subsection \<open>Choosing an approval\<close>

lemma eligible_body_commute:
  "fst x \<noteq> [] \<Longrightarrow> fst y \<noteq> [] \<Longrightarrow>
   eligible_body action now x (eligible_body action now y acc) =
   eligible_body action now y (eligible_body action now x acc)"
  by (cases x; cases y; cases acc) (auto simp: eligible_body_def)

interpretation eligible_loop: any_order "eligible_body action now" "\<lambda>entry. fst entry \<noteq> []"
  for action now
  by unfold_locales (rule eligible_body_commute)

definition approved_for :: "string \<Rightarrow> approval \<Rightarrow> bool" where
  "approved_for action a \<longleftrightarrow> ap_action a = action \<and> ap_status a = ''APPROVED''"

lemma eligible_fold:
  assumes "\<forall>entry\<in>set es. fst entry \<noteq> []"
  shows "fold (eligible_body action now) es (c, x) = (c', x') \<Longrightarrow>
    (let ids = {k. \<exists>a. (k, a) \<in> set es \<and> approved_for action a \<and>
                      not_expired (ap_expires_at a) now} \<union> (if c = [] then {} else {c})
     in (c' = [] \<longleftrightarrow> ids = {}) \<and> (ids \<noteq> {} \<longrightarrow> c' \<in> ids \<and> (\<forall>k\<in>ids. c' \<le> k)) \<and>
        (x' \<longleftrightarrow> x \<or> (\<exists>(k, a)\<in>set es. approved_for action a \<and>
                     \<not> not_expired (ap_expires_at a) now)))"
  using assms
proof (induction es arbitrary: c x)
  case Nil
  then show ?case by (auto simp: Let_def)
next
  case (Cons e es)
  obtain k a where e: "e = (k, a)" by (cases e)
  obtain c1 x1 where step: "eligible_body action now e (c, x) = (c1, x1)" by fastforce
  from Cons.prems(2) e have k: "k \<noteq> []" by simp
  from Cons.IH [of c1 x1] Cons.prems step
  have IH: "let ids = {k. \<exists>a. (k, a) \<in> set es \<and> approved_for action a \<and>
                      not_expired (ap_expires_at a) now} \<union> (if c1 = [] then {} else {c1})
     in (c' = [] \<longleftrightarrow> ids = {}) \<and> (ids \<noteq> {} \<longrightarrow> c' \<in> ids \<and> (\<forall>k\<in>ids. c' \<le> k)) \<and>
        (x' \<longleftrightarrow> x1 \<or> (\<exists>(k, a)\<in>set es. approved_for action a \<and>
                     \<not> not_expired (ap_expires_at a) now))"
    by simp
  have ids: "{j. \<exists>b. (j, b) \<in> set (e # es) \<and> approved_for action b \<and> not_expired (ap_expires_at b) now} =
      {j. \<exists>b. (j, b) \<in> set es \<and> approved_for action b \<and> not_expired (ap_expires_at b) now} \<union>
      (if approved_for action a \<and> not_expired (ap_expires_at a) now then {k} else {})"
    by (auto simp: e)
  consider (skip) "\<not> approved_for action a" | (old) "approved_for action a" "\<not> not_expired (ap_expires_at a) now"
    | (live) "approved_for action a" "not_expired (ap_expires_at a) now" by blast
  then show ?case
  proof cases
    case skip
    then have "c1 = c" "x1 = x" using step e by (auto simp: eligible_body_def approved_for_def)
    with IH skip show ?thesis unfolding ids by (auto simp: Let_def e)
  next
    case old
    then have "c1 = c" "x1 = True" using step e by (auto simp: eligible_body_def approved_for_def)
    with IH old show ?thesis unfolding ids by (auto simp: Let_def e)
  next
    case live
    then have c1: "c1 = (if c = [] \<or> k < c then k else c)" and "x1 = x"
      using step e by (auto simp: eligible_body_def approved_for_def split: if_splits)
    with IH live k show ?thesis unfolding ids
      by (cases "c = []"; cases "k < c") (auto simp: Let_def e)
  qed
qed

text \<open>
  The approval a takeover or a shared write is charged to does not depend on the order Go visits
  the approvals in: it is the least id among the approved, unexpired approvals for that action, and
  none exactly if there is no such approval (every stored approval having a non-empty id).
\<close>

theorem eligible_approval_is_least:
  assumes "\<forall>k. m_get (st_approvals st) k \<noteq> None \<longrightarrow> k \<noteq> []"
    and "eligibleActionApprovalID st action now = (chosen, expired)"
  shows "(chosen = [] \<longleftrightarrow>
      (\<nexists>k a. m_get (st_approvals st) k = Some a \<and> approved_for action a \<and>
             not_expired (ap_expires_at a) now)) \<and>
    (chosen \<noteq> [] \<longrightarrow>
      (\<exists>a. m_get (st_approvals st) chosen = Some a \<and> approved_for action a \<and>
           not_expired (ap_expires_at a) now) \<and>
      (\<forall>k a. m_get (st_approvals st) k = Some a \<longrightarrow> approved_for action a \<longrightarrow>
             not_expired (ap_expires_at a) now \<longrightarrow> chosen \<le> k))"
proof -
  have ne: "\<forall>entry\<in>set (m_entries (st_approvals st)). fst entry \<noteq> []"
  proof
    fix entry assume "entry \<in> set (m_entries (st_approvals st))"
    then have "m_get (st_approvals st) (fst entry) = Some (snd entry)"
      by (simp add: m_entries_get [symmetric])
    then show "fst entry \<noteq> []" using assms(1) by auto
  qed
  from eligible_fold [OF ne assms(2) [unfolded eligibleActionApprovalID_def]]
  show ?thesis by (auto simp: Let_def m_entries_get)
qed

theorem eligible_approval_is_least_witness:
  "let a = zero_approval\<lparr>ap_action := ''task.takeover:t1'', ap_status := ''APPROVED''\<rparr>;
       st = EmptyState\<lparr>st_approvals := m_put ''b'' a (m_put ''a'' a m_empty)\<rparr>
   in fst (eligibleActionApprovalID st ''task.takeover:t1'' 5) = ''a''"
proof -
  let ?a = "zero_approval\<lparr>ap_action := ''task.takeover:t1'', ap_status := ''APPROVED''\<rparr>"
  let ?st = "EmptyState\<lparr>st_approvals := m_put ''b'' ?a (m_put ''a'' ?a m_empty)\<rparr>"
  obtain c x where e: "eligibleActionApprovalID ?st ''task.takeover:t1'' 5 = (c, x)"
    by fastforce
  have ne: "\<forall>k. m_get (st_approvals ?st) k \<noteq> None \<longrightarrow> k \<noteq> []"
    by (auto simp: m_lookup_update)
  have "approved_for ''task.takeover:t1'' ?a" "not_expired (ap_expires_at ?a) 5"
    by (simp_all add: approved_for_def not_expired_def zero_approval_def)
  then have "c \<noteq> []" "c \<le> ''a''" "c = ''a'' \<or> c = ''b''"
    using eligible_approval_is_least [OF ne e] by (auto simp: m_lookup_update split: if_splits)
  then show ?thesis using e by (auto simp: Let_def)
qed

subsection \<open>Delivery counters\<close>

lemma next_attempt_body_commute:
  "next_attempt_body i x (next_attempt_body i y n) = next_attempt_body i y (next_attempt_body i x n)"
  by (auto simp: next_attempt_body_def)

interpretation attempt_loop: any_order "next_attempt_body i" "\<lambda>_. True" for i
  by unfold_locales (rule next_attempt_body_commute)

lemma next_attempt_fold:
  "n \<le> fold (next_attempt_body i) ds n \<and>
   (\<forall>d\<in>set ds. dl_invocation_id d = i \<longrightarrow> dl_attempt d < fold (next_attempt_body i) ds n)"
proof (induction ds arbitrary: n)
  case (Cons d ds)
  have n: "n \<le> next_attempt_body i d n"
    "dl_invocation_id d = i \<Longrightarrow> dl_attempt d < next_attempt_body i d n"
    by (auto simp: next_attempt_body_def)
  from Cons.IH [of "next_attempt_body i d n"] n show ?case by force
qed simp

lemma nextDeliveryAttempt_fresh:
  assumes "m_get (st_deliveries st) k = Some d" "dl_invocation_id d = i"
  shows "dl_attempt d < nextDeliveryAttempt st i"
proof -
  have "d \<in> set (m_vals (st_deliveries st))" unfolding m_vals_set using assms(1) by (rule exI)
  with next_attempt_fold [of 1 i "m_vals (st_deliveries st)"] assms(2)
  show ?thesis unfolding nextDeliveryAttempt_def by blast
qed

lemma nextDeliveryAttempt_pos: "1 \<le> nextDeliveryAttempt st i"
  using next_attempt_fold [of 1 i] by (auto simp: nextDeliveryAttempt_def)

subsection \<open>Delivery evidence\<close>

definition evidence_stage :: "delivery_evidence \<Rightarrow> string" where
  "evidence_stage item = to_upper (trim_space (ev_stage item))"

lemma evidence_loop_ok:
  "evidence_loop tr allowed a c seen prev items = Inr seen' \<Longrightarrow> distinct seen \<Longrightarrow> a \<le> prev \<Longrightarrow>
   distinct (List.map evidence_stage items) \<and> set (List.map evidence_stage items) \<subseteq> set allowed \<and>
   set seen' = set seen \<union> set (List.map evidence_stage items) \<and>
   sorted_wrt (\<le>) (prev # List.map ev_at items) \<and>
   (\<forall>item\<in>set items. a \<le> ev_at item \<and> ev_at item \<le> c + CommandClockSkew) \<and>
   set seen \<inter> set (List.map evidence_stage items) = {}"
proof (induction items arbitrary: seen prev)
  case Nil
  then show ?case by simp
next
  case (Cons item items)
  from Cons.prems(1) have step:
    "evidence_stage item \<in> set allowed" "evidence_stage item \<notin> set seen"
    "a \<le> ev_at item" "ev_at item \<le> c + CommandClockSkew" "prev \<le> ev_at item"
    "evidence_loop tr allowed a c (evidence_stage item # seen) (ev_at item) items = Inr seen'"
    by (auto simp: Let_def evidence_stage_def)
  have "distinct (evidence_stage item # seen)" using Cons.prems(2) step(2) by simp
  from Cons.IH [OF step(6) this step(3)] step Cons.prems(3) show ?case by auto
qed

text \<open>
  Evidence of an interactive delivery that is accepted consists of exactly two reports, one that
  the text was echoed and one that Enter was sent, in time order, none before the attempt was
  reserved and none later than the commit time plus the clock skew.
\<close>

theorem interactive_evidence_complete:
  assumes "validateDeliveryEvidence ''INTERACTIVE'' endpoint evidence attempted completed = Inr ()"
  shows "length evidence = 2 \<and>
    set (List.map evidence_stage evidence) = {''PTY_TEXT_ECHOED'', ''PTY_ENTER_SENT''} \<and>
    sorted (List.map ev_at evidence) \<and>
    (\<forall>item\<in>set evidence. attempted \<le> ev_at item \<and> ev_at item \<le> completed + CommandClockSkew)"
proof -
  let ?allowed = "[''PTY_TEXT_ECHOED'', ''PTY_ENTER_SENT'']"
  from assms obtain seen where
    seen: "evidence_loop ''INTERACTIVE'' ?allowed attempted completed [] attempted evidence = Inr seen"
    and both: "''PTY_TEXT_ECHOED'' \<in> set seen" "''PTY_ENTER_SENT'' \<in> set seen"
    by (auto simp: validateDeliveryEvidence_def Let_def)
  from evidence_loop_ok [OF seen] have ev:
    "distinct (List.map evidence_stage evidence)"
    "set (List.map evidence_stage evidence) \<subseteq> set ?allowed"
    "set seen = set (List.map evidence_stage evidence)"
    "sorted_wrt (\<le>) (attempted # List.map ev_at evidence)"
    "\<forall>item\<in>set evidence. attempted \<le> ev_at item \<and> ev_at item \<le> completed + CommandClockSkew"
    by auto
  from ev(2,3) both have st: "set (List.map evidence_stage evidence) = set ?allowed"
    by auto
  have "length (List.map evidence_stage evidence) = card (set (List.map evidence_stage evidence))"
    using ev(1) by (simp only: distinct_card)
  also have "\<dots> = 2" unfolding st by simp
  finally show ?thesis using st ev(4,5) by simp
qed

theorem interactive_evidence_complete_witness:
  "let ev = [\<lparr>ev_stage = '' pty_text_echoed '', ev_at = 10\<rparr>,
             \<lparr>ev_stage = ''PTY_ENTER_SENT'', ev_at = 12\<rparr>]
   in validateDeliveryEvidence ''INTERACTIVE'' ''e1'' ev 5 20 = Inr () \<and> length ev = 2"
proof -
  let ?ev = "[\<lparr>ev_stage = '' pty_text_echoed '', ev_at = 10\<rparr>,
             \<lparr>ev_stage = ''PTY_ENTER_SENT'', ev_at = 12\<rparr>]"
  have "validateDeliveryEvidence ''INTERACTIVE'' ''e1'' ?ev 5 20 = Inr ()"
    by (simp add: validateDeliveryEvidence_def text_eval blank_def)
  with interactive_evidence_complete [OF this] show ?thesis by simp
qed

subsection \<open>Runtime definitions\<close>

lemma normalizeRuntimeDefinition_ok:
  "normalizeRuntimeDefinition k c ref host n = Inr (k', c') \<Longrightarrow>
   c' = to_upper (trim_space c) \<and> k' = runtimeKind k c' \<and> c' \<in> set runtime_connectors \<and>
   (k' = RuntimeKindWorker \<or> k' = RuntimeKindInteractive) \<and>
   1 \<le> n \<and> n \<le> MaxRuntimeConcurrency \<and>
   (k' = RuntimeKindInteractive \<longrightarrow> c' = ''INTERACTIVE'' \<and> n = 1 \<and> \<not> blank host) \<and>
   (k' = RuntimeKindWorker \<longrightarrow> c' \<noteq> ''INTERACTIVE'')"
  by (auto simp: normalizeRuntimeDefinition_def Let_def split: if_splits)

subsection \<open>Presence\<close>

lemma refresh_runtime_idem: "refresh_runtime now (refresh_runtime now r) = refresh_runtime now r"
  by (simp add: refresh_runtime_def presence_expired_def)

lemma refresh_runtime_eq: "\<not> presence_expired now r \<Longrightarrow> refresh_runtime now r = r"
  by (simp add: refresh_runtime_def)

text \<open>
  Expiring presence only ever takes runtimes offline: after it, a runtime reads ONLINE only if its
  last heartbeat is at most 45 seconds old (or it never sent one), and every runtime that is not
  expired is left exactly as it was.
\<close>

theorem refresh_presence_sound:
  "(\<forall>k r. m_get (st_runtimes (RefreshRuntimePresence st now)) k = Some r \<and> rt_status r = ''ONLINE'' \<longrightarrow>
      rt_last_seen_at r = 0 \<or> now - rt_last_seen_at r \<le> RuntimeOfflineAfter) \<and>
   (\<forall>k r. m_get (st_runtimes st) k = Some r \<and> \<not> presence_expired now r \<longrightarrow>
      m_get (st_runtimes (RefreshRuntimePresence st now)) k = Some r)"
proof (intro conjI allI impI)
  fix k r
  assume a: "m_get (st_runtimes (RefreshRuntimePresence st now)) k = Some r \<and> rt_status r = ''ONLINE''"
  then obtain q where "m_get (st_runtimes st) k = Some q" "r = refresh_runtime now q"
    by (auto simp: RefreshRuntimePresence_def)
  with a have "\<not> presence_expired now r"
    by (auto simp: refresh_runtime_def split: if_splits)
  with a show "rt_last_seen_at r = 0 \<or> now - rt_last_seen_at r \<le> RuntimeOfflineAfter"
    by (auto simp: presence_expired_def sub_time_def)
qed (simp add: RefreshRuntimePresence_def refresh_runtime_eq)

theorem refresh_presence_sound_witness:
  "let r = zero_runtime\<lparr>rt_status := ''ONLINE'', rt_last_seen_at := 5\<rparr>;
       st = EmptyState\<lparr>st_runtimes := m_put ''r'' r m_empty\<rparr>
   in m_get (st_runtimes (RefreshRuntimePresence st (10 * second))) ''r'' = Some r"
proof -
  let ?r = "zero_runtime\<lparr>rt_status := ''ONLINE'', rt_last_seen_at := 5\<rparr>"
  let ?st = "EmptyState\<lparr>st_runtimes := m_put ''r'' ?r m_empty\<rparr>"
  have "m_get (st_runtimes ?st) ''r'' = Some ?r \<and> \<not> presence_expired (10 * second) ?r"
    by (simp add: presence_expired_def sub_time_def)
  then show ?thesis
    using refresh_presence_sound [of ?st "10 * second"] by (simp add: Let_def)
qed

end
