(* ===== verification/V_Agents.thy ===== *)
theory V_Agents
  imports Protocol_Core
begin

text \<open>
  The blocks of \<open>protocol.ValidateTransition\<close> on principals: registration, the standing check every
  other transition starts with, the \<open>agent.*\<close> transitions and \<open>project.settings.update\<close>. Each block
  returns the payload, normalised where the code normalises it, or the block's first error.
\<close>

subsection \<open>Registration and standing\<close>

definition validate_register :: "state \<Rightarrow> string \<Rightarrow> payload \<Rightarrow> payload result" where
  "validate_register st eid payload =
     (case payload of AgentRegistered p \<Rightarrow>
        fail_if (eid = [] \<or> ar_public_key p = [] \<or>
            (ar_principal_type p \<noteq> PrincipalHuman \<and> ar_principal_type p \<noteq> PrincipalAgent))
          (Err ''agent ID, public key, and valid principal type are required'')
        (fail_if (m_has (st_agents st) eid) (Err ''principal already exists'')
        (if ar_principal_type p = PrincipalAgent then
           let providers = RegistrableProviders st in
           (case ValidateAgentActorID providers eid of
              None \<Rightarrow> Inr payload
            | Some e \<Rightarrow>
                (case cut_at CHR ''-'' eid of (name, _, hyphenated) \<Rightarrow>
                 if hyphenated \<and> \<not> provider_has providers name \<and> ValidateProviderName name = None
                 then (if (case m_get (st_providers st) name of
                             None \<Rightarrow> False | Some v \<Rightarrow> pv_status v = ProviderStatusRetired)
                       then Inl (NotRegistered (''provider '' @ quoted name @
                              '' is retired; reactivate it with `agent-comms provider add '' @ name @
                              ''` before registering '' @ quoted eid))
                       else Inl (NotRegistered (''provider '' @ quoted name @
                              ''; register it with `agent-comms provider add '' @ name @
                              ''` (known providers: '' @
                              join_with '', '' (provider_names providers) @ '')'')))
                 else Inl e))
         else Inr payload))
      | _ \<Rightarrow> Inl (Err ''invalid agent registration payload''))"

definition check_standing :: "state \<Rightarrow> string \<Rightarrow> event_type \<Rightarrow> string \<Rightarrow> unit result" where
  "check_standing st actor typ eid =
     and_then (active st actor) (\<lambda>a.
       let selfKeyRotation = (typ = Agent_ev AgentRotateKey \<and> eid = actor);
           selfRevoke = (typ = Agent_ev AgentRevoke \<and> eid = actor);
           role = to_lower (ag_role a);
           role = (if role = [] then ''none'' else role)
       in fail_if (elevated typ \<and> \<not> selfKeyRotation \<and> \<not> selfRevoke \<and>
              ag_role a \<noteq> RoleOwner \<and> ag_role a \<noteq> RoleOrchestrator)
            (Err (''owner or orchestrator role required (acting as '' @ actor @
              '', whose current role is '' @ role @
              '' -- run `agent-comms profile current` at the CLI, or check the TUI's status rail, '' @
              ''if this isn't who you meant to be)''))
          (fail_if (typ = Approval_ev ApprovalApprove \<and>
              ap_tier (m_read zero_approval (st_approvals st) eid) = ''HUMAN'' \<and>
              ag_principal_type a \<noteq> PrincipalHuman)
            (Err ''human principal required for this approval'')
          (Inr ())))"

subsection \<open>Roles\<close>

definition validate_activate ::
  "state \<Rightarrow> string \<Rightarrow> string \<Rightarrow> payload \<Rightarrow> time \<Rightarrow> payload result" where
  "validate_activate st actor eid payload now =
     (case m_get (st_agents st) eid of
        None \<Rightarrow> Inl (Err ''pending principal not found'')
      | Some target \<Rightarrow>
        fail_if (ag_status target = ''REVOKED'') (Err ''cannot activate a revoked principal'')
        (fail_if (ag_role target = RoleOwner)
          (Err ''the owner principal's role can never be changed'')
        (case payload of AgentActivated p0 \<Rightarrow>
           let role = normalizeRole (aa_role p0); p = p0\<lparr>aa_role := role\<rparr> in
           validateRoleValue role
           (fail_if (role = RoleOwner)
             (Err ''the OWNER role can only be assigned once, at project creation'')
           (fail_if (role = RoleOrchestrator \<and>
               ag_principal_type (agent_of st actor) \<noteq> PrincipalHuman)
             (Err ''human principal required to grant the orchestrator role'')
           (fail_if (role = RoleOrchestrator \<and> \<not> hasOrchestratorGrantApproval st eid now)
             (Err (''granting the orchestrator role to '' @ eid @
               '' requires an approved, unexpired HUMAN-tier approval first (an expired approval '' @
               ''must be re-requested): run `approval request --id '' @
               OrchestratorGrantApprovalID eid @ '' --tier HUMAN --action '' @
               OrchestratorGrantApprovalAction eid @ ''`, then have a human approve it separately''))
           (Inr (AgentActivated p)))))
         | _ \<Rightarrow> Inl (Err ''valid activation role is required''))))"

definition validate_switch_role ::
  "state \<Rightarrow> string \<Rightarrow> string \<Rightarrow> payload \<Rightarrow> time \<Rightarrow> payload result" where
  "validate_switch_role st actor eid payload now =
     fail_if (eid \<noteq> actor) (Err ''a role can only be switched for your own actor'')
     (fail_if (ag_role (agent_of st actor) = RoleOwner)
       (Err ''the owner principal cannot switch its own role'')
     (case payload of AgentRoleSwitched p0 \<Rightarrow>
        let role = normalizeRole (sw_role p0); p = p0\<lparr>sw_role := role\<rparr> in
        validateRoleValue role
        (fail_if (role = RoleOwner)
          (Err ''the OWNER role can only be assigned once, at project creation'')
        (fail_if (role = RoleOrchestrator \<and>
            ag_principal_type (agent_of st actor) \<noteq> PrincipalHuman)
          (Err ''human principal required to switch to the orchestrator role'')
        (fail_if (role = RoleOrchestrator \<and> \<not> hasOrchestratorGrantApproval st actor now)
          (Err (''switching to the orchestrator role requires an approved, unexpired HUMAN-tier '' @
            ''approval first (an expired approval must be re-requested): run `approval request --id '' @
            OrchestratorGrantApprovalID actor @ '' --tier HUMAN --action '' @
            OrchestratorGrantApprovalAction actor @ ''`, then have a human approve it separately''))
        (Inr (AgentRoleSwitched p)))))
      | _ \<Rightarrow> Inl (Err ''valid role is required'')))"

subsection \<open>Keys, names and the end of a principal\<close>

definition validate_elevate_key ::
  "state \<Rightarrow> string \<Rightarrow> string \<Rightarrow> payload \<Rightarrow> payload result" where
  "validate_elevate_key st actor eid payload =
     fail_if (eid \<noteq> actor) (Err ''an elevated key can only be registered for your own actor'')
     (fail_if (ag_principal_type (agent_of st actor) \<noteq> PrincipalHuman)
       (Err ''only a human principal may register an elevated key'')
     (fail_if (case payload of AgentElevatedKeyRegistered p \<Rightarrow> ek_public_key p = [] | _ \<Rightarrow> True)
       (Err ''a public key is required to register an elevated key'')
     (Inr payload)))"

definition validate_rotate_key :: "string \<Rightarrow> string \<Rightarrow> payload \<Rightarrow> payload result" where
  "validate_rotate_key actor eid payload =
     fail_if (eid \<noteq> actor) (Err ''a key can only be rotated for your own actor'') (Inr payload)"

definition validate_rename :: "state \<Rightarrow> string \<Rightarrow> payload \<Rightarrow> payload result" where
  "validate_rename st eid payload =
     (case m_get (st_agents st) eid of
        None \<Rightarrow> Inl (Err ''principal not found'')
      | Some target \<Rightarrow>
        fail_if (ag_status target = ''REVOKED'') (Err ''cannot rename a revoked principal'')
        (fail_if (case payload of AgentRenamed p \<Rightarrow> blank (rn_display_name p) | _ \<Rightarrow> True)
          (Err ''display name is required'')
        (Inr payload)))"

definition protected_target :: "state \<Rightarrow> string \<Rightarrow> string \<Rightarrow> agent \<Rightarrow> bool" where
  "protected_target st actor eid target =
     (eid \<noteq> actor \<and>
      (ag_role target = RoleOrchestrator \<or> ag_principal_type target = PrincipalHuman) \<and>
      ag_principal_type (agent_of st actor) \<noteq> PrincipalHuman)"

definition validate_suspend :: "state \<Rightarrow> string \<Rightarrow> string \<Rightarrow> payload \<Rightarrow> payload result" where
  "validate_suspend st actor eid payload =
     (case m_get (st_agents st) eid of
        None \<Rightarrow> Inl (Err ''principal not found'')
      | Some target \<Rightarrow>
        fail_if (ag_status target = ''REVOKED'') (Err ''cannot suspend a revoked principal'')
        (fail_if (ag_role target = RoleOwner) (Err ''owner principal cannot be suspended'')
        (fail_if (protected_target st actor eid target)
          (Err ''human principal required to suspend an orchestrator or human principal'')
        (Inr payload))))"

definition validate_revoke :: "state \<Rightarrow> string \<Rightarrow> string \<Rightarrow> payload \<Rightarrow> payload result" where
  "validate_revoke st actor eid payload =
     (case m_get (st_agents st) eid of
        None \<Rightarrow> Inl (Err ''principal not found'')
      | Some target \<Rightarrow>
        fail_if (ag_status target = ''REVOKED'') (Err ''principal is already revoked'')
        (fail_if (ag_role target = RoleOwner) (Err ''owner principal cannot be revoked'')
        (fail_if (protected_target st actor eid target)
          (Err ''human principal required to revoke an orchestrator or human principal'')
        (Inr payload))))"

definition validate_delete :: "state \<Rightarrow> string \<Rightarrow> string \<Rightarrow> payload \<Rightarrow> payload result" where
  "validate_delete st actor eid payload =
     (case m_get (st_agents st) eid of
        None \<Rightarrow> Inl (Err ''principal not found'')
      | Some target \<Rightarrow>
        fail_if (ag_status target \<noteq> ''REVOKED'') (Err ''principal must be revoked before deletion'')
        (fail_if (ag_principal_type (agent_of st actor) \<noteq> PrincipalHuman)
          (Err ''human principal required to delete a principal'')
        (fail_if (case payload of AgentDeleted p \<Rightarrow> blank (ad_reason p) | _ \<Rightarrow> True)
          (Err ''deletion reason is required'')
        (Inr payload))))"

definition validate_agent ::
  "state \<Rightarrow> string \<Rightarrow> agent_event \<Rightarrow> string \<Rightarrow> payload \<Rightarrow> time \<Rightarrow> payload result" where
  "validate_agent st actor e eid payload now =
     (case e of
        AgentRegister \<Rightarrow> validate_register st eid payload
      | AgentActivate \<Rightarrow> validate_activate st actor eid payload now
      | AgentSwitchRole \<Rightarrow> validate_switch_role st actor eid payload now
      | AgentElevateKey \<Rightarrow> validate_elevate_key st actor eid payload
      | AgentRotateKey \<Rightarrow> validate_rotate_key actor eid payload
      | AgentRename \<Rightarrow> validate_rename st eid payload
      | AgentSuspend \<Rightarrow> validate_suspend st actor eid payload
      | AgentRevoke \<Rightarrow> validate_revoke st actor eid payload
      | AgentDelete \<Rightarrow> validate_delete st actor eid payload)"

subsection \<open>Project settings\<close>

definition duration_between :: "string \<Rightarrow> duration \<Rightarrow> duration \<Rightarrow> bool" where
  "duration_between s lo hi =
     (case parse_duration s of None \<Rightarrow> False | Some d \<Rightarrow> \<not> (d < lo \<or> d > hi))"

definition validate_settings :: "state \<Rightarrow> string \<Rightarrow> payload \<Rightarrow> payload result" where
  "validate_settings st actor payload =
     fail_if (ag_principal_type (agent_of st actor) \<noteq> PrincipalHuman)
       (Err ''human principal required to update project settings'')
     (case payload of ProjectSettingsUpdated s \<Rightarrow>
        fail_if (\<not> duration_between (su_default_lease s) (15 * minute) (24 * hour))
          (Err ''default lease must be between 15m and 24h'')
        (fail_if (\<not> duration_between (su_stale_grace s) (5 * minute) (24 * hour))
          (Err ''stale grace must be between 5m and 24h'')
        (fail_if (\<not> duration_between (su_active_retention s) (24 * hour) (8760 * hour))
          (Err ''active retention must be between 24h and 8760h'')
        (fail_if (su_summary_limit s < 256 \<or> su_summary_limit s > MaxCommandBytes)
          (Err (''summary limit must be between 256 and '' @ dec_int MaxCommandBytes))
        (fail_if (su_artifact_limit_bytes s < 1024 \<or> su_artifact_limit_bytes s > MaxDraftStorageBytes)
          (Err (''artifact limit must be between 1024 and '' @ dec_int MaxDraftStorageBytes @ '' bytes''))
        (Inr payload)))))
      | _ \<Rightarrow> Inl (Err ''invalid project settings payload''))"

subsection \<open>What an accepted transition tells\<close>

lemma activate_Inr:
  assumes "validate_activate st actor eid payload now = Inr p"
  shows "\<exists>q target. p = AgentActivated q \<and> m_get (st_agents st) eid = Some target \<and>
    ag_status target \<noteq> ''REVOKED'' \<and> ag_role target \<noteq> RoleOwner \<and> aa_role q \<noteq> RoleOwner \<and>
    aa_role q \<noteq> [] \<and> length (aa_role q) \<le> maxRoleLength \<and>
    (aa_role q = RoleOrchestrator \<longrightarrow>
       ag_principal_type (agent_of st actor) = PrincipalHuman \<and>
       hasOrchestratorGrantApproval st eid now)"
  using assms
  by (auto simp: validate_activate_def validateRoleValue_def Let_def
      split: option.splits payload.splits)

lemma switch_role_Inr:
  assumes "validate_switch_role st actor eid payload now = Inr p"
  shows "\<exists>q. p = AgentRoleSwitched q \<and> eid = actor \<and> ag_role (agent_of st actor) \<noteq> RoleOwner \<and>
    sw_role q \<noteq> RoleOwner \<and> sw_role q \<noteq> [] \<and> length (sw_role q) \<le> maxRoleLength \<and>
    (sw_role q = RoleOrchestrator \<longrightarrow>
       ag_principal_type (agent_of st actor) = PrincipalHuman \<and>
       hasOrchestratorGrantApproval st actor now)"
  using assms
  by (auto simp: validate_switch_role_def validateRoleValue_def Let_def split: payload.splits)

lemma suspend_Inr:
  "validate_suspend st actor eid payload = Inr p \<Longrightarrow>
   p = payload \<and> (\<exists>target. m_get (st_agents st) eid = Some target \<and>
     ag_status target \<noteq> ''REVOKED'' \<and> ag_role target \<noteq> RoleOwner)"
  by (auto simp: validate_suspend_def split: option.splits)

lemma revoke_Inr:
  "validate_revoke st actor eid payload = Inr p \<Longrightarrow>
   p = payload \<and> (\<exists>target. m_get (st_agents st) eid = Some target \<and>
     ag_status target \<noteq> ''REVOKED'' \<and> ag_role target \<noteq> RoleOwner \<and>
     \<not> protected_target st actor eid target)"
  by (auto simp: validate_revoke_def split: option.splits)

lemma delete_Inr:
  "validate_delete st actor eid payload = Inr p \<Longrightarrow>
   p = payload \<and> (\<exists>target. m_get (st_agents st) eid = Some target \<and> ag_status target = ''REVOKED'') \<and>
   ag_principal_type (agent_of st actor) = PrincipalHuman"
  by (auto simp: validate_delete_def split: option.splits)

lemma register_Inr:
  "validate_register st eid payload = Inr p \<Longrightarrow>
   p = payload \<and> eid \<noteq> [] \<and> m_get (st_agents st) eid = None \<and>
   (\<exists>q. p = AgentRegistered q \<and> ar_public_key q \<noteq> [] \<and>
     (ar_principal_type q = PrincipalHuman \<or> ar_principal_type q = PrincipalAgent) \<and>
     (ar_principal_type q = PrincipalAgent \<longrightarrow>
        ValidateAgentActorID (RegistrableProviders st) eid = None))"
  by (auto simp: validate_register_def m_has_def Let_def
      split: payload.splits if_splits option.splits prod.splits)

lemma settings_Inr:
  "validate_settings st actor payload = Inr p \<Longrightarrow>
   p = payload \<and> ag_principal_type (agent_of st actor) = PrincipalHuman \<and>
   (\<exists>s. p = ProjectSettingsUpdated s \<and>
     duration_between (su_default_lease s) (15 * minute) (24 * hour) \<and>
     duration_between (su_stale_grace s) (5 * minute) (24 * hour) \<and>
     duration_between (su_active_retention s) (24 * hour) (8760 * hour) \<and>
     256 \<le> su_summary_limit s \<and> su_summary_limit s \<le> MaxCommandBytes \<and>
     1024 \<le> su_artifact_limit_bytes s \<and> su_artifact_limit_bytes s \<le> MaxDraftStorageBytes)"
  by (auto simp: validate_settings_def split: payload.splits)

end
