(* ===== verification/V_Tasks.thy ===== *)
theory V_Tasks
  imports V_Agents
begin

text \<open>
  The \<open>task.*\<close> block of \<open>protocol.ValidateTransition\<close>: creation, the exclusive claim with its overlap
  and worktree checks, lease renewal, handoff, and the status changes with review and takeover.
\<close>

definition validate_task_created :: "bool \<Rightarrow> task_created \<Rightarrow> payload result" where
  "validate_task_created exists p =
     (let missing =
        (if tc_title p = [] then [''title''] else []) @
        (if tc_repository p = [] then [''repository''] else []) @
        (if tc_branch p = [] then [''branch''] else []) @
        (if tc_resources p = [] then [''resources''] else [])
      in fail_if (missing \<noteq> []) (Err (join_with '', '' missing @ '' required''))
         (fail_if exists (Err ''task already exists'') (Inr (TaskCreated p))))"

subsection \<open>Claiming\<close>

definition task_held :: "task \<Rightarrow> bool" where
  "task_held v =
     (tk_owner v \<noteq> [] \<and> \<not> tk_archived v \<and> tk_status v \<noteq> ''COMPLETED'' \<and> tk_status v \<noteq> ''CANCELLED'')"

definition shared_write :: "string \<Rightarrow> string \<Rightarrow> string" where
  "shared_write a b = ''shared-write:'' @ a @ '':'' @ b"

definition claim_conflict :: "state \<Rightarrow> string \<Rightarrow> string list \<Rightarrow> time \<Rightarrow> task \<Rightarrow> bool" where
  "claim_conflict st eid resources now v =
     (tk_id v \<noteq> eid \<and> task_held v \<and> overlap resources (tk_resources v) \<and>
      fst (eligibleActionApprovalID st (shared_write eid (tk_id v)) now) = [] \<and>
      fst (eligibleActionApprovalID st (shared_write (tk_id v) eid) now) = [])"

definition claim_conflict_error :: "state \<Rightarrow> string \<Rightarrow> time \<Rightarrow> task \<Rightarrow> err" where
  "claim_conflict_error st eid now v =
     (if snd (eligibleActionApprovalID st (shared_write eid (tk_id v)) now) \<or>
         snd (eligibleActionApprovalID st (shared_write (tk_id v) eid) now)
      then Err (''write lease overlaps task '' @ tk_id v @
             '' and the shared-write approval has expired; request a fresh approval'')
      else Err (''write lease overlaps task '' @ tk_id v))"

definition worktree_conflict :: "string \<Rightarrow> string \<Rightarrow> time \<Rightarrow> task \<Rightarrow> bool" where
  "worktree_conflict actor worktree now v =
     (\<not> (tk_worktree v = [] \<or> tk_owner v = [] \<or> tk_archived v \<or> tk_status v = ''COMPLETED'' \<or>
         tk_status v = ''CANCELLED'') \<and>
      tk_worktree v = worktree \<and> tk_owner v \<noteq> actor \<and> after (tk_lease_until v) now)"

text \<open>The clock time of the message, \<open>Format("15:04")\<close>; the host's time zone is taken to be UTC.\<close>

definition clock_text :: "time \<Rightarrow> string" where
  "clock_text t =
     (let two = (\<lambda>n. if n < 10 then ''0'' @ dec_int n else dec_int n)
      in two ((t div hour) mod 24) @ '':'' @ two ((t div minute) mod 60))"

definition validate_task_claimed ::
  "state \<Rightarrow> string \<Rightarrow> string \<Rightarrow> task \<Rightarrow> task_claimed \<Rightarrow> time \<Rightarrow> payload result" where
  "validate_task_claimed st actor eid t p now =
     fail_if (tk_owner t \<noteq> [] \<or> (tk_status t \<noteq> ''OPEN'' \<and> tk_status t \<noteq> ''OFFERED''))
       (Err ''task is no longer available to claim'')
     (fail_if (\<not> scopeAllows (ag_scopes (agent_of st actor)) (tk_resources t))
       (Err ''task resources exceed principal scopes'')
     (case List.find (claim_conflict st eid (tk_resources t) now) (m_vals (st_tasks st)) of
        Some v \<Rightarrow> Inl (claim_conflict_error st eid now v)
      | None \<Rightarrow>
        let p = p\<lparr>cl_lease_until := now + default_lease st\<rparr>;
            p = (if tk_worktree t \<noteq> [] \<and> cl_worktree p = []
                 then p\<lparr>cl_worktree := tk_worktree t\<rparr> else p)
        in if cl_worktree p \<noteq> [] then
             (case List.find (worktree_conflict actor (cl_worktree p) now) (m_vals (st_tasks st)) of
                Some v \<Rightarrow> Inl (Err (''worktree '' @ cl_worktree p @ '' is already leased by '' @
                  tk_owner v @ '' (task '' @ tk_id v @ '', expires '' @
                  clock_text (tk_lease_until v) @ '')''))
              | None \<Rightarrow> Inr (TaskClaimed p))
           else Inr (TaskClaimed p)))"

subsection \<open>Renewing, handing over and changing status\<close>

definition validate_task_renewed ::
  "state \<Rightarrow> string \<Rightarrow> task \<Rightarrow> task_renewed \<Rightarrow> time \<Rightarrow> payload result" where
  "validate_task_renewed st actor t p now =
     fail_if (tk_owner t \<noteq> actor) (Err ''task owner required'')
     (fail_if (blank (tr_progress p)) (Err ''progress summary is required'')
     (Inr (TaskRenewed (p\<lparr>tr_lease_until := now + default_lease st\<rparr>))))"

fun allowed_status :: "task_event \<Rightarrow> string list option" where
  "allowed_status TaskStart = Some [''CLAIMED'', ''BLOCKED'']"
| "allowed_status TaskBlock = Some [''IN_PROGRESS'']"
| "allowed_status TaskReview = Some [''IN_PROGRESS'']"
| "allowed_status TaskComplete = Some [''IN_PROGRESS'', ''REVIEW'']"
| "allowed_status TaskCancel =
     Some [''OPEN'', ''OFFERED'', ''CLAIMED'', ''IN_PROGRESS'', ''BLOCKED'', ''REVIEW'']"
| "allowed_status _ = None"

definition status_refused :: "task_event \<Rightarrow> string \<Rightarrow> bool" where
  "status_refused e status =
     (case allowed_status e of None \<Rightarrow> False | Some allowed \<Rightarrow> status \<notin> set allowed)"

definition governs :: "agent \<Rightarrow> bool" where
  "governs a = (ag_role a = RoleOwner \<or> ag_role a = RoleOrchestrator)"

definition takeover_approval ::
  "state \<Rightarrow> task_event \<Rightarrow> string \<Rightarrow> task_status_change \<Rightarrow> time \<Rightarrow> task_status_change result" where
  "takeover_approval st e eid p now =
     (if e = TaskTakeover then
        (case eligibleActionApprovalID st (''task.takeover:'' @ eid) now of (approvalID, expired) \<Rightarrow>
         fail_if (approvalID = [])
           (if expired then Err ''takeover approval has expired; request a fresh approval''
            else Err ''approved takeover is required'')
         (Inr (p\<lparr>ts_approval_id := approvalID\<rparr>)))
      else fail_if (ts_approval_id p \<noteq> [])
        (Err ''approval_id is reserved for server-normalized task.takeover events'') (Inr p))"

definition validate_task_status ::
  "state \<Rightarrow> string \<Rightarrow> task_event \<Rightarrow> string \<Rightarrow> task \<Rightarrow> task_status_change \<Rightarrow> time \<Rightarrow> payload result" where
  "validate_task_status st actor e eid t p0 now =
     fail_if (status_refused e (tk_status t))
       (Err (type_name (Task_ev e) @ '' is invalid while task is '' @ tk_status t))
     (and_then (takeover_approval st e eid p0 now) (\<lambda>p.
      let needs_review = (e = TaskComplete \<and>
            (tk_risk t \<noteq> ''ROUTINE'' \<or>
             se_require_review (EffectiveProjectSettings (st_settings st))))
      in fail_if (needs_review \<and> tk_status t \<noteq> ''REVIEW'')
           (Err ''elevated task requires review before completion'')
         (fail_if (needs_review \<and> \<not> governs (agent_of st actor)) (Err ''eligible reviewer required'')
         (fail_if (e = TaskHandoffAccept \<and> tk_handoff_to t \<noteq> actor)
           (Err ''handoff target required'')
         (fail_if (e \<noteq> TaskHandoffAccept \<and> e \<noteq> TaskTakeover \<and> tk_owner t \<noteq> [] \<and>
             tk_owner t \<noteq> actor \<and> \<not> governs (agent_of st actor))
           (Err ''task owner or orchestrator required'')
         (Inr (TaskStatus p)))))))"

definition validate_task ::
  "state \<Rightarrow> string \<Rightarrow> task_event \<Rightarrow> string \<Rightarrow> payload \<Rightarrow> time \<Rightarrow> payload result" where
  "validate_task st actor e eid payload now =
     (let t = m_read zero_task (st_tasks st) eid;
          exists = m_has (st_tasks st) eid
      in fail_if (e \<noteq> TaskCreate \<and> \<not> exists) (Err ''task not found'')
         (case payload of
            TaskCreated p \<Rightarrow> validate_task_created exists p
          | TaskClaimed p \<Rightarrow> validate_task_claimed st actor eid t p now
          | TaskRenewed p \<Rightarrow> validate_task_renewed st actor t p now
          | TaskHandoff p \<Rightarrow>
              fail_if (tk_owner t \<noteq> actor) (Err ''task owner required'') (Inr payload)
          | TaskStatus p \<Rightarrow> validate_task_status st actor e eid t p now
          | _ \<Rightarrow> Inr payload))"

subsection \<open>The exclusive claim\<close>

lemma find_none_vals:
  "List.find P (m_vals m) = None \<longleftrightarrow> (\<forall>k v. m_get m k = Some v \<longrightarrow> \<not> P v)"
  by (auto simp: find_None_iff m_vals_set)

lemma claim_Inr:
  assumes "validate_task_claimed st actor eid t p now = Inr q"
  shows "tk_owner t = []" "tk_status t = ''OPEN'' \<or> tk_status t = ''OFFERED''"
    "scopeAllows (ag_scopes (agent_of st actor)) (tk_resources t)"
    "\<forall>k v. m_get (st_tasks st) k = Some v \<longrightarrow> \<not> claim_conflict st eid (tk_resources t) now v"
    "\<exists>r. q = TaskClaimed r \<and> cl_lease_until r = now + default_lease st \<and>
       cl_worktree r = (if cl_worktree p = [] then tk_worktree t else cl_worktree p) \<and>
       (cl_worktree r \<noteq> [] \<longrightarrow>
         (\<forall>k v. m_get (st_tasks st) k = Some v \<longrightarrow> \<not> worktree_conflict actor (cl_worktree r) now v))"
  using assms
  by (auto simp: validate_task_claimed_def find_none_vals Let_def
      split: option.splits if_splits)

text \<open>
  C28. An accepted claim is exclusive: the task was free and open or offered, its resources lie within
  the claimer's scopes, no other held task overlaps it unless a live shared-write approval for the
  pair exists, nobody else holds a live lease on the worktree, and the lease runs from now for the
  project's default lease, whatever the client asked for.
\<close>

theorem claim_is_exclusive:
  assumes "validate_task st actor TaskClaim eid (TaskClaimed p) now = Inr q"
  shows "\<exists>t r. m_get (st_tasks st) eid = Some t \<and> q = TaskClaimed r \<and> tk_owner t = [] \<and>
    (tk_status t = ''OPEN'' \<or> tk_status t = ''OFFERED'') \<and>
    scopeAllows (ag_scopes (agent_of st actor)) (tk_resources t) \<and>
    cl_lease_until r = now + default_lease st \<and>
    cl_worktree r = (if cl_worktree p = [] then tk_worktree t else cl_worktree p) \<and>
    (\<forall>k v. m_get (st_tasks st) k = Some v \<and> tk_owner v \<noteq> [] \<and> \<not> tk_archived v \<and>
        tk_status v \<noteq> ''COMPLETED'' \<and> tk_status v \<noteq> ''CANCELLED'' \<longrightarrow>
      (tk_id v \<noteq> eid \<and> overlap (tk_resources t) (tk_resources v) \<longrightarrow>
        fst (eligibleActionApprovalID st (''shared-write:'' @ eid @ '':'' @ tk_id v) now) \<noteq> [] \<or>
        fst (eligibleActionApprovalID st (''shared-write:'' @ tk_id v @ '':'' @ eid) now) \<noteq> []) \<and>
      (cl_worktree r \<noteq> [] \<and> cl_worktree r = tk_worktree v \<longrightarrow>
        tk_owner v = actor \<or> tk_lease_until v \<le> now))"
proof -
  from assms obtain t where t: "m_get (st_tasks st) eid = Some t"
    and c: "validate_task_claimed st actor eid t p now = Inr q"
    by (auto simp: validate_task_def m_has_def)
  note claim = claim_Inr [OF c]
  from claim(5) obtain r where r: "q = TaskClaimed r" "cl_lease_until r = now + default_lease st"
    "cl_worktree r = (if cl_worktree p = [] then tk_worktree t else cl_worktree p)"
    and wt: "cl_worktree r \<noteq> [] \<longrightarrow>
      (\<forall>k v. m_get (st_tasks st) k = Some v \<longrightarrow> \<not> worktree_conflict actor (cl_worktree r) now v)"
    by blast
  have "(tk_id v \<noteq> eid \<and> overlap (tk_resources t) (tk_resources v) \<longrightarrow>
        fst (eligibleActionApprovalID st (shared_write eid (tk_id v)) now) \<noteq> [] \<or>
        fst (eligibleActionApprovalID st (shared_write (tk_id v) eid) now) \<noteq> []) \<and>
      (cl_worktree r \<noteq> [] \<and> cl_worktree r = tk_worktree v \<longrightarrow> tk_owner v = actor \<or> tk_lease_until v \<le> now)"
    if "m_get (st_tasks st) k = Some v" "task_held v" for k v
  proof -
    have "\<not> claim_conflict st eid (tk_resources t) now v"
      "cl_worktree r \<noteq> [] \<longrightarrow> \<not> worktree_conflict actor (cl_worktree r) now v"
      using claim(4) wt that(1) by blast+
    with that(2) show ?thesis by (auto simp: claim_conflict_def worktree_conflict_def task_held_def)
  qed
  then have "\<forall>k v. m_get (st_tasks st) k = Some v \<and> task_held v \<longrightarrow>
      (tk_id v \<noteq> eid \<and> overlap (tk_resources t) (tk_resources v) \<longrightarrow>
        fst (eligibleActionApprovalID st (shared_write eid (tk_id v)) now) \<noteq> [] \<or>
        fst (eligibleActionApprovalID st (shared_write (tk_id v) eid) now) \<noteq> []) \<and>
      (cl_worktree r \<noteq> [] \<and> cl_worktree r = tk_worktree v \<longrightarrow> tk_owner v = actor \<or> tk_lease_until v \<le> now)"
    by blast
  with t r claim(1-3) show ?thesis
    unfolding task_held_def shared_write_def by (intro exI [of _ t] exI [of _ r]) simp
qed

theorem claim_is_exclusive_witness:
  "let t1 = zero_task\<lparr>tk_id := ''t1'', tk_status := ''OPEN'', tk_resources := [''src'']\<rparr>;
       t2 = zero_task\<lparr>tk_id := ''t2'', tk_owner := ''b'', tk_resources := [''docs'']\<rparr>;
       st = EmptyState\<lparr>st_agents := m_put ''a'' (zero_agent\<lparr>ag_scopes := [''*'']\<rparr>) m_empty,
              st_tasks := m_put ''t2'' t2 (m_put ''t1'' t1 m_empty)\<rparr>
   in \<exists>r. validate_task st ''a'' TaskClaim ''t1''
        (TaskClaimed \<lparr>cl_lease_until = 99, cl_offer_id = [], cl_worktree = ''w''\<rparr>) 7 = Inr (TaskClaimed r) \<and>
      cl_lease_until r = 7 + 4 * hour \<and> cl_worktree r = ''w''"
proof -
  let ?t1 = "zero_task\<lparr>tk_id := ''t1'', tk_status := ''OPEN'', tk_resources := [''src'']\<rparr>"
  let ?t2 = "zero_task\<lparr>tk_id := ''t2'', tk_owner := ''b'', tk_resources := [''docs'']\<rparr>"
  let ?st = "EmptyState\<lparr>st_agents := m_put ''a'' (zero_agent\<lparr>ag_scopes := [''*'']\<rparr>) m_empty,
              st_tasks := m_put ''t2'' ?t2 (m_put ''t1'' ?t1 m_empty)\<rparr>"
  let ?p = "\<lparr>cl_lease_until = 99, cl_offer_id = [], cl_worktree = ''w''\<rparr>"
  have dl: "default_lease ?st = 4 * hour"
    using default_lease_Empty by (simp add: default_lease_def)
  have v: "validate_task ?st ''a'' TaskClaim ''t1'' (TaskClaimed ?p) 7 =
      Inr (TaskClaimed (?p\<lparr>cl_lease_until := 7 + default_lease ?st\<rparr>))"
    by (simp add: validate_task_def validate_task_claimed_def claim_conflict_def m_vals_def
        worktree_conflict_def task_held_def zero_task_def zero_agent_def scopeAllows_def
        scope_covers_def overlap_def resources_clash_def m_has_def m_lookup_update m_read_def)
  from claim_is_exclusive [OF v] dl v show ?thesis by auto
qed

lemma is_ok_case_none [simp]:
  "is_ok (case x of None \<Rightarrow> a | Some v \<Rightarrow> Inl (f v)) \<longleftrightarrow> x = None \<and> is_ok a"
  by (cases x) simp_all

lemma claim_is_ok:
  "is_ok (validate_task_claimed st actor eid t p now) \<longleftrightarrow>
     \<not> (tk_owner t \<noteq> [] \<or> (tk_status t \<noteq> ''OPEN'' \<and> tk_status t \<noteq> ''OFFERED'')) \<and>
     scopeAllows (ag_scopes (agent_of st actor)) (tk_resources t) \<and>
     List.find (claim_conflict st eid (tk_resources t) now) (m_vals (st_tasks st)) = None \<and>
     (let w = (if cl_worktree p = [] then tk_worktree t else cl_worktree p)
      in w \<noteq> [] \<longrightarrow> List.find (worktree_conflict actor w now) (m_vals (st_tasks st)) = None)"
  by (auto simp: validate_task_claimed_def Let_def)

lemma claim_any_order:
  assumes "\<And>k. m_get (st_tasks st) k = m_get tasks k"
  shows "is_ok (validate_task_claimed st actor eid t p now) =
    is_ok (validate_task_claimed (st\<lparr>st_tasks := tasks\<rparr>) actor eid t p now)"
proof -
  have "eligibleActionApprovalID (st\<lparr>st_tasks := tasks\<rparr>) = eligibleActionApprovalID st"
    by (simp add: eligibleActionApprovalID_def fun_eq_iff)
  then have "claim_conflict (st\<lparr>st_tasks := tasks\<rparr>) = claim_conflict st"
    by (simp add: claim_conflict_def fun_eq_iff)
  moreover have "List.find P (m_vals (st_tasks st)) = None \<longleftrightarrow> List.find P (m_vals tasks) = None" for P
    using assms by (simp add: find_none_vals)
  ultimately show ?thesis
    by (simp add: claim_is_ok)
qed

subsection \<open>Status changes\<close>

lemma task_status_Inr:
  assumes "validate_task_status st actor e eid t p now = Inr q"
  shows "\<not> status_refused e (tk_status t)" "\<exists>r. q = TaskStatus r \<and>
      (if e = TaskTakeover
       then ts_approval_id r = fst (eligibleActionApprovalID st (''task.takeover:'' @ eid) now) \<and>
            ts_approval_id r \<noteq> []
       else ts_approval_id r = [])"
    "e = TaskComplete \<Longrightarrow>
       tk_risk t \<noteq> ''ROUTINE'' \<or> se_require_review (st_settings st) \<Longrightarrow>
       tk_status t = ''REVIEW'' \<and> governs (agent_of st actor)"
    "e = TaskHandoffAccept \<Longrightarrow> tk_handoff_to t = actor"
    "e \<noteq> TaskHandoffAccept \<Longrightarrow> e \<noteq> TaskTakeover \<Longrightarrow>
       tk_owner t = [] \<or> tk_owner t = actor \<or> governs (agent_of st actor)"
  using assms
  by (auto simp: validate_task_status_def takeover_approval_def Let_def
      split: if_splits prod.splits)

end
