(* ===== verification/V_Messages.thy ===== *)
theory V_Messages
  imports V_Tasks
begin

text \<open>
  The \<open>message.*\<close> blocks of \<open>protocol.ValidateTransition\<close>: posting, and the four responses a
  recipient can give. A payload of another type panics here, as \<open>payload.(T)\<close> does.
\<close>

definition message_kinds :: "string list" where
  "message_kinds = [''FYI'', ''ACTION'', ''CONTRACT'', ''BLOCKER'', ''DECISION'']"

definition not_active :: "state \<Rightarrow> string \<Rightarrow> bool" where
  "not_active st recipient =
     (case m_get (st_agents st) recipient of
        None \<Rightarrow> True | Some a \<Rightarrow> ag_status a \<noteq> ''ACTIVE'')"

definition validate_post ::
  "crypto \<Rightarrow> state \<Rightarrow> string \<Rightarrow> string \<Rightarrow> payload \<Rightarrow> time \<Rightarrow> payload result" where
  "validate_post cr st actor eid payload now =
     (case payload of MessagePosted p \<Rightarrow>
        fail_if (mp_kind p \<notin> set message_kinds \<or> mp_to p = [] \<or> mp_subject p = [])
          (Err (''valid kind ('' @ join_with '', '' message_kinds @
                ''), recipient, and subject are required''))
        (fail_if (m_has (st_messages st) eid) (Err ''message already exists'')
        (fail_if (length (mp_to p) > MaxRecipients)
          (Err (''message recipients exceed '' @ dec_digits MaxRecipients))
        (case List.find (not_active st) (mp_to p) of
           Some recipient \<Rightarrow>
             Inl (Err (''active message recipient '' @ recipient @ '' is required''))
         | None \<Rightarrow>
           fail_if (length (mp_body p) > 1200)
             (Err (''message body exceeds 1200 characters (got '' @ dec_digits (length (mp_body p)) @
                ''); the limit applies however the body is supplied, including --body-file. '' @
                ''Put longer content in a document (agent-comms document create --body-file '' @
                ''<path>) and reference its ID in the message''))
           (fail_if (mp_kind p = ''CONTRACT'' \<and> \<not> governs (agent_of st actor) \<and>
               \<not> hasBoundApproval st (''contract:'' @ eid)
                   (ApprovalSubjectDigest cr actor (Message_ev MessagePost) eid payload) [] now)
             (Err ''approved contract publication is required'')
           (Inr payload)))))
      | _ \<Rightarrow> Inl Panic)"

text \<open>The loop over the recipients keeps the status of the last entry of the actor.\<close>

definition recipient_status :: "message \<Rightarrow> string \<Rightarrow> string option" where
  "recipient_status m actor =
     fold (\<lambda>r found. if rs_principal r = actor then Some (rs_status r) else found)
       (ms_recipients m) None"

definition response_of :: "message_event \<Rightarrow> string \<Rightarrow> string \<Rightarrow> string result" where
  "response_of e kind status =
     (case e of
        MessageAck \<Rightarrow>
          fail_if (status \<noteq> ''PENDING'') (Err ''pending message obligation is required'')
          (Inr (if kind = ''ACTION'' \<or> kind = ''CONTRACT'' then ''ACCEPTED'' else ''ACKNOWLEDGED''))
      | MessageReject \<Rightarrow>
          fail_if (status \<noteq> ''PENDING'' \<and> status \<noteq> ''ACCEPTED'')
            (Err ''open message obligation is required'')
          (Inr ''REJECTED'')
      | MessageComplete \<Rightarrow>
          fail_if (kind \<noteq> ''ACTION'') (Err ''only ACTION messages can complete'')
          (fail_if (status \<noteq> ''ACCEPTED'') (Err ''accepted ACTION message is required'')
          (Inr ''COMPLETED''))
      | MessageResolve \<Rightarrow>
          fail_if (kind \<noteq> ''BLOCKER'') (Err ''only BLOCKER messages can resolve'')
          (fail_if (status \<noteq> ''ACKNOWLEDGED'') (Err ''acknowledged BLOCKER message is required'')
          (Inr ''RESOLVED''))
      | MessagePost \<Rightarrow> Inr [])"

definition validate_response ::
  "state \<Rightarrow> string \<Rightarrow> message_event \<Rightarrow> string \<Rightarrow> payload \<Rightarrow> payload result" where
  "validate_response st actor e eid payload =
     (case m_get (st_messages st) eid of
        None \<Rightarrow> Inl (Err ''message not found'')
      | Some m \<Rightarrow>
        (case recipient_status m actor of
           None \<Rightarrow> Inl (Err ''message recipient required'')
         | Some status \<Rightarrow>
           (case payload of MessageResponse p \<Rightarrow>
              and_then (response_of e (ms_kind m) status)
                (\<lambda>response. Inr (MessageResponse (p\<lparr>mr_response := response\<rparr>)))
            | _ \<Rightarrow> Inl Panic)))"

definition validate_message ::
  "crypto \<Rightarrow> state \<Rightarrow> string \<Rightarrow> message_event \<Rightarrow> string \<Rightarrow> payload \<Rightarrow> time \<Rightarrow> payload result" where
  "validate_message cr st actor e eid payload now =
     (if e = MessagePost then validate_post cr st actor eid payload now
      else validate_response st actor e eid payload)"

subsection \<open>Posting\<close>

lemma post_Inr:
  assumes "validate_post cr st actor eid payload now = Inr q"
  shows "\<exists>p. payload = MessagePosted p \<and> q = payload \<and> mp_kind p \<in> set message_kinds \<and>
    mp_to p \<noteq> [] \<and> length (mp_to p) \<le> MaxRecipients \<and> m_get (st_messages st) eid = None \<and>
    length (mp_body p) \<le> 1200 \<and>
    (\<forall>r\<in>set (mp_to p). \<exists>a. m_get (st_agents st) r = Some a \<and> ag_status a = ''ACTIVE'') \<and>
    (mp_kind p = ''CONTRACT'' \<longrightarrow> governs (agent_of st actor) \<or>
      hasBoundApproval st (''contract:'' @ eid)
        (ApprovalSubjectDigest cr actor (Message_ev MessagePost) eid payload) [] now)"
proof -
  have na: "\<not> not_active st r \<longleftrightarrow> (\<exists>a. m_get (st_agents st) r = Some a \<and> ag_status a = ''ACTIVE'')" for r
    by (auto simp: not_active_def split: option.splits)
  show ?thesis
    using assms
    by (auto simp: validate_post_def m_has_def find_None_iff na
        split: payload.splits option.splits)
qed

subsection \<open>Responses\<close>

text \<open>The obligation of one recipient as an automaton: from a status, under a kind, to a status.\<close>

inductive obligation :: "string \<Rightarrow> string \<Rightarrow> string \<Rightarrow> bool" where
  accept: "kind \<in> {''ACTION'', ''CONTRACT''} \<Longrightarrow> obligation kind ''PENDING'' ''ACCEPTED''"
| acknowledge: "kind \<notin> {''ACTION'', ''CONTRACT''} \<Longrightarrow> obligation kind ''PENDING'' ''ACKNOWLEDGED''"
| decline: "status \<in> {''PENDING'', ''ACCEPTED''} \<Longrightarrow> obligation kind status ''REJECTED''"
| finish: "obligation ''ACTION'' ''ACCEPTED'' ''COMPLETED''"
| clear: "obligation ''BLOCKER'' ''ACKNOWLEDGED'' ''RESOLVED''"

inductive_cases obligation_from: "obligation kind status status'"

lemma response_of_obligation:
  "response_of e kind status = Inr r \<Longrightarrow> e \<noteq> MessagePost \<Longrightarrow> obligation kind status r"
  by (cases e) (auto simp: response_of_def intro: obligation.intros)

lemma obligation_response_of:
  "obligation kind status r \<Longrightarrow> \<exists>e. e \<noteq> MessagePost \<and> response_of e kind status = Inr r"
proof (induction rule: obligation.induct)
  case (accept kind)
  then show ?case by (intro exI [of _ MessageAck]) (auto simp: response_of_def)
next
  case (acknowledge kind)
  then show ?case by (intro exI [of _ MessageAck]) (auto simp: response_of_def)
next
  case (decline status kind)
  then show ?case by (intro exI [of _ MessageReject]) (auto simp: response_of_def)
next
  case finish
  then show ?case by (intro exI [of _ MessageComplete]) (auto simp: response_of_def)
next
  case clear
  then show ?case by (intro exI [of _ MessageResolve]) (auto simp: response_of_def)
qed

lemma response_Inr:
  assumes "validate_response st actor e eid payload = Inr q" "e \<noteq> MessagePost"
  shows "\<exists>m status p r. m_get (st_messages st) eid = Some m \<and>
    recipient_status m actor = Some status \<and> payload = MessageResponse p \<and>
    q = MessageResponse (p\<lparr>mr_response := r\<rparr>) \<and> obligation (ms_kind m) status r"
  using assms
  by (auto simp: validate_response_def intro: response_of_obligation
      split: option.splits payload.splits)

lemma recipient_status_in:
  "recipient_status m actor = Some status \<Longrightarrow>
   \<exists>r\<in>set (ms_recipients m). rs_principal r = actor \<and> rs_status r = status"
proof -
  have "fold (\<lambda>r found. if rs_principal r = actor then Some (rs_status r) else found) rs acc = Some s \<Longrightarrow>
    acc = Some s \<or> (\<exists>r\<in>set rs. rs_principal r = actor \<and> rs_status r = s)" for rs acc s
    by (induction rs arbitrary: acc) (auto split: if_splits)
  then show "recipient_status m actor = Some status \<Longrightarrow> ?thesis"
    by (fastforce simp: recipient_status_def)
qed

lemma obligation_progress:
  "obligation kind status status' \<Longrightarrow> status \<noteq> status' \<and> status' \<noteq> ''PENDING''"
  by (auto elim: obligation_from)

lemma obligation_final:
  "status \<in> {''REJECTED'', ''COMPLETED'', ''RESOLVED'', ''DELIVERED''} \<Longrightarrow>
   \<not> obligation kind status status'"
  by (auto elim: obligation_from)

text \<open>
  A response to a message follows the obligation automaton: only a recipient responds, the
  stored response is the one the automaton gives for the message's kind and the recipient's present
  status (never the one in the request), and a final status admits no further response.
\<close>

theorem response_follows_automaton:
  assumes "validate_message cr st actor e eid payload now = Inr q" "e \<noteq> MessagePost"
  shows "\<exists>m r p status. m_get (st_messages st) eid = Some m \<and> r \<in> set (ms_recipients m) \<and>
    rs_principal r = actor \<and> rs_status r = status \<and> payload = MessageResponse p \<and>
    (\<exists>new. q = MessageResponse (p\<lparr>mr_response := new\<rparr>) \<and> obligation (ms_kind m) status new \<and>
      new \<noteq> ''PENDING'') \<and>
    status \<notin> {''REJECTED'', ''COMPLETED'', ''RESOLVED'', ''DELIVERED''}"
proof -
  from assms have "validate_response st actor e eid payload = Inr q"
    by (simp add: validate_message_def)
  from response_Inr [OF this assms(2)] obtain m status p new where
    v: "m_get (st_messages st) eid = Some m" "recipient_status m actor = Some status"
      "payload = MessageResponse p" "q = MessageResponse (p\<lparr>mr_response := new\<rparr>)"
      "obligation (ms_kind m) status new"
    by blast
  then show ?thesis
    using recipient_status_in [OF v(2)] obligation_progress [OF v(5)] obligation_final [of status]
    by blast
qed

theorem response_follows_automaton_witness:
  "let m = zero_message\<lparr>ms_kind := ''ACTION'',
         ms_recipients := [\<lparr>rs_principal = ''b'', rs_status = ''PENDING'', rs_at = None\<rparr>]\<rparr>;
       st = EmptyState\<lparr>st_messages := m_put ''m1'' m m_empty\<rparr>
   in \<exists>q. validate_message undefined st ''b'' MessageAck ''m1''
        (MessageResponse \<lparr>mr_response = ''COMPLETED'', mr_note = []\<rparr>) 1 = Inr q \<and>
      (\<exists>p. q = MessageResponse p \<and> mr_response p = ''ACCEPTED'')"
proof -
  let ?m = "zero_message\<lparr>ms_kind := ''ACTION'',
         ms_recipients := [\<lparr>rs_principal = ''b'', rs_status = ''PENDING'', rs_at = None\<rparr>]\<rparr>"
  let ?st = "EmptyState\<lparr>st_messages := m_put ''m1'' ?m m_empty\<rparr>"
  let ?p = "\<lparr>mr_response = ''COMPLETED'', mr_note = []\<rparr>"
  have v: "validate_message undefined ?st ''b'' MessageAck ''m1'' (MessageResponse ?p) 1 =
      Inr (MessageResponse (?p\<lparr>mr_response := ''ACCEPTED''\<rparr>))"
    by (simp add: validate_message_def validate_response_def m_lookup_update recipient_status_def
        response_of_def)
  from response_follows_automaton [OF v] have "\<exists>m. m_get (st_messages ?st) ''m1'' = Some m"
    by auto
  with v show ?thesis by simp
qed

end
