(* ===== verification/V_Invocations.thy ===== *)
theory V_Invocations
  imports V_Messages
begin

text \<open>
  The \<open>invocation.*\<close> block of \<open>protocol.ValidateTransition\<close> and \<open>invocation.policy.update\<close>:
  requesting work from an agent, reserving and confirming its delivery to a runtime, claiming it
  with a lease, progress, and the ways it ends.
\<close>

subsection \<open>Requesting\<close>

definition policy_of :: "state \<Rightarrow> string \<Rightarrow> policy" where
  "policy_of st target = m_read zero_policy (st_policies st) target"

definition policy_configured :: "state \<Rightarrow> string \<Rightarrow> bool" where
  "policy_configured st target = m_has (st_policies st) target"

definition policy_admits ::
  "state \<Rightarrow> string \<Rightarrow> string \<Rightarrow> 'a result \<Rightarrow> 'a result" where
  "policy_admits st actor target rest =
     (let policy = policy_of st target in
      if actorElevated st actor then rest
      else if \<not> policy_configured st target \<or> po_mode policy = ''MANUAL'' then rest
      else if po_mode policy = ''DISABLED'' then Inl (Err ''target invocation policy is disabled'')
      else if po_mode policy = ''TRUSTED'' \<and> \<not> containsString (po_trusted_actors policy) actor
      then Inl (Err ''requester is not trusted by target invocation policy'')
      else rest)"

definition deadline_error :: "time option \<Rightarrow> time \<Rightarrow> err option" where
  "deadline_error deadline now =
     (case deadline of None \<Rightarrow> None
      | Some d \<Rightarrow>
          if \<not> after d now then Some (Err ''invocation deadline must be in the future'')
          else if after d (now + MaxInvocationTTL)
          then Some (Err ''invocation deadline exceeds 168h0m0s'')
          else None)"

definition message_error :: "state \<Rightarrow> string \<Rightarrow> string \<Rightarrow> err option" where
  "message_error st message_id target =
     (if message_id = [] then None
      else case m_get (st_messages st) message_id of
          None \<Rightarrow> Some (Err ''related message not found'')
        | Some m \<Rightarrow>
            if list_ex (\<lambda>recipient. recipient = target) (ms_to m) then None
            else Some (Err ''related message is not addressed to the invocation target''))"

definition preferred_error :: "state \<Rightarrow> invocation_requested \<Rightarrow> err option" where
  "preferred_error st p =
     (let mismatch = Some (Err
        ''preferred runtime must belong to the target and match the invocation consumer mode'')
      in if ir_preferred_runtime_id p = [] then None
      else case m_get (st_runtimes st) (ir_preferred_runtime_id p) of
          None \<Rightarrow> mismatch
        | Some preferred \<Rightarrow>
            if rt_agent_id preferred \<noteq> ir_target p \<or>
               \<not> consumerAllowsKind (ir_consumer_mode p)
                   (runtimeKind (rt_kind preferred) (rt_connector preferred))
            then mismatch
            else if rt_status preferred = ''REVOKED''
            then Some (Err ''preferred runtime is revoked'')
            else None)"

definition fail_with :: "err option \<Rightarrow> 'a result \<Rightarrow> 'a result" where
  "fail_with e rest = (case e of None \<Rightarrow> rest | Some x \<Rightarrow> Inl x)"

lemma fail_with_Inr [guards, simp]: "fail_with e rest = Inr a \<longleftrightarrow> e = None \<and> rest = Inr a"
  by (simp add: fail_with_def split: option.splits)

lemma fail_with_None [simp]: "fail_with None rest = rest"
  by (simp add: fail_with_def)

definition bound_to ::
  "state \<Rightarrow> string \<Rightarrow> string \<Rightarrow> time \<Rightarrow> bool" where
  "bound_to st eid digest now =
     hasBoundApproval st (''invocation-sensitive:'' @ eid) digest ''HUMAN'' now"

definition approval_error ::
  "state \<Rightarrow> string \<Rightarrow> string \<Rightarrow> string \<Rightarrow> invocation_requested \<Rightarrow> time \<Rightarrow> err option" where
  "approval_error st actor eid digest p now =
     (let policy = policy_of st (ir_target p) in
      if actorElevated st actor then None
      else if (\<not> policy_configured st (ir_target p) \<or> po_mode policy = ''MANUAL'') \<and>
              \<not> hasBoundApproval st (''invocation:'' @ eid) digest [] now \<and>
              \<not> bound_to st eid digest now
      then Some (Err ''approved invocation is required by target policy'')
      else if po_require_human_for_sensitive policy \<and> invocationIsSensitive st p \<and>
              ag_principal_type (agent_of st actor) \<noteq> PrincipalHuman \<and>
              \<not> bound_to st eid digest now
      then Some (Err ''human approval is required for sensitive invocation'')
      else None)"

definition validate_request ::
  "crypto \<Rightarrow> state \<Rightarrow> string \<Rightarrow> invocation_event \<Rightarrow> string \<Rightarrow> invocation_requested \<Rightarrow> time \<Rightarrow>
   payload result" where
  "validate_request cr st actor e eid p0 now =
     fail_if (e \<noteq> InvRequest) (Err ''invalid invocation request transition'')
     (fail_if (eid = [] \<or> blank (ir_target p0) \<or> blank (ir_instruction p0))
       (Err ''invocation ID, target, and instruction are required'')
     (fail_if (m_has (st_invocations st) eid) (Err ''invocation already exists'')
     (case m_get (st_agents st) (ir_target p0) of
        None \<Rightarrow> Inl (Err ''active agent invocation target is required'')
      | Some target \<Rightarrow>
        fail_if (ag_status target \<noteq> ''ACTIVE'' \<or> ag_principal_type target \<noteq> PrincipalAgent)
          (Err ''active agent invocation target is required'')
        (let p = NormalizeInvocationApprovalSubject st p0;
             digest = ApprovalSubjectDigest cr actor (Invocation_ev e) eid (InvocationRequested p);
             policy = policy_of st (ir_target p)
         in policy_admits st actor (ir_target p)
           (fail_if (length (ir_instruction p) + length (ir_expected_result p) > MaxInvocationBytes)
              (Err (''invocation content exceeds '' @ dec_digits MaxInvocationBytes @ '' bytes''))
           (fail_if (ir_task_id p \<noteq> [] \<and> \<not> m_has (st_tasks st) (ir_task_id p))
              (Err ''related task not found'')
           (fail_if (ir_scopes p \<noteq> [] \<and> \<not> scopeAllows (ag_scopes (agent_of st actor)) (ir_scopes p) \<and>
                \<not> actorElevated st actor)
              (Err ''invocation scopes exceed requester scopes'')
           (fail_if (ir_scopes p \<noteq> [] \<and> \<not> scopeAllows (ag_scopes target) (ir_scopes p))
              (Err ''invocation scopes exceed target scopes'')
           (fail_if (ir_priority p \<notin> {''LOW'', ''NORMAL'', ''HIGH'', ''URGENT''})
              (Err ''invocation priority must be LOW, NORMAL, HIGH, or URGENT'')
           (fail_with (deadline_error (ir_deadline p) now)
           (fail_with (message_error st (ir_message_id p) (ir_target p))
           (fail_if (po_allowed_scopes policy \<noteq> [] \<and>
                \<not> scopeAllows (po_allowed_scopes policy) (ir_scopes p))
              (Err ''invocation scopes exceed target policy'')
           (fail_if (\<not> validConsumerMode (ir_consumer_mode p))
              (Err ''invocation consumer mode must be INTERACTIVE_ONLY, WORKER_ONLY, or EITHER'')
           (fail_if (\<not> containsConsumerMode (snd (effectiveConsumerPolicy policy)) (ir_consumer_mode p))
              (Err ''invocation consumer mode is not allowed by target policy'')
           (fail_with (preferred_error st p)
           (fail_with (approval_error st actor eid digest p now)
           (Inr (InvocationRequested p))))))))))))))))))"

subsection \<open>Delivery\<close>

definition may_deliver :: "state \<Rightarrow> string \<Rightarrow> invocation \<Rightarrow> bool" where
  "may_deliver st actor i =
     (actor = iv_requested_by i \<or> actor = iv_target i \<or> actorElevated st actor)"

definition open_for_delivery :: "invocation \<Rightarrow> bool" where
  "open_for_delivery i = (iv_status i = ''PENDING'' \<or> iv_status i = ''NOTIFIED'')"

definition live_attempt :: "string \<Rightarrow> string \<Rightarrow> time \<Rightarrow> delivery \<Rightarrow> bool" where
  "live_attempt eid runtime_id now d =
     (dl_invocation_id d = eid \<and> dl_runtime_id d = runtime_id \<and> dl_status d = ''ATTEMPTED'' \<and>
      (case dl_attempt_until d of None \<Rightarrow> False | Some t \<Rightarrow> after t now))"

definition attempt_transport :: "runtime \<Rightarrow> delivery_attempted \<Rightarrow> delivery_attempted" where
  "attempt_transport r p =
     (let transport = to_upper (trim_space (da_transport p))
      in p\<lparr>da_transport := (if transport = [] then rt_connector r else transport),
           da_host_id := (if da_host_id p = [] then rt_host_id r else da_host_id p),
           da_endpoint_id :=
             (if runtimeKind (rt_kind r) (rt_connector r) = RuntimeKindInteractive \<and>
                 da_endpoint_id p = []
              then rt_endpoint_id r else da_endpoint_id p)\<rparr>)"

definition validate_attempt ::
  "state \<Rightarrow> string \<Rightarrow> string \<Rightarrow> invocation option \<Rightarrow> delivery_attempted \<Rightarrow> time \<Rightarrow> payload result" where
  "validate_attempt st actor eid found p0 now =
     (case found of None \<Rightarrow> Inl (Err ''invocation not found'')
      | Some i \<Rightarrow>
        fail_if (\<not> open_for_delivery i)
          (Err (''cannot attempt delivery while invocation is '' @ iv_status i))
        (fail_if (\<not> may_deliver st actor i)
          (Err ''invocation requester, target, owner, or orchestrator required'')
        (fail_if (blank (da_delivery_id p0) \<or> blank (da_runtime_id p0))
          (Err ''delivery ID and runtime ID are required'')
        (fail_if (m_has (st_deliveries st) (da_delivery_id p0))
          (Err ''invocation delivery already exists'')
        (case m_get (st_runtimes st) (da_runtime_id p0) of
           None \<Rightarrow> Inl (Err ''delivery runtime must belong to the invocation target'')
         | Some r \<Rightarrow>
           fail_if (rt_agent_id r \<noteq> iv_target i)
             (Err ''delivery runtime must belong to the invocation target'')
           (let kind = runtimeKind (rt_kind r) (rt_connector r);
                p = attempt_transport r p0
            in fail_if (\<not> consumerAllowsKind (effectiveInvocationConsumer (iv_consumer_mode i)) kind)
                 (Err ''delivery runtime does not match the invocation consumer mode'')
              (fail_if (iv_preferred_runtime_id i \<noteq> [] \<and> iv_preferred_runtime_id i \<noteq> da_runtime_id p)
                 (Err ''delivery runtime does not match the preferred runtime'')
              (fail_if (rt_status r = ''DRAINING'' \<or> rt_status r = ''REVOKED'')
                 (Err (''delivery runtime is '' @ to_lower (rt_status r)))
              (fail_if (kind = RuntimeKindInteractive \<and> rt_status r \<noteq> ''ONLINE'')
                 (Err ''interactive delivery runtime must be online'')
              (fail_if (da_transport p \<noteq> rt_connector r)
                 (Err ''delivery transport must match the registered runtime connector'')
              (fail_if (da_transport p \<in> {''MANUAL'', ''MCP'', ''QUEUE''})
                 (Err (da_transport p @ '' runtime does not support notification delivery attempts''))
              (fail_if (da_host_id p \<noteq> rt_host_id r)
                 (Err ''delivery host ID must match the registered runtime'')
              (fail_if (kind = RuntimeKindInteractive \<and> blank (rt_endpoint_id r))
                 (Err ''interactive delivery runtime has no active endpoint'')
              (fail_if (kind = RuntimeKindInteractive \<and> da_endpoint_id p \<noteq> rt_endpoint_id r)
                 (Err ''delivery endpoint ID must match the active interactive runtime endpoint'')
              (fail_if (kind \<noteq> RuntimeKindInteractive \<and> \<not> blank (da_endpoint_id p))
                 (Err ''worker delivery attempt must not contain an interactive endpoint ID'')
              (fail_if (list_ex (live_attempt eid (da_runtime_id p) now) (m_vals (st_deliveries st)))
                 (Err ''an unexpired delivery attempt already exists for this runtime'')
              (fail_if (\<not> da_manual p \<and> automaticDeliveryAttempts st eid \<ge> MaxDeliveryAttempts)
                 (Err (''automatic delivery attempts exhausted at '' @ dec_digits MaxDeliveryAttempts))
              (let p = p\<lparr>da_attempt := nextDeliveryAttempt st eid,
                         da_attempt_until := (if is_zero (da_attempt_until p)
                           then now + DefaultDeliveryAttemptLease else da_attempt_until p)\<rparr>
               in fail_if (\<not> after (da_attempt_until p) now \<or>
                      after (da_attempt_until p) (now + MaxDeliveryAttemptLease))
                    (Err ''delivery attempt lease must be within 2m0s'')
                  (Inr (InvocationDeliveryAttempted p))))))))))))))))))))"

definition attempted_delivery :: "state \<Rightarrow> string \<Rightarrow> string \<Rightarrow> delivery option" where
  "attempted_delivery st eid delivery_id =
     (case m_get (st_deliveries st) delivery_id of None \<Rightarrow> None
      | Some d \<Rightarrow> if dl_invocation_id d \<noteq> eid \<or> dl_status d \<noteq> ''ATTEMPTED'' then None else Some d)"

definition validate_notify ::
  "state \<Rightarrow> string \<Rightarrow> string \<Rightarrow> invocation option \<Rightarrow> invocation_notified \<Rightarrow> time \<Rightarrow> payload result" where
  "validate_notify st actor eid found p0 now =
     (case found of None \<Rightarrow> Inl (Err ''invocation not found'')
      | Some i \<Rightarrow>
        fail_if (\<not> may_deliver st actor i)
          (Err ''invocation requester, target, owner, or orchestrator required'')
        (fail_if (blank (no_delivery_id p0)) (Err ''delivery ID is required'')
        (case attempted_delivery st eid (no_delivery_id p0) of
           None \<Rightarrow> Inl (Err ''matching attempted delivery is required'')
         | Some d \<Rightarrow>
           fail_if (case dl_attempt_until d of None \<Rightarrow> True | Some t \<Rightarrow> \<not> after t now)
             (Err ''delivery attempt lease has expired'')
           (case dl_attempted_at d of
              None \<Rightarrow> Inl (Err ''delivery attempt is missing its reservation timestamp'')
            | Some attempted_at \<Rightarrow>
              let p = p0\<lparr>no_runtime_id := dl_runtime_id d, no_attempt := dl_attempt d,
                         no_transport := dl_transport d\<rparr>
              in fail_if (no_transport p = ''INTERACTIVE'' \<and> no_endpoint_id p \<noteq> dl_endpoint_id d)
                   (Err ''interactive delivery evidence does not match the reserved endpoint'')
                 (and_then (validateDeliveryEvidence (no_transport p) (no_endpoint_id p)
                     (no_evidence p) attempted_at now)
                   (\<lambda>_. Inr (InvocationNotified p)))))))"

definition validate_delivery_failed ::
  "state \<Rightarrow> string \<Rightarrow> string \<Rightarrow> invocation option \<Rightarrow> delivery_failed \<Rightarrow> time \<Rightarrow> payload result" where
  "validate_delivery_failed st actor eid found p0 now =
     (case found of None \<Rightarrow> Inl (Err ''invocation not found'')
      | Some i \<Rightarrow>
        fail_if (\<not> may_deliver st actor i)
          (Err ''invocation requester, target, owner, or orchestrator required'')
        (fail_if (blank (df_delivery_id p0) \<or> blank (df_error p0))
          (Err ''valid delivery ID, attempt, and error are required'')
        (case attempted_delivery st eid (df_delivery_id p0) of
           None \<Rightarrow> Inl (Err ''matching attempted delivery is required'')
         | Some d \<Rightarrow>
           let p = p0\<lparr>df_runtime_id := dl_runtime_id d, df_attempt := dl_attempt d\<rparr>
           in fail_if (\<not> df_final p \<and>
                (case df_next_retry p of None \<Rightarrow> True | Some t \<Rightarrow> \<not> after t now))
                (Err ''future retry time is required for a retryable delivery failure'')
              (Inr (InvocationDeliveryFailed p)))))"

subsection \<open>Claiming and progress\<close>

definition validate_claim ::
  "state \<Rightarrow> string \<Rightarrow> string \<Rightarrow> invocation option \<Rightarrow> invocation_claimed \<Rightarrow> time \<Rightarrow> payload result" where
  "validate_claim st actor eid found p0 now =
     (case found of None \<Rightarrow> Inl (Err ''invocation not found'')
      | Some i \<Rightarrow>
        fail_if (actor \<noteq> iv_target i) (Err ''invocation target required'')
        (fail_if (\<not> open_for_delivery i)
          (Err (''invocation is no longer claimable while '' @ iv_status i))
        (fail_if (case iv_deadline i of None \<Rightarrow> False | Some d \<Rightarrow> \<not> after d now)
          (Err ''invocation deadline has passed'')
        (fail_if (blank (ic_runtime_id p0)) (Err ''runtime ID is required'')
        (case m_get (st_runtimes st) (ic_runtime_id p0) of
           None \<Rightarrow> Inl (Err ''claiming runtime must be registered to the invocation target'')
         | Some r \<Rightarrow>
           fail_if (rt_agent_id r \<noteq> iv_target i)
             (Err ''claiming runtime must be registered to the invocation target'')
           (fail_if (rt_status r \<noteq> ''ONLINE'' \<or> rt_health r = ''UNKNOWN'')
             (Err ''claiming runtime must be online'')
           (fail_if (int (runtimeInvocationLoad st (ic_runtime_id p0)) \<ge> rt_max_concurrent r)
             (Err ''claiming runtime has no available capacity'')
           (fail_if (\<not> consumerAllowsKind (effectiveInvocationConsumer (iv_consumer_mode i))
                       (runtimeKind (rt_kind r) (rt_connector r)))
             (Err ''claiming runtime does not match the invocation consumer mode'')
           (fail_if (iv_preferred_runtime_id i \<noteq> [] \<and> iv_preferred_runtime_id i \<noteq> ic_runtime_id p0)
             (Err ''claiming runtime does not match the preferred runtime'')
           (let p = p0\<lparr>ic_claim_until := (if is_zero (ic_claim_until p0)
                 then now + DefaultClaimLease else ic_claim_until p0)\<rparr>
            in fail_if (\<not> after (ic_claim_until p) now \<or> after (ic_claim_until p) (now + MaxClaimLease))
                 (Err ''claim lease must be within 1h0m0s'')
               (Inr (InvocationClaimed p))))))))))))"

definition validate_progress ::
  "string \<Rightarrow> invocation_event \<Rightarrow> invocation option \<Rightarrow> invocation_progress \<Rightarrow> payload result" where
  "validate_progress actor e found p =
     (case found of None \<Rightarrow> Inl (Err ''invocation not found'')
      | Some i \<Rightarrow>
        fail_if (actor \<noteq> iv_target i) (Err ''invocation target required'')
        (fail_if (e = InvStart \<and> iv_status i \<noteq> ''CLAIMED'')
          (Err (''claimed invocation required, currently '' @ iv_status i))
        (fail_if (e = InvResume \<and> iv_status i \<noteq> ''WAITING'')
          (Err (''waiting invocation required, currently '' @ iv_status i))
        (Inr (InvocationProgress p)))))"

definition validate_wait ::
  "string \<Rightarrow> invocation option \<Rightarrow> invocation_waiting \<Rightarrow> time \<Rightarrow> payload result" where
  "validate_wait actor found p now =
     (case found of None \<Rightarrow> Inl (Err ''active invocation target required'')
      | Some i \<Rightarrow>
        fail_if (actor \<noteq> iv_target i) (Err ''active invocation target required'')
        (fail_if (iv_status i \<noteq> ''RUNNING'')
          (Err (''running invocation required, currently '' @ iv_status i))
        (fail_if (blank (iw_reason p)) (Err ''waiting reason is required'')
        (fail_if (case iw_next_attempt_at p of None \<Rightarrow> False | Some t \<Rightarrow> \<not> after t now)
          (Err ''next attempt must be in the future'')
        (Inr (InvocationWaiting p))))))"

definition validate_complete ::
  "state \<Rightarrow> string \<Rightarrow> invocation option \<Rightarrow> invocation_completed \<Rightarrow> payload result" where
  "validate_complete st actor found p =
     (case found of None \<Rightarrow> Inl (Err ''active invocation target required'')
      | Some i \<Rightarrow>
        fail_if (actor \<noteq> iv_target i) (Err ''active invocation target required'')
        (fail_if (iv_status i \<noteq> ''RUNNING'' \<and> iv_status i \<noteq> ''WAITING'')
          (Err (''running or waiting invocation required, currently '' @ iv_status i))
        (fail_if (blank (co_summary p)) (Err ''completion summary is required'')
        (fail_if (co_result_message_id p \<noteq> [] \<and>
            (case m_get (st_messages st) (co_result_message_id p) of
               None \<Rightarrow> True | Some m \<Rightarrow> ms_from m \<noteq> actor))
          (Err ''result message authored by the invocation target is required'')
        (Inr (InvocationCompleted p))))))"

subsection \<open>Rejecting, expiring, cancelling\<close>

abbreviation cancel_refused :: "string set" where
  "cancel_refused \<equiv> {''COMPLETED'', ''REJECTED'', ''EXPIRED'', ''CANCELLED'', ''DEAD_LETTER''}"

definition validate_end ::
  "state \<Rightarrow> string \<Rightarrow> invocation_event \<Rightarrow> invocation option \<Rightarrow> invocation_rejected \<Rightarrow> time \<Rightarrow>
   payload result" where
  "validate_end st actor e found p now =
     (case found of None \<Rightarrow> Inl (Err ''invocation not found'')
      | Some i \<Rightarrow>
        fail_if (blank (rj_reason p)) (Err ''rejection or expiry reason is required'')
        (let outsider = (actor \<noteq> iv_requested_by i \<and> \<not> actorElevated st actor) in
         if e = InvReject then
           fail_if (actor \<noteq> iv_target i \<or> (\<not> open_for_delivery i \<and> iv_status i \<noteq> ''CLAIMED''))
             (Err ''open invocation target required'')
           (Inr (InvocationRejected p))
         else if e = InvExpire then
           fail_if outsider (Err ''invocation requester, owner, or orchestrator required'')
           (fail_if (case iv_deadline i of None \<Rightarrow> True | Some d \<Rightarrow> after d now)
             (Err ''expired invocation deadline is required'')
           (Inr (InvocationRejected p)))
         else if e = InvCancel then
           fail_if outsider (Err ''invocation requester, owner, or orchestrator required'')
           (fail_if (iv_status i \<in> cancel_refused)
             (Err (''cannot cancel invocation while '' @ iv_status i))
           (Inr (InvocationRejected p)))
         else Inr (InvocationRejected p)))"

subsection \<open>The invocation policy\<close>

fun consumer_modes_loop :: "string list \<Rightarrow> string list \<Rightarrow> string list result" where
  "consumer_modes_loop seen [] = Inr (rev seen)"
| "consumer_modes_loop seen (m # rest) =
     (let mode = to_upper (trim_space m) in
      fail_if (\<not> validConsumerMode mode \<or> mode \<in> set seen)
        (Err (''allowed consumer modes must be unique INTERACTIVE_ONLY, WORKER_ONLY, '' @
              ''or EITHER values''))
      (consumer_modes_loop (mode # seen) rest))"

definition validate_policy :: "state \<Rightarrow> string \<Rightarrow> string \<Rightarrow> payload \<Rightarrow> payload result" where
  "validate_policy st actor eid payload =
     (let no_target = Err ''active agent invocation policy target is required'' in
      case payload of InvocationPolicyUpdated p \<Rightarrow>
        (case m_get (st_agents st) eid of None \<Rightarrow> Inl no_target
         | Some target \<Rightarrow>
           fail_if (ag_status target \<noteq> ''ACTIVE'' \<or> ag_principal_type target \<noteq> PrincipalAgent) no_target
           (fail_if (\<not> actorElevated st actor)
             (Err ''owner or orchestrator required to update invocation policy'')
           (let mode = to_upper (trim_space (pu_mode p));
                default = (if pu_default_consumer_mode p = [] then ConsumerModeEither
                           else pu_default_consumer_mode p);
                default = to_upper (trim_space default);
                allowed0 = (if pu_allowed_consumer_modes p = [] then all_consumer_modes
                            else pu_allowed_consumer_modes p)
            in fail_if (mode \<notin> {''MANUAL'', ''TRUSTED'', ''AUTOMATIC'', ''DISABLED''})
                 (Err ''invocation policy must be MANUAL, TRUSTED, AUTOMATIC, or DISABLED'')
               (case List.find (not_active st) (pu_trusted_actors p) of
                  Some a \<Rightarrow> Inl (Err (''trusted actor '' @ a @ '' is not active''))
                | None \<Rightarrow>
                  fail_if (\<not> validConsumerMode default)
                    (Err ''default consumer mode must be INTERACTIVE_ONLY, WORKER_ONLY, or EITHER'')
                  (and_then (consumer_modes_loop [] allowed0) (\<lambda>allowed.
                  fail_if (default \<notin> set allowed)
                    (Err ''default consumer mode must be included in allowed consumer modes'')
                  (fail_if (pu_preferred_interactive_runtime_id p \<noteq> [] \<and>
                      (case m_get (st_runtimes st) (pu_preferred_interactive_runtime_id p) of
                         None \<Rightarrow> True
                       | Some r \<Rightarrow> rt_agent_id r \<noteq> eid \<or>
                           runtimeKind (rt_kind r) (rt_connector r) \<noteq> RuntimeKindInteractive \<or>
                           rt_status r = ''REVOKED''))
                    (Err (''preferred interactive runtime must be a non-revoked interactive '' @
                          ''runtime owned by the target''))
                  (Inr (InvocationPolicyUpdated (p\<lparr>pu_mode := mode,
                     pu_default_consumer_mode := default,
                     pu_allowed_consumer_modes := allowed\<rparr>))))))))))
      | _ \<Rightarrow> Inl no_target)"

subsection \<open>Dispatch\<close>

definition validate_invocation ::
  "crypto \<Rightarrow> state \<Rightarrow> string \<Rightarrow> invocation_event \<Rightarrow> string \<Rightarrow> payload \<Rightarrow> time \<Rightarrow> payload result" where
  "validate_invocation cr st actor e eid payload now =
     (if e = InvPolicyUpdate then validate_policy st actor eid payload
      else let found = m_get (st_invocations st) eid in
        case payload of
          InvocationRequested p \<Rightarrow> validate_request cr st actor e eid p now
        | InvocationDeliveryAttempted p \<Rightarrow> validate_attempt st actor eid found p now
        | InvocationNotified p \<Rightarrow> validate_notify st actor eid found p now
        | InvocationClaimed p \<Rightarrow> validate_claim st actor eid found p now
        | InvocationProgress p \<Rightarrow> validate_progress actor e found p
        | InvocationWaiting p \<Rightarrow> validate_wait actor found p now
        | InvocationCompleted p \<Rightarrow> validate_complete st actor found p
        | InvocationRejected p \<Rightarrow> validate_end st actor e found p now
        | InvocationDeliveryFailed p \<Rightarrow> validate_delivery_failed st actor eid found p now
        | _ \<Rightarrow> Inl (Err ''invalid invocation payload''))"

subsection \<open>What an accepted transition tells\<close>

lemma policy_admits_Inr [guards, simp]:
  "policy_admits st actor target rest = Inr q \<longleftrightarrow> rest = Inr q \<and>
   (\<not> actorElevated st actor \<and> policy_configured st target \<longrightarrow>
      po_mode (policy_of st target) \<noteq> ''DISABLED'' \<and>
      (po_mode (policy_of st target) = ''TRUSTED'' \<longrightarrow>
         actor \<in> set (po_trusted_actors (policy_of st target))))"
  by (auto simp: policy_admits_def Let_def containsString_def list_ex_iff)

lemma deadline_error_None:
  "deadline_error deadline now = None \<longleftrightarrow>
   (\<forall>d. deadline = Some d \<longrightarrow> now < d \<and> d \<le> now + MaxInvocationTTL)"
  by (auto simp: deadline_error_def split: option.splits)

lemma request_Inr:
  assumes "validate_request cr st actor e eid p0 now = Inr q"
  shows "\<exists>p target. q = InvocationRequested p \<and> p = NormalizeInvocationApprovalSubject st p0 \<and>
    e = InvRequest \<and> eid \<noteq> [] \<and> m_get (st_invocations st) eid = None \<and>
    m_get (st_agents st) (ir_target p0) = Some target \<and> ag_status target = ''ACTIVE'' \<and>
    ag_principal_type target = PrincipalAgent \<and>
    (scopeAllows (ag_scopes (agent_of st actor)) (ir_scopes p) \<or> actorElevated st actor) \<and>
    scopeAllows (ag_scopes target) (ir_scopes p) \<and>
    (po_allowed_scopes (policy_of st (ir_target p)) \<noteq> [] \<longrightarrow>
       scopeAllows (po_allowed_scopes (policy_of st (ir_target p))) (ir_scopes p)) \<and>
    (\<forall>d. ir_deadline p = Some d \<longrightarrow> now < d \<and> d \<le> now + MaxInvocationTTL) \<and>
    approval_error st actor eid
      (ApprovalSubjectDigest cr actor (Invocation_ev e) eid (InvocationRequested p)) p now = None \<and>
    (\<not> actorElevated st actor \<and> policy_configured st (ir_target p) \<longrightarrow>
       po_mode (policy_of st (ir_target p)) \<noteq> ''DISABLED'' \<and>
       (po_mode (policy_of st (ir_target p)) = ''TRUSTED'' \<longrightarrow>
          actor \<in> set (po_trusted_actors (policy_of st (ir_target p)))))"
proof (cases "m_get (st_agents st) (ir_target p0)")
  case None
  with assms show ?thesis by (simp add: validate_request_def)
next
  case (Some target)
  have "ir_target (NormalizeInvocationApprovalSubject st p0) = ir_target p0"
    by (simp add: NormalizeInvocationApprovalSubject_def Let_def)
  with assms Some show ?thesis
    unfolding validate_request_def deadline_error_None [symmetric]
    by (simp add: Let_def m_has_def del: insert_iff) (elim conjE, simp, use scopeAllows_Nil in metis)
qed

lemma attempt_Inr:
  assumes "validate_attempt st actor eid found p0 now = Inr q"
  shows "\<exists>i r p. found = Some i \<and> q = InvocationDeliveryAttempted p \<and> open_for_delivery i \<and>
    may_deliver st actor i \<and> da_delivery_id p = da_delivery_id p0 \<and>
    m_get (st_deliveries st) (da_delivery_id p) = None \<and>
    m_get (st_runtimes st) (da_runtime_id p) = Some r \<and> rt_agent_id r = iv_target i \<and>
    rt_status r \<notin> {''DRAINING'', ''REVOKED''} \<and> da_transport p = rt_connector r \<and>
    \<not> list_ex (live_attempt eid (da_runtime_id p) now) (m_vals (st_deliveries st)) \<and>
    (da_manual p \<or> automaticDeliveryAttempts st eid < MaxDeliveryAttempts) \<and>
    da_attempt p = nextDeliveryAttempt st eid \<and>
    now < da_attempt_until p \<and> da_attempt_until p \<le> now + MaxDeliveryAttemptLease"
proof -
  have keeps: "da_delivery_id (attempt_transport r p) = da_delivery_id p"
    "da_runtime_id (attempt_transport r p) = da_runtime_id p"
    "da_manual (attempt_transport r p) = da_manual p" for r p
    by (simp_all add: attempt_transport_def Let_def)
  show ?thesis
    using assms
    by (auto simp: validate_attempt_def m_has_def Let_def keeps split: option.splits)
qed

lemma notify_Inr:
  "validate_notify st actor eid found p0 now = Inr q \<Longrightarrow>
   \<exists>i d p at. found = Some i \<and> q = InvocationNotified p \<and> may_deliver st actor i \<and>
     no_delivery_id p = no_delivery_id p0 \<and>
     m_get (st_deliveries st) (no_delivery_id p) = Some d \<and> dl_invocation_id d = eid \<and>
     dl_status d = ''ATTEMPTED'' \<and> dl_attempted_at d = Some at \<and>
     no_transport p = dl_transport d \<and> no_attempt p = dl_attempt d \<and>
     no_runtime_id p = dl_runtime_id d \<and>
     validateDeliveryEvidence (no_transport p) (no_endpoint_id p) (no_evidence p) at now = Inr ()"
  by (auto simp: validate_notify_def attempted_delivery_def Let_def split: option.splits if_splits)

lemma delivery_failed_Inr:
  "validate_delivery_failed st actor eid found p0 now = Inr q \<Longrightarrow>
   \<exists>i d p. found = Some i \<and> q = InvocationDeliveryFailed p \<and> may_deliver st actor i \<and>
     m_get (st_deliveries st) (df_delivery_id p) = Some d \<and> dl_invocation_id d = eid \<and>
     dl_status d = ''ATTEMPTED'' \<and>
     (df_final p \<or> (\<exists>t. df_next_retry p = Some t \<and> now < t))"
  by (auto simp: validate_delivery_failed_def attempted_delivery_def Let_def
      split: option.splits if_splits)

lemma inv_claim_Inr:
  assumes "validate_claim st actor eid found p0 now = Inr q"
  shows "\<exists>i r p. found = Some i \<and> q = InvocationClaimed p \<and> actor = iv_target i \<and>
    open_for_delivery i \<and> ic_runtime_id p = ic_runtime_id p0 \<and>
    m_get (st_runtimes st) (ic_runtime_id p) = Some r \<and> rt_agent_id r = iv_target i \<and>
    rt_status r = ''ONLINE'' \<and> int (runtimeInvocationLoad st (ic_runtime_id p)) < rt_max_concurrent r \<and>
    consumerAllowsKind (effectiveInvocationConsumer (iv_consumer_mode i))
      (runtimeKind (rt_kind r) (rt_connector r)) \<and>
    (iv_preferred_runtime_id i \<noteq> [] \<longrightarrow> ic_runtime_id p = iv_preferred_runtime_id i) \<and>
    (\<forall>d. iv_deadline i = Some d \<longrightarrow> now < d) \<and>
    now < ic_claim_until p \<and> ic_claim_until p \<le> now + MaxClaimLease"
  using assms
  by (auto simp: validate_claim_def Let_def split: option.splits if_splits)

lemma progress_Inr:
  "validate_progress actor e found p = Inr q \<Longrightarrow>
   q = InvocationProgress p \<and> (\<exists>i. found = Some i \<and> actor = iv_target i \<and>
     (e = InvStart \<longrightarrow> iv_status i = ''CLAIMED'') \<and> (e = InvResume \<longrightarrow> iv_status i = ''WAITING''))"
  by (auto simp: validate_progress_def split: option.splits)

lemma wait_Inr:
  "validate_wait actor found p now = Inr q \<Longrightarrow>
   q = InvocationWaiting p \<and> (\<exists>i. found = Some i \<and> actor = iv_target i \<and> iv_status i = ''RUNNING'')"
  by (auto simp: validate_wait_def split: option.splits)

lemma complete_Inr:
  "validate_complete st actor found p = Inr q \<Longrightarrow>
   q = InvocationCompleted p \<and> (\<exists>i. found = Some i \<and> actor = iv_target i \<and>
     (iv_status i = ''RUNNING'' \<or> iv_status i = ''WAITING''))"
  by (auto simp: validate_complete_def split: option.splits)

lemma end_Inr:
  "validate_end st actor e found p now = Inr q \<Longrightarrow>
   q = InvocationRejected p \<and> (\<exists>i. found = Some i \<and>
     (e = InvReject \<longrightarrow> actor = iv_target i \<and> (open_for_delivery i \<or> iv_status i = ''CLAIMED'')) \<and>
     (e = InvExpire \<longrightarrow> (\<exists>d. iv_deadline i = Some d \<and> d \<le> now) \<and>
        (actor = iv_requested_by i \<or> actorElevated st actor)) \<and>
     (e = InvCancel \<longrightarrow> iv_status i \<notin> cancel_refused \<and>
        (actor = iv_requested_by i \<or> actorElevated st actor)))"
  by (auto simp: validate_end_def Let_def split: option.splits if_splits)

lemma consumer_modes_loop_Inr:
  "consumer_modes_loop seen ms = Inr out \<Longrightarrow> distinct seen \<Longrightarrow> \<forall>m\<in>set seen. validConsumerMode m \<Longrightarrow>
   distinct out \<and> (\<forall>m\<in>set out. validConsumerMode m) \<and> length out = length seen + length ms"
proof (induction ms arbitrary: seen)
  case (Cons m ms)
  let ?mode = "to_upper (trim_space m)"
  from Cons.prems(1) have step: "validConsumerMode ?mode" "?mode \<notin> set seen"
    "consumer_modes_loop (?mode # seen) ms = Inr out"
    by (simp_all only: consumer_modes_loop.simps Let_def fail_if_Inr de_Morgan_disj not_not simp_thms)
  from Cons.IH [OF step(3)] step(1,2) Cons.prems(2,3) show ?case by simp
qed auto

lemma policy_Inr:
  assumes "validate_policy st actor eid payload = Inr q"
  shows "\<exists>p. q = InvocationPolicyUpdated p \<and> actorElevated st actor \<and>
    pu_mode p \<in> {''MANUAL'', ''TRUSTED'', ''AUTOMATIC'', ''DISABLED''} \<and>
    distinct (pu_allowed_consumer_modes p) \<and>
    (\<forall>m\<in>set (pu_allowed_consumer_modes p). validConsumerMode m) \<and>
    pu_default_consumer_mode p \<in> set (pu_allowed_consumer_modes p)"
proof -
  have loop: "consumer_modes_loop [] ms = Inr out \<Longrightarrow>
      distinct out \<and> (\<forall>m\<in>set out. validConsumerMode m)" for ms out
    using consumer_modes_loop_Inr [of "[]" ms out] by simp
  show ?thesis
    using assms
    by (clarsimp simp: validate_policy_def Let_def loop simp del: insert_iff consumer_modes_loop.simps
        split: payload.splits option.splits)
qed

subsection \<open>The properties of the block\<close>

text \<open>
  C30. What an unprivileged principal may ask of an agent is bounded: the work stays within its own
  scopes and those of the target, which is an active agent whose policy is not disabled, and under a
  manual policy (or none) somebody approved this very request, the approval carrying the digest of
  the normalised request that is committed.
\<close>

theorem request_is_bounded:
  assumes "validate_invocation cr st actor InvRequest eid (InvocationRequested p0) now = Inr q"
    and "\<not> actorElevated st actor"
  shows "\<exists>p target. q = InvocationRequested p \<and> m_get (st_agents st) (ir_target p) = Some target \<and>
    ag_status target = ''ACTIVE'' \<and> ag_principal_type target = PrincipalAgent \<and>
    scopeAllows (ag_scopes (agent_of st actor)) (ir_scopes p) \<and>
    scopeAllows (ag_scopes target) (ir_scopes p) \<and>
    (policy_configured st (ir_target p) \<longrightarrow> po_mode (policy_of st (ir_target p)) \<noteq> ''DISABLED'') \<and>
    (\<not> policy_configured st (ir_target p) \<or> po_mode (policy_of st (ir_target p)) = ''MANUAL'' \<longrightarrow>
       (\<exists>k a action tier. m_get (st_approvals st) k = Some a \<and>
          bound_by action (ApprovalSubjectDigest cr actor (Invocation_ev InvRequest) eid q) tier now a \<and>
          action \<in> {''invocation:'' @ eid, ''invocation-sensitive:'' @ eid}))"
proof -
  from assms(1) have "validate_request cr st actor InvRequest eid p0 now = Inr q"
    by (simp add: validate_invocation_def)
  from request_Inr [OF this] obtain p target where
    q: "q = InvocationRequested p" and p: "p = NormalizeInvocationApprovalSubject st p0"
    and target: "m_get (st_agents st) (ir_target p0) = Some target" "ag_status target = ''ACTIVE''"
      "ag_principal_type target = PrincipalAgent"
    and scopes: "scopeAllows (ag_scopes (agent_of st actor)) (ir_scopes p) \<or> actorElevated st actor"
      "scopeAllows (ag_scopes target) (ir_scopes p)"
    and ap: "approval_error st actor eid
      (ApprovalSubjectDigest cr actor (Invocation_ev InvRequest) eid (InvocationRequested p)) p now = None"
    and pol: "\<not> actorElevated st actor \<and> policy_configured st (ir_target p) \<longrightarrow>
       po_mode (policy_of st (ir_target p)) \<noteq> ''DISABLED''"
    by blast
  have same: "ir_target p = ir_target p0"
    by (simp add: p NormalizeInvocationApprovalSubject_def Let_def)
  have bound: "hasBoundApproval st action digest tier now \<longleftrightarrow>
      (\<exists>k a. m_get (st_approvals st) k = Some a \<and> bound_by action digest tier now a)" for action digest tier
    unfolding hasBoundApproval_def list_ex_iff Bex_def m_vals_set by blast
  have manual: "\<not> policy_configured st (ir_target p) \<or> po_mode (policy_of st (ir_target p)) = ''MANUAL'' \<longrightarrow>
      (\<exists>k a action tier. m_get (st_approvals st) k = Some a \<and>
          bound_by action (ApprovalSubjectDigest cr actor (Invocation_ev InvRequest) eid q) tier now a \<and>
          action \<in> {''invocation:'' @ eid, ''invocation-sensitive:'' @ eid})"
    using ap assms(2) unfolding approval_error_def Let_def bound_to_def bound q
    by (simp split: if_splits) blast
  show ?thesis
    using q target scopes pol manual assms(2)
    by (intro exI [of _ p] exI [of _ target] conjI) (simp_all only: same, blast+)
qed

theorem request_is_bounded_witness:
  "let a = zero_agent\<lparr>ag_status := ''ACTIVE'', ag_scopes := [''src'']\<rparr>;
       b = zero_agent\<lparr>ag_status := ''ACTIVE'', ag_principal_type := ''AGENT'', ag_scopes := [''*'']\<rparr>;
       po = zero_policy\<lparr>po_mode := ''AUTOMATIC''\<rparr>;
       st = EmptyState\<lparr>st_agents := m_put ''b'' b (m_put ''a'' a m_empty),
              st_policies := m_put ''b'' po m_empty\<rparr>;
       p0 = \<lparr>ir_target = ''b'', ir_message_id = [], ir_task_id = [], ir_instruction = ''go'',
             ir_expected_result = [], ir_scopes = [''src/x''], ir_priority = [], ir_consumer_mode = [],
             ir_preferred_runtime_id = [], ir_deadline = None\<rparr>
   in \<exists>p. validate_invocation undefined st ''a'' InvRequest ''i'' (InvocationRequested p0) 5 =
        Inr (InvocationRequested p) \<and> scopeAllows [''src''] (ir_scopes p)"
proof -
  let ?a = "zero_agent\<lparr>ag_status := ''ACTIVE'', ag_scopes := [''src'']\<rparr>"
  let ?b = "zero_agent\<lparr>ag_status := ''ACTIVE'', ag_principal_type := ''AGENT'', ag_scopes := [''*'']\<rparr>"
  let ?po = "zero_policy\<lparr>po_mode := ''AUTOMATIC''\<rparr>"
  let ?st = "EmptyState\<lparr>st_agents := m_put ''b'' ?b (m_put ''a'' ?a m_empty),
              st_policies := m_put ''b'' ?po m_empty\<rparr>"
  let ?req = "\<lparr>ir_target = ''b'', ir_message_id = [], ir_task_id = [], ir_instruction = ''go'',
             ir_expected_result = [], ir_scopes = [''src/x''], ir_priority = [], ir_consumer_mode = [],
             ir_preferred_runtime_id = [], ir_deadline = None\<rparr>"
  let ?p = "?req\<lparr>ir_priority := ''NORMAL'', ir_consumer_mode := ''EITHER''\<rparr>"
  have el: "\<not> actorElevated ?st ''a''"
    by (simp add: actorElevated_def zero_agent_def m_lookup_update)
  have n: "NormalizeInvocationApprovalSubject ?st ?req = ?p"
    by (simp add: NormalizeInvocationApprovalSubject_def text_eval effectiveConsumerPolicy_def
        validConsumerMode_def zero_policy_def m_read_def m_lookup_update Let_def)
  have v: "validate_invocation undefined ?st ''a'' InvRequest ''i'' (InvocationRequested ?req) 5 =
      Inr (InvocationRequested ?p)"
    using el n
    by (simp add: validate_invocation_def validate_request_def policy_admits_def policy_of_def
        policy_configured_def deadline_error_def message_error_def preferred_error_def approval_error_def
        scopeAllows_def scope_covers_def effectiveConsumerPolicy_def validConsumerMode_def
        containsConsumerMode_def zero_policy_def zero_agent_def m_read_def m_has_def m_lookup_update
        text_eval blank_def Let_def)
  from request_is_bounded [OF v el] have "scopeAllows [''src''] (ir_scopes ?p)"
    by (auto simp: m_lookup_update m_read_def)
  with v show ?thesis unfolding Let_def by blast
qed

text \<open>
  C29. A claim never overfills a runtime: only the target agent claims, only an open invocation whose
  deadline has not passed, through one of its own online runtimes that still has capacity and suits
  the consumer mode, and for a lease of at most an hour from now.
\<close>

theorem claim_within_capacity:
  assumes "validate_invocation cr st actor InvClaim eid (InvocationClaimed p0) now = Inr q"
  shows "\<exists>i r p. m_get (st_invocations st) eid = Some i \<and> q = InvocationClaimed p \<and>
    actor = iv_target i \<and> (iv_status i = ''PENDING'' \<or> iv_status i = ''NOTIFIED'') \<and>
    (\<forall>d. iv_deadline i = Some d \<longrightarrow> now < d) \<and>
    m_get (st_runtimes st) (ic_runtime_id p) = Some r \<and> rt_agent_id r = actor \<and>
    rt_status r = ''ONLINE'' \<and>
    int (runtimeInvocationLoad st (ic_runtime_id p)) + 1 \<le> rt_max_concurrent r \<and>
    consumerAllowsKind (effectiveInvocationConsumer (iv_consumer_mode i))
      (runtimeKind (rt_kind r) (rt_connector r)) \<and>
    now < ic_claim_until p \<and> ic_claim_until p \<le> now + hour"
proof -
  from assms have "validate_claim st actor eid (m_get (st_invocations st) eid) p0 now = Inr q"
    by (simp add: validate_invocation_def)
  from inv_claim_Inr [OF this] obtain i r p where
    "m_get (st_invocations st) eid = Some i" "q = InvocationClaimed p" "actor = iv_target i"
    "open_for_delivery i" "m_get (st_runtimes st) (ic_runtime_id p) = Some r"
    "rt_agent_id r = iv_target i" "rt_status r = ''ONLINE''"
    "int (runtimeInvocationLoad st (ic_runtime_id p)) < rt_max_concurrent r"
    "consumerAllowsKind (effectiveInvocationConsumer (iv_consumer_mode i))
      (runtimeKind (rt_kind r) (rt_connector r))"
    "\<forall>d. iv_deadline i = Some d \<longrightarrow> now < d"
    "now < ic_claim_until p" "ic_claim_until p \<le> now + MaxClaimLease"
    by blast
  then show ?thesis
    unfolding open_for_delivery_def by (intro exI [of _ i] exI [of _ r] exI [of _ p]) simp
qed

theorem claim_within_capacity_witness:
  "let r = zero_runtime\<lparr>rt_agent_id := ''b'', rt_status := ''ONLINE'', rt_health := ''HEALTHY'',
         rt_max_concurrent := 1\<rparr>;
       i = zero_invocation\<lparr>iv_target := ''b'', iv_status := ''PENDING''\<rparr>;
       st = EmptyState\<lparr>st_runtimes := m_put ''r'' r m_empty, st_invocations := m_put ''i'' i m_empty\<rparr>
   in \<exists>p. validate_invocation undefined st ''b'' InvClaim ''i''
        (InvocationClaimed \<lparr>ic_runtime_id = ''r'', ic_claim_until = 0\<rparr>) 5 = Inr (InvocationClaimed p) \<and>
      ic_claim_until p \<le> 5 + hour"
proof -
  let ?r = "zero_runtime\<lparr>rt_agent_id := ''b'', rt_status := ''ONLINE'', rt_health := ''HEALTHY'',
         rt_max_concurrent := 1\<rparr>"
  let ?i = "zero_invocation\<lparr>iv_target := ''b'', iv_status := ''PENDING''\<rparr>"
  let ?st = "EmptyState\<lparr>st_runtimes := m_put ''r'' ?r m_empty, st_invocations := m_put ''i'' ?i m_empty\<rparr>"
  have v: "validate_invocation undefined ?st ''b'' InvClaim ''i''
        (InvocationClaimed \<lparr>ic_runtime_id = ''r'', ic_claim_until = 0\<rparr>) 5 =
      Inr (InvocationClaimed \<lparr>ic_runtime_id = ''r'', ic_claim_until = 5 + 15 * minute\<rparr>)"
    by (simp add: validate_invocation_def validate_claim_def open_for_delivery_def zero_invocation_def
        zero_runtime_def runtimeInvocationLoad_def m_vals_def holds_runtime_def consumerAllowsKind_def
        effectiveInvocationConsumer_def validConsumerMode_def runtimeKind_def equal_fold_def
        m_lookup_update text_eval blank_def Let_def)
  from claim_within_capacity [OF v] v show ?thesis by auto
qed

text \<open>
  Delivery attempts of an invocation are numbered freshly and never overlap: an accepted attempt
  has a number above every earlier attempt of the same invocation and a new delivery id, no other
  attempt on the same runtime still holds its reservation, and an automatic attempt is one of at most
  ten.
\<close>

theorem attempt_is_fresh:
  assumes "validate_invocation cr st actor InvDeliveryAttempt eid (InvocationDeliveryAttempted p0) now = Inr q"
    and "m_get (st_deliveries st) k = Some d" "dl_invocation_id d = eid"
  shows "\<exists>p. q = InvocationDeliveryAttempted p \<and> da_delivery_id p \<noteq> k \<and> dl_attempt d < da_attempt p \<and>
    (da_manual p \<or> automaticDeliveryAttempts st eid < 10) \<and>
    (dl_runtime_id d = da_runtime_id p \<and> dl_status d = ''ATTEMPTED'' \<longrightarrow>
       (\<forall>t. dl_attempt_until d = Some t \<longrightarrow> t \<le> now))"
proof -
  from assms(1) have "validate_attempt st actor eid (m_get (st_invocations st) eid) p0 now = Inr q"
    by (simp add: validate_invocation_def)
  from attempt_Inr [OF this] obtain p where p: "q = InvocationDeliveryAttempted p"
    "m_get (st_deliveries st) (da_delivery_id p) = None"
    "\<not> list_ex (live_attempt eid (da_runtime_id p) now) (m_vals (st_deliveries st))"
    "da_manual p \<or> automaticDeliveryAttempts st eid < MaxDeliveryAttempts"
    "da_attempt p = nextDeliveryAttempt st eid"
    by blast
  have "d \<in> set (m_vals (st_deliveries st))"
    unfolding m_vals_set using assms(2) by (rule exI)
  with p(3) have "\<not> live_attempt eid (da_runtime_id p) now d"
    by (simp add: list_ex_iff)
  with p nextDeliveryAttempt_fresh [OF assms(2,3)] assms(2,3) show ?thesis
    by (auto simp: live_attempt_def)
qed

theorem attempt_is_fresh_witness:
  "let r = zero_runtime\<lparr>rt_agent_id := ''b'', rt_connector := ''WEBHOOK''\<rparr>;
       i = zero_invocation\<lparr>iv_target := ''b'', iv_status := ''NOTIFIED''\<rparr>;
       d = zero_delivery\<lparr>dl_invocation_id := ''i'', dl_runtime_id := ''r'', dl_attempt := 4,
             dl_status := ''ATTEMPTED'', dl_attempt_until := Some 3\<rparr>;
       st = EmptyState\<lparr>st_runtimes := m_put ''r'' r m_empty, st_invocations := m_put ''i'' i m_empty,
              st_deliveries := m_put ''d'' d m_empty\<rparr>
   in \<exists>p. validate_invocation undefined st ''b'' InvDeliveryAttempt ''i''
        (InvocationDeliveryAttempted \<lparr>da_delivery_id = ''e'', da_runtime_id = ''r'', da_transport = [],
           da_host_id = [], da_endpoint_id = [], da_attempt = 1, da_manual = False,
           da_attempt_until = 0\<rparr>) 5 = Inr (InvocationDeliveryAttempted p) \<and> 4 < da_attempt p"
proof -
  let ?r = "zero_runtime\<lparr>rt_agent_id := ''b'', rt_connector := ''WEBHOOK''\<rparr>"
  let ?i = "zero_invocation\<lparr>iv_target := ''b'', iv_status := ''NOTIFIED''\<rparr>"
  let ?d = "zero_delivery\<lparr>dl_invocation_id := ''i'', dl_runtime_id := ''r'', dl_attempt := 4,
             dl_status := ''ATTEMPTED'', dl_attempt_until := Some 3\<rparr>"
  let ?st = "EmptyState\<lparr>st_runtimes := m_put ''r'' ?r m_empty, st_invocations := m_put ''i'' ?i m_empty,
              st_deliveries := m_put ''d'' ?d m_empty\<rparr>"
  let ?p = "\<lparr>da_delivery_id = ''e'', da_runtime_id = ''r'', da_transport = [],
           da_host_id = [], da_endpoint_id = [], da_attempt = 1, da_manual = False,
           da_attempt_until = 0\<rparr>"
  have v: "validate_invocation undefined ?st ''b'' InvDeliveryAttempt ''i'' (InvocationDeliveryAttempted ?p) 5 =
      Inr (InvocationDeliveryAttempted (?p\<lparr>da_transport := ''WEBHOOK'', da_attempt := 5,
        da_attempt_until := 5 + 30 * second\<rparr>))"
    by (simp add: validate_invocation_def validate_attempt_def open_for_delivery_def zero_invocation_def
        zero_runtime_def zero_delivery_def attempt_transport_def may_deliver_def m_vals_def
        live_attempt_def consumerAllowsKind_def automaticDeliveryAttempts_def nextDeliveryAttempt_def
        next_attempt_body_def effectiveInvocationConsumer_def validConsumerMode_def runtimeKind_def
        equal_fold_def m_has_def m_lookup_update text_eval blank_def Let_def)
  have "m_get (st_deliveries ?st) ''d'' = Some ?d" "dl_invocation_id ?d = ''i''"
    by simp_all
  from attempt_is_fresh [OF v this] v show ?thesis by auto
qed

end
