(* ===== verification/V_Runtimes.thy ===== *)
theory V_Runtimes
  imports V_Invocations
begin

text \<open>
  The \<open>runtime.*\<close> block of \<open>protocol.ValidateTransition\<close>: registration, configuration, heartbeats
  and the status changes of an agent's runtimes.
\<close>

definition may_manage :: "state \<Rightarrow> string \<Rightarrow> string \<Rightarrow> bool" where
  "may_manage st actor agent_id = (actor = agent_id \<or> actorElevated st actor)"

definition validate_runtime_register ::
  "state \<Rightarrow> string \<Rightarrow> runtime_event \<Rightarrow> string \<Rightarrow> runtime_registered \<Rightarrow> payload result" where
  "validate_runtime_register st actor e eid p =
     fail_if (e \<noteq> RtRegister) (Err ''invalid runtime registration transition'')
     (fail_if (eid = [] \<or> rr_agent_id p = []) (Err ''runtime ID and agent ID are required'')
     (fail_if (m_has (st_runtimes st) eid) (Err ''runtime already exists'')
     (fail_if (m_size (st_runtimes st) \<ge> MaxRuntimesPerProject)
       (Err (''runtime count exceeds '' @ dec_digits MaxRuntimesPerProject))
     (fail_if (case m_get (st_agents st) (rr_agent_id p) of None \<Rightarrow> True
               | Some target \<Rightarrow> ag_status target \<noteq> ''ACTIVE'' \<or> ag_principal_type target \<noteq> PrincipalAgent)
       (Err ''active agent runtime owner is required'')
     (fail_if (\<not> may_manage st actor (rr_agent_id p))
       (Err ''runtime owner, project owner, or orchestrator required'')
     (and_then (normalizeRuntimeDefinition (rr_kind p) (rr_connector p) (rr_config_reference p)
         (rr_host_id p) (rr_max_concurrent p))
       (\<lambda>(kind, connector). Inr (RuntimeRegistered (p\<lparr>rr_kind := kind, rr_connector := connector\<rparr>)))))))))"

definition validate_runtime_configure ::
  "state \<Rightarrow> string \<Rightarrow> runtime_event \<Rightarrow> string \<Rightarrow> runtime option \<Rightarrow> runtime_configured \<Rightarrow>
   payload result" where
  "validate_runtime_configure st actor e eid found p =
     fail_if (e \<noteq> RtConfigure) (Err ''invalid runtime configuration transition'')
     (case found of None \<Rightarrow> Inl (Err ''runtime not found'')
      | Some r \<Rightarrow>
        fail_if (\<not> may_manage st actor (rt_agent_id r))
          (Err ''runtime owner, project owner, or orchestrator required'')
        (fail_if (rt_status r \<noteq> ''OFFLINE'' \<and> rt_status r \<noteq> ''DRAINING'')
          (Err ''runtime must be offline or draining before configuration'')
        (fail_if (rt_active_invocations r \<noteq> [] \<or> runtimeInvocationLoad st eid \<noteq> 0)
          (Err ''runtime with active invocations cannot be configured'')
        (and_then (normalizeRuntimeDefinition (rc_kind p) (rc_connector p) (rc_config_reference p)
            (rc_host_id p) (rc_max_concurrent p))
          (\<lambda>(kind, connector).
             Inr (RuntimeConfigured (p\<lparr>rc_kind := kind, rc_connector := connector\<rparr>)))))))"

fun heartbeat_loop ::
  "state \<Rightarrow> string \<Rightarrow> string \<Rightarrow> string list \<Rightarrow> string list \<Rightarrow> unit result" where
  "heartbeat_loop st eid agent_id seen [] = Inr ()"
| "heartbeat_loop st eid agent_id seen (k # rest) =
     fail_if (case m_get (st_invocations st) k of None \<Rightarrow> True
              | Some i \<Rightarrow> iv_target i \<noteq> agent_id \<or> iv_runtime_id i \<noteq> eid)
       (Err (''active invocation '' @ k @ '' is not assigned to this runtime''))
     (fail_if (k \<in> set seen) (Err ''active invocation IDs must be unique'')
     (heartbeat_loop st eid agent_id (k # seen) rest))"

definition validate_heartbeat ::
  "state \<Rightarrow> string \<Rightarrow> string \<Rightarrow> runtime option \<Rightarrow> runtime_heartbeat \<Rightarrow> time \<Rightarrow> payload result" where
  "validate_heartbeat st actor eid found p0 now =
     (case found of None \<Rightarrow> Inl (Err ''registered runtime owner required'')
      | Some r \<Rightarrow>
        fail_if (actor \<noteq> rt_agent_id r) (Err ''registered runtime owner required'')
        (fail_if (rt_status r = ''REVOKED'' \<or> rt_status r = ''DRAINING'')
          (Err (''runtime cannot heartbeat while '' @ rt_status r))
        (fail_if (rt_status r = ''ONLINE'' \<and> \<not> is_zero (rt_last_seen_at r) \<and>
            sub_time now (rt_last_seen_at r) < MinHeartbeatInterval)
          (Err ''runtime heartbeat interval must be at least 10s'')
        (let p = p0\<lparr>hb_health := to_upper (trim_space (hb_health p0))\<rparr>;
             interactive = (runtimeKind (rt_kind r) (rt_connector r) = RuntimeKindInteractive)
         in fail_if (hb_health p \<noteq> ''HEALTHY'' \<and> hb_health p \<noteq> ''DEGRADED'')
              (Err ''runtime health must be HEALTHY or DEGRADED'')
            (fail_if (int (length (hb_active_invocations p)) > rt_max_concurrent r)
              (Err ''active invocations exceed runtime concurrency'')
            (fail_if (interactive \<and> blank (hb_endpoint_id p))
              (Err ''interactive runtime endpoint ID is required'')
            (fail_if (\<not> interactive \<and> \<not> blank (hb_endpoint_id p))
              (Err ''worker runtime heartbeat must not contain an interactive endpoint ID'')
            (and_then (heartbeat_loop st eid (rt_agent_id r) [] (hb_active_invocations p))
              (\<lambda>_. Inr (RuntimeHeartbeat p))))))))))"

definition validate_runtime_status ::
  "state \<Rightarrow> string \<Rightarrow> runtime_event \<Rightarrow> runtime option \<Rightarrow> runtime_status_changed \<Rightarrow> payload result" where
  "validate_runtime_status st actor e found p =
     (case found of None \<Rightarrow> Inl (Err ''runtime not found'')
      | Some r \<Rightarrow>
        if e = RtRevoke then
          fail_if (\<not> actorElevated st actor)
            (Err ''owner or orchestrator required to revoke a runtime'')
          (fail_if (rt_status r = ''REVOKED'') (Err ''runtime is already revoked'')
          (Inr (RuntimeStatusChanged p)))
        else if e = RtDelete then
          fail_if (\<not> may_manage st actor (rt_agent_id r))
            (Err ''runtime owner, project owner, or orchestrator required to delete a runtime'')
          (fail_if (rt_status r \<noteq> ''REVOKED'') (Err ''runtime must be revoked before deletion'')
          (Inr (RuntimeStatusChanged p)))
        else
          fail_if (\<not> may_manage st actor (rt_agent_id r))
            (Err ''runtime owner, project owner, or orchestrator required'')
          (if e = RtOffline then
             fail_if (rt_status r = ''REVOKED'') (Err ''revoked runtime cannot transition offline'')
             (fail_if (runtimeKind (rt_kind r) (rt_connector r) = RuntimeKindInteractive \<and>
                 rt_status r = ''ONLINE'' \<and>
                 (blank (sc_endpoint_id p) \<or> sc_endpoint_id p \<noteq> rt_endpoint_id r))
               (Err ''interactive runtime offline transition must match the active endpoint'')
             (Inr (RuntimeStatusChanged p)))
           else
             fail_if (e = RtDrain \<and> (rt_status r = ''DRAINING'' \<or> rt_status r = ''REVOKED''))
               (Err (''runtime cannot drain while '' @ rt_status r))
             (fail_if (e = RtResume \<and> rt_status r \<noteq> ''DRAINING'')
               (Err ''draining runtime required'')
             (Inr (RuntimeStatusChanged p)))))"

definition validate_runtime ::
  "state \<Rightarrow> string \<Rightarrow> runtime_event \<Rightarrow> string \<Rightarrow> payload \<Rightarrow> time \<Rightarrow> payload result" where
  "validate_runtime st actor e eid payload now =
     (let found = m_get (st_runtimes st) eid in
      case payload of
        RuntimeRegistered p \<Rightarrow> validate_runtime_register st actor e eid p
      | RuntimeConfigured p \<Rightarrow> validate_runtime_configure st actor e eid found p
      | RuntimeHeartbeat p \<Rightarrow> validate_heartbeat st actor eid found p now
      | RuntimeStatusChanged p \<Rightarrow> validate_runtime_status st actor e found p
      | _ \<Rightarrow> Inl (Err ''invalid runtime payload''))"

subsection \<open>What an accepted transition tells\<close>

lemma runtime_register_Inr:
  "validate_runtime_register st actor e eid p = Inr q \<Longrightarrow>
   \<exists>kind connector a. q = RuntimeRegistered (p\<lparr>rr_kind := kind, rr_connector := connector\<rparr>) \<and>
     e = RtRegister \<and> eid \<noteq> [] \<and> m_get (st_runtimes st) eid = None \<and>
     m_size (st_runtimes st) < MaxRuntimesPerProject \<and>
     m_get (st_agents st) (rr_agent_id p) = Some a \<and> ag_status a = ''ACTIVE'' \<and>
     may_manage st actor (rr_agent_id p) \<and>
     normalizeRuntimeDefinition (rr_kind p) (rr_connector p) (rr_config_reference p)
       (rr_host_id p) (rr_max_concurrent p) = Inr (kind, connector)"
  by (auto simp: validate_runtime_register_def m_has_def split: option.splits)

lemma runtime_configure_Inr:
  "validate_runtime_configure st actor e eid found p = Inr q \<Longrightarrow>
   \<exists>r kind connector. found = Some r \<and> e = RtConfigure \<and>
     q = RuntimeConfigured (p\<lparr>rc_kind := kind, rc_connector := connector\<rparr>) \<and>
     (rt_status r = ''OFFLINE'' \<or> rt_status r = ''DRAINING'') \<and> runtimeInvocationLoad st eid = 0 \<and>
     may_manage st actor (rt_agent_id r) \<and>
     normalizeRuntimeDefinition (rc_kind p) (rc_connector p) (rc_config_reference p)
       (rc_host_id p) (rc_max_concurrent p) = Inr (kind, connector)"
  by (auto simp: validate_runtime_configure_def split: option.splits)

lemma heartbeat_loop_Inr:
  "heartbeat_loop st eid agent_id seen ks = Inr () \<Longrightarrow>
   distinct ks \<and> set seen \<inter> set ks = {} \<and>
   (\<forall>k\<in>set ks. \<exists>i. m_get (st_invocations st) k = Some i \<and> iv_target i = agent_id \<and>
      iv_runtime_id i = eid)"
  by (induction ks arbitrary: seen) (simp, fastforce split: option.splits)

lemma heartbeat_Inr:
  assumes "validate_heartbeat st actor eid found p0 now = Inr q"
  shows "\<exists>r p. found = Some r \<and> q = RuntimeHeartbeat p \<and> actor = rt_agent_id r \<and>
    rt_status r \<notin> {''REVOKED'', ''DRAINING''} \<and> hb_health p \<in> {''HEALTHY'', ''DEGRADED''} \<and>
    int (length (hb_active_invocations p)) \<le> rt_max_concurrent r \<and>
    distinct (hb_active_invocations p) \<and>
    (\<forall>k\<in>set (hb_active_invocations p). \<exists>i. m_get (st_invocations st) k = Some i \<and>
       iv_target i = actor \<and> iv_runtime_id i = eid)"
  using assms
  by (auto simp: validate_heartbeat_def Let_def dest: heartbeat_loop_Inr split: option.splits)

lemma runtime_status_Inr:
  "validate_runtime_status st actor e found p = Inr q \<Longrightarrow>
   q = RuntimeStatusChanged p \<and> (\<exists>r. found = Some r \<and> may_manage st actor (rt_agent_id r) \<and>
     (e = RtRevoke \<longrightarrow> actorElevated st actor \<and> rt_status r \<noteq> ''REVOKED'') \<and>
     (e = RtDelete \<longrightarrow> rt_status r = ''REVOKED'') \<and>
     (e = RtOffline \<longrightarrow> rt_status r \<noteq> ''REVOKED'') \<and>
     (e = RtDrain \<longrightarrow> rt_status r \<noteq> ''REVOKED'' \<and> rt_status r \<noteq> ''DRAINING'') \<and>
     (e = RtResume \<longrightarrow> rt_status r = ''DRAINING''))"
  by (auto simp: validate_runtime_status_def may_manage_def split: option.splits if_splits)

text \<open>
  A runtime cannot claim work it was not given: an accepted heartbeat comes from the agent that
  owns the runtime, which is neither revoked nor draining, and lists distinct invocations, within
  the concurrency limit, each addressed to that agent and claimed through this very runtime.
\<close>

theorem heartbeat_is_honest:
  assumes "validate_runtime st actor RtHeartbeat eid (RuntimeHeartbeat p0) now = Inr q"
  shows "\<exists>r p. m_get (st_runtimes st) eid = Some r \<and> q = RuntimeHeartbeat p \<and> actor = rt_agent_id r \<and>
    rt_status r \<noteq> ''REVOKED'' \<and> rt_status r \<noteq> ''DRAINING'' \<and>
    int (card (set (hb_active_invocations p))) = int (length (hb_active_invocations p)) \<and>
    int (length (hb_active_invocations p)) \<le> rt_max_concurrent r \<and>
    (\<forall>k\<in>set (hb_active_invocations p). \<exists>i. m_get (st_invocations st) k = Some i \<and>
       iv_target i = actor \<and> iv_runtime_id i = eid)"
proof -
  from assms have "validate_heartbeat st actor eid (m_get (st_runtimes st) eid) p0 now = Inr q"
    by (simp add: validate_runtime_def)
  from heartbeat_Inr [OF this] show ?thesis
    by (metis distinct_card insert_iff)
qed

theorem heartbeat_is_honest_witness:
  "let r = zero_runtime\<lparr>rt_agent_id := ''b'', rt_status := ''OFFLINE'', rt_max_concurrent := 2\<rparr>;
       i = zero_invocation\<lparr>iv_target := ''b'', iv_runtime_id := ''r''\<rparr>;
       st = EmptyState\<lparr>st_runtimes := m_put ''r'' r m_empty, st_invocations := m_put ''i'' i m_empty\<rparr>;
       p = \<lparr>hb_health = '' healthy'', hb_endpoint_id = [], hb_active_invocations = [''i'']\<rparr>
   in \<exists>q. validate_runtime st ''b'' RtHeartbeat ''r'' (RuntimeHeartbeat p) 5 = Inr (RuntimeHeartbeat q)
      \<and> hb_active_invocations q = [''i'']"
proof -
  let ?r = "zero_runtime\<lparr>rt_agent_id := ''b'', rt_status := ''OFFLINE'', rt_max_concurrent := 2\<rparr>"
  let ?i = "zero_invocation\<lparr>iv_target := ''b'', iv_runtime_id := ''r''\<rparr>"
  let ?st = "EmptyState\<lparr>st_runtimes := m_put ''r'' ?r m_empty, st_invocations := m_put ''i'' ?i m_empty\<rparr>"
  let ?hb = "\<lparr>hb_health = '' healthy'', hb_endpoint_id = [], hb_active_invocations = [''i'']\<rparr>"
  have v: "validate_runtime ?st ''b'' RtHeartbeat ''r'' (RuntimeHeartbeat ?hb) 5 =
      Inr (RuntimeHeartbeat (?hb\<lparr>hb_health := ''HEALTHY''\<rparr>))"
    by (simp add: validate_runtime_def validate_heartbeat_def runtimeKind_def zero_runtime_def
        zero_invocation_def equal_fold_def m_lookup_update text_eval blank_def Let_def)
  from heartbeat_is_honest [OF v] v show ?thesis by simp
qed

end
