(* ===== verification/V_Records.thy ===== *)
theory V_Records
  imports V_Runtimes
begin

text \<open>
  The remaining blocks of \<open>protocol.ValidateTransition\<close> (documents, approvals, providers, the shared
  environment) and the function itself: the standing of the actor first, then the block of the type.
  \<open>task.offer\<close>, \<open>decision.*\<close>, \<open>artifact.add\<close> and \<open>archive.run\<close> have no block of their own.
\<close>

subsection \<open>Documents\<close>

definition validate_document ::
  "state \<Rightarrow> document_event \<Rightarrow> string \<Rightarrow> payload \<Rightarrow> payload result" where
  "validate_document st e eid payload =
     (case payload of DocumentPayload p \<Rightarrow>
        (let empty = (blank (dp_title p) \<or> blank (dp_body p)) in
         case e of
           DocumentCreate \<Rightarrow>
             fail_if empty (Err ''title and body are required'')
             (fail_if (m_has (st_documents st) eid) (Err ''document already exists'') (Inr payload))
         | DocumentUpdate \<Rightarrow>
             fail_if (\<not> m_has (st_documents st) eid) (Err ''document not found'')
             (fail_if empty (Err ''title and body are required'') (Inr payload))
         | DocumentSupersede \<Rightarrow>
             fail_if (\<not> m_has (st_documents st) eid) (Err ''document not found'')
             (fail_if (dp_replacement_id p = [] \<or> dp_replacement_id p = eid)
               (Err ''a different replacement document is required'')
             (fail_if (\<not> m_has (st_documents st) (dp_replacement_id p))
               (Err ''replacement document not found'')
             (Inr payload))))
      | _ \<Rightarrow> Inl Panic)"

subsection \<open>Approvals\<close>

definition bound_action :: "string \<Rightarrow> bool" where
  "bound_action action =
     (has_prefix action ''contract:'' \<or> has_prefix action ''invocation:'' \<or>
      has_prefix action ''invocation-sensitive:'')"

definition validate_approval_request ::
  "crypto \<Rightarrow> state \<Rightarrow> string \<Rightarrow> payload \<Rightarrow> time \<Rightarrow> payload result" where
  "validate_approval_request cr st eid payload now =
     (case payload of ApprovalRequested p \<Rightarrow>
        (let past = (case aq_expires_at p of None \<Rightarrow> False | Some t \<Rightarrow> \<not> after t now) in
         fail_if ((aq_tier p \<noteq> ''ORCHESTRATOR'' \<and> aq_tier p \<noteq> ''HUMAN'') \<or> blank (aq_action p))
           (Err ''approval tier and action are required'')
         (fail_if past (Err ''approval expiry must be in the future'')
         (fail_if (bound_action (aq_action p) \<and>
             (aq_subject p = [] \<or> aq_subject_digest p = [] \<or>
              aq_subject_digest p \<noteq> ApprovalSubjectDigestFromJSON cr (aq_subject p) \<or>
              aq_expires_at p = None \<or> past))
           (Err ''contract and invocation approvals require a subject digest and future expiry'')
         (fail_if (case m_get (st_approvals st) eid of None \<Rightarrow> False
                   | Some existing \<Rightarrow> \<not> canReplaceOrchestratorGrantApproval eid existing p now)
           (Err ''approval already exists'')
         (Inr payload)))))
      | _ \<Rightarrow> Inl (Err ''approval tier and action are required''))"

definition validate_approval_response :: "state \<Rightarrow> string \<Rightarrow> payload \<Rightarrow> payload result" where
  "validate_approval_response st eid payload =
     fail_if (case m_get (st_approvals st) eid of None \<Rightarrow> True | Some a \<Rightarrow> ap_status a \<noteq> ''PENDING'')
       (Err ''pending approval is required'')
     (Inr payload)"

subsection \<open>Providers\<close>

definition collides :: "string \<Rightarrow> string \<Rightarrow> bool" where
  "collides name principal_id = (principal_id = name \<or> has_prefix principal_id (name @ ''-''))"

definition validate_provider_register :: "state \<Rightarrow> string \<Rightarrow> payload \<Rightarrow> payload result" where
  "validate_provider_register st eid payload =
     (case payload of ProviderRegistered p \<Rightarrow>
        fail_with (ValidateProviderName eid)
        (fail_with (ValidateProviderText ''display name'' (pr_display_name p) MaxProviderDisplayName)
        (fail_with (ValidateProviderText ''description'' (pr_description p) MaxProviderDescription)
        (fail_if (case m_get (st_providers st) eid of None \<Rightarrow> False
                  | Some existing \<Rightarrow> pv_status existing = ProviderStatusActive)
          (Err (''provider '' @ quoted eid @ '' is already registered''))
        (case (if m_has (st_providers st) eid then None
               else List.find (\<lambda>(k, _). collides eid k) (m_entries (st_agents st))) of
           Some (k, _) \<Rightarrow> Inl (Err (''provider name '' @ quoted eid @
             '' collides with existing principal '' @ quoted k))
         | None \<Rightarrow> Inr payload))))
      | _ \<Rightarrow> Inl (Err ''invalid provider registration payload''))"

definition validate_provider_retire :: "state \<Rightarrow> string \<Rightarrow> payload \<Rightarrow> payload result" where
  "validate_provider_retire st eid payload =
     (case payload of ProviderRetired p \<Rightarrow>
        fail_if (IsBuiltInProvider eid)
          (Err (quoted eid @ '' is a built-in provider and cannot be retired''))
        (case m_get (st_providers st) eid of
           None \<Rightarrow> Inl (Err (''provider '' @ quoted eid @ '' is not registered''))
         | Some existing \<Rightarrow>
           fail_if (pv_status existing \<noteq> ProviderStatusActive)
             (Err (''provider '' @ quoted eid @ '' is already retired''))
           (fail_if (blank (px_reason p)) (Err ''retirement reason is required'')
           (fail_with (ValidateProviderText ''retirement reason'' (px_reason p) MaxProviderRetireReason)
           (Inr payload))))
      | _ \<Rightarrow> Inl (Err ''invalid provider retirement payload''))"

subsection \<open>The shared environment\<close>

definition validate_env :: "env_event \<Rightarrow> payload \<Rightarrow> payload result" where
  "validate_env e payload =
     (case e of
        EnvSet \<Rightarrow> (case payload of
          EnvSetPayload p \<Rightarrow> fail_if (blank (es_key p)) (Err ''key is required'') (Inr payload)
        | _ \<Rightarrow> Inl Panic)
      | EnvDelete \<Rightarrow> (case payload of
          EnvDeletePayload p \<Rightarrow> fail_if (ed_key p = []) (Err ''key is required'') (Inr payload)
        | _ \<Rightarrow> Inl Panic))"

subsection \<open>ValidateTransition\<close>

definition validate_block ::
  "crypto \<Rightarrow> state \<Rightarrow> string \<Rightarrow> event_type \<Rightarrow> string \<Rightarrow> payload \<Rightarrow> time \<Rightarrow> payload result" where
  "validate_block cr st actor typ eid payload now =
     (case typ of
        Agent_ev e \<Rightarrow> validate_agent st actor e eid payload now
      | SettingsUpdate \<Rightarrow> validate_settings st actor payload
      | Task_ev e \<Rightarrow> validate_task st actor e eid payload now
      | Message_ev e \<Rightarrow> validate_message cr st actor e eid payload now
      | Invocation_ev e \<Rightarrow> validate_invocation cr st actor e eid payload now
      | Runtime_ev e \<Rightarrow> validate_runtime st actor e eid payload now
      | Document_ev e \<Rightarrow> validate_document st e eid payload
      | Approval_ev ApprovalRequest \<Rightarrow> validate_approval_request cr st eid payload now
      | Approval_ev ApprovalApprove \<Rightarrow> validate_approval_response st eid payload
      | Approval_ev ApprovalReject \<Rightarrow> validate_approval_response st eid payload
      | Provider_ev ProviderRegister \<Rightarrow> validate_provider_register st eid payload
      | Provider_ev ProviderRetire \<Rightarrow> validate_provider_retire st eid payload
      | Env_ev e \<Rightarrow> validate_env e payload
      | Decision_ev _ \<Rightarrow> Inr payload
      | ArtifactAdd \<Rightarrow> Inr payload
      | ArchiveRunEv \<Rightarrow> Inr payload)"

definition ValidateTransition ::
  "crypto \<Rightarrow> state \<Rightarrow> string \<Rightarrow> event_type \<Rightarrow> string \<Rightarrow> payload \<Rightarrow> time \<Rightarrow> payload result" where
  "ValidateTransition cr st actor typ eid payload now =
     fail_if (actor = []) (Err ''actor is required'')
     (if typ = Agent_ev AgentRegister then validate_register st eid payload
      else and_then (check_standing st actor typ eid)
        (\<lambda>_. validate_block cr st actor typ eid payload now))"

subsection \<open>What an accepted transition tells\<close>

lemma document_Inr:
  "validate_document st e eid payload = Inr q \<Longrightarrow>
   \<exists>p. q = payload \<and> payload = DocumentPayload p \<and>
     (e = DocumentCreate \<longrightarrow> m_get (st_documents st) eid = None) \<and>
     (e = DocumentSupersede \<longrightarrow> dp_replacement_id p \<noteq> eid \<and> m_has (st_documents st) (dp_replacement_id p))"
  by (auto simp: validate_document_def m_has_def Let_def split: payload.splits document_event.splits)

lemma approval_request_Inr:
  "validate_approval_request cr st eid payload now = Inr q \<Longrightarrow>
   \<exists>p. q = payload \<and> payload = ApprovalRequested p \<and>
     (aq_tier p = ''ORCHESTRATOR'' \<or> aq_tier p = ''HUMAN'') \<and>
     (\<forall>t. aq_expires_at p = Some t \<longrightarrow> now < t) \<and>
     (bound_action (aq_action p) \<longrightarrow>
        aq_subject_digest p = sha256_hex cr (aq_subject p) \<and> aq_expires_at p \<noteq> None) \<and>
     (\<forall>a. m_get (st_approvals st) eid = Some a \<longrightarrow>
        canReplaceOrchestratorGrantApproval eid a p now)"
  by (auto simp: validate_approval_request_def ApprovalSubjectDigestFromJSON_def Let_def
      split: payload.splits option.splits)

lemma approval_response_Inr:
  "validate_approval_response st eid payload = Inr q \<Longrightarrow>
   q = payload \<and> (\<exists>a. m_get (st_approvals st) eid = Some a \<and> ap_status a = ''PENDING'')"
  by (auto simp: validate_approval_response_def split: option.splits)

lemma provider_register_Inr:
  "validate_provider_register st eid payload = Inr q \<Longrightarrow>
   q = payload \<and> ValidateProviderName eid = None \<and>
   (\<forall>v. m_get (st_providers st) eid = Some v \<longrightarrow> pv_status v \<noteq> ProviderStatusActive) \<and>
   (m_get (st_providers st) eid = None \<longrightarrow>
      (\<forall>k a. m_get (st_agents st) k = Some a \<longrightarrow> \<not> collides eid k))"
  by (auto simp: validate_provider_register_def m_has_def find_None_iff m_entries_get
      split: payload.splits option.splits if_splits) (metis option.discI)

lemma provider_retire_Inr:
  "validate_provider_retire st eid payload = Inr q \<Longrightarrow>
   q = payload \<and> \<not> IsBuiltInProvider eid \<and>
   (\<exists>v. m_get (st_providers st) eid = Some v \<and> pv_status v = ProviderStatusActive)"
  by (auto simp: validate_provider_retire_def split: payload.splits option.splits)

lemma active_Inr:
  "active st actor = Inr a \<longleftrightarrow> m_get (st_agents st) actor = Some a \<and> ag_status a = ''ACTIVE''"
  by (auto simp: active_def split: option.splits)

lemma standing_Inr:
  "check_standing st actor typ eid = Inr u \<Longrightarrow>
   \<exists>a. m_get (st_agents st) actor = Some a \<and> ag_status a = ''ACTIVE'' \<and>
     (elevated typ \<and> typ \<noteq> Agent_ev AgentRotateKey \<and> typ \<noteq> Agent_ev AgentRevoke \<longrightarrow> governs a) \<and>
     (elevated typ \<and> eid \<noteq> actor \<longrightarrow> governs a) \<and>
     (typ = Approval_ev ApprovalApprove \<and>
        ap_tier (m_read zero_approval (st_approvals st) eid) = ''HUMAN'' \<longrightarrow>
      ag_principal_type a = PrincipalHuman)"
  by (auto simp: check_standing_def active_Inr governs_def Let_def)

lemma transition_Inr:
  assumes "ValidateTransition cr st actor typ eid payload now = Inr q"
  shows "actor \<noteq> []"
    "typ = Agent_ev AgentRegister \<Longrightarrow> validate_register st eid payload = Inr q"
    "typ \<noteq> Agent_ev AgentRegister \<Longrightarrow> check_standing st actor typ eid = Inr ()"
    "typ \<noteq> Agent_ev AgentRegister \<Longrightarrow> validate_block cr st actor typ eid payload now = Inr q"
  using assms by (auto simp: ValidateTransition_def)

subsection \<open>An approval is never overwritten while it counts\<close>

text \<open>
  An approval cannot be slipped over another one: a request that reuses an existing approval's id
  is accepted only if that approval is consumed or has expired, and then only for the same
  human-tier orchestrator grant under its conventional id. A pending or approved record that is
  still live is never replaced.
\<close>

theorem approval_not_overwritten:
  assumes "ValidateTransition cr st actor (Approval_ev ApprovalRequest) eid payload now = Inr q"
    and "m_get (st_approvals st) eid = Some a"
  shows "(ap_status a = ''CONSUMED'' \<or>
      (\<exists>t. ap_expires_at a = Some t \<and> t \<le> now \<and> (ap_status a = ''PENDING'' \<or> ap_status a = ''APPROVED''))) \<and>
    (\<exists>p who. payload = ApprovalRequested p \<and> aq_action p = ap_action a \<and> aq_tier p = ''HUMAN'' \<and>
      ap_tier a = ''HUMAN'' \<and> aq_action p = OrchestratorGrantApprovalAction who \<and>
      eid = OrchestratorGrantApprovalID who)"
proof (rule conjI)
  from transition_Inr(4) [OF assms(1)] have
    "validate_approval_request cr st eid payload now = Inr q"
    by (simp add: validate_block_def)
  from approval_request_Inr [OF this] assms(2) obtain p where
    p: "payload = ApprovalRequested p" "canReplaceOrchestratorGrantApproval eid a p now"
    by blast
  from p(2) show "ap_status a = ''CONSUMED'' \<or>
      (\<exists>t. ap_expires_at a = Some t \<and> t \<le> now \<and> (ap_status a = ''PENDING'' \<or> ap_status a = ''APPROVED''))"
    by (auto simp: canReplaceOrchestratorGrantApproval_def Let_def split: if_splits option.splits)
  from p(2) obtain who where "cut_prefix (aq_action p) ''agent.activate:'' = Some who"
    "eid = OrchestratorGrantApprovalID who" "ap_tier a = ''HUMAN''" "aq_tier p = ''HUMAN''"
    "ap_action a = aq_action p"
    by (auto simp: canReplaceOrchestratorGrantApproval_def Let_def split: if_splits option.splits)
  moreover from this(1) have "aq_action p = OrchestratorGrantApprovalAction who"
    by (auto simp: cut_prefix_def OrchestratorGrantApprovalAction_def elim!: prefixE split: if_splits)
  ultimately show "\<exists>p who. payload = ApprovalRequested p \<and> aq_action p = ap_action a \<and>
      aq_tier p = ''HUMAN'' \<and> ap_tier a = ''HUMAN'' \<and>
      aq_action p = OrchestratorGrantApprovalAction who \<and> eid = OrchestratorGrantApprovalID who"
    using p(1) by auto
qed

theorem approval_not_overwritten_witness:
  "let a = zero_approval\<lparr>ap_tier := ''HUMAN'', ap_action := ''agent.activate:b'', ap_status := ''APPROVED'',
         ap_expires_at := Some 4\<rparr>;
       me = zero_agent\<lparr>ag_status := ''ACTIVE''\<rparr>;
       st = EmptyState\<lparr>st_agents := m_put ''me'' me m_empty,
              st_approvals := m_put ''grant-orchestrator-b'' a m_empty\<rparr>;
       p = \<lparr>aq_tier = ''HUMAN'', aq_action = ''agent.activate:b'', aq_subject_digest = [], aq_subject = [],
            aq_reason = [], aq_affected = [], aq_expires_at = None\<rparr>
   in ValidateTransition undefined st ''me'' (Approval_ev ApprovalRequest) ''grant-orchestrator-b''
        (ApprovalRequested p) 9 = Inr (ApprovalRequested p) \<and>
      (\<exists>t. ap_expires_at a = Some t \<and> t \<le> 9)"
proof -
  let ?a = "zero_approval\<lparr>ap_tier := ''HUMAN'', ap_action := ''agent.activate:b'', ap_status := ''APPROVED'',
         ap_expires_at := Some 4\<rparr>"
  let ?me = "zero_agent\<lparr>ag_status := ''ACTIVE''\<rparr>"
  let ?st = "EmptyState\<lparr>st_agents := m_put ''me'' ?me m_empty,
              st_approvals := m_put ''grant-orchestrator-b'' ?a m_empty\<rparr>"
  let ?p = "\<lparr>aq_tier = ''HUMAN'', aq_action = ''agent.activate:b'', aq_subject_digest = [], aq_subject = [],
            aq_reason = [], aq_affected = [], aq_expires_at = None\<rparr>"
  have v: "ValidateTransition undefined ?st ''me'' (Approval_ev ApprovalRequest) ''grant-orchestrator-b''
        (ApprovalRequested ?p) 9 = Inr (ApprovalRequested ?p)"
    by (simp add: ValidateTransition_def check_standing_def active_def elevated_def m_lookup_update
        validate_block_def validate_approval_request_def canReplaceOrchestratorGrantApproval_def
        cut_prefix_def OrchestratorGrantApprovalID_def bound_action_def zero_approval_def
        blank_def text_eval Let_def)
  have "m_get (st_approvals ?st) ''grant-orchestrator-b'' = Some ?a" by simp
  from approval_not_overwritten [OF v this] v show ?thesis
    by (simp add: zero_approval_def)
qed

subsection \<open>No panic on decoded payloads\<close>

definition calm :: "'a result \<Rightarrow> bool" where
  "calm r = (r \<noteq> Inl Panic)"

lemma calm_simps [simp]:
  "calm (Inr a)" "calm (Inl (Err m))" "calm (Inl (NotRegistered m))"
  "calm (fail_if bad e rest) \<longleftrightarrow> (if bad then e \<noteq> Panic else calm rest)"
  by (simp_all add: calm_def fail_if_def)

lemma calm_fail_if: "e \<noteq> Panic \<Longrightarrow> calm rest \<Longrightarrow> calm (fail_if bad e rest)"
  by simp

lemma calm_and_then: "calm r \<Longrightarrow> (\<And>a. r = Inr a \<Longrightarrow> calm (f a)) \<Longrightarrow> calm (and_then r f)"
  by (cases r) (simp_all add: calm_def)

lemma calm_fail_with: "(\<And>e. x = Some e \<Longrightarrow> e \<noteq> Panic) \<Longrightarrow> calm rest \<Longrightarrow> calm (fail_with x rest)"
  by (cases x) (simp_all add: fail_with_def calm_def)

lemma calm_names [simp]:
  "ValidateProviderName n \<noteq> Some Panic" "ValidateProviderText f v k \<noteq> Some Panic"
  "ValidateAgentActorID ps n \<noteq> Some Panic"
  by (simp_all add: ValidateProviderName_def ValidateProviderText_def ValidateAgentActorID_def
      Let_def split: option.split prod.split)

lemma calm_runtime_definition [simp]: "calm (normalizeRuntimeDefinition a b c d e)"
  by (simp add: normalizeRuntimeDefinition_def Let_def)

lemma calm_heartbeat_loop [simp]: "calm (heartbeat_loop st i g seen ks)"
  by (induction ks arbitrary: seen) simp_all

lemma calm_evidence_loop [simp]: "calm (evidence_loop tr al x y seen z es)"
  by (induction es arbitrary: seen z) (simp_all add: Let_def)

lemma calm_consumer_modes [simp]: "calm (consumer_modes_loop seen ms)"
  by (induction ms arbitrary: seen) (simp_all add: Let_def)

lemma calm_takeover [simp]: "calm (takeover_approval st te eid tp now)"
  by (simp add: takeover_approval_def split: prod.split)

lemma calm_response_of [simp]: "calm (response_of me kind status)"
  by (simp add: response_of_def split: message_event.split)

lemma calm_evidence [simp]: "calm (validateDeliveryEvidence tr ep es x y)"
  by (auto simp: validateDeliveryEvidence_def Let_def intro!: calm_and_then)

lemma calm_role_value [simp]: "calm (validateRoleValue r rest) \<longleftrightarrow> r = [] \<or> length r > maxRoleLength \<or> calm rest"
  by (simp add: validateRoleValue_def)

lemma calm_Inl [simp]: "calm (Inl e) \<longleftrightarrow> e \<noteq> Panic"
  by (simp add: calm_def)

lemma calm_register [simp]: "calm (validate_register st eid payload)"
  by (auto simp: validate_register_def Let_def dest: calm_names(3) [THEN notE, rotated]
      split: payload.split option.split prod.split)

lemma calm_agent: "calm (validate_agent st actor e eid payload now)"
  by (cases e)
    (simp_all add: validate_agent_def validate_activate_def validate_switch_role_def
      validate_elevate_key_def validate_rotate_key_def validate_rename_def validate_suspend_def
      validate_revoke_def validate_delete_def Let_def split: option.split payload.split)

lemma calm_settings: "calm (validate_settings st actor payload)"
  by (simp add: validate_settings_def split: payload.split)

lemma calm_task: "calm (validate_task st actor e eid payload now)"
proof -
  have "calm (validate_task_claimed st actor eid t p now)" for t p
    by (simp add: validate_task_claimed_def claim_conflict_error_def Let_def split: option.split)
  moreover have "calm (validate_task_created x p)" "calm (validate_task_renewed st actor t r now)" for x p t r
    by (simp_all add: validate_task_created_def validate_task_renewed_def Let_def)
  moreover have "calm (validate_task_status st actor e eid t p now)" for e t p
    by (auto simp: validate_task_status_def Let_def intro!: calm_and_then)
  ultimately show ?thesis
    by (simp add: validate_task_def Let_def split: payload.split)
qed

lemma calm_message:
  assumes "payload_ok (Message_ev e) payload"
  shows "calm (validate_message cr st actor e eid payload now)"
proof (cases "e = MessagePost")
  case True
  with assms obtain p where "payload = MessagePosted p"
    by (cases payload) (auto simp: payload_ok_def)
  with True show ?thesis
    by (simp add: validate_message_def validate_post_def split: option.split)
next
  case False
  with assms obtain p where "payload = MessageResponse p"
    by (cases payload) (auto simp: payload_ok_def)
  with False show ?thesis
    by (auto simp: validate_message_def validate_response_def intro!: calm_and_then split: option.split)
qed

lemma calm_policy_admits: "calm rest \<Longrightarrow> calm (policy_admits st actor t rest)"
  by (simp add: policy_admits_def Let_def)

lemma calm_request_errors:
  "deadline_error d now = Some x \<Longrightarrow> x \<noteq> Panic" "message_error st m t = Some x \<Longrightarrow> x \<noteq> Panic"
  "preferred_error st q = Some x \<Longrightarrow> x \<noteq> Panic" "approval_error st actor eid g q now = Some x \<Longrightarrow> x \<noteq> Panic"
  by (auto simp: deadline_error_def message_error_def preferred_error_def approval_error_def Let_def
      split: option.splits if_splits)

lemma calm_request: "calm (validate_request cr st actor e eid p now)"
  unfolding validate_request_def Let_def
  by (auto intro!: calm_fail_if calm_fail_with calm_policy_admits dest: calm_request_errors
      simp del: calm_simps(4) insert_iff split: option.split)

lemma calm_invocation: "calm (validate_invocation cr st actor e eid payload now)"
proof -
  have "calm (validate_attempt st actor eid found p now)" for found p
    by (simp add: validate_attempt_def Let_def split: option.split)
  moreover have "calm (validate_notify st actor eid found p now)" for found p
    by (auto simp: validate_notify_def Let_def intro!: calm_and_then split: option.split)
  moreover have "calm (validate_claim st actor eid found p now)" for found p
    by (simp add: validate_claim_def Let_def split: option.split)
  moreover have "calm (validate_progress actor e found p)" for found p
    by (simp add: validate_progress_def split: option.split)
  moreover have "calm (validate_wait actor found p now)" for found p
    by (simp add: validate_wait_def split: option.split)
  moreover have "calm (validate_complete st actor found p)" for found p
    by (simp add: validate_complete_def split: option.split)
  moreover have "calm (validate_end st actor e found p now)" for found p
    by (simp add: validate_end_def Let_def split: option.split)
  moreover have "calm (validate_delivery_failed st actor eid found p now)" for found p
    by (simp add: validate_delivery_failed_def Let_def split: option.split)
  moreover have "calm (validate_policy st actor eid payload)"
    unfolding validate_policy_def Let_def
    by (auto intro!: calm_fail_if calm_and_then
        simp del: calm_simps(4) insert_iff consumer_modes_loop.simps
        split: option.split payload.split)
  ultimately show ?thesis
    using calm_request by (simp add: validate_invocation_def Let_def split: payload.split)
qed

lemma calm_runtime: "calm (validate_runtime st actor e eid payload now)"
  by (auto simp: validate_runtime_def validate_runtime_register_def validate_runtime_configure_def
      validate_heartbeat_def validate_runtime_status_def Let_def intro!: calm_and_then
      split: option.split payload.split prod.split)

lemma calm_document: "payload_ok (Document_ev e) payload \<Longrightarrow> calm (validate_document st e eid payload)"
  by (cases payload) (auto simp: payload_ok_def validate_document_def Let_def split: document_event.split)

lemma calm_env: "payload_ok (Env_ev e) payload \<Longrightarrow> calm (validate_env e payload)"
  by (cases e; cases payload) (auto simp: payload_ok_def validate_env_def)

lemma calm_provider:
  "calm (validate_provider_register st eid payload)" "calm (validate_provider_retire st eid payload)"
  by (auto simp: validate_provider_register_def validate_provider_retire_def
      intro!: calm_fail_with split: option.split payload.split)

lemma calm_approval_request: "calm (validate_approval_request cr st eid payload now)"
  by (simp add: validate_approval_request_def Let_def split: payload.split)

text \<open>
  The validator never panics on a payload decoded for its own event type: whatever the state, the
  actor and the time, its unchecked type assertions hold, and it returns a payload or an error.
\<close>

theorem validate_never_panics:
  assumes "payload_ok typ payload"
  shows "ValidateTransition cr st actor typ eid payload now \<noteq> Inl Panic"
proof -
  have "calm (validate_block cr st actor typ eid payload now)"
    using assms
  proof (cases "typ")
    case (Approval_ev e)
    then show ?thesis
      by (cases e) (simp_all add: validate_block_def calm_approval_request validate_approval_response_def)
  next
    case (Provider_ev e)
    then show ?thesis by (cases e) (simp_all add: validate_block_def calm_provider)
  qed (simp_all add: validate_block_def calm_agent calm_task calm_message calm_invocation
      calm_runtime calm_settings calm_document calm_env)
  moreover have "calm (check_standing st actor typ eid)"
    by (auto simp: check_standing_def active_def Let_def intro!: calm_and_then split: option.split)
  ultimately have "calm (ValidateTransition cr st actor typ eid payload now)"
    by (auto simp: ValidateTransition_def intro!: calm_and_then)
  then show ?thesis by (simp add: calm_def)
qed

theorem validate_never_panics_witness:
  "ValidateTransition undefined EmptyState ''a'' (Env_ev EnvDelete) [] (EnvDeletePayload \<lparr>ed_key = []\<rparr>) 1
     \<noteq> Inl Panic \<and>
   validate_env EnvDelete (EnvSetPayload \<lparr>es_key = [], es_value = []\<rparr>) = Inl Panic"
  using validate_never_panics [of "Env_ev EnvDelete" "EnvDeletePayload \<lparr>ed_key = []\<rparr>"]
  by (simp add: payload_ok_def validate_env_def)

end
