(* ===== verification/Projection.thy ===== *)
theory Projection
  imports V_Records
begin

text \<open>
  \<open>internal/projection/apply.go\<close>: what a committed event does to the project state. An event type
  this build does not know changes nothing. The switch of the code is on the payload struct; each
  longer arm is a definition of its own, and the entity clocks are stamped last. The nil-map
  initialisations of the code have no counterpart: a map of the model is never nil.
\<close>

text \<open>The fields of \<open>model.Event\<close> the projection reads.\<close>

record log_event =
  le_id :: string
  le_sequence :: nat
  le_time :: time
  le_actor :: string
  le_type :: string
  le_entity_id :: string
  le_data :: string

subsection \<open>Clocks\<close>

definition stampClock :: "log_event \<Rightarrow> clock \<Rightarrow> clock" where
  "stampClock e c =
     (if is_zero (created_at c)
      then c\<lparr>created_at := le_time e, created_sequence := le_sequence e\<rparr> else c)
     \<lparr>updated_at := le_time e, updated_sequence := le_sequence e\<rparr>"

definition stamp_agent :: "log_event \<Rightarrow> agent \<Rightarrow> agent" where
  "stamp_agent e v = v\<lparr>ag_clock := stampClock e (ag_clock v)\<rparr>"

definition stamp_task :: "log_event \<Rightarrow> task \<Rightarrow> task" where
  "stamp_task e v = v\<lparr>tk_clock := stampClock e (tk_clock v)\<rparr>"

definition stamp_approval :: "log_event \<Rightarrow> approval \<Rightarrow> approval" where
  "stamp_approval e v = v\<lparr>ap_clock := stampClock e (ap_clock v)\<rparr>"

definition stamp_provider :: "log_event \<Rightarrow> provider \<Rightarrow> provider" where
  "stamp_provider e v = v\<lparr>pv_clock := stampClock e (pv_clock v)\<rparr>"

definition stamp_document :: "log_event \<Rightarrow> document \<Rightarrow> document" where
  "stamp_document e v = v\<lparr>dc_clock := stampClock e (dc_clock v)\<rparr>"

definition stamp_invocation :: "log_event \<Rightarrow> invocation \<Rightarrow> invocation" where
  "stamp_invocation e v =
     (let v = v\<lparr>iv_updated_at := le_time e, iv_updated_sequence := le_sequence e\<rparr>
      in if is_zero (iv_created_at v)
         then v\<lparr>iv_created_at := le_time e, iv_created_sequence := le_sequence e\<rparr> else v)"

definition stamp_runtime :: "log_event \<Rightarrow> runtime \<Rightarrow> runtime" where
  "stamp_runtime e v =
     (if is_zero (rt_created_at v)
      then v\<lparr>rt_created_at := le_time e, rt_created_sequence := le_sequence e\<rparr> else v)
     \<lparr>rt_updated_at := le_time e, rt_updated_sequence := le_sequence e\<rparr>"

definition stampEntity :: "event_type \<Rightarrow> log_event \<Rightarrow> state \<Rightarrow> state" where
  "stampEntity typ e s =
     (let k = le_entity_id e in
      case typ of
        Agent_ev _ \<Rightarrow> s\<lparr>st_agents := m_adjust (stamp_agent e) k (st_agents s)\<rparr>
      | Task_ev _ \<Rightarrow> s\<lparr>st_tasks := m_adjust (stamp_task e) k (st_tasks s)\<rparr>
      | Invocation_ev _ \<Rightarrow> s\<lparr>st_invocations := m_adjust (stamp_invocation e) k (st_invocations s)\<rparr>
      | Runtime_ev _ \<Rightarrow> s\<lparr>st_runtimes := m_adjust (stamp_runtime e) k (st_runtimes s)\<rparr>
      | Approval_ev _ \<Rightarrow> s\<lparr>st_approvals := m_adjust (stamp_approval e) k (st_approvals s)\<rparr>
      | Provider_ev _ \<Rightarrow> s\<lparr>st_providers := m_adjust (stamp_provider e) k (st_providers s)\<rparr>
      | Document_ev _ \<Rightarrow> s\<lparr>st_documents := m_adjust (stamp_document e) k (st_documents s)\<rparr>
      | Decision_ev _ \<Rightarrow> s\<lparr>st_documents := m_adjust (stamp_document e) k (st_documents s)\<rparr>
      | _ \<Rightarrow> s)"

subsection \<open>Spending an approval\<close>

definition consume :: "log_event \<Rightarrow> approval \<Rightarrow> approval" where
  "consume e a = stamp_approval e (a\<lparr>ap_status := ''CONSUMED''\<rparr>)"

definition consumeOrchestratorGrantApproval :: "string \<Rightarrow> log_event \<Rightarrow> state \<Rightarrow> state" where
  "consumeOrchestratorGrantApproval principal_id e s =
     s\<lparr>st_approvals := m_adjust (consume e) (OrchestratorGrantApprovalID principal_id) (st_approvals s)\<rparr>"

definition consumeApprovedAction :: "string \<Rightarrow> log_event \<Rightarrow> state \<Rightarrow> state" where
  "consumeApprovedAction action e s =
     (let ids = List.map fst (List.filter (\<lambda>(_, a). ap_action a = action \<and> ap_status a = ''APPROVED'')
                  (m_entries (st_approvals s)))
      in case sort ids of [] \<Rightarrow> s
         | first # _ \<Rightarrow> s\<lparr>st_approvals := m_write zero_approval (consume e) first (st_approvals s)\<rparr>)"

definition consumeNamedApprovedAction ::
  "string \<Rightarrow> string \<Rightarrow> log_event \<Rightarrow> state \<Rightarrow> state result" where
  "consumeNamedApprovedAction k action e s =
     (let refuse = Inl (Err (''takeover approval '' @ quoted k @
            '' is missing, expired, or not approved for '' @ quoted action))
      in case m_get (st_approvals s) k of None \<Rightarrow> refuse
         | Some a \<Rightarrow>
           if ap_action a \<noteq> action \<or> ap_status a \<noteq> ''APPROVED'' \<or>
              (case ap_expires_at a of None \<Rightarrow> False | Some t \<Rightarrow> \<not> after t (le_time e))
           then refuse
           else Inr (s\<lparr>st_approvals := m_put k (consume e a) (st_approvals s)\<rparr>))"

subsection \<open>Defaults and derived statuses\<close>

definition defaultRisk :: "string \<Rightarrow> string" where
  "defaultRisk v = (if v = [] then ''ROUTINE'' else to_upper v)"

definition effectiveRuntimeKind :: "string \<Rightarrow> string \<Rightarrow> string" where
  "effectiveRuntimeKind kind connector =
     (if kind \<noteq> [] then kind
      else if equal_fold connector ''INTERACTIVE'' then RuntimeKindInteractive
      else RuntimeKindWorker)"

definition effectiveConsumerMode :: "string \<Rightarrow> string" where
  "effectiveConsumerMode mode =
     (if mode = ConsumerModeInteractiveOnly \<or> mode = ConsumerModeWorkerOnly \<or> mode = ConsumerModeEither
      then mode else ConsumerModeEither)"

definition hasSuccessfulDelivery :: "state \<Rightarrow> string \<Rightarrow> bool" where
  "hasSuccessfulDelivery s invocation_id =
     list_ex (\<lambda>d. dl_invocation_id d = invocation_id \<and>
        (dl_status d = ''SUCCEEDED'' \<or> dl_status d = ''NOTIFIED'')) (m_vals (st_deliveries s))"

definition initialRecipientStatus :: "string \<Rightarrow> string" where
  "initialRecipientStatus kind = (if kind = ''FYI'' then ''DELIVERED'' else ''PENDING'')"

definition messageStatus :: "message \<Rightarrow> string" where
  "messageStatus m =
     (if list_ex (\<lambda>r. rs_status r = ''REJECTED'') (ms_recipients m) then ''REJECTED''
      else if \<not> list_ex (\<lambda>r. rs_status r = ''PENDING'') (ms_recipients m) then ''SATISFIED''
      else ''OPEN'')"

subsection \<open>Principals\<close>

definition apply_registered :: "crypto \<Rightarrow> agent_registered \<Rightarrow> log_event \<Rightarrow> state \<Rightarrow> state" where
  "apply_registered cr p e s =
     s\<lparr>st_agents := m_put (le_entity_id e)
        (zero_agent\<lparr>ag_id := le_entity_id e, ag_display_name := ar_display_name p,
           ag_status := ''PENDING'', ag_principal_type := ar_principal_type p,
           ag_public_key := ar_public_key p,
           ag_key_fingerprint := Fingerprint cr (ar_public_key p)\<rparr>) (st_agents s)\<rparr>"

definition on_agent :: "(agent \<Rightarrow> agent) \<Rightarrow> log_event \<Rightarrow> state \<Rightarrow> state" where
  "on_agent f e s = s\<lparr>st_agents := m_write zero_agent f (le_entity_id e) (st_agents s)\<rparr>"

definition apply_activated :: "agent_activated \<Rightarrow> log_event \<Rightarrow> state \<Rightarrow> state" where
  "apply_activated p e s =
     (let s' = on_agent (\<lambda>a. a\<lparr>ag_status := ''ACTIVE'', ag_role := aa_role p,
            ag_capabilities := aa_capabilities p, ag_scopes := aa_scopes p\<rparr>) e s
      in if aa_role p = RoleOrchestrator
         then consumeOrchestratorGrantApproval (le_entity_id e) e s' else s')"

definition apply_role_switched :: "agent_role_switched \<Rightarrow> log_event \<Rightarrow> state \<Rightarrow> state" where
  "apply_role_switched p e s =
     (let s' = on_agent (\<lambda>a. a\<lparr>ag_role := sw_role p\<rparr>) e s
      in if sw_role p = RoleOrchestrator
         then consumeOrchestratorGrantApproval (le_entity_id e) e s' else s')"

definition revoke_runtime :: "log_event \<Rightarrow> runtime \<Rightarrow> runtime" where
  "revoke_runtime e r =
     (if rt_agent_id r = le_entity_id e \<and> rt_status r \<noteq> ''REVOKED''
      then r\<lparr>rt_status := ''REVOKED'', rt_reason := ''agent revoked'', rt_last_changed_by := le_actor e,
             rt_updated_at := le_time e, rt_updated_sequence := le_sequence e\<rparr>
      else r)"

definition apply_agent_revoked :: "log_event \<Rightarrow> state \<Rightarrow> state" where
  "apply_agent_revoked e s =
     (on_agent (\<lambda>a. a\<lparr>ag_status := ''REVOKED''\<rparr>) e s)
     \<lparr>st_runtimes := m_map (\<lambda>_. revoke_runtime e) (st_runtimes s)\<rparr>"

subsection \<open>Tasks\<close>

definition apply_task_created :: "task_created \<Rightarrow> log_event \<Rightarrow> state \<Rightarrow> state" where
  "apply_task_created p e s =
     s\<lparr>st_tasks := m_put (le_entity_id e)
        (zero_task\<lparr>tk_id := le_entity_id e, tk_title := tc_title p, tk_summary := tc_summary p,
           tk_status := ''OPEN'', tk_repository := tc_repository p, tk_branch := tc_branch p,
           tk_worktree := tc_worktree p, tk_resources := tc_resources p,
           tk_external_ref := tc_external_ref p, tk_risk := defaultRisk (tc_risk p)\<rparr>) (st_tasks s)\<rparr>"

definition on_task :: "(task \<Rightarrow> task) \<Rightarrow> log_event \<Rightarrow> state \<Rightarrow> state" where
  "on_task f e s = s\<lparr>st_tasks := m_write zero_task f (le_entity_id e) (st_tasks s)\<rparr>"

definition accept_offer :: "string \<Rightarrow> offer \<Rightarrow> offer" where
  "accept_offer actor o' =
     (if of_to o' = actor \<and> of_status o' = ''PENDING'' then o'\<lparr>of_status := ''ACCEPTED''\<rparr> else o')"

definition claim_task :: "duration \<Rightarrow> task_claimed \<Rightarrow> log_event \<Rightarrow> task \<Rightarrow> task" where
  "claim_task grace p e t =
     t\<lparr>tk_owner := le_actor e, tk_status := ''CLAIMED'', tk_lease_until := cl_lease_until p,
       tk_stale_until := cl_lease_until p + grace,
       tk_worktree := (if cl_worktree p \<noteq> [] then cl_worktree p else tk_worktree t),
       tk_offers := List.map (accept_offer (le_actor e)) (tk_offers t)\<rparr>"

definition offer_task :: "task_offered \<Rightarrow> log_event \<Rightarrow> task \<Rightarrow> task" where
  "offer_task p e t =
     t\<lparr>tk_status := ''OFFERED'',
       tk_offers := tk_offers t @ [\<lparr>of_id = le_id e, of_to = to_to p, of_expires_at = to_expires_at p,
         of_status = ''PENDING''\<rparr>]\<rparr>"

definition renew_task :: "duration \<Rightarrow> task_renewed \<Rightarrow> task \<Rightarrow> task" where
  "renew_task grace p t =
     t\<lparr>tk_lease_until := tr_lease_until p, tk_stale_until := tr_lease_until p + grace\<rparr>"

fun status_change :: "task_event \<Rightarrow> duration \<Rightarrow> duration \<Rightarrow> log_event \<Rightarrow> task \<Rightarrow> task" where
  "status_change TaskStart lease grace e t = t\<lparr>tk_status := ''IN_PROGRESS''\<rparr>"
| "status_change TaskBlock lease grace e t = t\<lparr>tk_status := ''BLOCKED''\<rparr>"
| "status_change TaskReview lease grace e t = t\<lparr>tk_status := ''REVIEW''\<rparr>"
| "status_change TaskComplete lease grace e t =
     t\<lparr>tk_status := ''COMPLETED'', tk_completed_at := Some (le_time e)\<rparr>"
| "status_change TaskCancel lease grace e t = t\<lparr>tk_status := ''CANCELLED''\<rparr>"
| "status_change TaskHandoffAccept lease grace e t = t\<lparr>tk_owner := le_actor e, tk_handoff_to := []\<rparr>"
| "status_change TaskTakeover lease grace e t =
     t\<lparr>tk_owner := le_actor e, tk_status := ''CLAIMED'', tk_lease_until := le_time e + lease,
       tk_stale_until := le_time e + lease + grace\<rparr>"
| "status_change _ lease grace e t = t"

definition apply_task_status ::
  "event_type \<Rightarrow> task_status_change \<Rightarrow> log_event \<Rightarrow> state \<Rightarrow> state result" where
  "apply_task_status typ p e s =
     (if typ = Agent_ev AgentSuspend then Inr (on_agent (\<lambda>a. a\<lparr>ag_status := ''SUSPENDED''\<rparr>) e s)
      else let action = ''task.takeover:'' @ le_entity_id e;
               te = (case typ of Task_ev te \<Rightarrow> te | _ \<Rightarrow> TaskCreate)
        in and_then
             (if typ = Task_ev TaskTakeover
              then if ts_approval_id p \<noteq> []
                   then consumeNamedApprovedAction (ts_approval_id p) action e s
                   else Inr (consumeApprovedAction action e s)
              else Inr s)
             (\<lambda>s'. Inr (on_task (status_change te (default_lease s') (stale_grace s') e) e s')))"

definition archive_task :: "log_event \<Rightarrow> string \<Rightarrow> state \<Rightarrow> state" where
  "archive_task e k s =
     s\<lparr>st_tasks := m_write zero_task (\<lambda>t. stamp_task e (t\<lparr>tk_archived := True\<rparr>)) k (st_tasks s)\<rparr>"

subsection \<open>Messages\<close>

definition apply_posted :: "message_posted \<Rightarrow> log_event \<Rightarrow> state \<Rightarrow> state" where
  "apply_posted p e s =
     s\<lparr>st_messages := m_put (le_entity_id e)
        \<lparr>ms_id = le_entity_id e, ms_kind = mp_kind p, ms_from = le_actor e, ms_to = mp_to p,
         ms_subject = mp_subject p, ms_body = mp_body p, ms_task_id = mp_task_id p,
         ms_status = (if mp_kind p = ''FYI'' then ''DELIVERED'' else ''OPEN''),
         ms_recipients = List.map (\<lambda>to. \<lparr>rs_principal = to,
           rs_status = initialRecipientStatus (mp_kind p), rs_at = None\<rparr>) (mp_to p),
         ms_created_at = le_time e, ms_updated_at = le_time e,
         ms_created_sequence = le_sequence e, ms_updated_sequence = le_sequence e\<rparr> (st_messages s)\<rparr>"

definition answer_recipient :: "string \<Rightarrow> log_event \<Rightarrow> recipient_state \<Rightarrow> recipient_state" where
  "answer_recipient response e r =
     (if rs_principal r = le_actor e then r\<lparr>rs_status := response, rs_at := Some (le_time e)\<rparr> else r)"

definition answer_message :: "string \<Rightarrow> log_event \<Rightarrow> message \<Rightarrow> message" where
  "answer_message response e m =
     (let m = m\<lparr>ms_recipients := List.map (answer_recipient response e) (ms_recipients m)\<rparr>
      in m\<lparr>ms_status := messageStatus m, ms_updated_at := le_time e,
           ms_updated_sequence := le_sequence e\<rparr>)"

definition unblock :: "log_event \<Rightarrow> task \<Rightarrow> task" where
  "unblock e t =
     (if tk_status t = ''BLOCKED'' then stamp_task e (t\<lparr>tk_status := ''OPEN''\<rparr>) else t)"

definition apply_response :: "message_response \<Rightarrow> log_event \<Rightarrow> state \<Rightarrow> state" where
  "apply_response p e s =
     (let m = answer_message (mr_response p) e (m_read zero_message (st_messages s) (le_entity_id e));
          s' = s\<lparr>st_messages := m_put (le_entity_id e) m (st_messages s)\<rparr>
      in if mr_response p = ''RESOLVED'' \<and> ms_task_id m \<noteq> []
         then s'\<lparr>st_tasks := m_adjust (unblock e) (ms_task_id m) (st_tasks s')\<rparr>
         else s')"

subsection \<open>Invocations and deliveries\<close>

definition apply_requested :: "invocation_requested \<Rightarrow> log_event \<Rightarrow> state \<Rightarrow> state" where
  "apply_requested p e s =
     (let priority = to_upper (trim_space (ir_priority p));
          priority = (if priority = [] then ''NORMAL'' else priority)
      in s\<lparr>st_invocations := m_put (le_entity_id e)
          (zero_invocation\<lparr>iv_id := le_entity_id e, iv_requested_by := le_actor e,
             iv_target := ir_target p, iv_message_id := ir_message_id p, iv_task_id := ir_task_id p,
             iv_instruction := ir_instruction p, iv_expected_result := ir_expected_result p,
             iv_scopes := ir_scopes p, iv_priority := priority,
             iv_consumer_mode := effectiveConsumerMode (ir_consumer_mode p),
             iv_preferred_runtime_id := ir_preferred_runtime_id p, iv_status := ''PENDING'',
             iv_created_at := le_time e, iv_deadline := ir_deadline p\<rparr>) (st_invocations s)\<rparr>)"

definition on_invocation :: "(invocation \<Rightarrow> invocation) \<Rightarrow> log_event \<Rightarrow> state \<Rightarrow> state" where
  "on_invocation f e s =
     s\<lparr>st_invocations := m_write zero_invocation f (le_entity_id e) (st_invocations s)\<rparr>"

definition apply_attempted :: "delivery_attempted \<Rightarrow> log_event \<Rightarrow> state \<Rightarrow> state" where
  "apply_attempted p e s =
     s\<lparr>st_deliveries := m_put (da_delivery_id p)
        (zero_delivery\<lparr>dl_id := da_delivery_id p, dl_invocation_id := le_entity_id e,
           dl_runtime_id := da_runtime_id p, dl_transport := da_transport p,
           dl_host_id := da_host_id p, dl_endpoint_id := da_endpoint_id p,
           dl_attempt := da_attempt p, dl_manual := da_manual p, dl_status := ''ATTEMPTED'',
           dl_attempted_at := Some (le_time e), dl_attempt_until := Some (da_attempt_until p)\<rparr>)
        (st_deliveries s)\<rparr>"

definition notify_invocation :: "invocation \<Rightarrow> invocation" where
  "notify_invocation i =
     (if iv_status i = ''PENDING'' then i\<lparr>iv_status := ''NOTIFIED''\<rparr> else i)"

definition notified_delivery :: "invocation_notified \<Rightarrow> log_event \<Rightarrow> delivery option \<Rightarrow> delivery" where
  "notified_delivery p e found =
     (let d = (case found of
          None \<Rightarrow> zero_delivery\<lparr>dl_id := no_delivery_id p, dl_invocation_id := le_entity_id e,
                    dl_runtime_id := no_runtime_id p, dl_attempt := no_attempt p,
                    dl_status := ''NOTIFIED''\<rparr>
        | Some d \<Rightarrow> d\<lparr>dl_status := ''SUCCEEDED''\<rparr>)
      in d\<lparr>dl_runtime_id := no_runtime_id p, dl_transport := no_transport p,
           dl_endpoint_id := no_endpoint_id p, dl_evidence := no_evidence p,
           dl_notified_at := Some (le_time e)\<rparr>)"

definition apply_notified :: "invocation_notified \<Rightarrow> log_event \<Rightarrow> state \<Rightarrow> state" where
  "apply_notified p e s =
     (on_invocation notify_invocation e s)
     \<lparr>st_deliveries := m_put (no_delivery_id p)
        (notified_delivery p e (m_get (st_deliveries s) (no_delivery_id p))) (st_deliveries s)\<rparr>"

definition claim_invocation :: "invocation_claimed \<Rightarrow> log_event \<Rightarrow> invocation \<Rightarrow> invocation" where
  "claim_invocation p e i =
     i\<lparr>iv_status := ''CLAIMED'', iv_claimed_by := le_actor e, iv_runtime_id := ic_runtime_id p,
       iv_claimed_at := Some (le_time e), iv_claim_until := Some (ic_claim_until p)\<rparr>"

definition progress_invocation :: "invocation_progress \<Rightarrow> log_event \<Rightarrow> invocation \<Rightarrow> invocation" where
  "progress_invocation p e i =
     i\<lparr>iv_status := ''RUNNING'',
       iv_started_at := (case iv_started_at i of None \<Rightarrow> Some (le_time e) | Some t \<Rightarrow> Some t),
       iv_summary := ip_summary p, iv_reason := [], iv_next_attempt_at := None\<rparr>"

definition wait_invocation :: "invocation_waiting \<Rightarrow> invocation \<Rightarrow> invocation" where
  "wait_invocation p i =
     i\<lparr>iv_status := ''WAITING'', iv_reason := iw_reason p, iv_next_attempt_at := iw_next_attempt_at p\<rparr>"

definition complete_invocation :: "invocation_completed \<Rightarrow> log_event \<Rightarrow> invocation \<Rightarrow> invocation" where
  "complete_invocation p e i =
     i\<lparr>iv_status := ''COMPLETED'', iv_completed_at := Some (le_time e),
       iv_result_message_id := co_result_message_id p, iv_summary := co_summary p\<rparr>"

definition end_invocation ::
  "event_type \<Rightarrow> invocation_rejected \<Rightarrow> log_event \<Rightarrow> invocation \<Rightarrow> invocation" where
  "end_invocation typ p e i =
     i\<lparr>iv_status := (if typ = Invocation_ev InvExpire then ''EXPIRED''
                     else if typ = Invocation_ev InvCancel then ''CANCELLED'' else ''REJECTED''),
       iv_completed_at := Some (le_time e), iv_reason := rj_reason p\<rparr>"

definition fail_invocation :: "bool \<Rightarrow> invocation \<Rightarrow> invocation" where
  "fail_invocation delivered i =
     (if open_for_delivery i
      then i\<lparr>iv_status := (if delivered then ''NOTIFIED'' else ''PENDING'')\<rparr> else i)"

definition fail_delivery :: "delivery_failed \<Rightarrow> log_event \<Rightarrow> delivery \<Rightarrow> delivery" where
  "fail_delivery p e d =
     d\<lparr>dl_status := (if df_final p then ''EXHAUSTED'' else ''FAILED''), dl_failed_at := Some (le_time e),
       dl_next_retry_at := df_next_retry p, dl_error := df_error p\<rparr>"

definition apply_delivery_failed :: "delivery_failed \<Rightarrow> log_event \<Rightarrow> state \<Rightarrow> state" where
  "apply_delivery_failed p e s =
     (on_invocation (fail_invocation (hasSuccessfulDelivery s (le_entity_id e))) e s)
     \<lparr>st_deliveries := m_write zero_delivery (fail_delivery p e) (df_delivery_id p) (st_deliveries s)\<rparr>"

subsection \<open>Runtimes and policies\<close>

definition automatic_policy :: "string \<Rightarrow> log_event \<Rightarrow> policy" where
  "automatic_policy agent_id e =
     zero_policy\<lparr>po_agent_id := agent_id, po_mode := ''AUTOMATIC'',
       po_default_consumer_mode := ConsumerModeEither, po_allowed_consumer_modes := all_consumer_modes,
       po_require_human_for_sensitive := True, po_updated_by := le_actor e, po_updated_at := le_time e,
       po_created_at := le_time e, po_created_sequence := le_sequence e,
       po_updated_sequence := le_sequence e\<rparr>"

definition apply_runtime_registered :: "runtime_registered \<Rightarrow> log_event \<Rightarrow> state \<Rightarrow> state" where
  "apply_runtime_registered p e s =
     (let kind = effectiveRuntimeKind (rr_kind p) (rr_connector p);
          s' = s\<lparr>st_runtimes := m_put (le_entity_id e)
            (zero_runtime\<lparr>rt_id := le_entity_id e, rt_agent_id := rr_agent_id p, rt_kind := kind,
               rt_connector := rr_connector p, rt_config_reference := rr_config_reference p,
               rt_host_id := rr_host_id p, rt_status := ''OFFLINE'', rt_health := ''UNKNOWN'',
               rt_max_concurrent := rr_max_concurrent p, rt_scopes := rr_scopes p,
               rt_capabilities := rr_capabilities p, rt_registered_at := le_time e,
               rt_last_changed_by := le_actor e\<rparr>) (st_runtimes s)\<rparr>
      in if \<not> m_has (st_policies s) (rr_agent_id p) \<and>
            (kind = RuntimeKindInteractive \<or> rr_connector p = ''INTERACTIVE'')
         then s'\<lparr>st_policies := m_put (rr_agent_id p) (automatic_policy (rr_agent_id p) e) (st_policies s')\<rparr>
         else s')"

definition on_runtime :: "(runtime \<Rightarrow> runtime) \<Rightarrow> log_event \<Rightarrow> state \<Rightarrow> state" where
  "on_runtime f e s = s\<lparr>st_runtimes := m_write zero_runtime f (le_entity_id e) (st_runtimes s)\<rparr>"

definition configure_runtime :: "runtime_configured \<Rightarrow> log_event \<Rightarrow> runtime \<Rightarrow> runtime" where
  "configure_runtime p e r =
     r\<lparr>rt_kind := effectiveRuntimeKind (rc_kind p) (rc_connector p), rt_connector := rc_connector p,
       rt_config_reference := rc_config_reference p, rt_host_id := rc_host_id p, rt_endpoint_id := [],
       rt_max_concurrent := rc_max_concurrent p, rt_scopes := rc_scopes p,
       rt_capabilities := rc_capabilities p, rt_status := ''OFFLINE'', rt_health := ''UNKNOWN'',
       rt_reason := [], rt_last_changed_by := le_actor e\<rparr>"

definition heartbeat_runtime :: "runtime_heartbeat \<Rightarrow> log_event \<Rightarrow> runtime \<Rightarrow> runtime" where
  "heartbeat_runtime p e r =
     r\<lparr>rt_status := ''ONLINE'', rt_health := hb_health p, rt_endpoint_id := hb_endpoint_id p,
       rt_active_invocations := hb_active_invocations p, rt_last_seen_at := le_time e,
       rt_last_changed_by := le_actor e, rt_reason := []\<rparr>"

fun move_runtime :: "event_type \<Rightarrow> runtime \<Rightarrow> runtime" where
  "move_runtime (Runtime_ev RtOffline) r =
     r\<lparr>rt_status := ''OFFLINE'', rt_health := ''UNKNOWN'', rt_endpoint_id := [],
       rt_active_invocations := []\<rparr>"
| "move_runtime (Runtime_ev RtDrain) r = r\<lparr>rt_status := ''DRAINING''\<rparr>"
| "move_runtime (Runtime_ev RtResume) r = r\<lparr>rt_status := ''OFFLINE''\<rparr>"
| "move_runtime (Runtime_ev RtRevoke) r = r\<lparr>rt_status := ''REVOKED''\<rparr>"
| "move_runtime _ r = r"

definition apply_runtime_status ::
  "event_type \<Rightarrow> runtime_status_changed \<Rightarrow> log_event \<Rightarrow> state \<Rightarrow> state" where
  "apply_runtime_status typ p e s =
     (if typ = Agent_ev AgentRevoke then apply_agent_revoked e s
      else if typ = Runtime_ev RtDelete
      then s\<lparr>st_runtimes := m_del (le_entity_id e) (st_runtimes s)\<rparr>
      else on_runtime (\<lambda>r. (move_runtime typ r)
        \<lparr>rt_reason := sc_reason p, rt_last_changed_by := le_actor e\<rparr>) e s)"

definition updated_policy :: "policy_updated \<Rightarrow> log_event \<Rightarrow> policy \<Rightarrow> policy" where
  "updated_policy p e previous =
     (let fresh = is_zero (po_created_at previous) in
      \<lparr>po_agent_id = le_entity_id e, po_mode = pu_mode p, po_trusted_actors = pu_trusted_actors p,
       po_allowed_scopes = pu_allowed_scopes p,
       po_default_consumer_mode = effectiveConsumerMode (pu_default_consumer_mode p),
       po_allowed_consumer_modes =
         (if pu_allowed_consumer_modes p = [] then all_consumer_modes else pu_allowed_consumer_modes p),
       po_preferred_interactive_runtime_id = pu_preferred_interactive_runtime_id p,
       po_require_human_for_sensitive = pu_require_human_for_sensitive p, po_updated_by = le_actor e,
       po_created_at = (if fresh then le_time e else po_created_at previous),
       po_created_sequence = (if fresh then le_sequence e else po_created_sequence previous),
       po_updated_sequence = le_sequence e, po_updated_at = le_time e\<rparr>)"

definition apply_settings :: "settings_updated \<Rightarrow> log_event \<Rightarrow> state \<Rightarrow> state" where
  "apply_settings p e s =
     s\<lparr>st_settings := \<lparr>se_default_lease = su_default_lease p, se_stale_grace = su_stale_grace p,
         se_active_retention = su_active_retention p, se_summary_limit = su_summary_limit p,
         se_artifact_limit_bytes = su_artifact_limit_bytes p, se_require_review = su_require_review p,
         se_updated_by = le_actor e, se_updated_at = le_time e\<rparr>\<rparr>"

subsection \<open>Approvals, documents, artifacts, environment, providers\<close>

definition apply_approval_requested :: "approval_requested \<Rightarrow> log_event \<Rightarrow> state \<Rightarrow> state" where
  "apply_approval_requested p e s =
     s\<lparr>st_approvals := m_put (le_entity_id e)
        (zero_approval\<lparr>ap_id := le_entity_id e, ap_tier := aq_tier p, ap_action := aq_action p,
           ap_subject_digest := aq_subject_digest p, ap_subject := aq_subject p,
           ap_reason := aq_reason p, ap_status := ''PENDING'', ap_requester := le_actor e,
           ap_affected := aq_affected p, ap_expires_at := aq_expires_at p\<rparr>) (st_approvals s)\<rparr>"

definition apply_approval_response :: "event_type \<Rightarrow> log_event \<Rightarrow> state \<Rightarrow> state" where
  "apply_approval_response typ e s =
     s\<lparr>st_approvals := m_write zero_approval (\<lambda>a. a\<lparr>ap_status :=
          (if typ = Approval_ev ApprovalApprove then ''APPROVED'' else ''REJECTED''),
        ap_approver := le_actor e\<rparr>) (le_entity_id e) (st_approvals s)\<rparr>"

definition on_document :: "(document \<Rightarrow> document) \<Rightarrow> string \<Rightarrow> state \<Rightarrow> state" where
  "on_document f k s = s\<lparr>st_documents := m_write zero_document f k (st_documents s)\<rparr>"

definition apply_decision :: "decision_payload \<Rightarrow> log_event \<Rightarrow> state \<Rightarrow> state" where
  "apply_decision p e s =
     (let s' = s\<lparr>st_documents := m_put (le_entity_id e)
          (zero_document\<lparr>dc_id := le_entity_id e, dc_title := de_title p, dc_body := de_statement p,
             dc_tags := [''decision''], dc_status := ''ACTIVE'', dc_version := 1,
             dc_author := le_actor e, dc_supersedes := de_supersedes p\<rparr>) (st_documents s)\<rparr>
      in if de_supersedes p \<noteq> []
         then on_document (\<lambda>d. stamp_document e (d\<lparr>dc_status := ''SUPERSEDED''\<rparr>)) (de_supersedes p) s'
         else s')"

definition apply_document :: "event_type \<Rightarrow> document_payload \<Rightarrow> log_event \<Rightarrow> state \<Rightarrow> state" where
  "apply_document typ p e s =
     (let k = le_entity_id e in
      if typ = Document_ev DocumentCreate then
        s\<lparr>st_documents := m_put k
          (zero_document\<lparr>dc_id := k, dc_title := dp_title p, dc_body := dp_body p, dc_tags := dp_tags p,
             dc_status := ''ACTIVE'', dc_version := 1, dc_author := le_actor e\<rparr>) (st_documents s)\<rparr>
      else if typ = Document_ev DocumentUpdate then
        on_document (\<lambda>d. d\<lparr>dc_title := dp_title p, dc_body := dp_body p, dc_tags := dp_tags p,
          dc_version := dc_version d + 1\<rparr>) k s
      else if typ = Document_ev DocumentSupersede then
        (let s' = on_document (\<lambda>d. d\<lparr>dc_status := ''SUPERSEDED''\<rparr>) k s
         in if dp_replacement_id p \<noteq> []
            then on_document (\<lambda>d. stamp_document e (d\<lparr>dc_status := ''ACTIVE'', dc_supersedes := k\<rparr>))
                   (dp_replacement_id p) s'
            else s')
      else s)"

definition apply_artifact :: "artifact_added \<Rightarrow> log_event \<Rightarrow> state \<Rightarrow> state" where
  "apply_artifact p e s =
     s\<lparr>st_artifacts := m_put (fa_sha256 p)
        \<lparr>af_created_at = le_time e, af_created_sequence = le_sequence e, af_sha256 = fa_sha256 p,
         af_size = fa_size p, af_name = fa_name p, af_media_type = fa_media_type p,
         af_storage = fa_storage p\<rparr> (st_artifacts s)\<rparr>"

definition apply_env_set :: "env_set_payload \<Rightarrow> log_event \<Rightarrow> state \<Rightarrow> state" where
  "apply_env_set p e s =
     (let previous = m_read zero_env_entry (st_env s) (es_key p);
          fresh = is_zero (en_created_at previous)
      in s\<lparr>st_env := m_put (es_key p)
          \<lparr>en_key = es_key p, en_value = es_value p,
           en_created_at = (if fresh then le_time e else en_created_at previous),
           en_created_sequence = (if fresh then le_sequence e else en_created_sequence previous),
           en_updated_sequence = le_sequence e, en_updated_at = le_time e,
           en_updated_by = le_actor e\<rparr> (st_env s)\<rparr>)"

definition register_provider :: "provider_registered \<Rightarrow> log_event \<Rightarrow> provider \<Rightarrow> provider" where
  "register_provider p e v =
     v\<lparr>pv_name := le_entity_id e, pv_status := ProviderStatusActive,
       pv_display_name := pr_display_name p, pv_description := pr_description p,
       pv_added_by := le_actor e, pv_retired_by := [], pv_retire_reason := []\<rparr>"

definition retire_provider :: "provider_retired \<Rightarrow> log_event \<Rightarrow> provider \<Rightarrow> provider" where
  "retire_provider p e v =
     v\<lparr>pv_status := ProviderStatusRetired, pv_retired_by := le_actor e, pv_retire_reason := px_reason p\<rparr>"

subsection \<open>ApplyEvent\<close>

definition apply_payload ::
  "crypto \<Rightarrow> event_type \<Rightarrow> payload \<Rightarrow> log_event \<Rightarrow> state \<Rightarrow> state result" where
  "apply_payload cr typ payload e s =
     (case payload of
        AgentRegistered p \<Rightarrow> Inr (apply_registered cr p e s)
      | AgentActivated p \<Rightarrow> Inr (apply_activated p e s)
      | AgentRoleSwitched p \<Rightarrow> Inr (apply_role_switched p e s)
      | AgentKeyRotated p \<Rightarrow> Inr (on_agent (\<lambda>a. a\<lparr>ag_public_key := kr_public_key p,
            ag_key_fingerprint := Fingerprint cr (kr_public_key p)\<rparr>) e s)
      | AgentElevatedKeyRegistered p \<Rightarrow> Inr (on_agent (\<lambda>a. a\<lparr>ag_elevated_public_key := ek_public_key p,
            ag_elevated_key_fingerprint := Fingerprint cr (ek_public_key p)\<rparr>) e s)
      | AgentRenamed p \<Rightarrow> Inr (on_agent (\<lambda>a. a\<lparr>ag_display_name := rn_display_name p\<rparr>) e s)
      | AgentDeleted p \<Rightarrow> Inr (s\<lparr>st_agents := m_del (le_entity_id e) (st_agents s)\<rparr>)
      | TaskCreated p \<Rightarrow> Inr (apply_task_created p e s)
      | TaskOffered p \<Rightarrow> Inr (on_task (offer_task p e) e s)
      | TaskClaimed p \<Rightarrow> Inr (on_task (claim_task (stale_grace s) p e) e s)
      | TaskRenewed p \<Rightarrow> Inr (on_task (renew_task (stale_grace s) p) e s)
      | TaskHandoff p \<Rightarrow> Inr (on_task (\<lambda>t. t\<lparr>tk_handoff_to := th_to p\<rparr>) e s)
      | TaskStatus p \<Rightarrow> apply_task_status typ p e s
      | MessagePosted p \<Rightarrow> Inr (apply_posted p e s)
      | MessageResponse p \<Rightarrow> Inr (apply_response p e s)
      | InvocationRequested p \<Rightarrow> Inr (apply_requested p e s)
      | InvocationDeliveryAttempted p \<Rightarrow> Inr (apply_attempted p e s)
      | InvocationNotified p \<Rightarrow> Inr (apply_notified p e s)
      | InvocationClaimed p \<Rightarrow> Inr (on_invocation (claim_invocation p e) e s)
      | InvocationProgress p \<Rightarrow> Inr (on_invocation (progress_invocation p e) e s)
      | InvocationWaiting p \<Rightarrow> Inr (on_invocation (wait_invocation p) e s)
      | InvocationCompleted p \<Rightarrow> Inr (on_invocation (complete_invocation p e) e s)
      | InvocationRejected p \<Rightarrow> Inr (on_invocation (end_invocation typ p e) e s)
      | InvocationDeliveryFailed p \<Rightarrow> Inr (apply_delivery_failed p e s)
      | RuntimeRegistered p \<Rightarrow> Inr (apply_runtime_registered p e s)
      | RuntimeConfigured p \<Rightarrow> Inr (on_runtime (configure_runtime p e) e s)
      | RuntimeHeartbeat p \<Rightarrow> Inr (on_runtime (heartbeat_runtime p e) e s)
      | RuntimeStatusChanged p \<Rightarrow> Inr (apply_runtime_status typ p e s)
      | InvocationPolicyUpdated p \<Rightarrow>
          Inr (s\<lparr>st_policies := m_write zero_policy (updated_policy p e) (le_entity_id e) (st_policies s)\<rparr>)
      | ProjectSettingsUpdated p \<Rightarrow> Inr (apply_settings p e s)
      | ApprovalRequested p \<Rightarrow> Inr (apply_approval_requested p e s)
      | ApprovalResponse p \<Rightarrow> Inr (apply_approval_response typ e s)
      | DecisionPayload p \<Rightarrow> Inr (apply_decision p e s)
      | ArtifactAdded p \<Rightarrow> Inr (apply_artifact p e s)
      | ArchiveRun p \<Rightarrow> Inr (fold (archive_task e) (xr_task_ids p) s)
      | DocumentPayload p \<Rightarrow> Inr (apply_document typ p e s)
      | EnvSetPayload p \<Rightarrow> Inr (apply_env_set p e s)
      | EnvDeletePayload p \<Rightarrow> Inr (s\<lparr>st_env := m_del (ed_key p) (st_env s)\<rparr>)
      | ProviderRegistered p \<Rightarrow> Inr (s\<lparr>st_providers :=
          m_write zero_provider (register_provider p e) (le_entity_id e) (st_providers s)\<rparr>)
      | ProviderRetired p \<Rightarrow> Inr (s\<lparr>st_providers :=
          m_adjust (retire_provider p e) (le_entity_id e) (st_providers s)\<rparr>))"

definition ApplyEvent :: "crypto \<Rightarrow> state \<Rightarrow> log_event \<Rightarrow> state result" where
  "ApplyEvent cr s e =
     (case parse_type (le_type e) of None \<Rightarrow> Inr s
      | Some typ \<Rightarrow>
        and_then (DecodePayload cr (le_type e) (le_data e)) (\<lambda>payload.
        and_then (apply_payload cr typ payload e s) (\<lambda>s'.
          if typ = Runtime_ev RtDelete then Inr s' else Inr (stampEntity typ e s'))))"

end
