(* ===== verification/Projection_Facts.thy ===== *)
theory Projection_Facts
  imports Projection
begin

text \<open>
  What the projection guarantees, and what it guarantees of an event the validator has accepted: it
  always applies, it touches only the collections its type owns, an approval it relies on is spent by
  it, and the statuses it writes follow the life cycles.
\<close>

subsection \<open>Stamping changes clocks only\<close>

lemma stamp_sel [simp]:
  "ag_role (stamp_agent e a) = ag_role a" "ag_status (stamp_agent e a) = ag_status a"
  "ag_principal_type (stamp_agent e a) = ag_principal_type a"
  "ag_public_key (stamp_agent e a) = ag_public_key a" "ag_scopes (stamp_agent e a) = ag_scopes a"
  "ap_status (stamp_approval e b) = ap_status b" "ap_action (stamp_approval e b) = ap_action b"
  "ap_tier (stamp_approval e b) = ap_tier b" "ap_expires_at (stamp_approval e b) = ap_expires_at b"
  "tk_status (stamp_task e t) = tk_status t" "tk_owner (stamp_task e t) = tk_owner t"
  "tk_archived (stamp_task e t) = tk_archived t"
  by (simp_all add: stamp_agent_def stamp_approval_def stamp_task_def)

lemma stamp_invocation_sel [simp]:
  "iv_status (stamp_invocation e i) = iv_status i" "iv_target (stamp_invocation e i) = iv_target i"
  by (simp_all add: stamp_invocation_def Let_def)

lemma stamp_runtime_sel [simp]:
  "rt_status (stamp_runtime e r) = rt_status r" "rt_agent_id (stamp_runtime e r) = rt_agent_id r"
  by (simp_all add: stamp_runtime_def)

lemma stampEntity_agents:
  "m_get (st_agents (stampEntity t e s)) k =
   (case t of Agent_ev _ \<Rightarrow> if k = le_entity_id e then map_option (stamp_agent e) (m_get (st_agents s) k)
                           else m_get (st_agents s) k
    | _ \<Rightarrow> m_get (st_agents s) k)"
  by (auto simp: stampEntity_def Let_def m_get_adjust split: event_type.split)

lemma stampEntity_invocations:
  "m_get (st_invocations (stampEntity t e s)) k =
   (case t of Invocation_ev _ \<Rightarrow>
        if k = le_entity_id e then map_option (stamp_invocation e) (m_get (st_invocations s) k)
        else m_get (st_invocations s) k
    | _ \<Rightarrow> m_get (st_invocations s) k)"
  by (auto simp: stampEntity_def Let_def m_get_adjust split: event_type.split)

lemma stampEntity_approvals:
  "m_get (st_approvals (stampEntity t e s)) k =
   (case t of Approval_ev _ \<Rightarrow>
        if k = le_entity_id e then map_option (stamp_approval e) (m_get (st_approvals s) k)
        else m_get (st_approvals s) k
    | _ \<Rightarrow> m_get (st_approvals s) k)"
  by (auto simp: stampEntity_def Let_def m_get_adjust split: event_type.split)

lemma stampEntity_runtimes:
  "m_get (st_runtimes (stampEntity t e s)) k =
   (case t of Runtime_ev _ \<Rightarrow>
        if k = le_entity_id e then map_option (stamp_runtime e) (m_get (st_runtimes s) k)
        else m_get (st_runtimes s) k
    | _ \<Rightarrow> m_get (st_runtimes s) k)"
  by (auto simp: stampEntity_def Let_def m_get_adjust split: event_type.split)

text \<open>The part of \<open>ApplyEvent\<close> after decoding.\<close>

definition project ::
  "crypto \<Rightarrow> event_type \<Rightarrow> payload \<Rightarrow> log_event \<Rightarrow> state \<Rightarrow> state result" where
  "project cr t payload e s =
     and_then (apply_payload cr t payload e s) (\<lambda>s'.
       if t = Runtime_ev RtDelete then Inr s' else Inr (stampEntity t e s'))"

lemma ApplyEvent_project:
  "ApplyEvent cr s e =
     (case parse_type (le_type e) of None \<Rightarrow> Inr s
      | Some t \<Rightarrow> and_then (DecodePayload cr (le_type e) (le_data e)) (\<lambda>p. project cr t p e s))"
  by (simp add: ApplyEvent_def project_def split: option.split)

subsection \<open>Which type a payload belongs to\<close>

lemma for_all_types: "(\<forall>u\<in>set all_event_types. P u) \<Longrightarrow> P t"
  using all_event_types_complete by blast

lemma agent_kinds:
  assumes "factory t \<in> {K_AgentRegistered, K_AgentActivated, K_AgentRoleSwitched, K_AgentKeyRotated,
    K_AgentElevatedKeyRegistered, K_AgentRenamed, K_AgentDeleted}"
  shows "\<exists>x. t = Agent_ev x"
proof -
  have "\<forall>u\<in>set all_event_types. factory u \<in> {K_AgentRegistered, K_AgentActivated, K_AgentRoleSwitched,
      K_AgentKeyRotated, K_AgentElevatedKeyRegistered, K_AgentRenamed, K_AgentDeleted} \<longrightarrow>
    (\<exists>x. u = Agent_ev x)"
    by (simp add: all_event_types_def)
  with assms all_event_types_complete show ?thesis by blast
qed

lemma invocation_kinds:
  assumes "factory t \<in> {K_InvocationRequested, K_InvocationNotified, K_InvocationClaimed,
    K_InvocationProgress, K_InvocationWaiting, K_InvocationCompleted, K_InvocationRejected,
    K_InvocationDeliveryFailed}"
  shows "\<exists>x. t = Invocation_ev x"
proof -
  have "\<forall>u\<in>set all_event_types. factory u \<in> {K_InvocationRequested, K_InvocationNotified,
      K_InvocationClaimed, K_InvocationProgress, K_InvocationWaiting, K_InvocationCompleted,
      K_InvocationRejected, K_InvocationDeliveryFailed} \<longrightarrow> (\<exists>x. u = Invocation_ev x)"
    by (simp add: all_event_types_def)
  with assms all_event_types_complete show ?thesis by blast
qed

subsection \<open>Frames\<close>

lemma archive_frame [frame, simp]:
  "st_agents (fold (archive_task e) ks s) = st_agents s"
  "st_invocations (fold (archive_task e) ks s) = st_invocations s"
  "st_approvals (fold (archive_task e) ks s) = st_approvals s"
  "st_runtimes (fold (archive_task e) ks s) = st_runtimes s"
  by (induction ks arbitrary: s) (simp_all add: archive_task_def)

lemma consume_frame [frame, simp]:
  "st_agents (consumeOrchestratorGrantApproval k e s) = st_agents s"
  "st_invocations (consumeOrchestratorGrantApproval k e s) = st_invocations s"
  "st_runtimes (consumeOrchestratorGrantApproval k e s) = st_runtimes s"
  "st_agents (consumeApprovedAction a e s) = st_agents s"
  "st_invocations (consumeApprovedAction a e s) = st_invocations s"
  "st_runtimes (consumeApprovedAction a e s) = st_runtimes s"
  by (simp_all add: consumeOrchestratorGrantApproval_def consumeApprovedAction_def Let_def split: list.split)

lemma consume_named_frame [frame]:
  "consumeNamedApprovedAction k a e s = Inr s' \<Longrightarrow>
   st_agents s' = st_agents s \<and> st_invocations s' = st_invocations s \<and> st_runtimes s' = st_runtimes s \<and>
   st_tasks s' = st_tasks s"
  by (auto simp: consumeNamedApprovedAction_def Let_def split: option.splits if_splits)

lemmas arms = apply_registered_def apply_activated_def apply_role_switched_def on_agent_def
  apply_agent_revoked_def apply_task_created_def on_task_def apply_posted_def apply_response_def
  apply_requested_def on_invocation_def apply_attempted_def apply_notified_def
  apply_delivery_failed_def apply_runtime_registered_def on_runtime_def apply_runtime_status_def
  apply_settings_def apply_approval_requested_def apply_approval_response_def on_document_def
  apply_decision_def apply_document_def apply_artifact_def apply_env_set_def

lemma task_status_frame [frame]:
  "apply_task_status t p e s = Inr s' \<Longrightarrow> t \<noteq> Agent_ev AgentSuspend \<Longrightarrow>
   st_agents s' = st_agents s \<and> st_invocations s' = st_invocations s \<and> st_runtimes s' = st_runtimes s"
  by (auto simp: apply_task_status_def on_task_def Let_def dest: consume_named_frame split: if_splits)

lemma project_parts:
  "project cr t payload e s = Inr s' \<Longrightarrow>
   \<exists>s1. apply_payload cr t payload e s = Inr s1 \<and>
     s' = (if t = Runtime_ev RtDelete then s1 else stampEntity t e s1)"
  by (auto simp: project_def split: if_splits)

lemma agents_frame:
  assumes "project cr t payload e s = Inr s'" "payload_ok t payload" "\<And>x. t \<noteq> Agent_ev x"
  shows "m_get (st_agents s') = m_get (st_agents s)"
proof -
  from project_parts [OF assms(1)] obtain s1 where s1: "apply_payload cr t payload e s = Inr s1"
    and s': "s' = (if t = Runtime_ev RtDelete then s1 else stampEntity t e s1)" by blast
  have none: "kind_of payload \<notin> {K_AgentRegistered, K_AgentActivated, K_AgentRoleSwitched,
      K_AgentKeyRotated, K_AgentElevatedKeyRegistered, K_AgentRenamed, K_AgentDeleted}"
    using agent_kinds [of t] assms(2,3) unfolding payload_ok_def by metis
  have "st_agents s1 = st_agents s"
    using s1 assms(3) none
    by (cases payload)
      (auto simp: apply_payload_def arms Let_def dest: task_status_frame)
  then show ?thesis
    using assms(3) unfolding s' by (cases t) (auto simp: stampEntity_agents fun_eq_iff)
qed

lemma invocations_frame:
  assumes "project cr t payload e s = Inr s'" "payload_ok t payload" "\<And>x. t \<noteq> Invocation_ev x"
  shows "m_get (st_invocations s') = m_get (st_invocations s)"
proof -
  from project_parts [OF assms(1)] obtain s1 where s1: "apply_payload cr t payload e s = Inr s1"
    and s': "s' = (if t = Runtime_ev RtDelete then s1 else stampEntity t e s1)" by blast
  have suspend: "apply_task_status (Agent_ev AgentSuspend) p e s = Inr s1 \<Longrightarrow>
      st_invocations s1 = st_invocations s" for p
    by (auto simp: apply_task_status_def on_agent_def)
  have none: "kind_of payload \<notin> {K_InvocationRequested, K_InvocationNotified, K_InvocationClaimed,
      K_InvocationProgress, K_InvocationWaiting, K_InvocationCompleted, K_InvocationRejected,
      K_InvocationDeliveryFailed}"
    using invocation_kinds [of t] assms(2,3) unfolding payload_ok_def by metis
  have "st_invocations s1 = st_invocations s"
    using s1 none
    by (cases payload)
      (auto simp: apply_payload_def arms Let_def dest: task_status_frame suspend)
  then show ?thesis
    using assms(3) unfolding s' by (cases t) (auto simp: stampEntity_invocations fun_eq_iff)
qed

subsection \<open>An accepted event always applies\<close>

text \<open>The event the authority builds from an accepted command: the fields the projection reads.\<close>

definition event_of :: "string \<Rightarrow> nat \<Rightarrow> time \<Rightarrow> string \<Rightarrow> event_type \<Rightarrow> string \<Rightarrow> string \<Rightarrow> log_event" where
  "event_of ev_id sequence now actor t eid data =
     \<lparr>le_id = ev_id, le_sequence = sequence, le_time = now, le_actor = actor,
      le_type = type_name t, le_entity_id = eid, le_data = data\<rparr>"

lemma project_fails_only_on_takeover:
  assumes "project cr t payload e s = Inl x"
  shows "\<exists>p. payload = TaskStatus p \<and> t = Task_ev TaskTakeover \<and> ts_approval_id p \<noteq> []"
proof -
  from assms have "apply_payload cr t payload e s = Inl x"
    by (auto simp: project_def and_then_Inl split: if_splits)
  then show ?thesis
    by (cases payload) (auto simp: apply_payload_def apply_task_status_def Let_def and_then_Inl split: if_splits)
qed

lemma takeover_Inr:
  assumes "ValidateTransition cr st actor (Task_ev TaskTakeover) eid (TaskStatus p0) now = Inr q"
  shows "\<exists>p. q = TaskStatus p \<and> ts_approval_id p \<noteq> [] \<and>
    ts_approval_id p = fst (eligibleActionApprovalID st (''task.takeover:'' @ eid) now) \<and>
    m_has (st_tasks st) eid"
proof -
  from transition_Inr(4) [OF assms] have v:
    "validate_task st actor TaskTakeover eid (TaskStatus p0) now = Inr q"
    by (simp add: validate_block_def)
  then have "validate_task_status st actor TaskTakeover eid (m_read zero_task (st_tasks st) eid) p0 now = Inr q"
    "m_has (st_tasks st) eid"
    by (simp_all add: validate_task_def)
  with task_status_Inr(2) [OF this(1)] show ?thesis by auto
qed

lemma eligible_holds:
  assumes "fst (eligibleActionApprovalID st action now) = k" "k \<noteq> []"
  shows "\<exists>a. m_get (st_approvals st) k = Some a \<and> approved_for action a \<and>
    not_expired (ap_expires_at a) now"
proof -
  have "fold (eligible_body action now) es (c, x) = (c', x') \<Longrightarrow> c' \<noteq> c \<Longrightarrow>
      \<exists>a. (c', a) \<in> set es \<and> approved_for action a \<and> not_expired (ap_expires_at a) now" for es c x c' x'
  proof (induction es arbitrary: c x)
    case (Cons entry es)
    obtain k a where e: "entry = (k, a)" by (cases entry)
    obtain c1 x1 where step: "eligible_body action now entry (c, x) = (c1, x1)" by fastforce
    with Cons.prems have fold: "fold (eligible_body action now) es (c1, x1) = (c', x')" by simp
    show ?case
    proof (cases "c' = c1")
      case True
      with Cons.prems(2) step e have "c1 = k \<and> approved_for action a \<and> not_expired (ap_expires_at a) now"
        by (auto simp: eligible_body_def approved_for_def split: if_splits)
      with True e show ?thesis by auto
    next
      case False
      from Cons.IH [OF fold False] show ?thesis by auto
    qed
  qed simp
  moreover obtain x' where "fold (eligible_body action now) (m_entries (st_approvals st)) ([], False) = (k, x')"
    using assms(1) by (metis eligibleActionApprovalID_def prod.collapse)
  ultimately have "\<exists>a. (k, a) \<in> set (m_entries (st_approvals st)) \<and> approved_for action a \<and>
      not_expired (ap_expires_at a) now"
    using assms(2) by blast
  then show ?thesis unfolding m_entries_get .
qed

lemma accepted_applies:
  assumes "ValidateTransition cr st actor t eid payload now = Inr q" "payload_ok t payload"
    and "le_time e = now" "le_entity_id e = eid"
  shows "\<exists>st'. project cr t q e st = Inr st'"
proof (rule ccontr)
  assume "\<nexists>st'. project cr t q e st = Inr st'"
  then obtain x where x: "project cr t q e st = Inl x"
    by (cases "project cr t q e st") auto
  from project_fails_only_on_takeover [OF x] obtain p where
    p: "q = TaskStatus p" "t = Task_ev TaskTakeover" by blast
  from assms(2) p(2) obtain p0 where p0: "payload = TaskStatus p0"
    by (cases payload) (auto simp: payload_ok_def)
  from takeover_Inr [OF assms(1) [unfolded p(2) p0]] p(1) have ap: "ts_approval_id p \<noteq> []"
    "ts_approval_id p = fst (eligibleActionApprovalID st (''task.takeover:'' @ eid) now)"
    by blast+
  from eligible_holds [OF ap(2) [symmetric] ap(1)] obtain a where
    "m_get (st_approvals st) (ts_approval_id p) = Some a" "approved_for (''task.takeover:'' @ eid) a"
    "not_expired (ap_expires_at a) now" by blast
  then have "consumeNamedApprovedAction (ts_approval_id p) (''task.takeover:'' @ eid) e st =
      Inr (st\<lparr>st_approvals := m_put (ts_approval_id p) (consume e a) (st_approvals st)\<rparr>)"
    using assms(3)
    by (simp add: consumeNamedApprovedAction_def approved_for_def not_expired_def split: option.splits)
  with x p ap(1) assms(4) show False
    by (simp add: project_def apply_payload_def apply_task_status_def Let_def)
qed

text \<open>
  C22. Validation and projection agree: an event built from an accepted transition, at the time it was
  checked, always applies to the state it was checked against. In particular a takeover finds the
  approval the validator picked still approved and unexpired, so no accepted command is lost at the
  projection.
\<close>

theorem accepted_event_applies:
  assumes "ValidateTransition cr st actor t eid payload now = Inr q" "payload_ok t payload"
    and "le_time e = now" "le_entity_id e = eid"
  shows "\<exists>st'. project cr t q e st = Inr st'"
  using assms by (rule accepted_applies)

subsection \<open>The validator keeps the payload's struct\<close>

lemma kind_agent:
  "validate_agent st actor x eid payload now = Inr q \<Longrightarrow> kind_of q = kind_of payload"
  by (cases x)
    (auto simp: validate_agent_def validate_activate_def validate_switch_role_def
      validate_elevate_key_def validate_rotate_key_def validate_rename_def validateRoleValue_def Let_def
      dest: register_Inr suspend_Inr revoke_Inr delete_Inr split: option.splits payload.splits)

lemma kind_task: "validate_task st actor x eid payload now = Inr q \<Longrightarrow> kind_of q = kind_of payload"
  by (auto simp: validate_task_def validate_task_created_def validate_task_renewed_def Let_def
      dest: claim_Inr(5) task_status_Inr(2) split: payload.splits)

lemma kind_message: "validate_message cr st actor x eid payload now = Inr q \<Longrightarrow> kind_of q = kind_of payload"
  by (cases "x = MessagePost") (auto simp: validate_message_def dest: post_Inr response_Inr)

lemma kind_invocation:
  "validate_invocation cr st actor x eid payload now = Inr q \<Longrightarrow> kind_of q = kind_of payload"
proof (cases "x = InvPolicyUpdate")
  case True
  moreover assume "validate_invocation cr st actor x eid payload now = Inr q"
  ultimately have v: "validate_policy st actor eid payload = Inr q"
    by (simp add: validate_invocation_def)
  then have "\<exists>p. payload = InvocationPolicyUpdated p"
    by (cases payload) (simp_all add: validate_policy_def Let_def)
  with policy_Inr [OF v] show ?thesis by auto
next
  case False
  moreover assume "validate_invocation cr st actor x eid payload now = Inr q"
  ultimately show ?thesis
    by (cases payload)
      (auto simp: validate_invocation_def Let_def dest: request_Inr attempt_Inr notify_Inr inv_claim_Inr
        progress_Inr wait_Inr complete_Inr end_Inr delivery_failed_Inr)
qed

lemma kind_runtime: "validate_runtime st actor x eid payload now = Inr q \<Longrightarrow> kind_of q = kind_of payload"
  by (cases payload)
    (auto simp: validate_runtime_def Let_def dest: runtime_register_Inr runtime_configure_Inr heartbeat_Inr
      runtime_status_Inr)

lemma kind_env: "validate_env x payload = Inr q \<Longrightarrow> kind_of q = kind_of payload"
  by (auto simp: validate_env_def split: env_event.splits payload.splits)

lemma validate_keeps_kind:
  assumes "ValidateTransition cr st actor t eid payload now = Inr q"
  shows "kind_of q = kind_of payload"
proof (cases "t = Agent_ev AgentRegister")
  case True
  with transition_Inr(2) [OF assms] show ?thesis by (auto dest: register_Inr)
next
  case False
  note v = transition_Inr(4) [OF assms False]
  show ?thesis
  proof (cases t)
    case (Approval_ev x)
    with v show ?thesis
      by (cases x) (auto simp: validate_block_def dest: approval_request_Inr approval_response_Inr)
  next
    case (Provider_ev x)
    with v show ?thesis
      by (cases x) (auto simp: validate_block_def dest: provider_register_Inr provider_retire_Inr)
  next
    case (Document_ev x)
    with v have "validate_document st x eid payload = Inr q" by (simp add: validate_block_def)
    from document_Inr [OF this] show ?thesis by blast
  next
    case SettingsUpdate
    with v have "validate_settings st actor payload = Inr q" by (simp add: validate_block_def)
    from settings_Inr [OF this] show ?thesis by blast
  qed (use v in \<open>simp_all add: validate_block_def kind_agent kind_task kind_message kind_invocation
      kind_runtime kind_env\<close>)
qed

subsection \<open>The standing of a principal\<close>

definition standing :: "state \<Rightarrow> string \<Rightarrow> (string \<times> string) option" where
  "standing s k = map_option (\<lambda>a. (ag_role a, ag_status a)) (m_get (st_agents s) k)"

text \<open>Role and status after an event, from those before (empty for an unknown principal).\<close>

fun standing_after :: "payload \<Rightarrow> string \<times> string \<Rightarrow> (string \<times> string) option" where
  "standing_after (AgentRegistered p) (role, status) = Some ([], ''PENDING'')"
| "standing_after (AgentActivated p) (role, status) = Some (aa_role p, ''ACTIVE'')"
| "standing_after (AgentRoleSwitched p) (role, status) = Some (sw_role p, status)"
| "standing_after (TaskStatus p) (role, status) = Some (role, ''SUSPENDED'')"
| "standing_after (RuntimeStatusChanged p) (role, status) = Some (role, ''REVOKED'')"
| "standing_after (AgentDeleted p) (role, status) = None"
| "standing_after _ (role, status) = Some (role, status)"

lemma standing_project:
  assumes "project cr (Agent_ev x) q e s = Inr s'" "payload_ok (Agent_ev x) q"
  shows "standing s' k =
    (if k = le_entity_id e
     then standing_after q (ag_role (agent_of s k), ag_status (agent_of s k)) else standing s k)"
proof -
  from project_parts [OF assms(1)] obtain s1 where s1: "apply_payload cr (Agent_ev x) q e s = Inr s1"
    and s': "s' = stampEntity (Agent_ev x) e s1" by auto
  have same: "standing s' k = standing s1 k"
    by (simp add: s' standing_def stampEntity_agents option.map_comp comp_def)
  show ?thesis
    unfolding same using s1 assms(2)
    apply (cases x; cases q)
    apply (simp_all add: payload_ok_def)
    apply (auto simp: apply_payload_def apply_registered_def apply_activated_def apply_role_switched_def
        on_agent_def apply_task_status_def apply_runtime_status_def apply_agent_revoked_def
        standing_def m_gets zero_agent_def Let_def)
    done
qed

lemma standing_frame:
  assumes "project cr t q e s = Inr s'" "payload_ok t q" "\<And>x. t \<noteq> Agent_ev x"
  shows "standing s' k = standing s k"
  using agents_frame [OF assms] by (simp add: standing_def)

subsection \<open>Becoming an orchestrator\<close>

lemma grant_consumed:
  "\<not> hasOrchestratorGrantApproval (consumeOrchestratorGrantApproval k e s) k later"
  by (auto simp: hasOrchestratorGrantApproval_def consumeOrchestratorGrantApproval_def m_gets
      consume_def split: option.splits)

lemma grant_stamp:
  "hasOrchestratorGrantApproval (stampEntity (Agent_ev x) e s) k later =
   hasOrchestratorGrantApproval s k later"
  by (simp add: hasOrchestratorGrantApproval_def stampEntity_def Let_def)

text \<open>
  C21. Nobody becomes an orchestrator quietly: whatever accepted event first gives a principal the
  ORCHESTRATOR role, its signer is an active human, an approved and unexpired human-tier approval of
  exactly this grant existed, and the event spends it, so the same approval can never grant the
  role again.
\<close>

theorem orchestrator_grant_is_single_use:
  assumes "ValidateTransition cr st actor t eid payload now = Inr q" "payload_ok t payload"
    and "le_entity_id e = eid" "project cr t q e st = Inr st'"
    and "m_get (st_agents st') k = Some a" "ag_role a = RoleOrchestrator"
    and "\<forall>b. m_get (st_agents st) k = Some b \<longrightarrow> ag_role b \<noteq> RoleOrchestrator"
  shows "k = eid \<and> (\<exists>b. m_get (st_agents st) actor = Some b \<and> ag_status b = ''ACTIVE'' \<and>
      ag_principal_type b = PrincipalHuman) \<and>
    hasOrchestratorGrantApproval st k now \<and> (\<forall>later. \<not> hasOrchestratorGrantApproval st' k later)"
proof -
  have ok: "payload_ok t q"
    using assms(2) validate_keeps_kind [OF assms(1)] by (simp add: payload_ok_def)
  have now_orch: "\<exists>status. standing st' k = Some (RoleOrchestrator, status)"
    using assms(5,6) by (simp add: standing_def)
  have was_not: "standing st k \<noteq> Some (RoleOrchestrator, status)" for status
    using assms(7) by (auto simp: standing_def)
  obtain x where t: "t = Agent_ev x"
    using standing_frame [OF assms(4) ok] now_orch was_not by metis
  note st = standing_project [OF assms(4) [unfolded t] ok [unfolded t]]
  have k: "k = eid"
    using st [of k] now_orch was_not assms(3) by (auto split: if_splits)
  have zero: "ag_role (agent_of st k) \<noteq> RoleOrchestrator"
    using assms(7) by (cases "m_get (st_agents st) k") (auto simp: zero_agent_def)
  from st [of k] now_orch k assms(3) zero
  have q: "(\<exists>p. q = AgentActivated p \<and> aa_role p = RoleOrchestrator) \<or>
      (\<exists>p. q = AgentRoleSwitched p \<and> sw_role p = RoleOrchestrator)"
    by (cases q) auto
  have x: "x = AgentActivate \<or> x = AgentSwitchRole"
    using q ok t by (cases x) (auto simp: payload_ok_def)
  have spent: "\<forall>later. \<not> hasOrchestratorGrantApproval st' k later"
    using q assms(3,4) k t x grant_consumed
    by (auto simp: project_def apply_payload_def apply_activated_def apply_role_switched_def Let_def grant_stamp)
  from x t have nr: "t \<noteq> Agent_ev AgentRegister" by auto
  from standing_Inr [OF transition_Inr(3) [OF assms(1) nr]] obtain b where
    b: "m_get (st_agents st) actor = Some b" "ag_status b = ''ACTIVE''" by blast
  have va: "validate_agent st actor x eid payload now = Inr q"
    using transition_Inr(4) [OF assms(1) nr] t by (simp add: validate_block_def)
  from x have "ag_principal_type (agent_of st actor) = PrincipalHuman \<and>
      hasOrchestratorGrantApproval st k now"
  proof
    assume "x = AgentActivate"
    with va have v: "validate_activate st actor eid payload now = Inr q" by (simp add: validate_agent_def)
    from activate_Inr [OF v] q k show ?thesis by auto
  next
    assume "x = AgentSwitchRole"
    with va have v: "validate_switch_role st actor eid payload now = Inr q" by (simp add: validate_agent_def)
    from switch_role_Inr [OF v] q k show ?thesis by auto
  qed
  with b k spent show ?thesis by simp
qed

text \<open>A grant evaluated: a human owner activates an agent as orchestrator.\<close>

definition grant_state :: state where
  "grant_state = EmptyState\<lparr>st_agents := m_put ''b'' (zero_agent\<lparr>ag_status := ''PENDING''\<rparr>)
       (m_put ''o'' (zero_agent\<lparr>ag_status := ''ACTIVE'', ag_role := RoleOwner,
          ag_principal_type := PrincipalHuman, ag_public_key := ''everyday'',
          ag_elevated_public_key := ''elevated''\<rparr>) m_empty),
     st_approvals := m_put ''grant-orchestrator-b'' (zero_approval\<lparr>ap_tier := ''HUMAN'',
       ap_action := ''agent.activate:b'', ap_status := ''APPROVED''\<rparr>) m_empty\<rparr>"

definition grant_payload :: "string \<Rightarrow> payload" where
  "grant_payload role = AgentActivated \<lparr>aa_role = role, aa_capabilities = [], aa_scopes = [''*'']\<rparr>"

lemma grant_accepted:
  assumes "normalizeRole role = RoleOrchestrator"
  shows "ValidateTransition cr grant_state ''o'' (Agent_ev AgentActivate) ''b'' (grant_payload role) 9 =
    Inr (grant_payload RoleOrchestrator)"
proof -
  have "hasOrchestratorGrantApproval grant_state ''b'' 9"
    by (simp add: hasOrchestratorGrantApproval_def OrchestratorGrantApprovalID_def grant_state_def
        OrchestratorGrantApprovalAction_def not_expired_def zero_approval_def)
  with assms show ?thesis
    by (simp add: ValidateTransition_def check_standing_def active_def elevated_def validate_block_def
        validate_agent_def validate_activate_def validateRoleValue_def grant_payload_def grant_state_def
        zero_agent_def m_lookup_update m_read_def Let_def)
qed

theorem orchestrator_grant_is_single_use_witness:
  "\<exists>st'. project undefined (Agent_ev AgentActivate) (grant_payload RoleOrchestrator)
      (event_of ''evt'' 2 9 ''o'' (Agent_ev AgentActivate) ''b'' []) grant_state = Inr st' \<and>
    hasOrchestratorGrantApproval grant_state ''b'' 9 \<and> \<not> hasOrchestratorGrantApproval st' ''b'' 10"
proof -
  let ?e = "event_of ''evt'' 2 9 ''o'' (Agent_ev AgentActivate) ''b'' []"
  let ?t = "Agent_ev AgentActivate"
  have v: "ValidateTransition undefined grant_state ''o'' ?t ''b'' (grant_payload RoleOrchestrator) 9 =
      Inr (grant_payload RoleOrchestrator)"
    by (rule grant_accepted) (simp add: normalizeRole_def text_eval)
  have ok: "payload_ok ?t (grant_payload RoleOrchestrator)"
    by (simp add: payload_ok_def grant_payload_def)
  have e: "le_entity_id ?e = ''b''" by (simp add: event_of_def)
  obtain st' where p: "project undefined ?t (grant_payload RoleOrchestrator) ?e grant_state = Inr st'"
    by (simp add: project_def apply_payload_def grant_payload_def)
  have "standing st' ''b'' = Some (RoleOrchestrator, ''ACTIVE'')"
    using standing_project [OF p ok, of "''b''"] e by (simp add: grant_payload_def)
  then obtain a where a: "m_get (st_agents st') ''b'' = Some a" "ag_role a = RoleOrchestrator"
    by (auto simp: standing_def)
  have "\<forall>b. m_get (st_agents grant_state) ''b'' = Some b \<longrightarrow> ag_role b \<noteq> RoleOrchestrator"
    by (simp add: grant_state_def zero_agent_def)
  from orchestrator_grant_is_single_use [OF v ok e p a this] p show ?thesis by blast
qed

subsection \<open>The life of an invocation\<close>

text \<open>The status of an invocation (none before its request) as an automaton.\<close>

inductive life :: "string option \<Rightarrow> string option \<Rightarrow> bool" where
  stay: "life s s"
| ask: "life None (Some ''PENDING'')"
| announce: "life (Some ''PENDING'') (Some ''NOTIFIED'')"
| retry: "life (Some ''NOTIFIED'') (Some ''PENDING'')"
| take: "s \<in> {''PENDING'', ''NOTIFIED''} \<Longrightarrow> life (Some s) (Some ''CLAIMED'')"
| start: "s \<in> {''CLAIMED'', ''WAITING''} \<Longrightarrow> life (Some s) (Some ''RUNNING'')"
| pause: "life (Some ''RUNNING'') (Some ''WAITING'')"
| finish: "s \<in> {''RUNNING'', ''WAITING''} \<Longrightarrow> life (Some s) (Some ''COMPLETED'')"
| refuse: "s \<in> {''PENDING'', ''NOTIFIED'', ''CLAIMED''} \<Longrightarrow> life (Some s) (Some ''REJECTED'')"
| cancel: "s \<notin> cancel_refused \<Longrightarrow> life (Some s) (Some ''CANCELLED'')"
| expire: "life (Some s) (Some ''EXPIRED'')"

inductive_cases life_from: "life (Some s) s'"

definition life_status :: "state \<Rightarrow> string \<Rightarrow> string option" where
  "life_status s k = map_option iv_status (m_get (st_invocations s) k)"

lemma life_final:
  "life (Some s) s' \<Longrightarrow> s \<in> {''COMPLETED'', ''REJECTED'', ''CANCELLED'', ''EXPIRED''} \<Longrightarrow>
   s' = Some s \<or> s' = Some ''EXPIRED''"
  by (erule life_from; simp; elim disjE; simp)

text \<open>The status an invocation event writes, from the one before.\<close>

fun life_after :: "event_type \<Rightarrow> payload \<Rightarrow> bool \<Rightarrow> string \<Rightarrow> string" where
  "life_after t (InvocationRequested p) delivered s = ''PENDING''"
| "life_after t (InvocationDeliveryAttempted p) delivered s = s"
| "life_after t (InvocationNotified p) delivered s = (if s = ''PENDING'' then ''NOTIFIED'' else s)"
| "life_after t (InvocationClaimed p) delivered s = ''CLAIMED''"
| "life_after t (InvocationProgress p) delivered s = ''RUNNING''"
| "life_after t (InvocationWaiting p) delivered s = ''WAITING''"
| "life_after t (InvocationCompleted p) delivered s = ''COMPLETED''"
| "life_after t (InvocationRejected p) delivered s =
     (if t = Invocation_ev InvExpire then ''EXPIRED''
      else if t = Invocation_ev InvCancel then ''CANCELLED'' else ''REJECTED'')"
| "life_after t (InvocationDeliveryFailed p) delivered s =
     (if s = ''PENDING'' \<or> s = ''NOTIFIED'' then (if delivered then ''NOTIFIED'' else ''PENDING'') else s)"
| "life_after t _ delivered s = s"

lemma life_project:
  assumes "project cr (Invocation_ev x) q e s = Inr s'" "payload_ok (Invocation_ev x) q"
  shows "life_status s' k =
    (if k = le_entity_id e \<and> x \<noteq> InvPolicyUpdate \<and> x \<noteq> InvDeliveryAttempt
     then Some (life_after (Invocation_ev x) q (hasSuccessfulDelivery s k)
       (case life_status s k of None \<Rightarrow> [] | Some v \<Rightarrow> v))
     else life_status s k)"
proof -
  from project_parts [OF assms(1)] obtain s1 where s1: "apply_payload cr (Invocation_ev x) q e s = Inr s1"
    and s': "s' = stampEntity (Invocation_ev x) e s1" by auto
  have same: "life_status s' k = life_status s1 k"
    by (simp add: s' life_status_def stampEntity_invocations option.map_comp comp_def)
  show ?thesis
    unfolding same using s1 assms(2)
    apply (cases x; cases q)
    apply (simp_all add: payload_ok_def)
    apply (auto simp: apply_payload_def apply_requested_def on_invocation_def apply_attempted_def
        apply_notified_def apply_delivery_failed_def notify_invocation_def fail_invocation_def
        claim_invocation_def progress_invocation_def wait_invocation_def complete_invocation_def
        end_invocation_def open_for_delivery_def life_status_def m_gets m_read_def zero_invocation_def Let_def
        split: option.split)
    done
qed

lemma accepted_life:
  assumes "validate_invocation cr st actor x eid payload now = Inr q" "kind_of q = invocation_factory x"
    and "x \<noteq> InvPolicyUpdate" "x \<noteq> InvDeliveryAttempt"
  shows "life (life_status st eid) (Some (life_after (Invocation_ev x) q delivered
    (case life_status st eid of None \<Rightarrow> [] | Some v \<Rightarrow> v)))"
proof -
  have kind: "kind_of payload = kind_of q"
    using kind_invocation [OF assms(1)] by simp
  have found: "m_get (st_invocations st) eid = Some i \<Longrightarrow> life_status st eid = Some (iv_status i)" for i
    by (simp add: life_status_def)
  show ?thesis
  proof (cases x)
    case InvRequest
    with assms(1,2) kind obtain p where v: "validate_request cr st actor x eid p now = Inr q"
      by (cases payload) (auto simp: validate_invocation_def)
    from request_Inr [OF v] have "life_status st eid = None" "\<exists>p. q = InvocationRequested p"
      by (auto simp: life_status_def)
    then show ?thesis by (auto intro: life.ask)
  next
    case InvNotify
    with assms(1,2) kind obtain p where
      v: "validate_notify st actor eid (m_get (st_invocations st) eid) p now = Inr q"
      by (cases payload) (auto simp: validate_invocation_def)
    from notify_Inr [OF v] found show ?thesis by (auto intro: life.intros)
  next
    case InvClaim
    with assms(1,2) kind obtain p where
      v: "validate_claim st actor eid (m_get (st_invocations st) eid) p now = Inr q"
      by (cases payload) (auto simp: validate_invocation_def)
    from inv_claim_Inr [OF v] found show ?thesis
      by (auto simp: open_for_delivery_def intro: life.take)
  next
    case InvStart
    with assms(1,2) kind obtain p where
      v: "validate_progress actor x (m_get (st_invocations st) eid) p = Inr q"
      by (cases payload) (auto simp: validate_invocation_def)
    from progress_Inr [OF v] found InvStart show ?thesis by (auto intro: life.start)
  next
    case InvResume
    with assms(1,2) kind obtain p where
      v: "validate_progress actor x (m_get (st_invocations st) eid) p = Inr q"
      by (cases payload) (auto simp: validate_invocation_def)
    from progress_Inr [OF v] found InvResume show ?thesis by (auto intro: life.start)
  next
    case InvWait
    with assms(1,2) kind obtain p where
      v: "validate_wait actor (m_get (st_invocations st) eid) p now = Inr q"
      by (cases payload) (auto simp: validate_invocation_def)
    from wait_Inr [OF v] found show ?thesis by (auto intro: life.pause)
  next
    case InvComplete
    with assms(1,2) kind obtain p where
      v: "validate_complete st actor (m_get (st_invocations st) eid) p = Inr q"
      by (cases payload) (auto simp: validate_invocation_def)
    from complete_Inr [OF v] found show ?thesis by (auto intro: life.finish)
  next
    case InvReject
    with assms(1,2) kind obtain p where
      v: "validate_end st actor x (m_get (st_invocations st) eid) p now = Inr q"
      by (cases payload) (auto simp: validate_invocation_def)
    from end_Inr [OF v] found InvReject show ?thesis
      by (auto simp: open_for_delivery_def intro: life.refuse)
  next
    case InvExpire
    with assms(1,2) kind obtain p where
      v: "validate_end st actor x (m_get (st_invocations st) eid) p now = Inr q"
      by (cases payload) (auto simp: validate_invocation_def)
    from end_Inr [OF v] found InvExpire show ?thesis by (auto intro: life.expire)
  next
    case InvCancel
    with assms(1,2) kind obtain p where
      v: "validate_end st actor x (m_get (st_invocations st) eid) p now = Inr q"
      by (cases payload) (auto simp: validate_invocation_def)
    from end_Inr [OF v] obtain i where i: "q = InvocationRejected p" "m_get (st_invocations st) eid = Some i"
      "iv_status i \<notin> cancel_refused" using InvCancel by blast
    from life.cancel [OF i(3)] found [OF i(2)] i(1) InvCancel show ?thesis by simp
  next
    case InvDeliveryFailed
    with assms(1,2) kind obtain p where
      v: "validate_delivery_failed st actor eid (m_get (st_invocations st) eid) p now = Inr q"
      by (cases payload) (auto simp: validate_invocation_def)
    from delivery_failed_Inr [OF v] found show ?thesis by (auto intro: life.intros)
  qed (use assms(3,4) in simp_all)
qed

text \<open>
  C27. The status of an invocation only moves along its life cycle: no accepted event, of whatever type,
  takes any invocation along an edge the automaton does not have. An invocation that is completed,
  rejected or cancelled stays so, except that it can still be marked expired.
\<close>

theorem invocation_life_cycle:
  assumes "ValidateTransition cr st actor t eid payload now = Inr q" "payload_ok t payload"
    and "le_entity_id e = eid" "project cr t q e st = Inr st'"
  shows "life (life_status st k) (life_status st' k)"
proof -
  have ok: "payload_ok t q"
    using assms(2) validate_keeps_kind [OF assms(1)] by (simp add: payload_ok_def)
  show ?thesis
  proof (cases "\<exists>x. t = Invocation_ev x \<and> x \<noteq> InvPolicyUpdate \<and> x \<noteq> InvDeliveryAttempt \<and> k = eid")
    case False
    have "life_status st' k = life_status st k"
    proof (cases "\<exists>x. t = Invocation_ev x")
      case True
      with False obtain x where x: "t = Invocation_ev x" "k = eid \<longrightarrow> x = InvPolicyUpdate \<or> x = InvDeliveryAttempt"
        by blast
      from life_project [OF assms(4) [unfolded x(1)] ok [unfolded x(1)], of k] x(2) assms(3)
      show ?thesis by auto
    next
      case False
      with invocations_frame [OF assms(4) ok] show ?thesis by (simp add: life_status_def)
    qed
    then show ?thesis by (simp add: life.stay)
  next
    case True
    then obtain x where x: "t = Invocation_ev x" "x \<noteq> InvPolicyUpdate" "x \<noteq> InvDeliveryAttempt" and k: "k = eid"
      by blast
    from x(1) have "t \<noteq> Agent_ev AgentRegister" by simp
    from transition_Inr(4) [OF assms(1) this] have v: "validate_invocation cr st actor x eid payload now = Inr q"
      by (simp add: validate_block_def x(1))
    have after: "life_status st' k = Some (life_after (Invocation_ev x) q (hasSuccessfulDelivery st k)
       (case life_status st k of None \<Rightarrow> [] | Some v \<Rightarrow> v))"
      using life_project [OF assms(4) [unfolded x(1)] ok [unfolded x(1)], of k] x k assms(3) by simp
    show ?thesis
      unfolding after using accepted_life [OF v _ x(2,3)] ok x(1) k by (simp add: payload_ok_def)
  qed
qed

theorem invocation_life_cycle_witness:
  "let i = zero_invocation\<lparr>iv_requested_by := ''a'', iv_status := ''RUNNING''\<rparr>;
       st = EmptyState\<lparr>st_agents := m_put ''a'' (zero_agent\<lparr>ag_status := ''ACTIVE''\<rparr>) m_empty,
              st_invocations := m_put ''i'' i m_empty\<rparr>;
       q = InvocationRejected \<lparr>rj_reason = ''stop''\<rparr>;
       e = event_of ''evt'' 2 9 ''a'' (Invocation_ev InvCancel) ''i'' []
   in \<exists>st'. project undefined (Invocation_ev InvCancel) q e st = Inr st' \<and>
        life (Some ''RUNNING'') (life_status st' ''i'') \<and> life_status st' ''i'' = Some ''CANCELLED''"
proof -
  let ?i = "zero_invocation\<lparr>iv_requested_by := ''a'', iv_status := ''RUNNING''\<rparr>"
  let ?st = "EmptyState\<lparr>st_agents := m_put ''a'' (zero_agent\<lparr>ag_status := ''ACTIVE''\<rparr>) m_empty,
              st_invocations := m_put ''i'' ?i m_empty\<rparr>"
  let ?q = "InvocationRejected \<lparr>rj_reason = ''stop''\<rparr>"
  let ?t = "Invocation_ev InvCancel"
  let ?e = "event_of ''evt'' 2 9 ''a'' ?t ''i'' []"
  have v: "ValidateTransition undefined ?st ''a'' ?t ''i'' ?q 9 = Inr ?q"
    by (simp add: ValidateTransition_def check_standing_def active_def elevated_def validate_block_def
        validate_invocation_def validate_end_def zero_invocation_def zero_agent_def m_lookup_update
        blank_def text_eval Let_def)
  have ok: "payload_ok ?t ?q" by (simp add: payload_ok_def)
  obtain st' where p: "project undefined ?t ?q ?e ?st = Inr st'"
    by (simp add: project_def apply_payload_def)
  have "life_status ?st ''i'' = Some ''RUNNING''"
    by (simp add: life_status_def)
  moreover have "life_status st' ''i'' = Some ''CANCELLED''"
    using life_project [OF p ok, of "''i''"] by (simp add: event_of_def)
  moreover have "life (life_status ?st ''i'') (life_status st' ''i'')"
    using invocation_life_cycle [OF v ok _ p] by (simp add: event_of_def)
  ultimately show ?thesis using p unfolding Let_def by metis
qed

subsection \<open>Spending a takeover approval\<close>

text \<open>
  A takeover is paid for once: an accepted takeover event makes the actor the owner of the claimed
  task and leaves the very approval it names consumed, so the approval was approved before and no
  later takeover or shared write can use it.
\<close>

theorem takeover_spends_approval:
  assumes "ValidateTransition cr st actor (Task_ev TaskTakeover) eid (TaskStatus p0) now = Inr q"
    and "e = event_of ev_id sequence now actor (Task_ev TaskTakeover) eid data"
    and "project cr (Task_ev TaskTakeover) q e st = Inr st'"
  shows "\<exists>p a b t. q = TaskStatus p \<and> m_get (st_approvals st) (ts_approval_id p) = Some a \<and>
    approved_for (''task.takeover:'' @ eid) a \<and> not_expired (ap_expires_at a) now \<and>
    m_get (st_approvals st') (ts_approval_id p) = Some b \<and> ap_status b = ''CONSUMED'' \<and>
    m_get (st_tasks st') eid = Some t \<and> tk_owner t = actor \<and> tk_status t = ''CLAIMED'' \<and>
    tk_lease_until t = now + default_lease st"
proof -
  from takeover_Inr [OF assms(1)] obtain p where q: "q = TaskStatus p" "ts_approval_id p \<noteq> []"
    "ts_approval_id p = fst (eligibleActionApprovalID st (''task.takeover:'' @ eid) now)"
    by blast
  let ?k = "ts_approval_id p"
  from eligible_holds [OF q(3) [symmetric] q(2)] obtain a where a: "m_get (st_approvals st) ?k = Some a"
    "approved_for (''task.takeover:'' @ eid) a" "not_expired (ap_expires_at a) now" by blast
  let ?s1 = "st\<lparr>st_approvals := m_put ?k (consume e a) (st_approvals st)\<rparr>"
  have lease: "default_lease ?s1 = default_lease st"
    by (simp add: default_lease_def)
  have e: "le_entity_id e = eid" "le_time e = now" "le_actor e = actor"
    using assms(2) by (simp_all add: event_of_def)
  have "consumeNamedApprovedAction ?k (''task.takeover:'' @ eid) e st = Inr ?s1"
    using a e by (simp add: consumeNamedApprovedAction_def approved_for_def not_expired_def split: option.splits)
  then have s': "st' = stampEntity (Task_ev TaskTakeover) e
      (on_task (status_change TaskTakeover (default_lease st) (stale_grace ?s1) e) e ?s1)"
    using assms(3) q(1,2) e lease
    by (simp add: project_def apply_payload_def apply_task_status_def Let_def)
  have "m_get (st_approvals st') ?k = Some (consume e a)" "ap_status (consume e a) = ''CONSUMED''"
    by (simp_all add: s' stampEntity_def on_task_def m_gets consume_def Let_def)
  moreover obtain t where "m_get (st_tasks st') eid = Some t" "tk_owner t = actor" "tk_status t = ''CLAIMED''"
    "tk_lease_until t = now + default_lease st"
    by (simp add: s' stampEntity_def on_task_def m_gets e Let_def stamp_task_def)
  ultimately show ?thesis using q(1) a by blast
qed

text \<open>One takeover evaluated, for the witnesses of the two properties on accepted events.\<close>

definition sample_approval :: approval where
  "sample_approval = zero_approval\<lparr>ap_action := ''task.takeover:t'', ap_status := ''APPROVED''\<rparr>"

definition sample_state :: state where
  "sample_state = EmptyState\<lparr>st_agents := m_put ''a'' (zero_agent\<lparr>ag_status := ''ACTIVE''\<rparr>) m_empty,
     st_tasks := m_put ''t'' (zero_task\<lparr>tk_owner := ''b'', tk_status := ''IN_PROGRESS''\<rparr>) m_empty,
     st_approvals := m_put ''ap'' sample_approval m_empty\<rparr>"

definition sample_change :: "string \<Rightarrow> task_status_change" where
  "sample_change k = \<lparr>ts_summary = [], ts_evidence = [], ts_reviewer = [], ts_approval_id = k\<rparr>"

lemma sample_takeover:
  "ValidateTransition cr sample_state ''a'' (Task_ev TaskTakeover) ''t'' (TaskStatus (sample_change [])) 9 =
     Inr (TaskStatus (sample_change ''ap''))"
proof -
  have "eligibleActionApprovalID sample_state ''task.takeover:t'' 9 = (''ap'', False)"
    by (simp add: eligibleActionApprovalID_def sample_state_def eligible_body_def sample_approval_def
        not_expired_def zero_approval_def)
  then show ?thesis
    by (simp add: ValidateTransition_def check_standing_def active_def elevated_def validate_block_def
        validate_task_def validate_task_status_def takeover_approval_def status_refused_def
        sample_change_def m_has_def sample_state_def zero_agent_def m_lookup_update Let_def)
qed

theorem accepted_event_applies_witness:
  "\<exists>st'. project undefined (Task_ev TaskTakeover) (TaskStatus (sample_change ''ap''))
     (event_of ''evt'' 2 9 ''a'' (Task_ev TaskTakeover) ''t'' []) sample_state = Inr st'"
  by (rule accepted_event_applies [OF sample_takeover]) (simp_all add: payload_ok_def event_of_def)

theorem takeover_spends_approval_witness:
  "\<exists>st' b. project undefined (Task_ev TaskTakeover) (TaskStatus (sample_change ''ap''))
     (event_of ''evt'' 2 9 ''a'' (Task_ev TaskTakeover) ''t'' []) sample_state = Inr st' \<and>
     m_get (st_approvals st') ''ap'' = Some b \<and> ap_status b = ''CONSUMED''"
proof -
  let ?e = "event_of ''evt'' 2 9 ''a'' (Task_ev TaskTakeover) ''t'' []"
  have a: "m_get (st_approvals sample_state) ''ap'' = Some sample_approval"
    by (simp add: sample_state_def)
  have "consumeNamedApprovedAction ''ap'' ''task.takeover:t'' ?e sample_state =
      Inr (sample_state\<lparr>st_approvals := m_put ''ap'' (consume ?e sample_approval) (st_approvals sample_state)\<rparr>)"
    by (simp add: consumeNamedApprovedAction_def a) (simp add: sample_approval_def zero_approval_def)
  then obtain st' where p: "project undefined (Task_ev TaskTakeover) (TaskStatus (sample_change ''ap''))
      ?e sample_state = Inr st'"
    by (simp add: project_def apply_payload_def apply_task_status_def event_of_def sample_change_def Let_def)
  from takeover_spends_approval [OF sample_takeover refl p] show ?thesis
    using p by (auto simp: sample_change_def)
qed

subsection \<open>Revoking a principal\<close>

text \<open>
  Revoking a principal takes its runtimes with it: after an accepted revocation the principal, who
  was neither the owner nor revoked already, is revoked, and so is every runtime it owns, while all
  other runtimes are untouched.
\<close>

theorem revocation_cascades:
  assumes "ValidateTransition cr st actor (Agent_ev AgentRevoke) eid payload now = Inr q"
    and "payload_ok (Agent_ev AgentRevoke) payload" "le_entity_id e = eid"
    and "project cr (Agent_ev AgentRevoke) q e st = Inr st'"
  shows "(\<exists>role status. standing st eid = Some (role, status) \<and> role \<noteq> RoleOwner \<and> status \<noteq> ''REVOKED'' \<and>
      standing st' eid = Some (role, ''REVOKED'')) \<and>
    (\<forall>k r. m_get (st_runtimes st) k = Some r \<longrightarrow>
      (if rt_agent_id r = eid
       then \<exists>r'. m_get (st_runtimes st') k = Some r' \<and> rt_agent_id r' = eid \<and> rt_status r' = ''REVOKED''
       else m_get (st_runtimes st') k = Some r))"
proof (rule conjI)
  have v: "validate_revoke st actor eid payload = Inr q"
    using transition_Inr(4) [OF assms(1)] by (simp add: validate_block_def validate_agent_def)
  from revoke_Inr [OF v] obtain target where q: "q = payload" and
    target: "m_get (st_agents st) eid = Some target" "ag_status target \<noteq> ''REVOKED''" "ag_role target \<noteq> RoleOwner"
    by blast
  from assms(2) q obtain p where p: "q = RuntimeStatusChanged p"
    by (cases payload) (auto simp: payload_ok_def)
  from assms(2) q have ok: "payload_ok (Agent_ev AgentRevoke) q" by simp
  have "standing st' eid = Some (ag_role target, ''REVOKED'')"
    using standing_project [OF assms(4) ok, of eid] assms(3) p target(1) by simp
  with target show "\<exists>role status. standing st eid = Some (role, status) \<and> role \<noteq> RoleOwner \<and>
      status \<noteq> ''REVOKED'' \<and> standing st' eid = Some (role, ''REVOKED'')"
    by (simp add: standing_def)
  have "st_runtimes st' = m_map (\<lambda>_. revoke_runtime e) (st_runtimes st)"
    using assms(4) p
    by (auto simp: project_def apply_payload_def apply_runtime_status_def apply_agent_revoked_def stampEntity_def Let_def)
  then show "\<forall>k r. m_get (st_runtimes st) k = Some r \<longrightarrow>
      (if rt_agent_id r = eid
       then \<exists>r'. m_get (st_runtimes st') k = Some r' \<and> rt_agent_id r' = eid \<and> rt_status r' = ''REVOKED''
       else m_get (st_runtimes st') k = Some r)"
    using assms(3) by (simp add: revoke_runtime_def)
qed

theorem revocation_cascades_witness:
  "let r = zero_runtime\<lparr>rt_agent_id := ''b'', rt_status := ''ONLINE''\<rparr>;
       st = EmptyState\<lparr>st_agents := m_put ''b'' (zero_agent\<lparr>ag_status := ''ACTIVE''\<rparr>) m_empty,
              st_runtimes := m_put ''r'' r m_empty\<rparr>;
       q = RuntimeStatusChanged \<lparr>sc_reason = [], sc_endpoint_id = []\<rparr>;
       e = event_of ''evt'' 2 9 ''b'' (Agent_ev AgentRevoke) ''b'' []
   in \<exists>st' r'. project undefined (Agent_ev AgentRevoke) q e st = Inr st' \<and>
        m_get (st_runtimes st') ''r'' = Some r' \<and> rt_status r' = ''REVOKED''"
proof -
  let ?r = "zero_runtime\<lparr>rt_agent_id := ''b'', rt_status := ''ONLINE''\<rparr>"
  let ?st = "EmptyState\<lparr>st_agents := m_put ''b'' (zero_agent\<lparr>ag_status := ''ACTIVE''\<rparr>) m_empty,
              st_runtimes := m_put ''r'' ?r m_empty\<rparr>"
  let ?q = "RuntimeStatusChanged \<lparr>sc_reason = [], sc_endpoint_id = []\<rparr>"
  let ?e = "event_of ''evt'' 2 9 ''b'' (Agent_ev AgentRevoke) ''b'' []"
  have v: "ValidateTransition undefined ?st ''b'' (Agent_ev AgentRevoke) ''b'' ?q 9 = Inr ?q"
    by (simp add: ValidateTransition_def check_standing_def active_def elevated_def validate_block_def
        validate_agent_def validate_revoke_def protected_target_def zero_agent_def m_lookup_update Let_def)
  have ok: "payload_ok (Agent_ev AgentRevoke) ?q" "le_entity_id ?e = ''b''"
    by (simp_all add: payload_ok_def event_of_def)
  obtain st' where p: "project undefined (Agent_ev AgentRevoke) ?q ?e ?st = Inr st'"
    by (simp add: project_def apply_payload_def)
  have "m_get (st_runtimes ?st) ''r'' = Some ?r" "rt_agent_id ?r = ''b''" by simp_all
  with revocation_cascades [OF v ok p] p show ?thesis unfolding Let_def by (metis (no_types, lifting))
qed

end
