(* ===== verification/Engine.thy ===== *)
theory Engine
  imports Projection_Facts
begin

text \<open>
  \<open>internal/personalauthority/engine.go\<close>: the single-writer authority of a personal project. Its SQLite
  database is a record of two tables; a JSON column holds the value it encodes. A call runs in one
  transaction: it returns the new database, or an error and (by rollback) the old one. Errors of
  the database driver itself (I/O, locking, a cancelled context) are outside the model.
\<close>

subsection \<open>The database\<close>

record project_row =
  pj_owner :: string
  pj_sequence :: nat
  pj_head :: string
  pj_state :: state
  pj_updated :: time

record event_row =
  er_project :: string
  er_sequence :: nat
  er_event_id :: string
  er_key :: string
  er_intent :: string
  er_event :: event
  er_receipt :: receipt
  er_signature :: string

record db =
  db_projects :: "project_row gmap"
  db_events :: "event_row list"

definition empty_db :: db where
  "empty_db = \<lparr>db_projects = m_empty, db_events = []\<rparr>"

text \<open>An error with a control-plane code, a plain one (\<open>Panic\<close> among them), or either wrapped in a message.\<close>

datatype fault = Control cp_error | Plain err | Wrapped string fault

abbreviation refuse :: "error_code \<Rightarrow> string \<Rightarrow> fault + 'a" where
  "refuse code message \<equiv> Inl (Control (control_error code message))"

definition as_control :: "error_code \<Rightarrow> 'a result \<Rightarrow> fault + 'a" where
  "as_control code r = (case r of Inl e \<Rightarrow> refuse code (err_text e) | Inr a \<Rightarrow> Inr a)"

definition as_plain :: "'a result \<Rightarrow> fault + 'a" where
  "as_plain r = (case r of Inl e \<Rightarrow> Inl (Plain e) | Inr a \<Rightarrow> Inr a)"

definition as_classified :: "'a result \<Rightarrow> fault + 'a" where
  "as_classified r =
     (case r of Inl e \<Rightarrow> (if e = Panic then Inl (Plain Panic) else Inl (Control (ClassifyValidationError e)))
      | Inr a \<Rightarrow> Inr a)"

text \<open>The three \<open>UNIQUE\<close> constraints of the events table.\<close>

definition clashes :: "event_row \<Rightarrow> event_row \<Rightarrow> bool" where
  "clashes r x =
     (er_project r = er_project x \<and>
      (er_sequence r = er_sequence x \<or> er_event_id r = er_event_id x \<or> er_key r = er_key x))"

definition insert_event :: "event_row \<Rightarrow> db \<Rightarrow> fault + db" where
  "insert_event r d =
     fail_if (list_ex (clashes r) (db_events d))
       (Control (control_error CodeUnavailable ''UNIQUE constraint failed''))
     (Inr (d\<lparr>db_events := db_events d @ [r]\<rparr>))"

subsection \<open>Creating a project\<close>

definition CreateProject :: "time \<Rightarrow> db \<Rightarrow> string \<Rightarrow> string \<Rightarrow> fault + db" where
  "CreateProject now d projectID ownerID =
     (if blank projectID \<or> blank ownerID then refuse CodeValidation ''project and owner are required''
      else Inr (if m_has (db_projects d) projectID then d
        else d\<lparr>db_projects := m_put projectID \<lparr>pj_owner = ownerID, pj_sequence = 0, pj_head = [],
               pj_state = EmptyState, pj_updated = now\<rparr> (db_projects d)\<rparr>))"

subsection \<open>Checking a command\<close>

definition replay :: "db \<Rightarrow> string \<Rightarrow> string \<Rightarrow> string \<Rightarrow> fault + (event \<times> receipt) option" where
  "replay d projectID idempotencyKey intentHash =
     (case List.find (\<lambda>r. er_project r = projectID \<and> er_key r = idempotencyKey) (db_events d) of
        None \<Rightarrow> Inr None
      | Some r \<Rightarrow>
          fail_if (er_intent r \<noteq> intentHash)
            (Control (control_error CodeConflict
              ''idempotency key was already used for a different command''))
          (Inr (Some (er_event r, er_receipt r))))"

definition commandPublicKey :: "state \<Rightarrow> command \<Rightarrow> event_type \<Rightarrow> payload \<Rightarrow> fault + string" where
  "commandPublicKey st c t payload =
     (if t = Agent_ev AgentRegister then
        (if cm_actor c \<noteq> cm_entity_id c \<or> cm_public_key c = []
         then refuse CodeAuthorization ''registration must be self-signed with a public key''
         else Inr (cm_public_key c))
      else case m_get (st_agents st) (cm_actor c) of
          None \<Rightarrow> refuse CodeAuthorization ''actor is not registered''
        | Some agent \<Rightarrow>
            if ag_elevated_public_key agent \<noteq> [] \<and>
               RequiresElevatedKey st (cm_actor c) t (cm_entity_id c) payload
            then Inr (ag_elevated_public_key agent)
            else Inr (ag_public_key agent))"

definition decode_command :: "crypto \<Rightarrow> command \<Rightarrow> fault + (event_type \<times> payload)" where
  "decode_command cr c =
     and_then (as_control CodeValidation (DecodePayloadValue cr (cm_type c) (cm_payload c))) (\<lambda>p.
     case parse_type (cm_type c) of
       None \<Rightarrow> refuse CodeValidation ''unsupported event type''
     | Some t \<Rightarrow> Inr (t, p))"

definition check_registration :: "command \<Rightarrow> event_type \<Rightarrow> payload \<Rightarrow> fault + unit" where
  "check_registration c t payload =
     (if t \<noteq> Agent_ev AgentRegister then Inr ()
      else case payload of
          AgentRegistered p \<Rightarrow>
            fail_if (ar_public_key p \<noteq> cm_public_key c)
              (Control (control_error CodeIntegrity
                ''registration payload and command public keys differ''))
            (Inr ())
        | _ \<Rightarrow> Inl (Plain Panic))"

definition bootstraps :: "project_row \<Rightarrow> command \<Rightarrow> event_type \<Rightarrow> bool" where
  "bootstraps row c t =
     (t = Agent_ev AgentActivate \<and> pj_sequence row = 1 \<and> cm_actor c = pj_owner row \<and>
      cm_entity_id c = pj_owner row)"

definition check_transition ::
  "crypto \<Rightarrow> project_row \<Rightarrow> command \<Rightarrow> event_type \<Rightarrow> payload \<Rightarrow> time \<Rightarrow> fault + payload" where
  "check_transition cr row c t payload now =
     (if bootstraps row c t then
        fail_if (case payload of AgentActivated p \<Rightarrow> aa_role p \<noteq> RoleOwner | _ \<Rightarrow> True)
          (Control (control_error CodeAuthorization ''initial owner activation must assign OWNER''))
        (Inr payload)
      else as_classified
        (ValidateTransition cr (pj_state row) (cm_actor c) t (cm_entity_id c) payload now))"

text \<open>From the clock check to the accepted payload and the fingerprint of the key that signed.\<close>

definition admit ::
  "crypto \<Rightarrow> project_row \<Rightarrow> command \<Rightarrow> time \<Rightarrow> fault + (event_type \<times> payload \<times> string)" where
  "admit cr row c now =
     (case command_validate cr c now of Some e \<Rightarrow> Inl (Control e) | None \<Rightarrow>
      and_then (decode_command cr c) (\<lambda>(t, payload).
      and_then (commandPublicKey (pj_state row) c t payload) (\<lambda>publicKey.
      fail_if (\<not> command_verify cr c publicKey)
        (Control (control_error CodeIntegrity ''actor command signature is invalid''))
      (fail_if (cm_expected_sequence c \<noteq> 0 \<and> cm_expected_sequence c \<noteq> pj_sequence row)
        (Control (control_error CodeStalePrecondition
          (''expected project sequence '' @ dec_digits (cm_expected_sequence c) @
           '', current sequence is '' @ dec_digits (pj_sequence row))))
      (and_then (check_registration c t payload) (\<lambda>_.
      and_then (check_transition cr row c t payload now)
        (\<lambda>q. Inr (t, q, Fingerprint cr publicKey))))))))"

subsection \<open>Committing it\<close>

definition event_id :: "nat \<Rightarrow> string" where
  "event_id n = ''evt-'' @ replicate (20 - length (dec_digits n)) CHR ''0'' @ dec_digits n"

definition new_event ::
  "project_row \<Rightarrow> command \<Rightarrow> string \<Rightarrow> string \<Rightarrow> string \<Rightarrow> time \<Rightarrow> event" where
  "new_event row c intentHash fingerprint payload now =
     \<lparr>ce_project_id = cm_project_id c, ce_sequence = pj_sequence row + 1,
      ce_id = event_id (pj_sequence row + 1), ce_time = now, ce_actor = cm_actor c,
      ce_actor_key_fingerprint = fingerprint, ce_type = cm_type c, ce_entity_id = cm_entity_id c,
      ce_payload = payload, ce_previous_hash = pj_head row, ce_hash = [],
      ce_actor_intent_hash = intentHash, ce_idempotency_key = cm_idempotency_key c\<rparr>"

definition new_receipt :: "event \<Rightarrow> receipt" where
  "new_receipt e =
     \<lparr>rc_project_id = ce_project_id e, rc_sequence = ce_sequence e, rc_event_id = ce_id e,
      rc_event_hash = ce_hash e, rc_actor_intent_hash = ce_actor_intent_hash e,
      rc_committed_at = ce_time e, rc_key_fingerprint = [], rc_signature = []\<rparr>"

definition log_of :: "event \<Rightarrow> log_event" where
  "log_of e =
     \<lparr>le_id = ce_id e, le_sequence = ce_sequence e, le_time = ce_time e, le_actor = ce_actor e,
      le_type = ce_type e, le_entity_id = ce_entity_id e, le_data = ce_payload e\<rparr>"

definition new_row :: "event \<Rightarrow> receipt \<Rightarrow> string \<Rightarrow> event_row" where
  "new_row e r signature =
     \<lparr>er_project = ce_project_id e, er_sequence = ce_sequence e, er_event_id = ce_id e,
      er_key = ce_idempotency_key e, er_intent = ce_actor_intent_hash e, er_event = e,
      er_receipt = r, er_signature = signature\<rparr>"

definition commit ::
  "crypto \<Rightarrow> string \<Rightarrow> db \<Rightarrow> project_row \<Rightarrow> command \<Rightarrow> string \<Rightarrow> payload \<Rightarrow> string \<Rightarrow> time \<Rightarrow>
   fault + (db \<times> event \<times> receipt)" where
  "commit cr priv d row c intentHash payload fingerprint now =
     and_then (as_control CodeValidation (EncodePayload cr (cm_type c) payload)) (\<lambda>normalized.
     let e0 = new_event row c intentHash fingerprint normalized now in
     and_then (as_plain (HashEvent cr e0)) (\<lambda>hash.
     let e = e0\<lparr>ce_hash := hash\<rparr>; receipt = SignReceipt cr priv (new_receipt e) in
     and_then (as_plain (ApplyEvent cr (pj_state row) (log_of e))) (\<lambda>st'.
     and_then (insert_event (new_row e receipt (cm_signature c)) d) (\<lambda>d'.
       Inr (d'\<lparr>db_projects := m_put (cm_project_id c)
              (row\<lparr>pj_sequence := ce_sequence e, pj_head := ce_hash e, pj_state := st',
                   pj_updated := now\<rparr>) (db_projects d')\<rparr>, e, receipt)))))"

text \<open>\<open>now.Truncate(time.Microsecond)\<close>.\<close>

definition microseconds :: "time \<Rightarrow> time" where
  "microseconds t = t - t mod 1000"

definition Mutate ::
  "crypto \<Rightarrow> string \<Rightarrow> time \<Rightarrow> db \<Rightarrow> command \<Rightarrow> fault + (db \<times> event \<times> receipt)" where
  "Mutate cr priv clock d c =
     (case m_get (db_projects d) (cm_project_id c) of
        None \<Rightarrow> refuse CodeValidation ''project not found''
      | Some row \<Rightarrow>
        and_then (as_control CodeValidation (IntentHash cr c)) (\<lambda>intentHash.
        and_then (replay d (cm_project_id c) (cm_idempotency_key c) intentHash) (\<lambda>found.
        case found of
          Some (e, r) \<Rightarrow> Inr (d, e, r)
        | None \<Rightarrow>
          let now = microseconds clock in
          and_then (admit cr row c now) (\<lambda>(t, payload, fingerprint).
            commit cr priv d row c intentHash payload fingerprint now))))"

subsection \<open>Reading\<close>

definition State :: "db \<Rightarrow> string \<Rightarrow> time \<Rightarrow> fault + (state \<times> result_metadata)" where
  "State d projectID now =
     (case m_get (db_projects d) projectID of
        None \<Rightarrow> refuse CodeValidation ''project not found''
      | Some row \<Rightarrow>
        let st = (pj_state row)\<lparr>st_integrity := \<lparr>ig_verified = True,
              ig_event_count = int (pj_sequence row), ig_head = pj_head row,
              ig_sync_state = ''personal-authoritative''\<rparr>\<rparr>
        in Inr (RefreshRuntimePresence st now,
            \<lparr>md_consistency = ''PERSONAL_AUTHORITATIVE'', md_server_sequence = pj_sequence row,
             md_cache_sequence = pj_sequence row, md_connectivity = ''LOCAL''\<rparr>))"

definition rows_after :: "db \<Rightarrow> string \<Rightarrow> nat \<Rightarrow> event_row list" where
  "rows_after d projectID start =
     sort_key er_sequence (List.filter (\<lambda>r. er_project r = projectID \<and> er_sequence r > start) (db_events d))"

definition Events :: "crypto \<Rightarrow> db \<Rightarrow> string \<Rightarrow> page_request \<Rightarrow> fault + event_page" where
  "Events cr d projectID page =
     and_then (as_plain (BoundedLimit page)) (\<lambda>limit0.
     and_then (case DecodeCursor cr (pg_cursor page) of Inl e \<Rightarrow> Inl (Control e) | Inr n \<Rightarrow> Inr n) (\<lambda>start.
     let limit = nat limit0;
         records = List.map (\<lambda>r. (er_event r, er_receipt r)) (take (limit + 1) (rows_after d projectID start));
         items = take limit records;
         next = (if length records > limit then EncodeCursor cr (ce_sequence (fst (last items))) else []);
         last_seen = (if items = [] then start else ce_sequence (fst (last items)))
     in Inr \<lparr>ep_items = items, ep_next_cursor = next,
          ep_metadata = \<lparr>md_consistency = ''PERSONAL_AUTHORITATIVE'', md_server_sequence = last_seen,
            md_cache_sequence = last_seen, md_connectivity = ''LOCAL''\<rparr>\<rparr>))"

end
