(* ===== verification/Drafts.thy ===== *)
theory Drafts
  imports Engine
begin

text \<open>
  Drafts, kept locally by \<open>internal/draftstore/store.go\<close> (personal mode) and by
  \<open>internal/localcache/cache.go\<close> (service mode): a table keyed by project and draft id with limits on
  the number and the bytes of a project's drafts. A time column holds the instant it spells; the
  listing orders by its text, \<open>time.RFC3339Nano\<close>, so that is spelled out (for UTC instants from year
  1 on). Rows with equal texts are listed in insertion order.

  A save is three statements without a transaction around them: count the drafts, look for the old one, insert.
  Each statement is atomic (both files are opened with one connection), but the saves of several requests may
  overlap. So each statement is a definition of its own; \<open>saveDraft\<close> is the three in a row, as they
  run when nothing comes in between, and \<open>overlapping\<close> the tables that come about however they interleave.
\<close>

abbreviation MaxDraftBytes :: nat where "MaxDraftBytes \<equiv> 5 * 1024 * 1024"
abbreviation MaxDraftsPerProject :: nat where "MaxDraftsPerProject \<equiv> 1000"

record draft =
  dr_project_id :: string
  dr_id :: string
  dr_kind :: string
  dr_body :: string
  dr_created_at :: time
  dr_updated_at :: time

subsection \<open>The text of an instant\<close>

definition padded :: "nat \<Rightarrow> nat \<Rightarrow> string" where
  "padded width n = replicate (width - length (dec_digits n)) CHR ''0'' @ dec_digits n"

definition trim_zeros :: "string \<Rightarrow> string" where
  "trim_zeros s = rev (dropWhile (\<lambda>c. c = CHR ''0'') (rev s))"

definition month_lengths :: "bool \<Rightarrow> nat list" where
  "month_lengths leap = [31, if leap then 29 else 28, 31, 30, 31, 30, 31, 31, 30, 31, 30, 31]"

fun month_of :: "nat list \<Rightarrow> nat \<Rightarrow> nat \<Rightarrow> nat \<times> nat" where
  "month_of [] m d = (m, d + 1)"
| "month_of (l # ls) m d = (if d < l then (m, d + 1) else month_of ls (m + 1) (d - l))"

text \<open>Year, month and day of the month of a day, counted from 1 January of year 1.\<close>

definition civil :: "nat \<Rightarrow> nat \<times> nat \<times> nat" where
  "civil days =
     (let n400 = days div 146097; r = days mod 146097;
          n100 = min 3 (r div 36524); r = r - n100 * 36524;
          n4 = r div 1461; r = r mod 1461;
          n1 = min 3 (r div 365); yday = r - n1 * 365;
          year = 400 * n400 + 100 * n100 + 4 * n4 + n1 + 1;
          leap = (year mod 4 = 0 \<and> (year mod 100 \<noteq> 0 \<or> year mod 400 = 0))
      in case month_of (month_lengths leap) 1 yday of (m, d) \<Rightarrow> (year, m, d))"

definition rfc3339_nano :: "time \<Rightarrow> string" where
  "rfc3339_nano t =
     (let s = nat (t div second); frac = nat (t mod second); sod = s mod 86400 in
      case civil (s div 86400) of (y, m, d) \<Rightarrow>
        padded 4 y @ ''-'' @ padded 2 m @ ''-'' @ padded 2 d @ ''T'' @
        padded 2 (sod div 3600) @ '':'' @ padded 2 (sod mod 3600 div 60) @ '':'' @ padded 2 (sod mod 60) @
        (if frac = 0 then [] else ''.'' @ trim_zeros (padded 9 frac)) @ ''Z'')"

subsection \<open>The table\<close>

definition has_key :: "string \<Rightarrow> string \<Rightarrow> draft \<Rightarrow> bool" where
  "has_key projectID draftID d = (dr_project_id d = projectID \<and> dr_id d = draftID)"

definition drafts_of :: "string \<Rightarrow> draft list \<Rightarrow> draft list" where
  "drafts_of projectID = List.filter (\<lambda>d. dr_project_id d = projectID)"

definition used_bytes :: "draft list \<Rightarrow> nat" where
  "used_bytes ds = sum_list (List.map (length \<circ> dr_body) ds)"

text \<open>\<open>INSERT \<dots> ON CONFLICT DO UPDATE\<close>: an existing row keeps its place and its creation time.\<close>

definition upsert :: "draft \<Rightarrow> draft list \<Rightarrow> draft list" where
  "upsert d ds =
     (if list_ex (has_key (dr_project_id d) (dr_id d)) ds
      then List.map (\<lambda>x. if has_key (dr_project_id d) (dr_id d) x
             then d\<lparr>dr_created_at := dr_created_at x\<rparr> else x) ds
      else ds @ [d])"

subsection \<open>The personal store\<close>

text \<open>
  The checks of the draft itself and the first statement: the number of the project's drafts and their bytes.
\<close>

definition count_drafts :: "draft list \<Rightarrow> draft \<Rightarrow> cp_error + nat \<times> nat" where
  "count_drafts ds d =
     fail_if (blank (dr_project_id d) \<or> blank (dr_id d))
       (control_error CodeValidation ''project and draft ID are required'')
     (fail_if (dr_kind d \<notin> {''document'', ''message'', ''artifact''})
       (control_error CodeValidation ''draft kind must be document, message, or artifact'')
     (fail_if (dr_body d = [] \<or> length (dr_body d) > MaxDraftBytes)
       (control_error CodeValidation (''draft must contain 1 to '' @ dec_digits MaxDraftBytes @ '' bytes''))
     (Inr (length (drafts_of (dr_project_id d) ds), used_bytes (drafts_of (dr_project_id d) ds)))))"

text \<open>The second statement, the length of the old draft if there is one; then the quotas and the two times.\<close>

definition stored_bytes :: "draft list \<Rightarrow> draft \<Rightarrow> nat option" where
  "stored_bytes ds d = map_option (length \<circ> dr_body) (List.find (has_key (dr_project_id d) (dr_id d)) ds)"

definition admit_draft :: "bool \<Rightarrow> time \<Rightarrow> draft list \<Rightarrow> draft \<Rightarrow> nat \<Rightarrow> nat \<Rightarrow> cp_error + draft" where
  "admit_draft preserveTimes now ds d number usedBytes =
     (let existing = stored_bytes ds d;
          existingBytes = (case existing of None \<Rightarrow> 0 | Some n \<Rightarrow> int n)
      in fail_if (existing = None \<and> number \<ge> MaxDraftsPerProject)
           (control_error CodeRateLimited ''local draft count limit reached'')
         (fail_if (int usedBytes - existingBytes + int (length (dr_body d)) > MaxDraftStorageBytes)
           (control_error CodeRateLimited ''local draft storage limit reached'')
         (let d = (if is_zero (dr_created_at d) then d\<lparr>dr_created_at := now\<rparr> else d);
              d = (if \<not> preserveTimes \<or> is_zero (dr_updated_at d) then d\<lparr>dr_updated_at := now\<rparr> else d)
          in Inr d)))"

text \<open>The third statement is \<open>upsert\<close>.\<close>

definition saveDraft :: "bool \<Rightarrow> time \<Rightarrow> draft list \<Rightarrow> draft \<Rightarrow> cp_error + draft list" where
  "saveDraft preserveTimes now ds d =
     and_then (count_drafts ds d) (\<lambda>(number, usedBytes).
     and_then (admit_draft preserveTimes now ds d number usedBytes) (\<lambda>d. Inr (upsert d ds)))"

definition SaveDraft :: "time \<Rightarrow> draft list \<Rightarrow> draft \<Rightarrow> cp_error + draft list" where
  "SaveDraft now ds d = saveDraft False now ds d"

definition ImportDraft :: "time \<Rightarrow> draft list \<Rightarrow> draft \<Rightarrow> cp_error + draft list" where
  "ImportDraft now ds d = saveDraft True now ds d"

definition list_drafts :: "draft list \<Rightarrow> string \<Rightarrow> int \<Rightarrow> cp_error + draft list" where
  "list_drafts ds projectID limit0 =
     (let limit = (if limit0 \<le> 0 then DefaultPageSize else limit0) in
      fail_if (limit > MaxPageSize) (control_error CodeValidation ''draft limit is too large'')
      (Inr (take (nat limit)
         (rev (sort_key (rfc3339_nano \<circ> dr_updated_at) (rev (drafts_of projectID ds)))))))"

definition DeleteDraft :: "draft list \<Rightarrow> string \<Rightarrow> string \<Rightarrow> cp_error + draft list" where
  "DeleteDraft ds projectID draftID =
     fail_if (blank projectID \<or> blank draftID)
       (control_error CodeValidation ''project and draft ID are required'')
     (fail_if (\<not> list_ex (has_key projectID draftID) ds)
       (control_error CodeValidation (''draft '' @ quoted draftID @ '' not found''))
     (Inr (List.filter (\<lambda>d. \<not> has_key projectID draftID d) ds)))"

subsection \<open>The drafts of the cache\<close>

definition cache_count_drafts :: "draft list \<Rightarrow> draft \<Rightarrow> cp_error + nat \<times> nat" where
  "cache_count_drafts ds d =
     (if blank (dr_project_id d) \<or> blank (dr_id d)
      then Inl (control_error CodeValidation ''project and draft ID are required'')
      else if \<not> (dr_kind d = ''document'' \<or> dr_kind d = ''message'' \<or> dr_kind d = ''artifact'')
      then Inl (control_error CodeValidation ''draft kind must be document, message, or artifact'')
      else if length (dr_body d) = 0 \<or> length (dr_body d) > MaxDraftBytes
      then Inl (control_error CodeValidation
             (''draft must contain 1 to '' @ dec_digits MaxDraftBytes @ '' bytes''))
      else let mine = drafts_of (dr_project_id d) ds in Inr (length mine, used_bytes mine))"

definition cache_admit_draft :: "time \<Rightarrow> draft list \<Rightarrow> draft \<Rightarrow> nat \<Rightarrow> nat \<Rightarrow> cp_error + draft" where
  "cache_admit_draft now ds d number bytes =
     (let existing = List.find (has_key (dr_project_id d) (dr_id d)) ds;
          existingBytes = (case existing of None \<Rightarrow> 0 | Some x \<Rightarrow> int (length (dr_body x)))
      in if existing = None \<and> number \<ge> MaxDraftsPerProject
         then Inl (control_error CodeRateLimited ''local draft count limit reached'')
         else if int bytes - existingBytes + int (length (dr_body d)) > MaxDraftStorageBytes
         then Inl (control_error CodeRateLimited ''local draft storage limit reached'')
         else let d = (if is_zero (dr_created_at d) then d\<lparr>dr_created_at := now\<rparr> else d)
           in Inr (d\<lparr>dr_updated_at := now\<rparr>))"

definition cache_SaveDraft :: "time \<Rightarrow> draft list \<Rightarrow> draft \<Rightarrow> cp_error + draft list" where
  "cache_SaveDraft now ds d =
     (case cache_count_drafts ds d of Inl e \<Rightarrow> Inl e
      | Inr (number, bytes) \<Rightarrow>
        (case cache_admit_draft now ds d number bytes of Inl e \<Rightarrow> Inl e
         | Inr d \<Rightarrow> Inr (upsert d ds)))"

definition cache_Drafts :: "draft list \<Rightarrow> string \<Rightarrow> int \<Rightarrow> cp_error + draft list" where
  "cache_Drafts ds projectID limit =
     (if limit > MaxPageSize then Inl (control_error CodeValidation ''draft limit is too large'')
      else let rows = rev (sort_key (rfc3339_nano \<circ> dr_updated_at) (rev (drafts_of projectID ds)))
        in Inr (take (nat (if limit \<le> 0 then DefaultPageSize else limit)) rows))"

definition cache_DeleteDraft :: "draft list \<Rightarrow> string \<Rightarrow> string \<Rightarrow> cp_error + draft list" where
  "cache_DeleteDraft ds projectID draftID =
     (if blank projectID \<or> blank draftID
      then Inl (control_error CodeValidation ''project and draft ID are required'')
      else let left = List.filter (\<lambda>d. \<not> has_key projectID draftID d) ds
        in if length left = length ds
           then Inl (control_error CodeValidation (''draft '' @ quoted draftID @ '' not found''))
           else Inr left)"

subsection \<open>Overlapping saves\<close>

text \<open>
  Between its statements a save remembers what it has read. \<open>overlapping m ds ps\<close>: with at most \<open>m\<close> saves under
  way at any time, the table \<open>ds\<close> and the saves \<open>ps\<close> can come about. A save that is refused, or whose
  request is cancelled, leaves; a deletion is one statement and may come at any time.
\<close>

datatype save = Counted bool draft nat nat | Admitted draft

inductive overlapping :: "nat \<Rightarrow> draft list \<Rightarrow> save list \<Rightarrow> bool" for m where
  empty: "overlapping m [] []"
| begins: "overlapping m ds ps \<Longrightarrow> length ps < m \<Longrightarrow> count_drafts ds d = Inr (number, bytes) \<Longrightarrow>
    overlapping m ds (ps @ [Counted preserve d number bytes])"
| admits: "overlapping m ds (xs @ Counted preserve d number bytes # ys) \<Longrightarrow>
    admit_draft preserve now ds d number bytes = Inr d' \<Longrightarrow> overlapping m ds (xs @ Admitted d' # ys)"
| inserts: "overlapping m ds (xs @ Admitted d # ys) \<Longrightarrow> overlapping m (upsert d ds) (xs @ ys)"
| leaves: "overlapping m ds (xs @ p # ys) \<Longrightarrow> overlapping m ds (xs @ ys)"
| deletes: "overlapping m ds ps \<Longrightarrow> DeleteDraft ds k i = Inr ds' \<Longrightarrow> overlapping m ds' ps"

text \<open>A save that is not interrupted is one of these runs, and so is every sequence of requests.\<close>

datatype draft_request = Save time draft | Import time draft | Delete string string

definition draft_step :: "draft list \<Rightarrow> draft_request \<Rightarrow> cp_error + draft list" where
  "draft_step ds r =
     (case r of Save now d \<Rightarrow> SaveDraft now ds d | Import now d \<Rightarrow> ImportDraft now ds d
      | Delete k i \<Rightarrow> DeleteDraft ds k i)"

lemma uninterrupted:
  assumes "overlapping m ds []" "1 \<le> m" "saveDraft preserve now ds d = Inr ds'"
  shows "overlapping m ds' []"
proof -
  from assms(3) obtain number bytes d' where c: "count_drafts ds d = Inr (number, bytes)"
    and a: "admit_draft preserve now ds d number bytes = Inr d'" and ds': "ds' = upsert d' ds"
    by (auto simp: saveDraft_def)
  have "overlapping m ds ([] @ [Counted preserve d number bytes])"
    using overlapping.begins [OF assms(1) _ c] assms(2) by simp
  from overlapping.admits [OF this a] have "overlapping m ds ([] @ [Admitted d'])" .
  from overlapping.inserts [OF this] show ?thesis by (simp add: ds')
qed

interpretation draft_store: inv_kept draft_step "\<lambda>ds. overlapping (Suc m) ds []" for m
  by unfold_locales
    (auto simp: draft_step_def SaveDraft_def ImportDraft_def intro: uninterrupted overlapping.deletes
      split: draft_request.splits)

subsection \<open>Quotas\<close>

definition draft_ok :: "draft \<Rightarrow> bool" where
  "draft_ok d \<longleftrightarrow> \<not> blank (dr_project_id d) \<and> \<not> blank (dr_id d) \<and>
     dr_kind d \<in> {''document'', ''message'', ''artifact''} \<and> dr_body d \<noteq> [] \<and> length (dr_body d) \<le> MaxDraftBytes"

lemma drafts_of_append: "drafts_of k (xs @ ys) = drafts_of k xs @ drafts_of k ys"
  by (simp add: drafts_of_def)

lemma used_bytes_append: "used_bytes (xs @ ys) = used_bytes xs + used_bytes ys"
  by (simp add: used_bytes_def)

lemma drafts_of_map:
  assumes "\<And>d. dr_project_id (f d) = dr_project_id d"
  shows "drafts_of k (List.map f ds) = List.map f (drafts_of k ds)"
  by (simp add: drafts_of_def filter_map comp_def assms)

lemma used_bytes_filter: "used_bytes (List.filter P xs) \<le> used_bytes xs"
  by (induction xs) (auto simp: used_bytes_def)

lemma used_bytes_split: "used_bytes xs = used_bytes (List.filter (\<lambda>x. \<not> P x) xs) + used_bytes (List.filter P xs)"
  by (induction xs) (auto simp: used_bytes_def)

text \<open>The table in order: distinct keys, legal drafts.\<close>

definition table_ok :: "draft list \<Rightarrow> bool" where
  "table_ok ds \<longleftrightarrow> distinct (List.map (\<lambda>d. (dr_project_id d, dr_id d)) ds) \<and> (\<forall>d\<in>set ds. draft_ok d)"

definition ids :: "string \<Rightarrow> draft list \<Rightarrow> string set" where
  "ids k ds = dr_id ` set (drafts_of k ds)"

text \<open>The bytes of the drafts of a project beside one of them.\<close>

definition others :: "draft list \<Rightarrow> draft \<Rightarrow> nat" where
  "others ds d = used_bytes (List.filter (\<lambda>x. \<not> has_key (dr_project_id d) (dr_id d) x) (drafts_of (dr_project_id d) ds))"

lemma filter_key:
  assumes "distinct (List.map (\<lambda>d. (dr_project_id d, dr_id d)) ds)"
  shows "List.filter (has_key k i) ds = (case List.find (has_key k i) ds of None \<Rightarrow> [] | Some x \<Rightarrow> [x])"
  using assms
proof (induction ds)
  case (Cons a ds)
  show ?case
  proof (cases "has_key k i a")
    case True
    have "(k, i) \<noteq> (dr_project_id x, dr_id x)" if "x \<in> set ds" for x
      using Cons.prems True that by (auto simp: has_key_def)
    then have "\<forall>x\<in>set ds. \<not> has_key k i x" by (auto simp: has_key_def)
    then have "List.filter (has_key k i) ds = []" by (simp add: filter_empty_conv)
    with True show ?thesis by simp
  qed (use Cons in simp)
qed simp

lemma key_in_project: "List.filter (has_key k i) (drafts_of k ds) = List.filter (has_key k i) ds"
  by (auto simp: drafts_of_def has_key_def intro: filter_cong)

lemma used_beside:
  assumes "table_ok ds"
  shows "used_bytes (drafts_of (dr_project_id d) ds) =
    others ds d + (case stored_bytes ds d of None \<Rightarrow> 0 | Some n \<Rightarrow> n)"
  using used_bytes_split [of "drafts_of (dr_project_id d) ds" "has_key (dr_project_id d) (dr_id d)"]
    filter_key [of ds "dr_project_id d" "dr_id d"] assms
  by (auto simp: others_def key_in_project stored_bytes_def table_ok_def used_bytes_def split: option.splits)

lemma ids_length: "table_ok ds \<Longrightarrow> length (drafts_of k ds) = card (ids k ds)"
  using distinct_card [of "drafts_of k ds"] card_image [of dr_id "set (drafts_of k ds)"]
  by (auto simp: ids_def table_ok_def drafts_of_def distinct_map inj_on_def)

lemma upsert_rest:
  "List.filter (\<lambda>x. \<not> has_key (dr_project_id d) (dr_id d) x) (upsert d ds) =
   List.filter (\<lambda>x. \<not> has_key (dr_project_id d) (dr_id d) x) ds"
  by (auto simp: upsert_def filter_map comp_def has_key_def intro: map_idI cong: filter_cong)

lemma upsert_own:
  assumes "table_ok ds"
  shows "used_bytes (List.filter (has_key (dr_project_id d) (dr_id d)) (upsert d ds)) = length (dr_body d)"
proof (cases "List.find (has_key (dr_project_id d) (dr_id d)) ds")
  case None
  then show ?thesis
    by (auto simp: upsert_def find_None_iff list_ex_iff used_bytes_def has_key_def filter_empty_conv)
next
  case (Some x)
  let ?P = "has_key (dr_project_id d) (dr_id d)"
  have "?P (if ?P y then d\<lparr>dr_created_at := dr_created_at y\<rparr> else y) = ?P y" for y by (simp add: has_key_def)
  moreover have "list_ex ?P ds" using Some by (auto simp: find_Some_iff list_ex_iff)
  ultimately have "List.filter ?P (upsert d ds) =
      List.map (\<lambda>y. if ?P y then d\<lparr>dr_created_at := dr_created_at y\<rparr> else y) (List.filter ?P ds)"
    by (simp add: upsert_def filter_map comp_def)
  moreover have "?P x" using Some by (auto simp: find_Some_iff)
  ultimately show ?thesis
    using filter_key [of ds "dr_project_id d" "dr_id d"] assms Some by (simp add: table_ok_def used_bytes_def)
qed

lemma upsert_elsewhere:
  assumes "k \<noteq> dr_project_id d"
  shows "drafts_of k (upsert d ds) = drafts_of k ds"
proof -
  have "drafts_of k (upsert d ds) = drafts_of k (List.filter (\<lambda>x. \<not> has_key (dr_project_id d) (dr_id d) x) (upsert d ds))"
    using assms by (auto simp: drafts_of_def has_key_def intro: filter_cong)
  also have "\<dots> = drafts_of k ds"
    unfolding upsert_rest using assms by (auto simp: drafts_of_def has_key_def intro: filter_cong)
  finally show ?thesis .
qed

lemma used_upsert:
  assumes "table_ok ds"
  shows "used_bytes (drafts_of k (upsert d ds)) =
    (if k = dr_project_id d then others ds d + length (dr_body d) else used_bytes (drafts_of k ds))"
proof (cases "k = dr_project_id d")
  case True
  let ?P = "has_key (dr_project_id d) (dr_id d)"
  have swap: "List.filter (\<lambda>x. \<not> ?P x) (drafts_of j xs) = drafts_of j (List.filter (\<lambda>x. \<not> ?P x) xs)" for j xs
    by (simp add: drafts_of_def conj_commute)
  have "used_bytes (drafts_of k (upsert d ds)) =
      used_bytes (List.filter (\<lambda>x. \<not> ?P x) (drafts_of k (upsert d ds))) + used_bytes (List.filter ?P (drafts_of k (upsert d ds)))"
    by (rule used_bytes_split)
  also have "\<dots> = others ds d + length (dr_body d)"
    using upsert_own [OF assms, of d] unfolding True swap upsert_rest others_def key_in_project by simp
  finally show ?thesis using True by simp
qed (simp add: upsert_elsewhere)

lemma upsert_keys:
  "(\<lambda>d. (dr_project_id d, dr_id d)) ` set (upsert d ds) =
   insert (dr_project_id d, dr_id d) ((\<lambda>d. (dr_project_id d, dr_id d)) ` set ds)"
proof (cases "list_ex (has_key (dr_project_id d) (dr_id d)) ds")
  case True
  let ?g = "\<lambda>x. (dr_project_id x, dr_id x)"
  let ?f = "\<lambda>x. if has_key (dr_project_id d) (dr_id d) x then d\<lparr>dr_created_at := dr_created_at x\<rparr> else x"
  have "?g \<circ> ?f = ?g" by (simp add: fun_eq_iff has_key_def)
  then have "?g ` ?f ` set ds = ?g ` set ds" by (simp only: image_comp)
  then have "?g ` set (upsert d ds) = ?g ` set ds" using True by (simp only: upsert_def if_True set_map)
  moreover from True obtain x where "x \<in> set ds" "?g x = ?g d" by (auto simp: list_ex_iff has_key_def)
  then have "?g d \<in> ?g ` set ds" using imageI [of x "set ds" ?g] by simp
  ultimately show ?thesis by (simp add: insert_absorb)
qed (simp add: upsert_def)

lemma ids_upsert: "ids k (upsert d ds) = (if k = dr_project_id d then insert (dr_id d) (ids k ds) else ids k ds)"
proof -
  have ids: "ids k xs = {i. (k, i) \<in> (\<lambda>d. (dr_project_id d, dr_id d)) ` set xs}" for xs
    by (auto simp: ids_def drafts_of_def)
  show ?thesis unfolding ids upsert_keys by auto
qed

lemma table_upsert:
  assumes "table_ok ds" "draft_ok d"
  shows "table_ok (upsert d ds)"
proof (cases "list_ex (has_key (dr_project_id d) (dr_id d)) ds")
  case True
  let ?g = "\<lambda>x. (dr_project_id x, dr_id x)"
  have "?g \<circ> (\<lambda>x. if has_key (dr_project_id d) (dr_id d) x then d\<lparr>dr_created_at := dr_created_at x\<rparr> else x) = ?g"
    by (simp add: fun_eq_iff has_key_def)
  then show ?thesis using True assms by (auto simp: upsert_def table_ok_def draft_ok_def)
qed (use assms in \<open>auto simp: upsert_def table_ok_def list_ex_iff has_key_def\<close>)

subsection \<open>The quotas under overlapping saves\<close>

text \<open>What the two checks establish, for the table they look at.\<close>

lemma count_drafts_Inr:
  "count_drafts ds d = Inr (number, bytes) \<longleftrightarrow> draft_ok d \<and>
     number = length (drafts_of (dr_project_id d) ds) \<and> bytes = used_bytes (drafts_of (dr_project_id d) ds)"
  by (auto simp: count_drafts_def draft_ok_def)

lemma admit_draft_Inr:
  assumes "admit_draft preserve now ds d number bytes = Inr d'"
  shows "dr_project_id d' = dr_project_id d" "dr_id d' = dr_id d" "dr_body d' = dr_body d" "draft_ok d' = draft_ok d"
    "stored_bytes ds d' = stored_bytes ds d" "others ds d' = others ds d"
    "number < MaxDraftsPerProject \<or> stored_bytes ds d \<noteq> None"
    "int bytes + int (length (dr_body d)) \<le>
       MaxDraftStorageBytes + (case stored_bytes ds d of None \<Rightarrow> 0 | Some n \<Rightarrow> int n)"
proof -
  define d1 where "d1 = (if is_zero (dr_created_at d) then d\<lparr>dr_created_at := now\<rparr> else d)"
  define d2 where "d2 = (if \<not> preserve \<or> is_zero (dr_updated_at d1) then d1\<lparr>dr_updated_at := now\<rparr> else d1)"
  have run: "\<not> (stored_bytes ds d = None \<and> number \<ge> MaxDraftsPerProject)"
    "\<not> int bytes - (case stored_bytes ds d of None \<Rightarrow> 0 | Some n \<Rightarrow> int n) + int (length (dr_body d)) > MaxDraftStorageBytes"
    "d' = d2"
    using assms unfolding admit_draft_def Let_def fail_if_Inr sum.inject d1_def [symmetric] d2_def [symmetric] by blast+
  show s: "dr_project_id d' = dr_project_id d" "dr_id d' = dr_id d" "dr_body d' = dr_body d" "draft_ok d' = draft_ok d"
    unfolding run(3) d2_def d1_def draft_ok_def by simp_all
  show "stored_bytes ds d' = stored_bytes ds d" "others ds d' = others ds d"
    using s by (simp_all add: stored_bytes_def others_def)
  show "number < MaxDraftsPerProject \<or> stored_bytes ds d \<noteq> None"
    "int bytes + int (length (dr_body d)) \<le>
       MaxDraftStorageBytes + (case stored_bytes ds d of None \<Rightarrow> 0 | Some n \<Rightarrow> int n)"
    using run(1,2) by linarith+
qed

lemma DeleteDraft_Inr:
  "DeleteDraft ds k i = Inr ds' \<Longrightarrow> ds' = List.filter (\<lambda>d. \<not> has_key k i d) ds"
  by (simp add: DeleteDraft_def)

lemma drafts_filter: "drafts_of k (List.filter P ds) = List.filter P (drafts_of k ds)"
  by (simp add: drafts_of_def conj_commute)

lemma stored_legal:
  assumes "table_ok ds" "stored_bytes ds d = Some n"
  shows "n \<le> MaxDraftBytes" "dr_id d \<in> ids (dr_project_id d) ds"
proof -
  from assms(2) obtain x where "x \<in> set ds" "has_key (dr_project_id d) (dr_id d) x" "n = length (dr_body x)"
    by (auto simp: stored_bytes_def find_Some_iff) (metis nth_mem)
  with assms(1) show "n \<le> MaxDraftBytes" "dr_id d \<in> ids (dr_project_id d) ds"
    by (auto simp: table_ok_def draft_ok_def ids_def drafts_of_def has_key_def intro: rev_image_eqI)
qed

primrec draft_in :: "save \<Rightarrow> draft" where
  "draft_in (Counted preserve d number bytes) = d"
| "draft_in (Admitted d) = d"

lemma overlapping_legal:
  assumes "overlapping m ds ps"
  shows "table_ok ds \<and> (\<forall>p\<in>set ps. draft_ok (draft_in p)) \<and> length ps \<le> m"
  using assms
proof induction
  case (deletes ds ps k i ds')
  then show ?case by (auto simp: table_ok_def distinct_map_filter dest: DeleteDraft_Inr)
qed (auto simp: count_drafts_Inr admit_draft_Inr(4) intro: table_upsert, simp_all add: table_ok_def)

text \<open>
  The drafts promised: the ids of admitted saves, and the saves that have counted and may still be
  admitted under a new id.
\<close>

definition promised :: "string \<Rightarrow> save list \<Rightarrow> string set" where
  "promised k ps = {dr_id d | d. Admitted d \<in> set ps \<and> dr_project_id d = k}"

primrec hopes :: "string \<Rightarrow> save \<Rightarrow> bool" where
  "hopes k (Counted preserve d number bytes) = (dr_project_id d = k \<and> number < MaxDraftsPerProject)"
| "hopes k (Admitted d) = False"

definition pledge :: "string \<Rightarrow> draft list \<Rightarrow> save list \<Rightarrow> nat" where
  "pledge k ds ps = card (ids k ds \<union> promised k ps) + length (List.filter (hopes k) ps)"

lemma promised_parts [simp]:
  "promised k [] = {}" "promised k (xs @ ys) = promised k xs \<union> promised k ys"
  "promised k (Counted preserve d number bytes # ps) = promised k ps"
  "promised k (Admitted d # ps) = (if dr_project_id d = k then insert (dr_id d) (promised k ps) else promised k ps)"
  by (auto simp: promised_def)

lemma finite_drafts [simp]: "finite (ids k ds)" "finite (promised k ps)"
proof -
  show "finite (ids k ds)" by (simp add: ids_def)
  have "promised k ps \<subseteq> dr_id ` draft_in ` set ps" by (force simp: promised_def)
  then show "finite (promised k ps)" by (rule finite_subset) simp
qed

lemma promised_few: "card (promised k ps) + length (List.filter (hopes k) ps) \<le> length ps"
proof (induction ps)
  case (Cons p ps)
  then show ?case by (cases p) (auto simp: card_insert_if)
qed simp

lemma pledge_smaller:
  assumes "ids k ds' \<subseteq> ids k ds" "promised k ps' \<subseteq> promised k ps"
    "length (List.filter (hopes k) ps') \<le> length (List.filter (hopes k) ps)"
  shows "pledge k ds' ps' \<le> pledge k ds ps"
  unfolding pledge_def using assms by (intro add_mono card_mono) auto

lemma overlapping_pledge:
  assumes "overlapping m ds ps"
  shows "pledge k ds ps \<le> MaxDraftsPerProject + (m - 1)"
  using assms
proof induction
  case empty
  then show ?case by (simp add: pledge_def ids_def drafts_of_def)
next
  case (begins ds ps d number bytes preserve)
  then have n: "number = card (ids (dr_project_id d) ds)"
    using overlapping_legal ids_length by (simp add: count_drafts_Inr)
  have "card (ids k ds \<union> promised k ps) \<le> card (ids k ds) + card (promised k ps)" by (rule card_Un_le)
  with promised_few [of k ps] begins n show ?case by (auto simp: pledge_def)
next
  case (admits ds xs preserve d number bytes ys now d')
  note a = admit_draft_Inr [OF admits.hyps(2)]
  have "dr_id d \<in> ids (dr_project_id d) ds" if "\<not> number < MaxDraftsPerProject"
    using a(7) that stored_legal(2) overlapping_legal [OF admits.hyps(1)] by fastforce
  then have "pledge k ds (xs @ Admitted d' # ys) \<le> pledge k ds (xs @ Counted preserve d number bytes # ys)"
    by (auto simp: pledge_def a(1,2) card_insert_if insert_absorb)
  with admits.IH show ?case by simp
next
  case (inserts ds xs d ys)
  have "pledge k (upsert d ds) (xs @ ys) \<le> pledge k ds (xs @ Admitted d # ys)"
    unfolding pledge_def by (intro add_mono card_mono) (auto simp: ids_upsert)
  with inserts.IH show ?case by simp
next
  case (leaves ds xs p ys)
  have "pledge k ds (xs @ ys) \<le> pledge k ds (xs @ p # ys)"
    by (rule pledge_smaller) (auto simp: promised_def)
  with leaves.IH show ?case by simp
next
  case (deletes ds ps j i ds')
  have "ids k ds' \<subseteq> ids k ds" using DeleteDraft_Inr [OF deletes.hyps(2)] by (auto simp: ids_def drafts_of_def)
  with deletes.IH show ?case using pledge_smaller [of k ds' ds ps ps] by simp
qed

text \<open>
  The bytes promised: those of admitted saves, and of the saves that have counted and may still be admitted in
  place of an old draft.
\<close>

primrec weight :: "string \<Rightarrow> save \<Rightarrow> nat" where
  "weight k (Counted preserve d number bytes) =
     (if dr_project_id d = k \<and> int bytes + int (length (dr_body d)) \<le> MaxDraftStorageBytes + int MaxDraftBytes
      then length (dr_body d) else 0)"
| "weight k (Admitted d) = (if dr_project_id d = k then length (dr_body d) else 0)"

definition load :: "string \<Rightarrow> save list \<Rightarrow> nat" where
  "load k ps = sum_list (List.map (weight k) ps)"

lemma load_parts [simp]: "load k [] = 0" "load k (p # ps) = weight k p + load k ps" "load k (xs @ ys) = load k xs + load k ys"
  by (simp_all add: load_def)

lemma load_bound:
  assumes "\<forall>p\<in>set ps. draft_ok (draft_in p)"
  shows "load k ps \<le> length ps * MaxDraftBytes"
  using assms
proof (induction ps)
  case (Cons p ps)
  then have "weight k p \<le> MaxDraftBytes" by (cases p) (auto simp: draft_ok_def)
  with Cons show ?case by simp
qed simp

lemma overlapping_bytes:
  assumes "overlapping m ds ps"
  shows "int (used_bytes (drafts_of k ds)) + int (load k ps) \<le> MaxDraftStorageBytes + int m * int MaxDraftBytes"
  using assms
proof induction
  case empty
  then show ?case by (simp add: drafts_of_def used_bytes_def)
next
  case (begins ds ps d number bytes preserve)
  let ?p = "Counted preserve d number bytes"
  show ?case
  proof (cases "weight k ?p = 0")
    case False
    then have k: "dr_project_id d = k" and room: "int bytes + int (weight k ?p) \<le> MaxDraftStorageBytes + int MaxDraftBytes"
      by (auto split: if_splits)
    have "load k ps \<le> length ps * MaxDraftBytes"
      using overlapping_legal [OF begins.hyps(1)] by (intro load_bound) simp
    moreover have "length ps * MaxDraftBytes + MaxDraftBytes \<le> m * MaxDraftBytes"
      using begins.hyps(2) mult_le_mono1 [of "Suc (length ps)" m MaxDraftBytes] by simp
    ultimately have "load k ps + MaxDraftBytes \<le> m * MaxDraftBytes" by linarith
    then have "int (load k ps) + int MaxDraftBytes \<le> int m * int MaxDraftBytes"
      unfolding of_nat_mult [symmetric] of_nat_add [symmetric] of_nat_le_iff .
    moreover have "bytes = used_bytes (drafts_of k ds)" using begins.hyps(3) k by (simp add: count_drafts_Inr)
    ultimately show ?thesis using room by simp
  qed (use begins.IH in simp)
next
  case (admits ds xs preserve d number bytes ys now d')
  note a = admit_draft_Inr [OF admits.hyps(2)]
  have "int bytes + int (length (dr_body d)) \<le> MaxDraftStorageBytes + int MaxDraftBytes"
    using a(8) stored_legal(1) [of ds d] overlapping_legal [OF admits.hyps(1)] by (fastforce split: option.splits)
  then have "weight k (Counted preserve d number bytes) = weight k (Admitted d')" by (simp add: a(1,3))
  with admits.IH show ?case by (simp del: weight.simps)
next
  case (inserts ds xs d ys)
  from overlapping_legal [OF inserts.hyps] have ok: "table_ok ds" by simp
  have "used_bytes (drafts_of k (upsert d ds)) \<le> used_bytes (drafts_of k ds) + weight k (Admitted d)"
    using used_beside [OF ok, of d] by (auto simp: used_upsert [OF ok])
  with inserts.IH show ?case by simp
next
  case (deletes ds ps j i ds')
  have "used_bytes (drafts_of k ds') \<le> used_bytes (drafts_of k ds)"
    unfolding DeleteDraft_Inr [OF deletes.hyps(2)] drafts_filter by (rule used_bytes_filter)
  with deletes.IH show ?case by simp
qed simp

text \<open>One save at a time: deletions in between only make room.\<close>

lemma alone: "length (xs @ p # ys) \<le> m \<Longrightarrow> m \<le> 1 \<Longrightarrow> xs = [] \<and> ys = []" for m :: nat
  by (cases xs; cases ys) auto

lemma overlapping_one:
  assumes "overlapping m ds ps" "m \<le> 1"
  shows "(\<forall>k. int (used_bytes (drafts_of k ds)) \<le> MaxDraftStorageBytes) \<and>
    (\<forall>preserve d number bytes. ps = [Counted preserve d number bytes] \<longrightarrow>
       used_bytes (drafts_of (dr_project_id d) ds) \<le> bytes) \<and>
    (\<forall>d. ps = [Admitted d] \<longrightarrow> int (others ds d + length (dr_body d)) \<le> MaxDraftStorageBytes)"
  using assms
proof induction
  case empty
  then show ?case by (simp add: drafts_of_def used_bytes_def)
next
  case (begins ds ps d number bytes preserve)
  then show ?case by (auto simp: count_drafts_Inr)
next
  case (admits ds xs preserve d number bytes ys now d')
  from overlapping_legal [OF admits.hyps(1)] have ok: "table_ok ds" and len: "length (xs @ Counted preserve d number bytes # ys) \<le> m" by blast+
  from alone [OF len admits.prems] have "xs = []" "ys = []" by blast+
  note a = admit_draft_Inr [OF admits.hyps(2)]
  have "used_bytes (drafts_of (dr_project_id d) ds) \<le> bytes"
    using admits.IH admits.prems \<open>xs = []\<close> \<open>ys = []\<close> by simp
  then have "int (others ds d' + length (dr_body d')) \<le> MaxDraftStorageBytes"
    using a(8) used_beside [OF ok, of d] by (simp add: a(3,6) split: option.splits)
  with admits.IH admits.prems \<open>xs = []\<close> \<open>ys = []\<close> show ?case by simp
next
  case (inserts ds xs d ys)
  from overlapping_legal [OF inserts.hyps] have ok: "table_ok ds" and len: "length (xs @ Admitted d # ys) \<le> m" by blast+
  from alone [OF len inserts.prems] have "xs = []" "ys = []" by blast+
  with inserts.IH inserts.prems show ?case by (auto simp: used_upsert [OF ok])
next
  case (leaves ds xs p ys)
  from overlapping_legal [OF leaves.hyps] have ok: "table_ok ds" and len: "length (xs @ p # ys) \<le> m" by blast+
  from alone [OF len leaves.prems] have "xs = []" "ys = []" by blast+
  with leaves.IH leaves.prems show ?case by simp
next
  case (deletes ds ps j i ds')
  have less: "used_bytes (drafts_of k ds') \<le> used_bytes (drafts_of k ds)" for k
    unfolding DeleteDraft_Inr [OF deletes.hyps(2)] drafts_filter by (rule used_bytes_filter)
  have "others ds' d \<le> others ds d" for d
  proof -
    have "List.filter P (List.filter Q xs) = List.filter Q (List.filter P xs)" for P Q and xs :: "draft list"
      by (simp add: conj_commute)
    then show ?thesis unfolding others_def DeleteDraft_Inr [OF deletes.hyps(2)] drafts_filter
      by (metis used_bytes_filter)
  qed
  then have own: "int (others ds' d + length (dr_body d)) \<le> int (others ds d + length (dr_body d))" for d by simp
  note IH = deletes.IH [OF deletes.prems]
  show ?case
  proof (intro conjI allI impI)
    show "int (used_bytes (drafts_of k ds')) \<le> MaxDraftStorageBytes" for k
    proof -
      from IH have "int (used_bytes (drafts_of k ds)) \<le> MaxDraftStorageBytes" by blast
      with less [of k] show ?thesis by linarith
    qed
    show "used_bytes (drafts_of (dr_project_id d) ds') \<le> bytes" if "ps = [Counted preserve d number bytes]"
      for preserve d number bytes
    proof -
      from IH that have "used_bytes (drafts_of (dr_project_id d) ds) \<le> bytes" by simp
      with less [of "dr_project_id d"] show ?thesis by (rule le_trans)
    qed
    show "int (others ds' d + length (dr_body d)) \<le> MaxDraftStorageBytes" if "ps = [Admitted d]" for d
    proof -
      from IH that have "int (others ds d + length (dr_body d)) \<le> MaxDraftStorageBytes" by simp
      with own [of d] show ?thesis by (rule order_trans)
    qed
  qed
qed

text \<open>
  C40. The quotas of a project's drafts, with several saves under way. Whatever saves, imports and deletions a
  draft store has seen and however their statements interleave, every draft is a legal one of at most
  5 MiB and no draft id occurs twice in a project; if never more than \<open>m\<close> saves were under way at the
  same time, a project has at most 1000 + (m - 1) drafts, of at most 50 + 5 m MiB. One save at a time keeps
  the limits exactly: 1000 drafts and 50 MiB. (Two at a time do exceed them: the witness.)
\<close>

theorem drafts_within_quota:
  assumes "overlapping m ds ps"
  shows "distinct (List.map (\<lambda>d. (dr_project_id d, dr_id d)) ds) \<and>
    list_all (\<lambda>d. dr_body d \<noteq> [] \<and> length (dr_body d) \<le> MaxDraftBytes \<and>
      dr_kind d \<in> {''document'', ''message'', ''artifact''}) ds \<and>
    length (drafts_of k ds) \<le> MaxDraftsPerProject + (m - 1) \<and>
    int (used_bytes (drafts_of k ds)) \<le> MaxDraftStorageBytes + int m * int MaxDraftBytes \<and>
    (m \<le> 1 \<longrightarrow> length (drafts_of k ds) \<le> MaxDraftsPerProject \<and>
      int (used_bytes (drafts_of k ds)) \<le> MaxDraftStorageBytes)"
proof -
  from overlapping_legal [OF assms] have ok: "table_ok ds" by blast
  have "card (ids k ds) \<le> card (ids k ds \<union> promised k ps)" by (intro card_mono) auto
  with overlapping_pledge [OF assms, of k] have "length (drafts_of k ds) \<le> MaxDraftsPerProject + (m - 1)"
    unfolding ids_length [OF ok] pledge_def by linarith
  moreover have "int (used_bytes (drafts_of k ds)) \<le> MaxDraftStorageBytes + int m * int MaxDraftBytes"
    using overlapping_bytes [OF assms, of k] by linarith
  moreover have "m \<le> 1 \<longrightarrow> int (used_bytes (drafts_of k ds)) \<le> MaxDraftStorageBytes"
    using overlapping_one [OF assms] by blast
  ultimately show ?thesis using ok by (auto simp: table_ok_def draft_ok_def list_all_iff)
qed

text \<open>The requests of a store that serves one after the other.\<close>

lemma drafts_in_turn: "overlapping 1 (serve draft_step [] requests) []"
  using draft_store.serve_keeps [OF overlapping.empty, of 0 requests] by simp

subsection \<open>Two saves exceed the quota\<close>

definition note_draft :: "nat \<Rightarrow> draft" where
  "note_draft n = \<lparr>dr_project_id = ''p'', dr_id = replicate (Suc n) CHR ''x'', dr_kind = ''message'', dr_body = ''b'',
     dr_created_at = 1, dr_updated_at = 1\<rparr>"

lemma note_sel [simp]:
  "dr_project_id (note_draft n) = ''p''" "dr_id (note_draft n) = replicate (Suc n) CHR ''x''"
  "dr_body (note_draft n) = ''b''" "draft_ok (note_draft n)"
  by (simp_all add: note_draft_def draft_ok_def blank_def trim_space_def is_space_def)

lemma note_table:
  "drafts_of ''p'' (List.map note_draft [0..<n]) = List.map note_draft [0..<n]"
  "used_bytes (List.map note_draft [0..<n]) = n"
  "n \<le> l \<Longrightarrow> List.find (has_key ''p'' (replicate (Suc l) CHR ''x'')) (List.map note_draft [0..<n]) = None"
  "n \<le> l \<Longrightarrow> upsert (note_draft l) (List.map note_draft [0..<n]) = List.map note_draft [0..<n] @ [note_draft l]"
proof -
  show "drafts_of ''p'' (List.map note_draft [0..<n]) = List.map note_draft [0..<n]"
    by (auto simp: drafts_of_def filter_id_conv)
  show "used_bytes (List.map note_draft [0..<n]) = n" by (induction n) (auto simp: used_bytes_def)
  have "replicate (Suc l) CHR ''x'' \<noteq> replicate (Suc j) CHR ''x''" if "j < l" for j l
    using that by (metis length_replicate nat_neq_iff Suc_inject)
  then show f: "List.find (has_key ''p'' (replicate (Suc l) CHR ''x'')) (List.map note_draft [0..<n]) = None" if "n \<le> l"
    using that by (fastforce simp: find_None_iff has_key_def)
  show "upsert (note_draft l) (List.map note_draft [0..<n]) = List.map note_draft [0..<n] @ [note_draft l]" if "n \<le> l"
    using f [OF that] by (auto simp: upsert_def find_None_iff list_ex_iff)
qed

lemma note_counted: "count_drafts (List.map note_draft [0..<n]) (note_draft l) = Inr (n, n)"
  by (simp add: count_drafts_Inr note_table)

lemma note_admitted:
  assumes "n \<le> l" "n < MaxDraftsPerProject"
  shows "admit_draft True 0 (List.map note_draft [0..<n]) (note_draft l) n n = Inr (note_draft l)"
  using assms note_table(3) [OF assms(1)]
  by (simp add: admit_draft_def stored_bytes_def Let_def note_draft_def)

lemma notes_reached: "n \<le> MaxDraftsPerProject \<Longrightarrow> overlapping (Suc m) (List.map note_draft [0..<n]) []"
proof (induction n)
  case (Suc n)
  have "saveDraft True 0 (List.map note_draft [0..<n]) (note_draft n) = Inr (List.map note_draft [0..<Suc n])"
    using note_admitted [of n n] Suc.prems by (simp add: saveDraft_def note_counted note_table(4))
  from uninterrupted [OF Suc.IH _ this] Suc.prems show ?case by simp
qed (simp add: overlapping.empty)

lemma two_overlap:
  assumes "n < MaxDraftsPerProject"
  shows "overlapping 2 (List.map note_draft [0..<n] @ [note_draft n, note_draft (Suc n)]) []"
proof -
  let ?ds = "List.map note_draft [0..<n]" and ?a = "note_draft n" and ?b = "note_draft (Suc n)"
  have "overlapping 2 ?ds []" using notes_reached [of n 1] assms by (simp add: numeral_2_eq_2)
  from overlapping.begins [OF this _ note_counted] have "overlapping 2 ?ds [Counted True ?a n n]" by simp
  from overlapping.begins [OF this _ note_counted]
  have "overlapping 2 ?ds ([] @ Counted True ?a n n # [Counted True ?b n n])" by simp
  from overlapping.admits [OF this note_admitted] assms
  have "overlapping 2 ?ds ([Admitted ?a] @ Counted True ?b n n # [])" by simp
  from overlapping.admits [OF this note_admitted] assms
  have "overlapping 2 ?ds ([] @ Admitted ?a # [Admitted ?b])" by simp
  from overlapping.inserts [OF this]
  have "overlapping 2 (List.map note_draft [0..<Suc n]) ([] @ Admitted ?b # [])" by (simp add: note_table(4))
  from overlapping.inserts [OF this] note_table(4) [of "Suc n" "Suc n"] show ?thesis by simp
qed

lemma two_saves_exceed_quota:
  "\<exists>ds. overlapping 2 ds [] \<and> length (drafts_of ''p'' ds) = MaxDraftsPerProject + 1"
proof -
  obtain n where n: "n + 2 = MaxDraftsPerProject + 1" "n < MaxDraftsPerProject" by (rule that [of 999]) simp_all
  have "length (drafts_of ''p'' (List.map note_draft [0..<n] @ [note_draft n, note_draft (Suc n)])) = n + 2"
    unfolding drafts_of_append note_table(1) by (simp add: drafts_of_def)
  with two_overlap [OF n(2)] n(1) show ?thesis by metis
qed

theorem drafts_within_quota_witness:
  "\<exists>ds. overlapping 2 ds [] \<and> length (drafts_of ''p'' ds) = MaxDraftsPerProject + (2 - 1) \<and>
    int (used_bytes (drafts_of ''p'' ds)) \<le> MaxDraftStorageBytes + 2 * int MaxDraftBytes"
proof -
  obtain ds where ds: "overlapping 2 ds []" "length (drafts_of ''p'' ds) = MaxDraftsPerProject + 1"
    using two_saves_exceed_quota by blast
  with drafts_within_quota [OF ds(1), of "''p''"] show ?thesis by (intro exI [of _ ds]) simp
qed

subsection \<open>The two stores behave alike\<close>

text \<open>
  The personal store and the cache are interchangeable for drafts: on the same table, saving,
  listing and deleting give the same table, the same listing or the same error, so a command does
  not behave differently when a daemon is running.
\<close>

theorem draft_stores_agree:
  "cache_count_drafts ds d = count_drafts ds d \<and>
   cache_admit_draft now ds d number bytes = admit_draft False now ds d number bytes \<and>
   cache_SaveDraft now ds d = SaveDraft now ds d \<and>
   cache_Drafts ds k limit = list_drafts ds k limit \<and>
   cache_DeleteDraft ds k i = DeleteDraft ds k i"
proof (intro conjI)
  have first: "cache_count_drafts ds d = count_drafts ds d"
    by (auto simp: cache_count_drafts_def count_drafts_def fail_if_def Let_def)
  have second: "cache_admit_draft now ds d number bytes = admit_draft False now ds d number bytes" for number bytes
    by (auto simp: cache_admit_draft_def admit_draft_def stored_bytes_def fail_if_def Let_def split: option.splits)
  show "cache_count_drafts ds d = count_drafts ds d"
    and "cache_admit_draft now ds d number bytes = admit_draft False now ds d number bytes" by (rule first, rule second)
  show "cache_SaveDraft now ds d = SaveDraft now ds d"
    by (auto simp: cache_SaveDraft_def SaveDraft_def saveDraft_def first second and_then_def split: sum.splits)
  show "cache_Drafts ds k limit = list_drafts ds k limit"
    by (auto simp: cache_Drafts_def list_drafts_def fail_if_def Let_def)
  have "length (List.filter (\<lambda>d. \<not> P d) ds) = length ds \<longleftrightarrow> \<not> list_ex P ds" for P
    by (metis (mono_tags, lifting) filter_True length_filter_less list_ex_iff nat_less_le)
  then show "cache_DeleteDraft ds k i = DeleteDraft ds k i"
    by (simp add: cache_DeleteDraft_def DeleteDraft_def fail_if_def Let_def)
qed

subsection \<open>The listing is ordered by text, not by time\<close>

text \<open>
  The text drops trailing zeros of the fraction, so \<open>.12\<close> reads \<open>.12Z\<close> and comes after \<open>.123Z\<close>: of
  two drafts updated in the same second the older one can be listed first.
\<close>

lemma digits_eval:
  "dec_digits 0 = ''0''" "dec_digits (Suc 0) = ''1''" "dec_digits 120000000 = ''120000000''"
  "dec_digits 123000000 = ''123000000''"
  by (simp_all add: dec_digits.simps char_of_def bit_0)

lemma first_day: "civil 0 = (1, 1, 1)"
  by (simp add: civil_def month_lengths_def Let_def)

lemma text_order_is_not_time_order:
  "(120000000 :: time) < 123000000 \<and> rfc3339_nano 123000000 < rfc3339_nano 120000000"
  by (simp add: rfc3339_nano_def first_day padded_def trim_zeros_def digits_eval numeral_3_eq_3 less_char_def
      Let_def)

end
