(* ===== verification/Engine_Facts.thy ===== *)
theory Engine_Facts
  imports Engine
begin

text \<open>
  What the authority guarantees. Requests are served one at a time (\<open>serve\<close>); the invariants of the
  database are kept by every request, so they hold in every database reachable from the empty one.
  The laws of the JSON codec are hypotheses (\<open>codec_ok\<close>): a struct of the asked kind comes out, and
  what was marshalled is read back.
\<close>

definition decodes_kinds :: "crypto \<Rightarrow> bool" where
  "decodes_kinds cr \<longleftrightarrow> (\<forall>k s p. decode_payload cr k s = Some p \<longrightarrow> kind_of p = k)"

definition reads_back :: "crypto \<Rightarrow> bool" where
  "reads_back cr \<longleftrightarrow>
     (\<forall>p s. encode_payload cr p = Some s \<longrightarrow>
        decode_payload cr (kind_of p) (if s = [] then ''{}'' else s) = Some p)"

definition codec_ok :: "crypto \<Rightarrow> bool" where
  "codec_ok cr \<longleftrightarrow> decodes_kinds cr \<and> reads_back cr"

datatype request = Create time string string | Submit time command

definition step :: "crypto \<Rightarrow> string \<Rightarrow> db \<Rightarrow> request \<Rightarrow> fault + db" where
  "step cr priv d r =
     (case r of
        Create now projectID ownerID \<Rightarrow> CreateProject now d projectID ownerID
      | Submit now c \<Rightarrow> and_then (Mutate cr priv now d c) (\<lambda>(d', _, _). Inr d'))"

subsection \<open>What an accepted command tells\<close>

lemma as_Inr [guards, simp]:
  "as_control code r = Inr a \<longleftrightarrow> r = Inr a" "as_plain r = Inr a \<longleftrightarrow> r = Inr a"
  "as_classified r = Inr a \<longleftrightarrow> r = Inr a"
  by (simp_all add: as_control_def as_plain_def as_classified_def split: sum.split)

lemma replay_Inr:
  "replay d k key intent = Inr None \<longleftrightarrow> (\<forall>r\<in>set (db_events d). er_project r = k \<longrightarrow> er_key r \<noteq> key)"
  "replay d k key intent = Inr (Some (e, rc)) \<longleftrightarrow>
     (\<exists>r. List.find (\<lambda>r. er_project r = k \<and> er_key r = key) (db_events d) = Some r \<and>
        er_intent r = intent \<and> er_event r = e \<and> er_receipt r = rc)"
proof -
  have "replay d k key intent = Inr None \<longleftrightarrow>
      List.find (\<lambda>r. er_project r = k \<and> er_key r = key) (db_events d) = None"
    by (auto simp: replay_def split: option.split)
  then show "replay d k key intent = Inr None \<longleftrightarrow>
      (\<forall>r\<in>set (db_events d). er_project r = k \<longrightarrow> er_key r \<noteq> key)"
    by (auto simp: find_None_iff)
qed (auto simp: replay_def split: option.split)

lemma new_event_sel [simp]:
  "ce_project_id (new_event row c i fp p now) = cm_project_id c"
  "ce_sequence (new_event row c i fp p now) = pj_sequence row + 1"
  "ce_id (new_event row c i fp p now) = event_id (pj_sequence row + 1)"
  "ce_previous_hash (new_event row c i fp p now) = pj_head row"
  "ce_type (new_event row c i fp p now) = cm_type c"
  "ce_payload (new_event row c i fp p now) = p"
  "ce_actor (new_event row c i fp p now) = cm_actor c"
  "ce_entity_id (new_event row c i fp p now) = cm_entity_id c"
  "ce_time (new_event row c i fp p now) = now"
  "ce_idempotency_key (new_event row c i fp p now) = cm_idempotency_key c"
  "ce_actor_intent_hash (new_event row c i fp p now) = i"
  "ce_actor_key_fingerprint (new_event row c i fp p now) = fp"
  by (simp_all add: new_event_def)

lemma Mutate_Inr:
  assumes "Mutate cr priv clock d c = Inr (d', e, r)"
  obtains (replayed) row intent where "m_get (db_projects d) (cm_project_id c) = Some row"
      "IntentHash cr c = Inr intent"
      "replay d (cm_project_id c) (cm_idempotency_key c) intent = Inr (Some (e, r))" "d' = d"
  | (fresh) row intent t q fp where "m_get (db_projects d) (cm_project_id c) = Some row"
      "IntentHash cr c = Inr intent"
      "replay d (cm_project_id c) (cm_idempotency_key c) intent = Inr None"
      "admit cr row c (microseconds clock) = Inr (t, q, fp)"
      "commit cr priv d row c intent q fp (microseconds clock) = Inr (d', e, r)"
proof -
  from assms obtain row where row: "m_get (db_projects d) (cm_project_id c) = Some row"
    by (cases "m_get (db_projects d) (cm_project_id c)") (simp_all add: Mutate_def)
  from assms row obtain intent found where found: "IntentHash cr c = Inr intent"
    "replay d (cm_project_id c) (cm_idempotency_key c) intent = Inr found"
    by (simp add: Mutate_def) blast
  show thesis
  proof (cases found)
    case (Some er)
    with assms row found have "er = (e, r)" "d' = d" by (cases er; simp add: Mutate_def)+
    with replayed row found Some show thesis by blast
  next
    case None
    with assms row found have "and_then (admit cr row c (microseconds clock)) (\<lambda>(t, payload, fingerprint).
        commit cr priv d row c intent payload fingerprint (microseconds clock)) = Inr (d', e, r)"
      by (simp add: Mutate_def Let_def)
    then obtain t q fp where "admit cr row c (microseconds clock) = Inr (t, q, fp)"
      "commit cr priv d row c intent q fp (microseconds clock) = Inr (d', e, r)"
      by auto
    with fresh row found None show thesis by blast
  qed
qed

lemma HashEvent_ignores_hash: "HashEvent cr (e\<lparr>ce_hash := h\<rparr>) = HashEvent cr e"
  by (simp add: HashEvent_def event_form_def split: option.split)

lemma insert_Inr:
  "insert_event r d = Inr d' \<longleftrightarrow>
     \<not> list_ex (clashes r) (db_events d) \<and> d' = d\<lparr>db_events := db_events d @ [r]\<rparr>"
  by (auto simp: insert_event_def)

lemma commit_Inr:
  assumes "commit cr priv d row c intent q fp now = Inr (d', e, r)"
  obtains payload st' where "EncodePayload cr (cm_type c) q = Inr payload"
    "HashEvent cr e = Inr (ce_hash e)" "e = (new_event row c intent fp payload now)\<lparr>ce_hash := ce_hash e\<rparr>"
    "r = SignReceipt cr priv (new_receipt e)" "ApplyEvent cr (pj_state row) (log_of e) = Inr st'"
    "\<not> list_ex (clashes (new_row e r (cm_signature c))) (db_events d)"
    "d' = d\<lparr>db_events := db_events d @ [new_row e r (cm_signature c)],
           db_projects := m_put (cm_project_id c) (row\<lparr>pj_sequence := pj_sequence row + 1,
             pj_head := ce_hash e, pj_state := st', pj_updated := now\<rparr>) (db_projects d)\<rparr>"
  using assms
  by (auto simp: commit_def Let_def insert_Inr HashEvent_ignores_hash)

lemma decode_command_Inr:
  "decode_command cr c = Inr (t, p) \<Longrightarrow>
   cm_type c = type_name t \<and> DecodePayload cr (type_name t) (cm_payload c) = Inr p"
  by (auto simp: decode_command_def DecodePayloadValue_def parse_type_Some split: option.splits)

lemma DecodePayload_kind:
  "decodes_kinds cr \<Longrightarrow> DecodePayload cr (type_name t) s = Inr p \<Longrightarrow> payload_ok t p"
  using parse_type_Some [of "type_name t" t]
  by (auto simp: DecodePayload_def payload_ok_def decodes_kinds_def split: option.splits)

lemma admit_Inr:
  assumes "admit cr row c now = Inr (t, q, fp)"
  obtains payload key where "command_validate cr c now = None" "cm_type c = type_name t"
    "DecodePayload cr (type_name t) (cm_payload c) = Inr payload"
    "commandPublicKey (pj_state row) c t payload = Inr key" "command_verify cr c key"
    "cm_expected_sequence c = 0 \<or> cm_expected_sequence c = pj_sequence row"
    "check_transition cr row c t payload now = Inr q" "fp = Fingerprint cr key"
  using assms
  by (auto simp: admit_def dest!: decode_command_Inr split: option.splits)

lemma EncodePayload_reads_back:
  assumes "codec_ok cr" "EncodePayload cr (type_name t) q = Inr s" "payload_ok t q"
  shows "DecodePayload cr (type_name t) s = Inr q"
proof -
  from assms(2) have "encode_payload cr q = Some s"
    by (auto simp: EncodePayload_def split: option.splits)
  with assms(1,3) have "decode_payload cr (factory t) (if s = [] then ''{}'' else s) = Some q"
    unfolding codec_ok_def reads_back_def payload_ok_def by metis
  then show ?thesis
    by (simp add: DecodePayload_def parse_type_Some [THEN iffD2])
qed

lemma check_transition_kind:
  assumes "check_transition cr row c t payload now = Inr q" "payload_ok t payload"
  shows "payload_ok t q"
  using assms validate_keeps_kind
  by (auto simp: check_transition_def payload_ok_def split: if_splits)

lemma applied:
  assumes "codec_ok cr" "EncodePayload cr (type_name t) q = Inr s" "payload_ok t q"
    and "le_type e = type_name t" "le_data e = s"
  shows "ApplyEvent cr st e = project cr t q e st"
  using EncodePayload_reads_back [OF assms(1-3)] assms(4,5)
  by (simp add: ApplyEvent_project parse_type_Some [THEN iffD2])

subsection \<open>The log\<close>

definition project_log :: "db \<Rightarrow> string \<Rightarrow> event list" where
  "project_log d k = List.map er_event (List.filter (\<lambda>r. er_project r = k) (db_events d))"

text \<open>A log with its length, its head hash and the state it projects to.\<close>

inductive log_ok :: "crypto \<Rightarrow> string \<Rightarrow> event list \<Rightarrow> nat \<Rightarrow> string \<Rightarrow> state \<Rightarrow> bool"
  for cr k where
  empty: "log_ok cr k [] 0 [] EmptyState"
| snoc: "log_ok cr k es n h st \<Longrightarrow> ce_project_id e = k \<Longrightarrow> ce_sequence e = n + 1 \<Longrightarrow>
    ce_previous_hash e = h \<Longrightarrow> HashEvent cr e = Inr (ce_hash e) \<Longrightarrow>
    ApplyEvent cr st (log_of e) = Inr st' \<Longrightarrow>
    log_ok cr k (es @ [e]) (n + 1) (ce_hash e) st'"

definition good :: "crypto \<Rightarrow> db \<Rightarrow> bool" where
  "good cr d \<longleftrightarrow>
     (\<forall>k row. m_get (db_projects d) k = Some row \<longrightarrow>
        log_ok cr k (project_log d k) (pj_sequence row) (pj_head row) (pj_state row)) \<and>
     (\<forall>r\<in>set (db_events d). m_has (db_projects d) (er_project r) \<and>
        r = new_row (er_event r) (er_receipt r) (er_signature r) \<and>
        ce_id (er_event r) = event_id (ce_sequence (er_event r)))"

lemma good_empty: "good cr empty_db"
  by (simp add: good_def empty_db_def)

lemma good_create:
  assumes "good cr d" "CreateProject now d k owner = Inr d'"
  shows "good cr d'"
proof (cases "m_has (db_projects d) k")
  case True
  with assms show ?thesis by (auto simp: CreateProject_def split: if_splits)
next
  case False
  with assms(2) obtain row where d': "d' = d\<lparr>db_projects := m_put k row (db_projects d)\<rparr>"
    and row: "pj_sequence row = 0" "pj_head row = []" "pj_state row = EmptyState"
    by (auto simp: CreateProject_def split: if_splits)
  have "project_log d k = []"
    using assms(1) False by (auto simp: good_def project_log_def filter_empty_conv)
  with assms(1) row log_ok.empty show ?thesis
    unfolding d' good_def by (auto simp: m_gets project_log_def m_has_def)
qed

lemma good_mutate:
  assumes "good cr d" "Mutate cr priv clock d c = Inr (d', e, r)"
  shows "good cr d'"
  using assms(2)
proof (cases rule: Mutate_Inr)
  case replayed
  with assms(1) show ?thesis by simp
next
  case (fresh row intent t q fp)
  let ?k = "cm_project_id c"
  from fresh(5) obtain payload st' where
    hash: "HashEvent cr e = Inr (ce_hash e)"
    and e: "e = (new_event row c intent fp payload (microseconds clock))\<lparr>ce_hash := ce_hash e\<rparr>"
    and st': "ApplyEvent cr (pj_state row) (log_of e) = Inr st'"
    and d': "d' = d\<lparr>db_events := db_events d @ [new_row e r (cm_signature c)],
           db_projects := m_put ?k (row\<lparr>pj_sequence := pj_sequence row + 1,
             pj_head := ce_hash e, pj_state := st', pj_updated := microseconds clock\<rparr>) (db_projects d)\<rparr>"
    by (rule commit_Inr)
  have sel: "ce_project_id e = ?k" "ce_sequence e = pj_sequence row + 1"
    "ce_id e = event_id (pj_sequence row + 1)" "ce_previous_hash e = pj_head row"
    by (subst e, simp)+
  have old: "log_ok cr ?k (project_log d ?k) (pj_sequence row) (pj_head row) (pj_state row)"
    using assms(1) fresh(1) by (simp add: good_def)
  from log_ok.snoc [OF old sel(1,2,4) hash st']
  have new: "log_ok cr ?k (project_log d' ?k) (pj_sequence row + 1) (ce_hash e) st'"
    by (simp add: d' project_log_def new_row_def sel)
  have other: "project_log d' k = project_log d k" if "k \<noteq> ?k" for k
    using that sel by (simp add: d' project_log_def new_row_def)
  have "new_row e r (cm_signature c) = new_row (er_event (new_row e r (cm_signature c)))
      (er_receipt (new_row e r (cm_signature c))) (er_signature (new_row e r (cm_signature c)))"
    "ce_id (er_event (new_row e r (cm_signature c))) =
      event_id (ce_sequence (er_event (new_row e r (cm_signature c))))"
    by (simp_all add: new_row_def sel)
  moreover have "er_project (new_row e r (cm_signature c)) = ?k"
    by (simp add: new_row_def sel)
  ultimately have rows: "\<forall>x\<in>set (db_events d'). m_has (db_projects d') (er_project x) \<and>
      x = new_row (er_event x) (er_receipt x) (er_signature x) \<and>
      ce_id (er_event x) = event_id (ce_sequence (er_event x))"
    using assms(1) unfolding d' good_def by (auto simp: m_has_def m_gets)
  have projects: "log_ok cr k (project_log d' k) (pj_sequence row') (pj_head row') (pj_state row')"
    if "m_get (db_projects d') k = Some row'" for k row'
  proof (cases "k = ?k")
    case True
    with that new show ?thesis by (auto simp: d' m_gets)
  next
    case False
    with that assms(1) other [OF False] show ?thesis by (auto simp: d' m_gets good_def)
  qed
  show ?thesis using rows projects by (simp add: good_def)
qed

lemma good_step: "good cr d \<Longrightarrow> step cr priv d r = Inr d' \<Longrightarrow> good cr d'"
  by (auto simp: step_def dest: good_create good_mutate split: request.splits)

interpretation authority: inv_kept "step cr priv" "good cr" for cr priv
  by unfold_locales (rule good_step)

definition reachable :: "crypto \<Rightarrow> string \<Rightarrow> db \<Rightarrow> bool" where
  "reachable cr priv d \<longleftrightarrow> (\<exists>rs. d = serve (step cr priv) empty_db rs)"

lemma reachable_good: "reachable cr priv d \<Longrightarrow> good cr d"
  using authority.serve_keeps good_empty unfolding reachable_def by metis

end
