(* ===== verification/Replay.thy ===== *)
theory Replay
  imports Engine_Facts
begin

text \<open>
  \<open>internal/projectlifecycle/timestamps_migration.go\<close>: \<open>project upgrade\<close> rebuilds the stored state of
  every project from its signed events, after it has checked that they are an unbroken chain up to
  the recorded head. The history is the list \<open>SELECT sequence,event_json \<dots> ORDER BY sequence\<close>
  returns. An unverifiable history is a case of its own, because the cache reacts to it.
\<close>

datatype replay_fault = Unverifiable string | Broken err

subsection \<open>Replaying one history\<close>

fun replay_loop ::
  "crypto \<Rightarrow> string \<Rightarrow> (nat \<times> event) list \<Rightarrow> nat \<Rightarrow> string \<Rightarrow> state \<Rightarrow>
   replay_fault + (nat \<times> string \<times> state)" where
  "replay_loop cr k [] expected previous st = Inr (expected, previous, st)"
| "replay_loop cr k ((sequence, e) # rows) expected previous st =
     fail_if (sequence \<noteq> expected \<or> ce_sequence e \<noteq> expected \<or> ce_project_id e \<noteq> k)
       (Unverifiable (''expected event '' @ dec_digits expected @ '', found '' @ dec_digits sequence))
     (fail_if (ce_previous_hash e \<noteq> previous)
       (Unverifiable (''event '' @ dec_digits sequence @ '' does not continue the hash chain''))
     (fail_if (HashEvent cr e \<noteq> Inr (ce_hash e))
       (Unverifiable (''event '' @ dec_digits sequence @ '' hash does not match its contents''))
     (case ApplyEvent cr st (log_of e) of
        Inl x \<Rightarrow> Inl (Broken x)
      | Inr st' \<Rightarrow> replay_loop cr k rows (expected + 1) (ce_hash e) st')))"

definition replayVerifiedEvents ::
  "crypto \<Rightarrow> string \<Rightarrow> (nat \<times> event) list \<Rightarrow> nat \<Rightarrow> string \<Rightarrow> replay_fault + state" where
  "replayVerifiedEvents cr k rows head_sequence head_id =
     and_then (replay_loop cr k rows 1 [] EmptyState) (\<lambda>(expected, previous, st).
     fail_if (expected - 1 \<noteq> head_sequence \<or> previous \<noteq> head_id)
       (Unverifiable (''history ends at event '' @ dec_digits (expected - 1) @
          '' but the project head is '' @ dec_digits head_sequence))
     (Inr st))"

subsection \<open>The authority's database\<close>

definition history :: "db \<Rightarrow> string \<Rightarrow> (nat \<times> event) list" where
  "history d k =
     List.map (\<lambda>r. (er_sequence r, er_event r))
       (sort_key er_sequence (List.filter (\<lambda>r. er_project r = k) (db_events d)))"

definition rebuildOneSnapshot :: "crypto \<Rightarrow> db \<Rightarrow> string \<Rightarrow> replay_fault + db" where
  "rebuildOneSnapshot cr d k =
     (case m_get (db_projects d) k of
        None \<Rightarrow> Inl (Broken (Err ''sql: no rows in result set''))
      | Some row \<Rightarrow>
          and_then (replayVerifiedEvents cr k (history d k) (pj_sequence row) (pj_head row)) (\<lambda>st.
          Inr (d\<lparr>db_projects := m_put k (row\<lparr>pj_state := st\<rparr>) (db_projects d)\<rparr>)))"

text \<open>Each project has its own transaction, so those before a failing one stay rebuilt.\<close>

fun rebuild_each :: "crypto \<Rightarrow> string list \<Rightarrow> db \<Rightarrow> db \<times> replay_fault option" where
  "rebuild_each cr [] d = (d, None)"
| "rebuild_each cr (k # ks) d =
     (case rebuildOneSnapshot cr d k of
        Inl x \<Rightarrow> (d, Some x)
      | Inr d' \<Rightarrow> rebuild_each cr ks d')"

definition rebuildSnapshotsFromEvents :: "crypto \<Rightarrow> db \<Rightarrow> db \<times> replay_fault option" where
  "rebuildSnapshotsFromEvents cr d =
     rebuild_each cr (sort (List.map fst (m_entries (db_projects d)))) d"

subsection \<open>What a log that is in order looks like\<close>

lemma log_ok_length: "log_ok cr k es n h st \<Longrightarrow> length es = n"
  by (induction rule: log_ok.induct) simp_all

lemma log_ok_nth:
  assumes "log_ok cr k es n h st" "i < n"
  shows "ce_project_id (es ! i) = k \<and> ce_sequence (es ! i) = i + 1 \<and>
    ce_previous_hash (es ! i) = (if i = 0 then [] else ce_hash (es ! (i - 1))) \<and>
    HashEvent cr (es ! i) = Inr (ce_hash (es ! i))"
  using assms
proof (induction arbitrary: i rule: log_ok.induct)
  case (snoc es n h st e st')
  have len: "length es = n" using snoc.hyps(1) by (rule log_ok_length)
  show ?case
  proof (cases "i < n")
    case True
    then show ?thesis using snoc.IH [of i] len by (auto simp: nth_append)
  next
    case False
    with snoc.prems have i: "i = n" by simp
    have "h = (if n = 0 then [] else ce_hash (es ! (n - 1)))"
      using snoc.hyps(1) len by (cases rule: log_ok.cases) (auto simp: nth_append dest: log_ok_length)
    then show ?thesis using snoc.hyps len i by (auto simp: nth_append)
  qed
qed simp

lemma log_ok_head: "log_ok cr k es n h st \<Longrightarrow> h = (if es = [] then [] else ce_hash (last es))"
  by (erule log_ok.cases) simp_all

text \<open>A log read back from the front: one event, then the rest from the state it leads to.\<close>

lemma replay_loop_snoc:
  "replay_loop cr k (rows @ [(s, e)]) n h st =
     and_then (replay_loop cr k rows n h st) (\<lambda>(n', h', st'). replay_loop cr k [(s, e)] n' h' st')"
  by (induction cr k rows n h st rule: replay_loop.induct) (auto simp: fail_if_def split: sum.split)

definition numbered :: "event list \<Rightarrow> (nat \<times> event) list" where
  "numbered es = List.map (\<lambda>e. (ce_sequence e, e)) es"

lemma replay_log_ok:
  "log_ok cr k es n h st \<Longrightarrow> replay_loop cr k (numbered es) 1 [] EmptyState = Inr (n + 1, h, st)"
proof (induction rule: log_ok.induct)
  case (snoc es n h st e st')
  then show ?case unfolding numbered_def by (simp add: replay_loop_snoc del: replay_loop.simps(2)) simp
qed (simp add: numbered_def)

lemma rows_of_project:
  assumes "good cr d" "r \<in> set (db_events d)"
  shows "er_sequence r = ce_sequence (er_event r)" "er_project r = ce_project_id (er_event r)"
    "er_event_id r = ce_id (er_event r)"
  using assms unfolding good_def new_row_def by (metis event_row.select_convs)+

lemma sorted_log:
  assumes "good cr d"
  shows "sorted (List.map er_sequence (List.filter (\<lambda>r. er_project r = k) (db_events d)))"
proof (cases "m_get (db_projects d) k")
  case None
  with assms have "List.filter (\<lambda>r. er_project r = k) (db_events d) = []"
    unfolding good_def m_has_def by (auto simp: filter_empty_conv)
  then show ?thesis by simp
next
  case (Some row)
  let ?rows = "List.filter (\<lambda>r. er_project r = k) (db_events d)"
  from assms Some have ok: "log_ok cr k (project_log d k) (pj_sequence row) (pj_head row) (pj_state row)"
    by (simp add: good_def)
  have "List.map er_sequence ?rows = List.map ce_sequence (project_log d k)"
    using rows_of_project(1) [OF assms] by (simp add: project_log_def)
  also have "\<dots> = [1..<pj_sequence row + 1]"
    using log_ok_length [OF ok] log_ok_nth [OF ok] by (intro nth_equalityI) (auto simp del: upt_Suc)
  finally show ?thesis by (metis sorted_upt)
qed

lemma history_good:
  assumes "good cr d"
  shows "history d k = numbered (project_log d k)"
proof -
  have "sort_key er_sequence (List.filter (\<lambda>r. er_project r = k) (db_events d)) =
      List.filter (\<lambda>r. er_project r = k) (db_events d)"
    using sorted_log [OF assms] by (intro properties_for_sort_key) simp_all
  then show ?thesis
    using rows_of_project(1) [OF assms] by (simp add: history_def numbered_def project_log_def)
qed

lemma history_replays:
  assumes "good cr d" "m_get (db_projects d) k = Some row"
  shows "replayVerifiedEvents cr k (history d k) (pj_sequence row) (pj_head row) = Inr (pj_state row)"
proof -
  from assms have "log_ok cr k (project_log d k) (pj_sequence row) (pj_head row) (pj_state row)"
    by (simp add: good_def)
  from replay_log_ok [OF this] show ?thesis
    by (simp add: replayVerifiedEvents_def history_good [OF assms(1)])
qed

lemma rebuild_good:
  assumes "good cr d" "m_has (db_projects d) k"
  shows "rebuildOneSnapshot cr d k = Inr d"
proof -
  from assms(2) obtain row where row: "m_get (db_projects d) k = Some row" by (auto simp: m_has_def)
  have "m_put k row (db_projects d) = db_projects d"
    using row by (intro m_put_same)
  with row show ?thesis
    by (simp add: rebuildOneSnapshot_def history_replays [OF assms(1) row])
qed

text \<open>
  The upgrade's replay accepts a history exactly if it is intact: read from the start, the
  events belong to the project, are numbered from 1 without gaps, each continues the hash chain and
  matches its own hash, all of them project, and the last one is the recorded head. What it returns
  is the state they project to.
\<close>

theorem replay_accepts_intact:
  "replayVerifiedEvents cr k rows n h = Inr st \<longleftrightarrow>
     rows = numbered (List.map snd rows) \<and> log_ok cr k (List.map snd rows) n h st"
proof -
  have "rows = numbered (List.map snd rows) \<and> log_ok cr k (List.map snd rows) (m - 1) x s \<and> 0 < m"
    if "replay_loop cr k rows 1 [] EmptyState = Inr (m, x, s)" for m x s
    using that
  proof (induction rows arbitrary: m x s rule: rev_induct)
    case (snoc row rows)
    obtain i e where row: "row = (i, e)" by (cases row)
    from snoc.prems [unfolded row replay_loop_snoc] obtain m0 x0 s0 where
      front: "replay_loop cr k rows 1 [] EmptyState = Inr (m0, x0, s0)"
      and rest: "replay_loop cr k [(i, e)] m0 x0 s0 = Inr (m, x, s)" by auto
    note old = snoc.IH [OF front]
    from rest have e: "i = m0" "ce_sequence e = m0" "ce_project_id e = k" "ce_previous_hash e = x0"
      "HashEvent cr e = Inr (ce_hash e)" "ApplyEvent cr s0 (log_of e) = Inr s" "m = m0 + 1" "x = ce_hash e"
      by (auto split: sum.splits)
    from log_ok.snoc [OF _ e(3) _ e(4) e(5) e(6), of "List.map snd rows" "m0 - 1"] old e
    show ?case by (simp add: row numbered_def)
  qed (simp add: numbered_def log_ok.empty)
  then show ?thesis
    using replay_log_ok [of cr k "List.map snd rows" n h st]
    by (auto simp: replayVerifiedEvents_def)
qed

text \<open>
  C1. The stored state is the replay of the log. In every database the authority can reach, the
  events of a project are numbered from 1 without gaps under the ids made from their numbers, each
  carries the hash of its predecessor and its own hash, the last one is the recorded head, and the
  upgrade's replay of them from the empty state accepts the history and gives exactly the stored
  state, so rebuilding the snapshots changes nothing.
\<close>

theorem stored_state_is_replay:
  assumes "reachable cr priv d" "m_get (db_projects d) k = Some row"
  shows "length (project_log d k) = pj_sequence row \<and>
    (\<forall>i<pj_sequence row. let e = project_log d k ! i in
       ce_project_id e = k \<and> ce_sequence e = i + 1 \<and> ce_id e = event_id (i + 1) \<and>
       ce_previous_hash e = (if i = 0 then [] else ce_hash (project_log d k ! (i - 1))) \<and>
       HashEvent cr e = Inr (ce_hash e)) \<and>
    pj_head row = (if project_log d k = [] then [] else ce_hash (last (project_log d k))) \<and>
    replayVerifiedEvents cr k (history d k) (pj_sequence row) (pj_head row) = Inr (pj_state row) \<and>
    rebuildSnapshotsFromEvents cr d = (d, None)"
proof -
  have good: "good cr d" using assms(1) by (rule reachable_good)
  with assms(2) have ok: "log_ok cr k (project_log d k) (pj_sequence row) (pj_head row) (pj_state row)"
    by (simp add: good_def)
  have ids: "ce_id e = event_id (ce_sequence e)" if "e \<in> set (project_log d k)" for e
    using that good by (auto simp: good_def project_log_def)
  have "rebuild_each cr ks d = (d, None)" if "\<forall>x\<in>set ks. m_has (db_projects d) x" for ks
    using that rebuild_good [OF good] by (induction ks) simp_all
  moreover have "\<forall>x\<in>set (sort (List.map fst (m_entries (db_projects d)))). m_has (db_projects d) x"
    by (auto simp: m_has_def m_get_entries map_of_eq_None_iff image_iff)
  ultimately have "rebuildSnapshotsFromEvents cr d = (d, None)"
    by (simp add: rebuildSnapshotsFromEvents_def)
  then show ?thesis
    using log_ok_length [OF ok] log_ok_nth [OF ok] log_ok_head [OF ok] history_replays [OF good assms(2)]
      ids [OF nth_mem]
    by (simp add: Let_def)
qed

end
