(* ===== verification/Cache.thy ===== *)
theory Cache
  imports Drafts Replay
begin

text \<open>
  \<open>internal/localcache/cache.go\<close>: the verified copy of the authority's projects a daemon keeps, so that
  a client can read offline. Its SQLite file is a record of two tables (the drafts are in theory Drafts); a JSON
  column holds the value it encodes. Errors of the driver itself are left out, except the violation
  of a primary key, which the code runs into.
\<close>

record cache_project =
  cp_sequence :: nat
  cp_head :: string
  cp_state :: state
  cp_updated :: time

record cache_row =
  cw_project :: string
  cw_sequence :: nat
  cw_event :: event
  cw_receipt :: receipt

record cache =
  ca_projects :: "cache_project gmap"
  ca_events :: "cache_row list"

definition empty_cache :: cache where
  "empty_cache = \<lparr>ca_projects = m_empty, ca_events = []\<rparr>"

subsection \<open>Applying an event\<close>

definition loadProject :: "cache \<Rightarrow> string \<Rightarrow> state \<times> nat \<times> string" where
  "loadProject c k =
     (case m_get (ca_projects c) k of
        None \<Rightarrow> (EmptyState, 0, [])
      | Some p \<Rightarrow> (cp_state p, cp_sequence p, cp_head p))"

definition at_sequence :: "string \<Rightarrow> nat \<Rightarrow> cache_row \<Rightarrow> bool" where
  "at_sequence k n r = (cw_project r = k \<and> cw_sequence r = n)"

definition receipt_matches :: "event \<Rightarrow> receipt \<Rightarrow> bool" where
  "receipt_matches e r =
     (rc_project_id r = ce_project_id e \<and> rc_sequence r = ce_sequence e \<and> rc_event_id r = ce_id e \<and>
      rc_event_hash r = ce_hash e \<and> rc_actor_intent_hash r = ce_actor_intent_hash e)"

definition insert_row :: "cache_row \<Rightarrow> cache \<Rightarrow> fault + cache" where
  "insert_row r c =
     fail_if (list_ex (at_sequence (cw_project r) (cw_sequence r)) (ca_events c))
       (Plain (Err ''UNIQUE constraint failed: events.project_id, events.sequence''))
     (Inr (c\<lparr>ca_events := ca_events c @ [r]\<rparr>))"

definition Apply :: "crypto \<Rightarrow> string \<Rightarrow> time \<Rightarrow> cache \<Rightarrow> event \<Rightarrow> receipt \<Rightarrow> fault + cache" where
  "Apply cr serverKey now c e r =
     fail_if (\<not> receipt_matches e r)
       (Control (control_error CodeIntegrity ''event and receipt do not match''))
     (fail_if (\<not> VerifyReceipt cr r serverKey)
       (Control (control_error CodeIntegrity ''server receipt signature is invalid''))
     (fail_if (\<not> VerifyEventHash cr e)
       (Control (control_error CodeIntegrity ''event hash is invalid''))
     (case loadProject c (ce_project_id e) of (st, sequence, head) \<Rightarrow>
      if ce_sequence e \<le> sequence
      then (case List.find (at_sequence (ce_project_id e) (ce_sequence e)) (ca_events c) of
              None \<Rightarrow> Inl (Plain (Err ''sql: no rows in result set''))
            | Some x \<Rightarrow>
                fail_if (ce_hash (cw_event x) \<noteq> ce_hash e)
                  (Control (control_error CodeConflict ''cache sequence contains a different event''))
                (Inr c))
      else
        fail_if (ce_sequence e \<noteq> sequence + 1 \<or> ce_previous_hash e \<noteq> head)
          (Control (control_error CodeStalePrecondition ''cache event stream has a gap''))
        (and_then (as_plain (ApplyEvent cr st (log_of e))) (\<lambda>st'.
         and_then (insert_row \<lparr>cw_project = ce_project_id e, cw_sequence = ce_sequence e,
                     cw_event = e, cw_receipt = r\<rparr> c) (\<lambda>c'.
         Inr (c'\<lparr>ca_projects := m_put (ce_project_id e) \<lparr>cp_sequence = ce_sequence e,
                 cp_head = ce_hash e, cp_state = st', cp_updated = now\<rparr> (ca_projects c')\<rparr>)))))))"

subsection \<open>Reading\<close>

definition cache_State :: "cache \<Rightarrow> string \<Rightarrow> fault + (state \<times> result_metadata)" where
  "cache_State c k =
     (case m_get (ca_projects c) k of
        None \<Rightarrow> refuse CodeOffline ''project is not available in the local cache''
      | Some p \<Rightarrow> Inr ((cp_state p)\<lparr>st_integrity := \<lparr>ig_verified = True,
              ig_event_count = int (cp_sequence p), ig_head = cp_head p,
              ig_sync_state = ''verified-cache''\<rparr>\<rparr>,
            \<lparr>md_consistency = ''CACHED'', md_server_sequence = 0, md_cache_sequence = cp_sequence p,
             md_connectivity = ''OFFLINE''\<rparr>))"

definition rows_from :: "cache \<Rightarrow> string \<Rightarrow> nat \<Rightarrow> cache_row list" where
  "rows_from c k start =
     sort_key cw_sequence (List.filter (\<lambda>r. cw_project r = k \<and> cw_sequence r \<ge> start) (ca_events c))"

definition cache_Events :: "crypto \<Rightarrow> cache \<Rightarrow> string \<Rightarrow> page_request \<Rightarrow> fault + event_page" where
  "cache_Events cr c k page =
     and_then (as_plain (BoundedLimit page)) (\<lambda>limit0.
     and_then (case DecodeCursor cr (pg_cursor page) of Inl e \<Rightarrow> Inl (Control e) | Inr n \<Rightarrow> Inr n) (\<lambda>start.
     let limit = nat limit0;
         records = List.map (\<lambda>r. (cw_event r, cw_receipt r)) (take (limit + 1) (rows_from c k (start + 1)));
         items = take limit records;
         cursor = (if length records > limit then EncodeCursor cr (ce_sequence (fst (last items))) else []);
         last_seen = (if items = [] then start else ce_sequence (fst (last items)))
     in Inr \<lparr>ep_items = items, ep_next_cursor = cursor,
          ep_metadata = \<lparr>md_consistency = ''CACHED'', md_server_sequence = 0,
            md_cache_sequence = last_seen, md_connectivity = ''OFFLINE''\<rparr>\<rparr>))"

subsection \<open>Rebuilding and verifying\<close>

text \<open>\<open>Rebuild\<close> commits the deletion first, so what it did before an error stays done.\<close>

fun apply_each ::
  "crypto \<Rightarrow> string \<Rightarrow> time \<Rightarrow> (event \<times> receipt) list \<Rightarrow> cache \<Rightarrow> cache \<times> fault option" where
  "apply_each cr serverKey now [] c = (c, None)"
| "apply_each cr serverKey now ((e, r) # rest) c =
     (case Apply cr serverKey now c e r of
        Inl x \<Rightarrow> (c, Some x)
      | Inr c' \<Rightarrow> apply_each cr serverKey now rest c')"

definition Rebuild :: "crypto \<Rightarrow> string \<Rightarrow> time \<Rightarrow> cache \<Rightarrow> string \<Rightarrow> cache \<times> fault option" where
  "Rebuild cr serverKey now c k =
     apply_each cr serverKey now
       (List.map (\<lambda>r. (cw_event r, cw_receipt r)) (rows_from c k 0))
       (c\<lparr>ca_projects := m_del k (ca_projects c)\<rparr>)"

fun verify_loop ::
  "crypto \<Rightarrow> string \<Rightarrow> cache_row list \<Rightarrow> nat \<Rightarrow> string \<Rightarrow> cp_error option" where
  "verify_loop cr serverKey [] expected previous = None"
| "verify_loop cr serverKey (r # rows) expected previous =
     (let e = cw_event r in
      if ce_sequence e \<noteq> expected \<or> ce_previous_hash e \<noteq> previous
      then Some (control_error CodeIntegrity (''cache chain discontinuity at '' @ ce_id e))
      else if \<not> VerifyEventHash cr e
      then Some (control_error CodeIntegrity (''cache hash mismatch at '' @ ce_id e))
      else if \<not> VerifyReceipt cr (cw_receipt r) serverKey
      then Some (control_error CodeIntegrity (''cache receipt mismatch at '' @ ce_id e))
      else verify_loop cr serverKey rows (expected + 1) (ce_hash e))"

text \<open>
  The bound \<open>to_sequence = 0\<close> stands for no bound. A start above 1 never gets to its events: the query for the
  predecessor is issued while the rows of the first query are still open, and the database is opened with one
  connection, so it waits until the request is cancelled or times out, and this error is taken for a missing
  row. The answer given here is the one after that wait.
\<close>

definition cache_VerifyRange :: "crypto \<Rightarrow> string \<Rightarrow> cache \<Rightarrow> string \<Rightarrow> nat \<Rightarrow> nat \<Rightarrow> cp_error option" where
  "cache_VerifyRange cr serverKey c k from_sequence to_sequence =
     (let start = (if from_sequence = 0 then 1 else from_sequence) in
      if to_sequence \<noteq> 0 \<and> to_sequence < start
      then Some (control_error CodeValidation ''invalid verification range'')
      else
        let rows = List.filter (\<lambda>r. to_sequence = 0 \<or> cw_sequence r \<le> to_sequence) (rows_from c k start)
        in if start > 1
           then Some (control_error CodeIntegrity ''verification range predecessor is missing'')
           else verify_loop cr serverKey rows start [])"

text \<open>So the verification of a later part of the history fails, whatever the cache holds.\<close>

lemma partial_verification_fails:
  assumes "1 < start"
  shows "\<exists>e. cache_VerifyRange cr serverKey c k start to_sequence = Some e"
  using assms by (auto simp: cache_VerifyRange_def Let_def)

end
