(* ===== verification/Engine_Safety.thy ===== *)
theory Engine_Safety
  imports Replay
begin

text \<open>
  What holds of every request the authority serves: an admitted command is always committed, a retry
  gets the same answer, every committed event was signed by a key its actor had registered, and the
  owner of a project stays its owner.
\<close>

subsection \<open>The unique constraints never fire\<close>

lemma dec_val_zeros: "dec_val (replicate j CHR ''0'' @ s) = dec_val s"
  by (induction j) (simp_all add: dec_val_def digit_val_def)

lemma event_id_inj: "event_id m = event_id n \<Longrightarrow> m = n"
  by (auto simp: event_id_def dest!: arg_cong [where f = dec_val] simp: dec_val_zeros dec_val_digits)

lemma new_row_sel [simp]:
  "er_project (new_row e r s) = ce_project_id e" "er_sequence (new_row e r s) = ce_sequence e"
  "er_event_id (new_row e r s) = ce_id e" "er_key (new_row e r s) = ce_idempotency_key e"
  "er_event (new_row e r s) = e" "er_receipt (new_row e r s) = r" "er_signature (new_row e r s) = s"
  "er_intent (new_row e r s) = ce_actor_intent_hash e"
  by (simp_all add: new_row_def)

lemma sequences_up_to_head:
  assumes "good cr d" "m_get (db_projects d) k = Some row" "r \<in> set (db_events d)" "er_project r = k"
  shows "er_sequence r \<le> pj_sequence row" "er_event_id r = event_id (er_sequence r)"
proof -
  from assms(1,2) have ok: "log_ok cr k (project_log d k) (pj_sequence row) (pj_head row) (pj_state row)"
    by (simp add: good_def)
  from assms(3,4) have "er_event r \<in> set (project_log d k)" by (simp add: project_log_def)
  then obtain i where i: "i < length (project_log d k)" "project_log d k ! i = er_event r"
    by (auto simp: in_set_conv_nth)
  then have "ce_sequence (er_event r) \<le> pj_sequence row"
    using log_ok_nth [OF ok, of i] log_ok_length [OF ok] by auto
  with rows_of_project [OF assms(1,3)] show "er_sequence r \<le> pj_sequence row" by simp
  show "er_event_id r = event_id (er_sequence r)"
    using rows_of_project [OF assms(1,3)] assms(1,3) by (auto simp: good_def)
qed

lemma no_clash:
  assumes "good cr d" "m_get (db_projects d) k = Some row"
    and "\<forall>r\<in>set (db_events d). er_project r = k \<longrightarrow> er_key r \<noteq> ce_idempotency_key e"
    and "ce_project_id e = k" "ce_sequence e = pj_sequence row + 1" "ce_id e = event_id (pj_sequence row + 1)"
  shows "\<not> list_ex (clashes (new_row e rc sig)) (db_events d)"
proof
  assume "list_ex (clashes (new_row e rc sig)) (db_events d)"
  then obtain r where r: "r \<in> set (db_events d)" "clashes (new_row e rc sig) r"
    by (auto simp: list_ex_iff)
  then have k: "er_project r = k" using assms(4) by (simp add: clashes_def)
  note sequences_up_to_head [OF assms(1,2) r(1) k]
  moreover have "er_key r \<noteq> ce_idempotency_key e" using assms(3) r(1) k by blast
  ultimately show False
    using r(2) assms(5,6) by (auto simp: clashes_def dest: event_id_inj)
qed

subsection \<open>An admitted command is committed\<close>

lemma projects_apply:
  assumes "codec_ok cr" "admit cr row c now = Inr (t, q, fp)"
  obtains payload where "payload_ok t payload" "payload_ok t q" "cm_type c = type_name t"
    "DecodePayload cr (cm_type c) (cm_payload c) = Inr payload"
    "check_transition cr row c t payload now = Inr q"
    "\<And>e st. le_time e = now \<Longrightarrow> le_entity_id e = cm_entity_id c \<Longrightarrow> st = pj_state row \<Longrightarrow>
       \<exists>st'. project cr t q e st = Inr st'"
proof -
  from assms(2) obtain payload key where a: "cm_type c = type_name t"
    "DecodePayload cr (type_name t) (cm_payload c) = Inr payload"
    "check_transition cr row c t payload now = Inr q"
    by (rule admit_Inr)
  have ok: "payload_ok t payload"
    using assms(1) a(2) DecodePayload_kind unfolding codec_ok_def by blast
  have "\<exists>st'. project cr t q e (pj_state row) = Inr st'"
    if e: "le_time e = now" "le_entity_id e = cm_entity_id c" for e
  proof (cases "bootstraps row c t")
    case True
    with a(3) have "q = payload" "\<exists>p. payload = AgentActivated p"
      by (auto simp: check_transition_def split: payload.splits)
    then show ?thesis using project_fails_only_on_takeover [of cr t q e "pj_state row"]
      by (cases "project cr t q e (pj_state row)") auto
  next
    case False
    with a(3) have "ValidateTransition cr (pj_state row) (cm_actor c) t (cm_entity_id c) payload now = Inr q"
      by (simp add: check_transition_def)
    then show ?thesis using ok e by (rule accepted_applies)
  qed
  with that [OF ok check_transition_kind [OF a(3) ok] a(1)] a show thesis by auto
qed

lemma commit_succeeds:
  assumes "good cr d" "codec_ok cr" "m_get (db_projects d) (cm_project_id c) = Some row"
    and "\<forall>r\<in>set (db_events d). er_project r = cm_project_id c \<longrightarrow> er_key r \<noteq> cm_idempotency_key c"
    and "admit cr row c now = Inr (t, q, fp)"
    and "encode_payload cr q = Some s" "json_or_empty cr s \<noteq> None"
  shows "\<exists>d' e r. commit cr priv d row c intent q fp now = Inr (d', e, r)"
proof -
  from assms(2,5) obtain payload where kinds: "payload_ok t q" "cm_type c = type_name t"
    and applies: "\<And>e. le_time e = now \<Longrightarrow> le_entity_id e = cm_entity_id c \<Longrightarrow>
       \<exists>st'. project cr t q e (pj_state row) = Inr st'"
    by (rule projects_apply) blast
  have enc: "EncodePayload cr (cm_type c) q = Inr s"
    using assms(6) kinds(2) by (simp add: EncodePayload_def KnownEventType_def parse_type_Some [THEN iffD2])
  let ?e0 = "new_event row c intent fp s now"
  from assms(7) obtain h where hash: "HashEvent cr ?e0 = Inr h" by (auto simp: HashEvent_def)
  let ?e = "?e0\<lparr>ce_hash := h\<rparr>"
  from applies [of "log_of ?e"] obtain st' where "project cr t q (log_of ?e) (pj_state row) = Inr st'"
    by (auto simp: log_of_def)
  then have app: "ApplyEvent cr (pj_state row) (log_of ?e) = Inr st'"
    using applied [OF assms(2) enc [unfolded kinds(2)] kinds(1), of "log_of ?e"] kinds(2)
    by (simp add: log_of_def)
  let ?r = "SignReceipt cr priv (new_receipt ?e)"
  have "\<not> list_ex (clashes (new_row ?e ?r (cm_signature c))) (db_events d)"
    using assms(4) by (intro no_clash [OF assms(1,3)]) simp_all
  then show ?thesis using enc hash app by (simp add: commit_def Let_def insert_event_def)
qed

lemma commit_effect:
  assumes "commit cr priv d row c intent q fp now = Inr (d', e, r)"
  shows "project_log d' (cm_project_id c) = project_log d (cm_project_id c) @ [e]"
    "j \<noteq> cm_project_id c \<Longrightarrow> project_log d' j = project_log d j \<and>
       m_get (db_projects d') j = m_get (db_projects d) j"
proof -
  from assms obtain payload st' where
    e: "e = (new_event row c intent fp payload now)\<lparr>ce_hash := ce_hash e\<rparr>"
    and d': "d' = d\<lparr>db_events := db_events d @ [new_row e r (cm_signature c)],
      db_projects := m_put (cm_project_id c) (row\<lparr>pj_sequence := pj_sequence row + 1,
        pj_head := ce_hash e, pj_state := st', pj_updated := now\<rparr>) (db_projects d)\<rparr>"
    by (rule commit_Inr)
  have k: "ce_project_id e = cm_project_id c" by (subst e) simp
  show "project_log d' (cm_project_id c) = project_log d (cm_project_id c) @ [e]"
    by (simp add: d' project_log_def k)
  show "j \<noteq> cm_project_id c \<Longrightarrow> project_log d' j = project_log d j \<and>
       m_get (db_projects d') j = m_get (db_projects d) j"
    by (simp add: d' project_log_def k m_gets)
qed

text \<open>
  C2. The authority never loses a command it admitted: in a reachable database, a command of a known
  project under a fresh idempotency key that passes every check is committed. None of the unique
  constraints fires, the projection accepts the event, the project's log grows by exactly this event,
  which carries the validated payload, and every other project is untouched. (The payload must be one
  the codec can write, as JSON.)
\<close>

theorem admitted_command_commits:
  assumes "reachable cr priv d" "codec_ok cr" "m_get (db_projects d) (cm_project_id c) = Some row"
    and "IntentHash cr c = Inr intent"
    and "replay d (cm_project_id c) (cm_idempotency_key c) intent = Inr None"
    and "admit cr row c (microseconds clock) = Inr (t, q, fp)"
    and "encode_payload cr q = Some s" "json_or_empty cr s \<noteq> None"
  shows "\<exists>d' e r. Mutate cr priv clock d c = Inr (d', e, r) \<and>
    project_log d' (cm_project_id c) = project_log d (cm_project_id c) @ [e] \<and>
    ce_actor e = cm_actor c \<and> ce_type e = cm_type c \<and> ce_entity_id e = cm_entity_id c \<and>
    ce_payload e = s \<and>
    (\<forall>j. j \<noteq> cm_project_id c \<longrightarrow> project_log d' j = project_log d j \<and>
       m_get (db_projects d') j = m_get (db_projects d) j)"
proof -
  have fresh: "\<forall>r\<in>set (db_events d). er_project r = cm_project_id c \<longrightarrow> er_key r \<noteq> cm_idempotency_key c"
    using assms(5) by (simp add: replay_Inr)
  from commit_succeeds [OF reachable_good [OF assms(1)] assms(2,3) fresh assms(6,7,8)]
  obtain d' e r where c: "commit cr priv d row c intent q fp (microseconds clock) = Inr (d', e, r)"
    by blast
  then have "Mutate cr priv clock d c = Inr (d', e, r)"
    using assms(3-6) by (simp add: Mutate_def Let_def)
  moreover from c obtain payload where enc: "EncodePayload cr (cm_type c) q = Inr payload"
    and e: "e = (new_event row c intent fp payload (microseconds clock))\<lparr>ce_hash := ce_hash e\<rparr>"
    by (rule commit_Inr)
  from enc assms(7) have "payload = s" by (auto simp: EncodePayload_def)
  then have "ce_actor e = cm_actor c" "ce_type e = cm_type c" "ce_entity_id e = cm_entity_id c"
    "ce_payload e = s"
    by (subst e, simp)+
  ultimately show ?thesis using commit_effect [OF c] by blast
qed

subsection \<open>A retry gets the same answer\<close>

definition grows :: "db \<Rightarrow> db \<Rightarrow> bool" where
  "grows d d' \<longleftrightarrow>
     (\<exists>more. db_events d' = db_events d @ more) \<and>
     (\<forall>k row. m_get (db_projects d) k = Some row \<longrightarrow>
        (\<exists>row'. m_get (db_projects d') k = Some row' \<and> pj_owner row' = pj_owner row))"

lemma grows_refl [simp]: "grows d d"
  by (simp add: grows_def)

lemma grows_trans: "grows d d' \<Longrightarrow> grows d' d'' \<Longrightarrow> grows d d''"
  unfolding grows_def by (metis append.assoc)

lemma commit_grows:
  assumes "commit cr priv d row c intent q fp now = Inr (d', e, r)"
    and "m_get (db_projects d) (cm_project_id c) = Some row"
  shows "grows d d'"
  using assms(1) by (rule commit_Inr) (use assms(2) in \<open>auto simp: grows_def m_gets\<close>)

lemma step_grows: "step cr priv d r = Inr d' \<Longrightarrow> grows d d'"
proof (cases r)
  case (Create now k owner)
  then show "step cr priv d r = Inr d' \<Longrightarrow> grows d d'"
    by (auto simp: step_def CreateProject_def grows_def m_has_def m_gets split: if_splits)
next
  case (Submit now c)
  assume "step cr priv d r = Inr d'"
  with Submit obtain e rc where "Mutate cr priv now d c = Inr (d', e, rc)"
    by (auto simp: step_def)
  then show ?thesis by (cases rule: Mutate_Inr) (auto intro: commit_grows)
qed

lemma reachable_step: "reachable cr priv d \<Longrightarrow> step cr priv d r = Inr d' \<Longrightarrow> reachable cr priv d'"
proof -
  assume "reachable cr priv d" and s: "step cr priv d r = Inr d'"
  then obtain rs where "d = serve (step cr priv) empty_db rs" by (auto simp: reachable_def)
  then have "d' = serve (step cr priv) empty_db (rs @ [r])" using s by (simp add: serve_append)
  then show ?thesis unfolding reachable_def by blast
qed

interpretation later: inv_kept "step cr priv" "grows d" for cr priv d
  by unfold_locales (blast intro: grows_trans step_grows)

lemma find_append_Some: "List.find P xs = Some x \<Longrightarrow> List.find P (xs @ ys) = Some x"
  by (induction xs) (auto split: if_splits)

lemma find_append_None: "List.find P xs = None \<Longrightarrow> List.find P (xs @ ys) = List.find P ys"
  by (induction xs) (auto split: if_splits)

lemma mutate_stored:
  assumes "Mutate cr priv clock d c = Inr (d', e, r)"
  obtains row intent where "IntentHash cr c = Inr intent" "grows d d'"
    "m_has (db_projects d') (cm_project_id c)"
    "List.find (\<lambda>r. er_project r = cm_project_id c \<and> er_key r = cm_idempotency_key c) (db_events d') = Some row"
    "er_intent row = intent" "er_event row = e" "er_receipt row = r"
  using assms
proof (cases rule: Mutate_Inr)
  case (replayed row intent)
  then show thesis using that by (auto simp: replay_Inr m_has_def)
next
  case (fresh row intent t q fp)
  from fresh(5) obtain payload st' where
    e: "e = (new_event row c intent fp payload (microseconds clock))\<lparr>ce_hash := ce_hash e\<rparr>"
    and d': "d' = d\<lparr>db_events := db_events d @ [new_row e r (cm_signature c)],
      db_projects := m_put (cm_project_id c) (row\<lparr>pj_sequence := pj_sequence row + 1,
        pj_head := ce_hash e, pj_state := st', pj_updated := microseconds clock\<rparr>) (db_projects d)\<rparr>"
    by (rule commit_Inr)
  have sel: "ce_project_id e = cm_project_id c" "ce_idempotency_key e = cm_idempotency_key c"
    "ce_actor_intent_hash e = intent" by (subst e, simp)+
  from fresh(3) have "List.find (\<lambda>r. er_project r = cm_project_id c \<and> er_key r = cm_idempotency_key c)
      (db_events d) = None"
    by (auto simp: replay_Inr find_None_iff)
  then show thesis
    using that [of intent "new_row e r (cm_signature c)"] fresh(2) commit_grows [OF fresh(5,1)] sel
    by (simp add: d' find_append_None m_has_def m_gets)
qed

text \<open>
  C7. A retry is safe: once a command has been accepted, sending it again, at any later time and after
  any further requests, changes nothing and returns the very event and receipt of the first time; and
  its idempotency key is burnt: a different command under it is refused as a conflict.
\<close>

theorem retry_returns_same:
  assumes "Mutate cr priv clock d c = Inr (d', e, r)" "d'' = serve (step cr priv) d' requests"
  shows "Mutate cr priv clock' d'' c = Inr (d'', e, r) \<and>
    (\<forall>c' intent. cm_project_id c' = cm_project_id c \<and> cm_idempotency_key c' = cm_idempotency_key c \<and>
       IntentHash cr c' = Inr intent \<and> IntentHash cr c \<noteq> Inr intent \<longrightarrow>
       Mutate cr priv clock' d'' c' =
         refuse CodeConflict ''idempotency key was already used for a different command'')"
proof -
  from assms(1) obtain row intent where s: "IntentHash cr c = Inr intent"
    "m_has (db_projects d') (cm_project_id c)"
    "List.find (\<lambda>r. er_project r = cm_project_id c \<and> er_key r = cm_idempotency_key c) (db_events d') = Some row"
    "er_intent row = intent" "er_event row = e" "er_receipt row = r"
    by (rule mutate_stored)
  have "grows d' d''" unfolding assms(2) by (rule later.serve_keeps) simp
  then obtain more where "db_events d'' = db_events d' @ more" "m_has (db_projects d'') (cm_project_id c)"
    using s(2) unfolding grows_def m_has_def not_None_eq by metis
  moreover from this(1) s(3) have
    "List.find (\<lambda>r. er_project r = cm_project_id c \<and> er_key r = cm_idempotency_key c) (db_events d'') = Some row"
    by (simp add: find_append_Some)
  ultimately obtain row' where "m_get (db_projects d'') (cm_project_id c) = Some row'"
    "List.find (\<lambda>r. er_project r = cm_project_id c \<and> er_key r = cm_idempotency_key c) (db_events d'') = Some row"
    by (auto simp: m_has_def)
  with s show ?thesis by (auto simp: Mutate_def replay_def as_control_def)
qed

subsection \<open>Every event was signed\<close>

definition registered_key :: "state \<Rightarrow> command \<Rightarrow> event_type \<Rightarrow> payload \<Rightarrow> string \<Rightarrow> bool" where
  "registered_key st c t payload key \<longleftrightarrow>
     (if t = Agent_ev AgentRegister
      then cm_actor c = cm_entity_id c \<and> key = cm_public_key c \<and>
        (\<exists>p. payload = AgentRegistered p \<and> ar_public_key p = key)
      else \<exists>a. m_get (st_agents st) (cm_actor c) = Some a \<and>
        (if ag_elevated_public_key a \<noteq> [] \<and> RequiresElevatedKey st (cm_actor c) t (cm_entity_id c) payload
         then key = ag_elevated_public_key a else key = ag_public_key a))"

lemma commandPublicKey_registered:
  assumes "commandPublicKey st c t payload = Inr key" "check_registration c t payload = Inr u"
  shows "registered_key st c t payload key"
  using assms
  by (auto simp: commandPublicKey_def check_registration_def registered_key_def
      split: if_splits option.splits payload.splits)

text \<open>The laws of Ed25519 and base64: the signer's own signatures verify, encoded text decodes.\<close>

definition signs :: "crypto \<Rightarrow> string \<Rightarrow> string \<Rightarrow> bool" where
  "signs cr priv publicKey \<longleftrightarrow>
     b64_decode cr publicKey = Some (ed_public cr priv) \<and> length (ed_public cr priv) = 32 \<and>
     (\<forall>m. ed_verify cr (ed_public cr priv) m (ed_sign cr priv m)) \<and>
     (\<forall>s. b64_decode cr (b64_encode cr s) = Some s)"

lemma SignReceipt_verifies:
  "signs cr priv publicKey \<Longrightarrow> VerifyReceipt cr (SignReceipt cr priv r) publicKey"
  by (simp add: signs_def VerifyReceipt_def SignReceipt_def receipt_form_def Let_def)

lemma SignReceipt_sel [simp]:
  "rc_project_id (SignReceipt cr priv r) = rc_project_id r"
  "rc_sequence (SignReceipt cr priv r) = rc_sequence r"
  "rc_event_id (SignReceipt cr priv r) = rc_event_id r"
  "rc_event_hash (SignReceipt cr priv r) = rc_event_hash r"
  "rc_actor_intent_hash (SignReceipt cr priv r) = rc_actor_intent_hash r"
  "rc_committed_at (SignReceipt cr priv r) = rc_committed_at r"
  by (simp_all add: SignReceipt_def Let_def)

lemma admit_key:
  assumes "admit cr row c now = Inr (t, q, fp)"
  obtains payload key where "cm_type c = type_name t"
    "DecodePayload cr (cm_type c) (cm_payload c) = Inr payload"
    "registered_key (pj_state row) c t payload key" "command_verify cr c key" "fp = Fingerprint cr key"
    "command_validate cr c now = None"
    "cm_expected_sequence c = 0 \<or> cm_expected_sequence c = pj_sequence row"
proof -
  from assms obtain payload key u where a: "command_validate cr c now = None"
    "decode_command cr c = Inr (t, payload)" "commandPublicKey (pj_state row) c t payload = Inr key"
    "command_verify cr c key" "cm_expected_sequence c = 0 \<or> cm_expected_sequence c = pj_sequence row"
    "check_registration c t payload = Inr u" "fp = Fingerprint cr key"
    by (auto simp: admit_def split: option.splits)
  from decode_command_Inr [OF a(2)] commandPublicKey_registered [OF a(3,6)] a(1,4,5,7)
  show thesis by (intro that) simp_all
qed

text \<open>
  C5. Nothing is committed that its actor did not sign. When a command is committed, its signature
  over the intent hash verifies under a key of the actor: the key being registered, for a
  registration, and otherwise the key the project's state holds for the actor, which is the elevated
  one when one is registered and the transition requires it. The event names that key's fingerprint,
  the command was recent and met its sequence precondition, and the receipt is for this very event
  and verifies under the service key.
\<close>

theorem commit_is_signed:
  assumes "Mutate cr priv clock d c = Inr (d', e, r)" "d' \<noteq> d" "signs cr priv serviceKey"
  shows "\<exists>row t payload key. m_get (db_projects d) (cm_project_id c) = Some row \<and>
    cm_type c = type_name t \<and> DecodePayload cr (cm_type c) (cm_payload c) = Inr payload \<and>
    registered_key (pj_state row) c t payload key \<and> command_verify cr c key \<and>
    ce_actor_key_fingerprint e = Fingerprint cr key \<and>
    IntentHash cr c = Inr (ce_actor_intent_hash e) \<and>
    \<bar>cm_issued_at c - microseconds clock\<bar> \<le> CommandClockSkew \<and>
    (cm_expected_sequence c = 0 \<or> cm_expected_sequence c = pj_sequence row) \<and>
    rc_event_id r = ce_id e \<and> rc_event_hash r = ce_hash e \<and> rc_sequence r = pj_sequence row + 1 \<and>
    VerifyReceipt cr r serviceKey"
  using assms(1)
proof (cases rule: Mutate_Inr)
  case replayed
  with assms(2) show ?thesis by simp
next
  case (fresh row intent t q fp)
  from fresh(4) obtain payload key where k: "cm_type c = type_name t"
    "DecodePayload cr (cm_type c) (cm_payload c) = Inr payload"
    "registered_key (pj_state row) c t payload key" "command_verify cr c key" "fp = Fingerprint cr key"
    "command_validate cr c (microseconds clock) = None"
    "cm_expected_sequence c = 0 \<or> cm_expected_sequence c = pj_sequence row"
    by (rule admit_key)
  from k(6) have skew: "\<bar>cm_issued_at c - microseconds clock\<bar> \<le> CommandClockSkew"
    by (auto simp: command_validate_def split: if_splits)
  from fresh(5) obtain s where
    e: "e = (new_event row c intent fp s (microseconds clock))\<lparr>ce_hash := ce_hash e\<rparr>"
    and r: "r = SignReceipt cr priv (new_receipt e)"
    by (rule commit_Inr)
  have "ce_actor_key_fingerprint e = fp" "ce_actor_intent_hash e = intent" "ce_sequence e = pj_sequence row + 1"
    by (subst e, simp)+
  with k fresh(1,2) skew r SignReceipt_verifies [OF assms(3)] show ?thesis
    by (auto simp: new_receipt_def)
qed

subsection \<open>The elevated key is not asked for every orchestrator grant\<close>

text \<open>
  C36. The elevated key can be left out. The check that asks for it looks at the role as the command
  spells it, the validator at the normalised role: for any other spelling of ORCHESTRATOR the actor's
  everyday key is enough, whatever elevated key is registered, and the committed payload grants
  ORCHESTRATOR all the same.
\<close>

theorem orchestrator_grant_without_elevated_key:
  assumes "normalizeRole (aa_role p) = RoleOrchestrator" "aa_role p \<noteq> RoleOrchestrator"
    and "m_get (st_agents st) (cm_actor c) = Some a" "ag_elevated_public_key a \<noteq> []"
    and "ValidateTransition cr st (cm_actor c) (Agent_ev AgentActivate) (cm_entity_id c)
      (AgentActivated p) now = Inr q"
  shows "commandPublicKey st c (Agent_ev AgentActivate) (AgentActivated p) = Inr (ag_public_key a) \<and>
    q = AgentActivated (p\<lparr>aa_role := RoleOrchestrator\<rparr>)"
proof -
  have "validate_activate st (cm_actor c) (cm_entity_id c) (AgentActivated p) now = Inr q"
    using transition_Inr(4) [OF assms(5)] by (simp add: validate_block_def validate_agent_def)
  then have "q = AgentActivated (p\<lparr>aa_role := RoleOrchestrator\<rparr>)"
    using assms(1) by (auto simp: validate_activate_def validateRoleValue_def Let_def split: option.splits)
  with assms(2,3) show ?thesis by (simp add: commandPublicKey_def RequiresElevatedKey_def)
qed

end
