(* ===== verification/History.thy ===== *)
theory History
  imports Engine_Safety
begin

text \<open>
  Reading a project's history: the head hash commits to all of it, and a client that follows the page
  cursors of \<open>Engine.Events\<close> receives each event exactly once, in order.
\<close>

subsection \<open>The head commits to the log\<close>

text \<open>What \<open>HashEvent\<close> hashes: every field of the event but the hash itself, the payload by its own hash.\<close>

definition hashed :: "crypto \<Rightarrow> event \<Rightarrow> event_canonical option" where
  "hashed cr e = map_option (\<lambda>p. event_form e (sha256_hex cr p)) (json_or_empty cr (ce_payload e))"

lemma hashed_parts:
  assumes "hashed cr a = hashed cr b" "HashEvent cr a = Inr x"
  shows "ce_sequence a = ce_sequence b" "ce_previous_hash a = ce_previous_hash b"
  using assms by (cases "json_or_empty cr (ce_payload b)";
      auto simp: hashed_def HashEvent_def event_form_def split: option.splits)+

lemma log_ok_heads:
  assumes "log_ok cr k es n h st" "log_ok cr k es' n' h st'"
    and "\<forall>a\<in>set es. \<forall>b\<in>set es'. HashEvent cr a = HashEvent cr b \<longrightarrow> hashed cr a = hashed cr b"
    and "\<forall>a\<in>set es \<union> set es'. ce_hash a \<noteq> []"
  shows "n = n' \<and> List.map (hashed cr) es = List.map (hashed cr) es'"
  using assms
proof (induction arbitrary: es' n' st' rule: log_ok.induct)
  case empty
  then show ?case by (cases rule: log_ok.cases) auto
next
  case (snoc es n h st e st1)
  from snoc.prems(1) show ?case
  proof (cases rule: log_ok.cases)
    case empty
    then show ?thesis using snoc.prems(3) by simp
  next
    case (snoc es0 m h0 st0 f)
    have "HashEvent cr e = HashEvent cr f" using snoc \<open>HashEvent cr e = Inr (ce_hash e)\<close> by simp
    then have same: "hashed cr e = hashed cr f" using snoc.prems(2) snoc(1) by simp
    from hashed_parts [OF this \<open>HashEvent cr e = Inr (ce_hash e)\<close>] have "m = n" "h0 = h"
      using snoc \<open>ce_sequence e = n + 1\<close> \<open>ce_previous_hash e = h\<close> by simp_all
    moreover have "n = m \<and> List.map (hashed cr) es = List.map (hashed cr) es0"
      using snoc.IH [of es0 m st0] snoc(4) \<open>h0 = h\<close> snoc.prems(2,3) snoc(1) by simp
    ultimately show ?thesis using snoc(1,2) same by simp
  qed
qed

text \<open>
  C32. The head hash pins the whole history: if two authorities, in any reachable databases, record the
  same head hash for a project, then their logs have the same length and agree, event by event, on
  everything the hash covers (number, id, time, actor, key, type, entity, payload hash, predecessor,
  intent and idempotency key), provided no two of these events collide under SHA-256.
\<close>

theorem head_commits_to_log:
  assumes "reachable cr priv d" "m_get (db_projects d) k = Some row"
    and "reachable cr priv' d'" "m_get (db_projects d') k = Some row'"
    and "pj_head row = pj_head row'"
    and "\<forall>a\<in>set (project_log d k). \<forall>b\<in>set (project_log d' k).
      HashEvent cr a = HashEvent cr b \<longrightarrow> hashed cr a = hashed cr b"
    and "\<forall>s. sha256_hex cr s \<noteq> []"
  shows "pj_sequence row = pj_sequence row' \<and>
    List.map (hashed cr) (project_log d k) = List.map (hashed cr) (project_log d' k)"
proof (rule log_ok_heads)
  show ok: "log_ok cr k (project_log d k) (pj_sequence row) (pj_head row) (pj_state row)"
    using reachable_good [OF assms(1)] assms(2) by (simp add: good_def)
  show ok': "log_ok cr k (project_log d' k) (pj_sequence row') (pj_head row) (pj_state row')"
    using reachable_good [OF assms(3)] assms(4,5) by (simp add: good_def)
  have "ce_hash (es ! i) \<noteq> []" if "log_ok cr k es n h st" "i < n" for es n h st i
    using log_ok_nth [OF that] assms(7) by (auto simp: HashEvent_def split: option.splits)
  with ok ok' log_ok_length [OF ok] log_ok_length [OF ok']
  show "\<forall>a\<in>set (project_log d k) \<union> set (project_log d' k). ce_hash a \<noteq> []"
    by (auto simp: in_set_conv_nth)
qed (rule assms(6))

subsection \<open>Paging\<close>

lemma digits_are_digits: "c \<in> set (dec_digits n) \<Longrightarrow> is_digit c \<and> c \<noteq> CHR ''_'' \<and> \<not> is_space c"
proof (induction n rule: dec_digits.induct)
  case (1 n)
  have "is_digit (char_of (48 + m :: nat)) \<and> char_of (48 + m :: nat) \<noteq> CHR ''_'' \<and>
      \<not> is_space (char_of (48 + m :: nat))" if "m < 10" for m
  proof -
    have of: "(of_char (char_of (48 + m)) :: nat) = 48 + m" using that by (simp add: of_char_of)
    moreover have "char_of (48 + m) \<noteq> CHR ''_''"
    proof
      assume "char_of (48 + m) = CHR ''_''"
      then have "48 + m = of_char (CHR ''_'')" using of by metis
      with that show False by simp
    qed
    ultimately show ?thesis using that by (simp add: is_digit_def is_space_def Let_def)
  qed
  with 1 show ?case by (subst (asm) (2) dec_digits.simps) (auto split: if_splits)
qed

lemma dec_digits_nonempty: "dec_digits n \<noteq> []"
  by (subst dec_digits.simps) simp

lemma scan_digits:
  assumes "n < 2 ^ 64"
  shows "scan_uint64 (dec_digits n) = Some n"
proof -
  have "dropWhile is_space (dec_digits n) = dec_digits n"
    using digits_are_digits [of _ n] dec_digits_nonempty [of n] by (cases "dec_digits n") auto
  moreover have "takeWhile (\<lambda>c. is_digit c \<or> c = CHR ''_'') (dec_digits n) = dec_digits n"
    using digits_are_digits [of _ n] by (simp add: takeWhile_eq_all_conv)
  ultimately have tok: "takeWhile (\<lambda>c. is_digit c \<or> c = CHR ''_'') (dropWhile is_space (dec_digits n)) =
      dec_digits n" by simp
  have "CHR ''_'' \<notin> set (dec_digits n)" using digits_are_digits by blast
  with assms show ?thesis
    unfolding scan_uint64_def tok Let_def by (simp add: dec_digits_nonempty dec_val_digits)
qed

text \<open>The law of the unpadded URL encoding, on the texts the cursors are made of.\<close>

definition cursors_ok :: "crypto \<Rightarrow> bool" where
  "cursors_ok cr \<longleftrightarrow> (\<forall>n. rawurl_encode cr (dec_digits n) \<noteq> [] \<and>
     rawurl_decode cr (rawurl_encode cr (dec_digits n)) = Some (dec_digits n))"

lemma cursor_roundtrip:
  "cursors_ok cr \<Longrightarrow> n < 2 ^ 64 \<Longrightarrow> DecodeCursor cr (EncodeCursor cr n) = Inr n"
  by (simp add: cursors_ok_def DecodeCursor_def EncodeCursor_def scan_digits)

lemma filter_above:
  assumes "List.map f xs = [1..<length xs + 1]"
  shows "List.filter (\<lambda>x. start < f x) xs = drop start xs"
proof -
  have nth: "f (xs ! i) = i + 1" if "i < length xs" for i
    using arg_cong [OF assms, of "\<lambda>l. l ! i"] that by (simp del: upt_Suc)
  have "List.filter (\<lambda>x. start < f x) (take start xs) = []"
    using nth by (auto simp: filter_empty_conv in_set_conv_nth)
  moreover have "List.filter (\<lambda>x. start < f x) (drop start xs) = drop start xs"
    using nth by (auto simp: filter_id_conv in_set_conv_nth)
  ultimately show ?thesis by (metis append_Nil append_take_drop_id filter_append)
qed

definition project_rows :: "db \<Rightarrow> string \<Rightarrow> event_row list" where
  "project_rows d k = List.filter (\<lambda>r. er_project r = k) (db_events d)"

lemma project_rows_numbered:
  assumes "good cr d" "m_get (db_projects d) k = Some row"
  shows "List.map er_sequence (project_rows d k) = [1..<length (project_rows d k) + 1]"
    "length (project_rows d k) = pj_sequence row"
proof -
  from assms have ok: "log_ok cr k (project_log d k) (pj_sequence row) (pj_head row) (pj_state row)"
    by (simp add: good_def)
  show len: "length (project_rows d k) = pj_sequence row"
    using log_ok_length [OF ok] by (simp add: project_rows_def project_log_def)
  have "List.map er_sequence (project_rows d k) = List.map ce_sequence (project_log d k)"
    using rows_of_project(1) [OF assms(1)] by (simp add: project_log_def project_rows_def)
  also have "\<dots> = [1..<pj_sequence row + 1]"
    using log_ok_length [OF ok] log_ok_nth [OF ok] by (intro nth_equalityI) (auto simp del: upt_Suc)
  finally show "List.map er_sequence (project_rows d k) = [1..<length (project_rows d k) + 1]"
    by (simp only: len)
qed

lemma rows_after_drop:
  assumes "good cr d" "m_get (db_projects d) k = Some row"
  shows "rows_after d k start = drop start (project_rows d k)"
proof -
  have eq: "List.filter (\<lambda>r. er_project r = k \<and> er_sequence r > start) (db_events d) =
      drop start (project_rows d k)"
    using filter_above [OF project_rows_numbered(1) [OF assms]]
    by (simp add: project_rows_def conj_commute)
  have "sorted (List.map er_sequence (project_rows d k))"
    using sorted_log [OF assms(1)] by (simp add: project_rows_def)
  then have "sorted (List.map er_sequence (drop start (project_rows d k)))"
    by (simp add: drop_map [symmetric] sorted_wrt_drop)
  then show ?thesis
    unfolding rows_after_def eq by (intro properties_for_sort_key) simp_all
qed

text \<open>A client that asks for one page after the other until there is no next cursor.\<close>

fun walk :: "nat \<Rightarrow> crypto \<Rightarrow> db \<Rightarrow> string \<Rightarrow> int \<Rightarrow> string \<Rightarrow> (event \<times> receipt) list option" where
  "walk 0 cr d k limit cursor = None"
| "walk (Suc fuel) cr d k limit cursor =
     (case Events cr d k \<lparr>pg_cursor = cursor, pg_limit = limit\<rparr> of
        Inl _ \<Rightarrow> None
      | Inr page \<Rightarrow>
          if ep_next_cursor page = [] then Some (ep_items page)
          else map_option ((@) (ep_items page)) (walk fuel cr d k limit (ep_next_cursor page)))"

definition record_of :: "event_row \<Rightarrow> event \<times> receipt" where
  "record_of r = (er_event r, er_receipt r)"

lemma page_of:
  assumes "good cr d" "m_get (db_projects d) k = Some row"
    and "BoundedLimit \<lparr>pg_cursor = cursor, pg_limit = limit\<rparr> = Inr (int L)" "0 < L"
    and "DecodeCursor cr cursor = Inr s" "s \<le> pj_sequence row"
  shows "\<exists>page. Events cr d k \<lparr>pg_cursor = cursor, pg_limit = limit\<rparr> = Inr page \<and>
    ep_items page = List.map record_of (take L (drop s (project_rows d k))) \<and>
    ep_next_cursor page = (if s + L < pj_sequence row then EncodeCursor cr (s + L) else [])"
proof -
  let ?rest = "drop s (project_rows d k)"
  have len: "length ?rest = pj_sequence row - s"
    using project_rows_numbered(2) [OF assms(1,2)] by simp
  have seq: "ce_sequence (er_event (project_rows d k ! i)) = i + 1" if "i < pj_sequence row" for i
  proof -
    have "project_rows d k ! i \<in> set (db_events d)"
      using that project_rows_numbered(2) [OF assms(1,2)] nth_mem [of i "project_rows d k"]
      by (simp add: project_rows_def)
    then have "ce_sequence (er_event (project_rows d k ! i)) = er_sequence (project_rows d k ! i)"
      using rows_of_project(1) [OF assms(1)] by simp
    moreover have "er_sequence (project_rows d k ! i) = i + 1"
      using arg_cong [OF project_rows_numbered(1) [OF assms(1,2)], of "\<lambda>l. l ! i"] that
        project_rows_numbered(2) [OF assms(1,2)] by (simp del: upt_Suc)
    ultimately show ?thesis by simp
  qed
  have last: "ce_sequence (fst (last (List.map record_of (take L ?rest)))) = s + L"
    if "s + L < pj_sequence row"
  proof -
    from that assms(4) len have "last (take L ?rest) = project_rows d k ! (s + L - 1)"
      by (subst last_conv_nth) (auto simp: project_rows_numbered(2) [OF assms(1,2)] min_def)
    moreover from that assms(4) len have "take L ?rest \<noteq> []" by auto
    ultimately show ?thesis using that assms(4) seq [of "s + L - 1"] by (simp add: last_map record_of_def)
  qed
  have rec: "(\<lambda>r. (er_event r, er_receipt r)) = record_of"
    by (simp add: record_of_def fun_eq_iff)
  show ?thesis
    unfolding Events_def rec rows_after_drop [OF assms(1,2)] Let_def
    using assms(3,5) last len
    by (cases "s + L < pj_sequence row") (simp_all add: take_map min_def less_diff_conv add.commute)
qed

text \<open>
  C31. Paging loses and repeats nothing. A client that starts without a cursor and follows the cursors
  it is given, with any page limit the authority admits, stops after at most as many pages as there
  are events (and one more), and has then received every event of the project with its receipt
  exactly once, in sequence order.
\<close>

theorem pages_cover_log:
  assumes "reachable cr priv d" "m_get (db_projects d) k = Some row" "pj_sequence row < 2 ^ 64"
    and "cursors_ok cr" "0 \<le> limit" "limit \<le> MaxPageSize" "pj_sequence row < fuel"
  shows "\<exists>items. walk fuel cr d k limit [] = Some items \<and> List.map fst items = project_log d k \<and>
    (\<forall>(e, r)\<in>set items. \<exists>x\<in>set (db_events d). er_event x = e \<and> er_receipt x = r)"
proof -
  have good: "good cr d" using assms(1) by (rule reachable_good)
  obtain L where L: "0 < L" "\<And>cursor. BoundedLimit \<lparr>pg_cursor = cursor, pg_limit = limit\<rparr> = Inr (int L)"
  proof (cases "limit = 0")
    case True
    then show thesis using that [of 100] by (simp add: BoundedLimit_def)
  next
    case False
    then show thesis using that [of "nat limit"] assms(5,6) by (simp add: BoundedLimit_def)
  qed
  have walk: "walk fuel cr d k limit cursor = Some (List.map record_of (drop s (project_rows d k)))"
    if "DecodeCursor cr cursor = Inr s" "s \<le> pj_sequence row" "pj_sequence row - s < fuel"
    for fuel s cursor
    using that
  proof (induction fuel arbitrary: s cursor)
    case (Suc fuel)
    from page_of [OF good assms(2) L(2,1) Suc.prems(1,2)] obtain page where
      page: "Events cr d k \<lparr>pg_cursor = cursor, pg_limit = limit\<rparr> = Inr page"
      "ep_items page = List.map record_of (take L (drop s (project_rows d k)))"
      "ep_next_cursor page = (if s + L < pj_sequence row then EncodeCursor cr (s + L) else [])"
      by blast
    show ?case
    proof (cases "s + L < pj_sequence row")
      case True
      then have cur: "DecodeCursor cr (EncodeCursor cr (s + L)) = Inr (s + L)"
        using assms(3,4) by (intro cursor_roundtrip) simp_all
      have "EncodeCursor cr (s + L) \<noteq> []" using assms(4) by (simp add: cursors_ok_def EncodeCursor_def)
      with True page L(1) Suc.IH [OF cur] Suc.prems(3) show ?thesis
        by (simp add: flip: map_append drop_drop add.commute [of L])
    next
      case False
      then show ?thesis using page project_rows_numbered(2) [OF good assms(2)] by simp
    qed
  qed simp
  have "walk fuel cr d k limit [] = Some (List.map record_of (project_rows d k))"
    using walk [of "[]" 0 fuel] assms(7) by (simp add: DecodeCursor_def)
  then show ?thesis
    by (auto simp: project_rows_def project_log_def record_of_def comp_def)
qed

end
