(* ===== verification/Cache_Facts.thy ===== *)
theory Cache_Facts
  imports Cache History
begin

text \<open>
  The cache against its contract: whatever it is fed, it holds an intact, receipted history and the
  state that history projects to; fed with an authority's events it holds the authority's state.
\<close>

subsection \<open>The invariant of the cache\<close>

definition cache_rows :: "cache \<Rightarrow> string \<Rightarrow> cache_row list" where
  "cache_rows c k = List.filter (\<lambda>r. cw_project r = k) (ca_events c)"

definition cache_log :: "cache \<Rightarrow> string \<Rightarrow> event list" where
  "cache_log c k = List.map cw_event (cache_rows c k)"

definition row_ok :: "crypto \<Rightarrow> string \<Rightarrow> cache_row \<Rightarrow> bool" where
  "row_ok cr serverKey r \<longleftrightarrow> cw_project r = ce_project_id (cw_event r) \<and>
     cw_sequence r = ce_sequence (cw_event r) \<and> receipt_matches (cw_event r) (cw_receipt r) \<and>
     VerifyReceipt cr (cw_receipt r) serverKey \<and> VerifyEventHash cr (cw_event r)"

definition intact :: "crypto \<Rightarrow> string \<Rightarrow> cache \<Rightarrow> bool" where
  "intact cr serverKey c \<longleftrightarrow>
     (\<forall>r\<in>set (ca_events c). row_ok cr serverKey r) \<and>
     (\<forall>k. case loadProject c k of (st, n, h) \<Rightarrow> log_ok cr k (cache_log c k) n h st) \<and>
     (\<forall>k p. m_get (ca_projects c) k = Some p \<longrightarrow> 0 < cp_sequence p)"

lemma VerifyEventHash_hash: "VerifyEventHash cr e \<Longrightarrow> HashEvent cr e = Inr (ce_hash e)"
  by (auto simp: VerifyEventHash_def split: if_splits sum.splits)

lemma intact_empty: "intact cr serverKey empty_cache"
  by (simp add: intact_def empty_cache_def cache_log_def cache_rows_def loadProject_def log_ok.empty)

lemma loadProject_put:
  "loadProject (c\<lparr>ca_projects := m_put k p m\<rparr>) j =
     (if j = k then (cp_state p, cp_sequence p, cp_head p) else loadProject (c\<lparr>ca_projects := m\<rparr>) j)"
  by (simp add: loadProject_def m_gets)

lemma Apply_Inr:
  assumes "Apply cr serverKey now c e r = Inr c'"
  obtains (known) st n h x where "loadProject c (ce_project_id e) = (st, n, h)" "ce_sequence e \<le> n"
      "x \<in> set (ca_events c)" "at_sequence (ce_project_id e) (ce_sequence e) x" "c' = c"
  | (appended) st n h st' where "loadProject c (ce_project_id e) = (st, n, h)" "ce_sequence e = n + 1"
      "ce_previous_hash e = h" "VerifyEventHash cr e" "VerifyReceipt cr r serverKey" "receipt_matches e r"
      "ApplyEvent cr st (log_of e) = Inr st'"
      "\<not> list_ex (at_sequence (ce_project_id e) (ce_sequence e)) (ca_events c)"
      "c' = c\<lparr>ca_events := ca_events c @ [\<lparr>cw_project = ce_project_id e, cw_sequence = ce_sequence e,
               cw_event = e, cw_receipt = r\<rparr>],
             ca_projects := m_put (ce_project_id e) \<lparr>cp_sequence = ce_sequence e, cp_head = ce_hash e,
               cp_state = st', cp_updated = now\<rparr> (ca_projects c)\<rparr>"
proof -
  obtain st n h where l: "loadProject c (ce_project_id e) = (st, n, h)" by (cases "loadProject c (ce_project_id e)")
  show thesis
  proof (cases "ce_sequence e \<le> n")
    case True
    with assms l obtain x where "c' = c"
      "List.find (at_sequence (ce_project_id e) (ce_sequence e)) (ca_events c) = Some x"
      by (auto simp: Apply_def split: option.splits)
    moreover from this(2) have "x \<in> set (ca_events c)" "at_sequence (ce_project_id e) (ce_sequence e) x"
      by (auto simp: find_Some_iff)
    ultimately show thesis using known l True by blast
  next
    case False
    with assms l appended show thesis by (auto simp: Apply_def insert_row_def)
  qed
qed

lemma Apply_keeps:
  assumes "intact cr serverKey c" "Apply cr serverKey now c e r = Inr c'"
  shows "intact cr serverKey c'"
  using assms(2)
proof (cases rule: Apply_Inr)
  case known
  with assms(1) show ?thesis by simp
next
  case (appended st n h st')
  let ?k = "ce_project_id e"
  have old: "log_ok cr ?k (cache_log c ?k) n h st"
    using assms(1) appended(1) unfolding intact_def by (metis case_prod_conv)
  have "log_ok cr ?k (cache_log c ?k @ [e]) (n + 1) (ce_hash e) st'"
    using log_ok.snoc [OF old _ appended(2,3) VerifyEventHash_hash [OF appended(4)] appended(7)] by simp
  moreover have "cache_log c' k = (if k = ?k then cache_log c k @ [e] else cache_log c k)" for k
    by (simp add: appended(9) cache_log_def cache_rows_def)
  moreover have "loadProject c' k = (if k = ?k then (st', n + 1, ce_hash e) else loadProject c k)" for k
    by (simp add: appended(2,9) loadProject_def m_gets)
  moreover have "\<forall>x\<in>set (ca_events c'). row_ok cr serverKey x"
    using assms(1) appended(4,5,6) by (auto simp: appended(9) intact_def row_ok_def)
  moreover have "\<forall>k p. m_get (ca_projects c') k = Some p \<longrightarrow> 0 < cp_sequence p"
    using assms(1) appended(2) by (simp add: appended(9) intact_def m_gets)
  ultimately show ?thesis using assms(1) by (auto simp: intact_def)
qed

definition feed :: "crypto \<Rightarrow> string \<Rightarrow> cache \<Rightarrow> time \<times> event \<times> receipt \<Rightarrow> fault + cache" where
  "feed cr serverKey c x = (case x of (now, e, r) \<Rightarrow> Apply cr serverKey now c e r)"

interpretation cached: inv_kept "feed cr serverKey" "intact cr serverKey" for cr serverKey
  by unfold_locales (auto simp: feed_def intro: Apply_keeps)

lemma fed_intact: "intact cr serverKey (serve (feed cr serverKey) empty_cache inputs)"
  by (rule cached.serve_keeps) (rule intact_empty)

subsection \<open>Verifying a range\<close>

lemma verify_loop_None:
  "verify_loop cr serverKey rows n h = None \<longleftrightarrow>
     (\<forall>i<length rows. ce_sequence (cw_event (rows ! i)) = n + i \<and>
        ce_previous_hash (cw_event (rows ! i)) = (if i = 0 then h else ce_hash (cw_event (rows ! (i - 1)))) \<and>
        VerifyEventHash cr (cw_event (rows ! i)) \<and> VerifyReceipt cr (cw_receipt (rows ! i)) serverKey)"
proof (induction cr serverKey rows n h rule: verify_loop.induct)
  case (2 cr serverKey r rows n h)
  have split: "(\<forall>i<Suc m. P i) \<longleftrightarrow> P 0 \<and> (\<forall>i<m. P (Suc i))" for m P
    by (auto simp: less_Suc_eq_0_disj)
  have "(if i = 0 then ce_hash (cw_event r) else ce_hash (cw_event (rows ! (i - 1)))) =
      ce_hash (cw_event ((r # rows) ! i))" for i
    by (cases i) simp_all
  with 2 show ?case by (auto simp: Let_def split)
qed simp

lemma cache_rows_numbered:
  assumes "intact cr serverKey c" "loadProject c k = (st, n, h)"
  shows "length (cache_rows c k) = n" "List.map cw_sequence (cache_rows c k) = [1..<n + 1]"
proof -
  from assms have ok: "log_ok cr k (cache_log c k) n h st" unfolding intact_def by (metis case_prod_conv)
  then show len: "length (cache_rows c k) = n" using log_ok_length [OF ok] by (simp add: cache_log_def)
  have "cw_sequence r = ce_sequence (cw_event r)" if "r \<in> set (cache_rows c k)" for r
    using that assms(1) by (auto simp: intact_def row_ok_def cache_rows_def)
  then have "List.map cw_sequence (cache_rows c k) = List.map ce_sequence (cache_log c k)"
    by (simp add: cache_log_def)
  also have "\<dots> = [1..<n + 1]"
    using log_ok_length [OF ok] log_ok_nth [OF ok] by (intro nth_equalityI) (auto simp del: upt_Suc)
  finally show "List.map cw_sequence (cache_rows c k) = [1..<n + 1]" .
qed

lemma rows_from_all:
  assumes "intact cr serverKey c" "start \<le> 1"
  shows "rows_from c k start = cache_rows c k"
proof -
  obtain st n h where l: "loadProject c k = (st, n, h)" by (cases "loadProject c k")
  note num = cache_rows_numbered [OF assms(1) l]
  have "\<forall>r\<in>set (cache_rows c k). start \<le> cw_sequence r"
  proof
    fix r assume "r \<in> set (cache_rows c k)"
    then have "cw_sequence r \<in> set [1..<n + 1]" unfolding num(2) [symmetric] by simp
    with assms(2) show "start \<le> cw_sequence r" by auto
  qed
  then have "List.filter (\<lambda>r. cw_project r = k \<and> cw_sequence r \<ge> start) (ca_events c) = cache_rows c k"
    by (auto simp: cache_rows_def intro: filter_cong)
  moreover have "sorted (List.map cw_sequence (cache_rows c k))" unfolding num(2) by (rule sorted_upt)
  ultimately show ?thesis unfolding rows_from_def by (auto intro: properties_for_sort_key)
qed

text \<open>
  C14. The cache cannot be talked into a false history. Whatever events and receipts it is offered, in
  whatever order, from whatever source, what it holds of a project is a complete chain from event 1,
  each event with a receipt that is for this event and verifies under the service key; its state is
  exactly what the upgrade's replay makes of that chain; and verifying the whole range succeeds.
\<close>

theorem cache_holds_verified_history:
  assumes "c = serve (feed cr serverKey) empty_cache inputs" "m_get (ca_projects c) k = Some p"
  shows "replayVerifiedEvents cr k (numbered (cache_log c k)) (cp_sequence p) (cp_head p) = Inr (cp_state p) \<and>
    length (cache_log c k) = cp_sequence p \<and>
    list_all (\<lambda>r. receipt_matches (cw_event r) (cw_receipt r) \<and> VerifyReceipt cr (cw_receipt r) serverKey)
      (cache_rows c k) \<and>
    cache_VerifyRange cr serverKey c k 0 0 = None"
proof -
  have ok: "intact cr serverKey c" unfolding assms(1) by (rule fed_intact)
  have l: "loadProject c k = (cp_state p, cp_sequence p, cp_head p)" using assms(2) by (simp add: loadProject_def)
  have log: "log_ok cr k (cache_log c k) (cp_sequence p) (cp_head p) (cp_state p)"
    using ok l unfolding intact_def by (metis case_prod_conv)
  have rows: "row_ok cr serverKey r" if "r \<in> set (cache_rows c k)" for r
    using that ok by (simp add: intact_def cache_rows_def)
  have "replayVerifiedEvents cr k (numbered (cache_log c k)) (cp_sequence p) (cp_head p) = Inr (cp_state p)"
    using replay_log_ok [OF log] by (simp add: replayVerifiedEvents_def)
  moreover have "verify_loop cr serverKey (cache_rows c k) 1 [] = None"
    unfolding verify_loop_None
  proof (intro allI impI)
    fix i assume i: "i < length (cache_rows c k)"
    note log_ok_nth [OF log, of i] log_ok_length [OF log] rows [OF nth_mem [OF i]]
    with i show "ce_sequence (cw_event (cache_rows c k ! i)) = 1 + i \<and>
        ce_previous_hash (cw_event (cache_rows c k ! i)) =
          (if i = 0 then [] else ce_hash (cw_event (cache_rows c k ! (i - 1)))) \<and>
        VerifyEventHash cr (cw_event (cache_rows c k ! i)) \<and>
        VerifyReceipt cr (cw_receipt (cache_rows c k ! i)) serverKey"
      by (auto simp: cache_log_def row_ok_def)
  qed
  ultimately show ?thesis
    using log_ok_length [OF log] rows
    by (simp add: cache_VerifyRange_def rows_from_all [OF ok] list_all_iff row_ok_def)
qed

text \<open>
  C39. Verifying a range does not tie the receipts to the events. Any hash chain that replays, whoever computed it
  (with no key of the reserved legacy form), passes the verification of the whole range when every row carries one and the same genuine receipt
  of the service, for whatever event that receipt was issued: the loop checks that a receipt is signed,
  never that it names the event beside it.
\<close>

theorem verify_accepts_foreign_receipts:
  assumes "log_ok cr k es n h st" "VerifyReceipt cr r serverKey"
    and "\<forall>e\<in>set es. \<not> has_prefix (ce_idempotency_key e) ''legacy:''"
  shows "cache_VerifyRange cr serverKey
    \<lparr>ca_projects = m_empty, ca_events = List.map (\<lambda>e. \<lparr>cw_project = k, cw_sequence = ce_sequence e,
       cw_event = e, cw_receipt = r\<rparr>) es\<rparr> k 0 0 = None"
proof -
  let ?row = "\<lambda>e. \<lparr>cw_project = k, cw_sequence = ce_sequence e, cw_event = e, cw_receipt = r\<rparr>"
  note nth = log_ok_nth [OF assms(1)] and len = log_ok_length [OF assms(1)]
  have seqs: "List.map ce_sequence es = [1..<n + 1]"
    using len nth by (intro nth_equalityI) (auto simp del: upt_Suc)
  have "1 \<le> ce_sequence e" if "e \<in> set es" for e
  proof -
    from that have "ce_sequence e \<in> set [1..<n + 1]" unfolding seqs [symmetric] by simp
    then show ?thesis by (auto simp del: upt_Suc)
  qed
  then have keep: "List.filter (\<lambda>x. cw_project x = k \<and> cw_sequence x \<ge> 1) (List.map ?row es) = List.map ?row es"
    by (auto simp: filter_id_conv)
  have "sorted (List.map cw_sequence (List.map ?row es))"
    using seqs sorted_upt [of 1 "n + 1"] by (simp add: comp_def)
  then have "sort_key cw_sequence (List.map ?row es) = List.map ?row es"
    by (intro properties_for_sort_key) simp_all
  with keep have rows: "rows_from \<lparr>ca_projects = m_empty, ca_events = List.map ?row es\<rparr> k 1 = List.map ?row es"
    by (simp add: rows_from_def)
  have "verify_loop cr serverKey (List.map ?row es) 1 [] = None"
    unfolding verify_loop_None
  proof (intro allI impI)
    fix i assume i: "i < length (List.map ?row es)"
    then have "VerifyEventHash cr (es ! i)"
      using nth [of i] len assms(3) by (auto simp: VerifyEventHash_def)
    with i nth [of i] len assms(2) show "ce_sequence (cw_event (List.map ?row es ! i)) = 1 + i \<and>
        ce_previous_hash (cw_event (List.map ?row es ! i)) =
          (if i = 0 then [] else ce_hash (cw_event (List.map ?row es ! (i - 1)))) \<and>
        VerifyEventHash cr (cw_event (List.map ?row es ! i)) \<and>
        VerifyReceipt cr (cw_receipt (List.map ?row es ! i)) serverKey"
      by auto
  qed
  with rows show ?thesis by (simp add: cache_VerifyRange_def)
qed

subsection \<open>Rebuilding\<close>

lemma log_ok_take:
  "log_ok cr k es n h st \<Longrightarrow> m < n \<Longrightarrow>
   \<exists>h1 st1 st2. log_ok cr k (take m es) m h1 st1 \<and> ApplyEvent cr st1 (log_of (es ! m)) = Inr st2 \<and>
     ce_previous_hash (es ! m) = h1 \<and> log_ok cr k (take (Suc m) es) (Suc m) (ce_hash (es ! m)) st2"
proof (induction rule: log_ok.induct)
  case (snoc es n h st e st')
  have len: "length es = n" using snoc.hyps(1) by (rule log_ok_length)
  show ?case
  proof (cases "m = n")
    case True
    with snoc.hyps len log_ok.snoc [OF snoc.hyps] show ?thesis
      by - (rule exI [of _ h], rule exI [of _ st], rule exI [of _ st'], simp add: nth_append)
  next
    case False
    with snoc.prems snoc.IH len show ?thesis by (simp add: nth_append)
  qed
qed simp

lemma unique_hit:
  "cw_project r = k \<Longrightarrow> cw_sequence r = n \<Longrightarrow> r \<in> set (ca_events c) \<Longrightarrow>
   list_ex (at_sequence k n) (ca_events c)"
  by (auto simp: list_ex_iff at_sequence_def)

text \<open>
  C38. Rebuilding never works and loses the project. On any cache that holds at least one event of a
  project, \<open>Rebuild\<close> ends with the violated primary key of the first event, which it tries to insert
  again; the project's row is gone by then, so reading it fails as if offline, and no event whatsoever
  can be applied to the project any more.
\<close>

theorem rebuild_loses_project:
  assumes "c = serve (feed cr serverKey) empty_cache inputs" "m_get (ca_projects c) k = Some p"
    and "Rebuild cr serverKey now c k = (c', failure)"
  shows "failure = Some (Plain (Err ''UNIQUE constraint failed: events.project_id, events.sequence'')) \<and>
    cache_State c' k = refuse CodeOffline ''project is not available in the local cache'' \<and>
    (\<forall>now e r c''. ce_project_id e = k \<longrightarrow> Apply cr serverKey now c' e r \<noteq> Inr c'')"
proof -
  have ok: "intact cr serverKey c" unfolding assms(1) by (rule fed_intact)
  have l: "loadProject c k = (cp_state p, cp_sequence p, cp_head p)" using assms(2) by (simp add: loadProject_def)
  have log: "log_ok cr k (cache_log c k) (cp_sequence p) (cp_head p) (cp_state p)"
    using ok l unfolding intact_def by (metis case_prod_conv)
  note num = cache_rows_numbered [OF ok l]
  have pos: "0 < cp_sequence p" using ok assms(2) by (auto simp: intact_def)
  let ?d = "c\<lparr>ca_projects := m_del k (ca_projects c)\<rparr>"
  from pos num(1) obtain row rest where rows: "cache_rows c k = row # rest"
    by (cases "cache_rows c k") auto
  let ?e = "cw_event row"
  have row: "row \<in> set (ca_events c)" "cw_project row = k" "row_ok cr serverKey row"
    using rows ok by (auto simp: cache_rows_def intact_def filter_eq_Cons_iff)
  have e: "ce_project_id ?e = k" "ce_sequence ?e = 1" "ce_previous_hash ?e = []" "cw_sequence row = 1"
    using log_ok_nth [OF log pos] rows row(3) by (simp_all add: cache_log_def row_ok_def)
  have gone: "loadProject ?d k = (EmptyState, 0, [])" by (simp add: loadProject_def m_gets)
  from log_ok_take [OF log pos] rows obtain st' where "ApplyEvent cr EmptyState (log_of ?e) = Inr st'"
    by (auto simp: cache_log_def elim: log_ok.cases)
  then have "Apply cr serverKey now ?d ?e (cw_receipt row) =
      Inl (Plain (Err ''UNIQUE constraint failed: events.project_id, events.sequence''))"
    using row e gone unique_hit [of row k 1 ?d] by (simp add: Apply_def row_ok_def insert_row_def as_plain_def)
  then have c': "c' = ?d"
    "failure = Some (Plain (Err ''UNIQUE constraint failed: events.project_id, events.sequence''))"
    using assms(3) rows by (simp_all add: Rebuild_def rows_from_all [OF ok])
  have "Apply cr serverKey now c' a r \<noteq> Inr c''" if "ce_project_id a = k" for now a r c''
  proof
    assume "Apply cr serverKey now c' a r = Inr c''"
    then show False
    proof (cases rule: Apply_Inr)
      case (known st n h x)
      then have "x \<in> set (cache_rows c k)" "cw_sequence x = 0"
        using c' gone that by (simp_all add: cache_rows_def at_sequence_def)
      then have "0 \<in> set [1..<cp_sequence p + 1]" unfolding num(2) [symmetric] by force
      then show False using pos by (auto simp del: upt_Suc)
    next
      case (appended st n h st')
      then have "ce_sequence a = 1" using c' gone that by simp
      then show False using appended(8) c' that unique_hit [of row k 1 ?d] row(1,2) e(4) by simp
    qed
  qed
  with c' show ?thesis by (simp add: cache_State_def m_gets)
qed

end
