(* ===== verification/Mirror.thy ===== *)
theory Mirror
  imports Cache_Facts
begin

text \<open>
  The authority and the cache together: a daemon copies the authority's events into its cache. At any
  point, and from any earlier point again, applying the authority's events in order succeeds, and the
  cache then holds the authority's own state.
\<close>

subsection \<open>The receipts of an authority\<close>

definition receipts_ok :: "crypto \<Rightarrow> string \<Rightarrow> db \<Rightarrow> bool" where
  "receipts_ok cr priv d \<longleftrightarrow>
     (\<forall>r\<in>set (db_events d). er_receipt r = SignReceipt cr priv (new_receipt (er_event r)))"

lemma receipts_kept: "receipts_ok cr priv d \<Longrightarrow> step cr priv d r = Inr d' \<Longrightarrow> receipts_ok cr priv d'"
proof (cases r)
  case (Create now k owner)
  then show "receipts_ok cr priv d \<Longrightarrow> step cr priv d r = Inr d' \<Longrightarrow> receipts_ok cr priv d'"
    by (auto simp: step_def CreateProject_def receipts_ok_def split: if_splits)
next
  case (Submit now c)
  assume ok: "receipts_ok cr priv d" and "step cr priv d r = Inr d'"
  with Submit obtain e rc where "Mutate cr priv now d c = Inr (d', e, rc)"
    by (auto simp: step_def)
  then show "receipts_ok cr priv d'"
  proof (cases rule: Mutate_Inr)
    case replayed
    with ok show ?thesis by simp
  next
    case (fresh row intent t q fp)
    from fresh(5) show ?thesis
      by (rule commit_Inr) (use ok in \<open>auto simp: receipts_ok_def\<close>)
  qed
qed

interpretation receipted: inv_kept "step cr priv" "receipts_ok cr priv" for cr priv
  by unfold_locales (rule receipts_kept)

lemma reachable_receipts: "reachable cr priv d \<Longrightarrow> receipts_ok cr priv d"
  unfolding reachable_def
  using receipted.serve_keeps [of cr priv empty_db] by (auto simp: receipts_ok_def empty_db_def)

lemma receipt_fits: "receipt_matches e (SignReceipt cr priv (new_receipt e))"
  by (simp add: receipt_matches_def new_receipt_def)

subsection \<open>Copying\<close>

text \<open>The cache holds the first \<open>n\<close> events of a log, and the state they lead to.\<close>

definition mirrors :: "crypto \<Rightarrow> event list \<Rightarrow> string \<Rightarrow> cache \<Rightarrow> nat \<Rightarrow> bool" where
  "mirrors cr es k c n \<longleftrightarrow>
     List.map (\<lambda>r. (cw_sequence r, cw_event r)) (cache_rows c k) = numbered (take n es) \<and>
     (\<exists>st h. loadProject c k = (st, n, h) \<and> log_ok cr k (take n es) n h st)"

lemma mirror_known:
  assumes "mirrors cr es k c n" "i < n" "n \<le> length es"
    and log: "log_ok cr k es N H S"
    and "receipt_matches (es ! i) r" "VerifyReceipt cr r serverKey"
    and "VerifyEventHash cr (es ! i)"
  shows "Apply cr serverKey now c (es ! i) r = Inr c"
proof -
  let ?e = "es ! i"
  have e: "ce_project_id ?e = k" "ce_sequence ?e = i + 1"
    using log_ok_nth [OF log, of i] log_ok_length [OF log] assms(2,3) by simp_all
  have mem: "x \<in> set (cache_rows c k) \<longleftrightarrow> x \<in> set (ca_events c) \<and> cw_project x = k" for x
    by (auto simp: cache_rows_def)
  have "?e \<in> set (take n es)"
    using assms(2,3) by (auto simp: in_set_conv_nth intro!: exI [of _ i])
  then have "(i + 1, ?e) \<in> set (List.map (\<lambda>r. (cw_sequence r, cw_event r)) (cache_rows c k))"
    using assms(1) e(2) by (force simp: mirrors_def numbered_def)
  then obtain x where "x \<in> set (ca_events c)" "at_sequence k (i + 1) x"
    using mem by (auto simp: at_sequence_def)
  then obtain y where y: "List.find (at_sequence k (i + 1)) (ca_events c) = Some y"
    by (cases "List.find (at_sequence k (i + 1)) (ca_events c)") (auto simp: find_None_iff)
  then have "y \<in> set (cache_rows c k)" "cw_sequence y = i + 1"
    using mem by (auto simp: find_Some_iff at_sequence_def)
  then have "(i + 1, cw_event y) \<in> set (numbered (take n es))"
    using assms(1) unfolding mirrors_def by (metis (mono_tags, lifting) image_eqI list.set_map)
  then have "cw_event y \<in> set es" "ce_sequence (cw_event y) = i + 1"
    by (auto simp: numbered_def dest: in_set_takeD)
  then obtain j where j: "j < N" "es ! j = cw_event y"
    using log_ok_length [OF log] by (auto simp: in_set_conv_nth)
  with log_ok_nth [OF log j(1)] \<open>ce_sequence (cw_event y) = i + 1\<close> have "j = i" by simp
  with j(2) have "cw_event y = ?e" by simp
  with y e assms show ?thesis
    by (auto simp: Apply_def mirrors_def)
qed

lemma mirror_step:
  assumes "mirrors cr es k c n" "n < length es"
    and log: "log_ok cr k es N H S"
    and "receipt_matches (es ! n) r" "VerifyReceipt cr r serverKey"
    and "VerifyEventHash cr (es ! n)"
  shows "\<exists>c'. Apply cr serverKey now c (es ! n) r = Inr c' \<and> mirrors cr es k c' (n + 1)"
proof -
  let ?e = "es ! n"
  have "n < N" using assms(2) log_ok_length [OF log] by simp
  from log_ok_nth [OF log this] have e: "ce_project_id ?e = k" "ce_sequence ?e = n + 1" by simp_all
  from assms(1) obtain st h where l: "loadProject c k = (st, n, h)"
    and rows: "List.map (\<lambda>r. (cw_sequence r, cw_event r)) (cache_rows c k) = numbered (take n es)"
    and cur: "log_ok cr k (take n es) n h st"
    by (auto simp: mirrors_def)
  from log_ok_take [OF log \<open>n < N\<close>] obtain h1 st1 st2 where
    one: "log_ok cr k (take n es) n h1 st1" "ApplyEvent cr st1 (log_of ?e) = Inr st2"
      "ce_previous_hash ?e = h1" "log_ok cr k (take (Suc n) es) (Suc n) (ce_hash ?e) st2"
    by blast
  have "st1 = st" "h1 = h"
    using replay_log_ok [OF one(1)] replay_log_ok [OF cur] by simp_all
  have free: "\<not> list_ex (at_sequence k (n + 1)) (ca_events c)"
  proof
    assume "list_ex (at_sequence k (n + 1)) (ca_events c)"
    then obtain x where "x \<in> set (cache_rows c k)" "cw_sequence x = n + 1"
      by (auto simp: list_ex_iff at_sequence_def cache_rows_def)
    then have "(n + 1, cw_event x) \<in> set (numbered (take n es))"
      unfolding rows [symmetric] by force
    then have "n + 1 \<in> set (List.map ce_sequence (take n es))"
      by (auto simp: numbered_def)
    moreover have "List.map ce_sequence (take n es) = [1..<n + 1]"
      using log_ok_length [OF cur] log_ok_nth [OF cur] by (intro nth_equalityI) (auto simp del: upt_Suc)
    ultimately show False by (auto simp del: upt_Suc)
  qed
  let ?row = "\<lparr>cw_project = k, cw_sequence = n + 1, cw_event = ?e, cw_receipt = r\<rparr>"
  let ?c = "c\<lparr>ca_events := ca_events c @ [?row], ca_projects := m_put k \<lparr>cp_sequence = n + 1,
      cp_head = ce_hash ?e, cp_state = st2, cp_updated = now\<rparr> (ca_projects c)\<rparr>"
  have "Apply cr serverKey now c ?e r = Inr ?c"
    using assms(4-6) e l one(2,3) free \<open>st1 = st\<close> \<open>h1 = h\<close>
    by (simp add: Apply_def insert_row_def as_plain_def)
  moreover have "cache_rows ?c k = cache_rows c k @ [?row]" by (simp add: cache_rows_def)
  then have "mirrors cr es k ?c (n + 1)"
    using rows one(4) assms(2) e(2)
    by (simp add: mirrors_def loadProject_def m_gets numbered_def take_Suc_conv_app_nth)
  ultimately show ?thesis by blast
qed

text \<open>A log with receipts, all of which the cache's checks accept.\<close>

definition sound_history ::
  "crypto \<Rightarrow> string \<Rightarrow> string \<Rightarrow> (event \<times> receipt) list \<Rightarrow> string \<Rightarrow> state \<Rightarrow> bool" where
  "sound_history cr serverKey k recs h st \<longleftrightarrow>
     log_ok cr k (List.map fst recs) (length recs) h st \<and>
     (\<forall>(e, r)\<in>set recs. receipt_matches e r \<and> VerifyReceipt cr r serverKey \<and> VerifyEventHash cr e)"

text \<open>One record of it: known already, or the next one.\<close>

lemma copy_one:
  assumes "sound_history cr serverKey k recs h st" "mirrors cr (List.map fst recs) k c n" "i \<le> n"
    and "n \<le> length recs" "i < length recs" "recs ! i = (e, r)"
  shows "\<exists>c'. Apply cr serverKey now c e r = Inr c' \<and> mirrors cr (List.map fst recs) k c' (max n (Suc i))"
proof -
  from assms(5,6) have "(e, r) \<in> set recs" by (metis nth_mem)
  with assms(1) have ok: "receipt_matches e r" "VerifyReceipt cr r serverKey" "VerifyEventHash cr e"
    and log: "log_ok cr k (List.map fst recs) (length recs) h st" by (auto simp: sound_history_def)
  have ei: "List.map fst recs ! i = e" using assms(5,6) by simp
  show ?thesis
  proof (cases "i < n")
    case True
    then have "max n (Suc i) = n" by simp
    with mirror_known [OF assms(2) True _ log, of r serverKey now] ok assms(2,4) ei show ?thesis by simp
  next
    case False
    with assms(3) have "i = n" by simp
    with mirror_step [OF assms(2) _ log, of r serverKey now] ok assms(5) ei show ?thesis by auto
  qed
qed

text \<open>Further ahead than that, it is refused.\<close>

lemma copy_gap:
  assumes "mirrors cr es k c n" "log_ok cr k es N H S" "n < i" "i < length es"
  shows "Apply cr serverKey now c (es ! i) r \<noteq> Inr c'"
proof -
  from assms(1) obtain st h where "loadProject c k = (st, n, h)" by (auto simp: mirrors_def)
  moreover have "ce_project_id (es ! i) = k" "ce_sequence (es ! i) = i + 1"
    using log_ok_nth [OF assms(2), of i] log_ok_length [OF assms(2)] assms(4) by simp_all
  ultimately show ?thesis using assms(3) by (simp add: Apply_def fail_if_def)
qed

text \<open>Any part of it that starts within what the cache holds can be applied.\<close>

lemma copy_part:
  assumes "sound_history cr serverKey k recs h st"
    and "mirrors cr (List.map fst recs) k c n" "i \<le> n" "n \<le> length recs"
  shows "\<exists>c'. apply_each cr serverKey now (take m (drop i recs)) c = (c', None) \<and>
    mirrors cr (List.map fst recs) k c' (max n (min (i + m) (length recs)))"
  using assms(2-4)
proof (induction m arbitrary: c n i)
  case 0
  then show ?case by (auto simp: max_def min_def)
next
  case (Suc m)
  show ?case
  proof (cases "i < length recs")
    case False
    with Suc.prems have "n = length recs" by simp
    with False Suc.prems show ?thesis by auto
  next
    case True
    obtain e r where er: "recs ! i = (e, r)" by fastforce
    from copy_one [OF assms(1) Suc.prems True er] obtain c1 where
      c1: "Apply cr serverKey now c e r = Inr c1" "mirrors cr (List.map fst recs) k c1 (max n (Suc i))" by blast
    have drop: "drop i recs = (e, r) # drop (Suc i) recs" using True er by (simp add: Cons_nth_drop_Suc [symmetric])
    from Suc.IH [OF c1(2), of "Suc i"] Suc.prems True obtain c' where
      "apply_each cr serverKey now (take m (drop (Suc i) recs)) c1 = (c', None)"
      "mirrors cr (List.map fst recs) k c' (max (max n (Suc i)) (min (Suc i + m) (length recs)))" by auto
    moreover have "max (max n (Suc i)) (min (Suc i + m) (length recs)) = max n (min (i + Suc m) (length recs))"
      using True by simp
    ultimately show ?thesis using c1(1) by (simp add: drop)
  qed
qed

lemma copy_run:
  assumes "sound_history cr serverKey k recs h st"
    and "mirrors cr (List.map fst recs) k c n" "i \<le> n" "n \<le> length recs"
  shows "\<exists>c'. apply_each cr serverKey now (drop i recs) c = (c', None) \<and>
    mirrors cr (List.map fst recs) k c' (length recs)"
  using copy_part [OF assms, of now "length recs"] assms(4) by (simp add: max_def)

text \<open>A cache that mirrors the whole of a log holds the state the log leads to.\<close>

lemma mirrors_all:
  assumes "mirrors cr es k c (length es)" "log_ok cr k es N h st" "0 < length es"
  shows "\<exists>p. m_get (ca_projects c) k = Some p \<and> cp_state p = st \<and> cp_sequence p = length es \<and> cp_head p = h"
proof -
  from assms(1) obtain st' h' where l: "loadProject c k = (st', length es, h')"
    "log_ok cr k es (length es) h' st'"
    by (auto simp: mirrors_def)
  have "st' = st" "h' = h"
    using replay_log_ok [OF l(2)] replay_log_ok [OF assms(2)] by simp_all
  with l(1) assms(3) show ?thesis by (auto simp: loadProject_def split: option.splits)
qed

text \<open>Every record of a reachable authority passes the cache's checks.\<close>

lemma record_verifies:
  assumes "reachable cr priv d" "m_get (db_projects d) k = Some row" "signs cr priv serverKey"
    and "\<forall>e\<in>set (project_log d k). \<not> has_prefix (ce_idempotency_key e) ''legacy:''"
    and "i < pj_sequence row"
  shows "project_log d k ! i = er_event (project_rows d k ! i)"
    "receipt_matches (project_log d k ! i) (er_receipt (project_rows d k ! i))"
    "VerifyReceipt cr (er_receipt (project_rows d k ! i)) serverKey"
    "VerifyEventHash cr (project_log d k ! i)"
proof -
  have good: "good cr d" using assms(1) by (rule reachable_good)
  have log: "log_ok cr k (project_log d k) (pj_sequence row) (pj_head row) (pj_state row)"
    using good assms(2) by (simp add: good_def)
  have rows: "project_log d k = List.map er_event (project_rows d k)"
    by (simp add: project_log_def project_rows_def)
  have rlen: "length (project_rows d k) = pj_sequence row" using log_ok_length [OF log] rows by simp
  show ev: "project_log d k ! i = er_event (project_rows d k ! i)" using assms(5) rlen by (simp add: rows)
  have "project_rows d k ! i \<in> set (db_events d)"
    using assms(5) rlen nth_mem [of i "project_rows d k"] by (simp add: project_rows_def)
  then have "er_receipt (project_rows d k ! i) = SignReceipt cr priv (new_receipt (project_log d k ! i))"
    using reachable_receipts [OF assms(1)] ev by (simp add: receipts_ok_def)
  then show "receipt_matches (project_log d k ! i) (er_receipt (project_rows d k ! i))"
    "VerifyReceipt cr (er_receipt (project_rows d k ! i)) serverKey"
    using receipt_fits SignReceipt_verifies [OF assms(3)] by simp_all
  have "project_log d k ! i \<in> set (project_log d k)" using assms(5) log_ok_length [OF log] by simp
  with log_ok_nth [OF log assms(5)] assms(4) show "VerifyEventHash cr (project_log d k ! i)"
    by (auto simp: VerifyEventHash_def)
qed

lemma authority_sound:
  assumes "reachable cr priv d" "m_get (db_projects d) k = Some row" "signs cr priv serverKey"
    and "\<forall>e\<in>set (project_log d k). \<not> has_prefix (ce_idempotency_key e) ''legacy:''"
  shows "sound_history cr serverKey k (List.map record_of (project_rows d k)) (pj_head row) (pj_state row)"
    "List.map fst (List.map record_of (project_rows d k)) = project_log d k"
    "length (project_rows d k) = pj_sequence row"
proof -
  have log: "log_ok cr k (project_log d k) (pj_sequence row) (pj_head row) (pj_state row)"
    using reachable_good [OF assms(1)] assms(2) by (simp add: good_def)
  show es: "List.map fst (List.map record_of (project_rows d k)) = project_log d k"
    by (simp add: project_log_def project_rows_def record_of_def comp_def)
  show len: "length (project_rows d k) = pj_sequence row"
    using project_rows_numbered(2) [OF reachable_good [OF assms(1)] assms(2)] .
  have "receipt_matches e r \<and> VerifyReceipt cr r serverKey \<and> VerifyEventHash cr e"
    if er: "(e, r) \<in> set (List.map record_of (project_rows d k))" for e r
  proof -
    from er obtain i where i: "i < pj_sequence row" "record_of (project_rows d k ! i) = (e, r)"
      using len by (auto simp: in_set_conv_nth)
    from record_verifies [OF assms i(1)] i(2) show ?thesis by (simp add: record_of_def)
  qed
  with log show "sound_history cr serverKey k (List.map record_of (project_rows d k)) (pj_head row) (pj_state row)"
    unfolding sound_history_def es len length_map by blast
qed

lemma mirror_run:
  assumes "reachable cr priv d" "m_get (db_projects d) k = Some row" "signs cr priv serverKey"
    and "\<forall>e\<in>set (project_log d k). \<not> has_prefix (ce_idempotency_key e) ''legacy:''"
    and "mirrors cr (project_log d k) k c n" "i \<le> n" "n \<le> pj_sequence row"
  shows "\<exists>c'. apply_each cr serverKey now (List.map record_of (drop i (project_rows d k))) c = (c', None) \<and>
      mirrors cr (project_log d k) k c' (pj_sequence row)"
  using copy_run [OF authority_sound(1) [OF assms(1-4)]] assms(5-7) authority_sound(2,3) [OF assms(1-4)]
  by (simp add: drop_map)

text \<open>
  C13. The cache mirrors the authority. Take any reachable authority and a cache holding the first \<open>n\<close>
  events of one of its projects (for instance none at all). Applying the project's events with their
  receipts in order, starting at any point not after the \<open>n\<close>-th, succeeds throughout: what the cache
  has already is recognised, the rest is verified and added. At the end the cached state, sequence and
  head are the authority's. (No client used an idempotency key of the reserved legacy form.)
\<close>

theorem cache_mirrors_authority:
  assumes "reachable cr priv d" "m_get (db_projects d) k = Some row" "0 < pj_sequence row"
    and "signs cr priv serverKey"
    and "\<forall>e\<in>set (project_log d k). \<not> has_prefix (ce_idempotency_key e) ''legacy:''"
    and "mirrors cr (project_log d k) k c n" "start \<le> n" "n \<le> pj_sequence row"
  shows "\<exists>c' p. apply_each cr serverKey now (List.map record_of (drop start (project_rows d k))) c = (c', None) \<and>
    m_get (ca_projects c') k = Some p \<and> cp_state p = pj_state row \<and> cp_sequence p = pj_sequence row \<and>
    cp_head p = pj_head row"
proof -
  have log: "log_ok cr k (project_log d k) (pj_sequence row) (pj_head row) (pj_state row)"
    using reachable_good [OF assms(1)] assms(2) by (simp add: good_def)
  from mirror_run [OF assms(1,2,4-8)] obtain c' where c': "apply_each cr serverKey now
      (List.map record_of (drop start (project_rows d k))) c = (c', None)" "mirrors cr (project_log d k) k c' (pj_sequence row)"
    by blast
  with mirrors_all [OF _ log, of c'] log_ok_length [OF log] assms(3) show ?thesis by auto
qed

end
