(* ===== verification/Owner.thy ===== *)
theory Owner
  imports Engine_Safety
begin

text \<open>
  The owner of a project. The role is given out once, by the bootstrap activation; no transition the
  validator accepts makes an owner or unmakes one.
\<close>


lemma standing_None: "standing s k = None \<longleftrightarrow> m_get (st_agents s) k = None"
  by (simp add: standing_def)

lemma standing_Some:
  "m_get (st_agents s) k = Some a \<Longrightarrow> standing s k = Some (ag_role a, ag_status a)"
  by (simp add: standing_def)

text \<open>No validated transition makes an owner or unmakes one.\<close>

lemma owner_step:
  assumes v: "ValidateTransition cr s actor t eid payload now = Inr q"
    and "payload_ok t payload" "project cr t q e s = Inr s'" "le_entity_id e = eid"
    and active: "\<And>k x. standing s k = Some (RoleOwner, x) \<Longrightarrow> x = ''ACTIVE''"
  shows "standing s' k = Some (RoleOwner, x) \<longleftrightarrow> standing s k = Some (RoleOwner, x)"
proof -
  have ok: "payload_ok t q"
    using assms(2) validate_keeps_kind [OF v] by (simp add: payload_ok_def)
  show ?thesis
  proof (cases "\<exists>a. t = Agent_ev a")
    case False
    then show ?thesis using standing_frame [OF assms(3) ok] by auto
  next
    case True
    then obtain a where t: "t = Agent_ev a" by blast
    note now = standing_project [OF assms(3) [unfolded t] ok [unfolded t], of k, unfolded assms(4)]
    show ?thesis
    proof (cases "k = eid")
      case False
      with now show ?thesis by simp
    next
      case k: True
      have blk: "t \<noteq> Agent_ev AgentRegister \<Longrightarrow> validate_agent s actor a eid payload now = Inr q"
        using transition_Inr(4) [OF v] by (simp add: t validate_block_def)
      show ?thesis
      proof (cases a)
        case AgentRegister
        with register_Inr [OF transition_Inr(2) [OF v]] now k t show ?thesis
          by (auto simp: standing_def)
      next
        case AgentActivate
        with blk t have "validate_activate s actor eid payload now = Inr q" by (simp add: validate_agent_def)
        from activate_Inr [OF this] now k show ?thesis by (auto simp: standing_def)
      next
        case AgentSwitchRole
        with blk t have w: "validate_switch_role s actor eid payload now = Inr q" by (simp add: validate_agent_def)
        from standing_Inr [OF transition_Inr(3) [OF v]] t AgentSwitchRole obtain b
          where "m_get (st_agents s) actor = Some b" by auto
        with switch_role_Inr [OF w] now k show ?thesis by (auto simp: standing_def)
      next
        case AgentSuspend
        with blk t have "validate_suspend s actor eid payload = Inr q" by (simp add: validate_agent_def)
        from suspend_Inr [OF this] now k ok show ?thesis
          by (cases q) (auto simp: standing_def payload_ok_def t AgentSuspend)
      next
        case AgentRevoke
        with blk t have "validate_revoke s actor eid payload = Inr q" by (simp add: validate_agent_def)
        from revoke_Inr [OF this] now k ok show ?thesis
          by (cases q) (auto simp: standing_def payload_ok_def t AgentRevoke)
      next
        case AgentDelete
        with blk t have "validate_delete s actor eid payload = Inr q" by (simp add: validate_agent_def)
        from delete_Inr [OF this] obtain b where b: "m_get (st_agents s) eid = Some b" "ag_status b = ''REVOKED''"
          by blast
        with active [of eid] have "ag_role b \<noteq> RoleOwner" by (auto simp: standing_def)
        with b now k ok show ?thesis
          by (cases q) (auto simp: standing_def payload_ok_def t AgentDelete)
      next
        case AgentRename
        with blk t have "validate_rename s eid payload = Inr q" by (simp add: validate_agent_def)
        then obtain b where "m_get (st_agents s) eid = Some b"
          by (auto simp: validate_rename_def split: option.splits)
        with now k ok show ?thesis
          by (cases q) (auto simp: standing_def payload_ok_def t AgentRename)
      next
        case AgentRotateKey
        with blk t have "eid = actor" by (auto simp: validate_agent_def validate_rotate_key_def)
        moreover from standing_Inr [OF transition_Inr(3) [OF v]] t AgentRotateKey obtain b
          where "m_get (st_agents s) actor = Some b" by auto
        ultimately show ?thesis using now k ok
          by (cases q) (auto simp: standing_def payload_ok_def t AgentRotateKey)
      next
        case AgentElevateKey
        with blk t have "eid = actor" by (auto simp: validate_agent_def validate_elevate_key_def)
        moreover from standing_Inr [OF transition_Inr(3) [OF v]] t AgentElevateKey obtain b
          where "m_get (st_agents s) actor = Some b" by auto
        ultimately show ?thesis using now k ok
          by (cases q) (auto simp: standing_def payload_ok_def t AgentElevateKey)
      qed
    qed
  qed
qed

definition owners_ok :: "project_row \<Rightarrow> bool" where
  "owners_ok row \<longleftrightarrow>
     (\<forall>k x. standing (pj_state row) k = Some (RoleOwner, x) \<longrightarrow> k = pj_owner row \<and> x = ''ACTIVE'')"

text \<open>What one accepted command does to the project's row.\<close>

lemma commit_row:
  assumes "codec_ok cr" "admit cr row c now = Inr (t, q, fp)"
    and "commit cr priv d row c intent q fp now = Inr (d', e, r)"
  obtains payload row' where "payload_ok t payload" "payload_ok t q"
    "check_transition cr row c t payload now = Inr q"
    "project cr t q (log_of e) (pj_state row) = Inr (pj_state row')" "pj_owner row' = pj_owner row"
    "db_projects d' = m_put (cm_project_id c) row' (db_projects d)" "le_entity_id (log_of e) = cm_entity_id c"
proof -
  from assms(1,2) obtain payload where p: "payload_ok t payload" "payload_ok t q" "cm_type c = type_name t"
    "check_transition cr row c t payload now = Inr q"
    by (rule projects_apply)
  from assms(3) obtain s st' where enc: "EncodePayload cr (cm_type c) q = Inr s"
    and e: "e = (new_event row c intent fp s now)\<lparr>ce_hash := ce_hash e\<rparr>"
    and app: "ApplyEvent cr (pj_state row) (log_of e) = Inr st'"
    and d': "d' = d\<lparr>db_events := db_events d @ [new_row e r (cm_signature c)],
      db_projects := m_put (cm_project_id c) (row\<lparr>pj_sequence := pj_sequence row + 1,
        pj_head := ce_hash e, pj_state := st', pj_updated := now\<rparr>) (db_projects d)\<rparr>"
    by (rule commit_Inr)
  have le: "le_type (log_of e) = type_name t" "le_data (log_of e) = s" "le_entity_id (log_of e) = cm_entity_id c"
    using p(3) by (subst e, simp add: log_of_def)+
  have "project cr t q (log_of e) (pj_state row) = Inr st'"
    using applied [OF assms(1) enc [unfolded p(3)] p(2) le(1,2)] app by simp
  with that [of payload "row\<lparr>pj_sequence := pj_sequence row + 1, pj_head := ce_hash e,
      pj_state := st', pj_updated := now\<rparr>"] p d' le(3) show thesis by simp
qed

lemma owner_row:
  assumes "check_transition cr row c t payload now = Inr q" "payload_ok t payload" "payload_ok t q"
    and "project cr t q e (pj_state row) = Inr (pj_state row')" "le_entity_id e = cm_entity_id c"
    and "pj_owner row' = pj_owner row" "owners_ok row"
  shows "owners_ok row' \<and>
    (standing (pj_state row) (pj_owner row) = Some (RoleOwner, ''ACTIVE'') \<longrightarrow>
     standing (pj_state row') (pj_owner row) = Some (RoleOwner, ''ACTIVE''))"
proof (cases "bootstraps row c t")
  case True
  then have t: "t = Agent_ev AgentActivate" "cm_entity_id c = pj_owner row" by (simp_all add: bootstraps_def)
  from True assms(1) obtain p where p: "q = AgentActivated p" "aa_role p = RoleOwner"
    by (auto simp: check_transition_def split: payload.splits)
  have "standing (pj_state row') k = (if k = pj_owner row then Some (RoleOwner, ''ACTIVE'')
      else standing (pj_state row) k)" for k
    using standing_project [OF assms(4) [unfolded t] assms(3) [unfolded t], of k] p t assms(5) by simp
  moreover have "k = pj_owner row \<and> x = ''ACTIVE''" if "standing (pj_state row) k = Some (RoleOwner, x)" for k x
    using assms(7) that by (simp add: owners_ok_def)
  ultimately show ?thesis unfolding owners_ok_def assms(6) by (metis Pair_inject option.inject)
next
  case False
  with assms(1) have v: "ValidateTransition cr (pj_state row) (cm_actor c) t (cm_entity_id c) payload now = Inr q"
    by (simp add: check_transition_def)
  have "standing (pj_state row') k = Some (RoleOwner, x) \<longleftrightarrow> standing (pj_state row) k = Some (RoleOwner, x)"
    for k x
    using assms(7) by (intro owner_step [OF v assms(2,4,5)]) (simp add: owners_ok_def)
  then show ?thesis using assms(7) unfolding owners_ok_def assms(6) by blast
qed

definition rows_owned :: "db \<Rightarrow> bool" where
  "rows_owned d \<longleftrightarrow> (\<forall>k row. m_get (db_projects d) k = Some row \<longrightarrow> owners_ok row)"

definition owned_by :: "string \<Rightarrow> string \<Rightarrow> db \<Rightarrow> bool" where
  "owned_by k o' d \<longleftrightarrow> (\<exists>row. m_get (db_projects d) k = Some row \<and> pj_owner row = o' \<and>
     standing (pj_state row) o' = Some (RoleOwner, ''ACTIVE''))"

lemma owner_kept:
  assumes "codec_ok cr" "rows_owned d" "step cr priv d r = Inr d'"
  shows "rows_owned d' \<and> (owned_by k o' d \<longrightarrow> owned_by k o' d')"
proof (cases r)
  case (Create now j owner)
  let ?new = "\<lparr>pj_owner = owner, pj_sequence = 0, pj_head = [], pj_state = EmptyState, pj_updated = now\<rparr>"
  have new: "owners_ok ?new"
    by (simp add: owners_ok_def standing_def EmptyState_def)
  show ?thesis
  proof (cases "m_get (db_projects d) j")
    case (Some row)
    with assms(2,3) Create show ?thesis by (simp add: step_def CreateProject_def m_has_def split: if_splits)
  next
    case None
    with assms(3) Create have d': "db_projects d' = m_put j ?new (db_projects d)"
      by (simp add: step_def CreateProject_def m_has_def split: if_splits) (metis db.select_convs(1) db.surjective db.update_convs(1))
    with assms(2) new have "rows_owned d'" by (simp add: rows_owned_def m_gets)
    moreover have "owned_by k o' d \<longrightarrow> owned_by k o' d'"
      using None unfolding owned_by_def d' m_get_put by (metis option.distinct(1))
    ultimately show ?thesis by blast
  qed
next
  case (Submit now c)
  with assms(3) obtain e rc where "Mutate cr priv now d c = Inr (d', e, rc)"
    by (auto simp: step_def)
  then show ?thesis
  proof (cases rule: Mutate_Inr)
    case replayed
    with assms(2) show ?thesis by simp
  next
    case (fresh row intent t q fp)
    from assms(1) fresh(4,5) obtain payload row' where r: "payload_ok t payload" "payload_ok t q"
      "check_transition cr row c t payload (microseconds now) = Inr q"
      "project cr t q (log_of e) (pj_state row) = Inr (pj_state row')" "pj_owner row' = pj_owner row"
      "db_projects d' = m_put (cm_project_id c) row' (db_projects d)" "le_entity_id (log_of e) = cm_entity_id c"
      by (rule commit_row)
    have "owners_ok row" using assms(2) fresh(1) by (simp add: rows_owned_def)
    from owner_row [OF r(3,1,2,4,7,5) this] show ?thesis
      using assms(2) fresh(1) r(5,6) by (auto simp: rows_owned_def owned_by_def m_gets)
  qed
qed

interpretation owner: inv_kept "step cr priv" "\<lambda>d. codec_ok cr \<and> rows_owned d" for cr priv
  by unfold_locales (blast dest: owner_kept)

interpretation owned: inv_kept "step cr priv" "\<lambda>d. codec_ok cr \<and> rows_owned d \<and> owned_by k o' d"
  for cr priv k o'
  by unfold_locales (blast dest: owner_kept)

text \<open>
  C6. A project has one owner, for good. In every reachable database only the principal named at the
  project's creation can hold the OWNER role, and whoever holds it is active: the owner is never
  suspended, revoked, deleted or given another role. Once it has been activated it stays so through
  all later requests.
\<close>

theorem owner_is_permanent:
  assumes "codec_ok cr" "reachable cr priv d" "m_get (db_projects d) k = Some row"
    and "standing (pj_state row) a = Some (RoleOwner, x)"
  shows "a = pj_owner row \<and> x = ''ACTIVE'' \<and>
    (\<forall>requests. \<exists>row'. m_get (db_projects (serve (step cr priv) d requests)) k = Some row' \<and>
       pj_owner row' = a \<and> standing (pj_state row') a = Some (RoleOwner, ''ACTIVE''))"
proof -
  have "rows_owned empty_db" by (simp add: rows_owned_def empty_db_def)
  with assms(1,2) have rows: "rows_owned d"
    unfolding reachable_def using owner.serve_keeps by blast
  with assms(3,4) have a: "a = pj_owner row" "x = ''ACTIVE''" by (auto simp: rows_owned_def owners_ok_def)
  with assms(3,4) have "owned_by k a d" by (auto simp: owned_by_def)
  with rows assms(1) have "owned_by k a (serve (step cr priv) d requests)" for requests
    using owned.serve_keeps by blast
  with a show ?thesis by (auto simp: owned_by_def)
qed

end
