(* ===== verification/Samples.thy ===== *)
theory Samples
  imports Owner History
begin

text \<open>
  A small project, evaluated: its owner registers and activates itself. The library functions are
  instantiated by \<open>toy\<close>, a codec given by a table of payloads and keyed signatures that verify
  under their own key only; the theorems on the authority are applied to it.
\<close>

definition toy_key :: string where
  "toy_key = replicate 32 CHR ''k''"

definition toy_table :: "(string \<times> payload) list" where
  "toy_table =
     [(''reg'', AgentRegistered \<lparr>ar_public_key = toy_key, ar_principal_type = PrincipalHuman,
         ar_display_name = ''Owner''\<rparr>),
      (''act'', AgentActivated \<lparr>aa_role = RoleOwner, aa_capabilities = [], aa_scopes = [''*'']\<rparr>),
      (''env'', EnvSetPayload \<lparr>es_key = ''K'', es_value = ''V''\<rparr>),
      (''del'', EnvDeletePayload \<lparr>ed_key = ''K''\<rparr>)]"

definition toy :: crypto where
  "toy = \<lparr>sha256_hex = (\<lambda>s. ''#'' @ s), json_normal = Some, marshal_command = cc_idempotency_key,
     marshal_event = ec_id, marshal_receipt = rc_event_id, marshal_subject = (\<lambda>_ _ _ _. None),
     encode_payload = (\<lambda>p. map_option fst (List.find (\<lambda>x. snd x = p) toy_table)),
     decode_payload = (\<lambda>k s. case map_of toy_table s of None \<Rightarrow> None
        | Some p \<Rightarrow> if kind_of p = k then Some p else None),
     b64_decode = Some, b64_encode = (\<lambda>s. s), rawurl_encode = (\<lambda>s. s), rawurl_decode = Some,
     ed_verify = (\<lambda>pub m sig. sig = pub @ m), ed_sign = (\<lambda>priv m. priv @ m), ed_public = (\<lambda>p. p)\<rparr>"

lemma toy_codec: "codec_ok toy"
  by (auto simp: codec_ok_def decodes_kinds_def reads_back_def toy_def toy_table_def
      split: option.splits if_splits)

definition toy_command :: "string \<Rightarrow> string \<Rightarrow> string \<Rightarrow> string \<Rightarrow> command" where
  "toy_command typ eid payload key =
     \<lparr>cm_project_id = ''p'', cm_actor = ''o'', cm_type = typ, cm_entity_id = eid, cm_payload = payload,
      cm_idempotency_key = key, cm_issued_at = 1000, cm_expected_sequence = 0, cm_public_key = toy_key,
      cm_signature = toy_key @ ''#'' @ key\<rparr>"

definition toy_requests :: "request list" where
  "toy_requests =
     [Create 1000 ''p'' ''o'', Submit 1000 (toy_command ''agent.register'' ''o'' ''reg'' ''k1''),
      Submit 1000 (toy_command ''agent.activate'' ''o'' ''act'' ''k2'')]"

definition toy_db :: db where
  "toy_db = serve (step toy toy_key) empty_db toy_requests"

lemma toy_reachable: "reachable toy toy_key toy_db"
  unfolding reachable_def toy_db_def by blast

lemma toy_intent: "IntentHash toy c = Inr (''#'' @ cm_idempotency_key c)"
  by (simp add: IntentHash_def command_form_def json_or_empty_def toy_def)

lemma toy_json: "json_or_empty toy s \<noteq> None"
  by (simp add: json_or_empty_def toy_def)

lemma toy_validate: "blank typ = False \<Longrightarrow> blank key = False \<Longrightarrow> length payload < 9 \<Longrightarrow>
    command_validate toy (toy_command typ eid payload key) 1000 = None"
  by (simp add: command_validate_def toy_intent toy_command_def blank_def text_eval)

lemma toy_verify: "command_verify toy (toy_command typ eid payload key) toy_key"
  unfolding command_verify_def toy_intent
  by (simp add: toy_def toy_command_def toy_key_def)

lemma toy_now [simp]: "microseconds 1000 = 1000"
  by (simp add: microseconds_def)

text \<open>A fresh command that is admitted, and what the project's row is after it.\<close>

lemma fresh_mutate:
  assumes "good cr d" "codec_ok cr" "m_get (db_projects d) (cm_project_id c) = Some row"
    and "IntentHash cr c = Inr intent"
    and "\<forall>r\<in>set (db_events d). er_project r = cm_project_id c \<longrightarrow> er_key r \<noteq> cm_idempotency_key c"
    and "admit cr row c (microseconds clock) = Inr (t, q, fp)"
    and "encode_payload cr q = Some s" "json_or_empty cr s \<noteq> None"
  shows "\<exists>d' e r row'. Mutate cr priv clock d c = Inr (d', e, r) \<and> good cr d' \<and>
    m_get (db_projects d') (cm_project_id c) = Some row' \<and> pj_sequence row' = pj_sequence row + 1 \<and>
    pj_owner row' = pj_owner row \<and>
    project cr t q (log_of e) (pj_state row) = Inr (pj_state row') \<and>
    le_entity_id (log_of e) = cm_entity_id c \<and> payload_ok t q \<and>
    db_events d' = db_events d @ [new_row e r (cm_signature c)] \<and>
    ce_project_id e = cm_project_id c \<and> ce_idempotency_key e = cm_idempotency_key c"
proof -
  from commit_succeeds [OF assms(1-3,5-8)] obtain d' e r where
    c: "commit cr priv d row c intent q fp (microseconds clock) = Inr (d', e, r)" by blast
  have m: "Mutate cr priv clock d c = Inr (d', e, r)"
    using assms(3-6) c by (simp add: Mutate_def replay_Inr [THEN iffD2] Let_def)
  from assms(2,6) c obtain payload row' where r: "payload_ok t q"
    "project cr t q (log_of e) (pj_state row) = Inr (pj_state row')" "pj_owner row' = pj_owner row"
    "db_projects d' = m_put (cm_project_id c) row' (db_projects d)" "le_entity_id (log_of e) = cm_entity_id c"
    by (rule commit_row)
  from c obtain payload' st' where
    e: "e = (new_event row c intent fp payload' (microseconds clock))\<lparr>ce_hash := ce_hash e\<rparr>"
    and d': "d' = d\<lparr>db_events := db_events d @ [new_row e r (cm_signature c)],
      db_projects := m_put (cm_project_id c) (row\<lparr>pj_sequence := pj_sequence row + 1,
        pj_head := ce_hash e, pj_state := st', pj_updated := microseconds clock\<rparr>) (db_projects d)\<rparr>"
    by (rule commit_Inr)
  have "ce_project_id e = cm_project_id c" "ce_idempotency_key e = cm_idempotency_key c"
    by (subst e, simp)+
  moreover have "m_get (db_projects d') (cm_project_id c) = Some row'" using r(4) by (simp add: m_gets)
  moreover from this d' have "pj_sequence row' = pj_sequence row + 1" by (auto simp: m_gets)
  ultimately show ?thesis using m r good_mutate [OF assms(1) m] d' by auto
qed

definition toy_row0 :: project_row where
  "toy_row0 = \<lparr>pj_owner = ''o'', pj_sequence = 0, pj_head = [], pj_state = EmptyState, pj_updated = 1000\<rparr>"

lemma toy_row0_sel [simp]:
  "pj_owner toy_row0 = ''o''" "pj_sequence toy_row0 = 0" "pj_state toy_row0 = EmptyState"
  by (simp_all add: toy_row0_def)

lemma toy_create:
  "step toy toy_key empty_db (Create 1000 ''p'' ''o'') =
     Inr \<lparr>db_projects = m_put ''p'' toy_row0 m_empty, db_events = []\<rparr>"
  by (simp add: step_def CreateProject_def empty_db_def m_has_def blank_def text_eval toy_row0_def)

lemma admit_intro:
  assumes "command_validate cr c now = None" "cm_type c = type_name t"
    and "DecodePayload cr (type_name t) (cm_payload c) = Inr p"
    and "commandPublicKey (pj_state row) c t p = Inr key" "command_verify cr c key"
    and "cm_expected_sequence c = 0" "check_registration c t p = Inr ()"
    and "check_transition cr row c t p now = Inr q"
  shows "admit cr row c now = Inr (t, q, Fingerprint cr key)"
  using assms
  by (simp add: admit_def decode_command_def DecodePayloadValue_def parse_type_Some [THEN iffD2] as_control_def)

lemma toy_decode:
  assumes "map_of toy_table s = Some p" "kind_of p = factory t"
  shows "DecodePayload toy (type_name t) s = Inr p"
proof -
  from assms(1) have "s \<noteq> []" by (auto simp: toy_table_def split: if_splits)
  with assms show ?thesis by (simp add: DecodePayload_def parse_type_Some [THEN iffD2] toy_def)
qed

definition reg :: payload where
  "reg = AgentRegistered \<lparr>ar_public_key = toy_key, ar_principal_type = PrincipalHuman,
     ar_display_name = ''Owner''\<rparr>"

definition act :: payload where
  "act = AgentActivated \<lparr>aa_role = RoleOwner, aa_capabilities = [], aa_scopes = [''*'']\<rparr>"

definition env :: payload where
  "env = EnvSetPayload \<lparr>es_key = ''K'', es_value = ''V''\<rparr>"

definition del :: payload where
  "del = EnvDeletePayload \<lparr>ed_key = ''K''\<rparr>"

lemma toy_payloads:
  "map_of toy_table ''reg'' = Some reg" "map_of toy_table ''act'' = Some act"
  "map_of toy_table ''env'' = Some env" "kind_of reg = K_AgentRegistered" "kind_of act = K_AgentActivated"
  "kind_of env = K_EnvSetPayload" "encode_payload toy reg = Some ''reg''"
  "encode_payload toy act = Some ''act''" "encode_payload toy env = Some ''env''"
  "map_of toy_table ''del'' = Some del" "kind_of del = K_EnvDeletePayload" "encode_payload toy del = Some ''del''"
  by (simp_all add: toy_table_def toy_def reg_def act_def env_def del_def)

lemma toy_command_sel [simp]:
  "cm_project_id (toy_command typ eid p key) = ''p''" "cm_actor (toy_command typ eid p key) = ''o''"
  "cm_type (toy_command typ eid p key) = typ" "cm_entity_id (toy_command typ eid p key) = eid"
  "cm_payload (toy_command typ eid p key) = p" "cm_idempotency_key (toy_command typ eid p key) = key"
  "cm_expected_sequence (toy_command typ eid p key) = 0" "cm_public_key (toy_command typ eid p key) = toy_key"
  "cm_signature (toy_command typ eid p key) = toy_key @ ''#'' @ key"
  by (simp_all add: toy_command_def)

lemma toy_key_nonempty: "toy_key \<noteq> []"
  by (simp add: toy_key_def)

lemma toy_admit_register:
  "admit toy toy_row0 (toy_command ''agent.register'' ''o'' ''reg'' ''k1'') 1000 =
     Inr (Agent_ev AgentRegister, reg, Fingerprint toy toy_key)"
proof (rule admit_intro)
  show "DecodePayload toy (type_name (Agent_ev AgentRegister))
      (cm_payload (toy_command ''agent.register'' ''o'' ''reg'' ''k1'')) = Inr reg"
    by (rule toy_decode) (simp_all add: toy_payloads)
  show "check_transition toy toy_row0 (toy_command ''agent.register'' ''o'' ''reg'' ''k1'')
      (Agent_ev AgentRegister) reg 1000 = Inr reg"
    by (simp add: check_transition_def bootstraps_def ValidateTransition_def validate_register_def reg_def
        toy_row0_def EmptyState_def m_has_def toy_key_nonempty as_classified_def)
qed (simp_all add: toy_validate toy_verify commandPublicKey_def check_registration_def reg_def toy_key_nonempty
    blank_def text_eval)

text \<open>The owner's registration is what the later commands are checked against.\<close>

definition holds_owner :: "string \<Rightarrow> string \<Rightarrow> state \<Rightarrow> bool" where
  "holds_owner role status st \<longleftrightarrow> (\<exists>a. m_get (st_agents st) ''o'' = Some a \<and> ag_public_key a = toy_key \<and>
     ag_elevated_public_key a = [] \<and> ag_role a = role \<and> ag_status a = status)"

lemma toy_registered:
  assumes "project toy (Agent_ev AgentRegister) reg e st = Inr st'" "le_entity_id e = ''o''"
  shows "holds_owner [] ''PENDING'' st'"
  using assms
  by (auto simp: project_def apply_payload_def reg_def apply_registered_def stampEntity_agents m_gets
      holds_owner_def zero_agent_def stamp_agent_def)

lemma toy_activated:
  assumes "project toy (Agent_ev AgentActivate) act e st = Inr st'" "le_entity_id e = ''o''"
    and "holds_owner role status st"
  shows "holds_owner RoleOwner ''ACTIVE'' st'"
  using assms
  by (auto simp: project_def apply_payload_def act_def apply_activated_def on_agent_def stampEntity_agents m_gets
      holds_owner_def stamp_agent_def)

lemma toy_admit_activate:
  assumes "pj_owner row = ''o''" "pj_sequence row = 1" "holds_owner [] ''PENDING'' (pj_state row)"
  shows "admit toy row (toy_command ''agent.activate'' ''o'' ''act'' ''k2'') 1000 =
     Inr (Agent_ev AgentActivate, act, Fingerprint toy toy_key)"
proof (rule admit_intro)
  show "DecodePayload toy (type_name (Agent_ev AgentActivate))
      (cm_payload (toy_command ''agent.activate'' ''o'' ''act'' ''k2'')) = Inr act"
    by (rule toy_decode) (simp_all add: toy_payloads)
  show "check_transition toy row (toy_command ''agent.activate'' ''o'' ''act'' ''k2'')
      (Agent_ev AgentActivate) act 1000 = Inr act"
    using assms by (simp add: check_transition_def bootstraps_def act_def)
  show "commandPublicKey (pj_state row) (toy_command ''agent.activate'' ''o'' ''act'' ''k2'')
      (Agent_ev AgentActivate) act = Inr toy_key"
    using assms(3) by (auto simp: commandPublicKey_def holds_owner_def)
qed (simp_all add: toy_validate toy_verify check_registration_def blank_def text_eval)

lemma toy_admit_env:
  assumes "holds_owner RoleOwner ''ACTIVE'' (pj_state row)"
  shows "admit toy row (toy_command ''env.set'' ''K'' ''env'' ''k3'') 1000 =
     Inr (Env_ev EnvSet, env, Fingerprint toy toy_key)"
proof (rule admit_intro)
  show "DecodePayload toy (type_name (Env_ev EnvSet))
      (cm_payload (toy_command ''env.set'' ''K'' ''env'' ''k3'')) = Inr env"
    by (rule toy_decode) (simp_all add: toy_payloads)
  have "active (pj_state row) ''o'' = Inr a" if "m_get (st_agents (pj_state row)) ''o'' = Some a"
    "ag_status a = ''ACTIVE''" for a
    using that by (simp add: active_def)
  then show "check_transition toy row (toy_command ''env.set'' ''K'' ''env'' ''k3'') (Env_ev EnvSet) env 1000 = Inr env"
    using assms
    by (auto simp: check_transition_def bootstraps_def ValidateTransition_def check_standing_def holds_owner_def
        validate_block_def validate_env_def env_def blank_def text_eval as_classified_def Let_def)
  show "commandPublicKey (pj_state row) (toy_command ''env.set'' ''K'' ''env'' ''k3'') (Env_ev EnvSet) env =
      Inr toy_key"
    using assms by (auto simp: commandPublicKey_def holds_owner_def)
qed (simp_all add: toy_validate toy_verify check_registration_def blank_def text_eval)

subsection \<open>The database the requests lead to\<close>

abbreviation register :: command where
  "register \<equiv> toy_command ''agent.register'' ''o'' ''reg'' ''k1''"

abbreviation activate :: command where
  "activate \<equiv> toy_command ''agent.activate'' ''o'' ''act'' ''k2''"

abbreviation set_env :: command where
  "set_env \<equiv> toy_command ''env.set'' ''K'' ''env'' ''k3''"

text \<open>The three databases of the run, with what each command found and left.\<close>

lemma toy_stages:
  obtains d0 d1 e1 r1 row1 e2 r2 row2 where
    "step toy toy_key empty_db (Create 1000 ''p'' ''o'') = Inr d0" "m_get (db_projects d0) ''p'' = Some toy_row0"
    "Mutate toy toy_key 1000 d0 register = Inr (d1, e1, r1)" "m_get (db_projects d1) ''p'' = Some row1"
    "project toy (Agent_ev AgentRegister) reg (log_of e1) EmptyState = Inr (pj_state row1)"
    "le_entity_id (log_of e1) = ''o''"
    "Mutate toy toy_key 1000 d1 activate = Inr (toy_db, e2, r2)" "toy_db \<noteq> d1"
    "m_get (db_projects toy_db) ''p'' = Some row2" "pj_sequence row2 = 2" "pj_owner row2 = ''o''"
    "project toy (Agent_ev AgentActivate) act (log_of e2) (pj_state row1) = Inr (pj_state row2)"
    "le_entity_id (log_of e2) = ''o''" "holds_owner RoleOwner ''ACTIVE'' (pj_state row2)"
    "\<forall>x\<in>set (db_events toy_db). er_key x \<in> {''k1'', ''k2''}"
    "List.map er_project (db_events toy_db) = [''p'', ''p'']"
proof -
  let ?d0 = "\<lparr>db_projects = m_put ''p'' toy_row0 m_empty, db_events = []\<rparr>"
  have good0: "good toy ?d0"
    using toy_create good_step [OF good_empty] by blast
  obtain d1 e1 r1 row1 where one: "Mutate toy toy_key 1000 ?d0 register = Inr (d1, e1, r1)" "good toy d1"
    "m_get (db_projects d1) ''p'' = Some row1" "pj_sequence row1 = 1" "pj_owner row1 = ''o''"
    "project toy (Agent_ev AgentRegister) reg (log_of e1) EmptyState = Inr (pj_state row1)"
    "le_entity_id (log_of e1) = ''o''" "db_events d1 = [new_row e1 r1 (cm_signature register)]"
    "ce_idempotency_key e1 = ''k1''" "ce_project_id e1 = ''p''"
    using fresh_mutate [where priv = toy_key and clock = 1000 and c = register and row = toy_row0,
        OF good0 toy_codec _ toy_intent _ _ toy_payloads(7) toy_json] toy_admit_register by auto
  have h1: "holds_owner [] ''PENDING'' (pj_state row1)" using toy_registered [OF one(6,7)] .
  obtain d2 e2 r2 row2 where two: "Mutate toy toy_key 1000 d1 activate = Inr (d2, e2, r2)"
    "m_get (db_projects d2) ''p'' = Some row2" "pj_sequence row2 = 2" "pj_owner row2 = ''o''"
    "project toy (Agent_ev AgentActivate) act (log_of e2) (pj_state row1) = Inr (pj_state row2)"
    "le_entity_id (log_of e2) = ''o''"
    "db_events d2 = db_events d1 @ [new_row e2 r2 (cm_signature activate)]" "ce_idempotency_key e2 = ''k2''"
    "ce_project_id e2 = ''p''"
    using fresh_mutate [where priv = toy_key and clock = 1000 and c = activate and row = row1,
        OF one(2) toy_codec _ toy_intent _ _ toy_payloads(8) toy_json] toy_admit_activate [OF one(5,4) h1] one by auto
  have db: "toy_db = d2"
    using one(1) two(1) toy_create by (simp add: toy_db_def toy_requests_def step_def)
  have "d2 \<noteq> d1" using two(7) by auto
  moreover have "\<forall>x\<in>set (db_events d2). er_key x \<in> {''k1'', ''k2''}"
    using two(7,8) one(8,9) by auto
  moreover have "List.map er_project (db_events d2) = [''p'', ''p'']"
    using two(7,9) one(8,10) by simp
  ultimately show thesis
    using that [of ?d0 d1 e1 r1 row1 e2 r2 row2] toy_create one(1,3,6,7) two(1-6) toy_activated [OF two(5,6) h1]
    unfolding db by simp
qed

lemma toy_run:
  obtains d e r row where "Mutate toy toy_key 1000 d activate = Inr (toy_db, e, r)" "toy_db \<noteq> d"
    "m_get (db_projects toy_db) ''p'' = Some row" "pj_sequence row = 2" "pj_owner row = ''o''"
    "holds_owner RoleOwner ''ACTIVE'' (pj_state row)"
    "\<forall>x\<in>set (db_events toy_db). er_key x \<in> {''k1'', ''k2''}"
  using toy_stages by metis

subsection \<open>The theorems at this database\<close>

theorem stored_state_is_replay_witness:
  "\<exists>row. m_get (db_projects toy_db) ''p'' = Some row \<and> pj_sequence row = 2 \<and>
    replayVerifiedEvents toy ''p'' (history toy_db ''p'') 2 (pj_head row) = Inr (pj_state row)"
proof -
  obtain row where "m_get (db_projects toy_db) ''p'' = Some row" "pj_sequence row = 2"
    by (rule toy_run)
  with stored_state_is_replay [OF toy_reachable this(1)] show ?thesis by auto
qed

theorem admitted_command_commits_witness:
  "\<exists>d' e r. Mutate toy toy_key 1000 toy_db set_env = Inr (d', e, r) \<and>
    project_log d' ''p'' = project_log toy_db ''p'' @ [e]"
proof -
  obtain row where row: "m_get (db_projects toy_db) ''p'' = Some row"
    "holds_owner RoleOwner ''ACTIVE'' (pj_state row)"
    "\<forall>x\<in>set (db_events toy_db). er_key x \<in> {''k1'', ''k2''}"
    by (rule toy_run)
  have "replay toy_db ''p'' ''k3'' intent = Inr None" for intent
    using row(3) by (auto simp: replay_Inr)
  then show ?thesis
    using admitted_command_commits [where clock = 1000 and c = set_env and row = row,
        OF toy_reachable toy_codec _ toy_intent _ _ toy_payloads(9) toy_json] row toy_admit_env [OF row(2)] by auto
qed

theorem retry_returns_same_witness:
  "\<exists>d e r. Mutate toy toy_key 1000 d activate = Inr (toy_db, e, r) \<and>
    Mutate toy toy_key 5000 toy_db activate = Inr (toy_db, e, r)"
proof -
  obtain d e r where m: "Mutate toy toy_key 1000 d activate = Inr (toy_db, e, r)" by (rule toy_run)
  with retry_returns_same [OF m, of toy_db "[]" 5000] show ?thesis by auto
qed

theorem commit_is_signed_witness:
  "\<exists>d e r. Mutate toy toy_key 1000 d activate = Inr (toy_db, e, r) \<and> VerifyReceipt toy r toy_key"
proof -
  obtain d e r where m: "Mutate toy toy_key 1000 d activate = Inr (toy_db, e, r)" "toy_db \<noteq> d" by (rule toy_run)
  have "signs toy toy_key toy_key" by (simp add: signs_def toy_def toy_key_def)
  with commit_is_signed [OF m] m(1) show ?thesis by blast
qed

theorem orchestrator_grant_without_elevated_key_witness:
  "commandPublicKey grant_state (register\<lparr>cm_entity_id := ''b''\<rparr>) (Agent_ev AgentActivate)
     (grant_payload ''orchestrator'') = Inr ''everyday'' \<and>
   ValidateTransition toy grant_state ''o'' (Agent_ev AgentActivate) ''b'' (grant_payload ''orchestrator'') 9 =
     Inr (grant_payload RoleOrchestrator)"
proof -
  let ?p = "\<lparr>aa_role = ''orchestrator'', aa_capabilities = [], aa_scopes = [''*'']\<rparr>"
  have n: "normalizeRole ''orchestrator'' = RoleOrchestrator" by (simp add: normalizeRole_def text_eval)
  note v = grant_accepted [OF n, of toy]
  obtain a where "m_get (st_agents grant_state) ''o'' = Some a" "ag_elevated_public_key a \<noteq> []"
    "ag_public_key a = ''everyday''"
    by (simp add: grant_state_def m_lookup_update)
  with orchestrator_grant_without_elevated_key [of ?p grant_state "register\<lparr>cm_entity_id := ''b''\<rparr>" a toy 9]
    n v show ?thesis by (simp add: grant_payload_def)
qed

theorem owner_is_permanent_witness:
  "\<exists>row. m_get (db_projects (serve (step toy toy_key) toy_db [Submit 1000 set_env])) ''p'' = Some row \<and>
    standing (pj_state row) ''o'' = Some (RoleOwner, ''ACTIVE'')"
proof -
  obtain row where row: "m_get (db_projects toy_db) ''p'' = Some row"
    "holds_owner RoleOwner ''ACTIVE'' (pj_state row)" by (rule toy_run)
  then have "standing (pj_state row) ''o'' = Some (RoleOwner, ''ACTIVE'')"
    by (auto simp: holds_owner_def standing_def)
  from owner_is_permanent [OF toy_codec toy_reachable row(1) this] show ?thesis by blast
qed

theorem head_commits_to_log_witness:
  "\<exists>row. m_get (db_projects toy_db) ''p'' = Some row \<and> pj_sequence row = 2 \<and>
    List.map (hashed toy) (project_log toy_db ''p'') = List.map (hashed toy) (project_log toy_db ''p'')"
proof -
  obtain row where row: "m_get (db_projects toy_db) ''p'' = Some row" "pj_sequence row = 2" by (rule toy_run)
  have ids: "a = b" if "a \<in> set (project_log toy_db ''p'')" "b \<in> set (project_log toy_db ''p'')"
    "HashEvent toy a = HashEvent toy b" for a b
  proof -
    have ok: "log_ok toy ''p'' (project_log toy_db ''p'') (pj_sequence row) (pj_head row) (pj_state row)"
      using reachable_good [OF toy_reachable] row(1) by (simp add: good_def)
    from that(3) have "ce_id a = ce_id b"
      by (simp add: HashEvent_def json_or_empty_def toy_def event_form_def split: if_splits)
    moreover have "ce_id x = event_id (ce_sequence x)" if "x \<in> set (project_log toy_db ''p'')" for x
      using that reachable_good [OF toy_reachable] by (auto simp: good_def project_log_def)
    ultimately have "ce_sequence a = ce_sequence b" using that(1,2) by (metis event_id_inj)
    with that(1,2) show ?thesis
      using log_ok_nth [OF ok] log_ok_length [OF ok] by (auto simp: in_set_conv_nth)
  qed
  have "\<forall>s. sha256_hex toy s \<noteq> []" by (simp add: toy_def)
  with ids head_commits_to_log [OF toy_reachable row(1) toy_reachable row(1)] row show ?thesis by blast
qed

theorem pages_cover_log_witness:
  "\<exists>items. walk 3 toy toy_db ''p'' 1 [] = Some items \<and> List.map fst items = project_log toy_db ''p''"
proof -
  obtain row where row: "m_get (db_projects toy_db) ''p'' = Some row" "pj_sequence row = 2" by (rule toy_run)
  have "cursors_ok toy" by (simp add: cursors_ok_def toy_def dec_digits_nonempty)
  with pages_cover_log [OF toy_reachable row(1), of 1 3] row(2) show ?thesis by auto
qed

end
