(* ===== verification/Cache_Samples.thy ===== *)
theory Cache_Samples
  imports Mirror Samples
begin

text \<open>The theorems on the cache, at the sample project copied into an empty cache.\<close>

lemma toy_signs: "signs toy toy_key toy_key"
  by (simp add: signs_def toy_def toy_key_def)

lemma toy_not_legacy: "\<forall>e\<in>set (project_log toy_db ''p''). \<not> has_prefix (ce_idempotency_key e) ''legacy:''"
proof
  fix e assume "e \<in> set (project_log toy_db ''p'')"
  then obtain x where x: "x \<in> set (db_events toy_db)" "er_event x = e" by (auto simp: project_log_def)
  have "x = new_row (er_event x) (er_receipt x) (er_signature x)"
    using reachable_good [OF toy_reachable] x(1) by (simp add: good_def)
  then have "er_key x = ce_idempotency_key e" using x(2) by (metis new_row_sel(4))
  moreover obtain row where "m_get (db_projects toy_db) ''p'' = Some row"
    "\<forall>x\<in>set (db_events toy_db). er_key x \<in> {''k1'', ''k2''}" by (rule toy_run)
  ultimately have "ce_idempotency_key e = ''k1'' \<or> ce_idempotency_key e = ''k2''" using x(1) by fastforce
  then show "\<not> has_prefix (ce_idempotency_key e) ''legacy:''" by auto
qed

lemma empty_mirrors: "mirrors cr (project_log d k) k empty_cache 0"
  by (simp add: mirrors_def cache_rows_def empty_cache_def numbered_def loadProject_def log_ok.empty)

lemma apply_each_served:
  "apply_each cr key now recs c = (c', None) \<Longrightarrow>
   serve (feed cr key) c (List.map (\<lambda>(e, r). (now, e, r)) recs) = c'"
  by (induction cr key now recs c rule: apply_each.induct) (auto simp: feed_def split: sum.splits)

theorem cache_mirrors_authority_witness:
  "\<exists>c p row. apply_each toy toy_key 7 (List.map record_of (project_rows toy_db ''p'')) empty_cache = (c, None) \<and>
    m_get (ca_projects c) ''p'' = Some p \<and> cp_sequence p = 2 \<and>
    m_get (db_projects toy_db) ''p'' = Some row \<and> cp_state p = pj_state row"
proof -
  obtain row where row: "m_get (db_projects toy_db) ''p'' = Some row" "pj_sequence row = 2" by (rule toy_run)
  from cache_mirrors_authority [OF toy_reachable row(1) _ toy_signs toy_not_legacy empty_mirrors, of 0 7] row
  show ?thesis by auto
qed

text \<open>The same copy, for the theorems about a cache on its own.\<close>

lemma toy_cache:
  obtains c p inputs where "c = serve (feed toy toy_key) empty_cache inputs"
    "m_get (ca_projects c) ''p'' = Some p" "cp_sequence p = 2"
proof -
  obtain row where row: "m_get (db_projects toy_db) ''p'' = Some row" "pj_sequence row = 2" by (rule toy_run)
  from mirror_run [OF toy_reachable row(1) toy_signs toy_not_legacy empty_mirrors, of 0 7] row(2) obtain c where
    c: "apply_each toy toy_key 7 (List.map record_of (project_rows toy_db ''p'')) empty_cache = (c, None)"
    "mirrors toy (project_log toy_db ''p'') ''p'' c 2" by auto
  then obtain st h where "loadProject c ''p'' = (st, 2, h)" by (auto simp: mirrors_def)
  then obtain p where "m_get (ca_projects c) ''p'' = Some p" "cp_sequence p = 2"
    by (auto simp: loadProject_def split: option.splits)
  with that apply_each_served [OF c(1)] show thesis by metis
qed

theorem cache_holds_verified_history_witness:
  "\<exists>c p inputs. c = serve (feed toy toy_key) empty_cache inputs \<and> m_get (ca_projects c) ''p'' = Some p \<and>
    cp_sequence p = 2 \<and> cache_VerifyRange toy toy_key c ''p'' 0 0 = None"
proof -
  obtain c p inputs where c: "c = serve (feed toy toy_key) empty_cache inputs"
    "m_get (ca_projects c) ''p'' = Some p" "cp_sequence p = 2" by (rule toy_cache)
  from cache_holds_verified_history [OF c(1,2)] c show ?thesis by blast
qed

theorem rebuild_loses_project_witness:
  "\<exists>c p inputs c' failure. c = serve (feed toy toy_key) empty_cache inputs \<and>
    m_get (ca_projects c) ''p'' = Some p \<and> Rebuild toy toy_key 9 c ''p'' = (c', Some failure) \<and>
    cache_State c' ''p'' = refuse CodeOffline ''project is not available in the local cache''"
proof -
  obtain c p inputs where c: "c = serve (feed toy toy_key) empty_cache inputs"
    "m_get (ca_projects c) ''p'' = Some p" by (rule toy_cache)
  obtain c' failure where r: "Rebuild toy toy_key 9 c ''p'' = (c', failure)"
    by (cases "Rebuild toy toy_key 9 c ''p''")
  from rebuild_loses_project [OF c r] c r show ?thesis by blast
qed

theorem verify_accepts_foreign_receipts_witness:
  "\<exists>es r. length es = 2 \<and> (\<forall>e\<in>set es. rc_event_id r \<noteq> ce_id e) \<and>
    cache_VerifyRange toy toy_key \<lparr>ca_projects = m_empty, ca_events = List.map (\<lambda>e. \<lparr>cw_project = ''p'',
      cw_sequence = ce_sequence e, cw_event = e, cw_receipt = r\<rparr>) es\<rparr> ''p'' 0 0 = None"
proof -
  obtain row where row: "m_get (db_projects toy_db) ''p'' = Some row" "pj_sequence row = 2" by (rule toy_run)
  have good: "good toy toy_db" by (rule reachable_good [OF toy_reachable])
  with row(1) have log: "log_ok toy ''p'' (project_log toy_db ''p'') (pj_sequence row) (pj_head row) (pj_state row)"
    by (simp add: good_def)
  let ?r = "SignReceipt toy toy_key \<lparr>rc_project_id = ''x'', rc_sequence = 9, rc_event_id = ''other'',
    rc_event_hash = ''h'', rc_actor_intent_hash = [], rc_committed_at = 1, rc_key_fingerprint = [], rc_signature = []\<rparr>"
  have "VerifyReceipt toy ?r toy_key" by (rule SignReceipt_verifies [OF toy_signs])
  note verify_accepts_foreign_receipts [OF log this toy_not_legacy]
  moreover have "rc_event_id ?r \<noteq> ce_id e" if "e \<in> set (project_log toy_db ''p'')" for e
    using that good by (auto simp: good_def project_log_def event_id_def)
  moreover have "length (project_log toy_db ''p'') = 2" using log_ok_length [OF log] row(2) by simp
  ultimately show ?thesis by blast
qed

end
