(* ===== verification/Tables.thy ===== *)
theory Tables
  imports Engine
begin

text \<open>
  \<open>internal/authority/postgres_projection.go\<close>: the team authority keeps a project's state as rows, one
  table per kind of entity, and after each event writes the entities that changed. A row is the value
  of its state column with the sequence that wrote it; the other columns (status, owner, \<dots>) are
  functions of the value and serve the indexes, of which two refuse a write: the unique index on the
  worktree of active tasks and the check on the number of a delivery attempt. Foreign keys hold because
  the validator only accepts deliveries of existing invocations, and are left out.
\<close>

type_synonym 'v table = "('v \<times> nat) gmap"

record actor_key =
  ak_actor :: string
  ak_fingerprint :: string
  ak_public_key :: string
  ak_valid_from :: nat

record tables =
  tb_settings :: "(project_settings \<times> nat) option"
  tb_agents :: "agent table"
  tb_keys :: "actor_key list"
  tb_tasks :: "task table"
  tb_resources :: "((string \<times> string) \<times> bool) list"
  tb_messages :: "message table"
  tb_recipients :: "((string \<times> string) \<times> (string \<times> time option)) list"
  tb_invocations :: "invocation table"
  tb_deliveries :: "delivery table"
  tb_runtimes :: "runtime table"
  tb_policies :: "policy table"
  tb_approvals :: "approval table"
  tb_documents :: "document table"
  tb_artifacts :: "artifact table"
  tb_env :: "env_entry table"
  tb_providers :: "provider table"

definition no_tables :: tables where
  "no_tables = \<lparr>tb_settings = None, tb_agents = m_empty, tb_keys = [], tb_tasks = m_empty, tb_resources = [],
     tb_messages = m_empty, tb_recipients = [], tb_invocations = m_empty, tb_deliveries = m_empty,
     tb_runtimes = m_empty, tb_policies = m_empty, tb_approvals = m_empty, tb_documents = m_empty,
     tb_artifacts = m_empty, tb_env = m_empty, tb_providers = m_empty\<rparr>"

definition zero_artifact :: artifact where
  "zero_artifact = \<lparr>af_created_at = 0, af_created_sequence = 0, af_sha256 = [], af_size = 0, af_name = [],
     af_media_type = [], af_storage = []\<rparr>"

subsection \<open>Loading\<close>

definition loadProjection :: "'v table \<Rightarrow> 'v gmap" where
  "loadProjection t = fold (\<lambda>(k, v, _). m_put k v) (m_entries t) m_empty"

definition loadState :: "tables \<Rightarrow> state" where
  "loadState tb =
     EmptyState\<lparr>st_agents := loadProjection (tb_agents tb), st_tasks := loadProjection (tb_tasks tb),
       st_messages := loadProjection (tb_messages tb), st_invocations := loadProjection (tb_invocations tb),
       st_deliveries := loadProjection (tb_deliveries tb), st_runtimes := loadProjection (tb_runtimes tb),
       st_policies := loadProjection (tb_policies tb), st_approvals := loadProjection (tb_approvals tb),
       st_documents := loadProjection (tb_documents tb), st_artifacts := loadProjection (tb_artifacts tb),
       st_env := loadProjection (tb_env tb), st_providers := loadProjection (tb_providers tb),
       st_settings := (case tb_settings tb of None \<Rightarrow> st_settings EmptyState | Some (s, _) \<Rightarrow> s)\<rparr>"

subsection \<open>Writing what changed\<close>

text \<open>\<open>for id, value := range after { if DeepEqual(before[id], value) { continue } \<dots> }\<close>\<close>

definition changed :: "'v \<Rightarrow> 'v gmap \<Rightarrow> 'v gmap \<Rightarrow> (string \<times> 'v) list" where
  "changed zero before_map after_map = List.filter (\<lambda>(k, v). m_read zero before_map k \<noteq> v) (m_entries after_map)"

fun each :: "('e \<Rightarrow> 'a \<Rightarrow> fault + 'a) \<Rightarrow> 'e list \<Rightarrow> 'a \<Rightarrow> fault + 'a" where
  "each f [] a = Inr a"
| "each f (x # xs) a = and_then (f x a) (each f xs)"

definition persist_rows :: "nat \<Rightarrow> (string \<times> 'v) list \<Rightarrow> 'v table \<Rightarrow> 'v table" where
  "persist_rows sequence = fold (\<lambda>(k, v). m_put k (v, sequence))"

definition upsertAgent :: "crypto \<Rightarrow> nat \<Rightarrow> agent \<Rightarrow> tables \<Rightarrow> tables" where
  "upsertAgent cr sequence a tb =
     (let tb = tb\<lparr>tb_agents := m_put (ag_id a) (a, sequence) (tb_agents tb)\<rparr>
      in if ag_public_key a \<noteq> [] \<and>
            \<not> list_ex (\<lambda>k. ak_actor k = ag_id a \<and> ak_valid_from k = sequence) (tb_keys tb)
         then tb\<lparr>tb_keys := tb_keys tb @ [\<lparr>ak_actor = ag_id a, ak_fingerprint = Fingerprint cr (ag_public_key a),
                ak_public_key = ag_public_key a, ak_valid_from = sequence\<rparr>]\<rparr>
         else tb)"

definition task_active :: "task \<Rightarrow> bool" where
  "task_active t = (\<not> tk_archived t \<and> tk_status t \<noteq> ''COMPLETED'' \<and> tk_status t \<noteq> ''CANCELLED'')"

definition worktree_taken :: "task table \<Rightarrow> task \<Rightarrow> bool" where
  "worktree_taken ts t =
     (tk_worktree t \<noteq> [] \<and> task_active t \<and>
      list_ex (\<lambda>(k, v, _). k \<noteq> tk_id t \<and> tk_worktree v = tk_worktree t \<and> task_active v) (m_entries ts))"

definition upsertTask :: "nat \<Rightarrow> task \<Rightarrow> tables \<Rightarrow> fault + tables" where
  "upsertTask sequence t tb =
     fail_if (worktree_taken (tb_tasks tb) t)
       (Plain (Err ''duplicate key value violates unique constraint tasks_active_worktree_idx''))
     (let marked = List.map (\<lambda>((k, r), a). ((k, r), if k = tk_id t then task_active t else a)) (tb_resources tb)
      in Inr (tb\<lparr>tb_tasks := m_put (tk_id t) (t, sequence) (tb_tasks tb),
           tb_resources := fold (\<lambda>r. AList.update (tk_id t, r) (task_active t)) (tk_resources t) marked\<rparr>))"

definition persist_message :: "nat \<Rightarrow> string \<times> message \<Rightarrow> tables \<Rightarrow> tables" where
  "persist_message sequence km tb =
     (case km of (k, m) \<Rightarrow>
        tb\<lparr>tb_messages := m_put k (m, sequence) (tb_messages tb),
           tb_recipients := fold (\<lambda>r. AList.update (k, rs_principal r) (rs_status r, rs_at r))
             (ms_recipients m) (tb_recipients tb)\<rparr>)"

definition persist_delivery :: "nat \<Rightarrow> string \<times> delivery \<Rightarrow> tables \<Rightarrow> fault + tables" where
  "persist_delivery sequence kd tb =
     (case kd of (k, d) \<Rightarrow>
        fail_if (\<not> (0 < dl_attempt d \<and> dl_attempt d \<le> 10))
          (Plain (Err ''new row for relation invocation_deliveries violates check constraint''))
        (Inr (tb\<lparr>tb_deliveries := m_put k (d, sequence) (tb_deliveries tb)\<rparr>)))"

definition persist_agents :: "crypto \<Rightarrow> nat \<Rightarrow> state \<Rightarrow> state \<Rightarrow> tables \<Rightarrow> tables" where
  "persist_agents cr sequence old st tb =
     (let tb = (if st_settings old \<noteq> st_settings st then tb\<lparr>tb_settings := Some (st_settings st, sequence)\<rparr> else tb);
          tb = fold (\<lambda>(_, a). upsertAgent cr sequence a) (changed zero_agent (st_agents old) (st_agents st)) tb;
          gone = List.filter (\<lambda>k. \<not> m_has (st_agents st) k) (List.map fst (m_entries (st_agents old)))
      in tb\<lparr>tb_agents := fold m_del gone (tb_agents tb)\<rparr>)"

definition persist_work :: "nat \<Rightarrow> state \<Rightarrow> state \<Rightarrow> tables \<Rightarrow> fault + tables" where
  "persist_work sequence old st tb =
     and_then (each (\<lambda>(_, t). upsertTask sequence t) (changed zero_task (st_tasks old) (st_tasks st)) tb) (\<lambda>tb.
     let tb = fold (persist_message sequence) (changed zero_message (st_messages old) (st_messages st)) tb;
         tb = tb\<lparr>tb_invocations := persist_rows sequence
           (changed zero_invocation (st_invocations old) (st_invocations st)) (tb_invocations tb)\<rparr>
     in each (persist_delivery sequence) (changed zero_delivery (st_deliveries old) (st_deliveries st)) tb)"

definition persist_rest :: "nat \<Rightarrow> state \<Rightarrow> state \<Rightarrow> tables \<Rightarrow> tables" where
  "persist_rest sequence old st tb = tb\<lparr>
     tb_runtimes := persist_rows sequence (changed zero_runtime (st_runtimes old) (st_runtimes st)) (tb_runtimes tb),
     tb_policies := persist_rows sequence (changed zero_policy (st_policies old) (st_policies st)) (tb_policies tb),
     tb_approvals := persist_rows sequence (changed zero_approval (st_approvals old) (st_approvals st)) (tb_approvals tb),
     tb_documents := persist_rows sequence (changed zero_document (st_documents old) (st_documents st)) (tb_documents tb),
     tb_artifacts := persist_rows sequence (changed zero_artifact (st_artifacts old) (st_artifacts st)) (tb_artifacts tb),
     tb_env := persist_rows sequence (changed zero_env_entry (st_env old) (st_env st)) (tb_env tb),
     tb_providers := persist_rows sequence (changed zero_provider (st_providers old) (st_providers st)) (tb_providers tb)\<rparr>"

definition persistProjectionChanges ::
  "crypto \<Rightarrow> nat \<Rightarrow> state \<Rightarrow> state \<Rightarrow> tables \<Rightarrow> fault + tables" where
  "persistProjectionChanges cr sequence old st tb =
     and_then (persist_work sequence old st (persist_agents cr sequence old st tb)) (\<lambda>tb.
     Inr (persist_rest sequence old st tb))"

end
