(* ===== verification/Tables_Facts.thy ===== *)
theory Tables_Facts
  imports Tables Engine_Safety
begin

text \<open>
  What the rows of the team authority hold after an event: reloading them gives the state the projection
  computed, entity by entity and in the same order, as long as the event deletes no environment entry and
  no runtime and the two constraints of the schema accept it.
\<close>

subsection \<open>Reading a table back\<close>

definition values_of :: "(string \<times> 'v \<times> nat) list \<Rightarrow> (string \<times> 'v) list" where
  "values_of = List.map (\<lambda>(k, v, _). (k, v))"

lemma values_keys: "List.map fst (values_of xs) = List.map fst xs"
  by (induction xs) (auto simp: values_of_def)

lemma update_new: "k \<notin> fst ` set xs \<Longrightarrow> AList.update k v xs = xs @ [(k, v)]"
  by (induction xs) auto

lemma fold_put_keeps: "distinct (List.map fst (m_entries m) @ List.map fst xs) \<Longrightarrow>
    m_entries (fold (\<lambda>(k, v, _). m_put k v) xs m) = m_entries m @ values_of xs"
proof (induction xs arbitrary: m)
  case (Cons x xs)
  obtain k v n where x: "x = (k, v, n)" by (cases x)
  have "AList.update k v (m_entries m) = m_entries m @ [(k, v)]"
    using Cons.prems by (intro update_new) (simp add: x)
  then have e: "m_entries (m_put k v m) = m_entries m @ [(k, v)]" by simp
  have "m_entries (fold (\<lambda>(k, v, _). m_put k v) xs (m_put k v m)) = m_entries (m_put k v m) @ values_of xs"
    by (rule Cons.IH) (use Cons.prems in \<open>auto simp: e x simp del: m_entries_put\<close>)
  then show ?case unfolding x e by (simp add: values_of_def)
qed (simp add: values_of_def)

lemma entries_load: "m_entries (loadProjection t) = values_of (m_entries t)"
  using fold_put_keeps [of m_empty "m_entries t"] by (simp add: loadProjection_def)

lemma get_load: "m_get (loadProjection t) k = map_option fst (m_get t k)"
proof -
  have "map_of (values_of xs) k = map_option fst (map_of xs k)" for xs
    by (induction xs) (auto simp: values_of_def)
  then show ?thesis by (simp add: m_get_entries entries_load)
qed

lemma gmap_ext:
  assumes "List.map fst (m_entries m) = List.map fst (m_entries m')" and "\<And>k. m_get m k = m_get m' k"
  shows "m = m'"
proof -
  have "m_entries m = m_entries m'"
  proof (rule nth_equalityI)
    show len: "length (m_entries m) = length (m_entries m')" by (metis assms(1) length_map)
    fix i assume i: "i < length (m_entries m)"
    obtain k v where kv: "m_entries m ! i = (k, v)" by (cases "m_entries m ! i")
    obtain k' v' where kv': "m_entries m' ! i = (k', v')" by (cases "m_entries m' ! i")
    have "k = k'" using assms(1) i len kv kv' by (metis fst_conv nth_map)
    moreover have "m_get m k = Some v" "m_get m' k' = Some v'"
      using i len kv kv' by (metis m_entries_get nth_mem)+
    ultimately show "m_entries m ! i = m_entries m' ! i" using assms(2) kv kv' by simp
  qed
  then show ?thesis by (simp add: DAList.alist_eq_iff)
qed

subsection \<open>Maps that only grow\<close>

abbreviation keys_of :: "'v gmap \<Rightarrow> string list" where
  "keys_of m \<equiv> List.map fst (m_entries m)"

text \<open>The old keys stay, in their order, and new ones come after them.\<close>

definition extends :: "'v gmap \<Rightarrow> 'v gmap \<Rightarrow> bool" where
  "extends m m' = prefix (keys_of m) (keys_of m')"

lemma extends_refl [simp, intro]: "extends m m"
  by (simp add: extends_def)

lemma extends_trans [trans]: "extends m m' \<Longrightarrow> extends m' m'' \<Longrightarrow> extends m m''"
  unfolding extends_def by (rule prefix_order.trans)

lemma extends_put [simp, intro]: "extends m (m_put k v m)"
  by (simp add: extends_def update_keys)

lemma extends_write [simp, intro]: "extends m (m_write z f k m)"
  by (simp add: m_write_def)

lemma extends_adjust [simp, intro]: "extends m (m_adjust f k m)"
  by (simp add: m_adjust_def split: option.split)

lemma keys_map [simp]: "keys_of (m_map f m) = keys_of m"
  by (simp add: m_entries_map comp_def case_prod_unfold)

lemma extends_map [simp, intro]: "extends m (m_map f m)"
  by (simp add: extends_def)

lemma has_keys: "m_has m k \<longleftrightarrow> k \<in> set (keys_of m)"
  by (metis DAList.lookup.rep_eq m_has_def map_of_eq_None_iff list.set_map)

lemma keys_distinct: "distinct (keys_of m)"
  by (rule DAList.impl_of_distinct)


subsection \<open>Writing the changed entries\<close>

text \<open>A new entry must differ from the zero value, which is how the code reads a missing entry.\<close>

definition fresh_nonzero :: "'v \<Rightarrow> 'v gmap \<Rightarrow> 'v gmap \<Rightarrow> bool" where
  "fresh_nonzero zero m m' = list_all (\<lambda>(k, v). m_has m k \<or> v \<noteq> zero) (m_entries m')"

lemma changed_set: "(k, v) \<in> set (changed zero m m') \<longleftrightarrow> m_get m' k = Some v \<and> m_read zero m k \<noteq> v"
  by (auto simp: changed_def m_entries_get)

lemma changed_distinct: "distinct (List.map fst (changed zero m m'))"
  unfolding changed_def by (rule distinct_map_filter) (rule keys_distinct)

lemma persist_rows_get: "distinct (List.map fst xs) \<Longrightarrow> m_get (persist_rows n xs t) k =
    (case map_of xs k of None \<Rightarrow> m_get t k | Some v \<Rightarrow> Some (v, n))"
proof (induction xs arbitrary: t)
  case (Cons x xs)
  obtain j v where x: "x = (j, v)" by (cases x)
  have step: "persist_rows n ((j, v) # xs) t = persist_rows n xs (m_put j (v, n) t)"
    by (simp add: persist_rows_def)
  have "map_of xs j = None" using Cons.prems by (simp add: x map_of_eq_None_iff)
  then show ?case
    using Cons.prems by (auto simp: x step Cons.IH m_get_put split: option.split)
qed (simp add: persist_rows_def)

lemma persist_rows_keys: "distinct (List.map fst xs) \<Longrightarrow>
    keys_of (persist_rows n xs t) = keys_of t @ List.filter (\<lambda>k. \<not> m_has t k) (List.map fst xs)"
proof (induction xs arbitrary: t)
  case (Cons x xs)
  obtain j v where x: "x = (j, v)" by (cases x)
  have step: "persist_rows n ((j, v) # xs) t = persist_rows n xs (m_put j (v, n) t)"
    by (simp add: persist_rows_def)
  have "List.filter (\<lambda>k. \<not> m_has (m_put j (v, n) t) k) (List.map fst xs) =
      List.filter (\<lambda>k. \<not> m_has t k) (List.map fst xs)"
    using Cons.prems by (intro filter_cong) (auto simp: x m_has_def m_get_put)
  then show ?case
    using Cons.prems by (auto simp: x step Cons.IH update_keys has_keys)
qed (simp add: persist_rows_def)

lemma changed_new_keys:
  assumes "fresh_nonzero zero m m'"
  shows "List.filter (\<lambda>k. \<not> m_has m k) (List.map fst (changed zero m m')) =
    List.filter (\<lambda>k. \<not> m_has m k) (keys_of m')"
proof -
  have "List.filter (\<lambda>k. \<not> m_has m k) (List.map fst (List.filter (\<lambda>(k, v). m_read zero m k \<noteq> v) xs)) =
      List.filter (\<lambda>k. \<not> m_has m k) (List.map fst xs)"
    if "list_all (\<lambda>(k, v). m_has m k \<or> v \<noteq> zero) xs" for xs
    using that by (induction xs) (auto simp: m_has_def m_read_def split: option.splits)
  with assms show ?thesis by (simp add: changed_def fresh_nonzero_def)
qed

lemma extends_keys: "extends m m' \<Longrightarrow> keys_of m' = keys_of m @ List.filter (\<lambda>k. \<not> m_has m k) (keys_of m')"
proof -
  assume "extends m m'"
  then obtain ks where ks: "keys_of m' = keys_of m @ ks" by (auto simp: extends_def prefix_def)
  moreover have "distinct (keys_of m @ ks)" by (metis ks keys_distinct)
  then have "List.filter (\<lambda>k. \<not> m_has m k) ks = ks" "List.filter (\<lambda>k. \<not> m_has m k) (keys_of m) = []"
    by (auto simp: has_keys filter_id_conv filter_empty_conv)
  ultimately show ?thesis by simp
qed

lemma extends_has: "extends m m' \<Longrightarrow> m_has m k \<Longrightarrow> m_has m' k"
  unfolding extends_def has_keys by (meson set_mono_prefix subsetD)

text \<open>The law of a table: if it held the old map, it now holds the new one.\<close>

lemma persist_reloads:
  assumes "extends m m'" "fresh_nonzero zero m m'" and old: "loadProjection t = m"
  shows "loadProjection (persist_rows n (changed zero m m') t) = m'"
proof (rule gmap_ext)
  let ?xs = "changed zero m m'"
  have kt: "keys_of t = keys_of m" using values_keys by (metis entries_load old)
  then have "m_has t = m_has m" by (simp add: fun_eq_iff has_keys)
  then have "keys_of (persist_rows n ?xs t) = keys_of m'"
    using extends_keys [OF assms(1)] changed_new_keys [OF assms(2)]
    by (simp add: persist_rows_keys changed_distinct kt)
  then show "keys_of (loadProjection (persist_rows n ?xs t)) = keys_of m'"
    by (simp add: entries_load values_keys)
  fix k
  have gt: "map_option fst (m_get t k) = m_get m k" using get_load old by metis
  show "m_get (loadProjection (persist_rows n ?xs t)) k = m_get m' k"
  proof (cases "map_of ?xs k")
    case None
    then have no: "\<nexists>v. (k, v) \<in> set ?xs" by (auto simp: map_of_eq_None_iff image_iff)
    have "m_get m k = m_get m' k"
    proof (cases "m_get m' k")
      case None
      then show ?thesis using extends_has [OF assms(1), of k] by (cases "m_get m k") (auto simp: m_has_def)
    next
      case (Some v)
      then have r: "m_read zero m k = v" using no by (auto simp: changed_set)
      have "m_has m k \<or> v \<noteq> zero"
        using assms(2) Some by (fastforce simp: fresh_nonzero_def list_all_iff m_entries_get [symmetric])
      with r Some show ?thesis by (auto simp: m_has_def m_read_def split: option.splits)
    qed
    with None gt show ?thesis by (simp add: get_load persist_rows_get changed_distinct)
  next
    case (Some v)
    then have "m_get m' k = Some v" by (meson changed_set map_of_SomeD)
    with Some show ?thesis by (simp add: get_load persist_rows_get changed_distinct)
  qed
qed


subsection \<open>One write at a time\<close>

lemma upsertAgent_form:
  "\<exists>ks. upsertAgent cr n a tb = tb\<lparr>tb_agents := m_put (ag_id a) (a, n) (tb_agents tb), tb_keys := ks\<rparr>"
  by (cases tb) (simp add: upsertAgent_def Let_def)

lemma upsertTask_form: "upsertTask n t tb = Inr tb' \<longleftrightarrow>
    \<not> worktree_taken (tb_tasks tb) t \<and>
    tb' = tb\<lparr>tb_tasks := m_put (tk_id t) (t, n) (tb_tasks tb), tb_resources := tb_resources tb'\<rparr> \<and>
    tb_resources tb' = fold (\<lambda>r. AList.update (tk_id t, r) (task_active t)) (tk_resources t)
      (List.map (\<lambda>((k, r), a). ((k, r), if k = tk_id t then task_active t else a)) (tb_resources tb))"
  by (auto simp: upsertTask_def Let_def)

lemma persist_message_form:
  "\<exists>rs. persist_message n (k, m) tb = tb\<lparr>tb_messages := m_put k (m, n) (tb_messages tb), tb_recipients := rs\<rparr>"
  by (cases tb) (simp add: persist_message_def)

lemma persist_rows_simps [simp]:
  "persist_rows n [] t = t" "persist_rows n ((k, v) # xs) t = persist_rows n xs (m_put k (v, n) t)"
  by (simp_all add: persist_rows_def)

lemma upsertAgents_form:
  "\<exists>ks. fold (\<lambda>(_, a). upsertAgent cr n a) xs tb =
     tb\<lparr>tb_agents := persist_rows n (List.map (\<lambda>(_, a). (ag_id a, a)) xs) (tb_agents tb), tb_keys := ks\<rparr>"
proof (induction xs arbitrary: tb)
  case Nil
  show ?case by (cases tb) simp
next
  case (Cons x xs)
  obtain k a where x: "x = (k, a)" by (cases x)
  obtain ks where u: "upsertAgent cr n a tb = tb\<lparr>tb_agents := m_put (ag_id a) (a, n) (tb_agents tb), tb_keys := ks\<rparr>"
    using upsertAgent_form by blast
  from Cons.IH [of "upsertAgent cr n a tb"] show ?case
    by (simp add: x u)
qed

lemma each_tasks_form:
  "each (\<lambda>(_, t). upsertTask n t) xs tb = Inr tb' \<Longrightarrow>
   \<exists>rs. tb' = tb\<lparr>tb_tasks := persist_rows n (List.map (\<lambda>(_, t). (tk_id t, t)) xs) (tb_tasks tb), tb_resources := rs\<rparr>"
proof (induction xs arbitrary: tb)
  case Nil
  then have "tb' = tb" by simp
  then show ?case by (cases tb) simp
next
  case (Cons x xs)
  obtain k t where x: "x = (k, t)" by (cases x)
  from Cons.prems obtain tb1 where 1: "each (\<lambda>(_, t). upsertTask n t) xs tb1 = Inr tb'" "upsertTask n t tb = Inr tb1"
    by (auto simp: x)
  then have "tb1 = tb\<lparr>tb_tasks := m_put (tk_id t) (t, n) (tb_tasks tb), tb_resources := tb_resources tb1\<rparr>"
    using upsertTask_form by blast
  then obtain rs where 2: "tb1 = tb\<lparr>tb_tasks := m_put (tk_id t) (t, n) (tb_tasks tb), tb_resources := rs\<rparr>" ..
  from Cons.IH [OF 1(1)] show ?case by (simp add: x 2)
qed

lemma persist_messages_form:
  "\<exists>rs. fold (persist_message n) xs tb =
     tb\<lparr>tb_messages := persist_rows n xs (tb_messages tb), tb_recipients := rs\<rparr>"
proof (induction xs arbitrary: tb)
  case Nil
  show ?case by (cases tb) simp
next
  case (Cons x xs)
  obtain k m where x: "x = (k, m)" by (cases x)
  obtain rs where u: "persist_message n (k, m) tb = tb\<lparr>tb_messages := m_put k (m, n) (tb_messages tb), tb_recipients := rs\<rparr>"
    using persist_message_form by blast
  from Cons.IH [of "persist_message n (k, m) tb"] show ?case
    by (simp add: u x)
qed

definition attempts_fit :: "(string \<times> delivery) list \<Rightarrow> bool" where
  "attempts_fit = list_all (\<lambda>(_, d). 0 < dl_attempt d \<and> dl_attempt d \<le> 10)"

lemma persist_delivery_form: "persist_delivery n (k, d) tb = Inr tb' \<longleftrightarrow> 0 < dl_attempt d \<and> dl_attempt d \<le> 10 \<and>
    tb' = tb\<lparr>tb_deliveries := m_put k (d, n) (tb_deliveries tb)\<rparr>"
  by (auto simp: persist_delivery_def)

lemma each_deliveries_form:
  "each (persist_delivery n) xs tb = Inr tb' \<longleftrightarrow>
   attempts_fit xs \<and> tb' = tb\<lparr>tb_deliveries := persist_rows n xs (tb_deliveries tb)\<rparr>"
proof (induction xs arbitrary: tb)
  case Nil
  show ?case by (cases tb) (auto simp: attempts_fit_def)
next
  case (Cons x xs)
  obtain k d where x: "x = (k, d)" by (cases x)
  show ?case by (auto simp: x persist_delivery_form Cons.IH attempts_fit_def)
qed

text \<open>No other active task, old or new, uses the worktree of a task that is written.\<close>

definition worktrees_free :: "task gmap \<Rightarrow> task gmap \<Rightarrow> bool" where
  "worktrees_free m m' =
     list_all (\<lambda>(k, t). tk_worktree t = [] \<or> \<not> task_active t \<or>
        \<not> list_ex (\<lambda>(j, u). j \<noteq> k \<and> tk_worktree u = tk_worktree t \<and> task_active u) (m_entries m @ m_entries m'))
       (changed zero_task m m')"

lemma each_tasks_succeeds:
  assumes "\<forall>(k, t)\<in>set xs. tk_id t = k \<and> (k, t) \<in> A \<and>
      (tk_worktree t = [] \<or> \<not> task_active t \<or>
       (\<forall>(j, u)\<in>A. j \<noteq> k \<longrightarrow> tk_worktree u = tk_worktree t \<longrightarrow> \<not> task_active u))"
    and "\<forall>j u i. m_get (tb_tasks tb) j = Some (u, i) \<longrightarrow> (j, u) \<in> A"
  shows "\<exists>tb'. each (\<lambda>(_, t). upsertTask n t) xs tb = Inr tb'"
  using assms
proof (induction xs arbitrary: tb)
  case (Cons x xs)
  obtain k t where x: "x = (k, t)" by (cases x)
  have t: "tk_id t = k" "(k, t) \<in> A" and free: "tk_worktree t = [] \<or> \<not> task_active t \<or>
      (\<forall>(j, u)\<in>A. j \<noteq> k \<longrightarrow> tk_worktree u = tk_worktree t \<longrightarrow> \<not> task_active u)"
    using Cons.prems(1) by (auto simp: x)
  have "\<not> worktree_taken (tb_tasks tb) t"
  proof
    assume "worktree_taken (tb_tasks tb) t"
    then obtain j u i where "m_get (tb_tasks tb) j = Some (u, i)" "j \<noteq> k" "tk_worktree u = tk_worktree t"
      "task_active u" "tk_worktree t \<noteq> []" "task_active t"
      by (auto simp: worktree_taken_def list_ex_iff m_entries_get t(1))
    moreover from this(1) Cons.prems(2) have "(j, u) \<in> A" by blast
    ultimately show False using free by blast
  qed
  then obtain tb1 where u: "upsertTask n t tb = Inr tb1" "tb_tasks tb1 = m_put k (t, n) (tb_tasks tb)"
    by (simp add: upsertTask_def Let_def t(1))
  have "\<forall>j v i. m_get (tb_tasks tb1) j = Some (v, i) \<longrightarrow> (j, v) \<in> A"
    using Cons.prems(2) t(2) by (simp add: u(2) m_get_put)
  moreover have "\<forall>(k, t)\<in>set xs. tk_id t = k \<and> (k, t) \<in> A \<and>
      (tk_worktree t = [] \<or> \<not> task_active t \<or>
       (\<forall>(j, u)\<in>A. j \<noteq> k \<longrightarrow> tk_worktree u = tk_worktree t \<longrightarrow> \<not> task_active u))"
    using Cons.prems(1) by simp
  ultimately have "\<exists>tb'. each (\<lambda>(_, t). upsertTask n t) xs tb1 = Inr tb'" by (rule Cons.IH [rotated])
  with u(1) show ?case by (simp add: x)
qed simp


subsection \<open>The whole state\<close>

definition agents_step :: "agent gmap \<Rightarrow> agent gmap \<Rightarrow> bool" where
  "agents_step m m' \<longleftrightarrow> extends m m' \<or> (\<exists>k. m' = m_del k m)"

text \<open>What the projection does to the maps: all but three of them only grow, in order.\<close>

definition ordered_step :: "state \<Rightarrow> state \<Rightarrow> bool" where
  "ordered_step s s' \<longleftrightarrow>
     agents_step (st_agents s) (st_agents s') \<and>
     (extends (st_env s) (st_env s') \<or> (\<exists>k. st_env s' = m_del k (st_env s))) \<and>
     (extends (st_runtimes s) (st_runtimes s') \<or> (\<exists>k. st_runtimes s' = m_del k (st_runtimes s))) \<and>
     extends (st_tasks s) (st_tasks s') \<and> extends (st_messages s) (st_messages s') \<and>
     extends (st_invocations s) (st_invocations s') \<and> extends (st_deliveries s) (st_deliveries s') \<and>
     extends (st_policies s) (st_policies s') \<and> extends (st_approvals s) (st_approvals s') \<and>
     extends (st_documents s) (st_documents s') \<and> extends (st_artifacts s) (st_artifacts s') \<and>
     extends (st_providers s) (st_providers s') \<and> st_integrity s' = st_integrity s"

text \<open>What the rows can express: the conditions under which nothing is lost or refused.\<close>

definition all_kept :: "'v gmap \<Rightarrow> 'v gmap \<Rightarrow> bool" where
  "all_kept m m' = list_all (m_has m') (keys_of m)"

definition storable :: "state \<Rightarrow> state \<Rightarrow> bool" where
  "storable s s' \<longleftrightarrow>
     all_kept (st_env s) (st_env s') \<and> all_kept (st_runtimes s) (st_runtimes s') \<and>
     worktrees_free (st_tasks s) (st_tasks s') \<and>
     attempts_fit (changed zero_delivery (st_deliveries s) (st_deliveries s')) \<and>
     list_all (\<lambda>(k, a). ag_id a = k) (changed zero_agent (st_agents s) (st_agents s')) \<and>
     list_all (\<lambda>(k, t). tk_id t = k) (changed zero_task (st_tasks s) (st_tasks s')) \<and>
     fresh_nonzero zero_agent (st_agents s) (st_agents s') \<and>
     fresh_nonzero zero_task (st_tasks s) (st_tasks s') \<and>
     fresh_nonzero zero_message (st_messages s) (st_messages s') \<and>
     fresh_nonzero zero_invocation (st_invocations s) (st_invocations s') \<and>
     fresh_nonzero zero_delivery (st_deliveries s) (st_deliveries s') \<and>
     fresh_nonzero zero_runtime (st_runtimes s) (st_runtimes s') \<and>
     fresh_nonzero zero_policy (st_policies s) (st_policies s') \<and>
     fresh_nonzero zero_approval (st_approvals s) (st_approvals s') \<and>
     fresh_nonzero zero_document (st_documents s) (st_documents s') \<and>
     fresh_nonzero zero_artifact (st_artifacts s) (st_artifacts s') \<and>
     fresh_nonzero zero_env_entry (st_env s) (st_env s') \<and>
     fresh_nonzero zero_provider (st_providers s) (st_providers s')"

lemma m_del_absent: "\<not> m_has m k \<Longrightarrow> m_del k m = m"
  by (simp add: DAList.alist_eq_iff has_keys delete_id)

lemma all_kept_extends: "extends m m' \<or> (\<exists>k. m' = m_del k m) \<Longrightarrow> all_kept m m' \<Longrightarrow> extends m m'"
proof (elim disjE exE)
  fix k assume "m' = m_del k m" "all_kept m m'"
  then have "\<not> m_has m k"
    unfolding all_kept_def list_all_iff by (metis has_keys m_get_del m_has_def)
  with \<open>m' = m_del k m\<close> show "extends m m'" by (simp add: m_del_absent)
qed

lemma keyed_map: "list_all (\<lambda>(k, v). key v = k) xs \<Longrightarrow> List.map (\<lambda>(_, v). (key v, v)) xs = xs"
  by (induction xs) auto

lemma load_del: "loadProjection (m_del k t) = m_del k (loadProjection t)"
proof (rule gmap_ext)
  show "keys_of (loadProjection (m_del k t)) = keys_of (m_del k (loadProjection t))"
    by (simp add: entries_load values_keys delete_keys)
qed (simp add: get_load m_get_del)

lemma changed_del: "changed zero m (m_del k m) = []"
  by (auto simp: changed_def filter_empty_conv m_entries_get m_get_del simp del: m_entries_del split: if_splits)

lemma gone_extends: "extends m m' \<Longrightarrow> List.filter (\<lambda>k. \<not> m_has m' k) (keys_of m) = []"
  unfolding filter_empty_conv by (metis extends_has has_keys)

lemma agents_reload:
  assumes "agents_step m m'" "fresh_nonzero zero m m'" "loadProjection t = m"
  shows "loadProjection (fold m_del (List.filter (\<lambda>k. \<not> m_has m' k) (keys_of m))
    (persist_rows n (changed zero m m') t)) = m'"
proof -
  consider "extends m m'" | k where "m_has m k" "m' = m_del k m"
    using assms(1) m_del_absent extends_refl unfolding agents_step_def by metis
  then show ?thesis
  proof cases
    case 1
    with persist_reloads [OF 1 assms(2,3)] show ?thesis by (simp add: gone_extends)
  next
    case 2
    have "List.filter (\<lambda>j. \<not> m_has m' j) (keys_of m) = List.filter (\<lambda>j. j = k) (keys_of m)"
    proof (rule filter_cong)
      fix j assume "j \<in> set (keys_of m)"
      then have "m_has m j" by (simp only: has_keys)
      then show "(\<not> m_has m' j) = (j = k)" by (auto simp: 2(2) m_has_def m_get_del)
    qed simp
    moreover have "List.filter (\<lambda>j. j = k) xs = [k]" if "distinct xs" "k \<in> set xs" for xs :: "string list"
      using that by (induction xs) (auto simp: filter_empty_conv)
    ultimately have "List.filter (\<lambda>j. \<not> m_has m' j) (keys_of m) = [k]"
      using 2(1) by (simp add: has_keys keys_distinct)
    then show ?thesis by (simp add: 2(2) changed_del load_del assms(3))
  qed
qed


lemma worktrees_free_succeeds:
  assumes "worktrees_free m m'" "list_all (\<lambda>(k, t). tk_id t = k) (changed zero_task m m')"
    and "loadProjection (tb_tasks tb) = m"
  shows "\<exists>tb'. each (\<lambda>(_, t). upsertTask n t) (changed zero_task m m') tb = Inr tb'"
proof (rule each_tasks_succeeds [where A = "set (m_entries m) \<union> set (m_entries m')"])
  show "\<forall>j u i. m_get (tb_tasks tb) j = Some (u, i) \<longrightarrow> (j, u) \<in> set (m_entries m) \<union> set (m_entries m')"
    using assms(3) by (auto simp: m_entries_get get_load)
  show "\<forall>(k, t)\<in>set (changed zero_task m m'). tk_id t = k \<and> (k, t) \<in> set (m_entries m) \<union> set (m_entries m') \<and>
      (tk_worktree t = [] \<or> \<not> task_active t \<or>
       (\<forall>(j, u)\<in>set (m_entries m) \<union> set (m_entries m').
          j \<noteq> k \<longrightarrow> tk_worktree u = tk_worktree t \<longrightarrow> \<not> task_active u))"
  proof (clarify)
    fix k t assume kt: "(k, t) \<in> set (changed zero_task m m')"
    have "tk_id t = k" using assms(2) kt by (auto simp: list_all_iff)
    moreover have "(k, t) \<in> set (m_entries m')" using kt by (simp add: changed_set m_entries_get)
    moreover have "tk_worktree t = [] \<or> \<not> task_active t \<or>
        \<not> list_ex (\<lambda>(j, u). j \<noteq> k \<and> tk_worktree u = tk_worktree t \<and> task_active u) (m_entries m @ m_entries m')"
      using assms(1) kt by (auto simp: worktrees_free_def list_all_iff)
    ultimately show "tk_id t = k \<and> (k, t) \<in> set (m_entries m) \<union> set (m_entries m') \<and>
      (tk_worktree t = [] \<or> \<not> task_active t \<or>
       (\<forall>(j, u)\<in>set (m_entries m) \<union> set (m_entries m').
          j \<noteq> k \<longrightarrow> tk_worktree u = tk_worktree t \<longrightarrow> \<not> task_active u))"
      by (fastforce simp: list_ex_iff)
  qed
qed

lemma loadState_sel [simp]:
  "st_agents (loadState tb) = loadProjection (tb_agents tb)" "st_tasks (loadState tb) = loadProjection (tb_tasks tb)"
  "st_messages (loadState tb) = loadProjection (tb_messages tb)"
  "st_invocations (loadState tb) = loadProjection (tb_invocations tb)"
  "st_deliveries (loadState tb) = loadProjection (tb_deliveries tb)"
  "st_runtimes (loadState tb) = loadProjection (tb_runtimes tb)"
  "st_policies (loadState tb) = loadProjection (tb_policies tb)"
  "st_approvals (loadState tb) = loadProjection (tb_approvals tb)"
  "st_documents (loadState tb) = loadProjection (tb_documents tb)"
  "st_artifacts (loadState tb) = loadProjection (tb_artifacts tb)"
  "st_env (loadState tb) = loadProjection (tb_env tb)" "st_providers (loadState tb) = loadProjection (tb_providers tb)"
  "st_settings (loadState tb) = (case tb_settings tb of None \<Rightarrow> DefaultProjectSettings | Some (s, _) \<Rightarrow> s)"
  "st_integrity (loadState tb) = zero_integrity"
  by (simp_all add: loadState_def EmptyState_def del: EmptyState_sel split: option.split)

text \<open>Every write of \<open>persistProjectionChanges\<close>, as one update per table.\<close>

abbreviation agent_rows :: "nat \<Rightarrow> agent gmap \<Rightarrow> agent gmap \<Rightarrow> agent table \<Rightarrow> agent table" where
  "agent_rows n m m' t \<equiv> fold m_del (List.filter (\<lambda>k. \<not> m_has m' k) (keys_of m))
     (persist_rows n (List.map (\<lambda>(_, a). (ag_id a, a)) (changed zero_agent m m')) t)"

abbreviation task_rows :: "nat \<Rightarrow> task gmap \<Rightarrow> task gmap \<Rightarrow> task table \<Rightarrow> task table" where
  "task_rows n m m' t \<equiv> persist_rows n (List.map (\<lambda>(_, t). (tk_id t, t)) (changed zero_task m m')) t"

lemma persist_agents_form:
  "\<exists>ks. persist_agents cr n s s' tb =
     tb\<lparr>tb_settings := (if st_settings s \<noteq> st_settings s' then Some (st_settings s', n) else tb_settings tb),
        tb_agents := agent_rows n (st_agents s) (st_agents s') (tb_agents tb), tb_keys := ks\<rparr>"
proof -
  define tb0 where "tb0 = (if st_settings s \<noteq> st_settings s' then tb\<lparr>tb_settings := Some (st_settings s', n)\<rparr> else tb)"
  have tb0: "tb0 = tb\<lparr>tb_settings := (if st_settings s \<noteq> st_settings s' then Some (st_settings s', n) else tb_settings tb)\<rparr>"
    by (cases tb) (simp add: tb0_def)
  obtain ks where ks: "fold (\<lambda>(_, a). upsertAgent cr n a) (changed zero_agent (st_agents s) (st_agents s')) tb0 =
      tb0\<lparr>tb_agents := persist_rows n (List.map (\<lambda>(_, a). (ag_id a, a))
        (changed zero_agent (st_agents s) (st_agents s'))) (tb_agents tb0), tb_keys := ks\<rparr>"
    using upsertAgents_form by blast
  have "persist_agents cr n s s' tb = (let tb = fold (\<lambda>(_, a). upsertAgent cr n a)
      (changed zero_agent (st_agents s) (st_agents s')) tb0
      in tb\<lparr>tb_agents := fold m_del (List.filter (\<lambda>k. \<not> m_has (st_agents s') k) (keys_of (st_agents s))) (tb_agents tb)\<rparr>)"
    by (simp add: persist_agents_def tb0_def Let_def)
  then show ?thesis by (intro exI [of _ ks]) (simp add: ks Let_def, simp add: tb0)
qed

lemma persist_work_form:
  assumes "persist_work n s s' tb = Inr tb'"
  shows "attempts_fit (changed zero_delivery (st_deliveries s) (st_deliveries s')) \<and>
    (\<exists>rs ms. tb' = tb\<lparr>tb_tasks := task_rows n (st_tasks s) (st_tasks s') (tb_tasks tb), tb_resources := rs,
       tb_messages := persist_rows n (changed zero_message (st_messages s) (st_messages s')) (tb_messages tb),
       tb_recipients := ms,
       tb_invocations := persist_rows n (changed zero_invocation (st_invocations s) (st_invocations s')) (tb_invocations tb),
       tb_deliveries := persist_rows n (changed zero_delivery (st_deliveries s) (st_deliveries s')) (tb_deliveries tb)\<rparr>)"
proof -
  obtain tb1 where t: "each (\<lambda>(_, t). upsertTask n t) (changed zero_task (st_tasks s) (st_tasks s')) tb = Inr tb1"
    using assms unfolding persist_work_def and_then_Inr by blast
  obtain rs where rs: "tb1 = tb\<lparr>tb_tasks := task_rows n (st_tasks s) (st_tasks s') (tb_tasks tb), tb_resources := rs\<rparr>"
    using each_tasks_form [OF t] by auto
  obtain ms where ms: "fold (persist_message n) (changed zero_message (st_messages s) (st_messages s')) tb1 =
     tb1\<lparr>tb_messages := persist_rows n (changed zero_message (st_messages s) (st_messages s')) (tb_messages tb1), tb_recipients := ms\<rparr>"
    using persist_messages_form by blast
  show ?thesis
    using assms by (auto simp: persist_work_def t ms Let_def each_deliveries_form) (auto simp: rs)
qed

lemma persist_work_succeeds:
  assumes "worktrees_free (st_tasks s) (st_tasks s')" "loadProjection (tb_tasks tb) = st_tasks s"
    and "list_all (\<lambda>(k, t). tk_id t = k) (changed zero_task (st_tasks s) (st_tasks s'))"
    and "attempts_fit (changed zero_delivery (st_deliveries s) (st_deliveries s'))"
  shows "\<exists>tb'. persist_work n s s' tb = Inr tb'"
  using worktrees_free_succeeds [OF assms(1,3,2)] assms(4)
  by (auto simp: persist_work_def Let_def each_deliveries_form)

lemma persisted_form:
  assumes "persistProjectionChanges cr n s s' tb = Inr tb'"
  obtains ks rs ms where "tb' = tb\<lparr>
      tb_settings := (if st_settings s \<noteq> st_settings s' then Some (st_settings s', n) else tb_settings tb),
      tb_agents := agent_rows n (st_agents s) (st_agents s') (tb_agents tb), tb_keys := ks,
      tb_tasks := task_rows n (st_tasks s) (st_tasks s') (tb_tasks tb), tb_resources := rs,
      tb_messages := persist_rows n (changed zero_message (st_messages s) (st_messages s')) (tb_messages tb),
      tb_recipients := ms,
      tb_invocations := persist_rows n (changed zero_invocation (st_invocations s) (st_invocations s')) (tb_invocations tb),
      tb_deliveries := persist_rows n (changed zero_delivery (st_deliveries s) (st_deliveries s')) (tb_deliveries tb),
      tb_runtimes := persist_rows n (changed zero_runtime (st_runtimes s) (st_runtimes s')) (tb_runtimes tb),
      tb_policies := persist_rows n (changed zero_policy (st_policies s) (st_policies s')) (tb_policies tb),
      tb_approvals := persist_rows n (changed zero_approval (st_approvals s) (st_approvals s')) (tb_approvals tb),
      tb_documents := persist_rows n (changed zero_document (st_documents s) (st_documents s')) (tb_documents tb),
      tb_artifacts := persist_rows n (changed zero_artifact (st_artifacts s) (st_artifacts s')) (tb_artifacts tb),
      tb_env := persist_rows n (changed zero_env_entry (st_env s) (st_env s')) (tb_env tb),
      tb_providers := persist_rows n (changed zero_provider (st_providers s) (st_providers s')) (tb_providers tb)\<rparr>"
    "attempts_fit (changed zero_delivery (st_deliveries s) (st_deliveries s'))"
proof -
  obtain tb2 where w: "persist_work n s s' (persist_agents cr n s s' tb) = Inr tb2"
    "tb' = persist_rest n s s' tb2"
    using assms by (auto simp: persistProjectionChanges_def)
  obtain ks where a: "persist_agents cr n s s' tb =
     tb\<lparr>tb_settings := (if st_settings s \<noteq> st_settings s' then Some (st_settings s', n) else tb_settings tb),
        tb_agents := agent_rows n (st_agents s) (st_agents s') (tb_agents tb), tb_keys := ks\<rparr>"
    using persist_agents_form by blast
  from persist_work_form [OF w(1)] that show thesis
    unfolding w(2) a persist_rest_def by fastforce
qed

text \<open>The rows are a faithful store: what an event computed is what the next one loads.\<close>

theorem rows_reload:
  assumes "ordered_step s s'" "storable s s'" and "loadState tb = s"
  shows "\<exists>tb'. persistProjectionChanges cr n s s' tb = Inr tb' \<and> loadState tb' = s'"
proof -
  have st: "worktrees_free (st_tasks s) (st_tasks s')"
    "attempts_fit (changed zero_delivery (st_deliveries s) (st_deliveries s'))"
    "list_all (\<lambda>(k, a). ag_id a = k) (changed zero_agent (st_agents s) (st_agents s'))"
    "list_all (\<lambda>(k, t). tk_id t = k) (changed zero_task (st_tasks s) (st_tasks s'))"
    using assms(2) by (simp_all add: storable_def)
  obtain ks where a: "persist_agents cr n s s' tb =
     tb\<lparr>tb_settings := (if st_settings s \<noteq> st_settings s' then Some (st_settings s', n) else tb_settings tb),
        tb_agents := agent_rows n (st_agents s) (st_agents s') (tb_agents tb), tb_keys := ks\<rparr>"
    using persist_agents_form by blast
  have "loadProjection (tb_tasks (persist_agents cr n s s' tb)) = st_tasks s"
    using assms(3) by (auto simp: a)
  from persist_work_succeeds [OF st(1) this st(4,2), of n] obtain tb' where
    p: "persistProjectionChanges cr n s s' tb = Inr tb'"
    unfolding persistProjectionChanges_def and_then_Inr by blast
  have grow: "extends (st_env s) (st_env s')" "extends (st_runtimes s) (st_runtimes s')"
    using assms(1,2) by (auto simp: ordered_step_def storable_def intro: all_kept_extends)
  have o: "agents_step (st_agents s) (st_agents s')" "extends (st_tasks s) (st_tasks s')"
    "extends (st_messages s) (st_messages s')" "extends (st_invocations s) (st_invocations s')"
    "extends (st_deliveries s) (st_deliveries s')" "extends (st_policies s) (st_policies s')"
    "extends (st_approvals s) (st_approvals s')" "extends (st_documents s) (st_documents s')"
    "extends (st_artifacts s) (st_artifacts s')" "extends (st_providers s) (st_providers s')"
    "st_integrity s' = st_integrity s"
    using assms(1) by (simp_all add: ordered_step_def)
  have z: "fresh_nonzero zero_agent (st_agents s) (st_agents s')" "fresh_nonzero zero_task (st_tasks s) (st_tasks s')"
    "fresh_nonzero zero_message (st_messages s) (st_messages s')"
    "fresh_nonzero zero_invocation (st_invocations s) (st_invocations s')"
    "fresh_nonzero zero_delivery (st_deliveries s) (st_deliveries s')"
    "fresh_nonzero zero_runtime (st_runtimes s) (st_runtimes s')"
    "fresh_nonzero zero_policy (st_policies s) (st_policies s')"
    "fresh_nonzero zero_approval (st_approvals s) (st_approvals s')"
    "fresh_nonzero zero_document (st_documents s) (st_documents s')"
    "fresh_nonzero zero_artifact (st_artifacts s) (st_artifacts s')"
    "fresh_nonzero zero_env_entry (st_env s) (st_env s')" "fresh_nonzero zero_provider (st_providers s) (st_providers s')"
    using assms(2) by (simp_all add: storable_def)
  have l: "loadProjection (tb_agents tb) = st_agents s" "loadProjection (tb_tasks tb) = st_tasks s"
    "loadProjection (tb_messages tb) = st_messages s" "loadProjection (tb_invocations tb) = st_invocations s"
    "loadProjection (tb_deliveries tb) = st_deliveries s" "loadProjection (tb_runtimes tb) = st_runtimes s"
    "loadProjection (tb_policies tb) = st_policies s" "loadProjection (tb_approvals tb) = st_approvals s"
    "loadProjection (tb_documents tb) = st_documents s" "loadProjection (tb_artifacts tb) = st_artifacts s"
    "loadProjection (tb_env tb) = st_env s" "loadProjection (tb_providers tb) = st_providers s"
    and rest: "(case tb_settings tb of None \<Rightarrow> DefaultProjectSettings | Some (x, _) \<Rightarrow> x) = st_settings s"
    "st_integrity s = zero_integrity"
    by (simp_all add: assms(3) [symmetric])
  note reloads = agents_reload [OF o(1) z(1) l(1)] persist_reloads [OF o(2) z(2) l(2)]
    persist_reloads [OF o(3) z(3) l(3)] persist_reloads [OF o(4) z(4) l(4)] persist_reloads [OF o(5) z(5) l(5)]
    persist_reloads [OF grow(2) z(6) l(6)] persist_reloads [OF o(6) z(7) l(7)] persist_reloads [OF o(7) z(8) l(8)]
    persist_reloads [OF o(8) z(9) l(9)] persist_reloads [OF o(9) z(10) l(10)]
    persist_reloads [OF grow(1) z(11) l(11)] persist_reloads [OF o(10) z(12) l(12)]
  from p have "loadState tb' = s'"
    by (rule persisted_form)
      (simp add: state.equality reloads keyed_map [OF st(3)] keyed_map [OF st(4)] rest o(11))
  with p show ?thesis by blast
qed

end
