(* ===== verification/Team.thy ===== *)
theory Team
  imports Tables Replay
begin

text \<open>
  \<open>internal/authority/postgres.go\<close>: the authority of a team, a server over PostgreSQL. It takes the same
  commands as the personal authority (theory Engine), keeps the state in rows (theory Tables), queues each
  event for publication, and can delete a project. A payload column is \<open>JSONB\<close>: what comes back is
  the same JSON value, not the same bytes, so the reading of such a column is a parameter \<open>jsonb\<close>. That
  PostgreSQL refuses a payload with an escaped NUL character in it is an error of the driver and left out.
  A call that needs several statements runs in one transaction that locks the project's row.
\<close>

record team_project =
  tp_owner :: string
  tp_sequence :: nat
  tp_head :: string
  tp_updated :: time
  tp_tables :: tables

record tombstone =
  ts_owner :: string
  ts_deleted_by :: string
  ts_fingerprint :: string

record outbox_row =
  ob_project :: string
  ob_sequence :: nat
  ob_event :: event
  ob_attempts :: nat
  ob_next_attempt :: time
  ob_published :: "time option"

record team_db =
  td_projects :: "team_project gmap"
  td_events :: "event_row list"
  td_outbox :: "outbox_row list"
  td_deleted :: "tombstone gmap"

definition empty_team :: team_db where
  "empty_team = \<lparr>td_projects = m_empty, td_events = [], td_outbox = [], td_deleted = m_empty\<rparr>"

definition unavailable :: "string \<Rightarrow> fault" where
  "unavailable text = Control (control_error CodeUnavailable text)"

definition contains :: "string \<Rightarrow> string \<Rightarrow> bool" where
  "contains s part = list_ex (prefix part) (suffixes s)"

definition conflictOrUnavailable :: "string \<Rightarrow> fault" where
  "conflictOrUnavailable text =
     (let lower = to_lower text in
      if contains lower ''duplicate key'' \<or> contains lower ''serialization'' \<or>
         contains lower ''unique constraint''
      then Control (control_error CodeConflict
             ''concurrent mutation conflicted; retry with the same idempotency key'')
      else unavailable text)"

subsection \<open>Projects\<close>

definition team_CreateProject :: "time \<Rightarrow> team_db \<Rightarrow> string \<Rightarrow> string \<Rightarrow> fault + team_db" where
  "team_CreateProject now td projectID ownerID =
     (if blank projectID \<or> blank ownerID then refuse CodeValidation ''project and owner are required''
      else Inr (if m_has (td_projects td) projectID then td
        else td\<lparr>td_projects := m_put projectID \<lparr>tp_owner = ownerID, tp_sequence = 0, tp_head = [],
               tp_updated = now, tp_tables = no_tables\<rparr> (td_projects td)\<rparr>))"

text \<open>Every row of a project goes with it; the audit tombstone stays.\<close>

definition drop_project :: "string \<Rightarrow> team_db \<Rightarrow> team_db" where
  "drop_project k td =
     td\<lparr>td_projects := m_del k (td_projects td),
        td_events := List.filter (\<lambda>r. er_project r \<noteq> k) (td_events td),
        td_outbox := List.filter (\<lambda>o'. ob_project o' \<noteq> k) (td_outbox td)\<rparr>"

definition DeleteProject :: "crypto \<Rightarrow> time \<Rightarrow> team_db \<Rightarrow> command \<Rightarrow> fault + team_db" where
  "DeleteProject cr clock td c =
     (case command_validate cr c (microseconds clock) of Some e \<Rightarrow> Inl (Control e) | None \<Rightarrow>
      fail_if (cm_type c \<noteq> ''project.delete'')
        (Control (control_error CodeValidation ''command type must be project.delete''))
      (case m_get (td_projects td) (cm_project_id c) of
         None \<Rightarrow> refuse CodeValidation ''project not found or already deleted''
       | Some p \<Rightarrow>
         (case m_get (tb_agents (tp_tables p)) (cm_actor c) of
            None \<Rightarrow> refuse CodeAuthorization ''actor is not registered''
          | Some (agent, _) \<Rightarrow>
            fail_if (ag_role agent \<noteq> RoleOwner)
              (Control (control_error CodeAuthorization ''only the project owner can delete a project''))
            (fail_if (ag_elevated_public_key agent = [])
              (Control (control_error CodeAuthorization
                ''the owner must register an elevated key (agent elevate-key) before a project can be deleted''))
            (fail_if (\<not> command_verify cr c (ag_elevated_public_key agent))
              (Control (control_error CodeIntegrity ''actor command signature is invalid''))
            (fail_if (m_has (td_deleted td) (cm_project_id c))
              (unavailable ''duplicate key value violates unique constraint deleted_projects_pkey'')
            (Inr (drop_project (cm_project_id c)
              (td\<lparr>td_deleted := m_put (cm_project_id c) \<lparr>ts_owner = tp_owner p, ts_deleted_by = cm_actor c,
                 ts_fingerprint = Fingerprint cr (ag_elevated_public_key agent)\<rparr> (td_deleted td)\<rparr>)))))))))"

subsection \<open>Checking a command\<close>

definition team_replay :: "team_db \<Rightarrow> string \<Rightarrow> string \<Rightarrow> string \<Rightarrow> fault + (event \<times> receipt) option" where
  "team_replay td projectID key intentHash =
     (case List.find (\<lambda>r. er_project r = projectID \<and> er_key r = key) (td_events td) of
        None \<Rightarrow> Inr None
      | Some r \<Rightarrow>
          fail_if (er_intent r \<noteq> intentHash)
            (Control (control_error CodeConflict
              ''idempotency key was already used for a different command''))
          (Inr (Some (er_event r, er_receipt r))))"

text \<open>\<open>model.State{\<dots>}\<close> with one entry: the zero state, whose maps are nil.\<close>

definition scopedElevationState :: "tables \<Rightarrow> command \<Rightarrow> state" where
  "scopedElevationState tb c =
     (if cm_type c = ''approval.approve'' then
        (case m_get (tb_approvals tb) (cm_entity_id c) of
           None \<Rightarrow> EmptyState
         | Some (approval, _) \<Rightarrow> EmptyState\<lparr>st_approvals := m_put (cm_entity_id c) approval m_empty\<rparr>)
      else if cm_type c = ''agent.revoke'' \<or> cm_type c = ''agent.delete'' then
        (case m_get (tb_agents tb) (cm_entity_id c) of
           None \<Rightarrow> EmptyState
         | Some (target, _) \<Rightarrow> EmptyState\<lparr>st_agents := m_put (cm_entity_id c) target m_empty\<rparr>)
      else EmptyState)"

definition team_commandPublicKey :: "tables \<Rightarrow> command \<Rightarrow> event_type \<Rightarrow> payload \<Rightarrow> fault + string" where
  "team_commandPublicKey tb c t payload =
     (if t = Agent_ev AgentRegister then
        (if cm_actor c \<noteq> cm_entity_id c \<or> cm_public_key c = []
         then refuse CodeAuthorization ''registration must be self-signed with a public key''
         else Inr (cm_public_key c))
      else case m_get (tb_agents tb) (cm_actor c) of
          None \<Rightarrow> refuse CodeAuthorization ''actor is not registered''
        | Some (agent, _) \<Rightarrow>
            if ag_elevated_public_key agent = [] then Inr (ag_public_key agent)
            else if RequiresElevatedKey (scopedElevationState tb c) (cm_actor c) t (cm_entity_id c) payload
            then Inr (ag_elevated_public_key agent)
            else Inr (ag_public_key agent))"

text \<open>The project's row as the personal authority would have it, for the checks the two share.\<close>

definition loaded_row :: "team_project \<Rightarrow> project_row" where
  "loaded_row p = \<lparr>pj_owner = tp_owner p, pj_sequence = tp_sequence p, pj_head = tp_head p,
     pj_state = loadState (tp_tables p), pj_updated = tp_updated p\<rparr>"

definition team_admit ::
  "crypto \<Rightarrow> team_project \<Rightarrow> command \<Rightarrow> time \<Rightarrow> fault + (event_type \<times> payload \<times> string)" where
  "team_admit cr p c now =
     (case command_validate cr c now of Some e \<Rightarrow> Inl (Control e) | None \<Rightarrow>
      and_then (decode_command cr c) (\<lambda>(t, payload).
      and_then (team_commandPublicKey (tp_tables p) c t payload) (\<lambda>publicKey.
      fail_if (\<not> command_verify cr c publicKey)
        (Control (control_error CodeIntegrity ''actor command signature is invalid''))
      (fail_if (cm_expected_sequence c \<noteq> 0 \<and> cm_expected_sequence c \<noteq> tp_sequence p)
        (Control (control_error CodeStalePrecondition
          (''expected project sequence '' @ dec_digits (cm_expected_sequence c) @
           '', current sequence is '' @ dec_digits (tp_sequence p))))
      (and_then (check_registration c t payload) (\<lambda>_.
      and_then (check_transition cr (loaded_row p) c t payload now)
        (\<lambda>q. Inr (t, q, Fingerprint cr publicKey))))))))"

subsection \<open>Committing it\<close>

definition stored :: "(string \<Rightarrow> string) \<Rightarrow> event \<Rightarrow> event" where
  "stored jsonb e = e\<lparr>ce_payload := jsonb (ce_payload e)\<rparr>"

definition stored_row :: "(string \<Rightarrow> string) \<Rightarrow> event_row \<Rightarrow> event_row" where
  "stored_row jsonb r = r\<lparr>er_event := stored jsonb (er_event r)\<rparr>"

definition queue_row :: "time \<Rightarrow> event \<Rightarrow> outbox_row" where
  "queue_row now e = \<lparr>ob_project = ce_project_id e, ob_sequence = ce_sequence e, ob_event = e,
     ob_attempts = 0, ob_next_attempt = now, ob_published = None\<rparr>"

definition team_commit ::
  "crypto \<Rightarrow> (string \<Rightarrow> string) \<Rightarrow> string \<Rightarrow> team_db \<Rightarrow> team_project \<Rightarrow> command \<Rightarrow> string \<Rightarrow> payload \<Rightarrow> string \<Rightarrow>
   time \<Rightarrow> fault + (team_db \<times> event \<times> receipt)" where
  "team_commit cr jsonb priv td p c intentHash payload fingerprint now =
     and_then (as_control CodeValidation (EncodePayload cr (cm_type c) payload)) (\<lambda>normalized.
     let e0 = new_event (loaded_row p) c intentHash fingerprint normalized now in
     and_then (as_plain (HashEvent cr e0)) (\<lambda>hash.
     let e = e0\<lparr>ce_hash := hash\<rparr>; receipt = SignReceipt cr priv (new_receipt e);
         st = loadState (tp_tables p); row = stored_row jsonb (new_row e receipt (cm_signature c)) in
     and_then (as_plain (ApplyEvent cr st (log_of e))) (\<lambda>st'.
     and_then (persistProjectionChanges cr (ce_sequence e) st st' (tp_tables p)) (\<lambda>tb.
     fail_if (list_ex (clashes row) (td_events td))
       (conflictOrUnavailable ''duplicate key value violates unique constraint events_pkey'')
     (Inr (td\<lparr>td_events := td_events td @ [row],
             td_projects := m_put (cm_project_id c) (p\<lparr>tp_sequence := ce_sequence e, tp_head := ce_hash e,
               tp_updated := now, tp_tables := tb\<rparr>) (td_projects td),
             td_outbox := td_outbox td @ [queue_row now e]\<rparr>, e, receipt))))))"

definition team_Mutate ::
  "crypto \<Rightarrow> (string \<Rightarrow> string) \<Rightarrow> string \<Rightarrow> time \<Rightarrow> team_db \<Rightarrow> command \<Rightarrow> fault + (team_db \<times> event \<times> receipt)" where
  "team_Mutate cr jsonb priv clock td c =
     (case m_get (td_projects td) (cm_project_id c) of
        None \<Rightarrow> refuse CodeValidation ''project not found''
      | Some p \<Rightarrow>
        and_then (as_control CodeValidation (IntentHash cr c)) (\<lambda>intentHash.
        and_then (team_replay td (cm_project_id c) (cm_idempotency_key c) intentHash) (\<lambda>found.
        case found of
          Some (e, r) \<Rightarrow> Inr (td, e, r)
        | None \<Rightarrow>
          let now = microseconds clock in
          and_then (team_admit cr p c now) (\<lambda>(t, payload, fingerprint).
            team_commit cr jsonb priv td p c intentHash payload fingerprint now))))"

subsection \<open>Reading\<close>

definition team_State :: "team_db \<Rightarrow> string \<Rightarrow> time \<Rightarrow> fault + (state \<times> result_metadata)" where
  "team_State td projectID now =
     (case m_get (td_projects td) projectID of
        None \<Rightarrow> refuse CodeValidation ''project not found''
      | Some p \<Rightarrow>
        let st = (loadState (tp_tables p))\<lparr>st_integrity := \<lparr>ig_verified = True,
              ig_event_count = int (tp_sequence p), ig_head = tp_head p,
              ig_sync_state = ''authoritative''\<rparr>\<rparr>
        in Inr (RefreshRuntimePresence st now,
            \<lparr>md_consistency = ''AUTHORITATIVE'', md_server_sequence = tp_sequence p,
             md_cache_sequence = 0, md_connectivity = ''ONLINE''\<rparr>))"

definition team_rows_from :: "team_db \<Rightarrow> string \<Rightarrow> nat \<Rightarrow> event_row list" where
  "team_rows_from td k start =
     sort_key er_sequence (List.filter (\<lambda>r. er_project r = k \<and> er_sequence r \<ge> start) (td_events td))"

definition team_Events :: "crypto \<Rightarrow> team_db \<Rightarrow> string \<Rightarrow> page_request \<Rightarrow> fault + event_page" where
  "team_Events cr td projectID page =
     and_then (as_plain (BoundedLimit page)) (\<lambda>limit0.
     and_then (case DecodeCursor cr (pg_cursor page) of Inl e \<Rightarrow> Inl (Control e) | Inr n \<Rightarrow> Inr n) (\<lambda>start.
     let limit = nat limit0;
         records = List.map (\<lambda>r. (er_event r, er_receipt r))
           (take (limit + 1) (team_rows_from td projectID (start + 1)));
         items = take limit records;
         cursor = (if length records > limit then EncodeCursor cr (ce_sequence (fst (last items))) else []);
         last_seen = (if items = [] then start else ce_sequence (fst (last items)))
     in Inr \<lparr>ep_items = items, ep_next_cursor = cursor,
          ep_metadata = \<lparr>md_consistency = ''AUTHORITATIVE'', md_server_sequence = last_seen,
            md_cache_sequence = 0, md_connectivity = ''ONLINE''\<rparr>\<rparr>))"

fun team_verify_loop ::
  "crypto \<Rightarrow> string \<Rightarrow> event_row list \<Rightarrow> nat \<Rightarrow> string \<Rightarrow> cp_error option" where
  "team_verify_loop cr serverKey [] expected previous = None"
| "team_verify_loop cr serverKey (r # rows) expected previous =
     (let e = er_event r in
      if ce_sequence e \<noteq> expected \<or> ce_previous_hash e \<noteq> previous
      then Some (control_error CodeIntegrity (''chain discontinuity at '' @ ce_id e))
      else if \<not> VerifyEventHash cr e
      then Some (control_error CodeIntegrity (''event hash mismatch at '' @ ce_id e))
      else if \<not> VerifyReceipt cr (er_receipt r) serverKey
      then Some (control_error CodeIntegrity (''receipt signature mismatch at '' @ ce_id e))
      else team_verify_loop cr serverKey rows (expected + 1) (ce_hash e))"

definition team_VerifyRange ::
  "crypto \<Rightarrow> string \<Rightarrow> team_db \<Rightarrow> string \<Rightarrow> nat \<Rightarrow> nat \<Rightarrow> cp_error option" where
  "team_VerifyRange cr serverKey td k from_sequence to_sequence =
     (let start = (if from_sequence = 0 then 1 else from_sequence) in
      if to_sequence \<noteq> 0 \<and> to_sequence < start
      then Some (control_error CodeValidation ''invalid verification range'')
      else
        let rows = List.filter (\<lambda>r. to_sequence = 0 \<or> er_sequence r \<le> to_sequence) (team_rows_from td k start)
        in if start > 1
           then (case List.find (\<lambda>r. er_project r = k \<and> er_sequence r = start - 1) (td_events td) of
                   None \<Rightarrow> Some (control_error CodeIntegrity ''verification range predecessor is missing'')
                 | Some x \<Rightarrow> team_verify_loop cr serverKey rows start (ce_hash (er_event x)))
           else team_verify_loop cr serverKey rows start [])"

subsection \<open>Publishing: \<open>internal/authority/outbox.go\<close>\<close>

abbreviation outboxBatchSize :: nat where "outboxBatchSize \<equiv> 100"

definition due :: "time \<Rightarrow> outbox_row \<Rightarrow> bool" where
  "due now o' = (ob_published o' = None \<and> ob_next_attempt o' \<le> now)"

definition batch :: "time \<Rightarrow> outbox_row list \<Rightarrow> (string \<times> nat) list" where
  "batch now rows =
     List.map (\<lambda>o'. (ob_project o', ob_sequence o'))
       (take outboxBatchSize (sort_key ob_next_attempt (List.filter (due now) rows)))"

definition publish :: "time \<Rightarrow> string \<times> nat \<Rightarrow> outbox_row list \<Rightarrow> outbox_row list" where
  "publish now item =
     List.map (\<lambda>o'. if (ob_project o', ob_sequence o') = item
       then o'\<lparr>ob_published := Some now, ob_attempts := ob_attempts o' + 1\<rparr> else o')"

text \<open>The notifications sent, in order, with the database after the batch.\<close>

definition publishOutboxBatch :: "time \<Rightarrow> team_db \<Rightarrow> team_db \<times> (string \<times> nat) list" where
  "publishOutboxBatch now td =
     (let items = batch now (td_outbox td)
      in (td\<lparr>td_outbox := fold (publish now) items (td_outbox td)\<rparr>, items))"

definition OutboxStats :: "team_db \<Rightarrow> nat \<times> time option" where
  "OutboxStats td =
     (let pending = List.filter (\<lambda>o'. ob_published o' = None) (td_outbox td)
      in (length pending, if pending = [] then None
          else Some (Min (set (List.map ob_next_attempt pending)))))"

end
