(* ===== verification/Team_Order.thy ===== *)
theory Team_Order
  imports Tables_Facts Team
begin

text \<open>
  What the projection does to the maps of a state: it updates entries in place, adds new ones at the end, and
  in three cases deletes one. So the rows of the team authority keep the order the personal authority has.
\<close>

definition only_grows :: "state \<Rightarrow> state \<Rightarrow> bool" where
  "only_grows s s' \<longleftrightarrow>
     extends (st_agents s) (st_agents s') \<and> extends (st_env s) (st_env s') \<and>
     extends (st_runtimes s) (st_runtimes s') \<and>
     extends (st_tasks s) (st_tasks s') \<and> extends (st_messages s) (st_messages s') \<and>
     extends (st_invocations s) (st_invocations s') \<and> extends (st_deliveries s) (st_deliveries s') \<and>
     extends (st_policies s) (st_policies s') \<and> extends (st_approvals s) (st_approvals s') \<and>
     extends (st_documents s) (st_documents s') \<and> extends (st_artifacts s) (st_artifacts s') \<and>
     extends (st_providers s) (st_providers s') \<and> st_integrity s' = st_integrity s"

lemma only_grows_refl [simp]: "only_grows s s"
  by (simp add: only_grows_def)

lemma only_grows_trans: "only_grows s s' \<Longrightarrow> only_grows s' s'' \<Longrightarrow> only_grows s s''"
  by (auto simp: only_grows_def intro: extends_trans)

lemma only_grows_ordered: "only_grows s s' \<Longrightarrow> ordered_step s s'"
  by (simp add: only_grows_def ordered_step_def agents_step_def)

lemma stamp_grows: "only_grows s (stampEntity t e s)"
  by (cases t) (simp_all add: stampEntity_def only_grows_def Let_def)

lemma extends_put_write: "extends m (m_write z f j (m_put k v m))"
  by (rule extends_trans [OF extends_put extends_write])

lemma extends_write_write: "extends m (m_write z f j (m_write z g k m))"
  by (rule extends_trans [OF extends_write extends_write])

lemma archive_grows: "only_grows s (fold (archive_task e) ks s)"
proof (induction ks arbitrary: s)
  case (Cons k ks)
  have "only_grows s (archive_task e k s)" by (simp add: archive_task_def only_grows_def)
  then show ?case using only_grows_trans Cons.IH by fastforce
qed simp

lemma consume_grows:
  "only_grows s (consumeApprovedAction a e s)"
  "consumeNamedApprovedAction k a e s = Inr s' \<Longrightarrow> only_grows s s'"
  by (auto simp: consumeApprovedAction_def consumeNamedApprovedAction_def only_grows_def Let_def
      split: list.split option.splits if_splits)

lemma task_status_grows: "apply_task_status t p e s = Inr s' \<Longrightarrow> only_grows s s'"
proof -
  have w: "only_grows s (on_task f e s)" "only_grows s (on_agent g e s)" for s f g
    by (simp_all add: on_task_def on_agent_def only_grows_def)
  assume "apply_task_status t p e s = Inr s'"
  then show ?thesis
    by (auto simp: apply_task_status_def Let_def w split: if_splits
        intro: only_grows_trans [OF _ w(1)] consume_grows)
qed

lemma arms_grow:
  "only_grows s (apply_registered cr pr e s)" "only_grows s (apply_activated pa e s)"
  "only_grows s (apply_role_switched ps e s)" "only_grows s (on_agent fa e s)" "only_grows s (on_task ft e s)"
  "only_grows s (on_invocation fi e s)" "only_grows s (on_runtime fr e s)" "only_grows s (on_document fd k s)"
  "only_grows s (apply_agent_revoked e s)" "only_grows s (apply_task_created pt e s)"
  "only_grows s (apply_posted pm e s)" "only_grows s (apply_response pp e s)" "only_grows s (apply_requested pq e s)"
  "only_grows s (apply_attempted pd e s)" "only_grows s (apply_notified pn e s)"
  "only_grows s (apply_delivery_failed pf e s)" "only_grows s (apply_settings pc e s)"
  "only_grows s (apply_runtime_registered pg e s)"
  "only_grows s (apply_approval_requested pv e s)" "only_grows s (apply_approval_response t e s)"
  "only_grows s (apply_artifact px e s)" "only_grows s (apply_env_set pe e s)"
  by (simp_all add: arms only_grows_def Let_def consumeOrchestratorGrantApproval_def)

lemma document_grows: "only_grows s (apply_decision p e s)" "only_grows s (apply_document t q e s)"
  by (simp_all add: apply_decision_def apply_document_def on_document_def only_grows_def Let_def
      extends_put_write extends_write_write)

lemma writes_grow:
  "only_grows s (s\<lparr>st_policies := m_write zp fp k (st_policies s)\<rparr>)"
  "only_grows s (s\<lparr>st_providers := m_write zv fv k (st_providers s)\<rparr>)"
  "only_grows s (s\<lparr>st_providers := m_adjust fv k (st_providers s)\<rparr>)"
  by (simp_all add: only_grows_def)

definition one_deletion :: "event_type \<Rightarrow> payload \<Rightarrow> log_event \<Rightarrow> state \<Rightarrow> state \<Rightarrow> bool" where
  "one_deletion t payload e s s' \<longleftrightarrow>
     s' = s\<lparr>st_agents := m_del (le_entity_id e) (st_agents s)\<rparr> \<and> (\<exists>p. payload = AgentDeleted p) \<or>
     s' = s\<lparr>st_runtimes := m_del (le_entity_id e) (st_runtimes s)\<rparr> \<and> t = Runtime_ev RtDelete \<or>
     (\<exists>p. payload = EnvDeletePayload p \<and> s' = s\<lparr>st_env := m_del (ed_key p) (st_env s)\<rparr>)"

lemma payload_grows':
  "case apply_payload cr t payload e s of Inl x \<Rightarrow> True
   | Inr s' \<Rightarrow> only_grows s s' \<or> one_deletion t payload e s s'"
proof (cases payload)
  case (TaskStatus p)
  then show ?thesis by (simp add: apply_payload_def task_status_grows split: sum.split)
next
  case (ArchiveRun p)
  then show ?thesis by (simp add: apply_payload_def archive_grows)
next
  case (RuntimeStatusChanged p)
  then show ?thesis by (simp add: apply_payload_def apply_runtime_status_def arms_grow one_deletion_def)
next
  case (AgentDeleted p)
  then show ?thesis by (simp add: apply_payload_def one_deletion_def)
next
  case (EnvDeletePayload p)
  then show ?thesis by (simp add: apply_payload_def one_deletion_def)
qed (simp_all add: apply_payload_def arms_grow document_grows writes_grow)

lemma payload_grows:
  "apply_payload cr t payload e s = Inr s' \<Longrightarrow> only_grows s s' \<or> one_deletion t payload e s s'"
  using payload_grows' [where cr = cr and t = t and payload = payload and e = e and s = s] by simp

lemma m_adjust_absent: "m_adjust f k (m_del k m) = m_del k m"
  by (simp add: m_adjust_def m_get_del)

lemma project_ordered:
  assumes "project cr t payload e s = Inr s'" "payload_ok t payload"
  shows "ordered_step s s'"
proof -
  from project_parts [OF assms(1)] obtain s1 where s1: "apply_payload cr t payload e s = Inr s1"
    and s': "s' = (if t = Runtime_ev RtDelete then s1 else stampEntity t e s1)" by blast
  from payload_grows [OF s1] consider "only_grows s s1"
    | p where "s1 = s\<lparr>st_agents := m_del (le_entity_id e) (st_agents s)\<rparr>" "payload = AgentDeleted p"
    | "s1 = s\<lparr>st_runtimes := m_del (le_entity_id e) (st_runtimes s)\<rparr>" "t = Runtime_ev RtDelete"
    | p where "payload = EnvDeletePayload p" "s1 = s\<lparr>st_env := m_del (ed_key p) (st_env s)\<rparr>"
    unfolding one_deletion_def by blast
  then show ?thesis
  proof cases
    case 1
    then have "only_grows s s'" using stamp_grows only_grows_trans by (auto simp: s')
    then show ?thesis by (rule only_grows_ordered)
  next
    case 2
    then obtain x where "t = Agent_ev x" using agent_kinds [of t] assms(2) by (auto simp: payload_ok_def)
    with 2 show ?thesis
      by (auto simp: s' stampEntity_def ordered_step_def agents_step_def m_adjust_absent)
  next
    case 3
    then show ?thesis by (auto simp: s' ordered_step_def agents_step_def)
  next
    case 4
    then have "ordered_step s s1" by (auto simp: ordered_step_def agents_step_def)
    moreover have "st_env (stampEntity t e s1) = st_env s1"
      by (cases t) (simp_all add: stampEntity_def Let_def)
    ultimately show ?thesis using stamp_grows [of s1 t e] 4(2)
      by (auto simp: s' ordered_step_def agents_step_def only_grows_def)
  qed
qed

end
