(* ===== verification/Team_Facts.thy ===== *)
theory Team_Facts
  imports Team_Order
begin

text \<open>
  The team authority against the personal one: the same project, stored as rows instead of one JSON
  document, answers every command the same way. The relation \<open>same_as\<close> says that the rows load to
  the personal state; each command keeps it, as long as what it changes can be expressed in rows
  (\<open>storable\<close>). What the team authority adds, the deletion of a project, is proved guarded.
\<close>

subsection \<open>The two authorities check a command alike\<close>

lemma elevation_scoped:
  assumes "cm_type c = type_name t"
  shows "RequiresElevatedKey (scopedElevationState tb c) (cm_actor c) t (cm_entity_id c) payload =
    RequiresElevatedKey (loadState tb) (cm_actor c) t (cm_entity_id c) payload"
proof -
  consider "t = Approval_ev ApprovalApprove" | "t = Agent_ev AgentRevoke" | "t = Agent_ev AgentDelete"
    | "t \<noteq> Approval_ev ApprovalApprove" "t \<noteq> Agent_ev AgentRevoke" "t \<noteq> Agent_ev AgentDelete" by blast
  then show ?thesis
  proof cases
    case 1
    then show ?thesis
      by (cases "m_get (tb_approvals tb) (cm_entity_id c)")
        (auto simp: RequiresElevatedKey_def scopedElevationState_def assms m_read_def get_load m_get_put)
  next
    case 2
    then show ?thesis
      by (cases "m_get (tb_agents tb) (cm_entity_id c)")
        (auto simp: RequiresElevatedKey_def scopedElevationState_def assms m_read_def get_load m_get_put Let_def)
  next
    case 3
    then show ?thesis
      by (cases "m_get (tb_agents tb) (cm_entity_id c)")
        (auto simp: RequiresElevatedKey_def scopedElevationState_def assms get_load m_get_put)
  next
    case 4
    then show ?thesis
      by (cases t) (simp_all add: RequiresElevatedKey_def split: agent_event.split approval_event.split)
  qed
qed

lemma public_key_agrees:
  assumes "cm_type c = type_name t"
  shows "team_commandPublicKey tb c t payload = commandPublicKey (loadState tb) c t payload"
  by (cases "m_get (tb_agents tb) (cm_actor c)")
    (auto simp: team_commandPublicKey_def commandPublicKey_def get_load elevation_scoped [OF assms])

lemma loaded_row_sel [simp]:
  "pj_owner (loaded_row p) = tp_owner p" "pj_sequence (loaded_row p) = tp_sequence p"
  "pj_head (loaded_row p) = tp_head p" "pj_state (loaded_row p) = loadState (tp_tables p)"
  "pj_updated (loaded_row p) = tp_updated p"
  by (simp_all add: loaded_row_def)

lemma and_then_cong: "(\<And>a. r = Inr a \<Longrightarrow> f a = g a) \<Longrightarrow> and_then r f = and_then r g"
  by (cases r) simp_all

text \<open>
  A command is admitted by the team authority exactly when the personal authority admits it on the same
  state, with the same answer and the same key, although the team authority reads single rows to choose
  the key (\<open>scopedElevationState\<close>) instead of loading the state.
\<close>

theorem admitted_alike: "team_admit cr p c now = admit cr (loaded_row p) c now"
proof -
  have "decode_command cr c = Inr (t, q) \<Longrightarrow>
      team_commandPublicKey tb c t q = commandPublicKey (loadState tb) c t q" for t q tb
    using decode_command_Inr public_key_agrees by blast
  then show ?thesis
    unfolding team_admit_def admit_def
    by (auto split: option.split intro!: and_then_cong)
qed

subsection \<open>One command\<close>

definition same_as :: "(string \<Rightarrow> string) \<Rightarrow> team_db \<Rightarrow> db \<Rightarrow> bool" where
  "same_as jsonb td d \<longleftrightarrow>
     (\<forall>k. map_option loaded_row (m_get (td_projects td) k) = m_get (db_projects d) k) \<and>
     td_events td = List.map (stored_row jsonb) (db_events d)"

text \<open>The change of one project's state, as rows would have to express it.\<close>

definition storable_change :: "db \<Rightarrow> db \<Rightarrow> string \<Rightarrow> bool" where
  "storable_change d d' k =
     (case (m_get (db_projects d) k, m_get (db_projects d') k) of
        (Some row, Some row') \<Rightarrow> storable (pj_state row) (pj_state row')
      | _ \<Rightarrow> True)"

lemma ApplyEvent_ordered:
  assumes "decodes_kinds cr" "ApplyEvent cr s e = Inr s'"
  shows "ordered_step s s'"
proof (cases "parse_type (le_type e)")
  case None
  with assms(2) show ?thesis by (simp add: ApplyEvent_def only_grows_ordered)
next
  case (Some t)
  then have "le_type e = type_name t" by (simp add: parse_type_Some)
  with Some assms obtain p where "payload_ok t p" "project cr t p e s = Inr s'"
    by (auto simp: ApplyEvent_project dest: DecodePayload_kind)
  then show ?thesis by (rule project_ordered [rotated])
qed

lemma stored_row_sel [simp]:
  "er_project (stored_row jsonb r) = er_project r" "er_sequence (stored_row jsonb r) = er_sequence r"
  "er_event_id (stored_row jsonb r) = er_event_id r" "er_key (stored_row jsonb r) = er_key r"
  "er_intent (stored_row jsonb r) = er_intent r" "er_event (stored_row jsonb r) = stored jsonb (er_event r)"
  "er_receipt (stored_row jsonb r) = er_receipt r"
  by (simp_all add: stored_row_def)

lemma replay_agrees:
  assumes "same_as jsonb td d"
  shows "team_replay td k key intent =
    (case replay d k key intent of Inl x \<Rightarrow> Inl x
     | Inr found \<Rightarrow> Inr (map_option (\<lambda>(e, r). (stored jsonb e, r)) found))"
proof -
  have "List.find (\<lambda>r. er_project r = k \<and> er_key r = key) (List.map (stored_row jsonb) rows) =
      map_option (stored_row jsonb) (List.find (\<lambda>r. er_project r = k \<and> er_key r = key) rows)" for rows
    by (induction rows) simp_all
  with assms show ?thesis
    by (auto simp: team_replay_def replay_def same_as_def fail_if_def split: option.split)
qed

lemma clashes_stored: "list_ex (clashes (stored_row jsonb x)) (List.map (stored_row jsonb) rows) = list_ex (clashes x) rows"
  by (induction rows) (simp_all add: clashes_def)

lemma commit_Inl_agrees:
  assumes "commit cr priv d (loaded_row p) c intent q fp now = Inl x"
    and "good cr d" "m_get (db_projects d) (cm_project_id c) = Some (loaded_row p)"
    and "\<forall>r\<in>set (db_events d). er_project r = cm_project_id c \<longrightarrow> er_key r \<noteq> cm_idempotency_key c"
  shows "team_commit cr jsonb priv td p c intent q fp now = Inl x"
proof -
  have "\<not> list_ex (clashes (new_row ((new_event (loaded_row p) c intent fp payload now)\<lparr>ce_hash := h\<rparr>) r
      (cm_signature c))) (db_events d)" for payload h r
    using assms(4) by (intro no_clash [OF assms(2,3)]) simp_all
  with assms(1) show ?thesis
    by (auto simp: commit_def team_commit_def Let_def and_then_Inl insert_event_def fail_if_Inl)
qed

lemma commit_agrees:
  assumes "commit cr priv d (loaded_row p) c intent q fp now = Inr (d', e, r)"
    and "decodes_kinds cr" "same_as jsonb td d" "m_get (td_projects td) (cm_project_id c) = Some p"
    and "storable_change d d' (cm_project_id c)"
  shows "\<exists>td'. team_commit cr jsonb priv td p c intent q fp now = Inr (td', e, r) \<and> same_as jsonb td' d'"
proof -
  from assms(1) obtain payload st' where s: "EncodePayload cr (cm_type c) q = Inr payload"
    "HashEvent cr e = Inr (ce_hash e)"
    and e: "e = (new_event (loaded_row p) c intent fp payload now)\<lparr>ce_hash := ce_hash e\<rparr>"
    and r: "r = SignReceipt cr priv (new_receipt e)"
    and app: "ApplyEvent cr (loadState (tp_tables p)) (log_of e) = Inr st'"
    and free: "\<not> list_ex (clashes (new_row e r (cm_signature c))) (db_events d)"
    and d': "d' = d\<lparr>db_events := db_events d @ [new_row e r (cm_signature c)],
           db_projects := m_put (cm_project_id c) ((loaded_row p)\<lparr>pj_sequence := pj_sequence (loaded_row p) + 1,
             pj_head := ce_hash e, pj_state := st', pj_updated := now\<rparr>) (db_projects d)\<rparr>"
    by (auto elim: commit_Inr)
  have row: "m_get (db_projects d) (cm_project_id c) = Some (loaded_row p)"
    using assms(3,4) by (metis option.simps(9) same_as_def)
  have seq: "ce_sequence e = tp_sequence p + 1" by (subst e) simp
  have hash: "HashEvent cr (new_event (loaded_row p) c intent fp payload now) = Inr (ce_hash e)"
    using s(2) e HashEvent_ignores_hash by metis
  have "storable (loadState (tp_tables p)) st'"
    using assms(5) row by (simp add: storable_change_def d' m_get_put)
  with rows_reload ApplyEvent_ordered [OF assms(2) app] obtain tb' where
    tb': "persistProjectionChanges cr (ce_sequence e) (loadState (tp_tables p)) st' (tp_tables p) = Inr tb'"
      "loadState tb' = st'" by blast
  have free': "\<not> list_ex (clashes (stored_row jsonb (new_row e r (cm_signature c)))) (td_events td)"
    using free assms(3) by (simp add: same_as_def clashes_stored)
  define td' where "td' = td\<lparr>td_events := td_events td @ [stored_row jsonb (new_row e r (cm_signature c))],
    td_projects := m_put (cm_project_id c) (p\<lparr>tp_sequence := ce_sequence e, tp_head := ce_hash e,
      tp_updated := now, tp_tables := tb'\<rparr>) (td_projects td), td_outbox := td_outbox td @ [queue_row now e]\<rparr>"
  have "team_commit cr jsonb priv td p c intent q fp now = Inr (td', e, r)"
    using s(1) hash app tb'(1) free' by (simp add: team_commit_def Let_def td'_def seq e [symmetric] r [symmetric])
  moreover have "same_as jsonb td' d'"
    using assms(3) by (auto simp: same_as_def td'_def d' m_get_put seq tb'(2) loaded_row_def)
  ultimately show ?thesis by blast
qed

lemma nothing_changed [simp]: "changed z m m = []" "fresh_nonzero z m m" "all_kept m m"
proof -
  show "changed z m m = []" by (auto simp: changed_def filter_empty_conv m_entries_get)
  show "fresh_nonzero z m m" by (auto simp: fresh_nonzero_def list_all_iff m_has_def m_entries_get)
  show "all_kept m m" unfolding all_kept_def list_all_iff by (metis has_keys)
qed

lemma nothing_refused [simp]: "worktrees_free m m" "attempts_fit []"
  by (simp_all add: worktrees_free_def attempts_fit_def)

lemma storable_refl [simp]: "storable s s"
  by (simp add: storable_def)

lemma Mutate_Inl:
  assumes "Mutate cr priv clock d c = Inl x" "m_get (db_projects d) (cm_project_id c) = Some row"
  obtains (form) "as_control CodeValidation (IntentHash cr c) = Inl x"
  | (reused) intent where "IntentHash cr c = Inr intent"
      "replay d (cm_project_id c) (cm_idempotency_key c) intent = Inl x"
  | (refused) intent where "IntentHash cr c = Inr intent"
      "replay d (cm_project_id c) (cm_idempotency_key c) intent = Inr None"
      "admit cr row c (microseconds clock) = Inl x"
  | (failed) intent t q fp where "IntentHash cr c = Inr intent"
      "replay d (cm_project_id c) (cm_idempotency_key c) intent = Inr None"
      "admit cr row c (microseconds clock) = Inr (t, q, fp)"
      "commit cr priv d row c intent q fp (microseconds clock) = Inl x"
proof (cases "IntentHash cr c")
  case (Inl y)
  with assms form show thesis by (simp add: Mutate_def as_control_def)
next
  case (Inr intent)
  note i = this
  show thesis
  proof (cases "replay d (cm_project_id c) (cm_idempotency_key c) intent")
    case (Inl y)
    with assms i reused show thesis by (simp add: Mutate_def as_control_def)
  next
    case (Inr found)
    with assms i have "found = None" by (cases found) (auto simp: Mutate_def as_control_def)
    with Inr assms i refused failed show thesis
      by (cases "admit cr row c (microseconds clock)") (auto simp: Mutate_def as_control_def Let_def)
  qed
qed

lemma command_agrees:
  assumes "codec_ok cr" "reachable cr priv d" "same_as jsonb td d"
  shows "Mutate cr priv clock d c = Inl x \<Longrightarrow> team_Mutate cr jsonb priv clock td c = Inl x"
    and "Mutate cr priv clock d c = Inr (d', e, r) \<Longrightarrow> storable_change d d' (cm_project_id c) \<Longrightarrow>
      \<exists>td' e'. team_Mutate cr jsonb priv clock td c = Inr (td', e', r) \<and> same_as jsonb td' d' \<and>
        e' \<in> {e, stored jsonb e}"
proof -
  have good: "good cr d" by (rule reachable_good [OF assms(2)])
  note same = assms(3)
  have none: "m_get (td_projects td) k = None \<longleftrightarrow> m_get (db_projects d) k = None" for k
    using same by (metis option.map_disc_iff same_as_def)
  have rowD: "m_get (db_projects d) k = Some row \<Longrightarrow>
      \<exists>p. m_get (td_projects td) k = Some p \<and> row = loaded_row p" for k row
    using same by (metis map_option_eq_Some same_as_def)
  show "team_Mutate cr jsonb priv clock td c = Inl x" if m: "Mutate cr priv clock d c = Inl x"
  proof (cases "m_get (db_projects d) (cm_project_id c)")
    case None
    with m none [THEN iffD2, OF None] show ?thesis by (simp add: Mutate_def team_Mutate_def)
  next
    case (Some row)
    then obtain p where p: "m_get (td_projects td) (cm_project_id c) = Some p" "row = loaded_row p"
      using rowD by blast
    from m Some show ?thesis
    proof (cases rule: Mutate_Inl)
      case (failed intent t q fp)
      then have "\<forall>r\<in>set (db_events d). er_project r = cm_project_id c \<longrightarrow> er_key r \<noteq> cm_idempotency_key c"
        by (simp add: replay_Inr)
      with commit_Inl_agrees [OF failed(4) [unfolded p(2)] good] Some p failed show ?thesis
        by (simp add: team_Mutate_def replay_agrees [OF same] admitted_alike Let_def as_control_def)
    qed (use p in \<open>simp_all add: team_Mutate_def replay_agrees [OF same] admitted_alike Let_def as_control_def\<close>)
  qed
  show "\<exists>td' e'. team_Mutate cr jsonb priv clock td c = Inr (td', e', r) \<and> same_as jsonb td' d' \<and>
        e' \<in> {e, stored jsonb e}"
    if m: "Mutate cr priv clock d c = Inr (d', e, r)" and st: "storable_change d d' (cm_project_id c)"
    using m
  proof (cases rule: Mutate_Inr)
    case (replayed row intent)
    with rowD obtain p where "m_get (td_projects td) (cm_project_id c) = Some p" by blast
    with replayed same show ?thesis
      by (simp add: team_Mutate_def replay_agrees [OF same] as_control_def)
  next
    case (fresh row intent t q fp)
    with rowD obtain p where p: "m_get (td_projects td) (cm_project_id c) = Some p" "row = loaded_row p" by blast
    from commit_agrees [OF fresh(5) [unfolded p(2)] _ same p(1) st] assms(1) obtain td' where
      "team_commit cr jsonb priv td p c intent q fp (microseconds clock) = Inr (td', e, r)" "same_as jsonb td' d'"
      by (auto simp: codec_ok_def)
    with fresh p show ?thesis
      by (auto simp: team_Mutate_def replay_agrees [OF same] admitted_alike Let_def as_control_def)
  qed
qed

text \<open>
  C3. The two authorities agree on every command. When the personal authority refuses it, the team authority
  refuses it with the same error. When the personal authority commits it, and the change can be expressed
  in rows, the team authority commits it with the same event and the same signed receipt, and its rows
  load to the same state again. (A repeated command is answered by both from the log; the team authority
  returns the payload as \<open>JSONB\<close> gives it back.)
\<close>

theorem authorities_agree:
  assumes "codec_ok cr" "reachable cr priv d" "same_as jsonb td d"
  shows "case Mutate cr priv clock d c of
      Inl x \<Rightarrow> team_Mutate cr jsonb priv clock td c = Inl x
    | Inr (d', e, r) \<Rightarrow> storable_change d d' (cm_project_id c) \<longrightarrow>
        (\<exists>td' e'. team_Mutate cr jsonb priv clock td c = Inr (td', e', r) \<and> same_as jsonb td' d' \<and>
           e' \<in> {e, stored jsonb e})"
  using command_agrees [OF assms] by (auto split: sum.split)

subsection \<open>A whole run\<close>

text \<open>
  A server is simulated by another when the second refuses what the first refuses, and accepts what it accepts
  as long as the step is within what the second can represent.
\<close>

fun within :: "('s \<Rightarrow> 's \<Rightarrow> 'c \<Rightarrow> bool) \<Rightarrow> ('s \<Rightarrow> 'c \<Rightarrow> 'e + 's) \<Rightarrow> 's \<Rightarrow> 'c list \<Rightarrow> bool" where
  "within ok f s [] = True"
| "within ok f s (c # cs) =
     (case f s c of Inl x \<Rightarrow> within ok f s cs | Inr s' \<Rightarrow> ok s s' c \<and> within ok f s' cs)"

locale simulated = inv_kept step inv
  for step :: "'s \<Rightarrow> 'c \<Rightarrow> 'e + 's" and inv :: "'s \<Rightarrow> bool" +
  fixes step' :: "'t \<Rightarrow> 'c \<Rightarrow> 'e + 't" and rel :: "'t \<Rightarrow> 's \<Rightarrow> bool"
    and ok :: "'s \<Rightarrow> 's \<Rightarrow> 'c \<Rightarrow> bool"
  assumes refuses: "inv s \<Longrightarrow> rel t s \<Longrightarrow> step s c = Inl x \<Longrightarrow> step' t c = Inl x"
    and accepts: "inv s \<Longrightarrow> rel t s \<Longrightarrow> step s c = Inr s' \<Longrightarrow> ok s s' c \<Longrightarrow>
      \<exists>t'. step' t c = Inr t' \<and> rel t' s'"
begin

lemma serve_simulated:
  "inv s \<Longrightarrow> rel t s \<Longrightarrow> within ok step s cs \<Longrightarrow> rel (serve step' t cs) (serve step s cs)"
proof (induction cs arbitrary: s t)
  case (Cons c cs)
  show ?case
  proof (cases "step s c")
    case (Inl x)
    with Cons refuses [OF Cons.prems(1,2) Inl] show ?thesis by simp
  next
    case (Inr s')
    with Cons.prems(3) have "ok s s' c" "within ok step s' cs" by simp_all
    with accepts [OF Cons.prems(1,2) Inr] obtain t' where "step' t c = Inr t'" "rel t' s'" by blast
    with Cons.IH [OF step_keeps [OF Cons.prems(1) Inr] \<open>rel t' s'\<close> \<open>within ok step s' cs\<close>] Inr
    show ?thesis by simp
  qed
qed simp

end

definition team_step ::
  "crypto \<Rightarrow> (string \<Rightarrow> string) \<Rightarrow> string \<Rightarrow> team_db \<Rightarrow> request \<Rightarrow> fault + team_db" where
  "team_step cr jsonb priv td r =
     (case r of
        Create now projectID ownerID \<Rightarrow> team_CreateProject now td projectID ownerID
      | Submit now c \<Rightarrow> and_then (team_Mutate cr jsonb priv now td c) (\<lambda>(td', _, _). Inr td'))"

definition storable_request :: "db \<Rightarrow> db \<Rightarrow> request \<Rightarrow> bool" where
  "storable_request d d' r =
     (case r of Create now k owner \<Rightarrow> True | Submit now c \<Rightarrow> storable_change d d' (cm_project_id c))"

lemma load_empty: "loadState no_tables = EmptyState"
  by (rule state.equality) (simp_all add: no_tables_def loadProjection_def, simp add: EmptyState_def del: EmptyState_sel)

lemma create_agrees:
  assumes "same_as jsonb td d"
  shows "CreateProject now d k owner = Inl x \<Longrightarrow> team_CreateProject now td k owner = Inl x"
    and "CreateProject now d k owner = Inr d' \<Longrightarrow>
      \<exists>td'. team_CreateProject now td k owner = Inr td' \<and> same_as jsonb td' d'"
proof -
  have has: "m_has (td_projects td) k = m_has (db_projects d) k"
    using assms unfolding m_has_def same_as_def by (metis option.map_disc_iff)
  show "CreateProject now d k owner = Inl x \<Longrightarrow> team_CreateProject now td k owner = Inl x"
    by (auto simp: CreateProject_def team_CreateProject_def split: if_splits)
  show "CreateProject now d k owner = Inr d' \<Longrightarrow>
      \<exists>td'. team_CreateProject now td k owner = Inr td' \<and> same_as jsonb td' d'"
    using assms by (auto simp: CreateProject_def team_CreateProject_def has same_as_def m_get_put loaded_row_def
        load_empty split: if_splits)
qed

text \<open>The personal authority's invariant for the simulation is to be reachable.\<close>

interpretation team: simulated "step cr priv" "\<lambda>d. codec_ok cr \<and> reachable cr priv d"
  "team_step cr jsonb priv" "same_as jsonb" storable_request for cr jsonb priv
proof unfold_locales
  fix d c d' assume "codec_ok cr \<and> reachable cr priv d" "step cr priv d c = Inr d'"
  then show "codec_ok cr \<and> reachable cr priv d'" using reachable_step by blast
next
  fix d td c x assume a: "codec_ok cr \<and> reachable cr priv d" "same_as jsonb td d" "step cr priv d c = Inl x"
  then show "team_step cr jsonb priv td c = Inl x"
    by (cases c) (auto simp: step_def team_step_def and_then_Inl
        dest: create_agrees(1) [OF a(2)] command_agrees(1) [OF a(1) [THEN conjunct1] a(1) [THEN conjunct2] a(2)])
next
  fix d td c d' assume a: "codec_ok cr \<and> reachable cr priv d" "same_as jsonb td d" "step cr priv d c = Inr d'"
    "storable_request d d' c"
  then show "\<exists>td'. team_step cr jsonb priv td c = Inr td' \<and> same_as jsonb td' d'"
  proof (cases c)
    case (Create now k owner)
    with a create_agrees(2) [OF a(2)] show ?thesis by (simp add: step_def team_step_def)
  next
    case (Submit now cmd)
    with a(3) obtain e r where "Mutate cr priv now d cmd = Inr (d', e, r)" by (auto simp: step_def)
    with command_agrees(2) [OF a(1) [THEN conjunct1] a(1) [THEN conjunct2] a(2) this] a(4) Submit
    show ?thesis by (auto simp: storable_request_def team_step_def)
  qed
qed

text \<open>
  C4. A team project and a personal project that serve the same requests show the same state: after any
  sequence of requests whose accepted changes can be expressed in rows, the two authorities answer a
  read of any project with the same state, at the same sequence, differing only in what they say of
  themselves (the consistency and connectivity fields).
\<close>

theorem team_serves_same_state:
  assumes "codec_ok cr" "within storable_request (step cr priv) empty_db rs"
    and "State (serve (step cr priv) empty_db rs) k now = Inr (st, md)"
  shows "\<exists>st' md'. team_State (serve (team_step cr jsonb priv) empty_team rs) k now = Inr (st', md') \<and>
    st' = st\<lparr>st_integrity := (st_integrity st)\<lparr>ig_sync_state := ''authoritative''\<rparr>\<rparr> \<and>
    md_server_sequence md' = md_server_sequence md"
proof -
  let ?d = "serve (step cr priv) empty_db rs"
  let ?td = "serve (team_step cr jsonb priv) empty_team rs"
  have "reachable cr priv empty_db" unfolding reachable_def by (rule exI [of _ "[]"]) simp
  moreover have "same_as jsonb empty_team empty_db"
    by (simp add: same_as_def empty_team_def empty_db_def)
  ultimately have same: "same_as jsonb ?td ?d"
    using team.serve_simulated [of cr priv empty_db jsonb empty_team rs] assms(1,2) by blast
  from assms(3) obtain row where row: "m_get (db_projects ?d) k = Some row"
    by (auto simp: State_def split: option.splits)
  with same obtain p where p: "m_get (td_projects ?td) k = Some p" "row = loaded_row p"
    by (metis map_option_eq_Some same_as_def)
  from assms(3) row p show ?thesis
    by (auto simp: State_def team_State_def Let_def RefreshRuntimePresence_def)
qed

end
