(* ===== verification/Team_Safety.thy ===== *)
theory Team_Safety
  imports Team_Facts
begin

text \<open>
  What the team authority guarantees on its own, over any sequence of its requests, deletions and publications
  included: its log stays a verified chain, every event is queued once and published once, a deletion
  needs the owner's elevated key and takes everything with it; and two losses the schema causes.
\<close>

datatype team_request =
    TCreate time string string | TSubmit time command | TDelete time command | TPublish time

definition serve_team ::
  "crypto \<Rightarrow> (string \<Rightarrow> string) \<Rightarrow> string \<Rightarrow> team_db \<Rightarrow> team_request \<Rightarrow> fault + team_db" where
  "serve_team cr jsonb priv td r =
     (case r of
        TCreate now k owner \<Rightarrow> team_CreateProject now td k owner
      | TSubmit now c \<Rightarrow> and_then (team_Mutate cr jsonb priv now td c) (\<lambda>(td', _, _). Inr td')
      | TDelete now c \<Rightarrow> DeleteProject cr now td c
      | TPublish now \<Rightarrow> Inr (fst (publishOutboxBatch now td)))"

subsection \<open>What an accepted command did\<close>

lemma team_commit_Inr:
  assumes "team_commit cr jsonb priv td p c intent q fp now = Inr (td', e, r)"
  obtains payload st' tb where "EncodePayload cr (cm_type c) q = Inr payload" "HashEvent cr e = Inr (ce_hash e)"
    "e = (new_event (loaded_row p) c intent fp payload now)\<lparr>ce_hash := ce_hash e\<rparr>"
    "r = SignReceipt cr priv (new_receipt e)" "ApplyEvent cr (loadState (tp_tables p)) (log_of e) = Inr st'"
    "persistProjectionChanges cr (ce_sequence e) (loadState (tp_tables p)) st' (tp_tables p) = Inr tb"
    "\<not> list_ex (clashes (stored_row jsonb (new_row e r (cm_signature c)))) (td_events td)"
    "td' = td\<lparr>td_events := td_events td @ [stored_row jsonb (new_row e r (cm_signature c))],
       td_projects := m_put (cm_project_id c) (p\<lparr>tp_sequence := ce_sequence e, tp_head := ce_hash e,
         tp_updated := now, tp_tables := tb\<rparr>) (td_projects td), td_outbox := td_outbox td @ [queue_row now e]\<rparr>"
  using assms by (auto simp: team_commit_def Let_def HashEvent_ignores_hash)

lemma team_Mutate_Inr:
  assumes "team_Mutate cr jsonb priv clock td c = Inr (td', e, r)"
  obtains (replayed) "td' = td"
  | (fresh) p intent t q fp where "m_get (td_projects td) (cm_project_id c) = Some p"
      "IntentHash cr c = Inr intent"
      "\<forall>x\<in>set (td_events td). er_project x = cm_project_id c \<longrightarrow> er_key x \<noteq> cm_idempotency_key c"
      "team_admit cr p c (microseconds clock) = Inr (t, q, fp)"
      "team_commit cr jsonb priv td p c intent q fp (microseconds clock) = Inr (td', e, r)"
proof -
  from assms obtain p where p: "m_get (td_projects td) (cm_project_id c) = Some p"
    by (cases "m_get (td_projects td) (cm_project_id c)") (simp_all add: team_Mutate_def)
  from assms p obtain intent found where found: "IntentHash cr c = Inr intent"
    "team_replay td (cm_project_id c) (cm_idempotency_key c) intent = Inr found"
    by (simp add: team_Mutate_def) blast
  show thesis
  proof (cases found)
    case (Some x)
    with assms p found replayed show thesis by (cases x) (simp add: team_Mutate_def)
  next
    case None
    with found(2) have "\<forall>x\<in>set (td_events td). er_project x = cm_project_id c \<longrightarrow> er_key x \<noteq> cm_idempotency_key c"
      by (auto simp: team_replay_def find_None_iff split: option.splits)
    with assms p found None fresh show thesis by (auto simp: team_Mutate_def Let_def)
  qed
qed

lemma DeleteProject_Inr:
  assumes "DeleteProject cr clock td c = Inr td'"
  obtains p agent n where "command_validate cr c (microseconds clock) = None" "cm_type c = ''project.delete''"
    "m_get (td_projects td) (cm_project_id c) = Some p"
    "m_get (tb_agents (tp_tables p)) (cm_actor c) = Some (agent, n)" "ag_role agent = RoleOwner"
    "ag_elevated_public_key agent \<noteq> []" "command_verify cr c (ag_elevated_public_key agent)"
    "\<not> m_has (td_deleted td) (cm_project_id c)"
    "td' = drop_project (cm_project_id c) (td\<lparr>td_deleted := m_put (cm_project_id c)
       \<lparr>ts_owner = tp_owner p, ts_deleted_by = cm_actor c,
        ts_fingerprint = Fingerprint cr (ag_elevated_public_key agent)\<rparr> (td_deleted td)\<rparr>)"
  using assms by (auto simp: DeleteProject_def split: option.splits)

subsection \<open>The chain of a project\<close>

definition team_rows :: "team_db \<Rightarrow> string \<Rightarrow> event_row list" where
  "team_rows td k = List.filter (\<lambda>r. er_project r = k) (td_events td)"

text \<open>The rows of a project with their number and head, written event by event.\<close>

inductive team_chain ::
  "crypto \<Rightarrow> (string \<Rightarrow> string) \<Rightarrow> string \<Rightarrow> string \<Rightarrow> event_row list \<Rightarrow> nat \<Rightarrow> string \<Rightarrow> bool"
  for cr jsonb priv k where
  empty: "team_chain cr jsonb priv k [] 0 []"
| snoc: "team_chain cr jsonb priv k rows n h \<Longrightarrow> ce_project_id e = k \<Longrightarrow> ce_sequence e = n + 1 \<Longrightarrow>
    ce_id e = event_id (n + 1) \<Longrightarrow> ce_previous_hash e = h \<Longrightarrow> HashEvent cr e = Inr (ce_hash e) \<Longrightarrow>
    team_chain cr jsonb priv k
      (rows @ [stored_row jsonb (new_row e (SignReceipt cr priv (new_receipt e)) sig)]) (n + 1) (ce_hash e)"

definition queued :: "team_db \<Rightarrow> bool" where
  "queued td \<longleftrightarrow> List.map (\<lambda>o'. (ob_project o', ob_sequence o')) (td_outbox td) =
     List.map (\<lambda>r. (er_project r, er_sequence r)) (td_events td) \<and>
     (\<forall>o'\<in>set (td_outbox td). ob_attempts o' = (if ob_published o' = None then 0 else 1))"

definition chained :: "crypto \<Rightarrow> (string \<Rightarrow> string) \<Rightarrow> string \<Rightarrow> team_db \<Rightarrow> bool" where
  "chained cr jsonb priv td \<longleftrightarrow>
     (\<forall>k p. m_get (td_projects td) k = Some p \<longrightarrow>
        team_chain cr jsonb priv k (team_rows td k) (tp_sequence p) (tp_head p)) \<and>
     (\<forall>r\<in>set (td_events td). m_has (td_projects td) (er_project r))"

lemma chain_length: "team_chain cr jsonb priv k rows n h \<Longrightarrow> length rows = n"
  by (induction rule: team_chain.induct) simp_all

lemma chain_sequences: "team_chain cr jsonb priv k rows n h \<Longrightarrow> List.map er_sequence rows = [1..<n + 1]"
  by (induction rule: team_chain.induct) (simp_all add: new_row_def)

lemma distinct_pairs:
  "(\<And>k. distinct (List.map g (List.filter (\<lambda>r. f r = k) xs))) \<Longrightarrow> distinct (List.map (\<lambda>r. (f r, g r)) xs)"
proof (induction xs)
  case (Cons x xs)
  have "distinct (List.map g (List.filter (\<lambda>r. f r = k) xs))" for k
    using Cons.prems [of k] by (auto split: if_splits)
  moreover have "g x \<notin> g ` {r \<in> set xs. f r = f x}" using Cons.prems [of "f x"] by auto
  ultimately show ?case using Cons.IH by auto
qed simp

lemma chain_distinct:
  assumes "chained cr jsonb priv td"
  shows "distinct (List.map (\<lambda>r. (er_project r, er_sequence r)) (td_events td))"
proof -
  have "distinct (List.map er_sequence (team_rows td k))" for k
  proof (cases "m_get (td_projects td) k")
    case None
    with assms have "team_rows td k = []"
      by (auto simp: chained_def team_rows_def filter_empty_conv m_has_def)
    then show ?thesis by simp
  next
    case (Some p)
    with assms have "team_chain cr jsonb priv k (team_rows td k) (tp_sequence p) (tp_head p)"
      by (simp add: chained_def)
    from chain_sequences [OF this] show ?thesis by (metis distinct_upt)
  qed
  then show ?thesis unfolding team_rows_def by (intro distinct_pairs)
qed

text \<open>No event of a project clashes with the next one: its sequence, its id and its key are new.\<close>

lemma chain_fits:
  "team_chain cr jsonb priv k rows n h \<Longrightarrow> r \<in> set rows \<Longrightarrow>
   er_project r = k \<and> 1 \<le> er_sequence r \<and> er_sequence r \<le> n \<and> er_event_id r = event_id (er_sequence r)"
  by (induction rule: team_chain.induct) (auto simp: new_row_def)

lemma chained_empty: "chained cr jsonb priv empty_team" "queued empty_team"
  by (simp_all add: chained_def queued_def empty_team_def)

lemma commit_chained:
  assumes "chained cr jsonb priv td" "queued td" "m_get (td_projects td) (cm_project_id c) = Some p"
    and "team_commit cr jsonb priv td p c intent q fp now = Inr (td', e, r)"
  shows "chained cr jsonb priv td'" "queued td'"
proof -
  from assms(4) obtain payload tb where e: "HashEvent cr e = Inr (ce_hash e)"
    "e = (new_event (loaded_row p) c intent fp payload now)\<lparr>ce_hash := ce_hash e\<rparr>"
    "r = SignReceipt cr priv (new_receipt e)"
    and td': "td' = td\<lparr>td_events := td_events td @ [stored_row jsonb (new_row e r (cm_signature c))],
       td_projects := m_put (cm_project_id c) (p\<lparr>tp_sequence := ce_sequence e, tp_head := ce_hash e,
         tp_updated := now, tp_tables := tb\<rparr>) (td_projects td), td_outbox := td_outbox td @ [queue_row now e]\<rparr>"
    by (rule team_commit_Inr)
  have sel: "ce_project_id e = cm_project_id c" "ce_sequence e = tp_sequence p + 1"
    "ce_id e = event_id (tp_sequence p + 1)" "ce_previous_hash e = tp_head p"
    by (subst e(2), simp)+
  have row: "er_project (new_row e r sig) = cm_project_id c" "er_sequence (new_row e r sig) = tp_sequence p + 1" for sig
    by (simp_all add: new_row_def sel)
  have old: "team_chain cr jsonb priv (cm_project_id c) (team_rows td (cm_project_id c)) (tp_sequence p) (tp_head p)"
    using assms(1,3) by (simp add: chained_def)
  have "team_rows td' k = (if k = cm_project_id c then team_rows td k @ [stored_row jsonb (new_row e r (cm_signature c))]
      else team_rows td k)" for k
    by (simp add: td' team_rows_def sel)
  with team_chain.snoc [OF old sel(1-4) e(1)] assms(1) show "chained cr jsonb priv td'"
    by (auto simp: chained_def td' m_get_put m_has_def row sel e(3) [symmetric] split: if_splits)
  show "queued td'" using assms(2) by (simp add: queued_def td' queue_row_def row sel)
qed

lemma drop_chained:
  assumes "chained cr jsonb priv td" "queued td"
  shows "chained cr jsonb priv (drop_project k (td\<lparr>td_deleted := ts\<rparr>))" "queued (drop_project k (td\<lparr>td_deleted := ts\<rparr>))"
proof -
  have "team_rows (drop_project k (td\<lparr>td_deleted := ts\<rparr>)) j = (if j = k then [] else team_rows td j)" for j
    by (auto simp: team_rows_def drop_project_def filter_empty_conv intro: filter_cong)
  with assms(1) show "chained cr jsonb priv (drop_project k (td\<lparr>td_deleted := ts\<rparr>))"
    by (auto simp: chained_def drop_project_def m_get_del m_has_def split: if_splits)
  have "List.map (\<lambda>o'. (ob_project o', ob_sequence o')) (List.filter (\<lambda>o'. ob_project o' \<noteq> k) os) =
      List.map (\<lambda>r. (er_project r, er_sequence r)) (List.filter (\<lambda>r. er_project r \<noteq> k) rs)"
    if "List.map (\<lambda>o'. (ob_project o', ob_sequence o')) os = List.map (\<lambda>r. (er_project r, er_sequence r)) rs" for os rs
    using that by (induction os arbitrary: rs) (auto simp: Cons_eq_map_conv)
  with assms(2) show "queued (drop_project k (td\<lparr>td_deleted := ts\<rparr>))"
    by (auto simp: queued_def drop_project_def)
qed

subsection \<open>Publishing\<close>

definition item_of :: "outbox_row \<Rightarrow> string \<times> nat" where
  "item_of o' = (ob_project o', ob_sequence o')"

lemma publish_all: "distinct items \<Longrightarrow> fold (publish now) items rows =
    List.map (\<lambda>o'. if item_of o' \<in> set items
      then o'\<lparr>ob_published := Some now, ob_attempts := ob_attempts o' + 1\<rparr> else o') rows"
proof (induction items arbitrary: rows)
  case (Cons x items)
  then show ?case by (auto simp: publish_def item_of_def comp_def intro!: map_cong)
qed simp

definition pending :: "team_db \<Rightarrow> nat" where
  "pending td = length (List.filter (\<lambda>o'. ob_published o' = None) (td_outbox td))"

lemma batch_items:
  assumes "distinct (List.map item_of rows)"
  shows "distinct (batch now rows)" "set (batch now rows) \<subseteq> item_of ` {o' \<in> set rows. due now o'}"
    "length (batch now rows) = min outboxBatchSize (length (List.filter (due now) rows))"
proof -
  let ?s = "sort_key ob_next_attempt (List.filter (due now) rows)"
  have b: "batch now rows = take outboxBatchSize (List.map item_of ?s)"
    by (simp add: batch_def item_of_def take_map)
  have "mset (List.map item_of ?s) = mset (List.map item_of (List.filter (due now) rows))" by simp
  moreover have "distinct (List.map item_of (List.filter (due now) rows))"
    using assms by (rule distinct_map_filter)
  ultimately have "distinct (List.map item_of ?s)" by (metis mset_eq_imp_distinct_iff)
  then show "distinct (batch now rows)" unfolding b by (rule distinct_take)
  show "set (batch now rows) \<subseteq> item_of ` {o' \<in> set rows. due now o'}"
    unfolding b using set_take_subset by fastforce
  show "length (batch now rows) = min outboxBatchSize (length (List.filter (due now) rows))"
    unfolding b by simp
qed

lemma published_count:
  assumes "distinct (List.map item_of rows)" "I \<subseteq> item_of ` {o' \<in> set rows. ob_published o' = None}"
  shows "length (List.filter (\<lambda>o'. ob_published o' = None \<and> item_of o' \<notin> I) rows) + card I =
    length (List.filter (\<lambda>o'. ob_published o' = None) rows)"
proof -
  let ?xs = "List.filter (\<lambda>o'. ob_published o' = None) rows"
  have d: "distinct (List.map item_of ?xs)" using assms(1) by (rule distinct_map_filter)
  have I: "I \<subseteq> set (List.map item_of ?xs)" using assms(2) by auto
  have "card I + length (List.filter (\<lambda>o'. item_of o' \<notin> I) xs) = length xs"
    if "distinct (List.map item_of xs)" "I \<subseteq> set (List.map item_of xs)" for xs :: "outbox_row list" and I
    using that
  proof (induction xs arbitrary: I)
    case (Cons x xs)
    have "finite I" using Cons.prems(2) by (meson List.finite_set finite_subset)
    have same: "List.filter (\<lambda>o'. item_of o' \<notin> I - {item_of x}) xs = List.filter (\<lambda>o'. item_of o' \<notin> I) xs"
      using Cons.prems(1) by (intro filter_cong) (auto simp: image_iff)
    have "card (I - {item_of x}) + length (List.filter (\<lambda>o'. item_of o' \<notin> I - {item_of x}) xs) = length xs"
      using Cons.prems by (intro Cons.IH) auto
    then show ?case unfolding same
      using \<open>finite I\<close> card_Suc_Diff1 [of I "item_of x"] by (cases "item_of x \<in> I") auto
  qed simp
  from this [OF d I] show ?thesis by (simp add: conj_commute)
qed

lemma publish_keeps:
  assumes "chained cr jsonb priv td" "queued td"
  shows "chained cr jsonb priv (fst (publishOutboxBatch now td))" "queued (fst (publishOutboxBatch now td))"
proof -
  let ?items = "batch now (td_outbox td)"
  have d: "distinct (List.map item_of (td_outbox td))"
    using chain_distinct [OF assms(1)] assms(2) by (simp add: queued_def item_of_def [abs_def])
  have fresh: "ob_published o' = None" if "o' \<in> set (td_outbox td)" "item_of o' \<in> set ?items" for o'
  proof -
    from that(2) batch_items(2) [OF d] obtain x where "x \<in> set (td_outbox td)" "due now x" "item_of x = item_of o'"
      by force
    with d that(1) have "x = o'" by (simp add: distinct_map inj_on_def)
    with \<open>due now x\<close> show ?thesis by (simp add: due_def)
  qed
  have "List.map (\<lambda>o'. (ob_project o', ob_sequence o')) (fold (publish now) ?items (td_outbox td)) =
      List.map (\<lambda>o'. (ob_project o', ob_sequence o')) (td_outbox td)"
    by (auto simp: publish_all [OF batch_items(1) [OF d]])
  moreover have "ob_attempts o' = (if ob_published o' = None then 0 else 1)"
    if "o' \<in> set (fold (publish now) ?items (td_outbox td))" for o'
    using that assms(2) fresh by (auto simp: publish_all [OF batch_items(1) [OF d]] queued_def split: if_splits)
  ultimately show "queued (fst (publishOutboxBatch now td))"
    using assms(2) unfolding queued_def by (simp add: publishOutboxBatch_def Let_def)
  show "chained cr jsonb priv (fst (publishOutboxBatch now td))"
    using assms(1) by (simp add: chained_def publishOutboxBatch_def Let_def team_rows_def)
qed

subsection \<open>Over any run\<close>

lemma serve_team_keeps:
  assumes "chained cr jsonb priv td \<and> queued td" "serve_team cr jsonb priv td r = Inr td'"
  shows "chained cr jsonb priv td' \<and> queued td'"
proof (cases r)
  case (TCreate now k owner)
  show ?thesis
  proof (cases "m_has (td_projects td) k")
    case True
    with TCreate assms show ?thesis by (auto simp: serve_team_def team_CreateProject_def split: if_splits)
  next
    case False
    with TCreate assms(2) obtain p where td': "td' = td\<lparr>td_projects := m_put k p (td_projects td)\<rparr>"
      and p: "tp_sequence p = 0" "tp_head p = []"
      by (auto simp: serve_team_def team_CreateProject_def split: if_splits)
    have none: "team_rows td' k = []" using assms(1) False
      by (auto simp: chained_def team_rows_def filter_empty_conv td')
    have "team_chain cr jsonb priv j (team_rows td' j) (tp_sequence x) (tp_head x)"
      if "m_get (td_projects td') j = Some x" for j x
      using that assms(1) none p team_chain.empty
      by (cases "j = k") (auto simp: td' m_get_put chained_def team_rows_def)
    then have "chained cr jsonb priv td'"
      using assms(1) by (simp add: chained_def td' m_has_def m_get_put)
    with assms(1) show ?thesis by (simp add: queued_def td')
  qed
next
  case (TSubmit now c)
  with assms(2) obtain e rc where "team_Mutate cr jsonb priv now td c = Inr (td', e, rc)"
    by (auto simp: serve_team_def)
  then show ?thesis
  proof (cases rule: team_Mutate_Inr)
    case (fresh p intent t q fp)
    from commit_chained [OF assms(1) [THEN conjunct1] assms(1) [THEN conjunct2] fresh(1,5)] show ?thesis ..
  qed (use assms(1) in simp)
next
  case (TDelete now c)
  with assms(2) have "DeleteProject cr now td c = Inr td'" by (simp add: serve_team_def)
  then show ?thesis 
    by (rule DeleteProject_Inr) (simp add: drop_chained [OF assms(1) [THEN conjunct1] assms(1) [THEN conjunct2]])
next
  case (TPublish now)
  with assms(2) have "td' = fst (publishOutboxBatch now td)" by (simp add: serve_team_def)
  with publish_keeps [OF assms(1) [THEN conjunct1] assms(1) [THEN conjunct2]] show ?thesis by simp
qed

interpretation team_authority: inv_kept "serve_team cr jsonb priv" "\<lambda>td. chained cr jsonb priv td \<and> queued td"
  for cr jsonb priv
  by unfold_locales (rule serve_team_keeps)

definition team_reachable :: "crypto \<Rightarrow> (string \<Rightarrow> string) \<Rightarrow> string \<Rightarrow> team_db \<Rightarrow> bool" where
  "team_reachable cr jsonb priv td \<longleftrightarrow> (\<exists>rs. td = serve (serve_team cr jsonb priv) empty_team rs)"

lemma team_reachable_ok: "team_reachable cr jsonb priv td \<Longrightarrow> chained cr jsonb priv td \<and> queued td"
  unfolding team_reachable_def using team_authority.serve_keeps chained_empty by metis

text \<open>What \<open>JSONB\<close> gives back is the same JSON value.\<close>

definition keeps_json :: "crypto \<Rightarrow> (string \<Rightarrow> string) \<Rightarrow> bool" where
  "keeps_json cr jsonb \<longleftrightarrow> (\<forall>s n. json_or_empty cr s = Some n \<longrightarrow> json_or_empty cr (jsonb s) = Some n)"

lemma stored_hash: "keeps_json cr jsonb \<Longrightarrow> HashEvent cr e = Inr h \<Longrightarrow> HashEvent cr (stored jsonb e) = Inr h"
  by (auto simp: HashEvent_def keeps_json_def stored_def event_form_def split: option.splits)

lemma verify_loop_snoc:
  "team_verify_loop cr key (rows @ [r]) n h = None \<longleftrightarrow>
     team_verify_loop cr key rows n h = None \<and>
     ce_sequence (er_event r) = n + length rows \<and>
     ce_previous_hash (er_event r) = (if rows = [] then h else ce_hash (er_event (last rows))) \<and>
     VerifyEventHash cr (er_event r) \<and> VerifyReceipt cr (er_receipt r) key"
  by (induction cr key rows n h rule: team_verify_loop.induct) (auto simp: Let_def)

lemma chain_head: "team_chain cr jsonb priv k rows n h \<Longrightarrow> h = (if rows = [] then [] else ce_hash (er_event (last rows)))"
  by (erule team_chain.cases) (simp_all add: new_row_def stored_def)

lemma chain_verifies:
  "team_chain cr jsonb priv k rows n h \<Longrightarrow> keeps_json cr jsonb \<Longrightarrow> signs cr priv key \<Longrightarrow>
   \<forall>r\<in>set rows. \<not> has_prefix (er_key r) ''legacy:'' \<Longrightarrow> team_verify_loop cr key rows 1 [] = None"
proof (induction rule: team_chain.induct)
  case (snoc rows n h e sig)
  have "HashEvent cr (stored jsonb e) = Inr (ce_hash e)" using snoc.hyps(6) snoc.prems(1) by (rule stored_hash [rotated])
  moreover have "\<not> has_prefix (ce_idempotency_key e) ''legacy:''" using snoc.prems(3) by (simp add: new_row_def)
  ultimately have "VerifyEventHash cr (stored jsonb e)" by (simp add: VerifyEventHash_def stored_def)
  moreover have "VerifyReceipt cr (SignReceipt cr priv (new_receipt e)) key"
    using snoc.prems(2) by (rule SignReceipt_verifies)
  moreover have "ce_previous_hash e = (if rows = [] then [] else ce_hash (er_event (last rows)))"
    using chain_head [OF snoc.hyps(1)] snoc.hyps(5) by simp
  ultimately show ?case
    using snoc chain_length [OF snoc.hyps(1)] unfolding verify_loop_snoc by (simp add: new_row_def stored_def)
qed simp

lemma chain_receipts:
  "team_chain cr jsonb priv k rows n h \<Longrightarrow>
   \<forall>r\<in>set rows. rc_sequence (er_receipt r) = er_sequence r \<and> rc_event_id (er_receipt r) = er_event_id r \<and>
     rc_event_hash (er_receipt r) = ce_hash (er_event r)"
  by (induction rule: team_chain.induct) (auto simp: new_row_def new_receipt_def stored_def)

text \<open>
  C15. The log of the team authority always verifies: after any sequence of requests, deletions and
  publications, verifying a project's whole range succeeds, its rows are numbered 1 to the project's head
  sequence without a gap, the last one carries the head hash, and each receipt names its own event.
  (The keys of an older import format are left out; \<open>JSONB\<close> keeps JSON values.)
\<close>

theorem team_log_verifies:
  assumes "team_reachable cr jsonb priv td" "m_get (td_projects td) k = Some p"
    and "keeps_json cr jsonb" "signs cr priv key"
    and "\<forall>r\<in>set (td_events td). \<not> has_prefix (er_key r) ''legacy:''"
  shows "team_VerifyRange cr key td k 0 0 = None \<and>
    List.map er_sequence (team_rows_from td k 0) = [1..<tp_sequence p + 1] \<and>
    (tp_sequence p \<noteq> 0 \<longrightarrow> ce_hash (er_event (last (team_rows_from td k 0))) = tp_head p) \<and>
    list_all (\<lambda>r. rc_sequence (er_receipt r) = er_sequence r \<and> rc_event_hash (er_receipt r) = ce_hash (er_event r))
      (team_rows_from td k 0)"
proof -
  have chain: "team_chain cr jsonb priv k (team_rows td k) (tp_sequence p) (tp_head p)"
    using team_reachable_ok [OF assms(1)] assms(2) by (simp add: chained_def)
  note seqs = chain_sequences [OF chain]
  have all: "team_rows_from td k s = team_rows td k" if "s \<le> 1" for s
  proof -
    have "\<forall>r\<in>set (team_rows td k). s \<le> er_sequence r" using that chain_fits [OF chain] by fastforce
    then have "List.filter (\<lambda>r. er_project r = k \<and> er_sequence r \<ge> s) (td_events td) = team_rows td k"
      by (auto simp: team_rows_def intro: filter_cong)
    moreover have "sorted (List.map er_sequence (team_rows td k))" unfolding seqs by (rule sorted_upt)
    ultimately show ?thesis unfolding team_rows_from_def by (auto intro: properties_for_sort_key)
  qed
  have "\<forall>r\<in>set (team_rows td k). \<not> has_prefix (er_key r) ''legacy:''"
    using assms(5) by (simp add: team_rows_def)
  from chain_verifies [OF chain assms(3,4) this] have "team_VerifyRange cr key td k 0 0 = None"
    by (simp add: team_VerifyRange_def all)
  moreover have "tp_sequence p \<noteq> 0 \<longrightarrow> ce_hash (er_event (last (team_rows td k))) = tp_head p"
    using chain_head [OF chain] chain_length [OF chain] by auto
  ultimately show ?thesis
    using seqs chain_receipts [OF chain] by (simp add: all list_all_iff)
qed

subsection \<open>Deleting a project\<close>

text \<open>
  C12. A project is deleted only by its owner, with the elevated key. When \<open>DeleteProject\<close> succeeds, the actor is
  registered in the project as OWNER with an elevated key and the command carries that key's signature;
  the project, its events and its queued publications are gone and the tombstone names who did it; every
  other project is as it was; and the database that this leaves refuses every command to the project.
\<close>

theorem deletion_is_guarded:
  assumes "DeleteProject cr clock td c = Inr td'"
  shows "\<exists>p agent. m_get (td_projects td) (cm_project_id c) = Some p \<and>
    m_get (st_agents (loadState (tp_tables p))) (cm_actor c) = Some agent \<and> ag_role agent = RoleOwner \<and>
    ag_elevated_public_key agent \<noteq> [] \<and> command_verify cr c (ag_elevated_public_key agent) \<and>
    team_rows td' (cm_project_id c) = [] \<and>
    list_all (\<lambda>o'. ob_project o' \<noteq> cm_project_id c) (td_outbox td') \<and>
    m_get (td_deleted td') (cm_project_id c) = Some \<lparr>ts_owner = tp_owner p, ts_deleted_by = cm_actor c,
      ts_fingerprint = Fingerprint cr (ag_elevated_public_key agent)\<rparr> \<and>
    (\<forall>j. j \<noteq> cm_project_id c \<longrightarrow> m_get (td_projects td') j = m_get (td_projects td) j \<and>
       team_rows td' j = team_rows td j) \<and>
    (\<forall>c' now. cm_project_id c' = cm_project_id c \<longrightarrow>
       team_Mutate cr jsonb priv now td' c' = refuse CodeValidation ''project not found'')"
  using assms
proof (rule DeleteProject_Inr)
  fix p agent n
  assume a: "m_get (td_projects td) (cm_project_id c) = Some p"
    "m_get (tb_agents (tp_tables p)) (cm_actor c) = Some (agent, n)" "ag_role agent = RoleOwner"
    "ag_elevated_public_key agent \<noteq> []" "command_verify cr c (ag_elevated_public_key agent)"
    and td': "td' = drop_project (cm_project_id c) (td\<lparr>td_deleted := m_put (cm_project_id c)
       \<lparr>ts_owner = tp_owner p, ts_deleted_by = cm_actor c,
        ts_fingerprint = Fingerprint cr (ag_elevated_public_key agent)\<rparr> (td_deleted td)\<rparr>)"
  have rows: "team_rows td' j = (if j = cm_project_id c then [] else team_rows td j)" for j
    by (auto simp: team_rows_def td' drop_project_def filter_empty_conv intro: filter_cong)
  have "m_get (td_projects td') j = (if j = cm_project_id c then None else m_get (td_projects td) j)" for j
    by (simp add: td' drop_project_def m_get_del)
  with a rows show ?thesis
    by (intro exI [of _ p] exI [of _ agent])
      (auto simp: get_load td' drop_project_def list_all_iff m_get_put team_Mutate_def)
qed

lemma tombstones_stay:
  assumes "serve_team cr jsonb priv td r = Inr td'" "m_has (td_deleted td) k"
  shows "m_has (td_deleted td') k"
proof (cases r)
  case (TCreate now j owner)
  with assms show ?thesis by (auto simp: serve_team_def team_CreateProject_def split: if_splits)
next
  case (TSubmit now c)
  with assms(1) obtain e rc where "team_Mutate cr jsonb priv now td c = Inr (td', e, rc)"
    by (auto simp: serve_team_def)
  then show ?thesis
  proof (cases rule: team_Mutate_Inr)
    case (fresh p intent t q fp)
    from fresh(5) show ?thesis by (rule team_commit_Inr) (use assms(2) in simp)
  qed (use assms(2) in simp)
next
  case (TDelete now c)
  with assms(1) have "DeleteProject cr now td c = Inr td'" by (simp add: serve_team_def)
  then show ?thesis by (rule DeleteProject_Inr) (use assms(2) in \<open>simp add: drop_project_def m_has_def m_get_put\<close>)
next
  case (TPublish now)
  with assms show ?thesis by (auto simp: serve_team_def publishOutboxBatch_def Let_def)
qed

interpretation tombstone: inv_kept "serve_team cr jsonb priv" "\<lambda>td. m_has (td_deleted td) k" for cr jsonb priv k
  by unfold_locales (rule tombstones_stay)

text \<open>
  A project is deleted at most once, for ever. The tombstone outlives the project and its key is the
  project id alone: when a project of that id is created again, its deletion is refused whoever asks,
  with the error of an unavailable server when the owner asks correctly.
\<close>

theorem deleted_at_most_once:
  assumes "DeleteProject cr clock td c = Inr td1"
    and "td2 = serve (serve_team cr jsonb priv) td1 rs"
    and "cm_project_id c' = cm_project_id c"
  shows "\<not> is_ok (DeleteProject cr clock' td2 c')"
proof
  assume "is_ok (DeleteProject cr clock' td2 c')"
  then obtain td3 where "DeleteProject cr clock' td2 c' = Inr td3" by (auto simp: is_ok_def)
  then have "\<not> m_has (td_deleted td2) (cm_project_id c)" by (rule DeleteProject_Inr) (simp add: assms(3))
  moreover have "m_has (td_deleted td1) (cm_project_id c)"
    using assms(1) by (rule DeleteProject_Inr) (simp add: drop_project_def m_has_def m_get_put)
  then have "m_has (td_deleted td2) (cm_project_id c)" unfolding assms(2) by (rule tombstone.serve_keeps)
  ultimately show False by simp
qed

subsection \<open>Rows that are never deleted\<close>

lemma rows_stay: "m_has t k \<Longrightarrow> m_has (persist_rows n xs t) k"
proof (induction xs arbitrary: t)
  case (Cons x xs)
  then show ?case by (cases x) (simp add: m_has_def m_get_put)
qed simp

lemma loaded_has: "m_has (loadProjection t) k = m_has t k"
  by (simp add: m_has_def get_load)

text \<open>
  C37. The team authority never forgets an environment entry or a runtime. Whatever command it accepts,
  \<open>env.delete\<close> and \<open>runtime.delete\<close> included, every entry and every runtime that was in the project's
  state before is in the state it loads afterwards: the writer of the changes only inserts and updates
  rows. (In the personal authority the same events remove them.)
\<close>

theorem team_never_forgets:
  assumes "team_Mutate cr jsonb priv clock td c = Inr (td', e, r)"
    and "m_get (td_projects td) k = Some p"
  shows "\<exists>p'. m_get (td_projects td') k = Some p' \<and>
    (\<forall>x. m_has (st_env (loadState (tp_tables p))) x \<longrightarrow> m_has (st_env (loadState (tp_tables p'))) x) \<and>
    (\<forall>x. m_has (st_runtimes (loadState (tp_tables p))) x \<longrightarrow> m_has (st_runtimes (loadState (tp_tables p'))) x)"
  using assms(1)
proof (cases rule: team_Mutate_Inr)
  case replayed
  with assms(2) show ?thesis by simp
next
  case (fresh p0 intent t q fp)
  from fresh(5) obtain st' tb where
    tb: "persistProjectionChanges cr (ce_sequence e) (loadState (tp_tables p0)) st' (tp_tables p0) = Inr tb"
    and td': "td' = td\<lparr>td_events := td_events td @ [stored_row jsonb (new_row e r (cm_signature c))],
       td_projects := m_put (cm_project_id c) (p0\<lparr>tp_sequence := ce_sequence e, tp_head := ce_hash e,
         tp_updated := microseconds clock, tp_tables := tb\<rparr>) (td_projects td),
       td_outbox := td_outbox td @ [queue_row (microseconds clock) e]\<rparr>"
    by (rule team_commit_Inr)
  have "m_has (tb_env (tp_tables p0)) x \<Longrightarrow> m_has (tb_env tb) x"
    "m_has (tb_runtimes (tp_tables p0)) x \<Longrightarrow> m_has (tb_runtimes tb) x" for x
    using tb by (auto elim!: persisted_form intro: rows_stay)
  with assms(2) fresh(1) show ?thesis
    by (cases "k = cm_project_id c") (simp_all add: td' m_get_put loaded_has)
qed

subsection \<open>The outbox drains\<close>

definition publish_times :: "time \<Rightarrow> nat \<Rightarrow> team_db \<Rightarrow> team_db" where
  "publish_times now n td = ((\<lambda>td. fst (publishOutboxBatch now td)) ^^ n) td"

lemma publish_pending:
  assumes "chained cr jsonb priv td" "queued td" "list_all (\<lambda>o'. ob_next_attempt o' \<le> now) (td_outbox td)"
  shows "pending (fst (publishOutboxBatch now td)) = pending td - outboxBatchSize"
    "list_all (\<lambda>o'. ob_next_attempt o' \<le> now) (td_outbox (fst (publishOutboxBatch now td)))"
proof -
  let ?rows = "td_outbox td"
  let ?items = "batch now ?rows"
  have d: "distinct (List.map item_of ?rows)"
    using chain_distinct [OF assms(1)] assms(2) by (simp add: queued_def item_of_def [abs_def])
  note all = publish_all [OF batch_items(1) [OF d]]
  have due: "List.filter (due now) ?rows = List.filter (\<lambda>o'. ob_published o' = None) ?rows"
    using assms(3) by (intro filter_cong) (auto simp: due_def list_all_iff)
  have "List.filter (\<lambda>o'. ob_published o' = None) (List.map (\<lambda>o'. if item_of o' \<in> I
        then o'\<lparr>ob_published := Some now, ob_attempts := ob_attempts o' + 1\<rparr> else o') rows) =
      List.filter (\<lambda>o'. ob_published o' = None \<and> item_of o' \<notin> I) rows" for I rows
    by (induction rows) auto
  then have "pending (fst (publishOutboxBatch now td)) =
      length (List.filter (\<lambda>o'. ob_published o' = None \<and> item_of o' \<notin> set ?items) ?rows)"
    by (simp add: pending_def publishOutboxBatch_def Let_def all)
  moreover have "set ?items \<subseteq> item_of ` {o' \<in> set ?rows. ob_published o' = None}"
    using batch_items(2) [OF d] by (fastforce simp: due_def)
  from published_count [OF d this] have
    "length (List.filter (\<lambda>o'. ob_published o' = None \<and> item_of o' \<notin> set ?items) ?rows) + length ?items = pending td"
    using distinct_card [OF batch_items(1) [OF d]] by (simp add: pending_def)
  moreover have "length ?items = min outboxBatchSize (pending td)"
    using batch_items(3) [OF d] by (simp add: due pending_def)
  ultimately show "pending (fst (publishOutboxBatch now td)) = pending td - outboxBatchSize" by simp
  show "list_all (\<lambda>o'. ob_next_attempt o' \<le> now) (td_outbox (fst (publishOutboxBatch now td)))"
    using assms(3) by (auto simp: publishOutboxBatch_def Let_def all list_all_iff)
qed

text \<open>
  C16. Every committed event is announced, and once. In any reachable team database the outbox has exactly one
  row per event of the log, in the log's order, sent at most once; when all rows are due, each batch
  announces the next hundred, so after a hundredth as many batches as there are pending rows (rounded
  up) nothing is pending: every row has been sent exactly once.
\<close>

theorem outbox_drains:
  assumes "team_reachable cr jsonb priv td" "list_all (\<lambda>o'. ob_next_attempt o' \<le> now) (td_outbox td)"
    and "pending td \<le> outboxBatchSize * n"
  shows "List.map (\<lambda>o'. (ob_project o', ob_sequence o', ob_attempts o')) (td_outbox (publish_times now n td)) =
    List.map (\<lambda>r. (er_project r, er_sequence r, 1)) (td_events td)"
proof -
  have ok: "chained cr jsonb priv td" "queued td" using team_reachable_ok [OF assms(1)] by auto
  have "chained cr jsonb priv (publish_times now n td) \<and> queued (publish_times now n td) \<and>
      list_all (\<lambda>o'. ob_next_attempt o' \<le> now) (td_outbox (publish_times now n td)) \<and>
      td_events (publish_times now n td) = td_events td \<and>
      pending (publish_times now n td) = pending td - outboxBatchSize * n" for n
  proof (induction n)
    case 0
    show ?case using ok assms(2) by (simp add: publish_times_def)
  next
    case (Suc n)
    have s: "publish_times now (Suc n) td = fst (publishOutboxBatch now (publish_times now n td))"
      by (simp add: publish_times_def)
    have "td_events (fst (publishOutboxBatch now t)) = td_events t" for t
      by (simp add: publishOutboxBatch_def Let_def)
    with Suc publish_pending [of cr jsonb priv "publish_times now n td" now]
      publish_keeps [of cr jsonb priv "publish_times now n td" now]
    show ?case by (simp add: s)
  qed
  then have fin: "queued (publish_times now n td)" "td_events (publish_times now n td) = td_events td"
    "pending (publish_times now n td) = 0"
    using assms(3) by auto
  then have none: "\<forall>o'\<in>set (td_outbox (publish_times now n td)). ob_attempts o' = 1"
    by (auto simp: queued_def pending_def filter_empty_conv)
  have triples: "List.map (\<lambda>o'. (ob_project o', ob_sequence o', ob_attempts o')) os =
      List.map (\<lambda>r. (er_project r, er_sequence r, 1)) rs"
    if "List.map (\<lambda>o'. (ob_project o', ob_sequence o')) os = List.map (\<lambda>r. (er_project r, er_sequence r)) rs"
      "\<forall>o'\<in>set os. ob_attempts o' = 1" for os rs
    using that by (induction os arbitrary: rs) (auto simp: Cons_eq_map_conv)
  have "List.map (\<lambda>o'. (ob_project o', ob_sequence o')) (td_outbox (publish_times now n td)) =
      List.map (\<lambda>r. (er_project r, er_sequence r)) (td_events td)"
    using fin(1,2) by (simp add: queued_def)
  then show ?thesis using none by (rule triples)
qed

end
