(* ===== verification/Team_Samples.thy ===== *)
theory Team_Samples
  imports Team_Safety Samples
begin

text \<open>The theorems on the team authority, at the sample project and at a project given row by row.\<close>

definition same_json :: "string \<Rightarrow> string" where
  "same_json s = s"

subsection \<open>The sample project, served by the team authority\<close>

lemma storable_agents: "storable s (s\<lparr>st_agents := m\<rparr>) \<longleftrightarrow>
    list_all (\<lambda>(k, a). ag_id a = k) (changed zero_agent (st_agents s) m) \<and> fresh_nonzero zero_agent (st_agents s) m"
  unfolding storable_def by simp

lemma owner_storable:
  assumes "\<forall>k a. m_get m k = Some a \<longrightarrow> k = ''o'' \<and> ag_id a = ''o''"
  shows "storable s (s\<lparr>st_agents := m\<rparr>)"
proof -
  have "ag_id zero_agent = []" by (simp add: zero_agent_def)
  with assms show ?thesis
    unfolding storable_agents by (fastforce simp: list_all_iff changed_def fresh_nonzero_def m_entries_get)
qed

lemma env_storable: "e \<noteq> zero_env_entry \<Longrightarrow> storable s (s\<lparr>st_env := m_put k e (st_env s)\<rparr>)"
  unfolding storable_def
  by (auto simp: fresh_nonzero_def all_kept_def list_all_iff m_entries_get m_has_def m_get_put
      simp del: m_entries_put split: if_splits)

lemma toy_within: "within storable_request (step toy toy_key) empty_db toy_requests"
proof -
  obtain d0 d1 e1 r1 row1 e2 r2 row2 where
    d0: "step toy toy_key empty_db (Create 1000 ''p'' ''o'') = Inr d0" "m_get (db_projects d0) ''p'' = Some toy_row0"
    and d1: "Mutate toy toy_key 1000 d0 register = Inr (d1, e1, r1)" "m_get (db_projects d1) ''p'' = Some row1"
    "project toy (Agent_ev AgentRegister) reg (log_of e1) EmptyState = Inr (pj_state row1)" "le_entity_id (log_of e1) = ''o''"
    and d2: "Mutate toy toy_key 1000 d1 activate = Inr (toy_db, e2, r2)" "m_get (db_projects toy_db) ''p'' = Some row2"
    "project toy (Agent_ev AgentActivate) act (log_of e2) (pj_state row1) = Inr (pj_state row2)" "le_entity_id (log_of e2) = ''o''"
    by (rule toy_stages)
  let ?m1 = "st_agents (pj_state row1)" and ?m2 = "st_agents (pj_state row2)"
  have st1: "pj_state row1 = stampEntity (Agent_ev AgentRegister) (log_of e1) (apply_registered toy
      \<lparr>ar_public_key = toy_key, ar_principal_type = PrincipalHuman, ar_display_name = ''Owner''\<rparr> (log_of e1) EmptyState)"
    using d1(3) by (simp add: project_def apply_payload_def reg_def)
  have s1: "pj_state row1 = EmptyState\<lparr>st_agents := ?m1\<rparr>"
    by (simp add: st1 apply_registered_def stampEntity_def Let_def)
  have m1: "\<forall>k a. m_get ?m1 k = Some a \<longrightarrow> k = ''o'' \<and> ag_id a = ''o''" "m_has ?m1 ''o''"
    by (simp_all add: st1 apply_registered_def stampEntity_agents d1(4) m_gets stamp_agent_def m_has_def)
  have st2: "pj_state row2 = stampEntity (Agent_ev AgentActivate) (log_of e2) (apply_activated
      \<lparr>aa_role = RoleOwner, aa_capabilities = [], aa_scopes = [''*'']\<rparr> (log_of e2) (pj_state row1))"
    using d2(3) by (simp add: project_def apply_payload_def act_def)
  have s2: "pj_state row2 = (pj_state row1)\<lparr>st_agents := ?m2\<rparr>"
    by (simp add: st2 apply_activated_def on_agent_def stampEntity_def Let_def)
  have m2: "\<forall>k a. m_get ?m2 k = Some a \<longrightarrow> k = ''o'' \<and> ag_id a = ''o''"
  proof (intro allI impI)
    fix k a assume a: "m_get ?m2 k = Some a"
    obtain a0 where a0: "m_get ?m1 ''o'' = Some a0" "ag_id a0 = ''o''" using m1 unfolding m_has_def by (metis not_None_eq)
    show "k = ''o'' \<and> ag_id a = ''o''"
    proof (cases "k = ''o''")
      case True
      with a a0 show ?thesis
        by (simp add: st2 apply_activated_def on_agent_def stampEntity_agents d2(4) m_gets stamp_agent_def) auto
    next
      case False
      with a have "m_get ?m1 k = Some a"
        by (simp add: st2 apply_activated_def on_agent_def stampEntity_agents d2(4) m_gets)
      with m1(1) show ?thesis by blast
    qed
  qed
  have "storable EmptyState (pj_state row1)" by (subst s1, rule owner_storable [OF m1(1)])
  moreover have "storable (pj_state row1) (pj_state row2)" by (subst s2, rule owner_storable [OF m2])
  ultimately show ?thesis
    using d0 d1(1,2) d2(1,2)
    by (simp add: toy_requests_def step_def [of _ _ _ "Submit _ _"] storable_request_def storable_change_def)
qed

definition toy_team :: team_db where
  "toy_team = serve (team_step toy same_json toy_key) empty_team toy_requests"

lemma toy_same: "same_as same_json toy_team toy_db"
proof -
  have "reachable toy toy_key empty_db" unfolding reachable_def by (rule exI [of _ "[]"]) simp
  moreover have "same_as same_json empty_team empty_db"
    by (simp add: same_as_def empty_team_def empty_db_def)
  ultimately show ?thesis
    unfolding toy_team_def toy_db_def using toy_codec toy_within by (intro team.serve_simulated) auto
qed

lemma toy_set_env:
  obtains d' e r where "Mutate toy toy_key 1000 toy_db set_env = Inr (d', e, r)"
    "storable_change toy_db d' ''p''"
proof -
  obtain row where row: "m_get (db_projects toy_db) ''p'' = Some row"
    "holds_owner RoleOwner ''ACTIVE'' (pj_state row)"
    "\<forall>x\<in>set (db_events toy_db). er_key x \<in> {''k1'', ''k2''}"
    by (rule toy_run)
  then have "\<forall>x\<in>set (db_events toy_db). er_project x = ''p'' \<longrightarrow> er_key x \<noteq> ''k3''" by auto
  with fresh_mutate [where priv = toy_key and clock = 1000 and c = set_env and row = row,
      OF reachable_good [OF toy_reachable] toy_codec _ toy_intent _ _ toy_payloads(9) toy_json]
    row(1) toy_admit_env [OF row(2)]
  obtain d' e r row' where m: "Mutate toy toy_key 1000 toy_db set_env = Inr (d', e, r)"
    "m_get (db_projects d') ''p'' = Some row'"
    "project toy (Env_ev EnvSet) env (log_of e) (pj_state row) = Inr (pj_state row')" by auto
  from m(3) obtain x where "pj_state row' = (pj_state row)\<lparr>st_env := m_put ''K'' x (st_env (pj_state row))\<rparr>"
    "en_key x = ''K''"
    by (simp add: project_def apply_payload_def env_def apply_env_set_def stampEntity_def Let_def)
      (metis env_entry.select_convs(1))
  moreover have "en_key zero_env_entry = []" by (simp add: zero_env_entry_def)
  ultimately have "storable (pj_state row) (pj_state row')" by (metis env_storable list.distinct(1))
  with m row(1) that show thesis by (simp add: storable_change_def)
qed

theorem authorities_agree_witness:
  "\<exists>td' d' e r. Mutate toy toy_key 1000 toy_db set_env = Inr (d', e, r) \<and>
    team_Mutate toy same_json toy_key 1000 toy_team set_env = Inr (td', e, r) \<and> same_as same_json td' d'"
proof -
  obtain d' e r where m: "Mutate toy toy_key 1000 toy_db set_env = Inr (d', e, r)"
    "storable_change toy_db d' ''p''"
    by (rule toy_set_env)
  have "stored same_json e = e" by (simp add: stored_def same_json_def)
  with authorities_agree [OF toy_codec toy_reachable toy_same, of 1000 set_env] m
  show ?thesis by auto
qed

theorem team_serves_same_state_witness:
  "\<exists>st st' md'. State toy_db ''p'' 5 = Inr (st, \<lparr>md_consistency = ''PERSONAL_AUTHORITATIVE'', md_server_sequence = 2,
      md_cache_sequence = 2, md_connectivity = ''LOCAL''\<rparr>) \<and>
    team_State (serve (team_step toy same_json toy_key) empty_team toy_requests) ''p'' 5 = Inr (st', md') \<and>
    st_agents st' = st_agents st \<and> md_server_sequence md' = 2"
proof -
  obtain row where row: "m_get (db_projects toy_db) ''p'' = Some row" "pj_sequence row = 2" by (rule toy_run)
  obtain st where s: "State toy_db ''p'' 5 = Inr (st, \<lparr>md_consistency = ''PERSONAL_AUTHORITATIVE'', md_server_sequence = 2,
      md_cache_sequence = 2, md_connectivity = ''LOCAL''\<rparr>)"
    using row by (simp add: State_def Let_def)
  from team_serves_same_state [OF toy_codec toy_within s [unfolded toy_db_def], of same_json]
  obtain st' md' where "team_State (serve (team_step toy same_json toy_key) empty_team toy_requests) ''p'' 5 = Inr (st', md')"
    "st' = st\<lparr>st_integrity := (st_integrity st)\<lparr>ig_sync_state := ''authoritative''\<rparr>\<rparr>" "md_server_sequence md' = 2"
    by auto
  with s show ?thesis by auto
qed

subsection \<open>The team authority's own requests\<close>

lemma lifted_run: "serve (serve_team cr jsonb priv) td (List.map (\<lambda>r. case r of
    Create now k owner \<Rightarrow> TCreate now k owner | Submit now c \<Rightarrow> TSubmit now c) rs) = serve (team_step cr jsonb priv) td rs"
  by (induction rs arbitrary: td) (auto simp: serve_team_def team_step_def split: request.split)

lemma toy_team_reachable: "team_reachable toy same_json toy_key toy_team"
  unfolding team_reachable_def toy_team_def lifted_run [symmetric] by blast

lemma toy_team_project:
  obtains p where "m_get (td_projects toy_team) ''p'' = Some p" "tp_sequence p = 2"
proof -
  obtain row where row: "m_get (db_projects toy_db) ''p'' = Some row" "pj_sequence row = 2" by (rule toy_run)
  with toy_same obtain p where "m_get (td_projects toy_team) ''p'' = Some p" "row = loaded_row p"
    by (metis map_option_eq_Some same_as_def)
  with row(2) that show thesis by simp
qed

theorem team_log_verifies_witness:
  "team_VerifyRange toy toy_key toy_team ''p'' 0 0 = None \<and> length (team_rows_from toy_team ''p'' 0) = 2"
proof -
  obtain p where p: "m_get (td_projects toy_team) ''p'' = Some p" "tp_sequence p = 2" by (rule toy_team_project)
  have j: "keeps_json toy same_json" by (simp add: keeps_json_def same_json_def)
  have s: "signs toy toy_key toy_key" by (simp add: signs_def toy_def toy_key_def)
  have l: "\<forall>r\<in>set (td_events toy_team). \<not> has_prefix (er_key r) ''legacy:''"
  proof -
    obtain row where "m_get (db_projects toy_db) ''p'' = Some row"
      "\<forall>x\<in>set (db_events toy_db). er_key x \<in> {''k1'', ''k2''}" by (rule toy_run)
    then have "\<forall>r\<in>set (td_events toy_team). er_key r \<in> {''k1'', ''k2''}"
      using toy_same by (auto simp: same_as_def)
    then show ?thesis by auto
  qed
  from team_log_verifies [OF toy_team_reachable p(1) j s l] p(2) show ?thesis
    by (metis length_map length_upt diff_add_inverse2)
qed

theorem outbox_drains_witness:
  "\<exists>now. List.map (\<lambda>o'. (ob_project o', ob_attempts o')) (td_outbox (publish_times now 1 toy_team)) =
    [(''p'', 1), (''p'', 1)]"
proof -
  have ok: "queued toy_team" using team_reachable_ok [OF toy_team_reachable] by blast
  define now where "now = Max (insert 0 (set (List.map ob_next_attempt (td_outbox toy_team))))"
  have now: "list_all (\<lambda>o'. ob_next_attempt o' \<le> now) (td_outbox toy_team)"
    by (auto simp: list_all_iff now_def)
  have two: "List.map er_project (td_events toy_team) = [''p'', ''p'']"
  proof -
    have "List.map er_project (db_events toy_db) = [''p'', ''p'']" by (rule toy_stages)
    then show ?thesis using toy_same by (simp add: same_as_def comp_def)
  qed
  have "length (td_outbox toy_team) = 2"
  proof -
    have "length (td_outbox toy_team) = length (td_events toy_team)" using ok by (metis length_map queued_def)
    also have "\<dots> = 2" using arg_cong [OF two, of length] by simp
    finally show ?thesis .
  qed
  then have "pending toy_team \<le> outboxBatchSize * 1"
    unfolding pending_def using length_filter_le [of "\<lambda>o'. ob_published o' = None" "td_outbox toy_team"] by linarith
  from outbox_drains [OF toy_team_reachable now this] have
    "List.map (\<lambda>o'. (ob_project o', ob_sequence o', ob_attempts o')) (td_outbox (publish_times now 1 toy_team)) =
     List.map (\<lambda>r. (er_project r, er_sequence r, 1)) (td_events toy_team)" .
  from arg_cong [OF this, of "List.map (\<lambda>(k, n, a). (k, a))"] have
    "List.map (\<lambda>o'. (ob_project o', ob_attempts o')) (td_outbox (publish_times now 1 toy_team)) =
     List.map (\<lambda>k. (k, 1)) (List.map er_project (td_events toy_team))"
    by (simp add: comp_def)
  then have "List.map (\<lambda>o'. (ob_project o', ob_attempts o')) (td_outbox (publish_times now 1 toy_team)) =
    [(''p'', 1), (''p'', 1)]" unfolding two by simp
  then show ?thesis by (rule exI)
qed

subsection \<open>A project given by its rows\<close>

text \<open>An owner with an elevated key, and an environment entry.\<close>

definition sample_owner :: agent where
  "sample_owner = zero_agent\<lparr>ag_id := ''o'', ag_status := ''ACTIVE'', ag_role := RoleOwner,
     ag_public_key := toy_key, ag_elevated_public_key := toy_key\<rparr>"

definition sample_team :: team_db where
  "sample_team = empty_team\<lparr>td_projects := m_put ''p'' \<lparr>tp_owner = ''o'', tp_sequence = 3, tp_head = [],
     tp_updated = 0, tp_tables = no_tables\<lparr>tb_agents := m_put ''o'' (sample_owner, 2) m_empty,
       tb_env := m_put ''K'' (zero_env_entry\<lparr>en_key := ''K''\<rparr>, 3) m_empty\<rparr>\<rparr> m_empty\<rparr>"

abbreviation delete_project :: command where
  "delete_project \<equiv> toy_command ''project.delete'' ''p'' [] ''k9''"

lemma sample_deleted: "\<exists>td'. DeleteProject toy 1000 sample_team delete_project = Inr td'"
proof -
  have "command_validate toy delete_project 1000 = None"
    by (rule toy_validate) (simp_all add: blank_def text_eval)
  then show ?thesis
    by (simp add: DeleteProject_def sample_team_def m_get_put sample_owner_def empty_team_def toy_key_nonempty toy_verify
        m_has_def)
qed

theorem deletion_is_guarded_witness:
  "\<exists>td'. DeleteProject toy 1000 sample_team delete_project = Inr td' \<and> team_rows td' ''p'' = [] \<and>
    team_Mutate toy same_json toy_key 2000 td' register = refuse CodeValidation ''project not found''"
proof -
  obtain td' where d: "DeleteProject toy 1000 sample_team delete_project = Inr td'" using sample_deleted by blast
  from deletion_is_guarded [OF d, of same_json toy_key] d show ?thesis by auto
qed

theorem deleted_at_most_once_witness:
  "\<exists>td' td''. DeleteProject toy 1000 sample_team delete_project = Inr td' \<and>
    td'' = serve (serve_team toy same_json toy_key) td' [TCreate 5 ''p'' ''o''] \<and>
    m_has (td_projects td'') ''p'' \<and> \<not> is_ok (DeleteProject toy 2000 td'' delete_project)"
proof -
  obtain td' where d: "DeleteProject toy 1000 sample_team delete_project = Inr td'" using sample_deleted by blast
  have "m_has (td_projects (serve (serve_team toy same_json toy_key) td' [TCreate 5 ''p'' ''o''])) ''p''"
    by (simp add: serve_team_def team_CreateProject_def blank_def text_eval m_has_def m_get_put)
  with d deleted_at_most_once [OF d refl, where c' = delete_project and jsonb = same_json and priv = toy_key and
      rs = "[TCreate 5 ''p'' ''o'']" and clock' = 2000]
  show ?thesis by auto
qed

abbreviation delete_env :: command where
  "delete_env \<equiv> toy_command ''env.delete'' ''K'' ''del'' ''k4''"

lemma sample_project:
  obtains p where "m_get (td_projects sample_team) ''p'' = Some p" "td_events sample_team = []"
    "m_get (st_agents (loadState (tp_tables p))) ''o'' = Some sample_owner"
    "m_has (st_env (loadState (tp_tables p))) ''K''" "tp_sequence p = 3"
  using that [of "\<lparr>tp_owner = ''o'', tp_sequence = 3, tp_head = [],
     tp_updated = 0, tp_tables = no_tables\<lparr>tb_agents := m_put ''o'' (sample_owner, 2) m_empty,
       tb_env := m_put ''K'' (zero_env_entry\<lparr>en_key := ''K''\<rparr>, 3) m_empty\<rparr>\<rparr>"]
  by (simp add: sample_team_def empty_team_def m_get_put get_load m_has_def)

lemma toy_admit_delete:
  assumes "m_get (st_agents (pj_state row)) ''o'' = Some sample_owner"
  shows "admit toy row delete_env 1000 = Inr (Env_ev EnvDelete, del, Fingerprint toy toy_key)"
proof (rule admit_intro)
  show "DecodePayload toy (type_name (Env_ev EnvDelete)) (cm_payload delete_env) = Inr del"
    by (rule toy_decode) (simp_all add: toy_payloads)
  have "active (pj_state row) ''o'' = Inr sample_owner"
    using assms by (simp add: active_def sample_owner_def)
  then show "check_transition toy row delete_env (Env_ev EnvDelete) del 1000 = Inr del"
    using assms
    by (auto simp: check_transition_def bootstraps_def ValidateTransition_def check_standing_def
        validate_block_def validate_env_def del_def as_classified_def Let_def sample_owner_def)
  show "commandPublicKey (pj_state row) delete_env (Env_ev EnvDelete) del = Inr toy_key"
    using assms by (simp add: commandPublicKey_def sample_owner_def RequiresElevatedKey_def)
qed (simp_all add: toy_validate toy_verify check_registration_def blank_def text_eval)

theorem team_never_forgets_witness:
  "\<exists>td' e r p'. team_Mutate toy same_json toy_key 1000 sample_team delete_env = Inr (td', e, r) \<and>
    ce_type e = ''env.delete'' \<and> m_get (td_projects td') ''p'' = Some p' \<and>
    m_has (st_env (loadState (tp_tables p'))) ''K''"
proof -
  obtain p where p: "m_get (td_projects sample_team) ''p'' = Some p" "td_events sample_team = []"
    "m_get (st_agents (loadState (tp_tables p))) ''o'' = Some sample_owner"
    "m_has (st_env (loadState (tp_tables p))) ''K''" by (rule sample_project)
  let ?s = "loadState (tp_tables p)"
  define e0 where "e0 = new_event (loaded_row p) delete_env (''#'' @ ''k4'') (Fingerprint toy toy_key) ''del'' 1000"
  obtain h where h: "HashEvent toy e0 = Inr h"
    using toy_json [of "ce_payload e0"] by (auto simp: HashEvent_def)
  define e where "e = e0\<lparr>ce_hash := h\<rparr>"
  have sel: "ce_type e = ''env.delete''" "ce_payload e = ''del''" by (simp_all add: e_def e0_def)
  have enc: "EncodePayload toy ''env.delete'' del = Inr ''del''"
    using toy_payloads(12) parse_type_Some [of "''env.delete''" "Env_ev EnvDelete"]
    by (simp add: EncodePayload_def KnownEventType_def)
  have app: "ApplyEvent toy ?s (log_of e) = Inr (?s\<lparr>st_env := m_del ''K'' (st_env ?s)\<rparr>)"
    using toy_decode [OF toy_payloads(10), of "Env_ev EnvDelete"] toy_payloads(11)
      parse_type_Some [of "''env.delete''" "Env_ev EnvDelete"]
    by (simp add: ApplyEvent_def log_of_def sel apply_payload_def del_def stampEntity_def Let_def)
  obtain ks where a: "tb_tasks (persist_agents toy (ce_sequence e) ?s (?s\<lparr>st_env := m_del ''K'' (st_env ?s)\<rparr>) (tp_tables p)) =
      tb_tasks (tp_tables p)"
    using persist_agents_form [of toy "ce_sequence e" ?s "?s\<lparr>st_env := m_del ''K'' (st_env ?s)\<rparr>" "tp_tables p"] by auto
  obtain tb where tb: "persistProjectionChanges toy (ce_sequence e) ?s (?s\<lparr>st_env := m_del ''K'' (st_env ?s)\<rparr>)
      (tp_tables p) = Inr tb"
    using persist_work_succeeds [of ?s "?s\<lparr>st_env := m_del ''K'' (st_env ?s)\<rparr>"] a
    by (force simp: persistProjectionChanges_def)
  let ?r = "SignReceipt toy toy_key (new_receipt e)"
  have "\<exists>td'. team_commit toy same_json toy_key sample_team p delete_env (''#'' @ ''k4'') del (Fingerprint toy toy_key) 1000
      = Inr (td', e, ?r)"
    using enc h app tb p(2) by (simp add: team_commit_def Let_def e0_def e_def)
  moreover have "team_admit toy p delete_env 1000 = Inr (Env_ev EnvDelete, del, Fingerprint toy toy_key)"
    unfolding admitted_alike using p(3) by (intro toy_admit_delete) simp
  moreover have "team_replay sample_team ''p'' ''k4'' i = Inr None" for i
    by (simp add: team_replay_def p(2))
  ultimately obtain td' where m: "team_Mutate toy same_json toy_key 1000 sample_team delete_env = Inr (td', e, ?r)"
    using p(1) by (auto simp: team_Mutate_def toy_intent as_control_def Let_def)
  from team_never_forgets [OF m p(1)] m sel p(4) show ?thesis by blast
qed

end
