(* ===== verification/Connectors.thy ===== *)
theory Connectors
  imports Engine "HOL-Library.Word"
begin

text \<open>
  \<open>internal/daemon/connectors.go\<close>: how a daemon hands a pending invocation to one of the target's
  runtimes. The dispatcher reads a state, picks a runtime, reserves a delivery attempt with a signed
  event, drives the transport and records the outcome with another event.

  What the dispatcher does to the world (submitting an event, starting a process, posting to a webhook,
  typing into a terminal, drawing a UUID, reading the clock and the connector file) are the
  fields of a \<open>dispatcher\<close> record over a type \<open>'w\<close> of worlds, as the Go struct keeps them in function
  fields. A failed conversion or negative shift, which panics in Go, is the error \<open>Panic\<close>.
\<close>

unbundle bit_operations_syntax

subsection \<open>Configurations\<close>

record connector_config =
  cf_type :: string
  cf_executable :: string
  cf_arguments :: "string list"
  cf_working_directory :: string
  cf_environment :: "string gmap"
  cf_endpoint :: string
  cf_headers :: "string gmap"
  cf_timeout :: duration

definition zero_config :: connector_config where
  "zero_config = \<lparr>cf_type = [], cf_executable = [], cf_arguments = [], cf_working_directory = [],
     cf_environment = m_empty, cf_endpoint = [], cf_headers = m_empty, cf_timeout = 0\<rparr>"

record connector_json =
  cj_type :: string
  cj_executable :: string
  cj_arguments :: "string list"
  cj_working_directory :: string
  cj_environment :: "string gmap"
  cj_endpoint :: string
  cj_headers :: "string gmap"
  cj_timeout :: string

abbreviation defaultConnectorTimeout :: duration where "defaultConnectorTimeout \<equiv> 30 * second"
abbreviation maxConnectorConfigBytes :: int where "maxConnectorConfigBytes \<equiv> 256 * 1024"
abbreviation maxConnectorArgs :: nat where "maxConnectorArgs \<equiv> 64"
abbreviation maxConnectorArgBytes :: nat where "maxConnectorArgBytes \<equiv> 4 * 1024"
abbreviation maxConnectorHeaders :: nat where "maxConnectorHeaders \<equiv> 32"
abbreviation maxConnectorHeaderBytes :: nat where "maxConnectorHeaderBytes \<equiv> 8 * 1024"
abbreviation baseDeliveryBackoff :: duration where "baseDeliveryBackoff \<equiv> 2 * second"
abbreviation maxDeliveryBackoff :: duration where "maxDeliveryBackoff \<equiv> 5 * minute"
abbreviation DefaultRequestTimeout :: duration where "DefaultRequestTimeout \<equiv> 15 * second"

text \<open>What the checks ask the operating system and the \<open>net\<close> packages: \<open>os.Stat\<close>, \<open>filepath.IsAbs\<close>,
  \<open>url.Parse\<close>, and whether a host name parses as a loopback address. \<open>fi_perm\<close> holds the nine
  permission bits, \<open>ho_read_config\<close> reads the connector file and decodes its JSON.\<close>

record file_info =
  fi_regular :: bool
  fi_dir :: bool
  fi_perm :: "9 word"
  fi_size :: int

record url =
  ur_scheme :: string
  ur_host :: string
  ur_hostname :: string
  ur_has_user :: bool

record host =
  ho_windows :: bool
  ho_stat :: "string \<Rightarrow> file_info option"
  ho_is_abs :: "string \<Rightarrow> bool"
  ho_parse_url :: "string \<Rightarrow> url option"
  ho_loopback_ip :: "string \<Rightarrow> bool"
  ho_environ :: "string list"
  ho_read_config :: "string \<Rightarrow> connector_json gmap result"

definition isLoopbackHost :: "host \<Rightarrow> string \<Rightarrow> bool" where
  "isLoopbackHost ho name = (equal_fold name ''localhost'' \<or> ho_loopback_ip ho name)"

definition contains_any :: "string \<Rightarrow> string \<Rightarrow> bool" where
  "contains_any s chars = list_ex (\<lambda>c. c \<in> set chars) s"

abbreviation CR :: char where "CR \<equiv> CHR 0x0D"
abbreviation LF :: char where "LF \<equiv> CHR 0x0A"

definition connector_error :: "string \<Rightarrow> string \<Rightarrow> err" where
  "connector_error reference message = Err (''connector '' @ reference @ '' '' @ message)"

definition bad_header :: "string \<times> string \<Rightarrow> bool" where
  "bad_header h = (case h of (key, val) \<Rightarrow>
     blank key \<or> contains_any key [CR, LF, CHR '':''] \<or> contains_any val [CR, LF] \<or>
     equal_fold key ''Host'' \<or> equal_fold key ''Content-Length'')"

definition validateWebhookConfig :: "host \<Rightarrow> string \<Rightarrow> connector_config \<Rightarrow> unit result" where
  "validateWebhookConfig ho reference config =
     (let invalid = connector_error reference ''webhook endpoint is invalid'' in
      case ho_parse_url ho (cf_endpoint config) of None \<Rightarrow> Inl invalid
      | Some endpoint \<Rightarrow>
        fail_if (ur_host endpoint = [] \<or> ur_has_user endpoint) invalid
        (fail_if (ur_scheme endpoint \<noteq> ''https'' \<and>
            \<not> (ur_scheme endpoint = ''http'' \<and> isLoopbackHost ho (ur_hostname endpoint)))
          (connector_error reference ''webhook endpoint must use HTTPS or loopback HTTP'')
        (fail_if (m_size (cf_headers config) > maxConnectorHeaders)
          (connector_error reference ''has too many webhook headers'')
        (case List.find bad_header (m_entries (cf_headers config)) of
           Some (key, _) \<Rightarrow>
             Inl (connector_error reference (''webhook header '' @ quoted key @ '' is invalid''))
         | None \<Rightarrow>
           fail_if (sum_list (List.map (\<lambda>(key, val). length key + length val)
               (m_entries (cf_headers config))) > maxConnectorHeaderBytes)
             (connector_error reference ''webhook headers exceed the size limit'')
           (Inr ())))))"

definition reserved_env :: "string \<Rightarrow> bool" where
  "reserved_env key = (blank key \<or> contains key ''='' \<or> has_prefix key ''AGENT_COMMS_'')"

definition connector_types :: "string set" where
  "connector_types = {''MANUAL'', ''MCP'', ''LOCAL_PROCESS'', ''WEBHOOK''}"

definition validate_executable :: "host \<Rightarrow> string \<Rightarrow> connector_config \<Rightarrow> unit result" where
  "validate_executable ho reference config =
     fail_if (\<not> ho_is_abs ho (cf_executable config))
       (connector_error reference ''executable must be an absolute path'')
     (case ho_stat ho (cf_executable config) of
        None \<Rightarrow> Inl (connector_error reference ''executable is unavailable'')
      | Some info \<Rightarrow>
        fail_if (\<not> fi_regular info) (connector_error reference ''executable must be a regular file'')
        (fail_if (\<not> ho_windows ho \<and> fi_perm info AND 0x49 = 0)
          (connector_error reference ''executable is not executable'')
        (fail_if (\<not> ho_windows ho \<and> fi_perm info AND 0x12 \<noteq> 0)
          (connector_error reference ''executable must not be writable by group or other users'')
        (Inr ()))))"

definition validateConnectorConfig :: "host \<Rightarrow> string \<Rightarrow> connector_config \<Rightarrow> unit result" where
  "validateConnectorConfig ho reference config =
     fail_if (blank reference) (Err ''connector configuration reference is required'')
     (fail_if (cf_type config \<notin> connector_types)
       (connector_error reference ''type must be MANUAL, MCP, LOCAL_PROCESS, or WEBHOOK'')
     (if cf_type config = ''WEBHOOK'' then validateWebhookConfig ho reference config
      else if cf_type config \<noteq> ''LOCAL_PROCESS'' then Inr ()
      else
        and_then (validate_executable ho reference config) (\<lambda>_.
        fail_if (cf_working_directory config \<noteq> [] \<and> \<not> ho_is_abs ho (cf_working_directory config))
          (connector_error reference ''working directory must be absolute'')
        (fail_if (cf_working_directory config \<noteq> [] \<and>
            (case ho_stat ho (cf_working_directory config) of None \<Rightarrow> True | Some info \<Rightarrow> \<not> fi_dir info))
          (connector_error reference ''working directory must be an existing directory'')
        (fail_if (length (cf_arguments config) > maxConnectorArgs)
          (connector_error reference ''has too many arguments'')
        (fail_if (list_ex (\<lambda>argument. length argument > maxConnectorArgBytes) (cf_arguments config))
          (connector_error reference ''argument exceeds the size limit'')
        (case List.find (\<lambda>(key, _). reserved_env key) (m_entries (cf_environment config)) of
           Some (key, _) \<Rightarrow> Inl (connector_error reference
             (''environment key '' @ quoted key @ '' is reserved or invalid''))
         | None \<Rightarrow> Inr ())))))))"

subsection \<open>Loading them\<close>

definition config_of_json :: "string \<Rightarrow> connector_json \<Rightarrow> connector_config result" where
  "config_of_json reference v =
     (let config = \<lambda>timeout. \<lparr>cf_type = to_upper (cj_type v), cf_executable = cj_executable v,
            cf_arguments = cj_arguments v, cf_working_directory = cj_working_directory v,
            cf_environment = cj_environment v, cf_endpoint = cj_endpoint v,
            cf_headers = cj_headers v, cf_timeout = timeout\<rparr>
      in if cj_timeout v = [] then Inr (config defaultConnectorTimeout)
         else case parse_duration (cj_timeout v) of
             None \<Rightarrow> Inl (connector_error reference ''has an invalid timeout'')
           | Some timeout \<Rightarrow>
             fail_if (timeout \<le> 0 \<or> timeout > DefaultRequestTimeout * 4)
               (connector_error reference ''has an invalid timeout'')
             (Inr (config timeout)))"

fun load_each ::
  "host \<Rightarrow> (string \<times> connector_json) list \<Rightarrow> connector_config gmap \<Rightarrow> connector_config gmap result" where
  "load_each ho [] configs = Inr configs"
| "load_each ho ((reference, v) # rest) configs =
     and_then (config_of_json reference v) (\<lambda>config.
     and_then (validateConnectorConfig ho reference config) (\<lambda>_.
       load_each ho rest (m_put reference config configs)))"

definition LoadConnectorConfigs :: "host \<Rightarrow> string \<Rightarrow> connector_config gmap result" where
  "LoadConnectorConfigs ho path =
     (if blank path then Inr m_empty
      else case ho_stat ho path of
          None \<Rightarrow> Inl (Err ''inspect connector config'')
        | Some info \<Rightarrow>
          fail_if (\<not> ho_windows ho \<and> fi_perm info AND 0x3F \<noteq> 0)
            (Err ''connector config must not be accessible by group or other users'')
          (fail_if (fi_size info > maxConnectorConfigBytes)
            (Err ''connector config exceeds the size limit'')
          (and_then (ho_read_config ho path) (\<lambda>source. load_each ho (m_entries source) m_empty))))"

subsection \<open>Choosing a runtime\<close>

text \<open>The daemon's own readings of a runtime's kind and an invocation's consumer mode.\<close>

definition effectiveRuntimeKind_of :: "runtime \<Rightarrow> string" where
  "effectiveRuntimeKind_of r =
     (if rt_kind r \<noteq> [] then rt_kind r
      else if rt_connector r = ''INTERACTIVE'' then RuntimeKindInteractive
      else RuntimeKindWorker)"

definition effectiveConsumerMode_of :: "string \<Rightarrow> string" where
  "effectiveConsumerMode_of mode =
     (if mode = ConsumerModeInteractiveOnly \<or> mode = ConsumerModeWorkerOnly \<or> mode = ConsumerModeEither
      then mode else ConsumerModeEither)"

definition consumerModeAllowsRuntime :: "string \<Rightarrow> string \<Rightarrow> bool" where
  "consumerModeAllowsRuntime mode kind =
     (let m = effectiveConsumerMode_of mode in
      if m = ConsumerModeInteractiveOnly then kind = RuntimeKindInteractive
      else if m = ConsumerModeWorkerOnly then kind = RuntimeKindWorker
      else kind = RuntimeKindWorker \<or> kind = RuntimeKindInteractive)"

definition interactive_config :: connector_config where
  "interactive_config = zero_config\<lparr>cf_type := ''INTERACTIVE'', cf_timeout := defaultConnectorTimeout\<rparr>"

definition passed_over :: "invocation \<Rightarrow> runtime \<Rightarrow> bool" where
  "passed_over i r =
     (rt_agent_id r \<noteq> iv_target i \<or> rt_status r = ''DRAINING'' \<or> rt_status r = ''REVOKED'' \<or>
      int (length (rt_active_invocations r)) \<ge> rt_max_concurrent r \<or>
      (iv_preferred_runtime_id i \<noteq> [] \<and> iv_preferred_runtime_id i \<noteq> rt_id r))"

definition reachable_here :: "string \<Rightarrow> string \<Rightarrow> runtime \<Rightarrow> bool" where
  "reachable_here projectRoot hostID r =
     (rt_status r = ''ONLINE'' \<and> rt_host_id r \<noteq> [] \<and> hostID \<noteq> [] \<and> rt_host_id r = hostID \<and>
      rt_connector r = ''INTERACTIVE'' \<and> projectRoot \<noteq> [])"

text \<open>One turn of the loop that collects candidates.\<close>

definition candidate ::
  "string \<Rightarrow> string \<Rightarrow> connector_config gmap \<Rightarrow> invocation \<Rightarrow> runtime \<Rightarrow>
   (runtime \<times> connector_config) option" where
  "candidate projectRoot hostID configs i r =
     (if passed_over i r \<or> \<not> consumerModeAllowsRuntime (iv_consumer_mode i) (effectiveRuntimeKind_of r)
      then None
      else if effectiveRuntimeKind_of r = RuntimeKindInteractive then
        (if reachable_here projectRoot hostID r then Some (r, interactive_config) else None)
      else if rt_connector r \<in> {''MANUAL'', ''MCP'', ''QUEUE''} \<or> rt_config_reference r = [] then None
      else case m_get configs (rt_config_reference r) of
          None \<Rightarrow> None
        | Some config \<Rightarrow> if cf_type config \<noteq> rt_connector r then None else Some (r, config))"

definition is_interactive :: "runtime \<times> connector_config \<Rightarrow> bool" where
  "is_interactive c = (effectiveRuntimeKind_of (fst c) = RuntimeKindInteractive)"

definition sorted_runtimes :: "state \<Rightarrow> runtime list" where
  "sorted_runtimes st =
     List.map (m_read zero_runtime (st_runtimes st)) (sort (List.map fst (m_entries (st_runtimes st))))"

definition selectRuntime ::
  "string \<Rightarrow> string \<Rightarrow> connector_config gmap \<Rightarrow> state \<Rightarrow> invocation \<Rightarrow>
   (runtime \<times> connector_config) option" where
  "selectRuntime projectRoot hostID configs st i =
     (let candidates = List.map_filter (candidate projectRoot hostID configs i) (sorted_runtimes st);
          interactive = length (List.filter is_interactive candidates)
      in if iv_preferred_runtime_id i = [] \<and>
            effectiveConsumerMode_of (iv_consumer_mode i) = ConsumerModeInteractiveOnly \<and>
            interactive > 1
         then None
         else List.find (\<lambda>c. \<not> (interactive > 1 \<and> iv_preferred_runtime_id i = [] \<and> is_interactive c))
                candidates)"

subsection \<open>The attempts on record\<close>

definition deliveryAttempt :: "state \<Rightarrow> string \<Rightarrow> int" where
  "deliveryAttempt st invocationID =
     fold (\<lambda>d best. if dl_invocation_id d = invocationID \<and> dl_attempt d > best then dl_attempt d else best)
       (m_vals (st_deliveries st)) 0"

definition automaticDeliveryAttemptCount :: "state \<Rightarrow> string \<Rightarrow> nat" where
  "automaticDeliveryAttemptCount st invocationID =
     length (List.filter (\<lambda>d. dl_invocation_id d = invocationID \<and> \<not> dl_manual d)
       (m_vals (st_deliveries st)))"

definition later_than :: "time \<Rightarrow> time option \<Rightarrow> bool" where
  "later_than now t = (case t of None \<Rightarrow> False | Some u \<Rightarrow> after u now)"

definition deliveryRetryPending :: "state \<Rightarrow> string \<Rightarrow> time \<Rightarrow> bool" where
  "deliveryRetryPending st invocationID now =
     list_ex (\<lambda>d. dl_invocation_id d = invocationID \<and>
        (dl_status d = ''ATTEMPTED'' \<and> later_than now (dl_attempt_until d) \<or>
         later_than now (dl_next_retry_at d)))
       (m_vals (st_deliveries st))"

definition deliveryBackoff :: "int \<Rightarrow> duration result" where
  "deliveryBackoff attempt =
     (let shift = min (attempt - 1) 8 in
      if shift < 0 then Inl Panic
      else Inr (min (baseDeliveryBackoff * 2 ^ nat shift) maxDeliveryBackoff))"

text \<open>The time of the next retry, none for a final failure.\<close>

definition retry_at :: "bool \<Rightarrow> time \<Rightarrow> int \<Rightarrow> time option result" where
  "retry_at final now attempt =
     (if final then Inr None
      else and_then (deliveryBackoff attempt) (\<lambda>backoff. Inr (Some (now + backoff))))"

subsection \<open>The dispatcher\<close>

record envelope =
  en_project :: string
  en_invocation :: invocation
  en_runtime :: runtime

record delivery_result =
  dr_endpoint_id :: string
  dr_evidence :: "delivery_evidence list"

text \<open>What reaches the outside: a process to run, or a request to post.\<close>

datatype launch =
    RunProcess string "string list" string "string list" string duration
  | PostWebhook string "(string \<times> string) list" string duration

record 'w dispatcher =
  dp_config_path :: string
  dp_project_root :: string
  dp_host_id :: string
  dp_host :: "'w \<Rightarrow> host"
  dp_now :: "'w \<Rightarrow> time"
  dp_uuid :: "'w \<Rightarrow> 'w \<times> string"
  dp_marshal :: "envelope \<Rightarrow> string result"
  dp_submit :: "string \<Rightarrow> string \<Rightarrow> string \<Rightarrow> string \<Rightarrow> payload \<Rightarrow> 'w \<Rightarrow> 'w \<times> fault option"
  dp_perform :: "launch \<Rightarrow> 'w \<Rightarrow> 'w \<times> err option"
  dp_notify :: "string \<Rightarrow> string \<Rightarrow> string \<Rightarrow> string \<Rightarrow> string \<Rightarrow> 'w \<Rightarrow> 'w \<times> (err + delivery_evidence list)"

type_synonym configs = "connector_config gmap"

definition reloadConfigs :: "'w dispatcher \<Rightarrow> configs \<Rightarrow> 'w \<Rightarrow> configs result" where
  "reloadConfigs dp configs w =
     (if trim_space (dp_config_path dp) = [] then Inr configs
      else LoadConnectorConfigs (dp_host dp w) (trim_space (dp_config_path dp)))"

definition ValidateRuntime ::
  "'w dispatcher \<Rightarrow> configs \<Rightarrow> 'w \<Rightarrow> string \<Rightarrow> string \<Rightarrow> string \<Rightarrow> configs \<times> err option" where
  "ValidateRuntime dp configs w connector0 configReference hostID =
     (case reloadConfigs dp configs w of Inl e \<Rightarrow> (configs, Some e)
      | Inr configs' \<Rightarrow> (configs',
          let connector = to_upper (trim_space connector0) in
          if connector = ''INTERACTIVE'' then
            (if dp_host_id dp = [] \<or> hostID \<noteq> dp_host_id dp
             then Some (Err ''interactive runtime host ID does not match this local daemon'') else None)
          else if connector \<noteq> ''LOCAL_PROCESS'' \<and> connector \<noteq> ''WEBHOOK'' then None
          else case m_get configs' configReference of
              None \<Rightarrow> Some (Err (''connector configuration reference '' @ quoted configReference @
                  '' is not available on this host''))
            | Some config \<Rightarrow>
                if cf_type config \<noteq> connector
                then Some (Err (''connector configuration '' @ quoted configReference @ '' has type '' @
                    cf_type config @ '', expected '' @ connector))
                else (case validateConnectorConfig (dp_host dp w) configReference config of
                        Inl e \<Rightarrow> Some e | Inr _ \<Rightarrow> None)))"

text \<open>\<open>NewDispatcher\<close> fills in a missing timeout and checks every configuration.\<close>

definition with_timeout :: "connector_config \<Rightarrow> connector_config" where
  "with_timeout config =
     (if cf_timeout config \<le> 0 then config\<lparr>cf_timeout := defaultConnectorTimeout\<rparr> else config)"

definition first_error :: "unit result list \<Rightarrow> err option" where
  "first_error rs = (case List.map_filter (\<lambda>r. case r of Inl e \<Rightarrow> Some e | Inr _ \<Rightarrow> None) rs of
     [] \<Rightarrow> None | e # _ \<Rightarrow> Some e)"

definition NewDispatcher :: "host \<Rightarrow> configs \<Rightarrow> configs result" where
  "NewDispatcher ho configs =
     (case first_error (List.map (\<lambda>(reference, config).
          validateConnectorConfig ho reference (with_timeout config)) (m_entries configs)) of
        Some e \<Rightarrow> Inl e
      | None \<Rightarrow> Inr (m_map (\<lambda>_. with_timeout) configs))"

subsection \<open>Launching a connector\<close>

text \<open>\<open>strings.NewReplacer\<close>: at each position the first pattern that matches, and no pattern twice
  over the same text.\<close>

definition match_at :: "(string \<times> string) list \<Rightarrow> string \<Rightarrow> (string \<times> string) option" where
  "match_at pairs s = List.find (\<lambda>(old, _). old \<noteq> [] \<and> has_prefix s old) pairs"

lemma match_at_shorter: "match_at pairs s = Some (old, new) \<Longrightarrow> length s - length old < length s"
proof -
  assume "match_at pairs s = Some (old, new)"
  then have "old \<noteq> []" "has_prefix s old" by (auto simp: match_at_def find_Some_iff)
  then show ?thesis by (cases old) (auto dest: prefix_length_le)
qed

function replace_pairs :: "(string \<times> string) list \<Rightarrow> string \<Rightarrow> string" where
  "replace_pairs pairs s =
     (case match_at pairs s of
        Some (old, new) \<Rightarrow> new @ replace_pairs pairs (drop (length old) s)
      | None \<Rightarrow> (case s of [] \<Rightarrow> [] | c # rest \<Rightarrow> c # replace_pairs pairs rest))"
  by pat_completeness auto
termination
  by (relation "measure (\<lambda>(pairs, s). length s)") (auto dest: match_at_shorter)

declare replace_pairs.simps [simp del]

definition replaceConnectorVariables :: "string \<Rightarrow> envelope \<Rightarrow> string" where
  "replaceConnectorVariables s env =
     replace_pairs
       [(''{project_id}'', en_project env),
        (''{invocation_id}'', iv_id (en_invocation env)),
        (''{agent_id}'', rt_agent_id (en_runtime env)),
        (''{runtime_id}'', rt_id (en_runtime env))] s"

definition envelope_environment :: "envelope \<Rightarrow> string list" where
  "envelope_environment env =
     [''AGENT_COMMS_PROJECT_ID='' @ en_project env,
      ''AGENT_COMMS_INVOCATION_ID='' @ iv_id (en_invocation env),
      ''AGENT_COMMS_AGENT_ID='' @ rt_agent_id (en_runtime env),
      ''AGENT_COMMS_RUNTIME_ID='' @ rt_id (en_runtime env)]"

definition effective_timeout :: "connector_config \<Rightarrow> duration" where
  "effective_timeout config =
     (if cf_timeout config \<le> 0 then defaultConnectorTimeout else cf_timeout config)"

definition launchWebhook :: "'w dispatcher \<Rightarrow> connector_config \<Rightarrow> envelope \<Rightarrow> launch result" where
  "launchWebhook dp config env =
     and_then (dp_marshal dp env) (\<lambda>payload.
       Inr (PostWebhook (cf_endpoint config)
         ([(''Content-Type'', ''application/json''), (''User-Agent'', ''agent-comms-runtime-relay'')] @
          m_entries (cf_headers config)) payload (effective_timeout config)))"

definition launchConnector :: "'w dispatcher \<Rightarrow> connector_config \<Rightarrow> envelope \<Rightarrow> 'w \<Rightarrow> launch result" where
  "launchConnector dp config env w =
     fail_if (cf_type config = ''MANUAL'' \<or> cf_type config = ''MCP'')
       (Err (cf_type config @ '' connector cannot prove notification delivery''))
     (if cf_type config = ''WEBHOOK'' then launchWebhook dp config env
      else fail_if (cf_type config \<noteq> ''LOCAL_PROCESS'')
        (Err (''unsupported connector type '' @ cf_type config))
        (and_then (dp_marshal dp env) (\<lambda>payload.
         fail_if (list_ex (\<lambda>(key, _). reserved_env key) (m_entries (cf_environment config)))
           (Err ''connector environment key is invalid'')
         (Inr (RunProcess (cf_executable config)
            (List.map (\<lambda>argument. replaceConnectorVariables argument env) (cf_arguments config))
            (cf_working_directory config)
            (ho_environ (dp_host dp w) @ envelope_environment env @
             List.map (\<lambda>(key, val). key @ ''='' @ val) (m_entries (cf_environment config)))
            payload (effective_timeout config))))))"

definition deliverConfiguredConnector ::
  "'w dispatcher \<Rightarrow> connector_config \<Rightarrow> envelope \<Rightarrow> 'w \<Rightarrow> 'w \<times> (err + delivery_result)" where
  "deliverConfiguredConnector dp config env w =
     (if cf_type config = ''INTERACTIVE'' then (w, Inl (Err ''interactive delivery is not configured''))
      else case launchConnector dp config env w of
          Inl e \<Rightarrow> (w, Inl e)
        | Inr l \<Rightarrow> (case dp_perform dp l w of
              (w', Some e) \<Rightarrow> (w', Inl e)
            | (w', None) \<Rightarrow> (w', Inr \<lparr>dr_endpoint_id = [],
                dr_evidence = [\<lparr>ev_stage = ''CONNECTOR_ACCEPTED'', ev_at = dp_now dp w'\<rparr>]\<rparr>)))"

text \<open>The \<open>deliver\<close> function \<open>SetLocalInteractive\<close> installs.\<close>

definition deliver :: "'w dispatcher \<Rightarrow> connector_config \<Rightarrow> envelope \<Rightarrow> 'w \<Rightarrow> 'w \<times> (err + delivery_result)" where
  "deliver dp config env w =
     (if cf_type config \<noteq> ''INTERACTIVE'' then deliverConfiguredConnector dp config env w
      else case dp_notify dp (dp_project_root dp) (rt_id (en_runtime env)) (rt_agent_id (en_runtime env))
          (iv_id (en_invocation env)) (iv_requested_by (en_invocation env)) w of
          (w', Inl e) \<Rightarrow> (w', Inl e)
        | (w', Inr evidence) \<Rightarrow> (w', Inr \<lparr>dr_endpoint_id = rt_endpoint_id (en_runtime env),
              dr_evidence = evidence\<rparr>))"

subsection \<open>Recording what happened\<close>

abbreviation attempt_type :: string where "attempt_type \<equiv> ''invocation.delivery-attempt''"
abbreviation failed_type :: string where "failed_type \<equiv> ''invocation.delivery-failed''"
abbreviation notify_type :: string where "notify_type \<equiv> ''invocation.notify''"

text \<open>The loop over the deliveries of the state: the attempts whose lease has run out.\<close>

definition lapsed :: "state \<Rightarrow> time \<Rightarrow> delivery \<Rightarrow> bool" where
  "lapsed st now d =
     (dl_status d = ''ATTEMPTED'' \<and>
      (case dl_attempt_until d of None \<Rightarrow> False | Some t \<Rightarrow> \<not> after t now) \<and>
      m_has (st_invocations st) (dl_invocation_id d))"

definition lapse_payload :: "state \<Rightarrow> time \<Rightarrow> delivery \<Rightarrow> payload result" where
  "lapse_payload st now d =
     (let final = (\<not> dl_manual d \<and>
          automaticDeliveryAttemptCount st (dl_invocation_id d) \<ge> MaxDeliveryAttempts)
      in and_then (retry_at final now (dl_attempt d)) (\<lambda>next_retry.
         Inr (InvocationDeliveryFailed \<lparr>df_delivery_id = dl_id d, df_runtime_id = dl_runtime_id d,
           df_attempt = dl_attempt d, df_error = ''delivery attempt lease expired'',
           df_next_retry = next_retry, df_final = final\<rparr>)))"

fun expire_loop ::
  "'w dispatcher \<Rightarrow> string \<Rightarrow> state \<Rightarrow> time \<Rightarrow> delivery list \<Rightarrow> string list \<Rightarrow> 'w \<Rightarrow>
   'w \<times> (fault + string list)" where
  "expire_loop dp k st now [] expired w = (w, Inr expired)"
| "expire_loop dp k st now (d # rest) expired w =
     (if \<not> lapsed st now d then expire_loop dp k st now rest expired w
      else case lapse_payload st now d of
          Inl e \<Rightarrow> (w, Inl (Plain e))
        | Inr p \<Rightarrow>
          (case dp_submit dp k (iv_target (m_read zero_invocation (st_invocations st) (dl_invocation_id d)))
              failed_type (dl_invocation_id d) p w of
             (w', Some e) \<Rightarrow> (w', Inl e)
           | (w', None) \<Rightarrow> expire_loop dp k st now rest (dl_invocation_id d # expired) w'))"

definition expireAttempts :: "'w dispatcher \<Rightarrow> string \<Rightarrow> state \<Rightarrow> 'w \<Rightarrow> 'w \<times> (fault + string list)" where
  "expireAttempts dp k st w = expire_loop dp k st (dp_now dp w) (m_vals (st_deliveries st)) [] w"

subsection \<open>Dispatch\<close>

definition attempt_payload :: "string \<Rightarrow> runtime \<Rightarrow> payload" where
  "attempt_payload delivery_id r =
     InvocationDeliveryAttempted \<lparr>da_delivery_id = delivery_id, da_runtime_id = rt_id r,
       da_transport = rt_connector r, da_host_id = rt_host_id r, da_endpoint_id = rt_endpoint_id r,
       da_attempt = 0, da_manual = False, da_attempt_until = 0\<rparr>"

definition notified_payload :: "string \<Rightarrow> runtime \<Rightarrow> int \<Rightarrow> delivery_result \<Rightarrow> payload" where
  "notified_payload delivery_id r attempt res =
     InvocationNotified \<lparr>no_delivery_id = delivery_id, no_runtime_id = rt_id r, no_attempt = attempt,
       no_transport = rt_connector r, no_endpoint_id = dr_endpoint_id res,
       no_evidence = dr_evidence res\<rparr>"

definition skips :: "state \<Rightarrow> string list \<Rightarrow> string \<Rightarrow> invocation \<Rightarrow> time \<Rightarrow> bool" where
  "skips st expired invocationID i now =
     (invocationID \<in> set expired \<or> iv_status i \<noteq> ''PENDING'' \<or> deliveryRetryPending st (iv_id i) now)"

text \<open>One attempt, from its reservation to the record of its outcome. \<open>None\<close> continues the loop.\<close>

definition attempt_delivery ::
  "'w dispatcher \<Rightarrow> string \<Rightarrow> state \<Rightarrow> invocation \<Rightarrow> runtime \<Rightarrow> connector_config \<Rightarrow> 'w \<Rightarrow> 'w \<times> fault option" where
  "attempt_delivery dp k st i r config w0 =
     (let attempt = deliveryAttempt st (iv_id i) + 1;
          (w, delivery_id) = dp_uuid dp w0
      in case dp_submit dp k (rt_agent_id r) attempt_type (iv_id i) (attempt_payload delivery_id r) w of
          (w1, Some _) \<Rightarrow> (w1, None)
        | (w1, None) \<Rightarrow>
          (case deliver dp config \<lparr>en_project = k, en_invocation = i, en_runtime = r\<rparr> w1 of
             (w2, Inl delivery_error) \<Rightarrow>
               (let final = (automaticDeliveryAttemptCount st (iv_id i) + 1 \<ge> MaxDeliveryAttempts) in
                case retry_at final (dp_now dp w2) attempt of
                  Inl e \<Rightarrow> (w2, Some (Plain e))
                | Inr next_retry \<Rightarrow>
                    dp_submit dp k (rt_agent_id r) failed_type (iv_id i)
                      (InvocationDeliveryFailed \<lparr>df_delivery_id = delivery_id, df_runtime_id = rt_id r,
                         df_attempt = attempt, df_error = err_text delivery_error,
                         df_next_retry = next_retry, df_final = final\<rparr>) w2)
           | (w2, Inr res) \<Rightarrow>
               dp_submit dp k (rt_agent_id r) notify_type (iv_id i)
                 (notified_payload delivery_id r attempt res) w2))"

definition dispatch_one ::
  "'w dispatcher \<Rightarrow> configs \<Rightarrow> string \<Rightarrow> state \<Rightarrow> string list \<Rightarrow> string \<Rightarrow> 'w \<Rightarrow> 'w \<times> fault option" where
  "dispatch_one dp configs k st expired invocationID w =
     (let i = m_read zero_invocation (st_invocations st) invocationID in
      if skips st expired invocationID i (dp_now dp w) then (w, None)
      else case selectRuntime (dp_project_root dp) (dp_host_id dp) configs st i of
          None \<Rightarrow> (w, None)
        | Some (r, config) \<Rightarrow>
            if automaticDeliveryAttemptCount st (iv_id i) \<ge> MaxDeliveryAttempts then (w, None)
            else attempt_delivery dp k st i r config w)"

fun dispatch_loop ::
  "'w dispatcher \<Rightarrow> configs \<Rightarrow> string \<Rightarrow> state \<Rightarrow> string list \<Rightarrow> string list \<Rightarrow> 'w \<Rightarrow> 'w \<times> fault option" where
  "dispatch_loop dp configs k st expired [] w = (w, None)"
| "dispatch_loop dp configs k st expired (invocationID # rest) w =
     (case dispatch_one dp configs k st expired invocationID w of
        (w', Some e) \<Rightarrow> (w', Some e)
      | (w', None) \<Rightarrow> dispatch_loop dp configs k st expired rest w')"

definition Dispatch ::
  "'w dispatcher \<Rightarrow> configs \<Rightarrow> string \<Rightarrow> state \<Rightarrow> 'w \<Rightarrow> 'w \<times> configs \<times> fault option" where
  "Dispatch dp configs k st w =
     (case reloadConfigs dp configs w of
        Inl e \<Rightarrow> (w, configs, Some (Wrapped ''reload connector configuration: '' (Plain e)))
      | Inr configs' \<Rightarrow>
        (case expireAttempts dp k st w of
           (w', Inl e) \<Rightarrow> (w', configs', Some e)
         | (w', Inr expired) \<Rightarrow>
             (case dispatch_loop dp configs' k st expired
                 (sort (List.map fst (m_entries (st_invocations st)))) w' of
                (w'', e) \<Rightarrow> (w'', configs', e))))"

subsection \<open>Delivering a reserved attempt\<close>

definition configForRuntime ::
  "'w dispatcher \<Rightarrow> configs \<Rightarrow> runtime \<Rightarrow> 'w \<Rightarrow> configs \<times> connector_config result" where
  "configForRuntime dp configs0 r w =
     (case reloadConfigs dp configs0 w of
        Inl e \<Rightarrow> (configs0, Inl (Err (''reload connector configuration: '' @ err_text e)))
      | Inr configs \<Rightarrow> (configs,
          if effectiveRuntimeKind_of r = RuntimeKindInteractive then
            fail_if (rt_connector r \<noteq> ''INTERACTIVE'' \<or> rt_status r \<noteq> ''ONLINE'' \<or> rt_host_id r = [] \<or>
                rt_host_id r \<noteq> dp_host_id dp \<or> dp_project_root dp = [])
              (Err ''interactive runtime is not available on this host'')
            (Inr interactive_config)
          else
            fail_if (rt_connector r \<in> {''MANUAL'', ''MCP'', ''QUEUE''})
              (Err (rt_connector r @ '' runtime does not support notification delivery''))
            (fail_if (rt_config_reference r = [])
              (Err ''runtime connector configuration reference is missing'')
            (let mismatch = Err ''runtime connector configuration is unavailable or mismatched'' in
             case m_get configs (rt_config_reference r) of None \<Rightarrow> Inl mismatch
             | Some config \<Rightarrow>
               fail_if (cf_type config \<noteq> rt_connector r) mismatch
               (and_then (validateConnectorConfig (dp_host dp w) (rt_config_reference r) config)
                 (\<lambda>_. Inr config))))))"

definition recordDeliveryFailure ::
  "'w dispatcher \<Rightarrow> string \<Rightarrow> invocation \<Rightarrow> delivery \<Rightarrow> state \<Rightarrow> err \<Rightarrow> 'w \<Rightarrow> 'w \<times> fault option" where
  "recordDeliveryFailure dp k i d st delivery_error w =
     (let final = (dl_manual d \<or> automaticDeliveryAttemptCount st (iv_id i) \<ge> MaxDeliveryAttempts) in
      case retry_at final (dp_now dp w) (dl_attempt d) of
        Inl e \<Rightarrow> (w, Some (Plain e))
      | Inr next_retry \<Rightarrow>
          dp_submit dp k (iv_target i) failed_type (iv_id i)
            (InvocationDeliveryFailed \<lparr>df_delivery_id = dl_id d, df_runtime_id = dl_runtime_id d,
               df_attempt = dl_attempt d, df_error = err_text delivery_error,
               df_next_retry = next_retry, df_final = final\<rparr>) w)"

definition DeliverAttempt ::
  "'w dispatcher \<Rightarrow> configs \<Rightarrow> string \<Rightarrow> string \<Rightarrow> string \<Rightarrow> state \<Rightarrow> 'w \<Rightarrow> 'w \<times> configs \<times> fault option" where
  "DeliverAttempt dp configs0 k invocationID deliveryID st w =
     (case attempted_delivery st invocationID deliveryID of
        None \<Rightarrow> (w, configs0, Some (Plain (Err ''matching attempted delivery is required'')))
      | Some d \<Rightarrow>
        if \<not> later_than (dp_now dp w) (dl_attempt_until d)
        then (w, configs0, Some (Plain (Err ''delivery attempt lease has expired'')))
        else case m_get (st_invocations st) invocationID of
          None \<Rightarrow> (w, configs0, Some (Plain (Err ''invocation not found'')))
        | Some i \<Rightarrow>
        (case m_get (st_runtimes st) (dl_runtime_id d) of
          None \<Rightarrow> (w, configs0, Some (Plain (Err ''delivery runtime not found'')))
        | Some r \<Rightarrow>
        (case configForRuntime dp configs0 r w of
          (configs, Inl e) \<Rightarrow>
            (case recordDeliveryFailure dp k i d st e w of (w', x) \<Rightarrow> (w', configs, x))
        | (configs, Inr config) \<Rightarrow>
            (case deliver dp config \<lparr>en_project = k, en_invocation = i, en_runtime = r\<rparr> w of
               (w', Inl e) \<Rightarrow>
                 (case recordDeliveryFailure dp k i d st e w' of (w'', x) \<Rightarrow> (w'', configs, x))
             | (w', Inr res) \<Rightarrow>
                 (case dp_submit dp k (rt_agent_id r) notify_type invocationID
                     (notified_payload (dl_id d) r (dl_attempt d) res) w' of
                    (w'', x) \<Rightarrow> (w'', configs, x))))))"

end
