(* ===== verification/Typed_State.thy ===== *)
theory Typed_State
  imports Owner
begin

text \<open>
  The type of a project state: the values its runtimes, invocations and deliveries can take. Go's struct
  types leave statuses, kinds and counters open; what the validator and the projection make
  of them in a reachable database is stated and shown here, with a locale that carries a law of states
  through the engine.
\<close>

subsection \<open>Laws of states\<close>

text \<open>
  A law that the empty state satisfies, and that neither an accepted transition nor the bootstrap
  activation, which skips the validator, breaks.
\<close>

locale state_law =
  fixes cr :: crypto and law :: "state \<Rightarrow> bool"
  assumes law_empty: "law EmptyState"
    and law_accepted: "law s \<Longrightarrow> payload_ok t payload \<Longrightarrow>
      ValidateTransition cr s actor t (le_entity_id e) payload now = Inr q \<Longrightarrow>
      project cr t q e s = Inr s' \<Longrightarrow> law s'"
    and law_bootstrap: "law s \<Longrightarrow> payload_ok (Agent_ev AgentActivate) q \<Longrightarrow>
      project cr (Agent_ev AgentActivate) q e s = Inr s' \<Longrightarrow> law s'"
begin

lemma law_row:
  assumes "check_transition cr row c t payload now = Inr q" "payload_ok t payload" "payload_ok t q"
    and "project cr t q e (pj_state row) = Inr s'" "le_entity_id e = cm_entity_id c" "law (pj_state row)"
  shows "law s'"
proof (cases "bootstraps row c t")
  case True
  then have "t = Agent_ev AgentActivate" by (simp add: bootstraps_def)
  with assms law_bootstrap show ?thesis by blast
next
  case False
  with assms(1) have "ValidateTransition cr (pj_state row) (cm_actor c) t (cm_entity_id c) payload now = Inr q"
    by (simp add: check_transition_def)
  with assms law_accepted show ?thesis by metis
qed

lemma law_step:
  assumes "codec_ok cr" "\<forall>k row. m_get (db_projects d) k = Some row \<longrightarrow> law (pj_state row)"
    and "step cr priv d r = Inr d'"
  shows "\<forall>k row. m_get (db_projects d') k = Some row \<longrightarrow> law (pj_state row)"
proof (cases r)
  case (Create now j owner)
  with assms(2,3) law_empty show ?thesis
    by (auto simp: step_def CreateProject_def m_gets split: if_splits)
next
  case (Submit now c)
  with assms(3) obtain e rc where "Mutate cr priv now d c = Inr (d', e, rc)"
    by (auto simp: step_def)
  then show ?thesis
  proof (cases rule: Mutate_Inr)
    case replayed
    with assms(2) show ?thesis by simp
  next
    case (fresh row intent t q fp)
    from assms(1) fresh(4,5) obtain payload row' where r: "payload_ok t payload" "payload_ok t q"
      "check_transition cr row c t payload (microseconds now) = Inr q"
      "project cr t q (log_of e) (pj_state row) = Inr (pj_state row')" "pj_owner row' = pj_owner row"
      "db_projects d' = m_put (cm_project_id c) row' (db_projects d)" "le_entity_id (log_of e) = cm_entity_id c"
      by (rule commit_row)
    with assms(2) fresh(1) law_row [OF r(3,1,2,4,7)] show ?thesis by (simp add: m_gets)
  qed
qed

end

sublocale state_law \<subseteq> lawful: inv_kept "step cr priv"
    "\<lambda>d. codec_ok cr \<and> (\<forall>k row. m_get (db_projects d) k = Some row \<longrightarrow> law (pj_state row))" for priv
  by unfold_locales (blast dest: law_step)

context state_law
begin

lemma law_reachable:
  assumes "codec_ok cr" "reachable cr priv d" "m_get (db_projects d) k = Some row"
  shows "law (pj_state row)"
proof -
  have "\<forall>k row. m_get (db_projects empty_db) k = Some row \<longrightarrow> law (pj_state row)"
    by (simp add: empty_db_def)
  with lawful.serve_keeps [of empty_db] assms show ?thesis unfolding reachable_def by blast
qed

end

subsection \<open>Runtimes\<close>

definition runtime_statuses :: "string set" where
  "runtime_statuses = {''OFFLINE'', ''ONLINE'', ''DRAINING'', ''REVOKED''}"

definition runtime_typed :: "string \<Rightarrow> runtime \<Rightarrow> bool" where
  "runtime_typed k r \<longleftrightarrow>
     rt_id r = k \<and> rt_connector r \<in> set runtime_connectors \<and>
     rt_kind r \<in> {RuntimeKindWorker, RuntimeKindInteractive} \<and>
     (rt_kind r = RuntimeKindInteractive \<longleftrightarrow> rt_connector r = ''INTERACTIVE'') \<and>
     1 \<le> rt_max_concurrent r \<and> rt_max_concurrent r \<le> MaxRuntimeConcurrency \<and>
     int (length (rt_active_invocations r)) \<le> rt_max_concurrent r \<and>
     rt_status r \<in> runtime_statuses \<and>
     (rt_status r = ''ONLINE'' \<longrightarrow> rt_health r \<in> {''HEALTHY'', ''DEGRADED''}) \<and>
     (rt_kind r = RuntimeKindWorker \<longrightarrow> blank (rt_endpoint_id r)) \<and>
     (rt_kind r = RuntimeKindInteractive \<and> rt_status r = ''ONLINE'' \<longrightarrow> \<not> blank (rt_endpoint_id r))"

definition runtimes_typed :: "state \<Rightarrow> bool" where
  "runtimes_typed s \<longleftrightarrow> (\<forall>k r. m_get (st_runtimes s) k = Some r \<longrightarrow> runtime_typed k r)"

lemma stamp_runtime_typed [simp]: "runtime_typed k (stamp_runtime e r) = runtime_typed k r"
  by (simp add: runtime_typed_def stamp_runtime_def)

lemma runtime_kinds:
  assumes "factory t \<in> {K_RuntimeRegistered, K_RuntimeConfigured, K_RuntimeHeartbeat}"
  shows "\<exists>x. t = Runtime_ev x"
proof -
  have "\<forall>u\<in>set all_event_types. factory u \<in> {K_RuntimeRegistered, K_RuntimeConfigured, K_RuntimeHeartbeat} \<longrightarrow>
    (\<exists>x. u = Runtime_ev x)"
    by (simp add: all_event_types_def)
  with assms all_event_types_complete show ?thesis by blast
qed

lemma status_kind:
  assumes "factory t = K_RuntimeStatusChanged"
  shows "t = Agent_ev AgentRevoke \<or> (\<exists>x. t = Runtime_ev x)"
proof -
  have "\<forall>u\<in>set all_event_types. factory u = K_RuntimeStatusChanged \<longrightarrow>
    u = Agent_ev AgentRevoke \<or> (\<exists>x. u = Runtime_ev x)"
    by (simp add: all_event_types_def)
  with assms all_event_types_complete show ?thesis by blast
qed

lemma runtimes_frame:
  assumes "project cr t payload e s = Inr s'" "payload_ok t payload" "\<And>x. t \<noteq> Runtime_ev x"
    and "t \<noteq> Agent_ev AgentRevoke"
  shows "st_runtimes s' = st_runtimes s"
proof -
  from project_parts [OF assms(1)] obtain s1 where s1: "apply_payload cr t payload e s = Inr s1"
    and s': "s' = (if t = Runtime_ev RtDelete then s1 else stampEntity t e s1)" by blast
  have none: "kind_of payload \<notin> {K_RuntimeRegistered, K_RuntimeConfigured, K_RuntimeHeartbeat, K_RuntimeStatusChanged}"
    using runtime_kinds [of t] status_kind [of t] assms(2-4) unfolding payload_ok_def by force
  have suspend: "apply_task_status (Agent_ev AgentSuspend) p e s = Inr s1 \<Longrightarrow>
      st_runtimes s1 = st_runtimes s" for p
    by (auto simp: apply_task_status_def on_agent_def)
  have "st_runtimes s1 = st_runtimes s"
    using s1 none
    by (cases payload)
      (auto simp: apply_payload_def arms Let_def dest: task_status_frame suspend)
  then show ?thesis
    using assms(3) unfolding s' by (cases t) (auto simp: stampEntity_def Let_def)
qed

lemma runtime_block:
  assumes "ValidateTransition cr s actor (Runtime_ev x) eid payload now = Inr q"
  shows "validate_runtime s actor x eid payload now = Inr q"
  using transition_Inr(4) [OF assms] by (simp add: validate_block_def)

lemma typed_stamped:
  assumes "runtimes_typed s" "\<And>j. m_get (st_runtimes s1) j = (if j = le_entity_id e then Some r else m_get (st_runtimes s) j)"
    and "runtime_typed (le_entity_id e) r"
  shows "runtimes_typed (stampEntity (Runtime_ev x) e s1)"
  using assms by (auto simp: runtimes_typed_def stampEntity_runtimes)

lemma typed_register:
  assumes "runtimes_typed s" "validate_runtime_register s actor x (le_entity_id e) p = Inr q"
    and "project cr (Runtime_ev x) q e s = Inr s'"
  shows "runtimes_typed s'"
proof -
  from runtime_register_Inr [OF assms(2)] obtain kind connector where
    q: "q = RuntimeRegistered (p\<lparr>rr_kind := kind, rr_connector := connector\<rparr>)" and
    x: "x = RtRegister" and
    n: "normalizeRuntimeDefinition (rr_kind p) (rr_connector p) (rr_config_reference p)
       (rr_host_id p) (rr_max_concurrent p) = Inr (kind, connector)"
    by blast
  define p' where "p' = p\<lparr>rr_kind := kind, rr_connector := connector\<rparr>"
  have s': "s' = stampEntity (Runtime_ev x) e (apply_runtime_registered p' e s)"
    using assms(3) x by (simp add: project_def apply_payload_def q p'_def)
  note facts = normalizeRuntimeDefinition_ok [OF n]
  then have eff: "effectiveRuntimeKind kind connector = kind"
    by (auto simp: effectiveRuntimeKind_def)
  define r where "r = zero_runtime\<lparr>rt_id := le_entity_id e, rt_agent_id := rr_agent_id p, rt_kind := kind,
               rt_connector := connector, rt_config_reference := rr_config_reference p,
               rt_host_id := rr_host_id p, rt_status := ''OFFLINE'', rt_health := ''UNKNOWN'',
               rt_max_concurrent := rr_max_concurrent p, rt_scopes := rr_scopes p,
               rt_capabilities := rr_capabilities p, rt_registered_at := le_time e,
               rt_last_changed_by := le_actor e\<rparr>"
  have "m_get (st_runtimes (apply_runtime_registered p' e s)) j =
      (if j = le_entity_id e then Some r else m_get (st_runtimes s) j)" for j
    by (simp add: apply_runtime_registered_def Let_def m_gets p'_def eff r_def)
  moreover have "runtime_typed (le_entity_id e) r"
    using facts by (auto simp: runtime_typed_def r_def zero_runtime_def runtime_statuses_def blank_def trim_space_def)
  ultimately show ?thesis unfolding s' using assms(1) by (rule typed_stamped [rotated])
qed

lemma typed_on_runtime:
  assumes "runtimes_typed s" "m_get (st_runtimes s) (le_entity_id e) = Some r"
    and "runtime_typed (le_entity_id e) (f r)"
  shows "runtimes_typed (stampEntity (Runtime_ev x) e (on_runtime f e s))"
  using assms(1) by (rule typed_stamped [where r = "f r"])
    (use assms(2,3) in \<open>simp_all add: on_runtime_def m_gets\<close>)

lemma typed_configure:
  assumes "runtimes_typed s" "validate_runtime_configure s actor x k (m_get (st_runtimes s) k) p = Inr q"
    and "project cr (Runtime_ev x) q e s = Inr s'" "le_entity_id e = k"
  shows "runtimes_typed s'"
proof -
  from runtime_configure_Inr [OF assms(2)] obtain r kind connector where
    r: "m_get (st_runtimes s) k = Some r" and x: "x = RtConfigure" and
    q: "q = RuntimeConfigured (p\<lparr>rc_kind := kind, rc_connector := connector\<rparr>)" and
    n: "normalizeRuntimeDefinition (rc_kind p) (rc_connector p) (rc_config_reference p)
       (rc_host_id p) (rc_max_concurrent p) = Inr (kind, connector)"
    by blast
  from assms(2) x r have idle: "rt_active_invocations r = []"
    by (simp add: validate_runtime_configure_def)
  note facts = normalizeRuntimeDefinition_ok [OF n]
  then have eff: "effectiveRuntimeKind kind connector = kind"
    by (auto simp: effectiveRuntimeKind_def)
  define p' where "p' = p\<lparr>rc_kind := kind, rc_connector := connector\<rparr>"
  have s': "s' = stampEntity (Runtime_ev x) e (on_runtime (configure_runtime p' e) e s)"
    using assms(3) x by (simp add: project_def apply_payload_def q p'_def)
  have "runtime_typed k r" using assms(1) r by (simp add: runtimes_typed_def)
  then have "runtime_typed k (configure_runtime p' e r)"
    using facts eff idle
    by (auto simp: runtime_typed_def configure_runtime_def p'_def runtime_statuses_def blank_def trim_space_def)
  then show ?thesis unfolding s' using assms(1,4) r by (intro typed_on_runtime) simp_all
qed

lemma typed_heartbeat:
  assumes "runtimes_typed s" "validate_heartbeat s actor k (m_get (st_runtimes s) k) p0 now = Inr q"
    and "project cr (Runtime_ev x) q e s = Inr s'" "le_entity_id e = k"
  shows "runtimes_typed s'"
proof -
  from heartbeat_Inr [OF assms(2)] obtain r p where r: "m_get (st_runtimes s) k = Some r"
    and q: "q = RuntimeHeartbeat p" and n: "int (length (hb_active_invocations p)) \<le> rt_max_concurrent r"
    and h: "hb_health p \<in> {''HEALTHY'', ''DEGRADED''}"
    by blast
  have ty: "runtime_typed k r" using assms(1) r by (simp add: runtimes_typed_def)
  then have kind: "runtimeKind (rt_kind r) (rt_connector r) = rt_kind r"
    by (auto simp: runtime_typed_def runtimeKind_def)
  from assms(2) r q have ep:
    "(rt_kind r = RuntimeKindInteractive \<longrightarrow> \<not> blank (hb_endpoint_id p)) \<and>
     (rt_kind r \<noteq> RuntimeKindInteractive \<longrightarrow> blank (hb_endpoint_id p))"
    by (auto simp: validate_heartbeat_def kind Let_def)
  have x: "project cr (Runtime_ev x) q e s = Inr (stampEntity (Runtime_ev x) e
      (on_runtime (heartbeat_runtime p e) e s)) \<or> x = RtDelete"
    by (simp add: project_def apply_payload_def q)
  have "runtime_typed k (heartbeat_runtime p e r)"
    using ty n ep h by (auto simp: runtime_typed_def heartbeat_runtime_def runtime_statuses_def)
  then have main: "runtimes_typed (stampEntity (Runtime_ev x) e (on_runtime (heartbeat_runtime p e) e s))" for x
    using assms(1,4) r by (intro typed_on_runtime) simp_all
  have "runtimes_typed (on_runtime (heartbeat_runtime p e) e s)"
    using assms(1,4) r \<open>runtime_typed k (heartbeat_runtime p e r)\<close>
    by (auto simp: runtimes_typed_def on_runtime_def m_gets)
  with main assms(3) x show ?thesis by (auto simp: project_def apply_payload_def q split: if_splits)
qed

lemma typed_status:
  assumes "runtimes_typed s" "validate_runtime_status s actor x (m_get (st_runtimes s) k) p = Inr q"
    and "project cr (Runtime_ev x) q e s = Inr s'" "le_entity_id e = k"
  shows "runtimes_typed s'"
proof -
  from runtime_status_Inr [OF assms(2)] obtain r where r: "m_get (st_runtimes s) k = Some r"
    and q: "q = RuntimeStatusChanged p" by blast
  have ty: "runtime_typed k r" using assms(1) r by (simp add: runtimes_typed_def)
  show ?thesis
  proof (cases "x = RtDelete")
    case True
    with assms(1,3) show ?thesis
      by (auto simp: project_def apply_payload_def q apply_runtime_status_def runtimes_typed_def m_gets split: if_splits)
  next
    case False
    let ?f = "\<lambda>r. (move_runtime (Runtime_ev x) r)\<lparr>rt_reason := sc_reason p, rt_last_changed_by := le_actor e\<rparr>"
    from False assms(3) have s': "s' = stampEntity (Runtime_ev x) e (on_runtime ?f e s)"
      by (simp add: project_def apply_payload_def q apply_runtime_status_def)
    have "runtime_typed k (?f r)"
      using ty by (cases x) (auto simp: runtime_typed_def runtime_statuses_def blank_def trim_space_def)
    then show ?thesis unfolding s' using assms(1,4) r by (intro typed_on_runtime) simp_all
  qed
qed

lemma revoke_typed: "runtime_typed k r \<Longrightarrow> runtime_typed k (revoke_runtime e r)"
  unfolding revoke_runtime_def by (cases "rt_agent_id r = le_entity_id e \<and> rt_status r \<noteq> ''REVOKED''")
    (auto simp: runtime_typed_def runtime_statuses_def)

lemma typed_accepted:
  assumes "runtimes_typed s" "payload_ok t payload"
    and v: "ValidateTransition cr s actor t (le_entity_id e) payload now = Inr q"
    and pr: "project cr t q e s = Inr s'"
  shows "runtimes_typed s'"
proof -
  have ok: "payload_ok t q"
    using assms(2) validate_keeps_kind [OF v] by (simp add: payload_ok_def)
  consider (runtime) x where "t = Runtime_ev x" | (revoke) "t = Agent_ev AgentRevoke"
    | (other) "\<And>x. t \<noteq> Runtime_ev x" "t \<noteq> Agent_ev AgentRevoke" by blast
  then show ?thesis
  proof cases
    case runtime
    from runtime_block [OF v [unfolded runtime]]
    have b: "validate_runtime s actor x (le_entity_id e) payload now = Inr q" .
    show ?thesis
    proof (cases payload)
      case (RuntimeRegistered p)
      with b typed_register [OF assms(1)] pr runtime show ?thesis by (simp add: validate_runtime_def)
    next
      case (RuntimeConfigured p)
      with b typed_configure [OF assms(1)] pr runtime show ?thesis by (simp add: validate_runtime_def)
    next
      case (RuntimeHeartbeat p)
      with b typed_heartbeat [OF assms(1)] pr runtime show ?thesis by (simp add: validate_runtime_def)
    next
      case (RuntimeStatusChanged p)
      with b typed_status [OF assms(1)] pr runtime show ?thesis by (simp add: validate_runtime_def)
    qed (use b in \<open>simp_all add: validate_runtime_def\<close>)
  next
    case revoke
    with ok obtain p where "q = RuntimeStatusChanged p" by (cases q) (auto simp: payload_ok_def)
    with pr revoke have "st_runtimes s' = m_map (\<lambda>_. revoke_runtime e) (st_runtimes s)"
      by (auto simp: project_def apply_payload_def apply_runtime_status_def apply_agent_revoked_def
          stampEntity_def Let_def)
    with assms(1) revoke_typed show ?thesis unfolding runtimes_typed_def by auto
  next
    case other
    with runtimes_frame [OF pr ok] assms(1) show ?thesis by (simp add: runtimes_typed_def)
  qed
qed

interpretation runtimes: state_law cr runtimes_typed for cr
proof
  show "runtimes_typed EmptyState" by (simp add: runtimes_typed_def EmptyState_def)
next
  fix s q e s'
  assume "runtimes_typed s" "payload_ok (Agent_ev AgentActivate) q" "project cr (Agent_ev AgentActivate) q e s = Inr s'"
  with runtimes_frame [of cr "Agent_ev AgentActivate" q e s s'] show "runtimes_typed s'"
    by (simp add: runtimes_typed_def)
qed (rule typed_accepted)

subsection \<open>Counting the entries of a map\<close>

lemma count_vals:
  "length (List.filter P (m_vals m)) = card {k. \<exists>v. m_get m k = Some v \<and> P v}"
proof -
  let ?es = "List.filter (P \<circ> snd) (m_entries m)"
  have "distinct (List.map fst ?es)" by (simp add: distinct_map_filter)
  then have "length ?es = card (fst ` set ?es)" by (metis distinct_card length_map list.set_map)
  moreover have "fst ` set ?es = {k. \<exists>v. m_get m k = Some v \<and> P v}"
    by (force simp: m_entries_get [symmetric])
  ultimately show ?thesis by (simp add: m_vals_def filter_map)
qed

lemma finite_keys: "finite {k. \<exists>v. m_get m k = Some v \<and> P v}"
proof -
  have "{k. \<exists>v. m_get m k = Some v \<and> P v} \<subseteq> fst ` set (m_entries m)"
    by (force simp: m_entries_get [symmetric])
  then show ?thesis by (rule finite_subset) simp
qed

lemma count_put_fresh:
  assumes "m_get m k = None"
  shows "length (List.filter P (m_vals (m_put k v m))) = length (List.filter P (m_vals m)) + (if P v then 1 else 0)"
proof -
  let ?S = "{j. \<exists>w. m_get m j = Some w \<and> P w}"
  have "{j. \<exists>w. m_get (m_put k v m) j = Some w \<and> P w} = (if P v then insert k ?S else ?S)"
    using assms by (auto simp: m_get_put)
  moreover have "k \<notin> ?S" using assms by simp
  ultimately show ?thesis unfolding count_vals using finite_keys [of m P] by simp
qed

lemma count_put_alike:
  assumes "m_get m k = Some u" "P v = P u"
  shows "length (List.filter P (m_vals (m_put k v m))) = length (List.filter P (m_vals m))"
proof -
  have "{j. \<exists>w. m_get (m_put k v m) j = Some w \<and> P w} = {j. \<exists>w. m_get m j = Some w \<and> P w}"
    using assms by (auto simp: m_get_put)
  then show ?thesis unfolding count_vals by simp
qed

subsection \<open>Invocations and deliveries\<close>

definition invocation_statuses :: "string set" where
  "invocation_statuses = {''PENDING'', ''NOTIFIED'', ''CLAIMED'', ''RUNNING'', ''WAITING'', ''COMPLETED'',
     ''REJECTED'', ''EXPIRED'', ''CANCELLED''}"

definition invocation_typed :: "string \<Rightarrow> invocation \<Rightarrow> bool" where
  "invocation_typed k i \<longleftrightarrow>
     iv_id i = k \<and> \<not> blank (iv_target i) \<and> iv_status i \<in> invocation_statuses \<and>
     iv_priority i \<in> {''LOW'', ''NORMAL'', ''HIGH'', ''URGENT''} \<and> validConsumerMode (iv_consumer_mode i)"

definition delivery_statuses :: "string set" where
  "delivery_statuses = {''ATTEMPTED'', ''SUCCEEDED'', ''FAILED'', ''EXHAUSTED''}"

definition delivery_typed :: "state \<Rightarrow> string \<Rightarrow> delivery \<Rightarrow> bool" where
  "delivery_typed s k d \<longleftrightarrow>
     dl_id d = k \<and> 1 \<le> dl_attempt d \<and> dl_status d \<in> delivery_statuses \<and>
     m_has (st_invocations s) (dl_invocation_id d)"

definition attempts_distinct :: "state \<Rightarrow> bool" where
  "attempts_distinct s \<longleftrightarrow>
     (\<forall>j k a b. m_get (st_deliveries s) j = Some a \<and> m_get (st_deliveries s) k = Some b \<and>
        dl_invocation_id a = dl_invocation_id b \<and> dl_attempt a = dl_attempt b \<longrightarrow> j = k)"

definition deliveries_typed :: "state \<Rightarrow> bool" where
  "deliveries_typed s \<longleftrightarrow>
     (\<forall>k i. m_get (st_invocations s) k = Some i \<longrightarrow> invocation_typed k i) \<and>
     (\<forall>k d. m_get (st_deliveries s) k = Some d \<longrightarrow> delivery_typed s k d) \<and>
     attempts_distinct s \<and> (\<forall>k. automaticDeliveryAttempts s k \<le> MaxDeliveryAttempts)"

lemma stamp_invocation_typed [simp]: "invocation_typed k (stamp_invocation e i) = invocation_typed k i"
  by (simp add: invocation_typed_def stamp_invocation_def Let_def)

text \<open>What the law sees of a state: the invocations found by a key, and the deliveries.\<close>

lemma deliveries_typed_cong:
  assumes "m_get (st_invocations s') = m_get (st_invocations s)" "st_deliveries s' = st_deliveries s"
  shows "deliveries_typed s' = deliveries_typed s"
  using assms
  by (simp add: deliveries_typed_def delivery_typed_def attempts_distinct_def automaticDeliveryAttempts_def m_has_def)

lemma typed_stamp_invocation:
  "deliveries_typed (stampEntity (Invocation_ev x) e s) = deliveries_typed s"
proof -
  let ?s = "stampEntity (Invocation_ev x) e s"
  have "st_deliveries ?s = st_deliveries s" by (simp add: stampEntity_def Let_def)
  moreover have "m_has (st_invocations ?s) k = m_has (st_invocations s) k" for k
    by (simp add: m_has_def stampEntity_invocations)
  moreover have "(\<forall>k i. m_get (st_invocations ?s) k = Some i \<longrightarrow> invocation_typed k i) \<longleftrightarrow>
      (\<forall>k i. m_get (st_invocations s) k = Some i \<longrightarrow> invocation_typed k i)"
    by (simp add: stampEntity_invocations) (metis option.inject stamp_invocation_typed)
  ultimately show ?thesis
    by (simp add: deliveries_typed_def delivery_typed_def attempts_distinct_def automaticDeliveryAttempts_def)
qed

text \<open>Writing one invocation, and one delivery.\<close>

lemma typed_put_invocation:
  assumes "deliveries_typed s" "invocation_typed k i"
    and "st_invocations s' = m_put k i (st_invocations s)" "st_deliveries s' = st_deliveries s"
  shows "deliveries_typed s'"
proof -
  have "m_has (st_invocations s) j \<Longrightarrow> m_has (st_invocations s') j" for j
    by (simp add: assms(3) m_has_def m_gets)
  then have "\<forall>j d. m_get (st_deliveries s') j = Some d \<longrightarrow> delivery_typed s' j d"
    using assms(1,4) by (simp add: deliveries_typed_def delivery_typed_def)
  moreover have "\<forall>j x. m_get (st_invocations s') j = Some x \<longrightarrow> invocation_typed j x"
    using assms(1-3) by (simp add: deliveries_typed_def m_gets)
  ultimately show ?thesis
    using assms(1,4) by (simp add: deliveries_typed_def attempts_distinct_def automaticDeliveryAttempts_def)
qed

lemma typed_put_fresh_delivery:
  assumes "deliveries_typed s" "m_get (st_deliveries s) k = None" "delivery_typed s k d"
    and "dl_attempt d = nextDeliveryAttempt s (dl_invocation_id d)"
    and "dl_manual d \<or> automaticDeliveryAttempts s (dl_invocation_id d) < MaxDeliveryAttempts"
    and "st_deliveries s' = m_put k d (st_deliveries s)" "st_invocations s' = st_invocations s"
  shows "deliveries_typed s'"
proof -
  have fresh: "dl_attempt a \<noteq> dl_attempt d" if "m_get (st_deliveries s) j = Some a"
    "dl_invocation_id a = dl_invocation_id d" for a j
    using nextDeliveryAttempt_fresh [OF that] assms(4) by simp
  have "attempts_distinct s'"
    using assms(1) fresh unfolding attempts_distinct_def deliveries_typed_def assms(6) m_get_put
    by (metis option.inject)
  moreover have "\<forall>j x. m_get (st_deliveries s') j = Some x \<longrightarrow> delivery_typed s' j x"
    using assms(1,3) by (simp add: deliveries_typed_def delivery_typed_def assms(6,7) m_gets)
  moreover have "automaticDeliveryAttempts s' i \<le> MaxDeliveryAttempts" for i
  proof -
    have "automaticDeliveryAttempts s i \<le> MaxDeliveryAttempts"
      using assms(1) by (simp add: deliveries_typed_def)
    with assms(5) show ?thesis
      unfolding automaticDeliveryAttempts_def assms(6) count_put_fresh [OF assms(2)] by auto
  qed
  ultimately show ?thesis using assms(1,7) by (simp add: deliveries_typed_def)
qed

lemma typed_put_known_delivery:
  assumes "deliveries_typed s" "m_get (st_deliveries s) k = Some a" "dl_status d \<in> delivery_statuses"
    and "dl_id d = dl_id a" "dl_invocation_id d = dl_invocation_id a" "dl_attempt d = dl_attempt a"
    and "dl_manual d = dl_manual a"
    and "st_deliveries s' = m_put k d (st_deliveries s)" "st_invocations s' = st_invocations s"
  shows "deliveries_typed s'"
proof -
  have "delivery_typed s k a" using assms(1,2) by (simp add: deliveries_typed_def)
  with assms(3-6) have "delivery_typed s k d" by (simp add: delivery_typed_def)
  then have "\<forall>j x. m_get (st_deliveries s') j = Some x \<longrightarrow> delivery_typed s' j x"
    using assms(1) by (simp add: deliveries_typed_def delivery_typed_def assms(8,9) m_gets)
  moreover have "attempts_distinct s'"
    using assms(1,2,5,6) unfolding attempts_distinct_def deliveries_typed_def assms(8) m_get_put
    by (smt (verit, ccfv_threshold) option.inject)
  moreover have "automaticDeliveryAttempts s' i = automaticDeliveryAttempts s i" for i
    unfolding automaticDeliveryAttempts_def assms(8) using assms(2,5,7) by (intro count_put_alike) simp_all
  ultimately show ?thesis using assms(1,9) by (simp add: deliveries_typed_def)
qed

lemma typed_on_invocation:
  assumes "deliveries_typed s" "m_get (st_invocations s) (le_entity_id e) = Some i"
    and "\<And>i. iv_id (f i) = iv_id i \<and> iv_target (f i) = iv_target i \<and> iv_priority (f i) = iv_priority i \<and>
      iv_consumer_mode (f i) = iv_consumer_mode i"
    and "iv_status (f i) \<in> invocation_statuses"
  shows "deliveries_typed (on_invocation f e s)"
proof (rule typed_put_invocation [OF assms(1)])
  have "invocation_typed (le_entity_id e) i" using assms(1,2) by (simp add: deliveries_typed_def)
  with assms(3,4) show "invocation_typed (le_entity_id e) (f i)" by (simp add: invocation_typed_def)
  show "st_invocations (on_invocation f e s) = m_put (le_entity_id e) (f i) (st_invocations s)"
    by (simp add: on_invocation_def m_write_def assms(2))
qed (simp add: on_invocation_def)

lemma typed_requested:
  assumes "deliveries_typed s" "validate_request cr s actor x (le_entity_id e) p0 now = Inr (InvocationRequested p)"
  shows "deliveries_typed (apply_requested p e s)"
proof -
  from assms(2) have "validConsumerMode (ir_consumer_mode p)"
    "ir_priority p \<in> {''LOW'', ''NORMAL'', ''HIGH'', ''URGENT''}" "\<not> blank (ir_target p0)"
    by (auto simp: validate_request_def Let_def split: option.splits)
  moreover have "ir_target p = ir_target p0"
    using request_Inr [OF assms(2)] by (auto simp: NormalizeInvocationApprovalSubject_def Let_def)
  moreover have "to_upper (trim_space v) = v" if "v \<in> {''LOW'', ''NORMAL'', ''HIGH'', ''URGENT''}" for v
    using that by (elim insertE) (simp_all add: text_eval)
  ultimately show ?thesis
    by (intro typed_put_invocation [OF assms(1), of "le_entity_id e" "m_read zero_invocation
        (st_invocations (apply_requested p e s)) (le_entity_id e)"])
      (auto simp: apply_requested_def Let_def invocation_typed_def m_gets m_read_def invocation_statuses_def
        effectiveConsumerMode_def validConsumerMode_def zero_invocation_def)
qed

lemma typed_attempted:
  assumes "deliveries_typed s"
    and v: "validate_attempt s actor (le_entity_id e) (m_get (st_invocations s) (le_entity_id e)) p0 now =
      Inr (InvocationDeliveryAttempted p)"
  shows "deliveries_typed (apply_attempted p e s)"
proof -
  from attempt_Inr [OF v] obtain i where
    p: "m_get (st_invocations s) (le_entity_id e) = Some i" "m_get (st_deliveries s) (da_delivery_id p) = None"
    "da_manual p \<or> automaticDeliveryAttempts s (le_entity_id e) < MaxDeliveryAttempts"
    "da_attempt p = nextDeliveryAttempt s (le_entity_id e)" by blast
  define d where "d = zero_delivery\<lparr>dl_id := da_delivery_id p, dl_invocation_id := le_entity_id e,
           dl_runtime_id := da_runtime_id p, dl_transport := da_transport p,
           dl_host_id := da_host_id p, dl_endpoint_id := da_endpoint_id p,
           dl_attempt := da_attempt p, dl_manual := da_manual p, dl_status := ''ATTEMPTED'',
           dl_attempted_at := Some (le_time e), dl_attempt_until := Some (da_attempt_until p)\<rparr>"
  show ?thesis
  proof (rule typed_put_fresh_delivery [OF assms(1) p(2), of d])
    show "delivery_typed s (da_delivery_id p) d"
      using p nextDeliveryAttempt_pos [of s] by (simp add: d_def delivery_typed_def delivery_statuses_def m_has_def)
  qed (use p in \<open>simp_all add: d_def apply_attempted_def\<close>)
qed

lemma typed_notified:
  assumes "deliveries_typed s"
    and v: "validate_notify s actor (le_entity_id e) (m_get (st_invocations s) (le_entity_id e)) p0 now =
      Inr (InvocationNotified p)"
  shows "deliveries_typed (apply_notified p e s)"
proof -
  from notify_Inr [OF v] obtain i d where
    p: "m_get (st_invocations s) (le_entity_id e) = Some i" "m_get (st_deliveries s) (no_delivery_id p) = Some d"
    by blast
  have "iv_status i \<in> invocation_statuses"
    using assms(1) p(1) by (simp add: deliveries_typed_def invocation_typed_def)
  then have inv: "deliveries_typed (on_invocation notify_invocation e s)"
    using p(1) by (intro typed_on_invocation [OF assms(1)])
      (auto simp: notify_invocation_def invocation_statuses_def)
  have same: "st_deliveries (on_invocation notify_invocation e s) = st_deliveries s"
    by (simp add: on_invocation_def)
  show ?thesis
    by (rule typed_put_known_delivery [OF inv, of "no_delivery_id p" d "notified_delivery p e (Some d)"])
      (use p(2) same in \<open>simp_all add: notified_delivery_def delivery_statuses_def apply_notified_def\<close>)
qed

lemma typed_delivery_failed:
  assumes "deliveries_typed s"
    and v: "validate_delivery_failed s actor (le_entity_id e) (m_get (st_invocations s) (le_entity_id e)) p0 now =
      Inr (InvocationDeliveryFailed p)"
  shows "deliveries_typed (apply_delivery_failed p e s)"
proof -
  from delivery_failed_Inr [OF v] obtain i d where
    p: "m_get (st_invocations s) (le_entity_id e) = Some i" "m_get (st_deliveries s) (df_delivery_id p) = Some d"
    by blast
  let ?f = "fail_invocation (hasSuccessfulDelivery s (le_entity_id e))"
  have "iv_status i \<in> invocation_statuses"
    using assms(1) p(1) by (simp add: deliveries_typed_def invocation_typed_def)
  then have inv: "deliveries_typed (on_invocation ?f e s)"
    using p(1) by (intro typed_on_invocation [OF assms(1)])
      (auto simp: fail_invocation_def invocation_statuses_def)
  have same: "st_deliveries (on_invocation ?f e s) = st_deliveries s"
    by (simp add: on_invocation_def)
  show ?thesis
    by (rule typed_put_known_delivery [OF inv, of "df_delivery_id p" d "fail_delivery p e d"])
      (use p(2) same in \<open>simp_all add: fail_delivery_def delivery_statuses_def apply_delivery_failed_def m_write_def\<close>)
qed

lemma typed_invocation_block:
  assumes ty: "deliveries_typed s"
    and v: "validate_invocation cr s actor x (le_entity_id e) payload now = Inr q" and x: "x \<noteq> InvPolicyUpdate"
    and pr: "apply_payload cr (Invocation_ev x) q e s = Inr s'"
  shows "deliveries_typed s'"
proof -
  let ?f = "m_get (st_invocations s) (le_entity_id e)"
  note on = typed_on_invocation [OF ty]
  note st = claim_invocation_def progress_invocation_def wait_invocation_def complete_invocation_def
    end_invocation_def invocation_statuses_def
  show ?thesis
  proof (cases payload)
    case (InvocationRequested p)
    with v x have "validate_request cr s actor x (le_entity_id e) p now = Inr q" by (simp add: validate_invocation_def)
    with request_Inr [OF this] typed_requested [OF ty] pr show ?thesis by (auto simp: apply_payload_def)
  next
    case (InvocationDeliveryAttempted p)
    with v x have "validate_attempt s actor (le_entity_id e) ?f p now = Inr q" by (simp add: validate_invocation_def)
    with attempt_Inr [OF this] typed_attempted [OF ty] pr show ?thesis by (auto simp: apply_payload_def)
  next
    case (InvocationNotified p)
    with v x have "validate_notify s actor (le_entity_id e) ?f p now = Inr q" by (simp add: validate_invocation_def)
    with notify_Inr [OF this] typed_notified [OF ty] pr show ?thesis by (auto simp: apply_payload_def)
  next
    case (InvocationDeliveryFailed p)
    with v x have "validate_delivery_failed s actor (le_entity_id e) ?f p now = Inr q"
      by (simp add: validate_invocation_def)
    with delivery_failed_Inr [OF this] typed_delivery_failed [OF ty] pr show ?thesis by (auto simp: apply_payload_def)
  next
    case (InvocationClaimed p)
    with v x have "validate_claim s actor (le_entity_id e) ?f p now = Inr q" by (simp add: validate_invocation_def)
    with inv_claim_Inr [OF this] pr show ?thesis by (auto simp: apply_payload_def st intro!: on)
  next
    case (InvocationProgress p)
    with v x have "validate_progress actor x ?f p = Inr q" by (simp add: validate_invocation_def)
    with progress_Inr [OF this] pr show ?thesis by (auto simp: apply_payload_def st intro!: on)
  next
    case (InvocationWaiting p)
    with v x have "validate_wait actor ?f p now = Inr q" by (simp add: validate_invocation_def)
    with wait_Inr [OF this] pr show ?thesis by (auto simp: apply_payload_def st intro!: on)
  next
    case (InvocationCompleted p)
    with v x have "validate_complete s actor ?f p = Inr q" by (simp add: validate_invocation_def)
    with complete_Inr [OF this] pr show ?thesis by (auto simp: apply_payload_def st intro!: on)
  next
    case (InvocationRejected p)
    with v x have "validate_end s actor x ?f p now = Inr q" by (simp add: validate_invocation_def)
    with end_Inr [OF this] pr show ?thesis by (auto simp: apply_payload_def st intro!: on)
  qed (use v x in \<open>simp_all add: validate_invocation_def\<close>)
qed

lemma delivery_kind:
  assumes "factory t = K_InvocationDeliveryAttempted"
  shows "\<exists>x. t = Invocation_ev x"
proof -
  have "\<forall>u\<in>set all_event_types. factory u = K_InvocationDeliveryAttempted \<longrightarrow> (\<exists>x. u = Invocation_ev x)"
    by (simp add: all_event_types_def)
  with assms all_event_types_complete show ?thesis by blast
qed

lemma archive_deliveries: "st_deliveries (fold (archive_task e) ks s) = st_deliveries s"
  by (induction ks arbitrary: s) (simp_all add: archive_task_def)

lemma consume_deliveries:
  "st_deliveries (consumeOrchestratorGrantApproval k e s) = st_deliveries s"
  "st_deliveries (consumeApprovedAction a e s) = st_deliveries s"
  "consumeNamedApprovedAction k a e s = Inr s' \<Longrightarrow> st_deliveries s' = st_deliveries s"
  by (auto simp: consumeOrchestratorGrantApproval_def consumeApprovedAction_def consumeNamedApprovedAction_def
      Let_def split: list.split option.splits if_splits)

lemma task_status_deliveries:
  "apply_task_status t p e s = Inr s' \<Longrightarrow> st_deliveries s' = st_deliveries s"
  by (auto simp: apply_task_status_def on_task_def on_agent_def Let_def consume_deliveries
      dest: consume_deliveries(3) split: if_splits)

lemma deliveries_frame:
  assumes "project cr t payload e s = Inr s'" "payload_ok t payload" "\<And>x. t \<noteq> Invocation_ev x"
  shows "st_deliveries s' = st_deliveries s"
proof -
  from project_parts [OF assms(1)] obtain s1 where s1: "apply_payload cr t payload e s = Inr s1"
    and s': "s' = (if t = Runtime_ev RtDelete then s1 else stampEntity t e s1)" by blast
  have none: "kind_of payload \<notin> {K_InvocationNotified, K_InvocationDeliveryFailed, K_InvocationDeliveryAttempted}"
    using invocation_kinds [of t] delivery_kind [of t] assms(2,3) unfolding payload_ok_def by force
  have "st_deliveries s1 = st_deliveries s"
    using s1 none
    by (cases payload)
      (auto simp: apply_payload_def arms Let_def archive_deliveries consume_deliveries dest: task_status_deliveries)
  then show ?thesis
    unfolding s' by (cases t) (auto simp: stampEntity_def Let_def)
qed

lemma deliveries_accepted:
  assumes "deliveries_typed s" "payload_ok t payload"
    and v: "ValidateTransition cr s actor t (le_entity_id e) payload now = Inr q"
    and pr: "project cr t q e s = Inr s'"
  shows "deliveries_typed s'"
proof -
  have ok: "payload_ok t q"
    using assms(2) validate_keeps_kind [OF v] by (simp add: payload_ok_def)
  show ?thesis
  proof (cases "\<exists>x. t = Invocation_ev x")
    case False
    with invocations_frame [OF pr ok] deliveries_frame [OF pr ok] assms(1) show ?thesis
      by (simp add: deliveries_typed_cong [of s' s])
  next
    case True
    then obtain x where t: "t = Invocation_ev x" by blast
    from v t have b: "validate_invocation cr s actor x (le_entity_id e) payload now = Inr q"
      using transition_Inr(4) [OF v] by (simp add: validate_block_def)
    from pr t obtain s1 where s1: "apply_payload cr (Invocation_ev x) q e s = Inr s1"
      "s' = stampEntity (Invocation_ev x) e s1" by (auto simp: project_def)
    have "deliveries_typed s1"
    proof (cases "x = InvPolicyUpdate")
      case True
      with ok t obtain p where "q = InvocationPolicyUpdated p" by (cases q) (auto simp: payload_ok_def)
      with s1(1) have "st_invocations s1 = st_invocations s" "st_deliveries s1 = st_deliveries s"
        by (auto simp: apply_payload_def)
      with assms(1) show ?thesis by (simp add: deliveries_typed_cong [of s1 s])
    next
      case False
      from typed_invocation_block [OF assms(1) b False s1(1)] show ?thesis .
    qed
    then show ?thesis by (simp add: s1(2) typed_stamp_invocation)
  qed
qed

interpretation deliveries: state_law cr deliveries_typed for cr
proof
  show "deliveries_typed EmptyState"
    by (simp add: deliveries_typed_def EmptyState_def attempts_distinct_def automaticDeliveryAttempts_def m_vals_def)
next
  fix s q e s'
  assume a: "deliveries_typed s" "payload_ok (Agent_ev AgentActivate) q" "project cr (Agent_ev AgentActivate) q e s = Inr s'"
  from invocations_frame [OF a(3,2)] deliveries_frame [OF a(3,2)] a(1) show "deliveries_typed s'"
    by (simp add: deliveries_typed_cong [of s' s])
qed (rule deliveries_accepted)

text \<open>
  C20. Every state the authority stores is well typed. A runtime is a worker or interactive, and
  interactive exactly when it uses the INTERACTIVE connector, its concurrency is between 1 and 100 and
  bounds the work it reports, it is healthy or degraded when it is online, and it has an endpoint when it
  is interactive and online and none when it is a worker. An invocation has one of nine statuses and a known priority and consumer mode. A delivery belongs to
  an invocation of the project, has a positive attempt number that no other delivery of that
  invocation has, and no invocation has more than ten automatic attempts.
\<close>

theorem state_is_well_typed:
  assumes "codec_ok cr" "reachable cr priv d" "m_get (db_projects d) k = Some row"
  shows "runtimes_typed (pj_state row) \<and> deliveries_typed (pj_state row)"
  using runtimes.law_reachable [OF assms] deliveries.law_reachable [OF assms] by blast

end
