(* ===== verification/Dispatch_Facts.thy ===== *)
theory Dispatch_Facts
  imports Connectors Typed_State
begin

text \<open>
  What the dispatcher of theory Connectors guarantees: the attempt it submits is one the authority accepts,
  with the number it expects; it never guesses between terminals; its retries stay within bounds;
  the process it starts sees the identity of the envelope; and what blocks it.
\<close>

subsection \<open>The numbers of attempts\<close>

lemma fold_best_next:
  "fold (next_attempt_body k) ds (best + 1) =
   fold (\<lambda>d best. if dl_invocation_id d = k \<and> dl_attempt d > best then dl_attempt d else best) ds best + 1"
  by (induction ds arbitrary: best) (simp_all add: next_attempt_body_def)

lemma next_is_successor: "nextDeliveryAttempt st k = deliveryAttempt st k + 1"
  unfolding nextDeliveryAttempt_def deliveryAttempt_def using fold_best_next [of k _ 0] by simp

lemma automatic_counts_agree: "automaticDeliveryAttemptCount st k = automaticDeliveryAttempts st k"
  by (simp add: automaticDeliveryAttemptCount_def automaticDeliveryAttempts_def)

lemma modes_agree: "effectiveConsumerMode_of mode = effectiveInvocationConsumer mode"
  by (simp add: effectiveConsumerMode_of_def effectiveInvocationConsumer_def validConsumerMode_def)

lemma allows_agree: "consumerModeAllowsRuntime mode kind = consumerAllowsKind mode kind"
  by (auto simp: consumerModeAllowsRuntime_def consumerAllowsKind_def modes_agree
      effectiveInvocationConsumer_def validConsumerMode_def Let_def)

text \<open>Refreshing presence leaves the deliveries alone.\<close>

lemma refresh_deliveries [simp]:
  "st_deliveries (RefreshRuntimePresence st t) = st_deliveries st"
  "st_invocations (RefreshRuntimePresence st t) = st_invocations st"
  by (simp_all add: RefreshRuntimePresence_def)

lemma refreshed_numbers [simp]:
  "deliveryAttempt (RefreshRuntimePresence st t) k = deliveryAttempt st k"
  "automaticDeliveryAttemptCount (RefreshRuntimePresence st t) k = automaticDeliveryAttemptCount st k"
  "deliveryRetryPending (RefreshRuntimePresence st t) k now = deliveryRetryPending st k now"
  by (simp_all add: deliveryAttempt_def automaticDeliveryAttemptCount_def deliveryRetryPending_def)

subsection \<open>Whom the dispatcher picks\<close>

lemma find_hit: "List.find P xs = Some c \<Longrightarrow> P c \<and> c \<in> set xs"
  by (auto simp: find_Some_iff)

lemma sorted_runtimes_set:
  assumes "r \<in> set (sorted_runtimes st)"
  shows "\<exists>k. m_get (st_runtimes st) k = Some r"
proof -
  from assms obtain k b where "(k, b) \<in> set (m_entries (st_runtimes st))"
    "r = m_read zero_runtime (st_runtimes st) k" by (auto simp: sorted_runtimes_def)
  then show ?thesis by (intro exI [of _ k]) (simp add: m_entries_get)
qed

lemma candidate_Some:
  "candidate root here configs i r = Some c \<longleftrightarrow>
   fst c = r \<and> \<not> passed_over i r \<and> consumerModeAllowsRuntime (iv_consumer_mode i) (effectiveRuntimeKind_of r) \<and>
   (if effectiveRuntimeKind_of r = RuntimeKindInteractive
    then reachable_here root here r \<and> snd c = interactive_config
    else rt_connector r \<notin> {''MANUAL'', ''MCP'', ''QUEUE''} \<and> rt_config_reference r \<noteq> [] \<and>
      m_get configs (rt_config_reference r) = Some (snd c) \<and> cf_type (snd c) = rt_connector r)"
  by (cases c) (auto simp: candidate_def split: option.splits)

lemma selectRuntime_Some:
  assumes "selectRuntime root here configs st i = Some c"
  shows "(\<exists>k. m_get (st_runtimes st) k = Some (fst c)) \<and> candidate root here configs i (fst c) = Some c"
proof -
  let ?cs = "List.map_filter (candidate root here configs i) (sorted_runtimes st)"
  from assms have "c \<in> set ?cs"
    by (auto simp: selectRuntime_def Let_def split: if_splits dest: find_hit)
  then obtain r where "r \<in> set (sorted_runtimes st)" "candidate root here configs i r = Some c"
    by (auto simp: List.map_filter_def)
  moreover from this have "fst c = r" by (simp add: candidate_Some)
  ultimately show ?thesis using sorted_runtimes_set by blast
qed

text \<open>The runtime picked in a refreshed state, as the authority's state has it.\<close>

lemma picked:
  assumes "runtimes_typed st"
    and "selectRuntime root here configs (RefreshRuntimePresence st t) i = Some (r, config)"
  obtains q where "m_get (st_runtimes st) (rt_id r) = Some q" "r = refresh_runtime t q"
    "runtime_typed (rt_id r) q" "runtimeKind (rt_kind q) (rt_connector q) = rt_kind q"
    "rt_agent_id q = iv_target i" "rt_status q \<notin> {''DRAINING'', ''REVOKED''}"
    "iv_preferred_runtime_id i \<noteq> [] \<Longrightarrow> iv_preferred_runtime_id i = rt_id r"
    "consumerAllowsKind (iv_consumer_mode i) (rt_kind q)"
    "rt_connector q \<notin> {''MANUAL'', ''MCP'', ''QUEUE''}"
    "rt_kind q = RuntimeKindInteractive \<Longrightarrow> rt_status q = ''ONLINE'' \<and> r = q"
    "rt_connector r = rt_connector q" "rt_host_id r = rt_host_id q"
    "rt_kind q \<noteq> RuntimeKindInteractive \<Longrightarrow> blank (rt_endpoint_id r)"
proof -
  from selectRuntime_Some [OF assms(2)] obtain k where
    k: "m_get (st_runtimes (RefreshRuntimePresence st t)) k = Some r"
    and c: "candidate root here configs i r = Some (r, config)" by auto
  from k obtain q where q: "m_get (st_runtimes st) k = Some q" "r = refresh_runtime t q"
    by (auto simp: RefreshRuntimePresence_def)
  with assms(1) have ty: "runtime_typed k q" by (simp add: runtimes_typed_def)
  have same: "rt_id r = rt_id q" "rt_agent_id r = rt_agent_id q" "rt_kind r = rt_kind q"
    "rt_connector r = rt_connector q" "rt_host_id r = rt_host_id q"
    by (simp_all add: q(2) refresh_runtime_def)
  have id: "rt_id r = k" using ty same(1) by (simp add: runtime_typed_def)
  have kind: "effectiveRuntimeKind_of r = rt_kind q" "runtimeKind (rt_kind q) (rt_connector q) = rt_kind q"
    using ty same by (auto simp: effectiveRuntimeKind_of_def runtimeKind_def runtime_typed_def)
  have online: "rt_status q = ''ONLINE'' \<and> r = q" if "rt_kind q = RuntimeKindInteractive"
  proof -
    from c that kind(1) have "rt_status r = ''ONLINE''" by (simp add: candidate_Some reachable_here_def)
    then have "\<not> presence_expired t q" by (auto simp: q(2) refresh_runtime_def split: if_splits)
    with \<open>rt_status r = ''ONLINE''\<close> show ?thesis by (simp add: q(2) refresh_runtime_eq)
  qed
  show thesis
  proof (rule that)
    show "rt_agent_id q = iv_target i" using c same by (simp add: candidate_Some passed_over_def)
    show "rt_status q \<notin> {''DRAINING'', ''REVOKED''}"
      using c by (auto simp: candidate_Some passed_over_def q(2) refresh_runtime_def presence_expired_def split: if_splits)
    show "iv_preferred_runtime_id i \<noteq> [] \<Longrightarrow> iv_preferred_runtime_id i = rt_id r"
      using c by (simp add: candidate_Some passed_over_def)
    show "consumerAllowsKind (iv_consumer_mode i) (rt_kind q)"
      using c kind by (simp add: candidate_Some allows_agree)
    show "rt_connector q \<notin> {''MANUAL'', ''MCP'', ''QUEUE''}"
    proof (cases "rt_kind q = RuntimeKindInteractive")
      case True
      with ty have "rt_connector q = ''INTERACTIVE''" by (simp add: runtime_typed_def)
      then show ?thesis by simp
    next
      case False
      with c kind(1) same(4) show ?thesis by (simp add: candidate_Some)
    qed
    show "blank (rt_endpoint_id r)" if "rt_kind q \<noteq> RuntimeKindInteractive"
    proof -
      from ty that have "blank (rt_endpoint_id q)" by (simp add: runtime_typed_def)
      moreover have "rt_endpoint_id r = rt_endpoint_id q \<or> rt_endpoint_id r = []"
        by (simp add: q(2) refresh_runtime_def)
      ultimately show ?thesis by (auto simp: blank_def trim_space_def)
    qed
    show "m_get (st_runtimes st) (rt_id r) = Some q" using q(1) id by simp
    show "runtime_typed (rt_id r) q" using ty id by simp
  qed (fact q(2) kind(2) online same)+
qed

lemma effective_consumer_idem:
  "consumerAllowsKind (effectiveInvocationConsumer mode) kind = consumerAllowsKind mode kind"
  by (simp add: consumerAllowsKind_def effectiveInvocationConsumer_def validConsumerMode_def Let_def)

lemma connector_normal: "c \<in> set runtime_connectors \<Longrightarrow> to_upper (trim_space c) = c \<and> c \<noteq> []"
  by (auto simp: runtime_connectors_def text_eval)

lemma no_live_attempt:
  assumes "\<not> deliveryRetryPending st k now" "now \<le> later"
  shows "\<not> list_ex (live_attempt k runtime_id later) (m_vals (st_deliveries st))"
  using assms by (fastforce simp: deliveryRetryPending_def live_attempt_def later_than_def list_ex_iff split: option.splits)

lemma attempt_validates:
  assumes "runtimes_typed st" "m_get (st_invocations st) k = Some i" "iv_status i = ''PENDING''"
    and "\<not> deliveryRetryPending st k now" "now \<le> later"
    and sel: "selectRuntime root here configs (RefreshRuntimePresence st t) i = Some (r, config)"
    and "automaticDeliveryAttempts st k < MaxDeliveryAttempts"
    and "\<not> blank delivery_id" "m_get (st_deliveries st) delivery_id = None" "\<not> blank (rt_id r)"
  shows "\<exists>p. validate_attempt st (rt_agent_id r) k (Some i)
      \<lparr>da_delivery_id = delivery_id, da_runtime_id = rt_id r,
       da_transport = rt_connector r, da_host_id = rt_host_id r, da_endpoint_id = rt_endpoint_id r,
       da_attempt = 0, da_manual = False, da_attempt_until = 0\<rparr> later = Inr (InvocationDeliveryAttempted p) \<and>
    da_delivery_id p = delivery_id \<and> da_runtime_id p = rt_id r \<and> da_attempt p = nextDeliveryAttempt st k \<and>
    da_attempt_until p = later + DefaultDeliveryAttemptLease"
proof -
  from assms(1) sel obtain q where q: "m_get (st_runtimes st) (rt_id r) = Some q" "r = refresh_runtime t q"
    "runtime_typed (rt_id r) q" "runtimeKind (rt_kind q) (rt_connector q) = rt_kind q"
    "rt_agent_id q = iv_target i" "rt_status q \<notin> {''DRAINING'', ''REVOKED''}"
    "iv_preferred_runtime_id i \<noteq> [] \<Longrightarrow> iv_preferred_runtime_id i = rt_id r"
    "consumerAllowsKind (iv_consumer_mode i) (rt_kind q)"
    "rt_connector q \<notin> {''MANUAL'', ''MCP'', ''QUEUE''}"
    "rt_kind q = RuntimeKindInteractive \<Longrightarrow> rt_status q = ''ONLINE'' \<and> r = q"
    "rt_connector r = rt_connector q" "rt_host_id r = rt_host_id q"
    "rt_kind q \<noteq> RuntimeKindInteractive \<Longrightarrow> blank (rt_endpoint_id r)"
    by (rule picked) blast
  have agent: "rt_agent_id r = iv_target i" using q(5) by (simp add: q(2) refresh_runtime_def)
  have con: "to_upper (trim_space (rt_connector q)) = rt_connector q" "rt_connector q \<noteq> []"
    using q(3) connector_normal by (simp_all add: runtime_typed_def)
  define p0 where "p0 = \<lparr>da_delivery_id = delivery_id, da_runtime_id = rt_id r,
       da_transport = rt_connector r, da_host_id = rt_host_id r, da_endpoint_id = rt_endpoint_id r,
       da_attempt = 0, da_manual = False, da_attempt_until = 0\<rparr>"
  have tr: "attempt_transport q p0 = p0"
    using con q(4,10-12) by (auto simp: attempt_transport_def p0_def Let_def)
  have ends: "rt_kind q = RuntimeKindInteractive \<Longrightarrow> \<not> blank (rt_endpoint_id q) \<and> rt_endpoint_id r = rt_endpoint_id q"
    using q(3,10) by (simp add: runtime_typed_def)
  have sel: "da_delivery_id p0 = delivery_id" "da_runtime_id p0 = rt_id r" "da_transport p0 = rt_connector q"
    "da_host_id p0 = rt_host_id q" "da_endpoint_id p0 = rt_endpoint_id r" "\<not> da_manual p0" "da_attempt_until p0 = 0"
    using q(11,12) by (simp_all add: p0_def)
  have gates: "open_for_delivery i" "may_deliver st (rt_agent_id r) i" "\<not> m_has (st_deliveries st) delivery_id"
    "consumerAllowsKind (effectiveInvocationConsumer (iv_consumer_mode i)) (rt_kind q)"
    "\<not> automaticDeliveryAttempts st k \<ge> MaxDeliveryAttempts"
    using assms(3,7,9) agent q(8)
    by (simp_all add: open_for_delivery_def may_deliver_def m_has_def effective_consumer_idem)
  have ends: "\<not> (rt_kind q = RuntimeKindInteractive \<and> blank (rt_endpoint_id q))"
    "\<not> (rt_kind q = RuntimeKindInteractive \<and> rt_endpoint_id r \<noteq> rt_endpoint_id q)"
    "\<not> (rt_kind q \<noteq> RuntimeKindInteractive \<and> \<not> blank (rt_endpoint_id r))"
    "\<not> (rt_kind q = RuntimeKindInteractive \<and> rt_status q \<noteq> ''ONLINE'')"
    using q(3,10,13) by (auto simp: runtime_typed_def)
  have rest: "\<not> (iv_preferred_runtime_id i \<noteq> [] \<and> iv_preferred_runtime_id i \<noteq> rt_id r)"
    "\<not> (rt_status q = ''DRAINING'' \<or> rt_status q = ''REVOKED'')"
    "rt_connector q \<notin> {''MANUAL'', ''MCP'', ''QUEUE''}"
    using q(6,7,9) by auto
  have "validate_attempt st (rt_agent_id r) k (Some i) p0 later = Inr (InvocationDeliveryAttempted
      (p0\<lparr>da_attempt := nextDeliveryAttempt st k, da_attempt_until := later + DefaultDeliveryAttemptLease\<rparr>))"
    unfolding validate_attempt_def Let_def option.case sel q(1,4,5) tr
    using assms(8,10) no_live_attempt [OF assms(4,5)]
    by (simp only: gates ends rest fail_if_False sel simp_thms not_True_eq_False) simp
  then show ?thesis unfolding p0_def by simp
qed

text \<open>
  C17. The dispatcher and the authority agree on who may be tried. Take any state the authority can
  store, let the daemon refresh presence in its copy and pick a runtime for an invocation it does not
  skip: the reservation it then signs as that runtime's agent is accepted by the authority at any
  later moment (as long as the agent is active and the delivery id is new), whatever the kind of
  runtime, transport, host and endpoint, and it gets the attempt number the dispatcher will report
  the outcome under.
\<close>

theorem dispatched_attempt_is_admitted:
  assumes "runtimes_typed st" "deliveries_typed st" "m_get (st_invocations st) k = Some i"
    and "\<not> skips (RefreshRuntimePresence st t) expired k i now" "now \<le> later"
    and "selectRuntime root here configs (RefreshRuntimePresence st t) i = Some (r, config)"
    and "automaticDeliveryAttemptCount (RefreshRuntimePresence st t) k < MaxDeliveryAttempts"
    and "m_get (st_agents st) (iv_target i) = Some a" "ag_status a = ''ACTIVE''"
    and "\<not> blank delivery_id" "m_get (st_deliveries st) delivery_id = None" "\<not> blank (rt_id r)"
  shows "\<exists>p. ValidateTransition cr st (rt_agent_id r) (Invocation_ev InvDeliveryAttempt) k
      (attempt_payload delivery_id r) later = Inr (InvocationDeliveryAttempted p) \<and>
    da_delivery_id p = delivery_id \<and> da_runtime_id p = rt_id r \<and>
    da_attempt p = deliveryAttempt (RefreshRuntimePresence st t) k + 1 \<and>
    da_attempt_until p = later + DefaultDeliveryAttemptLease"
proof -
  from assms(2,3) have ty: "iv_id i = k" "\<not> blank (iv_target i)"
    by (simp_all add: deliveries_typed_def invocation_typed_def)
  from assms(4) ty(1) have pend: "iv_status i = ''PENDING''" "\<not> deliveryRetryPending st k now"
    by (simp_all add: skips_def)
  from assms(7) have less: "automaticDeliveryAttempts st k < MaxDeliveryAttempts"
    by (simp add: automatic_counts_agree [symmetric])
  from attempt_validates [OF assms(1,3) pend assms(5,6) less assms(10-12)] obtain p where
    p: "validate_attempt st (rt_agent_id r) k (Some i)
      \<lparr>da_delivery_id = delivery_id, da_runtime_id = rt_id r,
       da_transport = rt_connector r, da_host_id = rt_host_id r, da_endpoint_id = rt_endpoint_id r,
       da_attempt = 0, da_manual = False, da_attempt_until = 0\<rparr> later = Inr (InvocationDeliveryAttempted p)"
    "da_delivery_id p = delivery_id" "da_runtime_id p = rt_id r" "da_attempt p = nextDeliveryAttempt st k"
    "da_attempt_until p = later + DefaultDeliveryAttemptLease" by blast
  have agent: "rt_agent_id r = iv_target i"
    using selectRuntime_Some [OF assms(6)] by (simp add: candidate_Some passed_over_def)
  moreover from ty(2) have "iv_target i \<noteq> []" by (auto simp: blank_def trim_space_def)
  ultimately have "ValidateTransition cr st (rt_agent_id r) (Invocation_ev InvDeliveryAttempt) k
      (attempt_payload delivery_id r) later = Inr (InvocationDeliveryAttempted p)"
    using assms(3,8,9) p(1)
    by (simp add: ValidateTransition_def check_standing_def active_def elevated_def validate_block_def
        validate_invocation_def attempt_payload_def)
  with p show ?thesis by (simp add: next_is_successor)
qed

text \<open>
  C25. The dispatcher never guesses between terminals. If it picks an interactive runtime for an
  invocation that names no runtime, then no other online terminal of that agent on this
  host could have taken it; and what it picks always belongs to the target, has room, is not draining or revoked, fits the
  consumer mode, and is the preferred one when there is one.
\<close>

theorem selection_never_guesses:
  assumes "selectRuntime root here configs st i = Some (r, config)"
  shows "rt_agent_id r = iv_target i \<and> rt_status r \<noteq> ''DRAINING'' \<and> rt_status r \<noteq> ''REVOKED'' \<and>
    int (length (rt_active_invocations r)) < rt_max_concurrent r \<and>
    consumerAllowsKind (iv_consumer_mode i) (effectiveRuntimeKind_of r) \<and>
    (if iv_preferred_runtime_id i \<noteq> [] then iv_preferred_runtime_id i = rt_id r
     else effectiveRuntimeKind_of r = RuntimeKindInteractive \<longrightarrow>
       (\<forall>j q. m_get (st_runtimes st) j = Some q \<and> effectiveRuntimeKind_of q = RuntimeKindInteractive \<and>
          candidate root here configs i q \<noteq> None \<longrightarrow> q = r))"
proof -
  let ?cs = "List.map_filter (candidate root here configs i) (sorted_runtimes st)"
  from selectRuntime_Some [OF assms] obtain k where c: "candidate root here configs i r = Some (r, config)"
    and k: "m_get (st_runtimes st) k = Some r" by auto
  have alone: "q = r" if pref: "iv_preferred_runtime_id i = []" and "effectiveRuntimeKind_of r = RuntimeKindInteractive"
    and q: "m_get (st_runtimes st) j = Some q" "effectiveRuntimeKind_of q = RuntimeKindInteractive"
    "candidate root here configs i q \<noteq> None" for j q
  proof (rule ccontr)
    assume ne: "q \<noteq> r"
    have mem: "x \<in> set (sorted_runtimes st)" if "m_get (st_runtimes st) l = Some x" for l x
      using that by (force simp: sorted_runtimes_def m_entries_get [symmetric] image_iff intro!: bexI [of _ "(l, x)"])
    obtain cq where cq: "candidate root here configs i q = Some cq" using q(3) by blast
    then have f: "fst cq = q" by (simp add: candidate_Some)
    have "(r, config) \<in> set (List.filter is_interactive ?cs)" "cq \<in> set (List.filter is_interactive ?cs)"
      using mem [OF k] mem [OF q(1)] c cq that(2) q(2) f
      by (auto simp: List.map_filter_def is_interactive_def image_iff)
    moreover have "(r, config) \<noteq> cq" using ne f by auto
    ultimately have "1 < length (List.filter is_interactive ?cs)"
      by (cases "List.filter is_interactive ?cs" rule: remdups_adj.cases) auto
    with assms pref have "\<not> is_interactive (r, config)"
      by (auto simp: selectRuntime_def Let_def split: if_splits dest: find_hit)
    with that(2) show False by (simp add: is_interactive_def)
  qed
  from c alone show ?thesis by (auto simp: candidate_Some passed_over_def allows_agree)
qed

subsection \<open>Retries\<close>

text \<open>
  Retries back off within bounds: after every attempt number the dispatcher can meet the delay is
  between two seconds and five minutes, it never shrinks from one attempt to the next, it doubles
  until it reaches the cap, and the number of nanoseconds it is computed from fits an int64.
\<close>

theorem backoff_is_bounded:
  assumes "1 \<le> attempt"
  shows "\<exists>b. deliveryBackoff attempt = Inr b \<and> 2 * second \<le> b \<and> b \<le> 5 * minute \<and>
    baseDeliveryBackoff * 2 ^ nat (min (attempt - 1) 8) < 2 ^ 63 \<and>
    (\<forall>later b'. attempt \<le> later \<and> deliveryBackoff later = Inr b' \<longrightarrow> b \<le> b') \<and>
    (\<forall>b'. deliveryBackoff (attempt + 1) = Inr b' \<longrightarrow> b' = min (2 * b) (5 * minute))"
proof -
  define P where "P n = (2::int) ^ nat (min (n - 1) 8)" for n
  have eq: "deliveryBackoff n = Inr (min (baseDeliveryBackoff * P n) maxDeliveryBackoff)" if "1 \<le> n" for n
    using that by (simp add: deliveryBackoff_def P_def Let_def)
  have mono: "P m \<le> P n" if "m \<le> n" for m n
    unfolding P_def using that by (intro power_increasing nat_mono) auto
  have "P attempt \<le> 2 ^ 8" unfolding P_def by (rule power_increasing) auto
  then have top: "P attempt \<le> 256" by simp
  have low: "1 \<le> P attempt" by (simp add: P_def)
  have twice: "P (attempt + 1) = 2 * P attempt" if "attempt \<le> 8"
  proof -
    from assms that have "nat (min (attempt + 1 - 1) 8) = Suc (nat (min (attempt - 1) 8))" by (simp add: min_def)
    then show ?thesis unfolding P_def by (simp only: power_Suc)
  qed
  have cap: "P n = 256" if "8 < n" for n
  proof -
    from that have "min (n - 1) 8 = 8" by simp
    then show ?thesis by (simp add: P_def)
  qed
  have next_step: "deliveryBackoff (attempt + 1) = Inr b' \<Longrightarrow>
      b' = min (2 * min (baseDeliveryBackoff * P attempt) maxDeliveryBackoff) (5 * minute)" for b'
    using eq [of "attempt + 1"] assms twice cap [of attempt] cap [of "attempt + 1"]
    by (cases "attempt \<le> 8") (auto simp: min_def)
  have later: "attempt \<le> n \<Longrightarrow> deliveryBackoff n = Inr b' \<Longrightarrow>
      min (baseDeliveryBackoff * P attempt) maxDeliveryBackoff \<le> b'" for n b'
    using eq [of n] assms mono [of attempt n] by (auto simp: min_def)
  show ?thesis
    using eq [OF assms] top low next_step later unfolding P_def [symmetric] by (auto simp: min_def)
qed

subsection \<open>What blocks it\<close>

lemma retry_at_returns: "1 \<le> n \<Longrightarrow> \<exists>t. retry_at final now n = Inr t"
  by (cases final) (simp_all add: retry_at_def deliveryBackoff_def Let_def)

text \<open>A reservation whose lease ran out is settled first, by an event of the target's.\<close>

lemma expire_loop_blocked:
  assumes "d \<in> set ds" "lapsed st now d" "\<And>w. \<exists>e w'. dp_submit dp k
      (iv_target (m_read zero_invocation (st_invocations st) (dl_invocation_id d))) failed_type
      (dl_invocation_id d) p w = (w', Some e)"
    and "lapse_payload st now d = Inr p"
  shows "\<exists>w' e. expire_loop dp k st now ds expired w = (w', Inl e)"
  using assms(1)
proof (induction ds arbitrary: expired w)
  case (Cons x ds)
  show ?case
  proof (cases "x = d")
    case True
    obtain w' e where "dp_submit dp k
      (iv_target (m_read zero_invocation (st_invocations st) (dl_invocation_id d))) failed_type
      (dl_invocation_id d) p w = (w', Some e)" using assms(3) [of w] by blast
    with True assms(2,4) show ?thesis by simp
  next
    case False
    with Cons.prems have "d \<in> set ds" by simp
    with Cons.IH show ?thesis
      by (auto split: sum.split prod.split option.split)
  qed
qed simp

text \<open>
  C34. One lost reservation can silence a daemon: if the state shows an attempt whose lease has run out
  and whose target this host cannot sign for (its key is on another host, or the agent is
  suspended or revoked, so that the event is refused), then every \<open>Dispatch\<close> stops there with an
  error. No runtime is selected and nothing is delivered, to any agent, and since the attempt
  stays on record every later call fails in the same way.
\<close>

theorem lost_reservation_blocks_dispatch:
  assumes "m_get (st_deliveries st) j = Some d" "lapsed st (dp_now dp w) d" "1 \<le> dl_attempt d"
    and "reloadConfigs dp configs w = Inr configs'"
    and "\<And>p w. \<exists>e w'. dp_submit dp k
      (iv_target (m_read zero_invocation (st_invocations st) (dl_invocation_id d))) failed_type
      (dl_invocation_id d) p w = (w', Some e)"
  shows "\<exists>e. expireAttempts dp k st w = (fst (expireAttempts dp k st w), Inl e) \<and>
    Dispatch dp configs k st w = (fst (expireAttempts dp k st w), configs', Some e)"
proof -
  obtain next_retry where "retry_at (\<not> dl_manual d \<and>
      automaticDeliveryAttemptCount st (dl_invocation_id d) \<ge> MaxDeliveryAttempts) (dp_now dp w) (dl_attempt d) =
      Inr next_retry"
    using retry_at_returns [OF assms(3)] by blast
  then obtain p where "lapse_payload st (dp_now dp w) d = Inr p"
    by (simp add: lapse_payload_def Let_def)
  moreover have "d \<in> set (m_vals (st_deliveries st))" using assms(1) m_vals_set by metis
  ultimately obtain w' e where "expireAttempts dp k st w = (w', Inl e)"
    unfolding expireAttempts_def using expire_loop_blocked [OF _ assms(2,5)] by blast
  with assms(4) show ?thesis by (simp add: Dispatch_def)
qed

text \<open>The validator does refuse that event when the target is not active.\<close>

lemma inactive_target_refused:
  assumes "m_get (st_agents st) actor = Some a" "ag_status a \<noteq> ''ACTIVE''" "t \<noteq> Agent_ev AgentRegister"
  shows "\<nexists>q. ValidateTransition cr st actor t eid payload now = Inr q"
  using assms standing_Inr transition_Inr(3) by fastforce

subsection \<open>The identity a process is started with\<close>

text \<open>What a process reads: of several entries for one name, \<open>os/exec\<close> keeps the last.\<close>

definition env_value :: "string list \<Rightarrow> string \<Rightarrow> string option" where
  "env_value vars name =
     map_option (drop (length name + 1)) (List.find (\<lambda>v. has_prefix v (name @ ''='')) (rev vars))"

definition envelope_value :: "envelope \<Rightarrow> string \<Rightarrow> string option" where
  "envelope_value env name =
     (if name = ''AGENT_COMMS_PROJECT_ID'' then Some (en_project env)
      else if name = ''AGENT_COMMS_INVOCATION_ID'' then Some (iv_id (en_invocation env))
      else if name = ''AGENT_COMMS_AGENT_ID'' then Some (rt_agent_id (en_runtime env))
      else if name = ''AGENT_COMMS_RUNTIME_ID'' then Some (rt_id (en_runtime env))
      else None)"

lemma before_equals: "CHR ''='' \<notin> set key \<Longrightarrow> takeWhile (\<lambda>c. c \<noteq> CHR ''='') (key @ CHR ''='' # val) = key"
  by (induction key) auto

lemma env_entry_name:
  assumes "CHR ''='' \<notin> set key" "CHR ''='' \<notin> set name" "has_prefix (key @ ''='' @ val) (name @ ''='')"
  shows "key = name"
proof -
  from assms(3) obtain rest where "key @ CHR ''='' # val = name @ CHR ''='' # rest" by (auto simp: prefix_def)
  with before_equals [OF assms(1)] before_equals [OF assms(2)] show ?thesis by metis
qed

lemma find_append: "List.find P (xs @ ys) = (case List.find P xs of None \<Rightarrow> List.find P ys | Some x \<Rightarrow> Some x)"
  by (induction xs) auto

lemma own_env_silent:
  assumes "\<not> list_ex (\<lambda>(key, _). reserved_env key) entries" "has_prefix name ''AGENT_COMMS_''" "CHR ''='' \<notin> set name"
  shows "List.find (\<lambda>v. has_prefix v (name @ ''='')) (rev (List.map (\<lambda>(key, val). key @ ''='' @ val) entries)) = None"
proof -
  have False if "(key, val) \<in> set entries" "has_prefix (key @ ''='' @ val) (name @ ''='')" for key val
  proof -
    from assms(1) that(1) have k: "\<not> contains key ''=''" "\<not> has_prefix key ''AGENT_COMMS_''"
      by (auto simp: list_ex_iff reserved_env_def)
    from k(1) have "CHR ''='' \<notin> set key"
      by (auto simp: contains_iff in_set_conv_decomp)
    from env_entry_name [OF this assms(3) that(2)] k(2) assms(2) show False by simp
  qed
  then show ?thesis by (fastforce simp: find_None_iff)
qed

lemma own_names:
  assumes "name \<in> {''AGENT_COMMS_PROJECT_ID'', ''AGENT_COMMS_INVOCATION_ID'', ''AGENT_COMMS_AGENT_ID'',
    ''AGENT_COMMS_RUNTIME_ID''}"
  shows "has_prefix name ''AGENT_COMMS_''" "CHR ''='' \<notin> set name"
    "map_option (drop (length name + 1)) (List.find (\<lambda>v. has_prefix v (name @ ''='')) (rev (envelope_environment env))) =
     envelope_value env name"
  using assms by (auto simp: envelope_environment_def envelope_value_def)

text \<open>
  A connector process learns who it acts for from the dispatcher alone. Whatever the daemon's
  own environment and the connector's configuration hold, the process that is started reads
  exactly the project, invocation, agent and runtime of the envelope in its AGENT_COMMS_ variables,
  runs for at most the configured time, and is the configured executable.
\<close>

theorem process_identity_is_genuine:
  assumes "launchConnector dp config env w = Inr (RunProcess exe args dir vars stdin timeout)"
    and "name \<in> {''AGENT_COMMS_PROJECT_ID'', ''AGENT_COMMS_INVOCATION_ID'', ''AGENT_COMMS_AGENT_ID'',
      ''AGENT_COMMS_RUNTIME_ID''}"
  shows "env_value vars name = envelope_value env name \<and> envelope_value env name \<noteq> None \<and>
    cf_type config = ''LOCAL_PROCESS'' \<and> exe = cf_executable config \<and> length args = length (cf_arguments config) \<and>
    timeout = effective_timeout config \<and> 0 < timeout"
proof -
  let ?own = "List.map (\<lambda>(key, val). key @ ''='' @ val) (m_entries (cf_environment config))"
  from assms(1) have l: "cf_type config = ''LOCAL_PROCESS''" "exe = cf_executable config"
    "\<not> list_ex (\<lambda>(key, _). reserved_env key) (m_entries (cf_environment config))"
    "vars = ho_environ (dp_host dp w) @ envelope_environment env @ ?own" "timeout = effective_timeout config"
    "length args = length (cf_arguments config)"
    by (auto simp: launchConnector_def launchWebhook_def split: if_splits)
  have some: "envelope_value env name \<noteq> None" using assms(2) by (auto simp: envelope_value_def)
  then have "List.find (\<lambda>v. has_prefix v (name @ ''='')) (rev (envelope_environment env)) \<noteq> None"
    using own_names(3) [OF assms(2), of env] by auto
  then have "env_value vars name =
      map_option (drop (length name + 1)) (List.find (\<lambda>v. has_prefix v (name @ ''='')) (rev (envelope_environment env)))"
    using own_env_silent [OF l(3) own_names(1,2) [OF assms(2)]]
    by (auto simp: env_value_def l(4) find_append split: option.split)
  then show ?thesis using l some own_names(3) [OF assms(2), of env] by (simp add: effective_timeout_def)
qed

subsection \<open>What dispatching leaves alone\<close>

text \<open>Whatever its four effects keep, a dispatcher keeps: the rest of it only reads.\<close>

locale dispatcher_keeps =
  fixes dp :: "'w dispatcher" and k :: string and law :: "'w \<Rightarrow> bool"
  assumes submit_keeps: "law w \<Longrightarrow> dp_submit dp k actor t x p w = (w', e) \<Longrightarrow> law w'"
    and uuid_keeps: "law w \<Longrightarrow> dp_uuid dp w = (w', u) \<Longrightarrow> law w'"
    and perform_keeps: "law w \<Longrightarrow> dp_perform dp l w = (w', err) \<Longrightarrow> law w'"
    and notify_keeps: "law w \<Longrightarrow> dp_notify dp root r a i b w = (w', n) \<Longrightarrow> law w'"
begin

lemma expire_keeps: "law w \<Longrightarrow> expire_loop dp k st now ds expired w = (w', res) \<Longrightarrow> law w'"
proof (induction ds arbitrary: expired w)
  case (Cons d ds)
  then show ?case
    by (auto split: if_splits sum.splits prod.splits option.splits dest: submit_keeps)
qed simp

lemma configured_keeps: "law w \<Longrightarrow> deliverConfiguredConnector dp config env w = (w', res) \<Longrightarrow> law w'"
  by (auto simp: deliverConfiguredConnector_def split: if_splits sum.splits prod.splits option.splits
      dest: perform_keeps)

lemma deliver_keeps: "law w \<Longrightarrow> deliver dp config env w = (w', res) \<Longrightarrow> law w'"
  by (auto simp: deliver_def split: if_splits sum.splits prod.splits dest: configured_keeps notify_keeps)

lemma attempt_keeps:
  assumes "law w" "attempt_delivery dp k st i r config w = (w', e)"
  shows "law w'"
proof -
  obtain w1 u where u: "dp_uuid dp w = (w1, u)" by fastforce
  obtain w2 e1 where s: "dp_submit dp k (rt_agent_id r) attempt_type (iv_id i) (attempt_payload u r) w1 = (w2, e1)"
    by fastforce
  obtain w3 res where d: "deliver dp config \<lparr>en_project = k, en_invocation = i, en_runtime = r\<rparr> w2 = (w3, res)"
    by fastforce
  have w2: "law w2" using submit_keeps [OF uuid_keeps [OF assms(1) u] s] .
  then have w3: "law w3" using d by (rule deliver_keeps)
  show ?thesis
  proof (cases e1)
    case (Some x)
    with assms(2) u s w2 show ?thesis by (simp add: attempt_delivery_def Let_def)
  next
    case None
    then show ?thesis
    proof (cases res)
      case (Inr x)
      with None assms(2) u s d have "dp_submit dp k (rt_agent_id r) notify_type (iv_id i)
          (notified_payload u r (deliveryAttempt st (iv_id i) + 1) x) w3 = (w', e)"
        by (simp add: attempt_delivery_def Let_def)
      with w3 show ?thesis by (rule submit_keeps)
    next
      case (Inl x)
      with None assms(2) u s d have "(\<exists>p. dp_submit dp k (rt_agent_id r) failed_type (iv_id i) p w3 = (w', e)) \<or> w' = w3"
        by (auto simp: attempt_delivery_def Let_def split: sum.splits)
      with w3 submit_keeps show ?thesis by blast
    qed
  qed
qed

lemma loop_keeps: "law w \<Longrightarrow> dispatch_loop dp configs k st expired ids w = (w', e) \<Longrightarrow> law w'"
proof (induction ids arbitrary: w)
  case (Cons x ids)
  have one: "law w \<Longrightarrow> dispatch_one dp configs k st expired x w = (w1, e1) \<Longrightarrow> law w1" for w w1 e1
    by (auto simp: dispatch_one_def Let_def split: if_splits option.splits prod.splits dest: attempt_keeps)
  obtain w1 e1 where s: "dispatch_one dp configs k st expired x w = (w1, e1)" by fastforce
  with Cons.prems one have "law w1" by blast
  with Cons s show ?case by (cases e1) auto
qed simp

lemma Dispatch_keeps: "law w \<Longrightarrow> Dispatch dp configs k st w = (w', configs', e) \<Longrightarrow> law w'"
  by (auto simp: Dispatch_def expireAttempts_def split: sum.splits prod.splits dest: expire_keeps loop_keeps)

lemma record_keeps: "law w \<Longrightarrow> recordDeliveryFailure dp k i d st x w = (w', e) \<Longrightarrow> law w'"
  by (auto simp: recordDeliveryFailure_def Let_def split: sum.splits dest: submit_keeps)

lemma DeliverAttempt_keeps:
  assumes "law w" "DeliverAttempt dp configs k i j st w = (w', configs', e)"
  shows "law w'"
proof (rule ccontr)
  assume no: "\<not> law w'"
  with assms have "w' \<noteq> w" by blast
  with assms(2) obtain d iv r where d: "attempted_delivery st i j = Some d"
    "later_than (dp_now dp w) (dl_attempt_until d)" "m_get (st_invocations st) i = Some iv"
    "m_get (st_runtimes st) (dl_runtime_id d) = Some r"
    by (auto simp: DeliverAttempt_def split: option.splits if_splits)
  obtain cs c where c: "configForRuntime dp configs r w = (cs, c)" by fastforce
  obtain w1 res where w1: "deliver dp (projr c) \<lparr>en_project = k, en_invocation = iv, en_runtime = r\<rparr> w = (w1, res)"
    by fastforce
  have keep: "law w1" using assms(1) w1 by (rule deliver_keeps)
  have rec: "recordDeliveryFailure dp k iv d st x v = (w', y) \<Longrightarrow> law v \<Longrightarrow> False" for x y v
    using record_keeps no by blast
  have sub: "dp_submit dp k a t x p w1 = (w', y) \<Longrightarrow> False" for a t x p y
    using submit_keeps [OF keep] no by blast
  from assms(2) d c w1 rec [OF _ assms(1)] rec [OF _ keep] sub show False
    by (cases c; cases res) (auto simp: DeliverAttempt_def split: prod.splits)
qed

end

end
