(* ===== verification/Dispatch_Samples.thy ===== *)
theory Dispatch_Samples
  imports Dispatch_Facts
begin

text \<open>Concrete states, configurations and dispatchers to which the properties of theory Dispatch_Facts apply.\<close>

definition hook :: connector_config where
  "hook = zero_config\<lparr>cf_type := ''WEBHOOK'', cf_endpoint := ''https://hook'', cf_timeout := 30 * second\<rparr>"

definition sample_runtime :: runtime where
  "sample_runtime = zero_runtime\<lparr>rt_id := ''r'', rt_agent_id := ''b'', rt_kind := ''WORKER'', rt_connector := ''WEBHOOK'',
     rt_config_reference := ''c'', rt_status := ''OFFLINE'', rt_max_concurrent := 2\<rparr>"

definition sample_invocation :: invocation where
  "sample_invocation = zero_invocation\<lparr>iv_id := ''i'', iv_target := ''b'', iv_priority := ''NORMAL'',
     iv_consumer_mode := ''EITHER'', iv_status := ''PENDING''\<rparr>"

definition waiting_state :: state where
  "waiting_state = EmptyState\<lparr>st_agents := m_put ''b'' (zero_agent\<lparr>ag_status := ''ACTIVE''\<rparr>) m_empty,
     st_runtimes := m_put ''r'' sample_runtime m_empty, st_invocations := m_put ''i'' sample_invocation m_empty\<rparr>"

lemma sample_fields [simp]:
  "rt_id sample_runtime = ''r''" "rt_agent_id sample_runtime = ''b''" "rt_kind sample_runtime = ''WORKER''"
  "rt_connector sample_runtime = ''WEBHOOK''" "rt_config_reference sample_runtime = ''c''"
  "rt_status sample_runtime = ''OFFLINE''" "rt_max_concurrent sample_runtime = 2"
  "rt_active_invocations sample_runtime = []" "rt_endpoint_id sample_runtime = []"
  "iv_id sample_invocation = ''i''" "iv_target sample_invocation = ''b''" "iv_priority sample_invocation = ''NORMAL''"
  "iv_consumer_mode sample_invocation = ''EITHER''" "iv_status sample_invocation = ''PENDING''"
  "iv_preferred_runtime_id sample_invocation = []" "cf_type hook = ''WEBHOOK''"
  "st_runtimes waiting_state = m_put ''r'' sample_runtime m_empty"
  "st_invocations waiting_state = m_put ''i'' sample_invocation m_empty"
  "st_deliveries waiting_state = m_empty" "presence_expired t sample_runtime = False"
  by (simp_all add: sample_runtime_def sample_invocation_def hook_def waiting_state_def zero_runtime_def
      zero_invocation_def EmptyState_def presence_expired_def)

lemma sample_refresh [simp]: "st_runtimes (RefreshRuntimePresence waiting_state t) = m_put ''r'' sample_runtime m_empty"
  by (simp add: RefreshRuntimePresence_def DAList.impl_of_inject [symmetric] m_entries_map refresh_runtime_eq)

lemma sample_select:
  "selectRuntime root here (m_put ''c'' hook m_empty) (RefreshRuntimePresence waiting_state t) sample_invocation =
   Some (sample_runtime, hook)"
  by (simp add: selectRuntime_def sorted_runtimes_def List.map_filter_def candidate_def passed_over_def
      effectiveRuntimeKind_of_def consumerModeAllowsRuntime_def effectiveConsumerMode_of_def is_interactive_def
      m_read_def m_gets Let_def)

theorem dispatched_attempt_is_admitted_witness:
  "\<exists>p. ValidateTransition undefined waiting_state ''b'' (Invocation_ev InvDeliveryAttempt) ''i''
      (attempt_payload ''d'' sample_runtime) 9 = Inr (InvocationDeliveryAttempted p) \<and> da_attempt p = 1"
proof -
  have rt: "runtimes_typed waiting_state"
    by (auto simp: runtimes_typed_def runtime_typed_def runtime_connectors_def runtime_statuses_def m_gets
        blank_def trim_space_def split: if_splits)
  have dl: "deliveries_typed waiting_state"
    by (auto simp: deliveries_typed_def invocation_typed_def attempts_distinct_def automaticDeliveryAttempts_def
        invocation_statuses_def validConsumerMode_def m_gets m_vals_def blank_def text_eval split: if_splits)
  have none: "\<not> skips (RefreshRuntimePresence waiting_state 5) [] ''i'' sample_invocation 5"
    by (simp add: skips_def deliveryRetryPending_def m_vals_def)
  have zero: "automaticDeliveryAttemptCount (RefreshRuntimePresence waiting_state 5) ''i'' = 0"
    "deliveryAttempt (RefreshRuntimePresence waiting_state 5) ''i'' = 0"
    by (simp_all add: automaticDeliveryAttemptCount_def deliveryAttempt_def m_vals_def)
  have agent: "m_get (st_agents waiting_state) ''b'' = Some (zero_agent\<lparr>ag_status := ''ACTIVE''\<rparr>)"
    by (simp add: waiting_state_def m_gets)
  show ?thesis
    using dispatched_attempt_is_admitted [OF rt dl _ none _ sample_select [of root here], where later = 9 and
        delivery_id = "''d''" and cr = undefined] zero agent
    by (simp add: m_gets blank_def text_eval) (metis (no_types, lifting))
qed

theorem selection_never_guesses_witness:
  "rt_agent_id sample_runtime = iv_target sample_invocation \<and>
   consumerAllowsKind (iv_consumer_mode sample_invocation) (effectiveRuntimeKind_of sample_runtime)"
  using selection_never_guesses [OF sample_select] by blast

theorem backoff_is_bounded_witness:
  "deliveryBackoff 1 = Inr (2 * second) \<and> deliveryBackoff 9 = Inr (5 * minute) \<and>
   (\<exists>b. deliveryBackoff 9 = Inr b \<and> b \<le> 5 * minute)"
  using backoff_is_bounded [of 9] by (auto simp: deliveryBackoff_def Let_def)

text \<open>A daemon whose world is a counter of submissions, on a host that signs for the agent \<open>b\<close> only.\<close>

definition sample_host :: host where
  "sample_host = \<lparr>ho_windows = False, ho_stat = (\<lambda>_. None), ho_is_abs = (\<lambda>_. True), ho_parse_url = (\<lambda>_. None),
     ho_loopback_ip = (\<lambda>_. False), ho_environ = [''AGENT_COMMS_AGENT_ID=someone''],
     ho_read_config = (\<lambda>_. Inr m_empty)\<rparr>"

definition sample_dispatcher :: "nat dispatcher" where
  "sample_dispatcher = \<lparr>dp_config_path = [], dp_project_root = ''/p'', dp_host_id = ''h'', dp_host = (\<lambda>_. sample_host),
     dp_now = (\<lambda>_. 100), dp_uuid = (\<lambda>w. (w, ''u'')), dp_marshal = (\<lambda>_. Inr ''{}''),
     dp_submit = (\<lambda>k actor typ eid p w. if actor = ''b'' then (w + 1, None) else (w, Some (Plain (Err ''no credential'')))),
     dp_perform = (\<lambda>_ w. (w, None)), dp_notify = (\<lambda>_ _ _ _ _ w. (w, Inr []))\<rparr>"

definition lost_state :: state where
  "lost_state = waiting_state
     \<lparr>st_invocations := m_put ''x'' (sample_invocation\<lparr>iv_id := ''x'', iv_target := ''away''\<rparr>)
        (m_put ''i'' sample_invocation m_empty),
      st_deliveries := m_put ''d'' (zero_delivery\<lparr>dl_id := ''d'', dl_invocation_id := ''x'', dl_attempt := 1,
        dl_status := ''ATTEMPTED'', dl_attempt_until := Some 90\<rparr>) m_empty\<rparr>"

theorem lost_reservation_blocks_dispatch_witness:
  "\<exists>e. Dispatch sample_dispatcher (m_put ''c'' hook m_empty) ''p'' lost_state 0 =
     (fst (expireAttempts sample_dispatcher ''p'' lost_state 0), m_put ''c'' hook m_empty, Some e)"
proof -
  let ?d = "zero_delivery\<lparr>dl_id := ''d'', dl_invocation_id := ''x'', dl_attempt := 1,
        dl_status := ''ATTEMPTED'', dl_attempt_until := Some 90\<rparr>"
  have d: "m_get (st_deliveries lost_state) ''d'' = Some ?d" by (simp add: lost_state_def m_gets)
  have lapsed: "lapsed lost_state (dp_now sample_dispatcher 0) ?d" "1 \<le> dl_attempt ?d"
    by (simp_all add: lapsed_def sample_dispatcher_def lost_state_def m_has_def m_gets)
  have reload: "reloadConfigs sample_dispatcher (m_put ''c'' hook m_empty) 0 = Inr (m_put ''c'' hook m_empty)"
    by (simp add: reloadConfigs_def sample_dispatcher_def text_eval)
  have refused: "\<exists>e w'. dp_submit sample_dispatcher ''p''
      (iv_target (m_read zero_invocation (st_invocations lost_state) (dl_invocation_id ?d))) failed_type
      (dl_invocation_id ?d) p w = (w', Some e)" for p w
    by (simp add: sample_dispatcher_def lost_state_def m_read_def m_gets)
  from lost_reservation_blocks_dispatch [OF d lapsed reload refused] show ?thesis by blast
qed

theorem process_identity_is_genuine_witness:
  "\<exists>vars. launchConnector sample_dispatcher (zero_config\<lparr>cf_type := ''LOCAL_PROCESS'', cf_executable := ''/bin/x''\<rparr>)
      \<lparr>en_project = ''p'', en_invocation = sample_invocation, en_runtime = sample_runtime\<rparr> 0 =
      Inr (RunProcess ''/bin/x'' [] [] vars ''{}'' (30 * second)) \<and>
    env_value vars ''AGENT_COMMS_AGENT_ID'' = Some ''b''"
proof -
  let ?config = "zero_config\<lparr>cf_type := ''LOCAL_PROCESS'', cf_executable := ''/bin/x''\<rparr>"
  let ?env = "\<lparr>en_project = ''p'', en_invocation = sample_invocation, en_runtime = sample_runtime\<rparr>"
  obtain vars where l: "launchConnector sample_dispatcher ?config ?env 0 =
      Inr (RunProcess ''/bin/x'' [] [] vars ''{}'' (30 * second))"
    by (simp add: launchConnector_def sample_dispatcher_def zero_config_def effective_timeout_def)
  from process_identity_is_genuine [OF l, of "''AGENT_COMMS_AGENT_ID''"] l show ?thesis
    by (auto simp: envelope_value_def)
qed

end
