(* ===== verification/Selection.thy ===== *)
theory Selection
  imports Typed_State
begin

text \<open>
  The pure part of \<open>internal/service/service.go\<close>: which invocation an agent should work on next, and how
  the delivery of one went. Both are loops over Go maps, here over their entries in any order.
\<close>

subsection \<open>The next invocation\<close>

definition runtimeLoad :: "state \<Rightarrow> string \<Rightarrow> nat" where
  "runtimeLoad st runtimeID =
     length (List.filter (\<lambda>i. iv_runtime_id i = runtimeID \<and>
        (iv_status i = ''CLAIMED'' \<or> iv_status i = ''RUNNING'' \<or> iv_status i = ''WAITING''))
       (m_vals (st_invocations st)))"

definition priorityRank :: "string \<Rightarrow> nat" where
  "priorityRank p =
     (if p = ''URGENT'' then 4 else if p = ''HIGH'' then 3 else if p = ''NORMAL'' then 2
      else if p = ''LOW'' then 1 else 0)"

text \<open>The guards of the loop's body; \<open>found\<close> is the selected runtime, if the caller named one.\<close>

definition wants :: "string \<Rightarrow> string \<Rightarrow> runtime option \<Rightarrow> time \<Rightarrow> invocation \<Rightarrow> bool" where
  "wants actor runtimeID found now i =
     (let mode = (if iv_consumer_mode i = [] then ConsumerModeEither else iv_consumer_mode i) in
      iv_target i = actor \<and> (iv_status i = ''PENDING'' \<or> iv_status i = ''NOTIFIED'') \<and>
      (case found of
         None \<Rightarrow> mode = ConsumerModeEither \<and> iv_preferred_runtime_id i = []
       | Some r \<Rightarrow>
           let kind = (if rt_kind r = [] then RuntimeKindWorker else rt_kind r) in
           \<not> (mode = ConsumerModeInteractiveOnly \<and> kind \<noteq> RuntimeKindInteractive) \<and>
           \<not> (mode = ConsumerModeWorkerOnly \<and> kind \<noteq> RuntimeKindWorker) \<and>
           \<not> (iv_preferred_runtime_id i \<noteq> [] \<and> iv_preferred_runtime_id i \<noteq> runtimeID)) \<and>
      \<not> (case iv_deadline i of None \<Rightarrow> False | Some d \<Rightarrow> \<not> after d now))"

definition beats :: "invocation \<Rightarrow> invocation \<Rightarrow> bool" where
  "beats i j =
     (priorityRank (iv_priority i) > priorityRank (iv_priority j) \<or>
      (priorityRank (iv_priority i) = priorityRank (iv_priority j) \<and> before (iv_created_at i) (iv_created_at j)))"

definition pick :: "invocation \<Rightarrow> invocation option \<Rightarrow> invocation option" where
  "pick i selected =
     (case selected of None \<Rightarrow> Some i | Some j \<Rightarrow> if beats i j then Some i else Some j)"

definition best_of :: "string \<Rightarrow> string \<Rightarrow> runtime option \<Rightarrow> time \<Rightarrow> state \<Rightarrow> invocation option" where
  "best_of actor runtimeID found now st =
     fold (\<lambda>i selected. if wants actor runtimeID found now i then pick i selected else selected)
       (m_vals (st_invocations st)) None"

definition SelectNextInvocation :: "state \<Rightarrow> string \<Rightarrow> string \<Rightarrow> time \<Rightarrow> invocation option" where
  "SelectNextInvocation st actor runtimeID now =
     (if runtimeID = [] then best_of actor runtimeID None now st
      else case m_get (st_runtimes st) runtimeID of
          None \<Rightarrow> None
        | Some r \<Rightarrow>
            if rt_agent_id r \<noteq> actor \<or> rt_status r \<noteq> ''ONLINE'' \<or>
               int (runtimeLoad st runtimeID) \<ge> rt_max_concurrent r
            then None
            else best_of actor runtimeID (Some r) now st)"

subsection \<open>How a delivery went\<close>

record delivery_summary =
  su_outcome :: string
  su_invocation :: string
  su_delivery_id :: string
  su_runtime_id :: string
  su_transport :: string
  su_evidence :: "delivery_evidence list"
  su_error :: string

definition zero_summary :: "string \<Rightarrow> delivery_summary" where
  "zero_summary invocationID =
     \<lparr>su_outcome = [], su_invocation = invocationID, su_delivery_id = [], su_runtime_id = [],
      su_transport = [], su_evidence = [], su_error = []\<rparr>"

definition latest_delivery :: "state \<Rightarrow> string \<Rightarrow> string \<Rightarrow> delivery option" where
  "latest_delivery st invocationID deliveryID =
     fold (\<lambda>d selected.
         if dl_invocation_id d \<noteq> invocationID \<or> (deliveryID \<noteq> [] \<and> dl_id d \<noteq> deliveryID) then selected
         else case selected of None \<Rightarrow> Some d
            | Some s \<Rightarrow> if dl_attempt d > dl_attempt s then Some d else Some s)
       (m_vals (st_deliveries st)) None"

definition eligible_interactive :: "state \<Rightarrow> string \<Rightarrow> string \<Rightarrow> nat" where
  "eligible_interactive st target localHostID =
     length (List.filter (\<lambda>r. rt_agent_id r = target \<and> rt_kind r = RuntimeKindInteractive \<and>
        rt_connector r = ''INTERACTIVE'' \<and> rt_status r = ''ONLINE'' \<and> localHostID \<noteq> [] \<and>
        rt_host_id r = localHostID) (m_vals (st_runtimes st)))"

definition undelivered_summary :: "state \<Rightarrow> invocation \<Rightarrow> string \<Rightarrow> string \<Rightarrow> delivery_summary" where
  "undelivered_summary st i invocationID localHostID =
     (let mode = (if iv_consumer_mode i = [] then ConsumerModeEither else iv_consumer_mode i) in
      if mode \<noteq> ConsumerModeInteractiveOnly
      then (zero_summary invocationID)\<lparr>su_outcome := ''PENDING_CONSUMER''\<rparr>
      else if iv_preferred_runtime_id i = [] \<and> eligible_interactive st (iv_target i) localHostID > 1
      then (zero_summary invocationID)\<lparr>su_outcome := ''AMBIGUOUS'',
        su_error := ''multiple local interactive runtimes are eligible; select a preferred runtime''\<rparr>
      else (zero_summary invocationID)\<lparr>su_outcome := ''UNAVAILABLE'',
        su_error := ''no compatible local interactive delivery completed''\<rparr>)"

definition delivered_summary :: "delivery \<Rightarrow> string \<Rightarrow> delivery_summary" where
  "delivered_summary d invocationID =
     (let base = \<lparr>su_outcome = [], su_invocation = invocationID, su_delivery_id = dl_id d,
            su_runtime_id = dl_runtime_id d, su_transport = dl_transport d, su_evidence = dl_evidence d,
            su_error = dl_error d\<rparr>
      in if dl_status d = ''SUCCEEDED'' then base\<lparr>su_outcome := ''SUCCEEDED''\<rparr>
         else if dl_status d = ''NOTIFIED''
         then base\<lparr>su_outcome := ''LEGACY_UNVERIFIED'',
                su_error := (if dl_error d = [] then ''legacy notification has no transport evidence''
                             else dl_error d)\<rparr>
         else if dl_status d = ''ATTEMPTED'' then base\<lparr>su_outcome := ''ATTEMPTED''\<rparr>
         else base\<lparr>su_outcome := ''UNAVAILABLE''\<rparr>)"

definition SummarizeInvocationDelivery ::
  "state \<Rightarrow> string \<Rightarrow> string \<Rightarrow> string \<Rightarrow> delivery_summary option" where
  "SummarizeInvocationDelivery st invocationID deliveryID localHostID =
     (case m_get (st_invocations st) invocationID of
        None \<Rightarrow> None
      | Some i \<Rightarrow>
          (case latest_delivery st invocationID deliveryID of
             None \<Rightarrow> Some (undelivered_summary st i invocationID localHostID)
           | Some d \<Rightarrow> Some (delivered_summary d invocationID)))"

subsection \<open>The choice is right\<close>

lemma best_fold:
  assumes "fold (\<lambda>i selected. if w i then pick i selected else selected) xs selected = result"
    and "\<forall>s. selected = Some s \<longrightarrow> w s"
  shows "(result = None \<longleftrightarrow> selected = None \<and> (\<forall>i\<in>set xs. \<not> w i)) \<and>
    (\<forall>b. result = Some b \<longrightarrow> w b \<and> (b \<in> set xs \<or> selected = Some b) \<and>
       (\<forall>i\<in>set xs. w i \<longrightarrow> \<not> beats i b) \<and> (\<forall>s. selected = Some s \<longrightarrow> \<not> beats s b))"
  using assms
proof (induction xs arbitrary: selected)
  case Nil
  then show ?case by (auto simp: beats_def)
next
  case (Cons x xs)
  let ?next = "if w x then pick x selected else selected"
  from Cons.prems have run: "fold (\<lambda>i selected. if w i then pick i selected else selected) xs ?next = result" by simp
  have next_ok: "\<forall>s. ?next = Some s \<longrightarrow> w s"
    using Cons.prems(2) by (auto simp: pick_def split: option.splits if_splits)
  note ih = Cons.IH [OF run next_ok]
  have here: "?next = None \<longleftrightarrow> selected = None \<and> \<not> w x"
    by (auto simp: pick_def split: option.splits)
  have keep: "\<forall>s. ?next = Some s \<longrightarrow> (s = x \<and> w x \<or> selected = Some s) \<and> (w x \<longrightarrow> \<not> beats x s) \<and>
      (\<forall>t. selected = Some t \<longrightarrow> \<not> beats t s)"
    by (auto simp: pick_def beats_def split: option.splits if_splits)
  have trans: "\<not> beats i s \<Longrightarrow> \<not> beats s b \<Longrightarrow> \<not> beats i b" for i s b
    by (auto simp: beats_def)
  show ?case
  proof (cases result)
    case None
    with ih here show ?thesis by auto
  next
    case (Some b)
    with ih have b: "w b" "b \<in> set xs \<or> ?next = Some b" "\<forall>i\<in>set xs. w i \<longrightarrow> \<not> beats i b"
      "\<forall>s. ?next = Some s \<longrightarrow> \<not> beats s b" by auto
    have "b \<in> set (x # xs) \<or> selected = Some b" using b(2) keep by auto
    moreover have "w x \<longrightarrow> \<not> beats x b" "\<forall>t. selected = Some t \<longrightarrow> \<not> beats t b"
      using b(4) keep here trans by (metis not_None_eq)+
    ultimately show ?thesis using Some b(1,3) by auto
  qed
qed

lemma best_of_facts:
  "(best_of actor k found now st = None \<longleftrightarrow> (\<forall>i\<in>set (m_vals (st_invocations st)). \<not> wants actor k found now i)) \<and>
   (\<forall>b. best_of actor k found now st = Some b \<longrightarrow> wants actor k found now b \<and>
      b \<in> set (m_vals (st_invocations st)) \<and>
      (\<forall>i\<in>set (m_vals (st_invocations st)). wants actor k found now i \<longrightarrow> \<not> beats i b))"
  using best_fold [OF refl, of None "wants actor k found now" "m_vals (st_invocations st)"]
  unfolding best_of_def [symmetric] by simp

lemma best_of_None: "best_of actor k found now st = None \<longleftrightarrow>
    (\<forall>j i. m_get (st_invocations st) j = Some i \<longrightarrow> \<not> wants actor k found now i)"
  using best_of_facts [of actor k found now st] unfolding Ball_def m_vals_set by blast

lemma best_of_Some:
  assumes "best_of actor k found now st = Some b"
  shows "\<exists>j. m_get (st_invocations st) j = Some b" "wants actor k found now b"
    "\<And>j i. m_get (st_invocations st) j = Some i \<Longrightarrow> wants actor k found now i \<Longrightarrow> \<not> beats i b"
  using best_of_facts [of actor k found now st] assms unfolding Ball_def m_vals_set by blast+

lemma loads_agree: "runtimeLoad st k = runtimeInvocationLoad st k"
  by (simp add: runtimeLoad_def runtimeInvocationLoad_def holds_runtime_def [abs_def])

lemma refreshed_online:
  assumes "m_get (st_runtimes (RefreshRuntimePresence st t)) k = Some r" "rt_status r = ''ONLINE''"
  shows "m_get (st_runtimes st) k = Some r"
  using assms by (auto simp: RefreshRuntimePresence_def refresh_runtime_def split: if_splits)

lemma selected:
  assumes "SelectNextInvocation st actor k now = Some i" "k \<noteq> []"
  obtains r where "m_get (st_runtimes st) k = Some r" "rt_agent_id r = actor" "rt_status r = ''ONLINE''"
    "int (runtimeLoad st k) < rt_max_concurrent r" "best_of actor k (Some r) now st = Some i"
  using assms by (auto simp: SelectNextInvocation_def split: option.splits if_splits)

lemma allows_mode:
  assumes "validConsumerMode (iv_consumer_mode i)" "rt_kind r \<in> {RuntimeKindWorker, RuntimeKindInteractive}"
  shows "consumerAllowsKind (effectiveInvocationConsumer (iv_consumer_mode i)) (runtimeKind (rt_kind r) (rt_connector r)) \<longleftrightarrow>
    \<not> (iv_consumer_mode i = ConsumerModeInteractiveOnly \<and> rt_kind r \<noteq> RuntimeKindInteractive) \<and>
    \<not> (iv_consumer_mode i = ConsumerModeWorkerOnly \<and> rt_kind r \<noteq> RuntimeKindWorker)"
proof -
  from assms(2) have "runtimeKind (rt_kind r) (rt_connector r) = rt_kind r" "rt_kind r \<noteq> []"
    by (auto simp: runtimeKind_def)
  moreover from assms(1) have "iv_consumer_mode i \<noteq> []" by (auto simp: validConsumerMode_def)
  ultimately show ?thesis
    using assms by (auto simp: validConsumerMode_def consumerAllowsKind_def effectiveInvocationConsumer_def Let_def)
qed

lemma wants_iff:
  assumes "validConsumerMode (iv_consumer_mode i)" "rt_kind r \<in> {RuntimeKindWorker, RuntimeKindInteractive}"
  shows "wants actor k (Some r) now i \<longleftrightarrow>
    iv_target i = actor \<and> open_for_delivery i \<and>
    consumerAllowsKind (effectiveInvocationConsumer (iv_consumer_mode i)) (runtimeKind (rt_kind r) (rt_connector r)) \<and>
    (iv_preferred_runtime_id i \<noteq> [] \<longrightarrow> iv_preferred_runtime_id i = k) \<and>
    (\<forall>d. iv_deadline i = Some d \<longrightarrow> now < d)"
proof -
  from assms have "iv_consumer_mode i \<noteq> []" "rt_kind r \<noteq> []" by (auto simp: validConsumerMode_def)
  then show ?thesis
    unfolding allows_mode [OF assms]
    by (auto simp: wants_def open_for_delivery_def Let_def split: option.splits)
qed

lemma claim_transition:
  assumes "ValidateTransition cr st actor (Invocation_ev InvClaim) j (InvocationClaimed p) now = Inr q"
  shows "validate_claim st actor j (m_get (st_invocations st) j) p now = Inr q"
  using assms by (auto simp: ValidateTransition_def validate_block_def validate_invocation_def)

lemma claimable_wanted:
  assumes "runtimes_typed st" "deliveries_typed st" "ic_runtime_id p = k"
    and "ValidateTransition cr st actor (Invocation_ev InvClaim) j (InvocationClaimed p) now = Inr q"
  obtains i r where "m_get (st_invocations st) j = Some i" "m_get (st_runtimes st) k = Some r" "rt_agent_id r = actor"
    "int (runtimeLoad st k) < rt_max_concurrent r" "wants actor k (Some r) now i"
proof -
  from inv_claim_Inr [OF claim_transition [OF assms(4)]] obtain i r and p' :: invocation_claimed where c:
    "m_get (st_invocations st) j = Some i" "ic_runtime_id p' = k" "m_get (st_runtimes st) (ic_runtime_id p') = Some r"
    "actor = iv_target i" "rt_agent_id r = iv_target i"
    "int (runtimeInvocationLoad st (ic_runtime_id p')) < rt_max_concurrent r" "open_for_delivery i"
    "consumerAllowsKind (effectiveInvocationConsumer (iv_consumer_mode i)) (runtimeKind (rt_kind r) (rt_connector r))"
    "iv_preferred_runtime_id i \<noteq> [] \<longrightarrow> ic_runtime_id p' = iv_preferred_runtime_id i"
    "\<forall>d. iv_deadline i = Some d \<longrightarrow> now < d"
    unfolding assms(3) by blast
  note i = c(1,3-) [unfolded c(2)]
  have "runtime_typed k r" "invocation_typed j i"
    using assms(1,2) i(1,2) by (simp_all add: runtimes_typed_def deliveries_typed_def)
  then have "validConsumerMode (iv_consumer_mode i)" "rt_kind r \<in> {RuntimeKindWorker, RuntimeKindInteractive}"
    unfolding runtime_typed_def invocation_typed_def by blast+
  with i have "wants actor k (Some r) now i" by (auto simp: wants_iff)
  with i that show thesis by (simp add: loads_agree)
qed

lemma unbeaten:
  assumes "\<not> beats other i" "iv_priority i \<in> {''LOW'', ''NORMAL'', ''HIGH'', ''URGENT''}"
    "iv_priority other \<in> {''LOW'', ''NORMAL'', ''HIGH'', ''URGENT''}"
  shows "(iv_priority i, iv_priority other) \<in> {(''URGENT'', ''HIGH''), (''URGENT'', ''NORMAL''), (''URGENT'', ''LOW''),
      (''HIGH'', ''NORMAL''), (''HIGH'', ''LOW''), (''NORMAL'', ''LOW'')} \<or>
    iv_priority i = iv_priority other \<and> iv_created_at i \<le> iv_created_at other"
  using assms(2,3) assms(1) unfolding insert_iff empty_iff
  by (elim disjE FalseE; simp add: beats_def priorityRank_def)

text \<open>
  C26. What \<open>invocation next\<close> offers a runtime can be claimed, and nothing better was left. If the selection
  over a refreshed copy of the authority's state returns an invocation, then it is on record, the
  claim that the agent submits for it through this runtime is accepted by the authority on that state, and
  of all the invocations whose claim through this runtime the authority would accept none goes before it:
  URGENT goes before HIGH, HIGH before NORMAL, NORMAL before LOW, and of two with the same priority the
  one created earlier. If the selection returns none for a runtime that is online, the authority
  would accept no claim through it.
\<close>

theorem next_invocation_is_best_and_claimable:
  assumes "runtimes_typed st" "deliveries_typed st" "\<not> blank k"
    and "m_get (st_agents st) actor = Some a" "ag_status a = ''ACTIVE''"
    and "SelectNextInvocation (RefreshRuntimePresence st t) actor k now = result"
  shows "case result of
      Some i \<Rightarrow> m_get (st_invocations st) (iv_id i) = Some i \<and>
        (\<exists>p. ValidateTransition cr st actor (Invocation_ev InvClaim) (iv_id i)
          (InvocationClaimed \<lparr>ic_runtime_id = k, ic_claim_until = 0\<rparr>) now = Inr (InvocationClaimed p)) \<and>
        (\<forall>j other p q. m_get (st_invocations st) j = Some other \<and> ic_runtime_id p = k \<and>
           ValidateTransition cr st actor (Invocation_ev InvClaim) j (InvocationClaimed p) now = Inr q \<longrightarrow>
           (iv_priority i, iv_priority other) \<in> {(''URGENT'', ''HIGH''), (''URGENT'', ''NORMAL''), (''URGENT'', ''LOW''),
             (''HIGH'', ''NORMAL''), (''HIGH'', ''LOW''), (''NORMAL'', ''LOW'')} \<or>
           iv_priority i = iv_priority other \<and> iv_created_at i \<le> iv_created_at other)
    | None \<Rightarrow> \<forall>r j p q. m_get (st_runtimes (RefreshRuntimePresence st t)) k = Some r \<and> rt_status r = ''ONLINE'' \<and>
        ic_runtime_id p = k \<longrightarrow>
        ValidateTransition cr st actor (Invocation_ev InvClaim) j (InvocationClaimed p) now \<noteq> Inr q"
proof -
  let ?st = "RefreshRuntimePresence st t"
  have k: "k \<noteq> []" using assms(3) by (auto simp: blank_def trim_space_def)
  have same: "st_invocations ?st = st_invocations st" "runtimeLoad ?st k = runtimeLoad st k"
    by (simp_all add: RefreshRuntimePresence_def runtimeLoad_def)
  note wanted = claimable_wanted [OF assms(1,2)]
  show ?thesis
  proof (cases result)
    case None
    have "ValidateTransition cr st actor (Invocation_ev InvClaim) j (InvocationClaimed p) now \<noteq> Inr q"
      if r: "m_get (st_runtimes ?st) k = Some r" "rt_status r = ''ONLINE''" "ic_runtime_id p = k" for r j p q
    proof
      assume "ValidateTransition cr st actor (Invocation_ev InvClaim) j (InvocationClaimed p) now = Inr q"
      from wanted [OF r(3) this] obtain i r' where i: "m_get (st_invocations st) j = Some i"
        "m_get (st_runtimes st) k = Some r'" "rt_agent_id r' = actor"
        "int (runtimeLoad st k) < rt_max_concurrent r'" "wants actor k (Some r') now i" .
      with refreshed_online [OF r(1,2)] have "r' = r" by simp
      with i r(1,2) assms(6) None k same show False by (auto simp: SelectNextInvocation_def best_of_None)
    qed
    then show ?thesis unfolding None option.case by blast
  next
    case (Some i)
    with assms(6) k obtain r where r: "m_get (st_runtimes ?st) k = Some r" "rt_agent_id r = actor"
      "rt_status r = ''ONLINE''" "int (runtimeLoad st k) < rt_max_concurrent r"
      "best_of actor k (Some r) now ?st = Some i"
      by (auto elim: selected simp: same)
    have rt: "m_get (st_runtimes st) k = Some r" using r(1,3) by (rule refreshed_online)
    from best_of_Some [OF r(5)] obtain j where j: "m_get (st_invocations st) j = Some i"
      "wants actor k (Some r) now i"
      "\<And>l other. m_get (st_invocations st) l = Some other \<Longrightarrow> wants actor k (Some r) now other \<Longrightarrow> \<not> beats other i"
      by (auto simp: same)
    have ty: "runtime_typed k r" "invocation_typed l y" if "m_get (st_invocations st) l = Some y" for l y
      using assms(1,2) rt that by (simp_all add: runtimes_typed_def deliveries_typed_def)
    have kinds: "validConsumerMode (iv_consumer_mode i)" "rt_kind r \<in> {RuntimeKindWorker, RuntimeKindInteractive}"
      using ty [OF j(1)] unfolding runtime_typed_def invocation_typed_def by blast+
    note w = j(2) [unfolded wants_iff [OF kinds]]
    have id: "iv_id i = j" "\<not> blank actor" using ty(2) [OF j(1)] w by (auto simp: invocation_typed_def)
    have health: "rt_health r \<noteq> ''UNKNOWN''" using ty(1) [OF j(1)] r(3) by (auto simp: runtime_typed_def)
    have actor: "actor \<noteq> []" using id(2) by (auto simp: blank_def trim_space_def)
    have "\<exists>p. validate_claim st actor j (Some i) \<lparr>ic_runtime_id = k, ic_claim_until = 0\<rparr> now =
        Inr (InvocationClaimed p)"
      using rt r w health assms(3) by (auto simp: validate_claim_def loads_agree split: option.splits)
    then have "\<exists>p. ValidateTransition cr st actor (Invocation_ev InvClaim) (iv_id i)
          (InvocationClaimed \<lparr>ic_runtime_id = k, ic_claim_until = 0\<rparr>) now = Inr (InvocationClaimed p)"
      using assms(4,5) id(1) actor j(1)
      by (simp add: ValidateTransition_def check_standing_def active_def elevated_def validate_block_def
          validate_invocation_def)
    moreover have "(iv_priority i, iv_priority other) \<in> {(''URGENT'', ''HIGH''), (''URGENT'', ''NORMAL''), (''URGENT'', ''LOW''),
             (''HIGH'', ''NORMAL''), (''HIGH'', ''LOW''), (''NORMAL'', ''LOW'')} \<or>
           iv_priority i = iv_priority other \<and> iv_created_at i \<le> iv_created_at other"
      if o: "m_get (st_invocations st) l = Some other" "ic_runtime_id p = k"
        "ValidateTransition cr st actor (Invocation_ev InvClaim) l (InvocationClaimed p) now = Inr q" for l other p q
    proof (rule unbeaten)
      from wanted [OF o(2,3)] o(1) rt have "wants actor k (Some r) now other" by auto
      with j(3) o(1) show "\<not> beats other i" by blast
    qed (use ty(2) [OF j(1)] ty(2) [OF o(1)] in \<open>simp_all add: invocation_typed_def\<close>)
    ultimately show ?thesis unfolding Some option.case id(1) using j(1) by blast
  qed
qed

end
