(* ===== verification/Daemon.thy ===== *)
theory Daemon
  imports Connectors Mirror Selection "HOL-Library.Signed_Division"
begin

text \<open>
  \<open>internal/daemon/daemon.go\<close>: the process between a client and the authority. It forwards signed
  commands, keeps the verified cache in step, serves reads from it, and drives the dispatcher of
  theory Connectors.

  A \<open>world\<close> holds what a request can change: the authority behind the \<open>authorityClient\<close> interface,
  the cache, the drafts, the connector configurations in use, and, as \<open>'o\<close>, whatever is outside
  (processes, terminals, clocks). A \<open>daemon\<close> is the struct: the two methods of the interface, the key store
  and clock it reads, and its dispatcher, if it has one. A handler is modelled after the request's
  JSON has been decoded; requests are served one after the other. So a request never finds a
  synchronisation under way; the code would have it wait for that one instead of starting its own, and then
  the cache may miss what was committed after the last page of it was read. The saves of drafts, too, are
  modelled uninterrupted here; theory Drafts has them overlap.
\<close>

subsection \<open>The daemon and its world\<close>

record ('a, 'o) world =
  wo_authority :: 'a
  wo_cache :: cache
  wo_drafts :: "draft list"
  wo_configs :: configs
  wo_outside :: 'o

record ('a, 'o) daemon =
  de_crypto :: crypto
  de_server_key :: string
  de_personal :: bool
  de_command :: "command \<Rightarrow> ('a, 'o) world \<Rightarrow> ('a, 'o) world \<times> (fault + event \<times> receipt)"
  de_events :: "('a, 'o) world \<Rightarrow> string \<Rightarrow> page_request \<Rightarrow> fault + event_page"
  de_clock :: "('a, 'o) world \<Rightarrow> time"
  de_uuid :: "('a, 'o) world \<Rightarrow> ('a, 'o) world \<times> string"
  de_credential :: "('a, 'o) world \<Rightarrow> string \<Rightarrow> string \<Rightarrow> string result"
  de_dispatcher :: "('a, 'o) world dispatcher option"

abbreviation syncPageSize :: int where "syncPageSize \<equiv> MaxPageSize"
abbreviation MaxInvocationListen :: duration where "MaxInvocationListen \<equiv> 10 * second"
abbreviation maxRuntimeListeners :: nat where "maxRuntimeListeners \<equiv> 128"

subsection \<open>Errors on the wire\<close>

record wire_error =
  we_code :: error_code
  we_message :: string
  we_retry_after_ms :: int

text \<open>\<open>err.Error()\<close>, and the control error that \<open>errors.As\<close> finds in the chain of an error.\<close>

primrec fault_text :: "fault \<Rightarrow> string" where
  "fault_text (Control e) = ce_message e"
| "fault_text (Plain e) = err_text e"
| "fault_text (Wrapped message x) = message @ fault_text x"

primrec control_in :: "fault \<Rightarrow> cp_error option" where
  "control_in (Control e) = Some e"
| "control_in (Plain e) = None"
| "control_in (Wrapped message x) = control_in x"

definition control_of :: "fault \<Rightarrow> cp_error" where
  "control_of x =
     (case control_in x of Some e \<Rightarrow> e | None \<Rightarrow> control_error CodeUnavailable (fault_text x))"

definition http_status :: "error_code \<Rightarrow> nat" where
  "http_status code =
     (case code of CodeAuthorization \<Rightarrow> 403 | CodeConflict \<Rightarrow> 409 | CodeStalePrecondition \<Rightarrow> 409
      | CodeRateLimited \<Rightarrow> 429 | CodeOffline \<Rightarrow> 503 | CodeUnavailable \<Rightarrow> 503
      | CodeValidation \<Rightarrow> 400 | CodeIntegrity \<Rightarrow> 400)"

definition writeControlError :: "fault \<Rightarrow> nat \<times> wire_error" where
  "writeControlError x =
     (let e = control_of x in
      (http_status (ce_code e), \<lparr>we_code = ce_code e, we_message = ce_message e,
         we_retry_after_ms = ce_retry_after e sdiv 1000000\<rparr>))"

definition metadata :: "('a, 'o) daemon \<Rightarrow> nat \<Rightarrow> result_metadata" where
  "metadata d sequence =
     (if de_personal d
      then \<lparr>md_consistency = ''PERSONAL_AUTHORITATIVE'', md_server_sequence = sequence,
            md_cache_sequence = sequence, md_connectivity = ''LOCAL''\<rparr>
      else \<lparr>md_consistency = ''AUTHORITATIVE'', md_server_sequence = sequence,
            md_cache_sequence = sequence, md_connectivity = ''ONLINE''\<rparr>)"

subsection \<open>Events of the daemon's own\<close>

definition apply_to_cache ::
  "('a, 'o) daemon \<Rightarrow> event \<Rightarrow> receipt \<Rightarrow> ('a, 'o) world \<Rightarrow> fault + ('a, 'o) world" where
  "apply_to_cache d e r w =
     and_then (Apply (de_crypto d) (de_server_key d) (de_clock d w) (wo_cache w) e r)
       (\<lambda>c. Inr (w\<lparr>wo_cache := c\<rparr>))"

definition submitConnectorCommand ::
  "('a, 'o) daemon \<Rightarrow> string \<Rightarrow> string \<Rightarrow> string \<Rightarrow> string \<Rightarrow> payload \<Rightarrow> ('a, 'o) world \<Rightarrow>
   ('a, 'o) world \<times> fault option" where
  "submitConnectorCommand d projectID actor eventType entityID payload w =
     (case EncodePayload (de_crypto d) eventType payload of Inl e \<Rightarrow> (w, Some (Plain e))
      | Inr raw \<Rightarrow>
     (case de_credential d w projectID actor of
        Inl e \<Rightarrow> (w, Some (Wrapped (''resolve connector credential for '' @ actor @ '': '') (Plain e)))
      | Inr private_key \<Rightarrow>
     (case de_uuid d w of (w1, uuid) \<Rightarrow>
     (case command_sign (de_crypto d) private_key
          \<lparr>cm_project_id = projectID, cm_actor = actor, cm_type = eventType, cm_entity_id = entityID,
           cm_payload = raw, cm_idempotency_key = uuid, cm_issued_at = de_clock d w1,
           cm_expected_sequence = 0, cm_public_key = [], cm_signature = []\<rparr> of
        Inl e \<Rightarrow> (w1, Some (Plain e))
      | Inr command \<Rightarrow>
     (case de_command d command w1 of
        (w2, Inl x) \<Rightarrow> (w2, Some x)
      | (w2, Inr (event, receipt)) \<Rightarrow>
     (case apply_to_cache d event receipt w2 of
        Inl x \<Rightarrow> (w2, Some (Wrapped ''apply connector event to local cache: '' x))
      | Inr w3 \<Rightarrow> (w3, None)))))))"

text \<open>The dispatcher \<open>Run\<close> builds: it submits through the daemon.\<close>

definition dispatcher_of :: "('a, 'o) daemon \<Rightarrow> ('a, 'o) world dispatcher \<Rightarrow> ('a, 'o) world dispatcher" where
  "dispatcher_of d dp = dp\<lparr>dp_submit := submitConnectorCommand d\<rparr>"

definition run_dispatch ::
  "('a, 'o) daemon \<Rightarrow> ('a, 'o) world dispatcher \<Rightarrow> string \<Rightarrow> state \<Rightarrow> ('a, 'o) world \<Rightarrow> ('a, 'o) world \<times> fault option" where
  "run_dispatch d dp k st w =
     (case Dispatch (dispatcher_of d dp) (wo_configs w) k st w of
        (w', configs, e) \<Rightarrow> (w'\<lparr>wo_configs := configs\<rparr>, e))"

subsection \<open>Synchronising the cache\<close>

fun apply_items ::
  "('a, 'o) daemon \<Rightarrow> (event \<times> receipt) list \<Rightarrow> ('a, 'o) world \<Rightarrow> ('a, 'o) world \<times> fault option" where
  "apply_items d [] w = (w, None)"
| "apply_items d ((e, r) # rest) w =
     (case apply_to_cache d e r w of Inl x \<Rightarrow> (w, Some x) | Inr w' \<Rightarrow> apply_items d rest w')"

text \<open>What follows the last page.\<close>

definition after_sync :: "('a, 'o) daemon \<Rightarrow> string \<Rightarrow> ('a, 'o) world \<Rightarrow> ('a, 'o) world \<times> fault option" where
  "after_sync d k w =
     (case de_dispatcher d of None \<Rightarrow> (w, None)
      | Some dp \<Rightarrow>
        (case cache_State (wo_cache w) k of
           Inl x \<Rightarrow> (w, Some x)
         | Inr (st, _) \<Rightarrow>
             run_dispatch d dp k (RefreshRuntimePresence st (de_clock d w)) w))"

text \<open>The loop over the pages ends when a page has no successor; \<open>None\<close> is running out of fuel.\<close>

fun sync_pages ::
  "nat \<Rightarrow> ('a, 'o) daemon \<Rightarrow> string \<Rightarrow> string \<Rightarrow> ('a, 'o) world \<Rightarrow> (('a, 'o) world \<times> fault option) option" where
  "sync_pages 0 d k cursor w = None"
| "sync_pages (Suc fuel) d k cursor w =
     (case de_events d w k \<lparr>pg_cursor = cursor, pg_limit = syncPageSize\<rparr> of
        Inl x \<Rightarrow> Some (w, Some x)
      | Inr page \<Rightarrow>
        (case apply_items d (ep_items page) w of
           (w', Some x) \<Rightarrow> Some (w', Some x)
         | (w', None) \<Rightarrow>
             if ep_next_cursor page = [] then Some (after_sync d k w')
             else sync_pages fuel d k (ep_next_cursor page) w'))"

definition cached_sequence :: "cache \<Rightarrow> string \<Rightarrow> nat" where
  "cached_sequence c k = (case cache_State c k of Inl _ \<Rightarrow> 0 | Inr (_, md) \<Rightarrow> md_cache_sequence md)"

definition syncProject ::
  "nat \<Rightarrow> ('a, 'o) daemon \<Rightarrow> string \<Rightarrow> ('a, 'o) world \<Rightarrow> (('a, 'o) world \<times> fault option) option" where
  "syncProject fuel d k w =
     sync_pages fuel d k (EncodeCursor (de_crypto d) (cached_sequence (wo_cache w) k)) w"

subsection \<open>Commands\<close>

record command_reply =
  cr_event :: event
  cr_metadata :: result_metadata
  cr_receipt :: receipt
  cr_delivery_error :: "string option"

definition control_validation :: "string \<Rightarrow> fault" where
  "control_validation message = Control (control_error CodeValidation message)"

text \<open>A runtime is only registered or configured if this host could drive it.\<close>

definition runtime_gate ::
  "('a, 'o) daemon \<Rightarrow> command \<Rightarrow> ('a, 'o) world \<Rightarrow> ('a, 'o) world \<times> fault option" where
  "runtime_gate d c w =
     (case de_dispatcher d of None \<Rightarrow> (w, None)
      | Some dp \<Rightarrow>
        if cm_type c \<noteq> ''runtime.register'' \<and> cm_type c \<noteq> ''runtime.configure'' then (w, None)
        else case DecodePayload (de_crypto d) (cm_type c) (cm_payload c) of
            Inl e \<Rightarrow> (w, Some (control_validation (err_text e)))
          | Inr decoded \<Rightarrow>
            (case (case decoded of
                     RuntimeRegistered p \<Rightarrow> (rr_connector p, rr_config_reference p, rr_host_id p)
                   | RuntimeConfigured p \<Rightarrow> (rc_connector p, rc_config_reference p, rc_host_id p)
                   | _ \<Rightarrow> ([], [], [])) of (connector, reference, host_id) \<Rightarrow>
             (case ValidateRuntime (dispatcher_of d dp) (wo_configs w) w connector reference host_id of
                (configs, e) \<Rightarrow> (w\<lparr>wo_configs := configs\<rparr>,
                  map_option (\<lambda>e. control_validation (err_text e)) e))))"

text \<open>After a request for work or a manual delivery attempt the dispatcher runs; its error is only reported.\<close>

definition deliver_now ::
  "('a, 'o) daemon \<Rightarrow> command \<Rightarrow> event \<Rightarrow> ('a, 'o) world \<Rightarrow> ('a, 'o) world \<times> string option" where
  "deliver_now d c event w =
     (case de_dispatcher d of None \<Rightarrow> (w, None)
      | Some dp \<Rightarrow>
        if cm_type c \<noteq> ''invocation.request'' \<and> cm_type c \<noteq> attempt_type then (w, None)
        else case cache_State (wo_cache w) (cm_project_id c) of
            Inl x \<Rightarrow> (w, Some (fault_text x))
          | Inr (st0, _) \<Rightarrow>
            (let st = RefreshRuntimePresence st0 (de_clock d w) in
             if cm_type c = ''invocation.request''
             then (case run_dispatch d dp (cm_project_id c) st w of (w', e) \<Rightarrow> (w', map_option fault_text e))
             else case DecodePayload (de_crypto d) (cm_type c) (ce_payload event) of
                 Inl e \<Rightarrow> (w, Some (err_text e))
               | Inr (InvocationDeliveryAttempted p) \<Rightarrow>
                   (case DeliverAttempt (dispatcher_of d dp) (wo_configs w) (cm_project_id c) (cm_entity_id c)
                       (da_delivery_id p) st w of
                      (w', configs, e) \<Rightarrow> (w'\<lparr>wo_configs := configs\<rparr>, map_option fault_text e))
               | Inr _ \<Rightarrow> (w, Some (err_text Panic))))"

definition recovery_error :: "fault \<Rightarrow> fault \<Rightarrow> fault" where
  "recovery_error apply_error sync_error = Control (control_error CodeUnavailable
     (''command committed authoritatively but local cache recovery failed: '' @ fault_text apply_error @
      ''; sync: '' @ fault_text sync_error))"

definition accepted_reply ::
  "('a, 'o) daemon \<Rightarrow> command \<Rightarrow> event \<Rightarrow> receipt \<Rightarrow> ('a, 'o) world \<Rightarrow>
   ('a, 'o) world \<times> (fault + command_reply)" where
  "accepted_reply d c event receipt w =
     (case deliver_now d c event w of (w', delivery_error) \<Rightarrow>
       (w', Inr \<lparr>cr_event = event, cr_metadata = metadata d (ce_sequence event), cr_receipt = receipt,
              cr_delivery_error = delivery_error\<rparr>))"

definition command_handler ::
  "nat \<Rightarrow> ('a, 'o) daemon \<Rightarrow> string \<Rightarrow> command \<Rightarrow> ('a, 'o) world \<Rightarrow>
   (('a, 'o) world \<times> (fault + command_reply)) option" where
  "command_handler fuel d path c w =
     (if cm_project_id c \<noteq> path
      then Some (w, Inl (control_validation ''path and command project IDs differ''))
      else case runtime_gate d c w of
        (w1, Some x) \<Rightarrow> Some (w1, Inl x)
      | (w1, None) \<Rightarrow>
        (case de_command d c w1 of
           (w2, Inl x) \<Rightarrow> Some (w2, Inl x)
         | (w2, Inr (event, receipt)) \<Rightarrow>
           (case apply_to_cache d event receipt w2 of
              Inr w3 \<Rightarrow> Some (accepted_reply d c event receipt w3)
            | Inl apply_error \<Rightarrow>
              (case syncProject fuel d (cm_project_id c) w2 of
                 None \<Rightarrow> None
               | Some (w3, Some sync_error) \<Rightarrow> Some (w3, Inl (recovery_error apply_error sync_error))
               | Some (w3, None) \<Rightarrow> Some (accepted_reply d c event receipt w3)))))"

subsection \<open>Reads\<close>

definition state_handler ::
  "nat \<Rightarrow> ('a, 'o) daemon \<Rightarrow> string \<Rightarrow> ('a, 'o) world \<Rightarrow>
   (('a, 'o) world \<times> (fault + state \<times> result_metadata)) option" where
  "state_handler fuel d k w =
     (case syncProject fuel d k w of None \<Rightarrow> None
      | Some (w', sync_error) \<Rightarrow>
        (case cache_State (wo_cache w') k of
           Inl cache_error \<Rightarrow> Some (w', Inl (case sync_error of Some x \<Rightarrow> x | None \<Rightarrow> cache_error))
         | Inr (st, md) \<Rightarrow>
             Some (w', Inr (st, if sync_error = None then metadata d (md_cache_sequence md) else md))))"

definition events_handler ::
  "('a, 'o) daemon \<Rightarrow> string \<Rightarrow> page_request \<Rightarrow> ('a, 'o) world \<Rightarrow> fault + event_page" where
  "events_handler d k page w =
     and_then (as_plain (BoundedLimit page)) (\<lambda>_. cache_Events (de_crypto d) (wo_cache w) k page)"

definition sync_handler ::
  "nat \<Rightarrow> ('a, 'o) daemon \<Rightarrow> string \<Rightarrow> ('a, 'o) world \<Rightarrow> (('a, 'o) world \<times> (fault + result_metadata)) option" where
  "sync_handler fuel d k w =
     (case syncProject fuel d k w of None \<Rightarrow> None
      | Some (w', Some x) \<Rightarrow> Some (w', Inl x)
      | Some (w', None) \<Rightarrow>
          Some (w', and_then (cache_State (wo_cache w') k)
            (\<lambda>(_, md). Inr (metadata d (md_cache_sequence md)))))"

definition verify_handler :: "('a, 'o) daemon \<Rightarrow> string \<Rightarrow> nat \<Rightarrow> nat \<Rightarrow> ('a, 'o) world \<Rightarrow> cp_error option" where
  "verify_handler d k from_sequence to_sequence w =
     cache_VerifyRange (de_crypto d) (de_server_key d) (wo_cache w) k from_sequence to_sequence"

text \<open>
  The wait of \<open>invocations/next\<close>, given in milliseconds, as a duration: the product is computed in 64 bits
  and wraps around.
\<close>

definition milliseconds :: "int \<Rightarrow> duration" where
  "milliseconds n = signed_take_bit 63 (n * 1000000)"

definition listen_wait :: "int option \<Rightarrow> fault + duration" where
  "listen_wait ms =
     (case ms of None \<Rightarrow> Inr 0
      | Some n \<Rightarrow>
          fail_if (n < 0 \<or> milliseconds n > MaxInvocationListen)
            (control_validation ''wait_ms must be from 0 to 10000'')
          (Inr (milliseconds n)))"

text \<open>
  The polling loop: a failed sync is ignored, and the cache answers. \<open>tick\<close> is the quarter of a second
  between two looks, in which the outside may change anything but the daemon's own tables.
\<close>

fun poll_next ::
  "nat \<Rightarrow> nat \<Rightarrow> ('a, 'o) daemon \<Rightarrow> (('a, 'o) world \<Rightarrow> ('a, 'o) world) \<Rightarrow> string \<Rightarrow> string \<Rightarrow> string \<Rightarrow>
   duration \<Rightarrow> time \<Rightarrow> ('a, 'o) world \<Rightarrow>
   (('a, 'o) world \<times> (fault + invocation option \<times> result_metadata)) option" where
  "poll_next 0 fuel d tick k actor runtimeID wait deadline w = None"
| "poll_next (Suc rounds) fuel d tick k actor runtimeID wait deadline w =
     (case syncProject fuel d k w of None \<Rightarrow> None
      | Some (w', _) \<Rightarrow>
        (case cache_State (wo_cache w') k of
           Inl x \<Rightarrow> Some (w', Inl x)
         | Inr (st0, md) \<Rightarrow>
           (let now = de_clock d w';
                found = SelectNextInvocation (RefreshRuntimePresence st0 now) actor runtimeID now
            in if found \<noteq> None \<or> wait = 0 \<or> \<not> before now deadline
               then Some (w', Inr (found, md))
               else poll_next rounds fuel d tick k actor runtimeID wait deadline (tick w'))))"

definition next_invocation_handler ::
  "nat \<Rightarrow> nat \<Rightarrow> ('a, 'o) daemon \<Rightarrow> (('a, 'o) world \<Rightarrow> ('a, 'o) world) \<Rightarrow> nat \<Rightarrow> string \<Rightarrow> string \<Rightarrow> string \<Rightarrow>
   int option \<Rightarrow> ('a, 'o) world \<Rightarrow>
   (('a, 'o) world \<times> (fault + invocation option \<times> result_metadata)) option" where
  "next_invocation_handler rounds fuel d tick listeners k actor0 runtime0 ms w =
     (let actor = trim_space actor0; runtimeID = trim_space runtime0 in
      if actor = [] then Some (w, Inl (control_validation ''actor is required''))
      else case listen_wait ms of
          Inl x \<Rightarrow> Some (w, Inl x)
        | Inr wait \<Rightarrow>
          if wait > 0 \<and> listeners \<ge> maxRuntimeListeners
          then Some (w, Inl (Control ((control_error CodeRateLimited
            ''connected runtime listener capacity is exhausted'')\<lparr>ce_retry_after := second\<rparr>)))
          else poll_next rounds fuel d tick k actor runtimeID wait (de_clock d w + wait) w)"

subsection \<open>Drafts\<close>

definition save_draft_handler :: "('a, 'o) daemon \<Rightarrow> string \<Rightarrow> draft \<Rightarrow> ('a, 'o) world \<Rightarrow> cp_error + ('a, 'o) world" where
  "save_draft_handler d path draft w =
     fail_if (dr_project_id draft \<noteq> path) (control_error CodeValidation ''path and draft project IDs differ'')
     (and_then (SaveDraft (de_clock d w) (wo_drafts w) draft) (\<lambda>ds. Inr (w\<lparr>wo_drafts := ds\<rparr>)))"

definition drafts_handler :: "string \<Rightarrow> int option \<Rightarrow> ('a, 'o) world \<Rightarrow> cp_error + draft list" where
  "drafts_handler k limit w =
     list_drafts (wo_drafts w) k (case limit of None \<Rightarrow> DefaultPageSize | Some n \<Rightarrow> n)"

definition delete_draft_handler :: "string \<Rightarrow> string \<Rightarrow> ('a, 'o) world \<Rightarrow> cp_error + ('a, 'o) world" where
  "delete_draft_handler k draftID w =
     and_then (DeleteDraft (wo_drafts w) k draftID) (\<lambda>ds. Inr (w\<lparr>wo_drafts := ds\<rparr>))"

subsection \<open>The personal daemon\<close>

text \<open>
  In personal mode \<open>Run\<close> puts the engine of theory Engine behind the interface. Every method of it
  can fail in the SQLite driver, its transaction undone: \<open>driver\<close> says when.
\<close>

definition personal_daemon ::
  "crypto \<Rightarrow> string \<Rightarrow> ('o \<Rightarrow> err option) \<Rightarrow> (db, 'o) daemon \<Rightarrow> (db, 'o) daemon" where
  "personal_daemon cr priv driver d =
     d\<lparr>de_crypto := cr, de_personal := True,
       de_command := \<lambda>c w.
         (case driver (wo_outside w) of Some e \<Rightarrow> (w, Inl (Plain e))
          | None \<Rightarrow> (case Mutate cr priv (de_clock d w) (wo_authority w) c of
              Inl x \<Rightarrow> (w, Inl x)
            | Inr (db', event, receipt) \<Rightarrow> (w\<lparr>wo_authority := db'\<rparr>, Inr (event, receipt)))),
       de_events := \<lambda>w k page.
         (case driver (wo_outside w) of Some e \<Rightarrow> Inl (Plain e)
          | None \<Rightarrow> Events cr (wo_authority w) k page)\<rparr>"

lemma personal_daemon_sel [simp]:
  "de_crypto (personal_daemon cr priv driver d) = cr"
  "de_personal (personal_daemon cr priv driver d) = True"
  "de_server_key (personal_daemon cr priv driver d) = de_server_key d"
  "de_clock (personal_daemon cr priv driver d) = de_clock d"
  "de_uuid (personal_daemon cr priv driver d) = de_uuid d"
  "de_credential (personal_daemon cr priv driver d) = de_credential d"
  "de_dispatcher (personal_daemon cr priv driver d) = de_dispatcher d"
  by (simp_all add: personal_daemon_def)

end
