(* ===== verification/Identity.thy ===== *)
theory Identity
  imports Engine Reading
begin

text \<open>
  \<open>internal/identity/identity.go\<close>: the credentials a person or an agent signs with, and the rules by which
  a command line finds out whom it acts for. The files are parameters: a store answers with a
  credential or an error, the process environment is a function from names to values (the empty
  string if unset, as \<open>os.Getenv\<close> has it), random bytes are arguments.
\<close>

subsection \<open>Credentials\<close>

record credential =
  cd_project_id :: string
  cd_actor :: string
  cd_public_key :: string
  cd_private_key :: string
  cd_encrypted :: bool
  cd_salt :: string
  cd_nonce :: string

definition ElevatedActor :: "string \<Rightarrow> string" where
  "ElevatedActor actor = actor @ '':elevated''"

text \<open>The key derivation (Argon2id) and the authenticated cipher (AES-256-GCM), with its nonce size.\<close>

record vault =
  va_derive :: "string \<Rightarrow> string \<Rightarrow> string"
  va_seal :: "string \<Rightarrow> string \<Rightarrow> string \<Rightarrow> string"
  va_open :: "string \<Rightarrow> string \<Rightarrow> string \<Rightarrow> string option"

abbreviation gcm_nonce_size :: nat where "gcm_nonce_size \<equiv> 12"

definition encrypt ::
  "crypto \<Rightarrow> vault \<Rightarrow> credential \<Rightarrow> string \<Rightarrow> string \<Rightarrow> string \<Rightarrow> string \<Rightarrow> credential" where
  "encrypt cr va c raw passphrase salt nonce =
     c\<lparr>cd_encrypted := True, cd_salt := b64_encode cr salt, cd_nonce := b64_encode cr nonce,
       cd_private_key := b64_encode cr (va_seal va (va_derive va passphrase salt) nonce raw)\<rparr>"

definition GenerateEncrypted ::
  "crypto \<Rightarrow> vault \<Rightarrow> string \<Rightarrow> string \<Rightarrow> string \<Rightarrow> string \<Rightarrow> string \<Rightarrow> string \<Rightarrow> credential" where
  "GenerateEncrypted cr va projectID actor passphrase priv salt nonce =
     encrypt cr va
       \<lparr>cd_project_id = projectID, cd_actor = actor, cd_public_key = b64_encode cr (ed_public cr priv),
        cd_private_key = [], cd_encrypted = False, cd_salt = [], cd_nonce = []\<rparr> priv passphrase salt nonce"

definition Generate :: "crypto \<Rightarrow> string \<Rightarrow> string \<Rightarrow> string \<Rightarrow> credential" where
  "Generate cr projectID actor priv =
     \<lparr>cd_project_id = projectID, cd_actor = actor, cd_public_key = b64_encode cr (ed_public cr priv),
      cd_private_key = b64_encode cr priv, cd_encrypted = False, cd_salt = [], cd_nonce = []\<rparr>"

definition Decrypted :: "crypto \<Rightarrow> vault \<Rightarrow> credential \<Rightarrow> string \<Rightarrow> credential result" where
  "Decrypted cr va c passphrase =
     (if \<not> cd_encrypted c then Inr c
      else case b64_decode cr (cd_salt c) of None \<Rightarrow> Inl (Err ''invalid salt'')
      | Some salt \<Rightarrow> (case b64_decode cr (cd_nonce c) of None \<Rightarrow> Inl (Err ''invalid nonce'')
      | Some nonce \<Rightarrow> (case b64_decode cr (cd_private_key c) of None \<Rightarrow> Inl (Err ''invalid ciphertext'')
      | Some ciphertext \<Rightarrow>
          fail_if (length nonce \<noteq> gcm_nonce_size) (Err ''invalid nonce length'')
          (case va_open va (va_derive va passphrase salt) nonce ciphertext of
             None \<Rightarrow> Inl (Err ''incorrect passphrase'')
           | Some raw \<Rightarrow> Inr (c\<lparr>cd_private_key := b64_encode cr raw, cd_encrypted := False,
               cd_salt := [], cd_nonce := []\<rparr>)))))"

text \<open>A credential of the environment wins over the store; \<open>read_credential\<close> decodes its JSON.\<close>

definition ResolveCredential ::
  "(string \<Rightarrow> string) \<Rightarrow> (string \<Rightarrow> credential result) \<Rightarrow> (string \<Rightarrow> string \<Rightarrow> credential result) \<Rightarrow>
   string \<Rightarrow> string \<Rightarrow> credential result" where
  "ResolveCredential getenv read_credential get p a =
     (let raw = getenv ''AGENT_COMMS_CREDENTIAL'' in
      if raw \<noteq> [] then
        and_then (read_credential raw) (\<lambda>c.
          fail_if (cd_project_id c \<noteq> p \<or> cd_actor c \<noteq> a)
            (Err ''environment credential does not match project and actor'')
          (Inr c))
      else get p a)"

subsection \<open>Profiles\<close>

record profile =
  pr_name :: string
  pr_project_id :: string
  pr_actor :: string
  pr_project_root :: string
  pr_host_label :: string

record session_profile =
  sp_profile :: string
  sp_set_at :: time

record user_config =
  uc_active_profile :: string
  uc_by_session :: "session_profile gmap"
  uc_profiles :: "profile gmap"

abbreviation sessionProfileTTL :: duration where "sessionProfileTTL \<equiv> 30 * 24 * hour"

definition stale :: "time \<Rightarrow> session_profile \<Rightarrow> bool" where
  "stale now entry = (sub_time now (sp_set_at entry) > sessionProfileTTL)"

definition ActiveProfileFor :: "time \<Rightarrow> user_config \<Rightarrow> string \<Rightarrow> string" where
  "ActiveProfileFor now c sessionID =
     (if sessionID = [] then uc_active_profile c
      else case m_get (uc_by_session c) sessionID of
          None \<Rightarrow> []
        | Some entry \<Rightarrow> if stale now entry then [] else sp_profile entry)"

definition SetActiveProfileFor :: "time \<Rightarrow> user_config \<Rightarrow> string \<Rightarrow> string \<Rightarrow> user_config" where
  "SetActiveProfileFor now c sessionID profile =
     (if sessionID = [] then c\<lparr>uc_active_profile := profile\<rparr>
      else c\<lparr>uc_by_session := m_put sessionID \<lparr>sp_profile = profile, sp_set_at = now\<rparr>
        (DAList.filter (\<lambda>(session, entry). \<not> (session \<noteq> sessionID \<and> stale now entry)) (uc_by_session c))\<rparr>)"

definition ProfileCountForProject :: "user_config \<Rightarrow> string \<Rightarrow> nat" where
  "ProfileCountForProject c projectID =
     length (List.filter (\<lambda>p. pr_project_id p = projectID) (m_vals (uc_profiles c)))"

definition ProfilesByProjectAndHost :: "profile gmap \<Rightarrow> string \<Rightarrow> string \<Rightarrow> profile list" where
  "ProfilesByProjectAndHost profiles projectID hostLabel =
     sort_key pr_name (List.filter (\<lambda>p. pr_project_id p = projectID \<and> pr_host_label p = hostLabel)
       (m_vals profiles))"

text \<open>The profiles of a project go, and every mention of them; they are returned sorted by name.\<close>

definition RemoveProfilesForProject :: "user_config \<Rightarrow> string \<Rightarrow> user_config \<times> profile list" where
  "RemoveProfilesForProject c projectID =
     (let gone = (\<lambda>name. case m_get (uc_profiles c) name of None \<Rightarrow> False | Some p \<Rightarrow> pr_project_id p = projectID)
      in (c\<lparr>uc_profiles := DAList.filter (\<lambda>(_, p). pr_project_id p \<noteq> projectID) (uc_profiles c),
            uc_active_profile := (if gone (uc_active_profile c) then [] else uc_active_profile c),
            uc_by_session := DAList.filter (\<lambda>(_, entry). \<not> gone (sp_profile entry)) (uc_by_session c)\<rparr>,
          sort_key pr_name (List.filter (\<lambda>p. pr_project_id p = projectID) (m_vals (uc_profiles c)))))"

subsection \<open>Whom a command acts for\<close>

datatype actor_source =
    ActorSourceFlag | ActorSourceProfileFlag | ActorSourceEnvironment | ActorSourceHostBinding
  | ActorSourceSessionProfile | ActorSourceActiveProfile | ActorSourceProjectOwner

record actor_request =
  req_project_id :: string
  req_project_owner :: string
  req_session_id :: string
  req_explicit_actor :: string
  req_explicit_profile :: string
  req_environment_actor :: string
  req_host_label :: string
  req_user_config :: user_config
  req_prefer_owner :: bool

record actor_resolution =
  res_actor :: string
  res_source :: actor_source
  res_profile :: string
  res_host_label :: string
  res_project_id :: string

definition resolved :: "actor_request \<Rightarrow> string \<Rightarrow> actor_source \<Rightarrow> string \<Rightarrow> actor_resolution" where
  "resolved r actor source profile =
     \<lparr>res_actor = actor, res_source = source, res_profile = profile,
      res_host_label = trim_space (req_host_label r), res_project_id = req_project_id r\<rparr>"

text \<open>The last tier: the profile that is active for the session, or machine-wide without one.\<close>

definition default_actor :: "time \<Rightarrow> actor_request \<Rightarrow> actor_resolution" where
  "default_actor now r =
     (let c = req_user_config r; name = ActiveProfileFor now c (req_session_id r);
          owner = resolved r (req_project_owner r) ActorSourceProjectOwner []
      in if name = [] then owner
         else case m_get (uc_profiles c) name of
             None \<Rightarrow> owner
           | Some p \<Rightarrow>
               if pr_project_id p \<noteq> req_project_id r then owner
               else let source = (if req_session_id r \<noteq> [] then ActorSourceSessionProfile else ActorSourceActiveProfile);
                        ambiguous = (source = ActorSourceActiveProfile \<and>
                          ProfileCountForProject c (req_project_id r) > 1)
                    in if req_prefer_owner r \<and> ambiguous then owner else resolved r (pr_actor p) source name)"

definition ResolveActor :: "time \<Rightarrow> actor_request \<Rightarrow> actor_resolution result" where
  "ResolveActor now r =
     (let explicitActor = trim_space (req_explicit_actor r); explicitProfile = trim_space (req_explicit_profile r);
          environmentActor = trim_space (req_environment_actor r); hostLabel = trim_space (req_host_label r)
      in if req_project_id r = [] \<or> req_project_owner r = []
         then Inl (Err ''project ID and owner are required for actor resolution'')
         else if explicitActor \<noteq> [] then Inr (resolved r explicitActor ActorSourceFlag [])
         else if explicitProfile \<noteq> [] then
           (case m_get (uc_profiles (req_user_config r)) explicitProfile of
              None \<Rightarrow> Inl (Err (''profile '' @ quoted explicitProfile @ '' not found''))
            | Some p \<Rightarrow>
                fail_if (pr_project_id p \<noteq> req_project_id r)
                  (Err (''profile '' @ quoted explicitProfile @ '' belongs to project '' @ pr_project_id p @
                    '', not '' @ req_project_id r))
                (Inr (resolved r (pr_actor p) ActorSourceProfileFlag explicitProfile)))
         else if environmentActor \<noteq> [] then Inr (resolved r environmentActor ActorSourceEnvironment [])
         else if hostLabel \<noteq> [] then
           (case ProfilesByProjectAndHost (uc_profiles (req_user_config r)) (req_project_id r) hostLabel of
              [] \<Rightarrow> Inr (resolved r (req_project_owner r) ActorSourceProjectOwner [])
            | [p] \<Rightarrow> Inr (resolved r (pr_actor p) ActorSourceHostBinding (pr_name p))
            | _ \<Rightarrow> Inl (Err (''host label '' @ quoted hostLabel @ '' is bound to multiple actors in project '' @
                req_project_id r @ ''; use --actor or --profile'')))
         else Inr (default_actor now r))"

subsection \<open>The session, and the command line\<close>

definition DetectProviderSessionID :: "(string \<Rightarrow> string) \<Rightarrow> string" where
  "DetectProviderSessionID getenv =
     (let claude = trim_space (getenv ''CLAUDE_CODE_SESSION_ID'') in
      if claude \<noteq> [] then claude else trim_space (getenv ''CODEX_THREAD_ID''))"

text \<open>\<open>sessionbind.Capture\<close>; \<open>declared\<close> are the variables of the declarative adapters, in the order visited.\<close>

definition Capture :: "(string \<Rightarrow> string) \<Rightarrow> (string \<times> string) list \<Rightarrow> string \<times> string" where
  "Capture getenv declared =
     (let session = DetectProviderSessionID getenv in
      if session \<noteq> [] \<and> trim_space (getenv ''CLAUDE_CODE_SESSION_ID'') = session then (session, ''claude'')
      else if session \<noteq> [] \<and> trim_space (getenv ''CODEX_THREAD_ID'') = session then (session, ''codex'')
      else case List.find (\<lambda>(name, _). trim_space (getenv name) \<noteq> []) declared of
          None \<Rightarrow> ([], [])
        | Some (name, adapter) \<Rightarrow> (trim_space (getenv name), adapter))"

text \<open>
  Before a command runs, the command line settles whom it acts for. The profiles are only read if no actor is
  named; \<open>no_profiles\<close> is what stands in for them. An explicit flag may be the display name of a
  principal of the project's \<open>state\<close>: an ambiguous one stops the command, an unknown one is left as it
  is. The second component of the answer is the service's \<open>AmbiguousActor\<close>.
\<close>

datatype command_line_error = Unsettled err | Several resolve_error

definition no_profiles :: user_config where
  "no_profiles = \<lparr>uc_active_profile = [], uc_by_session = m_empty, uc_profiles = m_empty\<rparr>"

definition named_actor ::
  "'e + state \<Rightarrow> actor_resolution \<Rightarrow> command_line_error + actor_resolution" where
  "named_actor current r =
     (case (res_source r, current) of
        (ActorSourceFlag, Inr s) \<Rightarrow>
          (case ResolvePrincipal (st_agents s) (res_actor r) of
             Inr actor \<Rightarrow> Inr (r\<lparr>res_actor := actor\<rparr>)
           | Inl (Ambiguous reference candidates) \<Rightarrow> Inl (Several (Ambiguous reference candidates))
           | Inl _ \<Rightarrow> Inr r)
      | _ \<Rightarrow> Inr r)"

definition command_line_actor ::
  "(string \<Rightarrow> string) \<Rightarrow> (string \<times> string) list \<Rightarrow> user_config result \<Rightarrow> 'e + state \<Rightarrow> bool \<Rightarrow> string \<Rightarrow> string \<Rightarrow>
   string \<Rightarrow> string \<Rightarrow> time \<Rightarrow> command_line_error + actor_resolution \<times> bool" where
  "command_line_actor getenv declared load_config current is_tui actor_flag profile_flag projectID owner now =
     (let environmentActor = getenv ''AGENT_COMMS_ACTOR'';
          needsUserConfig = (actor_flag = [] \<and> (profile_flag \<noteq> [] \<or> environmentActor = []))
      in case (if needsUserConfig then load_config else Inr no_profiles) of Inl e \<Rightarrow> Inl (Unsettled e)
         | Inr config \<Rightarrow>
             (case ResolveActor now
                 \<lparr>req_project_id = projectID, req_project_owner = owner, req_session_id = fst (Capture getenv declared),
                  req_explicit_actor = actor_flag, req_explicit_profile = profile_flag,
                  req_environment_actor = environmentActor, req_host_label = getenv ''AGENT_COMMS_HOST_LABEL'',
                  req_user_config = config, req_prefer_owner = is_tui\<rparr> of
                Inl e \<Rightarrow> Inl (Unsettled e)
              | Inr r \<Rightarrow> and_then (named_actor current r) (\<lambda>r.
                  Inr (r, res_source r = ActorSourceActiveProfile \<and>
                    ProfileCountForProject config projectID > 1))))"

end
