(* ===== verification/Client.thy ===== *)
theory Client
  imports Daemon Identity
begin

text \<open>
  The way of a command to the daemon: \<open>internal/daemonclient/client.go\<close> (and \<open>internal/remote/client.go\<close>,
  its twin for the authority), the signing service of \<open>internal/service/service.go\<close>, and the classes of
  \<open>internal/failure\<close> under which errors leave the program.

  The transport is a parameter: a call may not leave, may not come back, or may bring any answer.
  So are the JSON decoders, the timer and the host. A \<open>service\<close> holds what the struct \<open>Service\<close> refers
  to; what its calls change is the state \<open>'s\<close>.
\<close>

subsection \<open>Errors of a client\<close>

text \<open>
  A control error has its code as text, since the other side may send any; a lifecycle error is
  one of \<open>internal/projectlifecycle\<close>; the rest is a plain error, or one wrapped in a message.
\<close>

datatype client_error =
    Remote string string duration
  | Lifecycle string string
  | Local err
  | Within string client_error

primrec client_text :: "client_error \<Rightarrow> string" where
  "client_text (Remote code message retry_after) = message"
| "client_text (Lifecycle code message) = message"
| "client_text (Local e) = err_text e"
| "client_text (Within message e) = message @ client_text e"

primrec remote_in :: "client_error \<Rightarrow> (string \<times> duration) option" where
  "remote_in (Remote code message retry_after) = Some (code, retry_after)"
| "remote_in (Lifecycle code message) = None"
| "remote_in (Local e) = None"
| "remote_in (Within message e) = remote_in e"

primrec lifecycle_in :: "client_error \<Rightarrow> string option" where
  "lifecycle_in (Remote code message retry_after) = None"
| "lifecycle_in (Lifecycle code message) = Some code"
| "lifecycle_in (Local e) = None"
| "lifecycle_in (Within message e) = lifecycle_in e"

fun code_text :: "error_code \<Rightarrow> string" where
  "code_text CodeOffline = ''OFFLINE''"
| "code_text CodeConflict = ''CONFLICT''"
| "code_text CodeRateLimited = ''RATE_LIMITED''"
| "code_text CodeStalePrecondition = ''STALE_PRECONDITION''"
| "code_text CodeUnavailable = ''UNAVAILABLE''"
| "code_text CodeAuthorization = ''AUTHORIZATION''"
| "code_text CodeValidation = ''VALIDATION''"
| "code_text CodeIntegrity = ''INTEGRITY''"

text \<open>\<open>failure.Code\<close> and \<open>failure.ExitStatus\<close>.\<close>

definition Code :: "client_error \<Rightarrow> string" where
  "Code e =
     (case lifecycle_in e of Some code \<Rightarrow> code
      | None \<Rightarrow> (case remote_in e of Some (code, _) \<Rightarrow> code
      | None \<Rightarrow>
        (let message = to_lower (client_text e) in
         if contains message ''credential'' \<or> contains message ''active principal'' \<or>
            contains message ''role required'' \<or> contains message ''human principal''
         then code_text CodeAuthorization
         else if contains message ''signature'' \<or> contains message ''hash'' \<or> contains message ''chain''
         then code_text CodeIntegrity
         else if contains message ''remote'' then ''EXTERNAL''
         else code_text CodeValidation)))"

definition ExitStatus :: "client_error \<Rightarrow> nat" where
  "ExitStatus e =
     (let code = Code e in
      if code = code_text CodeValidation \<or> code = ''NOT_A_PROJECT'' then 2
      else if code = code_text CodeAuthorization then 3
      else if code = code_text CodeIntegrity then 5
      else if code = ''EXTERNAL'' then 7
      else if code = code_text CodeOffline \<or> code = code_text CodeUnavailable then 8
      else if code = ''UPGRADE_REQUIRED'' \<or> code = ''PROJECT_TOO_NEW'' \<or> code = ''UPGRADE_UNSUPPORTED'' then 11
      else if code = ''UPGRADE_FAILED'' then 12
      else if code = code_text CodeConflict \<or> code = code_text CodeStalePrecondition then 9
      else if code = code_text CodeRateLimited then 10
      else 1)"

subsection \<open>One exchange\<close>

text \<open>
  What becomes of a request: it could not be built, or the server not be reached, or the answer not be
  read to its end; or there is an answer, with its status code, status line and body.
\<close>

datatype exchange = Unsent err | Unreachable string | Interrupted err | Answered nat string string

abbreviation maxResponseBytes :: nat where "maxResponseBytes \<equiv> 8 * 1024 * 1024"

text \<open>
  The end of \<open>do\<close>. \<open>read_failure\<close> decodes the body of an error into its code, message and retry time in
  milliseconds, \<open>decode\<close> that of a success.
\<close>

definition failed_answer :: "(string \<Rightarrow> (string \<times> string \<times> int) option) \<Rightarrow> string \<Rightarrow> string \<Rightarrow> client_error" where
  "failed_answer read_failure fallback raw =
     (case read_failure raw of
        None \<Rightarrow> Remote (code_text CodeUnavailable) fallback 0
      | Some (code, message, ms) \<Rightarrow>
          if code \<noteq> [] then Remote code message (milliseconds ms)
          else Remote (code_text CodeUnavailable) fallback 0)"

definition daemon_answer ::
  "(string \<Rightarrow> (string \<times> string \<times> int) option) \<Rightarrow> (string \<Rightarrow> 'b result) \<Rightarrow> exchange \<Rightarrow> client_error + 'b" where
  "daemon_answer read_failure decode x =
     (case x of
        Unsent e \<Rightarrow> Inl (Local e)
      | Unreachable why \<Rightarrow> Inl (Remote (code_text CodeOffline) (''local daemon is unavailable: '' @ why) 0)
      | Interrupted e \<Rightarrow> Inl (Local e)
      | Answered code status raw \<Rightarrow>
          if length raw > maxResponseBytes
          then Inl (Remote (code_text CodeUnavailable) ''daemon response exceeds the configured limit'' 0)
          else if code < 200 \<or> code \<ge> 300 then Inl (failed_answer read_failure status raw)
          else (case decode raw of Inl e \<Rightarrow> Inl (Local e) | Inr v \<Rightarrow> Inr v))"

text \<open>\<open>doJSON\<close> of the authority's client; a body that is empty leaves the response as it was, \<open>blank_response\<close>.\<close>

definition authority_answer ::
  "(string \<Rightarrow> (string \<times> string \<times> int) option) \<Rightarrow> (string \<Rightarrow> 'b result) \<Rightarrow> 'b \<Rightarrow> exchange \<Rightarrow> client_error + 'b" where
  "authority_answer read_failure decode blank_response x =
     (case x of
        Unsent e \<Rightarrow> Inl (Local e)
      | Unreachable why \<Rightarrow> Inl (Remote (code_text CodeOffline) (''authority is unreachable: '' @ why) 0)
      | Interrupted e \<Rightarrow> Inl (Remote (code_text CodeUnavailable) (err_text e) 0)
      | Answered code status raw \<Rightarrow>
          if length raw > maxResponseBytes
          then Inl (Remote (code_text CodeUnavailable) ''authority response exceeds the configured limit'' 0)
          else if code < 200 \<or> code \<ge> 300
          then Inl (failed_answer read_failure (''authority returned '' @ status) raw)
          else if raw = [] then Inr blank_response
          else (case decode raw of
              Inl e \<Rightarrow> Inl (Remote (code_text CodeUnavailable) (''decode authority response: '' @ err_text e) 0)
            | Inr v \<Rightarrow> Inr v))"

subsection \<open>The service\<close>

record config =
  cf_project_id :: string
  cf_runtime_mode :: string
  cf_authority_url :: string
  cf_managed_files :: int

datatype call =
    CallState string
  | CallCommand command
  | CallEvents string page_request
  | CallNext string string string duration
  | CallSync string
  | CallVerify string nat nat

record decoders =
  rd_failure :: "string \<Rightarrow> (string \<times> string \<times> int) option"
  rd_state :: "string \<Rightarrow> (state \<times> result_metadata) result"
  rd_command :: "string \<Rightarrow> (event \<times> result_metadata \<times> receipt) result"
  rd_page :: "string \<Rightarrow> event_page result"
  rd_next :: "string \<Rightarrow> (invocation option \<times> result_metadata) result"
  rd_sync :: "string \<Rightarrow> result_metadata result"
  rd_object :: "string \<Rightarrow> unit result"

text \<open>
  \<open>sv_pause\<close> waits: it answers \<open>False\<close> if the context of the operation ended before the time was over.
  \<open>sv_prompt\<close> and \<open>sv_recover\<close> are the two functions that may be nil.
\<close>

record 's service =
  sv_crypto :: crypto
  sv_vault :: vault
  sv_remote_error :: "err option"
  sv_ambiguous :: bool
  sv_decoders :: decoders
  sv_call :: "call \<Rightarrow> 's \<Rightarrow> 's \<times> exchange"
  sv_recover :: "('s \<Rightarrow> 's \<times> client_error option) option"
  sv_pause :: "duration \<Rightarrow> 's \<Rightarrow> 's \<times> bool"
  sv_prompt :: "(string \<Rightarrow> 's \<Rightarrow> 's \<times> string result) option"
  sv_config :: "'s \<Rightarrow> config result"
  sv_credential :: "'s \<Rightarrow> string \<Rightarrow> string \<Rightarrow> credential result"
  sv_put :: "credential \<Rightarrow> 's \<Rightarrow> 's \<times> err option"
  sv_getenv :: "string \<Rightarrow> string"
  sv_read_credential :: "string \<Rightarrow> credential result"
  sv_clock :: "'s \<Rightarrow> time"
  sv_uuid :: "'s \<Rightarrow> 's \<times> string"
  sv_random :: "'s \<Rightarrow> 's \<times> string result"
  sv_load_config :: "'s \<Rightarrow> user_config result"
  sv_save_config :: "user_config \<Rightarrow> 's \<Rightarrow> 's \<times> err option"
  sv_root :: string

text \<open>There is no client, but a nil pointer, if the service was made with an error.\<close>

definition remote_call ::
  "'s service \<Rightarrow> (decoders \<Rightarrow> string \<Rightarrow> 'b result) \<Rightarrow> call \<Rightarrow> 's \<Rightarrow> 's \<times> (client_error + 'b)" where
  "remote_call sv decode call s =
     (if sv_remote_error sv \<noteq> None then (s, Inl (Local Panic))
      else case sv_call sv call s of (s', x) \<Rightarrow>
        (s', daemon_answer (rd_failure (sv_decoders sv)) (decode (sv_decoders sv)) x))"

subsection \<open>Trying again\<close>

definition retryable :: "string \<Rightarrow> bool" where
  "retryable code \<longleftrightarrow> code \<in> {code_text CodeOffline, code_text CodeUnavailable, code_text CodeRateLimited}"

definition recovered_by :: "'s service \<Rightarrow> string \<Rightarrow> 's \<Rightarrow> 's \<times> client_error option" where
  "recovered_by sv code s =
     (case sv_recover sv of
        None \<Rightarrow> (s, None)
      | Some recover \<Rightarrow>
          if code = code_text CodeOffline \<or> code = code_text CodeUnavailable then recover s else (s, None))"

definition retry_delay :: "nat \<Rightarrow> duration \<Rightarrow> duration" where
  "retry_delay attempt retry_after =
     (let delay = 50 * 2 ^ attempt * 1000000 in if retry_after > delay then retry_after else delay)"

text \<open>The body of the loop, from \<open>attempt\<close> on with \<open>left\<close> attempts after it.\<close>

fun retry_from ::
  "'s service \<Rightarrow> ('s \<Rightarrow> 's \<times> (client_error + 'b)) \<Rightarrow> nat \<Rightarrow> nat \<Rightarrow> 's \<Rightarrow> 's \<times> (client_error + 'b)" where
  "retry_from sv op attempt left s =
     (case op s of
        (s1, Inr v) \<Rightarrow> (s1, Inr v)
      | (s1, Inl e) \<Rightarrow>
        (case remote_in e of
           None \<Rightarrow> (s1, Inl e)
         | Some (code, retry_after) \<Rightarrow>
           if \<not> retryable code then (s1, Inl e)
           else case recovered_by sv code s1 of
               (s2, Some failure) \<Rightarrow> (s2, Inl failure)
             | (s2, None) \<Rightarrow>
               (case sv_pause sv (retry_delay attempt retry_after) s2 of
                  (s3, False) \<Rightarrow> (s3, Inl (Local (Err ''context deadline exceeded'')))
                | (s3, True) \<Rightarrow>
                    if left = 0 then (s3, Inl e) else retry_from sv op (Suc attempt) (left - 1) s3)))"

declare retry_from.simps [simp del]

definition retryOnDaemonOffline ::
  "'s service \<Rightarrow> ('s \<Rightarrow> 's \<times> (client_error + 'b)) \<Rightarrow> 's \<Rightarrow> 's \<times> (client_error + 'b)" where
  "retryOnDaemonOffline sv op s = retry_from sv op 0 2 s"

subsection \<open>Reads\<close>

text \<open>Steps in sequence; an error ends them, and keeps what was done.\<close>

definition and_do :: "'s \<times> (client_error + 'a) \<Rightarrow> ('a \<Rightarrow> 's \<Rightarrow> 's \<times> (client_error + 'b)) \<Rightarrow> 's \<times> (client_error + 'b)" where
  "and_do x f = (case x of (s, Inl e) \<Rightarrow> (s, Inl e) | (s, Inr a) \<Rightarrow> f a s)"

definition local_step :: "'a result \<Rightarrow> 's \<Rightarrow> 's \<times> (client_error + 'a)" where
  "local_step r s = (s, (case r of Inl e \<Rightarrow> Inl (Local e) | Inr a \<Rightarrow> Inr a))"

definition stop :: "string \<Rightarrow> 's \<Rightarrow> 's \<times> (client_error + 'a)" where
  "stop message s = (s, Inl (Local (Err message)))"

definition connected :: "'s service \<Rightarrow> 's \<Rightarrow> 's \<times> (client_error + config)" where
  "connected sv s =
     (case sv_remote_error sv of Some e \<Rightarrow> (s, Inl (Local e)) | None \<Rightarrow> local_step (sv_config sv s) s)"

text \<open>
  The four fields of the integrity record that \<open>State\<close> copies from the metadata are not part of the
  model's state; the metadata is returned beside it.
\<close>

definition service_State :: "'s service \<Rightarrow> 's \<Rightarrow> 's \<times> (client_error + state \<times> result_metadata)" where
  "service_State sv s =
     and_do (connected sv s) (\<lambda>cfg s.
     and_do (retryOnDaemonOffline sv (remote_call sv rd_state (CallState (cf_project_id cfg))) s) (\<lambda>(st, md) s.
       (s, Inr (RefreshRuntimePresence st (sv_clock sv s), md))))"

definition History :: "'s service \<Rightarrow> page_request \<Rightarrow> 's \<Rightarrow> 's \<times> (client_error + event_page)" where
  "History sv page s =
     and_do (connected sv s) (\<lambda>cfg. remote_call sv rd_page (CallEvents (cf_project_id cfg) page))"

definition service_Sync :: "'s service \<Rightarrow> 's \<Rightarrow> 's \<times> (client_error + result_metadata)" where
  "service_Sync sv s =
     and_do (connected sv s) (\<lambda>cfg. remote_call sv rd_sync (CallSync (cf_project_id cfg)))"

definition service_Verify :: "'s service \<Rightarrow> nat \<Rightarrow> nat \<Rightarrow> 's \<Rightarrow> 's \<times> (client_error + unit)" where
  "service_Verify sv from_sequence to_sequence s =
     and_do (connected sv s) (\<lambda>cfg.
       remote_call sv rd_object (CallVerify (cf_project_id cfg) from_sequence to_sequence))"

definition ListenInvocation ::
  "'s service \<Rightarrow> string \<Rightarrow> string \<Rightarrow> duration \<Rightarrow> 's \<Rightarrow> 's \<times> (client_error + invocation option)" where
  "ListenInvocation sv actor runtimeID wait s =
     (if wait < 0 \<or> wait > MaxInvocationListen
      then stop ''invocation listen duration must be from 0 to 10s'' s
      else and_do (connected sv s) (\<lambda>cfg s.
        and_do (remote_call sv rd_next (CallNext (cf_project_id cfg) actor runtimeID wait) s) (\<lambda>(found, _) s.
          (s, Inr found))))"

definition CanSponsorRegistration :: "'s service \<Rightarrow> string \<Rightarrow> 's \<Rightarrow> 's \<times> (client_error + bool)" where
  "CanSponsorRegistration sv actor s =
     and_do (service_State sv s) (\<lambda>(st, _) s.
       (s, Inr (case m_get (st_agents st) actor of None \<Rightarrow> False
          | Some p \<Rightarrow> ag_status p = ''ACTIVE'' \<and> (ag_role p = RoleOrchestrator \<or> ag_principal_type p = PrincipalHuman))))"

subsection \<open>Signed writes\<close>

record service_event =
  sx_event :: event
  sx_signature :: string
  sx_receipt :: receipt
  sx_consistency :: string
  sx_connectivity :: string

definition service_event_of :: "command \<Rightarrow> event \<Rightarrow> result_metadata \<Rightarrow> receipt \<Rightarrow> service_event" where
  "service_event_of c e md r =
     \<lparr>sx_event = e, sx_signature = cm_signature c, sx_receipt = r, sx_consistency = md_consistency md,
      sx_connectivity = md_connectivity md\<rparr>"

text \<open>A command with a new idempotency key, signed.\<close>

definition signed_command ::
  "'s service \<Rightarrow> string \<Rightarrow> string \<Rightarrow> string \<Rightarrow> string \<Rightarrow> string \<Rightarrow> credential \<Rightarrow> credential option \<Rightarrow> 's \<Rightarrow>
   's \<times> (client_error + command)" where
  "signed_command sv projectID actor typ eid raw credential registered s =
     (case sv_uuid sv s of (s, uuid) \<Rightarrow>
       local_step (command_sign (sv_crypto sv) (cd_private_key credential)
         \<lparr>cm_project_id = projectID, cm_actor = actor, cm_type = typ, cm_entity_id = eid, cm_payload = raw,
          cm_idempotency_key = uuid, cm_issued_at = sv_clock sv s, cm_expected_sequence = 0,
          cm_public_key = (case registered of None \<Rightarrow> [] | Some c \<Rightarrow> cd_public_key c), cm_signature = []\<rparr>) s)"

definition executeRemoteWithCredential ::
  "'s service \<Rightarrow> config \<Rightarrow> string \<Rightarrow> string \<Rightarrow> string \<Rightarrow> payload \<Rightarrow> credential \<Rightarrow> 's \<Rightarrow>
   's \<times> (client_error + service_event)" where
  "executeRemoteWithCredential sv cfg actor typ eid payload credential s =
     and_do (local_step (EncodePayload (sv_crypto sv) typ payload) s) (\<lambda>raw s.
     and_do (signed_command sv (cf_project_id cfg) actor typ eid raw credential
       (if typ = ''agent.register'' then Some credential else None) s) (\<lambda>command s.
     and_do (retryOnDaemonOffline sv (remote_call sv rd_command (CallCommand command)) s) (\<lambda>(event, md, receipt) s.
       (s, Inr (service_event_of command event md receipt)))))"

definition decryptElevatedKey ::
  "'s service \<Rightarrow> credential \<Rightarrow> string \<Rightarrow> string \<Rightarrow> string \<Rightarrow> 's \<Rightarrow> 's \<times> (client_error + credential)" where
  "decryptElevatedKey sv sealed actor about overridePassphrase s =
     (if \<not> cd_encrypted sealed then (s, Inr sealed)
      else if overridePassphrase \<noteq> []
      then local_step (Decrypted (sv_crypto sv) (sv_vault sv) sealed overridePassphrase) s
      else case sv_prompt sv of
          None \<Rightarrow> stop (about @ '' requires the elevated key, but no passphrase prompt is available in this context'') s
        | Some prompt \<Rightarrow> (case prompt actor s of
            (s, Inl e) \<Rightarrow> (s, Inl (Local e))
          | (s, Inr passphrase) \<Rightarrow>
              local_step (Decrypted (sv_crypto sv) (sv_vault sv) sealed passphrase) s))"

text \<open>The zero value \<open>model.State{}\<close>; two of the five transitions are classified by their payload alone.\<close>

definition zero_state :: state where
  "zero_state = EmptyState\<lparr>st_settings := \<lparr>se_default_lease = [], se_stale_grace = [], se_active_retention = [],
     se_summary_limit = 0, se_artifact_limit_bytes = 0, se_require_review = False, se_updated_by = [],
     se_updated_at = 0\<rparr>\<rparr>"

definition elevateCredentialIfNeeded ::
  "'s service \<Rightarrow> config \<Rightarrow> string \<Rightarrow> string \<Rightarrow> string \<Rightarrow> payload \<Rightarrow> credential \<Rightarrow> string \<Rightarrow> 's \<Rightarrow>
   's \<times> (client_error + credential)" where
  "elevateCredentialIfNeeded sv cfg actor typ eid payload primary overridePassphrase s =
     (case parse_type typ of None \<Rightarrow> (s, Inr primary)
      | Some t \<Rightarrow>
        if t \<notin> {Agent_ev AgentActivate, Agent_ev AgentSwitchRole, Approval_ev ApprovalApprove,
                Agent_ev AgentRevoke, Agent_ev AgentDelete} then (s, Inr primary)
        else and_do (if t \<in> {Approval_ev ApprovalApprove, Agent_ev AgentRevoke, Agent_ev AgentDelete}
                     then and_do (service_State sv s) (\<lambda>(st, _) s. (s, Inr st))
                     else (s, Inr zero_state)) (\<lambda>st s.
          if \<not> RequiresElevatedKey st actor t eid payload then (s, Inr primary)
          else case sv_credential sv s (cf_project_id cfg) (ElevatedActor actor) of
              Inl _ \<Rightarrow> (s, Inr primary)
            | Inr sealed \<Rightarrow> decryptElevatedKey sv sealed actor (typ @ '' for '' @ actor) overridePassphrase s))"

definition executeRemote ::
  "'s service \<Rightarrow> string \<Rightarrow> string \<Rightarrow> string \<Rightarrow> payload \<Rightarrow> string \<Rightarrow> 's \<Rightarrow> 's \<times> (client_error + service_event)" where
  "executeRemote sv actor typ eid payload passphrase s =
     and_do (local_step (sv_config sv s) s) (\<lambda>cfg s.
     (case ResolveCredential (sv_getenv sv) (sv_read_credential sv) (sv_credential sv s) (cf_project_id cfg) actor of
        Inl e \<Rightarrow> (s, Inl (Within (''credential for '' @ actor @ '': '') (Local e)))
      | Inr credential \<Rightarrow>
        and_do (elevateCredentialIfNeeded sv cfg actor typ eid payload credential passphrase s) (\<lambda>credential.
          executeRemoteWithCredential sv cfg actor typ eid payload credential)))"

definition ExecuteWithPassphrase ::
  "'s service \<Rightarrow> string \<Rightarrow> string \<Rightarrow> string \<Rightarrow> payload \<Rightarrow> string \<Rightarrow> 's \<Rightarrow> 's \<times> (client_error + service_event)" where
  "ExecuteWithPassphrase sv actor typ eid payload passphrase s =
     (if sv_ambiguous sv then stop (''refusing to sign '' @ typ @ '' as '' @ quoted actor @
          '': this actor was resolved from the shared, machine-wide active-profile default, and this project '' @
          ''has more than one locally-registered identity to choose between -- pass --actor explicitly, or set '' @
          ''AGENT_COMMS_ACTOR (both required for any invocation with no recognized provider session, e.g. an '' @
          ''opencode-based agent or a background script); run `agent-comms profile current` to see exactly how '' @
          ''this was resolved'') s
      else case sv_remote_error sv of Some e \<Rightarrow> (s, Inl (Local e))
      | None \<Rightarrow> executeRemote sv actor typ eid payload passphrase s)"

definition Execute ::
  "'s service \<Rightarrow> string \<Rightarrow> string \<Rightarrow> string \<Rightarrow> payload \<Rightarrow> 's \<Rightarrow> 's \<times> (client_error + service_event)" where
  "Execute sv actor typ eid payload = ExecuteWithPassphrase sv actor typ eid payload []"

subsection \<open>Operations\<close>

definition approval_request_of ::
  "crypto \<Rightarrow> string \<Rightarrow> string \<Rightarrow> string \<Rightarrow> event_type \<Rightarrow> string \<Rightarrow> payload \<Rightarrow> string list \<Rightarrow> string \<Rightarrow> time \<Rightarrow>
   approval_requested" where
  "approval_request_of cr actor tier action t eid subject affected reason expires =
     (let subjectJSON = ApprovalSubjectJSON cr actor t eid subject
      in \<lparr>aq_tier = tier, aq_action = action, aq_subject_digest = ApprovalSubjectDigestFromJSON cr subjectJSON,
          aq_subject = subjectJSON, aq_reason = reason, aq_affected = affected, aq_expires_at = Some expires\<rparr>)"

definition invocation_approval ::
  "crypto \<Rightarrow> state \<Rightarrow> string \<Rightarrow> string \<Rightarrow> string \<Rightarrow> invocation_requested \<Rightarrow> string \<Rightarrow> time \<Rightarrow> approval_requested" where
  "invocation_approval cr st actor tier eid p0 reason expires =
     (let p = NormalizeInvocationApprovalSubject st p0 in
      approval_request_of cr actor tier (if tier = ''HUMAN'' then ''invocation-sensitive:'' @ eid else ''invocation:'' @ eid)
        (Invocation_ev InvRequest) eid (InvocationRequested p) [ir_target p] reason expires)"

definition RequestApprovalForOperation ::
  "'s service \<Rightarrow> string \<Rightarrow> string \<Rightarrow> string \<Rightarrow> string \<Rightarrow> string \<Rightarrow> payload \<Rightarrow> string \<Rightarrow> duration \<Rightarrow> 's \<Rightarrow>
   's \<times> (client_error + service_event)" where
  "RequestApprovalForOperation sv actor approvalID tier0 typ eid payload reason ttl s =
     (let tier = to_upper (trim_space tier0) in
      if ttl \<le> 0 then stop ''approval TTL must be positive'' s
      else if typ = ''message.post'' then
        (case payload of
           MessagePosted m \<Rightarrow>
             if mp_kind m \<noteq> ''CONTRACT'' then stop ''payload-bound message approval requires a CONTRACT message'' s
             else Execute sv actor ''approval.request'' approvalID
               (ApprovalRequested (approval_request_of (sv_crypto sv) actor tier (''contract:'' @ eid)
                  (Message_ev MessagePost) eid payload (mp_to m) reason (sv_clock sv s + ttl))) s
         | _ \<Rightarrow> stop ''payload-bound message approval requires a CONTRACT message'' s)
      else if typ = ''invocation.request'' then
        (case payload of
           InvocationRequested p \<Rightarrow>
             and_do (service_State sv s) (\<lambda>(st, _) s.
               Execute sv actor ''approval.request'' approvalID
                 (ApprovalRequested (invocation_approval (sv_crypto sv) st actor tier eid p reason (sv_clock sv s + ttl))) s)
         | _ \<Rightarrow> stop ''payload-bound invocation approval requires an invocation request'' s)
      else stop ''operation does not support payload-bound approval'' s)"

text \<open>An operation that was recorded may still fail on this host afterwards: both are returned.\<close>

type_synonym recorded = "service_event \<times> client_error option"

definition store_credential :: "'s service \<Rightarrow> credential \<Rightarrow> string \<Rightarrow> service_event \<Rightarrow> 's \<Rightarrow> 's \<times> (client_error + recorded)" where
  "store_credential sv credential message event s =
     (case sv_put sv credential s of
        (s, None) \<Rightarrow> (s, Inr (event, None))
      | (s, Some e) \<Rightarrow> (s, Inr (event, Some (Within message (Local e)))))"

definition registered_profile :: "'s service \<Rightarrow> string \<Rightarrow> string \<Rightarrow> time \<Rightarrow> user_config \<Rightarrow> user_config" where
  "registered_profile sv projectID actor now user =
     (let name = projectID @ '':'' @ actor;
          user = user\<lparr>uc_profiles := m_put name \<lparr>pr_name = name, pr_project_id = projectID, pr_actor = actor,
            pr_project_root = sv_root sv, pr_host_label = sv_getenv sv ''AGENT_COMMS_HOST_LABEL''\<rparr> (uc_profiles user)\<rparr>;
          session = DetectProviderSessionID (sv_getenv sv)
      in if session \<noteq> [] \<and> ActiveProfileFor now user session = [] then SetActiveProfileFor now user session name
         else user)"

definition save_profile :: "'s service \<Rightarrow> string \<Rightarrow> string \<Rightarrow> service_event \<Rightarrow> 's \<Rightarrow> 's \<times> (client_error + recorded)" where
  "save_profile sv projectID actor event s =
     (case sv_load_config sv s of
        Inl e \<Rightarrow> (s, Inr (event, Some (Within
          ''registration recorded but could not load the identity profile registry: '' (Local e))))
      | Inr user \<Rightarrow>
        (case sv_save_config sv (registered_profile sv projectID actor (sv_clock sv s) user) s of
           (s, None) \<Rightarrow> (s, Inr (event, None))
         | (s, Some e) \<Rightarrow> (s, Inr (event, Some (Within
             ''registration recorded but could not save the identity profile registry entry: '' (Local e))))))"

definition new_key :: "'s service \<Rightarrow> 's \<Rightarrow> 's \<times> (client_error + string)" where
  "new_key sv s = (case sv_random sv s of (s', r) \<Rightarrow> local_step r s')"

definition Register ::
  "'s service \<Rightarrow> string \<Rightarrow> string \<Rightarrow> string \<Rightarrow> 's \<Rightarrow> 's \<times> (client_error + recorded)" where
  "Register sv actor display pt s =
     and_do (local_step (sv_config sv s) s) (\<lambda>cfg s.
     and_do (new_key sv s) (\<lambda>priv s.
     let credential = Generate (sv_crypto sv) (cf_project_id cfg) actor priv in
     and_do (service_State sv s) (\<lambda>(st, _) s.
     if m_has (st_agents st) actor then stop ''principal already exists'' s
     else and_do (executeRemoteWithCredential sv cfg actor ''agent.register'' actor
         (AgentRegistered \<lparr>ar_public_key = cd_public_key credential, ar_principal_type = pt,
            ar_display_name = display\<rparr>) credential s) (\<lambda>event s.
     and_do (store_credential sv credential ''registration recorded but credential could not be stored: '' event s)
       (\<lambda>(event, failed) s. if failed \<noteq> None then (s, Inr (event, failed))
          else save_profile sv (cf_project_id cfg) actor event s)))))"

text \<open>Both sign with the primary key at once; neither looks at \<open>AmbiguousActor\<close> nor tries again.\<close>

definition RotateKey :: "'s service \<Rightarrow> string \<Rightarrow> 's \<Rightarrow> 's \<times> (client_error + recorded)" where
  "RotateKey sv actor s =
     and_do (local_step (sv_config sv s) s) (\<lambda>cfg s.
     and_do (local_step (ResolveCredential (sv_getenv sv) (sv_read_credential sv) (sv_credential sv s)
       (cf_project_id cfg) actor) s) (\<lambda>old s.
     and_do (new_key sv s) (\<lambda>priv s.
     let fresh = Generate (sv_crypto sv) (cf_project_id cfg) actor priv in
     and_do (local_step (EncodePayload (sv_crypto sv) ''agent.rotate-key'' (AgentKeyRotated
       \<lparr>kr_public_key = cd_public_key fresh, kr_previous_fingerprint = Fingerprint (sv_crypto sv) (cd_public_key old)\<rparr>)) s)
       (\<lambda>raw s.
     and_do (signed_command sv (cf_project_id cfg) actor ''agent.rotate-key'' actor raw old None s) (\<lambda>command s.
     and_do (remote_call sv rd_command (CallCommand command) s) (\<lambda>(event, md, receipt) s.
       store_credential sv fresh ''key rotation recorded but new credential could not be stored: ''
         (service_event_of command event md receipt) s))))))"

definition ElevateKey :: "'s service \<Rightarrow> string \<Rightarrow> string \<Rightarrow> string \<Rightarrow> string \<Rightarrow> 's \<Rightarrow> 's \<times> (client_error + recorded)" where
  "ElevateKey sv actor passphrase salt nonce s =
     and_do (local_step (sv_config sv s) s) (\<lambda>cfg s.
     and_do (local_step (ResolveCredential (sv_getenv sv) (sv_read_credential sv) (sv_credential sv s)
       (cf_project_id cfg) actor) s) (\<lambda>primary s.
     and_do (new_key sv s) (\<lambda>priv s.
     let sealed = GenerateEncrypted (sv_crypto sv) (sv_vault sv) (cf_project_id cfg) (ElevatedActor actor)
       passphrase priv salt nonce in
     and_do (executeRemoteWithCredential sv cfg actor ''agent.elevate-key'' actor
       (AgentElevatedKeyRegistered \<lparr>ek_public_key = cd_public_key sealed\<rparr>) primary s) (\<lambda>event s.
       store_credential sv sealed ''elevated key recorded but could not be stored locally: '' event s))))"

definition Archive :: "'s service \<Rightarrow> string \<Rightarrow> 's \<Rightarrow> 's \<times> (client_error + service_event)" where
  "Archive sv actor s =
     and_do (service_State sv s) (\<lambda>(st, _) s.
     let cutoff = sv_clock sv s - 7 * 24 * hour;
         ids = sort (List.map fst (List.filter (\<lambda>(_, t).
           (case tk_completed_at t of None \<Rightarrow> False | Some c \<Rightarrow> before c cutoff) \<and> \<not> tk_archived t) (m_entries (st_tasks st))))
     in Execute sv actor ''archive.run'' ''archive'' (ArchiveRun \<lparr>xr_before = cutoff, xr_task_ids = ids\<rparr>) s)"

subsection \<open>Deleting a project\<close>

text \<open>
  What \<open>DeleteProject\<close> does outside the daemon: to the authority, through its own client, and to this host.
  \<open>ho_schema_version\<close> reads the capabilities (0 without a version); removing a file that is not there is
  no error.
\<close>

record 's deletion_host =
  ho_directory :: string
  ho_client_error :: "config \<Rightarrow> err option"
  ho_capabilities :: "config \<Rightarrow> 's \<Rightarrow> 's \<times> exchange"
  ho_schema_version :: "string \<Rightarrow> int result"
  ho_delete_project :: "config \<Rightarrow> command \<Rightarrow> 's \<Rightarrow> 's \<times> exchange"
  ho_stop_daemon :: "config \<Rightarrow> 's \<Rightarrow> 's \<times> bool \<times> err option"
  ho_delete_credential :: "string \<Rightarrow> string \<Rightarrow> 's \<Rightarrow> 's \<times> err option"
  ho_remove_runtime :: "'s \<Rightarrow> 's \<times> err option"
  ho_remove_bootstrap :: "'s \<Rightarrow> 's \<times> err option"
  ho_remove_legacy :: "'s \<Rightarrow> 's"

record deletion =
  dl_project_id :: string
  dl_runtime_mode :: string
  dl_remote_deleted :: bool
  dl_daemon_stopped :: bool
  dl_keyring_removed :: "string list"
  dl_profiles_removed :: "string list"
  dl_runtime_removed :: bool
  dl_bootstrap_removed :: bool
  dl_warnings :: "string list"

text \<open>Up to the signed command nothing is deleted.\<close>

definition deletion_command ::
  "'s service \<Rightarrow> 's deletion_host \<Rightarrow> string \<Rightarrow> string \<Rightarrow> string \<Rightarrow> 's \<Rightarrow> 's \<times> (client_error + config \<times> state \<times> command)" where
  "deletion_command sv ho actor passphrase confirmDirectoryName s =
     and_do (local_step (sv_config sv s) s) (\<lambda>cfg s.
     and_do (service_State sv s) (\<lambda>(st, _) s.
     if ag_role (agent_of st actor) \<noteq> RoleOwner
     then stop (''project delete: only the project owner can delete a project (actor: '' @ actor @ '')'') s
     else if confirmDirectoryName \<noteq> ho_directory ho
     then stop (''project delete: typed confirmation '' @ quoted confirmDirectoryName @
       '' does not match the project directory name '' @ quoted (ho_directory ho)) s
     else case sv_credential sv s (cf_project_id cfg) (ElevatedActor actor) of
         Inl e \<Rightarrow> (s, Inl (Within (''project delete: '' @ actor @ '' has no registered elevated key -- run `agent-comms agent elevate-key` first: '') (Local e)))
       | Inr sealed \<Rightarrow>
         and_do (decryptElevatedKey sv sealed actor (''deleting project '' @ cf_project_id cfg) passphrase s) (\<lambda>credential s.
         and_do (signed_command sv (cf_project_id cfg) actor ''project.delete'' (cf_project_id cfg) [] credential None s)
           (\<lambda>command s. (s, Inr (cfg, st, command))))))"

abbreviation deletion_schema :: int where "deletion_schema \<equiv> 4"

text \<open>In service mode the authority deletes first; the value says whether it did.\<close>

definition delete_remote ::
  "'s service \<Rightarrow> 's deletion_host \<Rightarrow> config \<Rightarrow> command \<Rightarrow> 's \<Rightarrow> 's \<times> (client_error + bool)" where
  "delete_remote sv ho cfg command s =
     (if cf_runtime_mode cfg \<noteq> ''service'' then (s, Inr False)
      else case ho_client_error ho cfg of Some e \<Rightarrow> (s, Inl (Local e))
      | None \<Rightarrow>
        (case ho_capabilities ho cfg s of (s, x) \<Rightarrow>
        (case authority_answer (rd_failure (sv_decoders sv)) (ho_schema_version ho) 0 x of
           Inl e \<Rightarrow> (s, Inl (Within ''project delete: checking authority capabilities: '' e))
         | Inr schema \<Rightarrow>
           if schema < deletion_schema then stop
             ''project delete: the authority server does not yet support project deletion -- it needs upgrading first'' s
           else (case ho_delete_project ho cfg command s of (s, x) \<Rightarrow>
             (case authority_answer (rd_failure (sv_decoders sv)) (rd_object (sv_decoders sv)) () x of
                Inl e \<Rightarrow> (s, Inl (Within ''project delete: '' e))
              | Inr _ \<Rightarrow> (s, Inr True))))))"

text \<open>Files and credentials of this host: each step may fail, and the next one is taken all the same.\<close>

definition warning :: "string \<Rightarrow> err option \<Rightarrow> string list" where
  "warning what e = (case e of None \<Rightarrow> [] | Some x \<Rightarrow> [what @ err_text x])"

fun removeRuntimeDirectoryWithRetry :: "'s deletion_host \<Rightarrow> nat \<Rightarrow> 's \<Rightarrow> 's \<times> err option" where
  "removeRuntimeDirectoryWithRetry ho attempts s =
     (case ho_remove_runtime ho s of
        (s, None) \<Rightarrow> (s, None)
      | (s, Some e) \<Rightarrow>
          if attempts \<le> 1 then (s, Some e) else removeRuntimeDirectoryWithRetry ho (attempts - 1) s)"

declare removeRuntimeDirectoryWithRetry.simps [simp del]

fun delete_credentials :: "'s deletion_host \<Rightarrow> string \<Rightarrow> string list \<Rightarrow> 's \<Rightarrow> 's \<times> string list" where
  "delete_credentials ho projectID [] s = (s, [])"
| "delete_credentials ho projectID (actor # rest) s =
     (case ho_delete_credential ho projectID actor s of (s, e) \<Rightarrow>
      case delete_credentials ho projectID rest s of (s, gone) \<Rightarrow>
        (s, (if e = None then actor # gone else gone)))"

definition forget_profiles :: "'s service \<Rightarrow> string \<Rightarrow> 's \<Rightarrow> 's \<times> profile list \<times> string list" where
  "forget_profiles sv projectID s =
     (case sv_load_config sv s of
        Inl e \<Rightarrow> (s, [], [''load local identity profiles: '' @ err_text e])
      | Inr user \<Rightarrow>
        (case RemoveProfilesForProject user projectID of (updated, gone) \<Rightarrow>
          (case sv_save_config sv updated s of (s, e) \<Rightarrow> (s, gone, warning ''save local identity profiles: '' e))))"

text \<open>What follows can only warn. The credentials go in the order of a Go map, here sorted.\<close>

definition clean_up ::
  "'s service \<Rightarrow> 's deletion_host \<Rightarrow> config \<Rightarrow> state \<Rightarrow> bool \<Rightarrow> 's \<Rightarrow> 's \<times> deletion" where
  "clean_up sv ho cfg st remote_deleted s =
     (case ho_stop_daemon ho cfg s of (s, stopped, stop_error) \<Rightarrow>
      case forget_profiles sv (cf_project_id cfg) s of (s, gone, profile_warnings) \<Rightarrow>
      case delete_credentials ho (cf_project_id cfg)
          (concat (List.map (\<lambda>a. [a, ElevatedActor a])
            (sort (remdups (List.map fst (m_entries (st_agents st)) @ List.map pr_actor gone))))) s of (s, keys) \<Rightarrow>
      case removeRuntimeDirectoryWithRetry ho 40 s of (s, runtime_error) \<Rightarrow>
      case ho_remove_bootstrap ho s of (s, bootstrap_error) \<Rightarrow>
        (if cf_managed_files cfg < 2 then ho_remove_legacy ho s else s,
         \<lparr>dl_project_id = cf_project_id cfg, dl_runtime_mode = cf_runtime_mode cfg,
          dl_remote_deleted = remote_deleted, dl_daemon_stopped = stopped, dl_keyring_removed = sort keys,
          dl_profiles_removed = sort (List.map pr_name gone), dl_runtime_removed = (runtime_error = None),
          dl_bootstrap_removed = (bootstrap_error = None),
          dl_warnings = warning ''stop daemon: '' stop_error @ profile_warnings @
            warning ''remove runtime directory: '' runtime_error @ warning ''remove .agentcomms: '' bootstrap_error\<rparr>))"

definition service_DeleteProject ::
  "'s service \<Rightarrow> 's deletion_host \<Rightarrow> string \<Rightarrow> string \<Rightarrow> string \<Rightarrow> 's \<Rightarrow> 's \<times> (client_error + deletion)" where
  "service_DeleteProject sv ho actor passphrase confirmDirectoryName s =
     and_do (deletion_command sv ho actor passphrase confirmDirectoryName s) (\<lambda>(cfg, st, command) s.
     and_do (delete_remote sv ho cfg command s) (\<lambda>remote_deleted s.
       case clean_up sv ho cfg st remote_deleted s of (s, d) \<Rightarrow> (s, Inr d)))"

end
