(* ===== verification/Daemon_Facts.thy ===== *)
theory Daemon_Facts
  imports Daemon
begin

text \<open>
  The daemon against its authority. Two interfaces, as locales: what the cache needs of an
  authority's pages (\<open>event_source\<close>), and what the daemon needs of its commands as well
  (\<open>authority_client\<close>). Inside them, synchronising is shown to end with the cache in step, and the
  daemon's own commands to keep it so.
\<close>

subsection \<open>Pages\<close>

text \<open>
  \<open>history\<close> is the log of the project with its receipts, \<open>state_of\<close> the authority's own state. The page
  law is what \<open>Events\<close> promises for a cursor the authority has given out, when it answers.
\<close>

locale event_source =
  fixes de :: "('a, 'o) daemon" and k :: string and sound :: "'a \<Rightarrow> bool"
    and history :: "'a \<Rightarrow> (event \<times> receipt) list" and head_of :: "'a \<Rightarrow> string" and state_of :: "'a \<Rightarrow> state"
  assumes logged: "sound a \<Longrightarrow>
      sound_history (de_crypto de) (de_server_key de) k (history a) (head_of a) (state_of a)"
    and cursors: "sound a \<Longrightarrow> cursors_ok (de_crypto de)"
    and pages: "sound (wo_authority w) \<Longrightarrow> s \<le> length (history (wo_authority w)) \<Longrightarrow>
      DecodeCursor (de_crypto de) cursor = Inr s \<Longrightarrow>
      de_events de w k \<lparr>pg_cursor = cursor, pg_limit = syncPageSize\<rparr> = Inr page \<Longrightarrow>
      ep_items page = take 500 (drop s (history (wo_authority w))) \<and>
      ep_next_cursor page = (if s + 500 < length (history (wo_authority w))
          then EncodeCursor (de_crypto de) (s + 500) else [])"
begin

text \<open>The cache holds the first \<open>n\<close> events; all of them.\<close>

definition holds :: "('a, 'o) world \<Rightarrow> nat \<Rightarrow> bool" where
  "holds w n \<longleftrightarrow> sound (wo_authority w) \<and> n \<le> length (history (wo_authority w)) \<and>
     mirrors (de_crypto de) (List.map fst (history (wo_authority w))) k (wo_cache w) n"

abbreviation in_step :: "('a, 'o) world \<Rightarrow> bool" where
  "in_step w \<equiv> holds w (length (history (wo_authority w)))"

lemma items_apply:
  assumes "holds w n" "i \<le> n"
  shows "\<exists>c. apply_items de (take m (drop i (history (wo_authority w)))) w = (w\<lparr>wo_cache := c\<rparr>, None) \<and>
    holds (w\<lparr>wo_cache := c\<rparr>) (max n (min (i + m) (length (history (wo_authority w)))))"
  using assms
proof (induction m arbitrary: w n i)
  case 0
  then have "holds (w\<lparr>wo_cache := wo_cache w\<rparr>) n" by simp
  with 0 show ?case by (intro exI [of _ "wo_cache w"]) (auto simp: max_def min_def holds_def)
next
  case (Suc m)
  let ?recs = "history (wo_authority w)"
  show ?case
  proof (cases "i < length ?recs")
    case False
    with Suc.prems have "n = length ?recs" by (simp add: holds_def)
    with False Suc.prems show ?thesis by (intro exI [of _ "wo_cache w"]) auto
  next
    case True
    obtain e r where er: "?recs ! i = (e, r)" by fastforce
    from Suc.prems have h: "sound (wo_authority w)" "n \<le> length ?recs"
      "mirrors (de_crypto de) (List.map fst ?recs) k (wo_cache w) n" by (simp_all add: holds_def)
    from copy_one [OF logged [OF h(1)] h(3) Suc.prems(2) h(2) True er] obtain c1 where
      c1: "Apply (de_crypto de) (de_server_key de) (de_clock de w) (wo_cache w) e r = Inr c1"
      "mirrors (de_crypto de) (List.map fst ?recs) k c1 (max n (Suc i))" by blast
    let ?w1 = "w\<lparr>wo_cache := c1\<rparr>"
    have "holds ?w1 (max n (Suc i))" using h c1(2) True by (simp add: holds_def)
    from Suc.IH [OF this, of "Suc i"] obtain c where
      c: "apply_items de (take m (drop (Suc i) ?recs)) ?w1 = (?w1\<lparr>wo_cache := c\<rparr>, None)"
      "holds (?w1\<lparr>wo_cache := c\<rparr>) (max (max n (Suc i)) (min (Suc i + m) (length ?recs)))" by auto
    have drop: "drop i ?recs = (e, r) # drop (Suc i) ?recs" using True er by (simp add: Cons_nth_drop_Suc [symmetric])
    have "max (max n (Suc i)) (min (Suc i + m) (length ?recs)) = max n (min (i + Suc m) (length ?recs))"
      using True by simp
    with c c1(1) show ?thesis by (intro exI [of _ c]) (simp add: drop apply_to_cache_def)
  qed
qed

text \<open>Whatever the cache, the authority answers.\<close>

definition online :: "('a, 'o) world \<Rightarrow> bool" where
  "online w \<longleftrightarrow> (\<forall>c s cursor. s \<le> length (history (wo_authority w)) \<longrightarrow>
     DecodeCursor (de_crypto de) cursor = Inr s \<longrightarrow>
     is_ok (de_events de (w\<lparr>wo_cache := c\<rparr>) k \<lparr>pg_cursor = cursor, pg_limit = syncPageSize\<rparr>))"

lemma online_cache [simp]: "online (w\<lparr>wo_cache := c\<rparr>) = online w"
  by (simp add: online_def)

text \<open>The loop ends. Either every page was copied, or the authority failed to answer on the way.\<close>

lemma pages_copy:
  assumes "holds w n" "s \<le> n" "DecodeCursor (de_crypto de) cursor = Inr s"
    and "length (history (wo_authority w)) - s < fuel" "length (history (wo_authority w)) < 2 ^ 64"
  shows "\<exists>c m. n \<le> m \<and> holds (w\<lparr>wo_cache := c\<rparr>) m \<and>
    (sync_pages fuel de k cursor w = Some (after_sync de k (w\<lparr>wo_cache := c\<rparr>)) \<and>
       m = length (history (wo_authority w)) \<or>
     (\<exists>x. sync_pages fuel de k cursor w = Some (w\<lparr>wo_cache := c\<rparr>, Some x)) \<and> \<not> online w)"
  using assms
proof (induction fuel arbitrary: w n s cursor)
  case (Suc fuel)
  let ?N = "length (history (wo_authority w))"
  let ?request = "\<lparr>pg_cursor = cursor, pg_limit = syncPageSize\<rparr>"
  from Suc.prems(1,2) have sound: "sound (wo_authority w)" and s: "s \<le> ?N" by (auto simp: holds_def)
  show ?case
  proof (cases "de_events de w k ?request")
    case (Inl x)
    have "w\<lparr>wo_cache := wo_cache w\<rparr> = w" by simp
    moreover have "\<not> online w"
    proof
      assume "online w"
      then have "is_ok (de_events de (w\<lparr>wo_cache := wo_cache w\<rparr>) k ?request)"
        using s Suc.prems(3) unfolding online_def by blast
      with Inl show False by simp
    qed
    ultimately show ?thesis using Inl Suc.prems(1)
      by (intro exI [of _ "wo_cache w"] exI [of _ n]) simp
  next
    case (Inr page)
    from pages [OF sound s Suc.prems(3) Inr] have page:
      "ep_items page = take 500 (drop s (history (wo_authority w)))"
      "ep_next_cursor page = (if s + 500 < ?N then EncodeCursor (de_crypto de) (s + 500) else [])" by auto
    from items_apply [OF Suc.prems(1,2), of 500] obtain c where
      c: "apply_items de (ep_items page) w = (w\<lparr>wo_cache := c\<rparr>, None)"
        "holds (w\<lparr>wo_cache := c\<rparr>) (max n (min (s + 500) ?N))" by (auto simp: page(1))
    show ?thesis
    proof (cases "s + 500 < ?N")
      case True
      have cur: "cursors_ok (de_crypto de)" by (rule cursors [OF sound])
      have dec: "DecodeCursor (de_crypto de) (ep_next_cursor page) = Inr (s + 500)"
        using cursor_roundtrip [OF cur] True Suc.prems(5) page(2) by simp
      have ne: "ep_next_cursor page \<noteq> []"
        using cur True page(2) by (simp add: cursors_ok_def EncodeCursor_def)
      have "s + 500 \<le> max n (min (s + 500) ?N)" "?N - (s + 500) < fuel" using True Suc.prems(4) by auto
      with Suc.IH [OF c(2) _ dec] Suc.prems(5) obtain c' m where
        "max n (min (s + 500) ?N) \<le> m" "holds (w\<lparr>wo_cache := c'\<rparr>) m"
        "sync_pages fuel de k (ep_next_cursor page) (w\<lparr>wo_cache := c\<rparr>) =
           Some (after_sync de k (w\<lparr>wo_cache := c'\<rparr>)) \<and> m = ?N \<or>
         (\<exists>x. sync_pages fuel de k (ep_next_cursor page) (w\<lparr>wo_cache := c\<rparr>) = Some (w\<lparr>wo_cache := c'\<rparr>, Some x)) \<and>
           \<not> online w" by auto
      then show ?thesis using Inr c(1) ne by (intro exI [of _ c'] exI [of _ m]) simp
    next
      case False
      moreover have "max n (min (s + 500) ?N) = ?N" using False Suc.prems(1) by (simp add: holds_def)
      ultimately show ?thesis using Inr page(2) c Suc.prems(1)
        by (intro exI [of _ c] exI [of _ ?N]) (simp add: holds_def)
    qed
  qed
qed simp

lemma cached_length:
  assumes "holds w n"
  shows "cached_sequence (wo_cache w) k = n"
  using assms unfolding holds_def mirrors_def
  by (auto simp: cached_sequence_def cache_State_def loadProject_def split: option.splits)

lemma sync_copies:
  assumes "holds w n" "length (history (wo_authority w)) - n < fuel" "length (history (wo_authority w)) < 2 ^ 64"
  shows "\<exists>c m. n \<le> m \<and> holds (w\<lparr>wo_cache := c\<rparr>) m \<and>
    (syncProject fuel de k w = Some (after_sync de k (w\<lparr>wo_cache := c\<rparr>)) \<and>
       m = length (history (wo_authority w)) \<or>
     (\<exists>x. syncProject fuel de k w = Some (w\<lparr>wo_cache := c\<rparr>, Some x)) \<and> \<not> online w)"
proof -
  from assms(1) have "sound (wo_authority w)" "n \<le> length (history (wo_authority w))" by (simp_all add: holds_def)
  with cursors assms(3) have "DecodeCursor (de_crypto de) (EncodeCursor (de_crypto de) n) = Inr n"
    by (intro cursor_roundtrip) (auto intro: le_less_trans)
  from pages_copy [OF assms(1) _ this assms(2,3)] show ?thesis
    unfolding syncProject_def cached_length [OF assms(1)] by simp
qed

text \<open>A cache in step serves the authority's state.\<close>

lemma in_step_state:
  assumes "in_step w" "history (wo_authority w) \<noteq> []"
  shows "\<exists>p. m_get (ca_projects (wo_cache w)) k = Some p \<and> cp_state p = state_of (wo_authority w) \<and>
    cp_sequence p = length (history (wo_authority w)) \<and> cp_head p = head_of (wo_authority w)"
proof -
  from assms(1) have "sound (wo_authority w)" by (simp add: holds_def)
  from logged [OF this] have "log_ok (de_crypto de) k (List.map fst (history (wo_authority w)))
      (length (history (wo_authority w))) (head_of (wo_authority w)) (state_of (wo_authority w))"
    by (simp add: sound_history_def)
  from mirrors_all [OF _ this, of "wo_cache w"] assms show ?thesis by (simp add: holds_def)
qed

end

end
