(* ===== verification/Daemon_Safety.thy ===== *)
theory Daemon_Safety
  imports Daemon_Facts Dispatch_Facts
begin

text \<open>
  What a daemon keeps whatever it is asked: its cache holds a beginning of the authority's log, the log
  only grows, and the beginning does too. The locale \<open>authority_client\<close> adds to \<open>event_source\<close> what the
  daemon needs of an authority's commands and of the outside; it is interpreted on the personal daemon.
\<close>

definition only_outside :: "('a, 'o) world \<Rightarrow> ('a, 'o) world \<Rightarrow> bool" where
  "only_outside w w' \<longleftrightarrow> (\<exists>x. w' = w\<lparr>wo_outside := x\<rparr>)"

locale authority_client = event_source de k sound history head_of state_of
  for de :: "('a, 'o) daemon" and k sound history head_of state_of +
  fixes allowed :: "string \<Rightarrow> bool"
  assumes answered: "sound (wo_authority w) \<Longrightarrow> cm_project_id c = k \<Longrightarrow> allowed (cm_idempotency_key c) \<Longrightarrow>
      de_command de c w = (w', res) \<Longrightarrow>
      wo_cache w' = wo_cache w \<and> sound (wo_authority w') \<and>
      (\<exists>more. history (wo_authority w') = history (wo_authority w) @ more \<and> length more \<le> 1) \<and>
      (\<forall>e r. res = Inr (e, r) \<longrightarrow> (e, r) \<in> set (history (wo_authority w')))"
    and fresh_keys: "sound (wo_authority w) \<Longrightarrow> de_uuid de w = (w', u) \<Longrightarrow> only_outside w w' \<and> allowed u"
    and dispatcher_outside: "sound (wo_authority w) \<Longrightarrow> de_dispatcher de = Some dp \<Longrightarrow>
      (dp_uuid dp w = (w1, u) \<longrightarrow> only_outside w w1) \<and>
      (dp_perform dp l w = (w2, e) \<longrightarrow> only_outside w w2) \<and>
      (dp_notify dp root r a i b w = (w3, x) \<longrightarrow> only_outside w w3)"
begin

text \<open>At least \<open>m\<close> events are cached, and those of \<open>base\<close> are on record.\<close>

definition reached :: "nat \<Rightarrow> (event \<times> receipt) list \<Rightarrow> ('a, 'o) world \<Rightarrow> bool" where
  "reached m base w \<longleftrightarrow> (\<exists>n\<ge>m. holds w n) \<and> prefix base (history (wo_authority w))"

lemma holds_reached: "holds w n \<Longrightarrow> reached n (history (wo_authority w)) w"
  by (auto simp: reached_def)

lemma reached_sound: "reached m base w \<Longrightarrow> sound (wo_authority w)"
  by (auto simp: reached_def holds_def)

lemma reached_outside: "reached m base w \<Longrightarrow> only_outside w w' \<Longrightarrow> reached m base w'"
  by (auto simp: reached_def only_outside_def holds_def)

lemma reached_configs: "reached m base w \<Longrightarrow> reached m base (w\<lparr>wo_configs := c\<rparr>)"
  by (auto simp: reached_def holds_def)

lemma reached_less: "reached m base w \<Longrightarrow> l \<le> m \<Longrightarrow> prefix b base \<Longrightarrow> reached l b w"
  by (auto simp: reached_def intro: le_trans prefix_order.trans)

lemma command_reached:
  assumes "reached m base w" "cm_project_id c = k" "allowed (cm_idempotency_key c)"
    and "de_command de c w = (w', res)"
  shows "reached m base w'" "res = Inr (e, r) \<Longrightarrow> (e, r) \<in> set (history (wo_authority w'))"
proof -
  from assms(1) obtain n where n: "m \<le> n" "holds w n" "prefix base (history (wo_authority w))"
    by (auto simp: reached_def)
  then have "sound (wo_authority w)" by (simp add: holds_def)
  from answered [OF this assms(2-4)] obtain more where a: "wo_cache w' = wo_cache w" "sound (wo_authority w')"
    "history (wo_authority w') = history (wo_authority w) @ more"
    "\<And>e r. res = Inr (e, r) \<Longrightarrow> (e, r) \<in> set (history (wo_authority w'))" by blast
  from n(2) a(1-3) have "holds w' n" by (simp add: holds_def mirrors_def)
  with n a(3) show "reached m base w'" by (auto simp: reached_def)
  show "res = Inr (e, r) \<Longrightarrow> (e, r) \<in> set (history (wo_authority w'))" by (rule a(4))
qed

text \<open>Applying an event of the authority can fail for a gap, but never goes wrong.\<close>

lemma apply_reached:
  assumes "reached m base w" "(e, r) \<in> set (history (wo_authority w))"
    and "apply_to_cache de e r w = Inr w'"
  shows "reached m base w'" "reached (ce_sequence e) base w'" "history (wo_authority w') = history (wo_authority w)"
proof -
  let ?recs = "history (wo_authority w)"
  from assms(1) obtain n where n: "m \<le> n" "holds w n" "prefix base ?recs" by (auto simp: reached_def)
  then have h: "sound (wo_authority w)" "n \<le> length ?recs"
    "mirrors (de_crypto de) (List.map fst ?recs) k (wo_cache w) n" by (simp_all add: holds_def)
  from assms(2) obtain i where i: "i < length ?recs" "?recs ! i = (e, r)" by (auto simp: in_set_conv_nth)
  from assms(3) obtain c where c: "w' = w\<lparr>wo_cache := c\<rparr>"
    "Apply (de_crypto de) (de_server_key de) (de_clock de w) (wo_cache w) e r = Inr c"
    by (auto simp: apply_to_cache_def)
  have log: "log_ok (de_crypto de) k (List.map fst ?recs) (length ?recs) (head_of (wo_authority w))
      (state_of (wo_authority w))"
    using logged [OF h(1)] by (simp add: sound_history_def)
  have ei: "List.map fst ?recs ! i = e" using i by simp
  have "i \<le> n"
  proof (rule ccontr)
    assume "\<not> i \<le> n"
    with copy_gap [OF h(3) log, of i] i c(2) ei show False by simp
  qed
  from copy_one [OF logged [OF h(1)] h(3) this h(2) i, where now = "de_clock de w"] c(2) have
    "mirrors (de_crypto de) (List.map fst ?recs) k c (max n (Suc i))" by auto
  then have "holds w' (max n (Suc i))" using h i(1) c(1) by (simp add: holds_def)
  moreover have "ce_sequence e = Suc i" using log_ok_nth [OF log i(1)] ei by simp
  ultimately show "reached m base w'" "reached (ce_sequence e) base w'"
    using n c(1) unfolding reached_def by (auto intro: exI [of _ "max n (Suc i)"])
  show "history (wo_authority w') = history (wo_authority w)" using c(1) by simp
qed

lemma signed_parts:
  "command_sign cr key c = Inr c' \<Longrightarrow> cm_project_id c' = cm_project_id c \<and> cm_idempotency_key c' = cm_idempotency_key c"
  by (auto simp: command_sign_def split: option.splits)

lemma submit_reached:
  assumes "reached m base w" "submitConnectorCommand de k actor t x p w = (w', e)"
  shows "reached m base w'"
proof (rule ccontr)
  assume no: "\<not> reached m base w'"
  obtain w1 u where u: "de_uuid de w = (w1, u)" by fastforce
  have w1: "reached m base w1" "allowed u"
    using fresh_keys [OF reached_sound [OF assms(1)] u] reached_outside [OF assms(1)] by auto
  from no assms u w1 obtain raw key c where c: "EncodePayload (de_crypto de) t p = Inr raw"
    "de_credential de w k actor = Inr key"
    "command_sign (de_crypto de) key \<lparr>cm_project_id = k, cm_actor = actor, cm_type = t, cm_entity_id = x,
       cm_payload = raw, cm_idempotency_key = u, cm_issued_at = de_clock de w1,
       cm_expected_sequence = 0, cm_public_key = [], cm_signature = []\<rparr> = Inr c"
    by (auto simp: submitConnectorCommand_def split: sum.splits)
  from signed_parts [OF c(3)] have parts: "cm_project_id c = k" "cm_idempotency_key c = u" by simp_all
  obtain w2 res where r: "de_command de c w1 = (w2, res)" by fastforce
  with command_reached [OF w1(1) parts(1)] parts(2) w1(2) have w2: "reached m base w2"
    "\<And>ev rc. res = Inr (ev, rc) \<Longrightarrow> (ev, rc) \<in> set (history (wo_authority w2))" by auto
  show False
  proof (cases res)
    case (Inl f)
    with assms(2) c u r have "w' = w2" by (auto simp: submitConnectorCommand_def)
    with w2(1) no show False by simp
  next
    case (Inr er)
    obtain ev rc where er: "er = (ev, rc)" by fastforce
    with Inr have mem: "(ev, rc) \<in> set (history (wo_authority w2))" using w2(2) by blast
    from Inr er assms(2) c u r have "w' = w2 \<or> apply_to_cache de ev rc w2 = Inr w'"
      by (auto simp: submitConnectorCommand_def split: sum.splits)
    with w2(1) no apply_reached(1) [OF w2(1) mem] show False by blast
  qed
qed

end

text \<open>So the dispatcher of such a daemon keeps all this too.\<close>

sublocale authority_client \<subseteq> dispatching: dispatcher_keeps "dispatcher_of de dp" k
  "\<lambda>w. de_dispatcher de = Some dp \<and> reached m base w" for dp m base
  by unfold_locales (auto simp: dispatcher_of_def intro: submit_reached
      dest: dispatcher_outside [OF reached_sound] reached_outside)

context authority_client
begin

lemma run_dispatch_reached:
  assumes "reached m base w" "de_dispatcher de = Some dp" "run_dispatch de dp k st w = (w', e)"
  shows "reached m base w'"
proof -
  obtain w1 configs x where d: "Dispatch (dispatcher_of de dp) (wo_configs w) k st w = (w1, configs, x)"
    by (metis prod_cases3)
  with assms dispatching.Dispatch_keeps [of dp m base w] have "reached m base w1" by blast
  with d assms(3) show ?thesis by (auto simp: run_dispatch_def intro: reached_configs)
qed

lemma after_sync_reached:
  assumes "reached m base w" "after_sync de k w = (w', e)"
  shows "reached m base w'"
  using assms by (auto simp: after_sync_def split: option.splits sum.splits prod.splits dest: run_dispatch_reached)

text \<open>
  A synchronisation ends. The cache has lost nothing by it, and if it succeeded holds every event the
  authority had; it can only fail if the authority or the dispatcher did.
\<close>

lemma sync_reached:
  assumes "holds w n" "length (history (wo_authority w)) - n < fuel" "length (history (wo_authority w)) < 2 ^ 64"
  shows "\<exists>w' x. syncProject fuel de k w = Some (w', x) \<and> reached n (history (wo_authority w)) w' \<and>
    (x = None \<longrightarrow> reached (length (history (wo_authority w))) (history (wo_authority w)) w') \<and>
    (x \<noteq> None \<and> de_dispatcher de = None \<longrightarrow> \<not> online w)"
proof -
  let ?h = "history (wo_authority w)"
  from sync_copies [OF assms] obtain c m where c: "n \<le> m" "holds (w\<lparr>wo_cache := c\<rparr>) m" and
    d: "syncProject fuel de k w = Some (after_sync de k (w\<lparr>wo_cache := c\<rparr>)) \<and> m = length ?h \<or>
      (\<exists>x. syncProject fuel de k w = Some (w\<lparr>wo_cache := c\<rparr>, Some x)) \<and> \<not> online w" by blast
  from holds_reached [OF c(2)] have r: "reached m ?h (w\<lparr>wo_cache := c\<rparr>)" by simp
  obtain w' x where a: "after_sync de k (w\<lparr>wo_cache := c\<rparr>) = (w', x)" by fastforce
  from after_sync_reached [OF r a] have "reached m ?h w'" .
  moreover from a have "de_dispatcher de = None \<Longrightarrow> x = None" by (auto simp: after_sync_def)
  ultimately show ?thesis using d
  proof (elim disjE)
    assume "reached m ?h w'" "de_dispatcher de = None \<Longrightarrow> x = None"
      "syncProject fuel de k w = Some (after_sync de k (w\<lparr>wo_cache := c\<rparr>)) \<and> m = length ?h"
    with a c(1) reached_less [of m ?h w' n ?h] show ?thesis by auto
  next
    assume "(\<exists>x. syncProject fuel de k w = Some (w\<lparr>wo_cache := c\<rparr>, Some x)) \<and> \<not> online w"
    with r c(1) reached_less [of m ?h "w\<lparr>wo_cache := c\<rparr>" n ?h] show ?thesis by auto
  qed
qed

lemma cache_serves:
  assumes "holds w n" "cache_State (wo_cache w) k = Inr (st, md)"
  shows "\<exists>st0 h. log_ok (de_crypto de) k (take n (List.map fst (history (wo_authority w)))) n h st0 \<and>
    st = st0\<lparr>st_integrity := \<lparr>ig_verified = True, ig_event_count = int n, ig_head = h,
      ig_sync_state = ''verified-cache''\<rparr>\<rparr> \<and>
    md_cache_sequence md = n \<and> md_connectivity md = ''OFFLINE''"
  using assms by (auto simp: holds_def mirrors_def cache_State_def loadProject_def split: option.splits) blast

text \<open>What a read answers, and when it may call itself current.\<close>

lemma state_reached:
  assumes "holds w n" "length (history (wo_authority w)) - n < fuel" "length (history (wo_authority w)) < 2 ^ 64"
  shows "\<exists>w' res. state_handler fuel de k w = Some (w', res) \<and> reached n (history (wo_authority w)) w' \<and>
    (\<forall>st md. res = Inr (st, md) \<longrightarrow>
      (\<exists>m st0 h. n \<le> m \<and> holds w' m \<and>
        log_ok (de_crypto de) k (take m (List.map fst (history (wo_authority w')))) m h st0 \<and>
        st = st0\<lparr>st_integrity := \<lparr>ig_verified = True, ig_event_count = int m, ig_head = h,
          ig_sync_state = ''verified-cache''\<rparr>\<rparr> \<and>
        md_cache_sequence md = m \<and>
        (md_connectivity md \<noteq> ''OFFLINE'' \<longrightarrow> length (history (wo_authority w)) \<le> m))) \<and>
    (de_dispatcher de = None \<and> online w \<and> history (wo_authority w) \<noteq> [] \<longrightarrow>
      (\<exists>st md. res = Inr (st, md) \<and> md_connectivity md \<noteq> ''OFFLINE''))"
proof -
  let ?h = "history (wo_authority w)"
  from sync_reached [OF assms] obtain w' x where s: "syncProject fuel de k w = Some (w', x)"
    "reached n ?h w'" "x = None \<Longrightarrow> reached (length ?h) ?h w'"
    "x \<noteq> None \<Longrightarrow> de_dispatcher de = None \<Longrightarrow> \<not> online w" by blast
  from s(2,3) obtain m where m: "n \<le> m" "holds w' m" "x = None \<Longrightarrow> length ?h \<le> m"
    unfolding reached_def by (cases x) (auto intro: order.trans, metis linorder_le_cases order.trans)
  show ?thesis
  proof (cases "cache_State (wo_cache w') k")
    case (Inl e)
    have "m = 0"
      using Inl m(2) by (auto simp: cache_State_def holds_def mirrors_def loadProject_def split: option.splits)
    with m(3) s(4) have "\<not> (de_dispatcher de = None \<and> online w \<and> ?h \<noteq> [])" by (cases x) auto
    then show ?thesis using s(1,2) Inl by (simp add: state_handler_def)
  next
    case (Inr sm)
    obtain st md where sm: "sm = (st, md)" by fastforce
    from cache_serves [OF m(2) Inr [unfolded sm]] obtain st0 h where
      c: "log_ok (de_crypto de) k (take m (List.map fst (history (wo_authority w')))) m h st0"
      "st = st0\<lparr>st_integrity := \<lparr>ig_verified = True, ig_event_count = int m, ig_head = h,
        ig_sync_state = ''verified-cache''\<rparr>\<rparr>" "md_cache_sequence md = m" "md_connectivity md = ''OFFLINE''" by blast
    let ?md = "if x = None then metadata de (md_cache_sequence md) else md"
    have md: "md_cache_sequence ?md = m" "x \<noteq> None \<Longrightarrow> md_connectivity ?md = ''OFFLINE''"
      "x = None \<Longrightarrow> md_connectivity ?md \<noteq> ''OFFLINE''" using c(3,4) by (auto simp: metadata_def)
    have "state_handler fuel de k w = Some (w', Inr (st, ?md))"
      using s(1) Inr sm by (simp add: state_handler_def)
    moreover have "x \<noteq> None \<or> length ?h \<le> m" using m(3) by auto
    ultimately show ?thesis using s(2,4) m(1,2) c(1,2) md by (intro exI [of _ w'] exI [of _ "Inr (st, ?md)"]) blast
  qed
qed

lemma gate_reached:
  assumes "holds w n" "runtime_gate de c w = (w', e)"
  shows "holds w' n" "wo_authority w' = wo_authority w"
  using assms by (auto simp: runtime_gate_def holds_def split: option.splits if_splits sum.splits prod.splits)

lemma deliver_reached:
  assumes "reached m base w" "cm_project_id c = k" "deliver_now de c e w = (w', x)"
  shows "reached m base w'"
proof (rule ccontr)
  assume no: "\<not> reached m base w'"
  with assms(1,3) obtain dp where dp: "de_dispatcher de = Some dp"
    by (auto simp: deliver_now_def split: option.splits)
  from assms(2,3) dp have "w' = w \<or> (\<exists>st y. run_dispatch de dp k st w = (w', y)) \<or>
      (\<exists>i j st y w1 configs. DeliverAttempt (dispatcher_of de dp) (wo_configs w) k i j st w = (w1, configs, y) \<and>
        w' = w1\<lparr>wo_configs := configs\<rparr>)"
    by (auto simp: deliver_now_def Let_def split: if_splits sum.splits prod.splits payload.splits) blast
  with assms(1) no run_dispatch_reached [OF assms(1) dp] dispatching.DeliverAttempt_keeps [of dp m base w]
    dp reached_configs show False by blast
qed

lemma accepted_reached:
  assumes "reached m base w" "cm_project_id c = k"
  obtains w' x where "accepted_reply de c e r w = (w', Inr \<lparr>cr_event = e, cr_metadata = metadata de (ce_sequence e),
      cr_receipt = r, cr_delivery_error = x\<rparr>)" "\<And>l b. reached l b w \<Longrightarrow> reached l b w'"
proof -
  obtain w' x where d: "deliver_now de c e w = (w', x)" by fastforce
  with that [of w' x] deliver_reached [OF _ assms(2) d] show thesis by (simp add: accepted_reply_def)
qed

text \<open>A reply to the client, once the event is cached.\<close>

definition confirmed :: "nat \<Rightarrow> (event \<times> receipt) list \<Rightarrow> ('a, 'o) world \<times> (fault + command_reply) \<Rightarrow> bool" where
  "confirmed m base out \<longleftrightarrow> reached m base (fst out) \<and>
     (\<forall>reply. snd out = Inr reply \<longrightarrow>
        (cr_event reply, cr_receipt reply) \<in> set (history (wo_authority (fst out))) \<and>
        reached (ce_sequence (cr_event reply)) base (fst out))"

lemma reply_confirmed:
  assumes "reached m base w" "reached (ce_sequence e) base w" "(e, r) \<in> set (history (wo_authority w))"
    and "cm_project_id c = k"
  shows "confirmed m base (accepted_reply de c e r w)"
proof -
  have "reached 0 (history (wo_authority w)) w" using assms(1) by (auto simp: reached_def)
  with assms accepted_reached [OF assms(1,4)] show ?thesis
    by (smt (verit, ccfv_threshold) confirmed_def fst_conv snd_conv Inr_inject command_reply.select_convs(1,3)
        reached_def prefix_def set_append UnI1)
qed

lemma sequence_within:
  assumes "sound a" "(e, r) \<in> set (history a)"
  shows "ce_sequence e \<le> length (history a)"
proof -
  from assms(2) obtain i where i: "i < length (history a)" "history a ! i = (e, r)"
    by (auto simp: in_set_conv_nth)
  with log_ok_nth [of "de_crypto de" k "List.map fst (history a)"] logged [OF assms(1)] show ?thesis
    by (fastforce simp: sound_history_def)
qed

text \<open>If the event cannot be applied, for a gap, a synchronisation that succeeds brings it.\<close>

lemma recovered:
  assumes "reached m base w" "(e, r) \<in> set (history (wo_authority w))"
    and "length (history (wo_authority w)) - m < fuel" "length (history (wo_authority w)) < 2 ^ 64"
  shows "\<exists>w' x. syncProject fuel de k w = Some (w', x) \<and> reached m base w' \<and>
    (x = None \<longrightarrow> reached (ce_sequence e) base w' \<and> (e, r) \<in> set (history (wo_authority w')))"
proof -
  let ?h = "history (wo_authority w)"
  from assms(1) obtain n where n: "m \<le> n" "holds w n" and base: "prefix base ?h" by (auto simp: reached_def)
  then have "length ?h - n < fuel" using assms(3) by linarith
  with sync_reached [OF n(2) _ assms(4)] obtain w' x where s: "syncProject fuel de k w = Some (w', x)"
    "reached n ?h w'" "x = None \<Longrightarrow> reached (length ?h) ?h w'" by blast
  have "ce_sequence e \<le> length ?h" using sequence_within [OF _ assms(2)] n(2) by (simp add: holds_def)
  then have "x = None \<Longrightarrow> reached (ce_sequence e) base w'" using s(3) reached_less base by blast
  moreover have "(e, r) \<in> set (history (wo_authority w'))"
    using s(2) assms(2) by (auto simp: reached_def prefix_def)
  ultimately show ?thesis using s(1) reached_less [OF s(2) n(1) base] by blast
qed

text \<open>
  Every command is answered. One that was accepted is on record when the answer comes, and in
  the cache, wherever the cache stood before.
\<close>

lemma command_answered:
  assumes "holds w n" "cm_project_id c = k" "allowed (cm_idempotency_key c)"
    and "Suc (length (history (wo_authority w))) - n < fuel" "Suc (length (history (wo_authority w))) < 2 ^ 64"
  shows "\<exists>out. command_handler fuel de k c w = Some out \<and> confirmed n (history (wo_authority w)) out"
proof -
  let ?h = "history (wo_authority w)"
  obtain w1 x where g: "runtime_gate de c w = (w1, x)" by fastforce
  note w1 = gate_reached [OF assms(1) g]
  have r1: "reached n ?h w1" using holds_reached [OF w1(1)] w1(2) by simp
  obtain w2 res where r: "de_command de c w1 = (w2, res)" by fastforce
  from command_reached [OF r1 assms(2,3) r] have w2: "reached n ?h w2"
    "\<And>e r. res = Inr (e, r) \<Longrightarrow> (e, r) \<in> set (history (wo_authority w2))" by auto
  have len: "length (history (wo_authority w2)) \<le> Suc (length ?h)"
    using answered [OF _ assms(2,3) r] w1 by (force simp: holds_def)
  show ?thesis
  proof (cases x; cases res)
    fix er assume "x = None" "res = Inr er"
    obtain e rc where er: "er = (e, rc)" by fastforce
    with \<open>res = Inr er\<close> w2(2) have mem: "(e, rc) \<in> set (history (wo_authority w2))" by blast
    show ?thesis
    proof (cases "apply_to_cache de e rc w2")
      case (Inr w3)
      note a = apply_reached [OF w2(1) mem Inr]
      have "confirmed n ?h (accepted_reply de c e rc w3)"
        by (rule reply_confirmed [OF a(1,2) _ assms(2)]) (simp add: a(3) mem)
      then show ?thesis using g r Inr er \<open>res = Inr er\<close> \<open>x = None\<close> assms(2) by (simp add: command_handler_def)
    next
      case (Inl y)
      have "length (history (wo_authority w2)) - n < fuel" "length (history (wo_authority w2)) < 2 ^ 64"
        using len assms(4,5) by linarith+
      from recovered [OF w2(1) mem this] obtain w3 z where s: "syncProject fuel de k w2 = Some (w3, z)"
        "reached n ?h w3" "z = None \<Longrightarrow> reached (ce_sequence e) ?h w3 \<and> (e, rc) \<in> set (history (wo_authority w3))"
        by blast
      then show ?thesis using g r Inl er \<open>res = Inr er\<close> \<open>x = None\<close> assms(2) reply_confirmed [OF s(2) _ _ assms(2), of e rc]
        by (cases z) (auto simp: command_handler_def confirmed_def)
    qed
  qed (use g r r1 w2(1) assms(2) in \<open>auto simp: command_handler_def confirmed_def\<close>)
qed

end

subsection \<open>The personal daemon\<close>

text \<open>
  What is asked of the outside: new idempotency keys are not of the reserved legacy form, and a
  connector, a terminal or a clock does not reach into the daemon's own tables.
\<close>

definition quiet :: "('a, 'o) daemon \<Rightarrow> bool" where
  "quiet d \<longleftrightarrow>
     (\<forall>w w' u. de_uuid d w = (w', u) \<longrightarrow> only_outside w w' \<and> \<not> has_prefix u ''legacy:'') \<and>
     (\<forall>dp. de_dispatcher d = Some dp \<longrightarrow>
        (\<forall>w w' u. dp_uuid dp w = (w', u) \<longrightarrow> only_outside w w') \<and>
        (\<forall>w w' l e. dp_perform dp l w = (w', e) \<longrightarrow> only_outside w w') \<and>
        (\<forall>w w' root r a i b x. dp_notify dp root r a i b w = (w', x) \<longrightarrow> only_outside w w'))"

definition equipped :: "crypto \<Rightarrow> string \<Rightarrow> ('a, 'o) daemon \<Rightarrow> bool" where
  "equipped cr priv d \<longleftrightarrow> signs cr priv (de_server_key d) \<and> cursors_ok cr \<and> quiet d"

definition records :: "string \<Rightarrow> db \<Rightarrow> (event \<times> receipt) list" where
  "records k a = List.map record_of (project_rows a k)"

definition project_of :: "string \<Rightarrow> db \<Rightarrow> project_row" where
  "project_of k a = the (m_get (db_projects a) k)"

text \<open>A project of a personal authority that works as it should.\<close>

definition in_use :: "crypto \<Rightarrow> string \<Rightarrow> string \<Rightarrow> db \<Rightarrow> bool" where
  "in_use cr priv k a \<longleftrightarrow> reachable cr priv a \<and> m_has (db_projects a) k \<and>
     (\<forall>e\<in>set (project_log a k). \<not> has_prefix (ce_idempotency_key e) ''legacy:'')"

lemma in_use_parts:
  assumes "in_use cr priv k a" "signs cr priv serverKey"
  shows "sound_history cr serverKey k (records k a) (pj_head (project_of k a)) (pj_state (project_of k a))"
    "List.map fst (records k a) = project_log a k" "length (records k a) = pj_sequence (project_of k a)"
    "m_get (db_projects a) k = Some (project_of k a)"
proof -
  from assms(1) obtain row where row: "m_get (db_projects a) k = Some row" "reachable cr priv a"
    "\<forall>e\<in>set (project_log a k). \<not> has_prefix (ce_idempotency_key e) ''legacy:''"
    by (auto simp: in_use_def m_has_def)
  then have eq: "project_of k a = row" by (simp add: project_of_def)
  from authority_sound [OF row(2,1) assms(2) row(3)] row(1)
  show "sound_history cr serverKey k (records k a) (pj_head (project_of k a)) (pj_state (project_of k a))"
    "List.map fst (records k a) = project_log a k" "length (records k a) = pj_sequence (project_of k a)"
    "m_get (db_projects a) k = Some (project_of k a)" by (simp_all add: records_def eq)
qed

text \<open>A command of the personal authority: what was on record stays, at most one event is added.\<close>

lemma mutate_records:
  assumes "in_use cr priv k a" "cm_project_id c = k" "\<not> has_prefix (cm_idempotency_key c) ''legacy:''"
    and "Mutate cr priv now a c = Inr (a', e, r)"
  shows "in_use cr priv k a' \<and> (\<exists>more. records k a' = records k a @ more \<and> length more \<le> 1) \<and>
    (e, r) \<in> set (records k a')"
proof -
  from assms(1) have u: "reachable cr priv a" "m_has (db_projects a) k"
    "\<forall>e\<in>set (project_log a k). \<not> has_prefix (ce_idempotency_key e) ''legacy:''" by (simp_all add: in_use_def)
  have "step cr priv a (Submit now c) = Inr a'" using assms(4) by (simp add: step_def)
  then have reach: "reachable cr priv a'" by (rule reachable_step [OF u(1)])
  from assms(4) show ?thesis
  proof (cases rule: Mutate_Inr)
    case (replayed row intent)
    then obtain x where "x \<in> set (db_events a)" "er_project x = k" "er_event x = e" "er_receipt x = r"
      using assms(2) by (auto simp: replay_def find_Some_iff split: option.splits) (metis nth_mem)
    then have "(e, r) \<in> set (records k a)"
      by (auto simp: records_def project_rows_def record_of_def intro!: image_eqI [of _ _ x])
    with replayed(4) assms(1) show ?thesis by simp
  next
    case (fresh row intent t q fp)
    from fresh(5) obtain payload st' where
      e: "e = (new_event row c intent fp payload (microseconds now))\<lparr>ce_hash := ce_hash e\<rparr>"
      and a': "a' = a\<lparr>db_events := db_events a @ [new_row e r (cm_signature c)],
        db_projects := m_put (cm_project_id c) (row\<lparr>pj_sequence := pj_sequence row + 1,
          pj_head := ce_hash e, pj_state := st', pj_updated := microseconds now\<rparr>) (db_projects a)\<rparr>"
      by (rule commit_Inr)
    have sel: "ce_project_id e = k" "ce_idempotency_key e = cm_idempotency_key c" by (subst e, simp add: assms(2))+
    have "records k a' = records k a @ [(e, r)]"
      by (simp add: records_def a' project_rows_def sel record_of_def new_row_def)
    moreover have "project_log a' k = project_log a k @ [e]"
      by (simp add: a' project_log_def sel new_row_def)
    ultimately show ?thesis using reach u(2,3) sel(2) assms(2,3) a'
      by (auto simp: in_use_def m_has_def m_gets)
  qed
qed

definition well_run :: "crypto \<Rightarrow> string \<Rightarrow> ('a, 'o) daemon \<Rightarrow> string \<Rightarrow> db \<Rightarrow> bool" where
  "well_run cr priv d k a \<longleftrightarrow> equipped cr priv d \<and> in_use cr priv k a"

interpretation personal: authority_client "personal_daemon cr priv driver d" k
  "well_run cr priv d k" "records k" "\<lambda>a. pj_head (project_of k a)"
  "\<lambda>a. pj_state (project_of k a)" "\<lambda>u. \<not> has_prefix u ''legacy:''" for cr priv driver d k
proof (unfold_locales, goal_cases)
  case (1 a)
  then show ?case using in_use_parts(1) by (auto simp: well_run_def equipped_def)
next
  case 2
  then show ?case by (simp add: well_run_def equipped_def)
next
  case (3 w s cursor page)
  then have u: "in_use cr priv k (wo_authority w)" "signs cr priv (de_server_key d)" by (simp_all add: well_run_def equipped_def)
  note parts = in_use_parts [OF u]
  have good: "good cr (wo_authority w)" using u(1) reachable_good [of cr priv] by (auto simp: in_use_def)
  have "DecodeCursor cr cursor = Inr s" "s \<le> pj_sequence (project_of k (wo_authority w))"
    using 3(2,3) parts(3) by simp_all
  from page_of [OF good parts(4) _ _ this, of syncPageSize 500] obtain page' where
    p: "Events cr (wo_authority w) k \<lparr>pg_cursor = cursor, pg_limit = syncPageSize\<rparr> = Inr page'"
    "ep_items page' = List.map record_of (take 500 (drop s (project_rows (wo_authority w) k)))"
    "ep_next_cursor page' = (if s + 500 < pj_sequence (project_of k (wo_authority w)) then EncodeCursor cr (s + 500) else [])"
    by (auto simp: BoundedLimit_def)
  moreover have "page' = page" using 3(4) p(1) by (simp add: personal_daemon_def split: option.splits)
  ultimately show ?case using parts(3) by (simp add: records_def take_map drop_map)
next
  case (4 w c w' res)
  then show ?case using mutate_records [of cr priv k "wo_authority w" c]
    by (auto simp: well_run_def personal_daemon_def split: option.splits sum.splits prod.splits)
next
  case 5
  then show ?case by (auto simp: well_run_def equipped_def quiet_def)
next
  case (6 w dp)
  then show ?case by (simp add: well_run_def equipped_def quiet_def) blast
qed

text \<open>The cache of a world holds the first \<open>n\<close> events of the project, which is in use.\<close>

definition tracks :: "crypto \<Rightarrow> string \<Rightarrow> string \<Rightarrow> (db, 'o) world \<Rightarrow> nat \<Rightarrow> bool" where
  "tracks cr priv k w n \<longleftrightarrow> in_use cr priv k (wo_authority w) \<and> n \<le> length (project_log (wo_authority w) k) \<and>
     mirrors cr (project_log (wo_authority w) k) k (wo_cache w) n"

lemma tracks_holds:
  assumes "equipped cr priv d"
  shows "personal.holds cr priv driver d k w n \<longleftrightarrow> tracks cr priv k w n"
proof (cases "in_use cr priv k (wo_authority w)")
  case True
  with assms in_use_parts(2) [of cr priv k "wo_authority w"] have
    "List.map fst (records k (wo_authority w)) = project_log (wo_authority w) k" by (auto simp: equipped_def)
  moreover from this have "length (records k (wo_authority w)) = length (project_log (wo_authority w) k)"
    by (metis length_map)
  ultimately show ?thesis using True assms by (simp add: personal.holds_def well_run_def tracks_def)
next
  case False
  then show ?thesis by (simp add: personal.holds_def well_run_def tracks_def)
qed

text \<open>The log of one world is continued in another.\<close>

definition continues :: "string \<Rightarrow> (db, 'o) world \<Rightarrow> (db, 'o) world \<Rightarrow> bool" where
  "continues k w w' \<longleftrightarrow> prefix (records k (wo_authority w)) (records k (wo_authority w'))"

lemma reached_tracks:
  assumes "equipped cr priv d" "personal.reached cr priv driver d k m (records k a) w"
  shows "(\<exists>n\<ge>m. tracks cr priv k w n) \<and> prefix (records k a) (records k (wo_authority w))"
  using assms by (auto simp: personal.reached_def tracks_holds [OF assms(1)])

lemma records_length:
  "equipped cr priv d \<Longrightarrow> tracks cr priv k w n \<Longrightarrow>
   length (records k (wo_authority w)) = pj_sequence (project_of k (wo_authority w))"
  using in_use_parts(3) by (auto simp: equipped_def tracks_def)

lemma driver_online:
  assumes "equipped cr priv d" "tracks cr priv k w n" "driver (wo_outside w) = None"
  shows "personal.online cr priv driver d k w"
proof -
  from assms(1,2) have u: "in_use cr priv k (wo_authority w)" "signs cr priv (de_server_key d)" "reachable cr priv (wo_authority w)"
    by (auto simp: equipped_def tracks_def in_use_def)
  note parts = in_use_parts [OF u(1,2)]
  have "is_ok (Events cr (wo_authority w) k \<lparr>pg_cursor = cursor, pg_limit = syncPageSize\<rparr>)"
    if "DecodeCursor cr cursor = Inr s" "s \<le> length (records k (wo_authority w))" for s cursor
    using page_of [OF reachable_good [OF u(3)] parts(4) _ _ that(1), of syncPageSize 500] that(2) parts(3)
    by (force simp: BoundedLimit_def)
  then show ?thesis using assms(3) unfolding personal.online_def by (simp add: personal_daemon_def)
qed

text \<open>
  C11. A synchronisation of the personal daemon ends, with fuel for one page per missing event, wherever
  the cache stood. Nothing cached is lost and the log is only continued. If it reports
  success, the cache has caught up with every event that was on record when it began; and if the
  driver does not fail and no dispatcher runs afterwards, it does succeed, and the cache then
  holds the authority's own state.
\<close>

theorem sync_catches_up:
  assumes "equipped cr priv d" "tracks cr priv k w n"
    and "pj_sequence (project_of k (wo_authority w)) - n < fuel"
    and "pj_sequence (project_of k (wo_authority w)) < 2 ^ 64"
  shows "\<exists>w' x. syncProject fuel (personal_daemon cr priv driver d) k w = Some (w', x) \<and> continues k w w' \<and>
    (\<exists>m\<ge>n. tracks cr priv k w' m) \<and>
    (x = None \<longrightarrow> (\<exists>m\<ge>pj_sequence (project_of k (wo_authority w)). tracks cr priv k w' m)) \<and>
    (de_dispatcher d = None \<and> driver (wo_outside w) = None \<and> 0 < pj_sequence (project_of k (wo_authority w)) \<longrightarrow>
       x = None \<and> wo_authority w' = wo_authority w \<and>
       (\<exists>p. m_get (ca_projects (wo_cache w')) k = Some p \<and>
          cp_state p = pj_state (project_of k (wo_authority w)) \<and>
          cp_head p = pj_head (project_of k (wo_authority w))))"
proof -
  note len = records_length [OF assms(1,2)]
  have h: "personal.holds cr priv driver d k w n" using assms(1,2) by (simp add: tracks_holds)
  have fuel: "length (records k (wo_authority w)) - n < fuel" "length (records k (wo_authority w)) < 2 ^ 64"
    using assms(3,4) by (simp_all add: len)
  from personal.sync_reached [OF h fuel] obtain w' x where
    s: "syncProject fuel (personal_daemon cr priv driver d) k w = Some (w', x)"
      "personal.reached cr priv driver d k n (records k (wo_authority w)) w'"
      "x = None \<Longrightarrow> personal.reached cr priv driver d k (length (records k (wo_authority w))) (records k (wo_authority w)) w'"
      "x \<noteq> None \<Longrightarrow> de_dispatcher d = None \<Longrightarrow> \<not> personal.online cr priv driver d k w" by auto
  from personal.sync_copies [OF h fuel] obtain c m where
    c: "personal.holds cr priv driver d k (w\<lparr>wo_cache := c\<rparr>) m"
      "m = length (records k (wo_authority w)) \<and>
         syncProject fuel (personal_daemon cr priv driver d) k w =
           Some (after_sync (personal_daemon cr priv driver d) k (w\<lparr>wo_cache := c\<rparr>)) \<or>
       \<not> personal.online cr priv driver d k w" by blast
  have "x = None \<and> wo_authority w' = wo_authority w \<and>
      (\<exists>p. m_get (ca_projects (wo_cache w')) k = Some p \<and> cp_state p = pj_state (project_of k (wo_authority w)) \<and>
         cp_head p = pj_head (project_of k (wo_authority w)))"
    if "de_dispatcher d = None" "driver (wo_outside w) = None" "0 < pj_sequence (project_of k (wo_authority w))"
  proof -
    have "personal.online cr priv driver d k w" by (rule driver_online) (rule assms(1,2) that(2))+
    with c s(1,4) that(1) have "w' = w\<lparr>wo_cache := c\<rparr>" "x = None" "m = length (records k (wo_authority w))"
      by (auto simp: after_sync_def)
    with personal.in_step_state [of cr priv driver d k w'] c(1) that(3) len show ?thesis by fastforce
  qed
  with s reached_tracks [OF assms(1)] show ?thesis unfolding continues_def len by metis
qed

text \<open>
  C10. What the personal daemon answers to a read is true. However much of the authority's log the cache
  holds, and whatever fails on the way, the request is answered; a state in the answer is the one that a beginning of the
  authority's log leads to, at the sequence the answer names and with at least the events the cache
  already had; and an answer that is not marked as coming from an offline cache takes in
  every event that was on record when the request came.
\<close>

theorem reads_are_honest:
  assumes "equipped cr priv d" "tracks cr priv k w n"
    and "pj_sequence (project_of k (wo_authority w)) - n < fuel"
    and "pj_sequence (project_of k (wo_authority w)) < 2 ^ 64"
  shows "\<exists>w' res. state_handler fuel (personal_daemon cr priv driver d) k w = Some (w', res) \<and> continues k w w' \<and>
    (\<forall>st md. res = Inr (st, md) \<longrightarrow>
      (\<exists>m st0 h. n \<le> m \<and> tracks cr priv k w' m \<and>
        log_ok cr k (take m (project_log (wo_authority w') k)) m h st0 \<and>
        st = st0\<lparr>st_integrity := \<lparr>ig_verified = True, ig_event_count = int m, ig_head = h,
          ig_sync_state = ''verified-cache''\<rparr>\<rparr> \<and> md_cache_sequence md = m \<and>
        (md_connectivity md \<noteq> ''OFFLINE'' \<longrightarrow> pj_sequence (project_of k (wo_authority w)) \<le> m)))"
proof -
  note len = records_length [OF assms(1,2)]
  have h: "personal.holds cr priv driver d k w n" using assms(1,2) by (simp add: tracks_holds)
  have fuel: "length (records k (wo_authority w)) - n < fuel" "length (records k (wo_authority w)) < 2 ^ 64"
    using assms(3,4) by (simp_all add: len)
  from personal.state_reached [OF h fuel] obtain w' res where
    s: "state_handler fuel (personal_daemon cr priv driver d) k w = Some (w', res)"
      "personal.reached cr priv driver d k n (records k (wo_authority w)) w'"
    and read: "\<forall>st md. res = Inr (st, md) \<longrightarrow>
      (\<exists>m st0 h. n \<le> m \<and> personal.holds cr priv driver d k w' m \<and>
        log_ok cr k (take m (List.map fst (records k (wo_authority w')))) m h st0 \<and>
        st = st0\<lparr>st_integrity := \<lparr>ig_verified = True, ig_event_count = int m, ig_head = h,
          ig_sync_state = ''verified-cache''\<rparr>\<rparr> \<and> md_cache_sequence md = m \<and>
        (md_connectivity md \<noteq> ''OFFLINE'' \<longrightarrow> length (records k (wo_authority w)) \<le> m))" by auto
  have log: "List.map fst (records k (wo_authority w')) = project_log (wo_authority w') k" if "tracks cr priv k w' m" for m
    using in_use_parts(2) assms(1) that by (auto simp: equipped_def tracks_def)
  show ?thesis
    using s(1) reached_tracks [OF assms(1) s(2)] read
    unfolding continues_def len tracks_holds [OF assms(1)] using log by metis
qed

text \<open>
  C9. A command that the personal daemon accepted can be read back. Every command is answered; if the
  answer carries an event, this event with its receipt is on record, nothing that was on record
  before is lost, and the cache holds at least the log up to it, so that every later read shows it,
  offline or not. (The key of the command is not of the reserved legacy form.)
\<close>

theorem command_is_read_back:
  assumes "equipped cr priv d" "tracks cr priv k w n" "cm_project_id c = k"
    and "\<not> has_prefix (cm_idempotency_key c) ''legacy:''"
    and "Suc (pj_sequence (project_of k (wo_authority w))) - n < fuel"
    and "Suc (pj_sequence (project_of k (wo_authority w))) < 2 ^ 64"
  shows "\<exists>w' res. command_handler fuel (personal_daemon cr priv driver d) k c w = Some (w', res) \<and>
    continues k w w' \<and> (\<exists>m\<ge>n. tracks cr priv k w' m) \<and>
    (\<forall>reply. res = Inr reply \<longrightarrow>
      (cr_event reply, cr_receipt reply) \<in> set (records k (wo_authority w')) \<and>
      (\<exists>m\<ge>ce_sequence (cr_event reply). tracks cr priv k w' m))"
proof -
  note len = records_length [OF assms(1,2)]
  have h: "personal.holds cr priv driver d k w n" using assms(1,2) by (simp add: tracks_holds)
  from personal.command_answered [OF h assms(3,4)] assms(5,6) obtain w' res where
    c: "command_handler fuel (personal_daemon cr priv driver d) k c w = Some (w', res)"
      "personal.confirmed cr priv driver d k n (records k (wo_authority w)) (w', res)" unfolding len by (metis surj_pair)
  then show ?thesis
    using reached_tracks [OF assms(1)] unfolding continues_def personal.confirmed_def fst_conv snd_conv by blast
qed

end
