(* ===== verification/Client_Facts.thy ===== *)
theory Client_Facts
  imports Client Daemon_Safety
begin

text \<open>
  What a caller of the signing service can rely on: errors arrive as they were sent, a write that is tried
  again is committed once, and the client signs with the key the authority asks for.
\<close>

subsection \<open>What an operation leaves alone\<close>

definition keeps :: "('s \<Rightarrow> bool) \<Rightarrow> ('s \<Rightarrow> 's \<times> 'x) \<Rightarrow> bool" where
  "keeps I op \<longleftrightarrow> (\<forall>s s' x. I s \<longrightarrow> op s = (s', x) \<longrightarrow> I s')"

lemma keepsD: "keeps I op \<Longrightarrow> I s \<Longrightarrow> op s = (s', x) \<Longrightarrow> I s'"
  by (auto simp: keeps_def)

definition calm :: "('s \<Rightarrow> bool) \<Rightarrow> 's service \<Rightarrow> bool" where
  "calm I sv \<longleftrightarrow> (\<forall>d. keeps I (sv_pause sv d)) \<and> (\<forall>recover. sv_recover sv = Some recover \<longrightarrow> keeps I recover) \<and>
     keeps I (sv_uuid sv) \<and> (\<forall>prompt actor. sv_prompt sv = Some prompt \<longrightarrow> keeps I (prompt actor))"

lemma calm_parts:
  assumes "calm I sv"
  shows "keeps I (sv_pause sv d)" "sv_recover sv = Some recover \<Longrightarrow> keeps I recover"
    "keeps I (sv_uuid sv)" "sv_prompt sv = Some prompt \<Longrightarrow> keeps I (prompt actor)"
  using assms by (auto simp: calm_def)

lemma and_do_eq:
  "and_do x f = (s', res) \<longleftrightarrow>
     (\<exists>e. x = (s', Inl e) \<and> res = Inl e) \<or> (\<exists>s a. x = (s, Inr a) \<and> f a s = (s', res))"
  by (auto simp: and_do_def split: prod.splits sum.splits)

lemma local_step_eq: "local_step r s = (s', res) \<longleftrightarrow> s' = s \<and> res = (case r of Inl e \<Rightarrow> Inl (Local e) | Inr a \<Rightarrow> Inr a)"
  by (auto simp: local_step_def)

lemma recovered_keeps:
  assumes "calm I sv" "I s" "recovered_by sv code s = (s', x)"
  shows "I s'"
  using assms calm_parts(2) [OF assms(1)] by (auto simp: recovered_by_def dest: keepsD split: option.splits if_splits)

lemma retry_once:
  assumes "calm I sv" "keeps I op" "I s" "retry_from sv op attempt left s = (s', res)"
  shows "I s' \<and> (\<forall>v. res = Inr v \<longrightarrow> op s = (s', Inr v)) \<or>
    (\<exists>s3. I s3 \<and> left \<noteq> 0 \<and> retry_from sv op (Suc attempt) (left - 1) s3 = (s', res))"
proof -
  obtain s1 r where op: "op s = (s1, r)" by fastforce
  note I1 = keepsD [OF assms(2,3) op]
  show ?thesis
    using assms(4) op I1 by (subst (asm) retry_from.simps)
      (auto split: sum.splits option.splits if_splits prod.splits bool.splits
        dest: recovered_keeps [OF assms(1)] keepsD [OF calm_parts(1) [OF assms(1)]])
qed

text \<open>The loop keeps what its operation keeps; if it succeeds, then by an attempt that did.\<close>

lemma retry_keeps:
  assumes "calm I sv" "keeps I op"
  shows "I s \<Longrightarrow> retry_from sv op attempt left s = (s', res) \<Longrightarrow>
    I s' \<and> (\<forall>v. res = Inr v \<longrightarrow> (\<exists>s0. I s0 \<and> op s0 = (s', Inr v)))"
proof (induction left arbitrary: s attempt)
  case 0
  from retry_once [OF assms 0] 0(1) show ?case by auto
next
  case (Suc left)
  from retry_once [OF assms Suc(2,3)] Suc(1) [of _ "Suc attempt"] Suc(2) show ?case by auto
qed

subsection \<open>Errors\<close>

text \<open>
  C33. An error survives the wire. What the daemon writes for an error, the client reads back as the same class
  and message, with the time after which to try again rounded down to a millisecond; also wrapped in
  further messages it keeps its class to the exit of the program; and the client tries again for
  precisely the two status codes that invite it, 429 and 503.
\<close>

theorem error_survives_the_wire:
  assumes "w = snd (writeControlError x)" "length (encode w) \<le> maxResponseBytes"
    and "read_failure (encode w) = Some (code_text (we_code w), we_message w, we_retry_after_ms w)"
    and "0 \<le> ce_retry_after (control_of x)" "ce_retry_after (control_of x) < 2 ^ 63"
  shows "\<exists>e. daemon_answer read_failure decode
        (Answered (fst (writeControlError x)) status (encode w)) = Inl e \<and>
      e = Remote (code_text (ce_code (control_of x))) (ce_message (control_of x))
        (ce_retry_after (control_of x) div 1000000 * 1000000) \<and>
      Code e = code_text (ce_code (control_of x)) \<and> Code (Within message e) = Code e \<and>
      ExitStatus e \<noteq> 0 \<and> ExitStatus e \<noteq> 1 \<and>
      (retryable (Code e) \<longleftrightarrow> fst (writeControlError x) \<in> {429, 503})"
proof -
  let ?c = "control_of x"
  have ms: "ce_retry_after ?c sdiv 1000000 = ce_retry_after ?c div 1000000"
    using assms(4) by (cases "ce_retry_after ?c = 0") (simp_all add: signed_divide_int_def sgn_if)
  have "0 \<le> ce_retry_after ?c div 1000000 * 1000000" "ce_retry_after ?c div 1000000 * 1000000 < 2 ^ 63"
    using assms(4,5) by (simp, linarith)
  then have wrap: "milliseconds (ce_retry_after ?c div 1000000) = ce_retry_after ?c div 1000000 * 1000000"
    unfolding milliseconds_def by (simp add: signed_take_bit_int_eq_self)
  have w: "we_code w = ce_code ?c" "we_message w = ce_message ?c"
    "we_retry_after_ms w = ce_retry_after ?c div 1000000" "fst (writeControlError x) = http_status (ce_code ?c)"
    using ms by (simp_all add: assms(1) writeControlError_def Let_def)
  have status: "\<not> http_status (ce_code ?c) < 200" "http_status (ce_code ?c) \<ge> 300"
    by (cases "ce_code ?c"; simp add: http_status_def)+
  have nonempty: "code_text c \<noteq> []" for c by (cases c) simp_all
  have long: "\<not> length (encode w) > maxResponseBytes" using assms(2) by simp
  have "daemon_answer read_failure decode (Answered (fst (writeControlError x)) status (encode w)) =
    Inl (Remote (code_text (ce_code ?c)) (ce_message ?c) (ce_retry_after ?c div 1000000 * 1000000))"
    using status long by (simp add: daemon_answer_def failed_answer_def assms(3) nonempty w wrap)
  moreover have "retryable (code_text (ce_code ?c)) \<longleftrightarrow> http_status (ce_code ?c) \<in> {429, 503}"
    "ExitStatus (Remote (code_text (ce_code ?c)) m d) \<notin> {0, 1}" for m d
    by (cases "ce_code ?c"; simp add: retryable_def http_status_def ExitStatus_def Code_def)+
  ultimately show ?thesis by (simp add: Code_def w(4))
qed

subsection \<open>The key that signs\<close>

lemma Decrypted_key: "Decrypted cr va c p = Inr c' \<Longrightarrow> cd_public_key c' = cd_public_key c"
  by (auto simp: Decrypted_def split: if_splits option.splits)

lemma decrypted_key:
  "decryptElevatedKey sv c actor about pass s = (s', Inr c') \<Longrightarrow> cd_public_key c' = cd_public_key c"
  by (auto simp: decryptElevatedKey_def local_step_eq stop_def Decrypted_key
      split: if_splits option.splits prod.splits sum.splits)

lemma elevation_reads:
  "st_agents a = st_agents b \<Longrightarrow> st_approvals a = st_approvals b \<Longrightarrow>
   RequiresElevatedKey a actor t eid p = RequiresElevatedKey b actor t eid p"
  by (simp add: RequiresElevatedKey_def split: event_type.split agent_event.split approval_event.split)

lemma elevation_by_payload:
  "t \<in> {Agent_ev AgentActivate, Agent_ev AgentSwitchRole} \<Longrightarrow>
   RequiresElevatedKey a actor t eid p = RequiresElevatedKey b actor t eid p"
  by (auto simp: RequiresElevatedKey_def)

lemma elevation_types:
  "RequiresElevatedKey a actor t eid p \<Longrightarrow>
   t \<in> {Agent_ev AgentActivate, Agent_ev AgentSwitchRole, Approval_ev ApprovalApprove, Agent_ev AgentRevoke,
     Agent_ev AgentDelete}"
  by (auto simp: RequiresElevatedKey_def split: event_type.splits agent_event.splits approval_event.splits)

text \<open>
  C18. The client and the authority agree on the key of a command. If the view the service fetches shows the
  principals and approvals the authority decides by, and the host holds the credentials that are
  registered, the elevated one precisely if there is one, then the credential the service signs
  with is the one whose public key the authority will verify against, for every type of command
  but a registration, which carries its own key.
\<close>

theorem client_signs_with_expected_key:
  assumes "elevateCredentialIfNeeded sv cfg actor typ eid payload primary passphrase s = (s', Inr credential)"
    and "parse_type typ = Some t" "t \<noteq> Agent_ev AgentRegister"
    and "m_get (st_agents st) actor = Some a" "cd_public_key primary = ag_public_key a"
    and "\<And>s0 s1 view md. service_State sv s0 = (s1, Inr (view, md)) \<Longrightarrow>
      st_agents view = st_agents st \<and> st_approvals view = st_approvals st"
    and "\<And>s0. case sv_credential sv s0 (cf_project_id cfg) (ElevatedActor actor) of
      Inl _ \<Rightarrow> ag_elevated_public_key a = []
    | Inr c \<Rightarrow> ag_elevated_public_key a \<noteq> [] \<and> cd_public_key c = ag_elevated_public_key a"
    and "cm_actor c = actor" "cm_entity_id c = eid"
  shows "commandPublicKey st c t payload = Inr (cd_public_key credential)"
proof -
  let ?five = "{Agent_ev AgentActivate, Agent_ev AgentSwitchRole, Approval_ev ApprovalApprove, Agent_ev AgentRevoke,
     Agent_ev AgentDelete}"
  have expected: "commandPublicKey st c t payload =
      Inr (if ag_elevated_public_key a \<noteq> [] \<and> RequiresElevatedKey st actor t eid payload
        then ag_elevated_public_key a else ag_public_key a)"
    using assms(3,4,8,9) by (simp add: commandPublicKey_def)
  show ?thesis
  proof (cases "t \<in> ?five")
    case False
    with assms(1,2,5) elevation_types [of st actor t eid payload] expected show ?thesis
      by (auto simp: elevateCredentialIfNeeded_def)
  next
    case True
    let ?three = "{Approval_ev ApprovalApprove, Agent_ev AgentRevoke, Agent_ev AgentDelete}"
    let ?fetched = "if t \<in> ?three then and_do (service_State sv s) (\<lambda>(st, _) s. (s, Inr st)) else (s, Inr zero_state)"
    from assms(1) have "and_do ?fetched (\<lambda>st s.
        if \<not> RequiresElevatedKey st actor t eid payload then (s, Inr primary)
        else case sv_credential sv s (cf_project_id cfg) (ElevatedActor actor) of
            Inl _ \<Rightarrow> (s, Inr primary)
          | Inr sealed \<Rightarrow> decryptElevatedKey sv sealed actor (typ @ '' for '' @ actor) passphrase s) = (s', Inr credential)"
      unfolding elevateCredentialIfNeeded_def assms(2) option.case using True by (simp only: not_True_eq_False if_False simp_thms)
    then obtain view s1 where fetched: "?fetched = (s1, Inr view)"
      and k: "(if \<not> RequiresElevatedKey view actor t eid payload then (s1, Inr primary)
         else case sv_credential sv s1 (cf_project_id cfg) (ElevatedActor actor) of
             Inl _ \<Rightarrow> (s1, Inr primary)
           | Inr sealed \<Rightarrow> decryptElevatedKey sv sealed actor (typ @ '' for '' @ actor) passphrase s1) =
        (s', Inr credential)"
      by (auto simp only: and_do_eq sum.distinct)
    have f: "t \<in> ?three \<Longrightarrow> st_agents view = st_agents st \<and> st_approvals view = st_approvals st"
      using fetched by (simp only: if_True) (auto simp: and_do_eq dest: assms(6))
    have same: "RequiresElevatedKey view actor t eid payload = RequiresElevatedKey st actor t eid payload"
      using f elevation_reads elevation_by_payload True by (cases "t \<in> ?three") blast+
    from k assms(5) assms(7) [of s1] show ?thesis unfolding expected same
      by (auto split: if_splits sum.splits dest: decrypted_key)
  qed
qed

end
