(* ===== verification/Client_Safety.thy ===== *)
theory Client_Safety
  imports Client_Facts
begin

text \<open>
  The service in front of the personal daemon: a write is committed once however often it is sent, an
  approval that was asked for covers the operation it was asked for, and a project is deleted from the
  host only after the authority has let it go.
\<close>

subsection \<open>Idempotency keys\<close>

definition sole_keys :: "db \<Rightarrow> bool" where
  "sole_keys d \<longleftrightarrow> (\<forall>k. distinct (List.map ce_idempotency_key (project_log d k)))"

lemma good_row:
  assumes "good cr d" "r \<in> set (db_events d)"
  shows "er_key r = ce_idempotency_key (er_event r) \<and> er_intent r = ce_actor_intent_hash (er_event r) \<and>
    er_project r = ce_project_id (er_event r)"
proof -
  have eq: "r = new_row (er_event r) (er_receipt r) (er_signature r)" using assms by (simp add: good_def)
  show ?thesis using arg_cong [OF eq, of er_key] arg_cong [OF eq, of er_intent] arg_cong [OF eq, of er_project] by simp
qed

lemma sole_keys_step:
  assumes "good cr d" "sole_keys d" "step cr priv d r = Inr d'"
  shows "sole_keys d'"
proof (cases r)
  case (Create now k owner)
  with assms(2,3) show ?thesis
    by (auto simp: step_def CreateProject_def sole_keys_def project_log_def split: if_splits)
next
  case (Submit now c)
  with assms(3) obtain e rc where m: "Mutate cr priv now d c = Inr (d', e, rc)" by (auto simp: step_def)
  then show ?thesis
  proof (cases rule: Mutate_Inr)
    case (fresh row intent t q fp)
    from fresh(5) obtain st' where
      clash: "\<not> list_ex (clashes (new_row e rc (cm_signature c))) (db_events d)"
      and d': "d' = d\<lparr>db_events := db_events d @ [new_row e rc (cm_signature c)],
        db_projects := m_put (cm_project_id c) (row\<lparr>pj_sequence := pj_sequence row + 1,
          pj_head := ce_hash e, pj_state := st', pj_updated := microseconds now\<rparr>) (db_projects d)\<rparr>"
      by (rule commit_Inr)
    have "\<forall>x\<in>set (project_log d (ce_project_id e)). ce_idempotency_key x \<noteq> ce_idempotency_key e"
      using clash good_row [OF assms(1)] by (auto simp: project_log_def list_ex_iff clashes_def)
    moreover have "project_log d' k = project_log d k @ (if k = ce_project_id e then [e] else [])" for k
      by (simp add: d' project_log_def)
    ultimately show ?thesis using assms(2) by (fastforce simp: sole_keys_def)
  qed (use assms(2) in simp)
qed

interpretation keyed: inv_kept "step cr priv" "\<lambda>d. good cr d \<and> sole_keys d" for cr priv
  by unfold_locales (blast intro: good_step sole_keys_step)

lemma reachable_keys: "reachable cr priv d \<Longrightarrow> sole_keys d"
  using keyed.serve_keeps [of cr empty_db priv] good_empty [of cr]
  by (auto simp: reachable_def sole_keys_def project_log_def empty_db_def)

lemma mutate_event:
  assumes "in_use cr priv k a" "cm_project_id c = k" "Mutate cr priv now a c = Inr (a', e, r)"
  shows "ce_idempotency_key e = cm_idempotency_key c" "IntentHash cr c = Inr (ce_actor_intent_hash e)"
proof -
  have good: "good cr a'"
    using assms(1) good_mutate [OF reachable_good assms(3)] by (auto simp: in_use_def)
  from assms(3) obtain row intent where row: "IntentHash cr c = Inr intent"
    "List.find (\<lambda>r. er_project r = cm_project_id c \<and> er_key r = cm_idempotency_key c) (db_events a') = Some row"
    "er_intent row = intent" "er_event row = e" by (rule mutate_stored)
  from row(2) have "row \<in> set (db_events a')" "er_key row = cm_idempotency_key c"
    by (auto simp: find_Some_iff)
  with good_row [OF good] row show "ce_idempotency_key e = cm_idempotency_key c"
    "IntentHash cr c = Inr (ce_actor_intent_hash e)" by auto
qed

lemma reply_event:
  assumes "equipped cr priv d" "tracks cr priv k w n" "cm_project_id c = k"
    and "command_handler fuel (personal_daemon cr priv driver d) k c w = Some (w', Inr reply)"
  shows "ce_idempotency_key (cr_event reply) = cm_idempotency_key c"
    "IntentHash cr c = Inr (ce_actor_intent_hash (cr_event reply))"
proof -
  let ?d = "personal_daemon cr priv driver d"
  from assms(4) obtain w1 w2 e r where g: "runtime_gate ?d c w = (w1, None)"
    and m: "de_command ?d c w1 = (w2, Inr (e, r))" and e: "cr_event reply = e"
    by (auto simp: command_handler_def accepted_reply_def split: if_splits prod.splits option.splits sum.splits)
  have "wo_authority w1 = wo_authority w"
    using personal.gate_reached(2) [of cr priv driver d k w n] assms(1,2) g by (simp add: tracks_holds)
  then have u: "in_use cr priv k (wo_authority w1)" using assms(2) by (simp add: tracks_def)
  from m obtain a' where "Mutate cr priv (de_clock d w1) (wo_authority w1) c = Inr (a', e, r)"
    by (auto simp: personal_daemon_def split: option.splits sum.splits prod.splits)
  from mutate_event [OF u assms(3) this] show "ce_idempotency_key (cr_event reply) = cm_idempotency_key c"
    "IntentHash cr c = Inr (ce_actor_intent_hash (cr_event reply))" by (simp_all add: e)
qed

subsection \<open>A lossy way to the daemon\<close>

text \<open>
  What the transport between the service and the daemon may do to a command: lose it, lose or spoil the answer,
  or deliver both. It does not make up a success.
\<close>

definition delivers ::
  "crypto \<Rightarrow> string \<Rightarrow> ('o \<Rightarrow> err option) \<Rightarrow> (db, 'o) daemon \<Rightarrow> string \<Rightarrow> (db, 'o) world service \<Rightarrow> bool" where
  "delivers cr priv driver d k sv \<longleftrightarrow> sv_crypto sv = cr \<and>
     (\<forall>c w w' x. cm_project_id c = k \<longrightarrow> sv_call sv (CallCommand c) w = (w', x) \<longrightarrow>
       (only_outside w w' \<and> (\<forall>v. daemon_answer (rd_failure (sv_decoders sv)) (rd_command (sv_decoders sv)) x \<noteq> Inr v)) \<or>
       (\<exists>fuel w1 w2 res. only_outside w w1 \<and>
          Suc (pj_sequence (project_of k (wo_authority w1))) < min fuel (2 ^ 64) \<and>
          command_handler fuel (personal_daemon cr priv driver d) k c w1 = Some (w2, res) \<and> only_outside w2 w' \<and>
          (\<forall>e md r. daemon_answer (rd_failure (sv_decoders sv)) (rd_command (sv_decoders sv)) x = Inr (e, md, r) \<longrightarrow>
             (\<exists>reply. res = Inr reply \<and> cr_event reply = e \<and> cr_receipt reply = r))))"

text \<open>The project goes on from \<open>w0\<close>.\<close>

definition goes_on :: "crypto \<Rightarrow> string \<Rightarrow> string \<Rightarrow> (db, 'o) world \<Rightarrow> (db, 'o) world \<Rightarrow> bool" where
  "goes_on cr priv k w0 w \<longleftrightarrow> continues k w0 w \<and> (\<exists>n. tracks cr priv k w n)"

lemma goes_on_outside: "goes_on cr priv k w0 w \<Longrightarrow> only_outside w w' \<Longrightarrow> goes_on cr priv k w0 w'"
  by (auto simp: goes_on_def continues_def tracks_def only_outside_def)

lemma only_outside_refl: "only_outside w w"
  by (auto simp: only_outside_def intro: exI [of _ "wo_outside w"])

lemma calm_goes_on:
  assumes "\<And>w. calm (only_outside w) sv"
  shows "calm (goes_on cr priv k w0) sv"
  using assms unfolding calm_def keeps_def by (meson goes_on_outside only_outside_refl)

definition settled :: "crypto \<Rightarrow> string \<Rightarrow> command \<Rightarrow> event \<Rightarrow> (db, 'o) world \<Rightarrow> bool" where
  "settled cr k c e w \<longleftrightarrow> e \<in> set (project_log (wo_authority w) k) \<and>
     ce_idempotency_key e = cm_idempotency_key c \<and> IntentHash cr c = Inr (ce_actor_intent_hash e)"

lemma delivered:
  assumes "equipped cr priv d" "delivers cr priv driver d k sv" "goes_on cr priv k w0 w"
    and "cm_project_id c = k" "\<not> has_prefix (cm_idempotency_key c) ''legacy:''"
    and "remote_call sv rd_command (CallCommand c) w = (w', res)"
  shows "goes_on cr priv k w0 w' \<and> (\<forall>e md r. res = Inr (e, md, r) \<longrightarrow> settled cr k c e w')"
proof (cases "sv_remote_error sv")
  case (Some e)
  with assms(3,6) show ?thesis by (auto simp: remote_call_def)
next
  case None
  then obtain x where call: "sv_call sv (CallCommand c) w = (w', x)"
    "res = daemon_answer (rd_failure (sv_decoders sv)) (rd_command (sv_decoders sv)) x"
    using assms(6) by (auto simp: remote_call_def split: prod.splits)
  note D = conjunct2 [OF assms(2) [unfolded delivers_def], THEN spec, THEN spec, THEN spec, THEN spec,
    THEN mp, THEN mp, OF assms(4) call(1)]
  consider
    "only_outside w w'" "\<forall>v. res \<noteq> Inr v"
    | fuel w1 w2 out where "only_outside w w1" "Suc (pj_sequence (project_of k (wo_authority w1))) < min fuel (2 ^ 64)"
      "command_handler fuel (personal_daemon cr priv driver d) k c w1 = Some (w2, out)" "only_outside w2 w'"
      "\<forall>e md r. res = Inr (e, md, r) \<longrightarrow> (\<exists>reply. out = Inr reply \<and> cr_event reply = e \<and> cr_receipt reply = r)"
    using D unfolding call(2) by (elim disjE exE conjE) blast+
  then show ?thesis
  proof cases
    case 1
    with goes_on_outside [OF assms(3)] show ?thesis by auto
  next
    case 2
    from goes_on_outside [OF assms(3) 2(1)] obtain n where w1: "continues k w0 w1" "tracks cr priv k w1 n"
      by (auto simp: goes_on_def)
    have h: "personal.holds cr priv driver d k w1 n" using w1(2) assms(1) by (simp add: tracks_holds)
    have "Suc (length (records k (wo_authority w1))) - n < fuel" "Suc (length (records k (wo_authority w1))) < 2 ^ 64"
      using 2(2) unfolding records_length [OF assms(1) w1(2)] by linarith+
    from personal.command_answered [OF h assms(4,5) this] obtain out' where
      "command_handler fuel (personal_daemon cr priv driver d) k c w1 = Some out'"
      "personal.confirmed cr priv driver d k n (records k (wo_authority w1)) out'" by blast
    with 2(3) have conf: "personal.confirmed cr priv driver d k n (records k (wo_authority w1)) (w2, out)" by simp
    then have r2: "(\<exists>m\<ge>n. tracks cr priv k w2 m) \<and> prefix (records k (wo_authority w1)) (records k (wo_authority w2))"
      by (intro reached_tracks [OF assms(1), where driver = driver]) (simp add: personal.confirmed_def)
    with w1(1) have "goes_on cr priv k w0 w2"
      by (auto simp: goes_on_def continues_def intro: prefix_order.trans)
    then have "goes_on cr priv k w0 w'" using 2(4) by (rule goes_on_outside)
    moreover have "settled cr k c e w'" if "res = Inr (e, md, r)" for e md r
    proof -
      from 2(5) that obtain reply where reply: "out = Inr reply" "cr_event reply = e" "cr_receipt reply = r" by blast
      from conf reply have "(e, r) \<in> set (records k (wo_authority w2))" by (auto simp: personal.confirmed_def)
      then have "e \<in> set (List.map fst (records k (wo_authority w2)))" by force
      moreover from r2 obtain m where "tracks cr priv k w2 m" by blast
      then have "List.map fst (records k (wo_authority w2)) = project_log (wo_authority w2) k"
        using in_use_parts(2) assms(1) by (auto simp: tracks_def equipped_def)
      ultimately have "e \<in> set (project_log (wo_authority w') k)" using 2(4) by (auto simp: only_outside_def)
      with reply_event [OF assms(1) w1(2) assms(4) 2(3) [unfolded reply(1)]] reply(2)
      show ?thesis by (simp add: settled_def)
    qed
    ultimately show ?thesis by blast
  qed
qed

lemma signed_parts_of:
  assumes "signed_command sv projectID actor typ eid raw credential registered s = (s', Inr c)"
  obtains u where "sv_uuid sv s = (s', u)" "cm_idempotency_key c = u" "cm_project_id c = projectID"
    "cm_actor c = actor" "cm_type c = typ" "cm_entity_id c = eid" "cm_payload c = raw"
  using assms
  by (auto simp: signed_command_def local_step_eq command_sign_def split: prod.splits sum.splits option.splits)

lemma sole_event:
  "distinct (List.map f es) \<Longrightarrow> y \<in> set es \<Longrightarrow> List.filter (\<lambda>e. f e = f y) es = [y]"
proof (induction es)
  case (Cons a es)
  show ?case
  proof (cases "a = y")
    case True
    with Cons(2) have "f y \<notin> f ` set es" by simp
    then have "\<forall>x\<in>set es. f x \<noteq> f y" by (metis imageI)
    with True show ?thesis by (simp add: filter_empty_conv)
  next
    case False
    with Cons(3) have "y \<in> set es" by simp
    moreover from this Cons(2) have "f a \<noteq> f y" by (metis distinct.simps(2) imageI list.set_map list.simps(9))
    ultimately show ?thesis using Cons by simp
  qed
qed simp

text \<open>
  C8. A signed write is committed once. The service sends one command, under one idempotency key, up to three
  times; requests and answers may be lost on the way and the daemon be started anew in between. Whatever
  comes of it, the log is only continued and holds every key at most once; and if the service reports
  an event, it is the one event of the log under the key of this command, committed for exactly what
  was asked: its intent hash is the hash of the actor, type, entity and payload of the call. (The keys drawn
  are not of the reserved legacy form, nor is any on record.)
\<close>

theorem signed_write_commits_once:
  assumes "equipped cr priv d" "delivers cr priv driver d k sv" "\<And>w. calm (only_outside w) sv"
    and "\<And>w w' u. sv_uuid sv w = (w', u) \<Longrightarrow> \<not> has_prefix u ''legacy:''"
    and "tracks cr priv k w n" "cf_project_id cfg = k"
    and "executeRemoteWithCredential sv cfg actor typ eid payload credential w = (w', res)"
  shows "continues k w w' \<and> (\<exists>m. tracks cr priv k w' m) \<and>
    distinct (List.map ce_idempotency_key (project_log (wo_authority w') k)) \<and>
    (\<forall>x. res = Inr x \<longrightarrow>
      List.filter (\<lambda>e. ce_idempotency_key e = ce_idempotency_key (sx_event x)) (project_log (wo_authority w') k) =
        [sx_event x] \<and>
      (\<exists>c raw. EncodePayload cr typ payload = Inr raw \<and> cm_project_id c = k \<and> cm_actor c = actor \<and> cm_type c = typ \<and>
         cm_entity_id c = eid \<and> cm_payload c = raw \<and> cm_idempotency_key c = ce_idempotency_key (sx_event x) \<and>
         sx_signature x = cm_signature c \<and> IntentHash cr c = Inr (ce_actor_intent_hash (sx_event x))))"
proof -
  have cr: "sv_crypto sv = cr" using assms(2) by (simp add: delivers_def)
  note calm = calm_goes_on [OF assms(3), of cr priv k w]
  have start: "goes_on cr priv k w w" using assms(5) by (auto simp: goes_on_def continues_def)
  have end_: "continues k w w' \<and> (\<exists>m. tracks cr priv k w' m) \<and>
      distinct (List.map ce_idempotency_key (project_log (wo_authority w') k))" if "goes_on cr priv k w w'"
    using that reachable_keys unfolding goes_on_def tracks_def in_use_def sole_keys_def by blast
  show ?thesis
  proof (cases "EncodePayload cr typ payload")
    case (Inl e)
    with assms(7) cr start end_ show ?thesis
      by (auto simp: executeRemoteWithCredential_def and_do_eq local_step_eq)
  next
    case (Inr raw)
    obtain w1 sg where sg: "signed_command sv k actor typ eid raw credential
        (if typ = ''agent.register'' then Some credential else None) w = (w1, sg)" by fastforce
    have w1: "goes_on cr priv k w w1"
      using sg start keepsD [OF calm_parts(3) [OF calm]]
      by (auto simp: signed_command_def local_step_eq split: prod.splits)
    show ?thesis
    proof (cases sg)
      case (Inl e)
      with assms(6,7) cr \<open>EncodePayload cr typ payload = Inr raw\<close> sg w1 end_ show ?thesis
        by (auto simp: executeRemoteWithCredential_def and_do_eq local_step_eq)
    next
      case sgc: (Inr c)
      from signed_parts_of [OF sg [unfolded sgc]] obtain u where u: "sv_uuid sv w = (w1, u)" "cm_idempotency_key c = u"
        and c: "cm_project_id c = k" "cm_actor c = actor" "cm_type c = typ" "cm_entity_id c = eid" "cm_payload c = raw" .
      let ?op = "remote_call sv rd_command (CallCommand c)"
      obtain w2 r where r: "retryOnDaemonOffline sv ?op w1 = (w2, r)" by fastforce
      have legacy: "\<not> has_prefix (cm_idempotency_key c) ''legacy:''" using assms(4) u by blast
      have keep: "keeps (goes_on cr priv k w) ?op"
        using delivered [OF assms(1,2) _ c(1) legacy] unfolding keeps_def by blast
      from retry_keeps [OF calm keep w1 r [unfolded retryOnDaemonOffline_def]] have w2: "goes_on cr priv k w w2"
        "\<And>v. r = Inr v \<Longrightarrow> \<exists>w3. goes_on cr priv k w w3 \<and> ?op w3 = (w2, Inr v)" by blast+
      have out: "w' = w2 \<and> (case r of Inl e \<Rightarrow> res = Inl e
          | Inr v \<Rightarrow> (case v of (e, md, rc) \<Rightarrow> res = Inr (service_event_of c e md rc)))"
        using assms(6,7) cr \<open>EncodePayload cr typ payload = Inr raw\<close> sg sgc r
        by (auto simp: executeRemoteWithCredential_def and_do_eq local_step_eq)
      show ?thesis
      proof (cases r)
        case (Inl e)
        with out w2(1) end_ show ?thesis by auto
      next
        case (Inr v)
        obtain e md rc where v: "v = (e, md, rc)" by (metis prod_cases3)
        with w2(2) Inr delivered [OF assms(1,2) _ c(1) legacy] have "settled cr k c e w2" by blast
        then have s: "e \<in> set (project_log (wo_authority w') k)" "ce_idempotency_key e = cm_idempotency_key c"
          "IntentHash cr c = Inr (ce_actor_intent_hash e)" using out by (auto simp: settled_def)
        have x: "res = Inr (service_event_of c e md rc)" using out Inr v by simp
        show ?thesis
          using end_ w2(1) out sole_event [of ce_idempotency_key, OF _ s(1)] s(2,3) c \<open>EncodePayload cr typ payload = Inr raw\<close> unfolding x
          by (auto simp: service_event_of_def)
      qed
    qed
  qed
qed

subsection \<open>Approvals\<close>

definition grants :: "approval \<Rightarrow> approval_requested \<Rightarrow> bool" where
  "grants a q \<longleftrightarrow> ap_status a = ''APPROVED'' \<and> ap_tier a = aq_tier q \<and> ap_action a = aq_action q \<and>
     ap_subject_digest a = aq_subject_digest q \<and> ap_expires_at a = aq_expires_at q"

lemma not_blank: "\<not> is_space c \<Longrightarrow> \<not> blank (c # s)"
  by (simp add: blank_def trim_space_def)

lemma granted:
  assumes "le_entity_id e' = le_entity_id e"
    and "m_get (st_approvals (apply_approval_response (Approval_ev ApprovalApprove) e' (apply_approval_requested q e s)))
      (le_entity_id e) = Some a"
  shows "grants a q"
  using assms by (auto simp: apply_approval_response_def apply_approval_requested_def grants_def m_gets)

lemma invocation_approval_sel [simp]:
  "aq_tier (invocation_approval cr st actor tier eid p0 reason expires) = tier"
  "aq_action (invocation_approval cr st actor tier eid p0 reason expires) =
     (if tier = ''HUMAN'' then ''invocation-sensitive:'' @ eid else ''invocation:'' @ eid)"
  "aq_subject (invocation_approval cr st actor tier eid p0 reason expires) =
     ApprovalSubjectJSON cr actor (Invocation_ev InvRequest) eid
       (InvocationRequested (NormalizeInvocationApprovalSubject st p0))"
  "aq_subject_digest (invocation_approval cr st actor tier eid p0 reason expires) =
     ApprovalSubjectDigest cr actor (Invocation_ev InvRequest) eid
       (InvocationRequested (NormalizeInvocationApprovalSubject st p0))"
  "aq_expires_at (invocation_approval cr st actor tier eid p0 reason expires) = Some expires"
  by (simp_all add: invocation_approval_def approval_request_of_def ApprovalSubjectDigest_def Let_def)

lemma grants_bound:
  assumes "m_get (st_approvals st') k = Some a"
    and "grants a (invocation_approval cr st actor tier eid p0 reason expires)" "after expires now"
    and "NormalizeInvocationApprovalSubject st' p0 = NormalizeInvocationApprovalSubject st p0"
  shows "hasBoundApproval st' (if tier = ''HUMAN'' then ''invocation-sensitive:'' @ eid else ''invocation:'' @ eid)
    (ApprovalSubjectDigest cr actor (Invocation_ev InvRequest) eid
      (InvocationRequested (NormalizeInvocationApprovalSubject st' p0))) (if tier = ''HUMAN'' then tier else []) now"
proof -
  have "a \<in> set (m_vals (st_approvals st'))" using assms(1) by (auto simp: m_vals_set)
  then show ?thesis using assms(2-4) unfolding hasBoundApproval_def list_ex_iff
    by (intro bexI [of _ a]) (auto simp: bound_by_def grants_def)
qed

text \<open>
  C24. An approval that was requested through the service fits the operation it was requested for. The authority
  takes the request; and once it was approved, and until it expires, the invocation it was made for
  meets no objection for want of an approval, whatever has happened since, as long as the request is
  normalised as it was: a human approval serves for every policy, another one unless the policy
  wants a human for sensitive work.
\<close>

theorem requested_approval_fits:
  assumes "q = invocation_approval cr st actor tier eid p0 reason expires" "tier \<in> {''ORCHESTRATOR'', ''HUMAN''}"
    and "after expires now" "\<And>x. sha256_hex cr x \<noteq> []"
    and "ApprovalSubjectJSON cr actor (Invocation_ev InvRequest) eid
      (InvocationRequested (NormalizeInvocationApprovalSubject st p0)) \<noteq> []"
    and "le_entity_id e' = le_entity_id e"
    and "m_get (st_approvals st') (le_entity_id e) =
      m_get (st_approvals (apply_approval_response (Approval_ev ApprovalApprove) e' (apply_approval_requested q e s)))
        (le_entity_id e)"
    and "after expires now'" "p = NormalizeInvocationApprovalSubject st p0"
    and "NormalizeInvocationApprovalSubject st' p0 = p"
    and "tier = ''HUMAN'' \<or> \<not> (po_require_human_for_sensitive (policy_of st' (ir_target p)) \<and> invocationIsSensitive st' p)"
  shows "(m_get (st_approvals s) (le_entity_id e) = None \<longrightarrow>
      validate_approval_request cr s (le_entity_id e) (ApprovalRequested q) now = Inr (ApprovalRequested q)) \<and>
    approval_error st' actor eid
      (ApprovalSubjectDigest cr actor (Invocation_ev InvRequest) eid (InvocationRequested p)) p now' = None"
proof
  have "\<not> is_space CHR ''i''" by (simp add: is_space_def char_of_def bit_0)
  then have "blank (aq_action q) = False" using assms(1) by (simp add: not_blank)
  then show "m_get (st_approvals s) (le_entity_id e) = None \<longrightarrow>
      validate_approval_request cr s (le_entity_id e) (ApprovalRequested q) now = Inr (ApprovalRequested q)"
    using assms(1-5)
    by (auto simp: validate_approval_request_def Let_def ApprovalSubjectDigest_def ApprovalSubjectDigestFromJSON_def)
  have "m_get (st_approvals (apply_approval_response (Approval_ev ApprovalApprove) e' (apply_approval_requested q e s)))
      (le_entity_id e) \<noteq> None"
    using assms(6) by (simp add: apply_approval_response_def apply_approval_requested_def m_gets)
  then obtain a where a: "m_get (st_approvals st') (le_entity_id e) = Some a" "grants a q"
    using assms(7) granted [OF assms(6)] by fastforce
  from grants_bound [OF a(1) _ assms(8), of cr st actor tier eid p0 reason] a(2) assms(1,9,10)
  have "hasBoundApproval st' (if tier = ''HUMAN'' then ''invocation-sensitive:'' @ eid else ''invocation:'' @ eid)
    (ApprovalSubjectDigest cr actor (Invocation_ev InvRequest) eid (InvocationRequested p))
    (if tier = ''HUMAN'' then tier else []) now'" by simp
  then show "approval_error st' actor eid
      (ApprovalSubjectDigest cr actor (Invocation_ev InvRequest) eid (InvocationRequested p)) p now' = None"
    using assms(2,11) by (auto simp: approval_error_def Let_def bound_to_def split: if_splits)
qed

subsection \<open>Deleting a project\<close>

lemma keeps_steps:
  "keeps I g \<Longrightarrow> (\<And>a. keeps I (f a)) \<Longrightarrow> keeps I (\<lambda>s. and_do (g s) f)"
  "keeps I (\<lambda>s. local_step (r s) s)" "keeps I (local_step r')" "keeps I (\<lambda>s. (s, x s))" "keeps I (stop m)"
  unfolding keeps_def and_do_eq local_step_eq stop_def by (blast, simp_all)

lemma service_State_keeps:
  assumes "calm I sv" "\<And>call. keeps I (sv_call sv call)"
  shows "keeps I (service_State sv)"
proof -
  have "keeps I (remote_call sv decode call)" for decode :: "decoders \<Rightarrow> string \<Rightarrow> 'b result" and call
    using assms(2) [of call] unfolding keeps_def remote_call_def by (auto split: if_splits prod.splits)
  then have "keeps I (retryOnDaemonOffline sv (remote_call sv rd_state call))" for call
    using retry_keeps [OF assms(1)] unfolding keeps_def [of _ "retryOnDaemonOffline _ _"] retryOnDaemonOffline_def by blast
  moreover have "keeps I (connected sv)"
    by (auto simp: keeps_def connected_def local_step_eq split: option.splits)
  ultimately show ?thesis
    unfolding service_State_def [abs_def] by (intro keeps_steps) (auto simp: keeps_steps)
qed

lemma signing_keeps:
  assumes "calm I sv"
  shows "keeps I (decryptElevatedKey sv c actor about pass)" "keeps I (signed_command sv k actor t x raw c' pub)"
proof -
  show "keeps I (signed_command sv k actor t x raw c' pub)"
    unfolding keeps_def signed_command_def
    by (auto simp: local_step_eq split: prod.splits dest: keepsD [OF calm_parts(3) [OF assms]])
  have "I s'" if "I s" "prompt actor s = (s', r)" "sv_prompt sv = Some prompt" for s s' r prompt
    using keepsD [OF calm_parts(4) [OF assms that(3)]] that by blast
  then show "keeps I (decryptElevatedKey sv c actor about pass)"
    unfolding keeps_def decryptElevatedKey_def
    by (auto simp: local_step_eq stop_def split: if_splits option.splits prod.splits sum.splits)
qed

lemma deletion_command_keeps:
  assumes "calm I sv" "\<And>call. keeps I (sv_call sv call)"
  shows "keeps I (deletion_command sv ho actor pass confirm)"
proof -
  note keep = service_State_keeps [OF assms] signing_keeps [OF assms(1)]
  have "keeps I (\<lambda>s. if a then stop m s else if b then stop m' s else case sv_credential sv s k act of
      Inl e \<Rightarrow> (s, Inl (g e)) | Inr sealed \<Rightarrow> f sealed s)"
    if "\<And>c. keeps I (f c)" for a b m m' k act g and f :: "credential \<Rightarrow> 'a \<Rightarrow> 'a \<times> (client_error + 'x)"
    using that unfolding keeps_def stop_def by (auto split: if_splits sum.splits)
  note branch = this
  show ?thesis
    unfolding deletion_command_def [abs_def]
    by (intro keeps_steps keep) (auto simp: split_def intro!: branch keeps_steps keep)
qed

lemma authority_confirms:
  assumes "authority_answer read_failure decode v x = Inr y"
  obtains code status raw where "x = Answered code status raw" "200 \<le> code" "code < 300"
  using assms by (cases x) (auto simp: authority_answer_def split: if_splits)

text \<open>A command that carries the Ed25519 signature of a private key over its intent hash.\<close>

definition signed_by :: "crypto \<Rightarrow> command \<Rightarrow> string \<Rightarrow> bool" where
  "signed_by cr c privateKey \<longleftrightarrow>
     (\<exists>key hash. b64_decode cr privateKey = Some key \<and> length key = 64 \<and> IntentHash cr c = Inr hash \<and>
        cm_signature c = b64_encode cr (ed_sign cr key hash))"

lemma command_sign_by:
  assumes "command_sign cr privateKey b = Inr c"
  shows "signed_by cr c privateKey"
proof -
  have intent: "IntentHash cr (b\<lparr>cm_signature := x\<rparr>) = IntentHash cr b" for x
    by (simp add: IntentHash_def command_form_def split: option.split)
  from assms obtain key hash where "b64_decode cr privateKey = Some key" "length key = 64" "IntentHash cr b = Inr hash"
    "c = b\<lparr>cm_signature := b64_encode cr (ed_sign cr key hash)\<rparr>"
    by (auto simp: command_sign_def split: option.splits)
  then show ?thesis unfolding signed_by_def using intent by (intro exI [of _ key] exI [of _ hash]) simp
qed

lemma signed_command_by:
  assumes "signed_command sv projectID actor typ eid raw credential registered s = (s', Inr c)"
  shows "signed_by (sv_crypto sv) c (cd_private_key credential) \<and> cm_issued_at c = sv_clock sv s'"
proof
  show "signed_by (sv_crypto sv) c (cd_private_key credential)"
    using assms by (auto simp: signed_command_def local_step_eq split: prod.splits sum.splits intro: command_sign_by)
  show "cm_issued_at c = sv_clock sv s'"
    using assms by (auto simp: signed_command_def local_step_eq command_sign_def split: prod.splits sum.splits option.splits)
qed

lemma decrypted_from:
  assumes "decryptElevatedKey sv sealed actor about passphrase s = (s', Inr credential)"
  shows "\<exists>pass. Decrypted (sv_crypto sv) (sv_vault sv) sealed pass = Inr credential \<and>
    (passphrase \<noteq> [] \<longrightarrow> pass = passphrase)"
proof (cases "cd_encrypted sealed")
  case False
  then show ?thesis using assms by (auto simp: decryptElevatedKey_def Decrypted_def intro: exI [of _ passphrase])
next
  case True
  then show ?thesis
    using assms by (auto simp: decryptElevatedKey_def local_step_eq stop_def split: if_splits option.splits prod.splits sum.splits)
qed

text \<open>
  What the owner's confirmation amounts to: the project of this host, whose state, as it was just read, has the
  actor as its owner, the typed name, and the elevated key of this actor opened with the passphrase.
\<close>

definition owner_confirms ::
  "'s service \<Rightarrow> 's deletion_host \<Rightarrow> string \<Rightarrow> string \<Rightarrow> string \<Rightarrow> 's \<Rightarrow> config \<Rightarrow> state \<Rightarrow> credential \<Rightarrow> bool" where
  "owner_confirms sv ho actor passphrase confirm s cfg st credential \<longleftrightarrow>
     sv_config sv s = Inr cfg \<and> confirm = ho_directory ho \<and>
     (\<exists>s1 md sealed pass. service_State sv s = (s1, Inr (st, md)) \<and> ag_role (agent_of st actor) = RoleOwner \<and>
        sv_credential sv s1 (cf_project_id cfg) (ElevatedActor actor) = Inr sealed \<and>
        Decrypted (sv_crypto sv) (sv_vault sv) sealed pass = Inr credential \<and>
        (passphrase \<noteq> [] \<longrightarrow> pass = passphrase))"

lemma deletion_commanded:
  assumes "deletion_command sv ho actor passphrase confirm s = (s', Inr (cfg, st, c))"
  obtains credential s0 where "owner_confirms sv ho actor passphrase confirm s cfg st credential"
    "cm_type c = ''project.delete''" "cm_actor c = actor" "cm_project_id c = cf_project_id cfg"
    "signed_by (sv_crypto sv) c (cd_private_key credential)" "cm_issued_at c = sv_clock sv s'"
    "sv_uuid sv s0 = (s', cm_idempotency_key c)"
proof -
  from assms obtain s1 md sealed s2 credential where d: "sv_config sv s = Inr cfg" "service_State sv s = (s1, Inr (st, md))"
    "ag_role (agent_of st actor) = RoleOwner" "confirm = ho_directory ho"
    "sv_credential sv s1 (cf_project_id cfg) (ElevatedActor actor) = Inr sealed"
    "decryptElevatedKey sv sealed actor (''deleting project '' @ cf_project_id cfg) passphrase s1 = (s2, Inr credential)"
    "signed_command sv (cf_project_id cfg) actor ''project.delete'' (cf_project_id cfg) [] credential None s2 = (s', Inr c)"
    by (auto simp: deletion_command_def and_do_def local_step_def stop_def split: if_splits sum.splits prod.splits)
  have "owner_confirms sv ho actor passphrase confirm s cfg st credential"
    using d(1-5) decrypted_from [OF d(6)] unfolding owner_confirms_def by blast
  with signed_command_by [OF d(7)] signed_parts_of [OF d(7)] that show thesis by metis
qed

lemma delete_remote_cases:
  assumes "keeps I (ho_capabilities ho cfg)" "keeps I (ho_delete_project ho cfg c)" "I s"
    and "delete_remote sv ho cfg c s = (s', res)"
  shows "I s' \<and> (\<forall>b. res = Inr b \<longrightarrow> b = (cf_runtime_mode cfg = ''service'') \<and>
    (b \<longrightarrow> (\<exists>s1 code status raw. ho_delete_project ho cfg c s1 = (s', Answered code status raw) \<and>
       200 \<le> code \<and> code < 300)))"
proof -
  obtain s1 x where caps: "ho_capabilities ho cfg s = (s1, x)" by fastforce
  obtain s2 y where del: "ho_delete_project ho cfg c s1 = (s2, y)" by fastforce
  have I: "I s1" "I s2" using keepsD [OF assms(1,3) caps] keepsD [OF assms(2) _ del] by auto
  have ok: "\<exists>code status raw. y = Answered code status raw \<and> 200 \<le> code \<and> code < 300"
    if "authority_answer f g () y = Inr u" for f g u
    using that by (rule authority_confirms) blast
  have "(\<exists>e. res = Inl e \<and> s' \<in> {s, s1, s2}) \<or> res = Inr False \<and> s' = s \<and> cf_runtime_mode cfg \<noteq> ''service'' \<or>
      res = Inr True \<and> s' = s2 \<and> cf_runtime_mode cfg = ''service'' \<and>
      (\<exists>u. authority_answer (rd_failure (sv_decoders sv)) (rd_object (sv_decoders sv)) () y = Inr u)"
    using assms(4) caps del by (auto simp: delete_remote_def stop_def split: if_splits option.splits sum.splits)
  then show ?thesis
  proof (elim disjE)
    assume t: "res = Inr True \<and> s' = s2 \<and> cf_runtime_mode cfg = ''service'' \<and>
      (\<exists>u. authority_answer (rd_failure (sv_decoders sv)) (rd_object (sv_decoders sv)) () y = Inr u)"
    then obtain code status raw where "y = Answered code status raw" "200 \<le> code" "code < 300" using ok by blast
    with t del I show ?thesis by auto
  qed (use assms(3) I in auto)
qed

text \<open>
  C19. A project is deleted in the right order. \<open>files\<close> is whatever a deletion destroys on this host: the runtime
  directory, credentials, profiles. If the deletion fails, with any error and at any point, they are as
  they were. If it succeeds, nothing of them was touched before the actor, the owner in the state
  that was just read of the project this host is configured for, had typed the name of the directory and
  opened the elevated key; and, for a project on a team authority, before that authority had answered with a
  success to a command to delete this very project, in the name of the actor, with a fresh idempotency key,
  signed with that elevated key over its intent hash.
\<close>

theorem project_is_deleted_in_order:
  assumes "\<And>f. calm (\<lambda>s. files s = f) sv" "\<And>f call. keeps (\<lambda>s. files s = f) (sv_call sv call)"
    and "\<And>f cfg. keeps (\<lambda>s. files s = f) (ho_capabilities ho cfg)"
    and "\<And>f cfg c. keeps (\<lambda>s. files s = f) (ho_delete_project ho cfg c)"
    and "service_DeleteProject sv ho actor passphrase confirm s = (s', res)"
  shows "(\<forall>e. res = Inl e \<longrightarrow> files s' = files s) \<and>
    (\<forall>d. res = Inr d \<longrightarrow>
      (\<exists>cfg st credential s1. owner_confirms sv ho actor passphrase confirm s cfg st credential \<and>
        files s1 = files s \<and> (s', d) = clean_up sv ho cfg st (cf_runtime_mode cfg = ''service'') s1 \<and>
        (cf_runtime_mode cfg = ''service'' \<longrightarrow>
          (\<exists>c s0 s2 s3 code status raw.
             cm_type c = ''project.delete'' \<and> cm_actor c = actor \<and> cm_project_id c = cf_project_id cfg \<and>
             sv_uuid sv s2 = (s3, cm_idempotency_key c) \<and> cm_issued_at c = sv_clock sv s3 \<and> files s3 = files s \<and>
             signed_by (sv_crypto sv) c (cd_private_key credential) \<and>
             ho_delete_project ho cfg c s0 = (s1, Answered code status raw) \<and> 200 \<le> code \<and> code < 300))))"
proof -
  obtain s1 a where a: "deletion_command sv ho actor passphrase confirm s = (s1, a)" by fastforce
  have I1: "files s1 = files s" by (rule keepsD [OF deletion_command_keeps [OF assms(1,2)] refl a])
  show ?thesis
  proof (cases a)
    case (Inl e)
    with assms(5) a I1 show ?thesis by (auto simp: service_DeleteProject_def and_do_eq)
  next
    case (Inr ccc)
    obtain cfg st c where c: "a = Inr (cfg, st, c)" using Inr by (metis prod_cases3)
    from deletion_commanded [OF a [unfolded c]] obtain credential s0
      where cmd: "owner_confirms sv ho actor passphrase confirm s cfg st credential"
        "cm_type c = ''project.delete''" "cm_actor c = actor" "cm_project_id c = cf_project_id cfg"
        "signed_by (sv_crypto sv) c (cd_private_key credential)" "cm_issued_at c = sv_clock sv s1"
        "sv_uuid sv s0 = (s1, cm_idempotency_key c)" .
    obtain s2 b where b: "delete_remote sv ho cfg c s1 = (s2, b)" by fastforce
    note r = delete_remote_cases [OF assms(3,4) I1 b]
    have "(\<exists>e. b = Inl e \<and> s' = s2 \<and> res = Inl e) \<or>
        (\<exists>v d. b = Inr v \<and> clean_up sv ho cfg st v s2 = (s', d) \<and> res = Inr d)"
      using assms(5) a c b by (cases b) (auto simp: service_DeleteProject_def and_do_def split: prod.splits)
    then show ?thesis
    proof (elim disjE exE conjE)
      fix v d assume v: "b = Inr v" "clean_up sv ho cfg st v s2 = (s', d)" "res = Inr d"
      from r v(1) have f: "files s2 = files s" "v = (cf_runtime_mode cfg = ''service'')"
        "v \<longrightarrow> (\<exists>s0 code status raw. ho_delete_project ho cfg c s0 = (s2, Answered code status raw) \<and>
          200 \<le> code \<and> code < 300)" by blast+
      have "(s', d) = clean_up sv ho cfg st (cf_runtime_mode cfg = ''service'') s2" using v(2) f(2) by simp
      with f(1,3) [unfolded f(2)] cmd I1 v(3) show ?thesis by (intro conjI allI impI) (simp, blast)
    qed (use r in simp)
  qed
qed

end
