(* ===== verification/Daemon_Samples.thy ===== *)
theory Daemon_Samples
  imports Daemon_Safety Cache_Samples Dispatch_Samples
begin

text \<open>
  A personal daemon over the sample project: its cache is empty at first, its driver does not fail.
  The theorems on the daemon, on the typing of states and on the choice of an invocation are applied here.
\<close>

definition home :: "(db, unit) daemon" where
  "home = \<lparr>de_crypto = toy, de_server_key = toy_key, de_personal = True,
     de_command = (\<lambda>c w. (w, Inl (Plain Panic))), de_events = (\<lambda>w k page. Inl (Plain Panic)),
     de_clock = (\<lambda>_. 1000), de_uuid = (\<lambda>w. (w, ''u'')), de_credential = (\<lambda>_ _ _. Inr toy_key),
     de_dispatcher = None\<rparr>"

definition home_world :: "(db, unit) world" where
  "home_world = \<lparr>wo_authority = toy_db, wo_cache = empty_cache, wo_drafts = [], wo_configs = m_empty,
     wo_outside = ()\<rparr>"

abbreviation sample_daemon :: "(db, unit) daemon" where
  "sample_daemon \<equiv> personal_daemon toy toy_key (\<lambda>_. None) home"

lemma toy_equipped: "equipped toy toy_key home"
  unfolding equipped_def quiet_def cursors_ok_def
  by (simp add: home_def toy_signs only_outside_def)
    (simp add: toy_def dec_digits_nonempty)

lemma home_sel [simp]:
  "wo_authority home_world = toy_db" "wo_cache home_world = empty_cache" "de_dispatcher home = None"
  "de_clock home w = 1000"
  by (simp_all add: home_world_def home_def)

lemma home_tracks: "tracks toy toy_key ''p'' home_world 0"
proof -
  obtain row where "m_get (db_projects toy_db) ''p'' = Some row" "pj_sequence row = 2" by (rule toy_run)
  then show ?thesis
    by (simp add: tracks_def in_use_def toy_reachable m_has_def toy_not_legacy empty_mirrors)
qed

lemma home_length: "pj_sequence (project_of ''p'' toy_db) = 2"
proof -
  obtain row where "m_get (db_projects toy_db) ''p'' = Some row" "pj_sequence row = 2" by (rule toy_run)
  then show ?thesis by (simp add: project_of_def)
qed

theorem sync_catches_up_witness:
  "\<exists>w'. syncProject 3 sample_daemon ''p'' home_world = Some (w', None) \<and>
    (\<exists>p. m_get (ca_projects (wo_cache w')) ''p'' = Some p \<and>
       cp_state p = pj_state (project_of ''p'' toy_db))"
  using sync_catches_up [OF toy_equipped home_tracks, of 3 "\<lambda>_. None"] by (auto simp: home_length)

theorem reads_are_honest_witness:
  "\<exists>w' res. state_handler 3 sample_daemon ''p'' home_world = Some (w', res) \<and>
    (\<forall>st md. res = Inr (st, md) \<longrightarrow> md_connectivity md \<noteq> ''OFFLINE'' \<longrightarrow> 2 \<le> md_cache_sequence md)"
  using reads_are_honest [OF toy_equipped home_tracks, of 3 "\<lambda>_. None"] by (fastforce simp: home_length)

text \<open>
  The owner's activation once more: the authority answers with the event it has, and the cache, which
  is empty and cannot take it, is synchronised.
\<close>

lemma home_retry: "\<exists>e r. de_command sample_daemon activate home_world = (home_world, Inr (e, r))"
proof -
  obtain d e r where "Mutate toy toy_key 1000 d activate = Inr (toy_db, e, r)" by (rule toy_run)
  then obtain row intent where "IntentHash toy activate = Inr intent" "m_has (db_projects toy_db) ''p''"
    "List.find (\<lambda>r. er_project r = ''p'' \<and> er_key r = cm_idempotency_key activate) (db_events toy_db) = Some row"
    "er_intent row = intent" by (rule mutate_stored) simp
  then have "\<exists>e r. Mutate toy toy_key 1000 toy_db activate = Inr (toy_db, e, r)"
    by (auto simp: Mutate_def replay_def as_control_def m_has_def)
  then show ?thesis by (auto simp: personal_daemon_def home_world_def)
qed

lemma home_sync: "\<exists>w'. syncProject 4 sample_daemon ''p'' home_world = Some (w', None)"
proof -
  have "personal.holds toy toy_key (\<lambda>_. None) home ''p'' home_world 0"
    unfolding tracks_holds [OF toy_equipped] by (rule home_tracks)
  moreover have "personal.online toy toy_key (\<lambda>_. None) home ''p'' home_world"
    by (rule driver_online) (rule toy_equipped home_tracks refl)+
  moreover have "length (records ''p'' (wo_authority home_world)) = 2"
    using records_length [OF toy_equipped home_tracks] home_length by simp
  ultimately show ?thesis
    using personal.sync_reached [of toy toy_key "\<lambda>_. None" home "''p''" home_world 0 4] by fastforce
qed

lemma home_reply: "\<exists>w' reply. command_handler 4 sample_daemon ''p'' activate home_world = Some (w', Inr reply)"
proof -
  obtain e r where c: "de_command sample_daemon activate home_world = (home_world, Inr (e, r))"
    using home_retry by blast
  obtain w' where "syncProject 4 sample_daemon ''p'' home_world = Some (w', None)" using home_sync by blast
  then show ?thesis
    by (cases "apply_to_cache sample_daemon e r home_world")
      (simp_all add: command_handler_def runtime_gate_def c accepted_reply_def deliver_now_def)
qed

theorem command_is_read_back_witness:
  "\<exists>w' reply. command_handler 4 sample_daemon ''p'' activate home_world = Some (w', Inr reply) \<and>
    (cr_event reply, cr_receipt reply) \<in> set (records ''p'' (wo_authority w')) \<and>
    (\<exists>m\<ge>ce_sequence (cr_event reply). tracks toy toy_key ''p'' w' m)"
  using command_is_read_back [OF toy_equipped home_tracks, of activate 4 "\<lambda>_. None"] home_reply
  by (auto simp: home_length)

theorem state_is_well_typed_witness:
  "\<exists>row. m_get (db_projects toy_db) ''p'' = Some row \<and> pj_sequence row = 2 \<and> deliveries_typed (pj_state row)"
proof -
  obtain row where row: "m_get (db_projects toy_db) ''p'' = Some row" "pj_sequence row = 2" by (rule toy_run)
  with state_is_well_typed [OF toy_codec toy_reachable row(1)] show ?thesis by blast
qed

definition ready_runtime :: runtime where
  "ready_runtime = sample_runtime\<lparr>rt_status := ''ONLINE'', rt_health := ''HEALTHY''\<rparr>"

definition ready_state :: state where
  "ready_state = waiting_state\<lparr>st_runtimes := m_put ''r'' ready_runtime m_empty\<rparr>"

lemma ready_fields [simp]:
  "rt_id ready_runtime = ''r''" "rt_agent_id ready_runtime = ''b''" "rt_kind ready_runtime = ''WORKER''"
  "rt_connector ready_runtime = ''WEBHOOK''" "rt_status ready_runtime = ''ONLINE''" "rt_health ready_runtime = ''HEALTHY''"
  "rt_max_concurrent ready_runtime = 2" "rt_active_invocations ready_runtime = []" "rt_endpoint_id ready_runtime = []"
  "presence_expired t ready_runtime = False" "st_runtimes ready_state = m_put ''r'' ready_runtime m_empty"
  "st_invocations ready_state = m_put ''i'' sample_invocation m_empty" "st_deliveries ready_state = m_empty"
  "st_agents ready_state = st_agents waiting_state"
  by (simp_all add: ready_runtime_def ready_state_def presence_expired_def)
    (simp add: sample_runtime_def zero_runtime_def)

lemma ready_refresh [simp]: "RefreshRuntimePresence ready_state t = ready_state"
proof -
  have "m_map (\<lambda>_. refresh_runtime t) (m_put ''r'' ready_runtime m_empty) = m_put ''r'' ready_runtime m_empty"
    by (simp add: DAList.impl_of_inject [symmetric] m_entries_map refresh_runtime_def)
  then show ?thesis by (simp add: RefreshRuntimePresence_def)
qed

theorem next_invocation_is_best_and_claimable_witness:
  "SelectNextInvocation ready_state ''b'' ''r'' 9 = Some sample_invocation \<and>
    (\<exists>p. ValidateTransition toy ready_state ''b'' (Invocation_ev InvClaim) ''i''
       (InvocationClaimed \<lparr>ic_runtime_id = ''r'', ic_claim_until = 0\<rparr>) 9 = Inr (InvocationClaimed p))"
proof -
  have rt: "runtimes_typed ready_state"
    by (auto simp: runtimes_typed_def runtime_typed_def runtime_connectors_def runtime_statuses_def m_gets
        blank_def trim_space_def split: if_splits)
  have dl: "deliveries_typed ready_state"
    by (auto simp: deliveries_typed_def invocation_typed_def attempts_distinct_def automaticDeliveryAttempts_def
        invocation_statuses_def validConsumerMode_def m_gets m_vals_def blank_def text_eval split: if_splits)
  have best: "SelectNextInvocation ready_state ''b'' ''r'' 9 = Some sample_invocation"
    by (simp add: SelectNextInvocation_def m_gets runtimeLoad_def m_vals_def best_of_def wants_def pick_def)
      (simp add: sample_invocation_def zero_invocation_def)
  have agent: "m_get (st_agents ready_state) ''b'' = Some (zero_agent\<lparr>ag_status := ''ACTIVE''\<rparr>)"
    by (simp add: waiting_state_def m_gets)
  show ?thesis
    using next_invocation_is_best_and_claimable [OF rt dl _ agent, of "''r''" 5 9 _ toy] best
    by (auto simp: blank_def text_eval)
qed

end
