(* ===== verification/Identity_Facts.thy ===== *)
theory Identity_Facts
  imports Identity
begin

text \<open>
  Identities do not leak: between the sessions of a machine, between its projects, or past a passphrase.
\<close>

lemma trim_empty [simp]: "trim_space [] = []"
  by (simp add: trim_space_def)

lemma m_get_keep: "m_get (DAList.filter P m) k = (case m_get m k of None \<Rightarrow> None | Some v \<Rightarrow> if P (k, v) then Some v else None)"
proof -
  have "distinct (List.map fst xs) \<Longrightarrow> map_of (List.filter P xs) k =
      (case map_of xs k of None \<Rightarrow> None | Some v \<Rightarrow> if P (k, v) then Some v else None)" for xs
    by (induction xs) (auto split: option.split simp: map_of_eq_None_iff dest: map_of_SomeD)
  then show ?thesis by transfer simp
qed

lemma m_vals_keep: "m_vals (DAList.filter (\<lambda>(_, v). Q v) m) = List.filter Q (m_vals m)"
proof -
  have "List.map snd (List.filter (\<lambda>(_, v). Q v) xs) = List.filter Q (List.map snd xs)" for xs :: "(string \<times> 'a) list"
    by (induction xs) auto
  then show ?thesis unfolding m_vals_def by transfer blast
qed

subsection \<open>Sessions\<close>

lemma stale_later: "stale now entry \<Longrightarrow> now \<le> later \<Longrightarrow> stale later entry"
  by (auto simp: stale_def sub_time_def)

lemma other_session:
  assumes "t \<noteq> s" "now \<le> later"
  shows "ActiveProfileFor later (SetActiveProfileFor now c s p) t = ActiveProfileFor later c t"
  using assms
  by (auto simp: ActiveProfileFor_def SetActiveProfileFor_def m_gets m_get_keep split: option.split dest: stale_later)

lemma set_profiles [simp]: "uc_profiles (SetActiveProfileFor now c s p) = uc_profiles c"
  by (simp add: SetActiveProfileFor_def)

lemma set_count [simp]:
  "ProfileCountForProject (SetActiveProfileFor now c s p) k = ProfileCountForProject c k"
  by (simp add: ProfileCountForProject_def)

lemma resolved_config [simp]: "resolved (r\<lparr>req_user_config := c\<rparr>) = resolved r"
  by (simp add: fun_eq_iff resolved_def)

lemma default_actor_cong:
  "uc_profiles c = uc_profiles c' \<Longrightarrow>
   ActiveProfileFor now c (req_session_id r) = ActiveProfileFor now c' (req_session_id r) \<Longrightarrow>
   default_actor now (r\<lparr>req_user_config := c\<rparr>) = default_actor now (r\<lparr>req_user_config := c'\<rparr>)"
  unfolding default_actor_def ProfileCountForProject_def Let_def by (simp cong: option.case_cong if_cong)

lemma ResolveActor_cong:
  "uc_profiles c = uc_profiles c' \<Longrightarrow>
   default_actor now (r\<lparr>req_user_config := c\<rparr>) = default_actor now (r\<lparr>req_user_config := c'\<rparr>) \<Longrightarrow>
   ResolveActor now (r\<lparr>req_user_config := c\<rparr>) = ResolveActor now (r\<lparr>req_user_config := c'\<rparr>)"
  by (simp add: ResolveActor_def Let_def cong: option.case_cong list.case_cong)

text \<open>
  C23. Sessions do not redirect each other. When a session, or a plain terminal (the empty session), makes a
  profile its default, then whom any other session acts for is what it was, at that time and at any
  later one, although the defaults of all of them are kept in one file and stale ones are removed on
  the way. The session itself acts by that profile until it chooses another one, or for thirty days.
\<close>

theorem sessions_do_not_interfere:
  assumes "now \<le> later"
  shows "(t \<noteq> s \<longrightarrow> ResolveActor later (r\<lparr>req_session_id := t, req_user_config := SetActiveProfileFor now c s p\<rparr>) =
      ResolveActor later (r\<lparr>req_session_id := t, req_user_config := c\<rparr>)) \<and>
    ActiveProfileFor later (SetActiveProfileFor now c s p) s =
      (if s \<noteq> [] \<and> sub_time later now > sessionProfileTTL then [] else p)"
proof -
  have "ResolveActor later (r'\<lparr>req_user_config := SetActiveProfileFor now c s p\<rparr>) =
      ResolveActor later (r'\<lparr>req_user_config := c\<rparr>)" if "req_session_id r' \<noteq> s" for r'
    using other_session [OF that assms] by (intro ResolveActor_cong default_actor_cong) auto
  moreover have "ActiveProfileFor later (SetActiveProfileFor now c s p) s =
      (if s \<noteq> [] \<and> sub_time later now > sessionProfileTTL then [] else p)"
    by (simp add: ActiveProfileFor_def SetActiveProfileFor_def m_gets stale_def)
  ultimately show ?thesis by simp
qed

subsection \<open>Where an actor comes from\<close>

lemma default_actor_cases:
  obtains (owner) "default_actor now r = resolved r (req_project_owner r) ActorSourceProjectOwner []"
    | (profile) name p source where "m_get (uc_profiles (req_user_config r)) name = Some p"
      "pr_project_id p = req_project_id r" "default_actor now r = resolved r (pr_actor p) source name"
      "source = ActorSourceSessionProfile \<or> source = ActorSourceActiveProfile \<and> req_session_id r = [] \<and>
        \<not> (req_prefer_owner r \<and> ProfileCountForProject (req_user_config r) (req_project_id r) > 1)"
proof (cases "default_actor now r = resolved r (req_project_owner r) ActorSourceProjectOwner []")
  case False
  let ?name = "ActiveProfileFor now (req_user_config r) (req_session_id r)"
  let ?source = "if req_session_id r \<noteq> [] then ActorSourceSessionProfile else ActorSourceActiveProfile"
  obtain p where p: "m_get (uc_profiles (req_user_config r)) ?name = Some p" "pr_project_id p = req_project_id r"
    using False by (auto simp: default_actor_def Let_def split: if_splits option.splits)
  then have "default_actor now r = resolved r (pr_actor p) ?source ?name"
    using False unfolding default_actor_def Let_def by (simp split: if_splits)
  moreover have "\<not> (req_session_id r = [] \<and> req_prefer_owner r \<and>
      ProfileCountForProject (req_user_config r) (req_project_id r) > 1)"
    using False p unfolding default_actor_def Let_def by (auto split: if_splits)
  ultimately show thesis using p by (intro profile [of ?name p ?source]) auto
qed (rule owner)

lemma ResolveActor_Inr:
  assumes "ResolveActor now r = Inr res"
  obtains (flag) "res = resolved r (trim_space (req_explicit_actor r)) ActorSourceFlag []"
      "trim_space (req_explicit_actor r) \<noteq> []"
    | (profile_flag) p where "m_get (uc_profiles (req_user_config r)) (trim_space (req_explicit_profile r)) = Some p"
      "pr_project_id p = req_project_id r"
      "res = resolved r (pr_actor p) ActorSourceProfileFlag (trim_space (req_explicit_profile r))"
    | (environment) "res = resolved r (trim_space (req_environment_actor r)) ActorSourceEnvironment []"
      "trim_space (req_environment_actor r) \<noteq> []"
    | (owner) "res = resolved r (req_project_owner r) ActorSourceProjectOwner []"
    | (host) p where "res = resolved r (pr_actor p) ActorSourceHostBinding (pr_name p)"
      "ProfilesByProjectAndHost (uc_profiles (req_user_config r)) (req_project_id r) (trim_space (req_host_label r)) = [p]"
    | (default) "res = default_actor now r"
proof -
  note def = ResolveActor_def [of now r, unfolded Let_def]
  have req: "\<not> (req_project_id r = [] \<or> req_project_owner r = [])" using assms by (auto simp: def)
  consider "trim_space (req_explicit_actor r) \<noteq> []"
    | "trim_space (req_explicit_actor r) = []" "trim_space (req_explicit_profile r) \<noteq> []"
    | "trim_space (req_explicit_actor r) = []" "trim_space (req_explicit_profile r) = []"
      "trim_space (req_environment_actor r) \<noteq> []"
    | "trim_space (req_explicit_actor r) = []" "trim_space (req_explicit_profile r) = []"
      "trim_space (req_environment_actor r) = []" by blast
  then show thesis
  proof cases
    case 1 then show thesis using assms req flag by (simp add: def)
  next
    case 2 then show thesis using assms req by (auto simp: def split: option.splits if_splits intro: profile_flag)
  next
    case 3 then show thesis using assms req environment by (simp add: def)
  next
    case 4 then show thesis using assms req
      by (cases "trim_space (req_host_label r) = []")
        (simp_all add: def default split: list.splits, auto intro: owner host)
  qed
qed

text \<open>
  The actor a command acts for is accounted for. It is the one the caller named, or the actor of a
  profile of this very project, or the project's owner; the source says which. The machine-wide
  default is never used for a recognised session, nor, if the owner is preferred, when the project has
  several local identities.
\<close>

theorem resolved_actor_is_accounted_for:
  assumes "ResolveActor now r = Inr res"
  shows "res_project_id res = req_project_id r \<and>
    (case res_source res of
       ActorSourceFlag \<Rightarrow> res_actor res = trim_space (req_explicit_actor r) \<and> res_actor res \<noteq> []
     | ActorSourceEnvironment \<Rightarrow> res_actor res = trim_space (req_environment_actor r) \<and> res_actor res \<noteq> []
     | ActorSourceProjectOwner \<Rightarrow> res_actor res = req_project_owner r
     | _ \<Rightarrow> \<exists>name p. m_get (uc_profiles (req_user_config r)) name = Some p \<and>
         pr_project_id p = req_project_id r \<and> res_actor res = pr_actor p) \<and>
    (res_source res = ActorSourceHostBinding \<longrightarrow> (\<exists>!p. p \<in> set (m_vals (uc_profiles (req_user_config r))) \<and>
       pr_project_id p = req_project_id r \<and> pr_host_label p = trim_space (req_host_label r))) \<and>
    (res_source res = ActorSourceActiveProfile \<longrightarrow> req_session_id r = [] \<and>
       \<not> (req_prefer_owner r \<and> ProfileCountForProject (req_user_config r) (req_project_id r) > 1))"
  using assms
proof (cases rule: ResolveActor_Inr)
  case (host q)
  let ?c = "req_user_config r"
  have "set (ProfilesByProjectAndHost (uc_profiles ?c) (req_project_id r) (trim_space (req_host_label r))) = {q}"
    using host by simp
  then have s: "{p \<in> set (m_vals (uc_profiles ?c)). pr_project_id p = req_project_id r \<and>
      pr_host_label p = trim_space (req_host_label r)} = {q}"
    by (simp add: ProfilesByProjectAndHost_def)
  then have "q \<in> set (m_vals (uc_profiles ?c))" "pr_project_id q = req_project_id r" by blast+
  then have "\<exists>name. m_get (uc_profiles ?c) name = Some q" "pr_project_id q = req_project_id r"
    by (simp_all add: m_vals_set)
  moreover have "p \<in> set (m_vals (uc_profiles ?c)) \<and> pr_project_id p = req_project_id r \<and>
      pr_host_label p = trim_space (req_host_label r) \<longleftrightarrow> p = q" for p using s by blast
  ultimately show ?thesis using host by (auto simp: resolved_def)
next
  case default
  show ?thesis
  proof (cases rule: default_actor_cases [of now r])
    case owner
    with default show ?thesis by (simp add: resolved_def)
  next
    case (profile name p source)
    then have "\<exists>name p'. m_get (uc_profiles (req_user_config r)) name = Some p' \<and>
        pr_project_id p' = req_project_id r \<and> pr_actor p = pr_actor p'" by blast
    with profile default show ?thesis by (elim disjE) (simp_all add: resolved_def)
  qed
qed (simp_all add: resolved_def, blast)

subsection \<open>Projects\<close>

lemma forgotten_profiles:
  "m_get (uc_profiles (fst (RemoveProfilesForProject c k))) name =
     (case m_get (uc_profiles c) name of None \<Rightarrow> None | Some p \<Rightarrow> if pr_project_id p \<noteq> k then Some p else None)"
  "m_vals (uc_profiles (fst (RemoveProfilesForProject c k))) =
     List.filter (\<lambda>p. pr_project_id p \<noteq> k) (m_vals (uc_profiles c))"
  by (simp_all add: RemoveProfilesForProject_def Let_def m_get_keep m_vals_keep split: option.split)

lemma forgotten_active:
  "ActiveProfileFor now (fst (RemoveProfilesForProject c k)) s =
     (let name = ActiveProfileFor now c s in
      if (\<exists>p. m_get (uc_profiles c) name = Some p \<and> pr_project_id p = k) then [] else name)"
  by (auto simp: RemoveProfilesForProject_def ActiveProfileFor_def Let_def m_get_keep split: option.splits)

lemma forgotten_others:
  assumes "i \<noteq> k"
  shows "ProfilesByProjectAndHost (uc_profiles (fst (RemoveProfilesForProject c k))) i h =
      ProfilesByProjectAndHost (uc_profiles c) i h"
    and "ProfileCountForProject (fst (RemoveProfilesForProject c k)) i = ProfileCountForProject c i"
proof -
  have a: "pr_project_id p \<noteq> k \<and> pr_project_id p = i \<and> q \<longleftrightarrow> pr_project_id p = i \<and> q" for p q
    using assms by auto
  show "ProfilesByProjectAndHost (uc_profiles (fst (RemoveProfilesForProject c k))) i h =
      ProfilesByProjectAndHost (uc_profiles c) i h"
    by (simp add: ProfilesByProjectAndHost_def forgotten_profiles a)
  show "ProfileCountForProject (fst (RemoveProfilesForProject c k)) i = ProfileCountForProject c i"
    by (simp add: ProfileCountForProject_def forgotten_profiles a [of _ True, simplified])
qed

lemma forgotten_default:
  assumes "req_project_id r \<noteq> k"
  shows "default_actor now (r\<lparr>req_user_config := fst (RemoveProfilesForProject c k)\<rparr>) =
    default_actor now (r\<lparr>req_user_config := c\<rparr>)"
  using assms
  by (auto simp: default_actor_def forgotten_active forgotten_profiles forgotten_others Let_def
      split: option.splits if_splits)

text \<open>
  Forgetting a deleted project is local to it. None of its profiles is left and those removed are
  reported; whom a command of any other project acts for is unchanged, whatever session it runs in; and
  a command of the project itself that names no actor acts for its owner from then on, even where a
  session, a host label or the machine had one of the removed profiles as its default.
\<close>

theorem forgetting_a_project_is_local:
  "ProfileCountForProject (fst (RemoveProfilesForProject c k)) k = 0 \<and>
    set (snd (RemoveProfilesForProject c k)) = {p \<in> set (m_vals (uc_profiles c)). pr_project_id p = k} \<and>
    (req_project_id r \<noteq> k \<longrightarrow>
      (\<forall>res. ResolveActor now (r\<lparr>req_user_config := fst (RemoveProfilesForProject c k)\<rparr>) = Inr res \<longleftrightarrow>
         ResolveActor now (r\<lparr>req_user_config := c\<rparr>) = Inr res)) \<and>
    (req_project_id r = k \<and> k \<noteq> [] \<and> req_project_owner r \<noteq> [] \<and> blank (req_explicit_actor r) \<and>
      blank (req_explicit_profile r) \<and> blank (req_environment_actor r) \<longrightarrow>
      ResolveActor now (r\<lparr>req_user_config := fst (RemoveProfilesForProject c k)\<rparr>) =
        Inr (resolved r (req_project_owner r) ActorSourceProjectOwner []))"
proof (intro conjI impI allI)
  show "ProfileCountForProject (fst (RemoveProfilesForProject c k)) k = 0"
    by (simp add: ProfileCountForProject_def forgotten_profiles filter_empty_conv)
  show "set (snd (RemoveProfilesForProject c k)) = {p \<in> set (m_vals (uc_profiles c)). pr_project_id p = k}"
    by (simp add: RemoveProfilesForProject_def Let_def)
  show "ResolveActor now (r\<lparr>req_user_config := fst (RemoveProfilesForProject c k)\<rparr>) = Inr res \<longleftrightarrow> ResolveActor now (r\<lparr>req_user_config := c\<rparr>) = Inr res"
    if "req_project_id r \<noteq> k" for res
    unfolding ResolveActor_def Let_def
    using that by (simp add: forgotten_default forgotten_others forgotten_profiles
        cong: if_cong list.case_cong split: option.split)
  assume a: "req_project_id r = k \<and> k \<noteq> [] \<and> req_project_owner r \<noteq> [] \<and> blank (req_explicit_actor r) \<and>
      blank (req_explicit_profile r) \<and> blank (req_environment_actor r)"
  have "ProfilesByProjectAndHost (uc_profiles (fst (RemoveProfilesForProject c k))) k h = []" for h
    by (auto simp: ProfilesByProjectAndHost_def forgotten_profiles filter_empty_conv)
  moreover have "default_actor now (r\<lparr>req_user_config := fst (RemoveProfilesForProject c k)\<rparr>) =
      resolved r (req_project_owner r) ActorSourceProjectOwner []"
    using a by (auto simp: default_actor_def Let_def forgotten_profiles split: option.splits if_splits)
  ultimately show "ResolveActor now (r\<lparr>req_user_config := fst (RemoveProfilesForProject c k)\<rparr>) = Inr (resolved r (req_project_owner r) ActorSourceProjectOwner [])"
    using a unfolding ResolveActor_def Let_def by (simp add: blank_def)
qed

subsection \<open>Passphrases\<close>

text \<open>
  An encrypted credential opens with its own passphrase to the very credential that would have been
  generated in the clear, and with no passphrase that derives another key; an unencrypted one is its own
  decryption. The cipher is assumed to be authenticated: what is sealed opens under the same key only.
\<close>

theorem credential_round_trip:
  assumes "\<And>x. b64_decode cr (b64_encode cr x) = Some x"
    and "\<And>key key' n raw. va_open va key' n (va_seal va key n raw) = (if key' = key then Some raw else None)"
    and "length nonce = gcm_nonce_size"
  shows "Decrypted cr va (GenerateEncrypted cr va projectID actor passphrase priv salt nonce) attempt =
      (if va_derive va attempt salt = va_derive va passphrase salt then Inr (Generate cr projectID actor priv)
       else Inl (Err ''incorrect passphrase'')) \<and>
    Decrypted cr va (Generate cr projectID actor priv) attempt = Inr (Generate cr projectID actor priv)"
  using assms by (simp add: Decrypted_def GenerateEncrypted_def encrypt_def Generate_def fail_if_def)

subsection \<open>A blank environment\<close>

text \<open>
  C35. An actor variable that is set to blanks names nobody, but it keeps the profiles from being read: whatever
  they say, and for whichever session, the command acts for the project's owner, and is not held to be
  ambiguous. (With the variable unset the same command acts by the session's profile: the witness.)
\<close>

theorem blank_actor_hides_profiles:
  assumes "getenv ''AGENT_COMMS_ACTOR'' \<noteq> []" "blank (getenv ''AGENT_COMMS_ACTOR'')"
    and "projectID \<noteq> []" "owner \<noteq> []"
  shows "command_line_actor getenv declared load_config current is_tui [] [] projectID owner now =
      Inr (\<lparr>res_actor = owner, res_source = ActorSourceProjectOwner, res_profile = [],
        res_host_label = trim_space (getenv ''AGENT_COMMS_HOST_LABEL''), res_project_id = projectID\<rparr>, False)"
  using assms
  by (simp add: command_line_actor_def Let_def ResolveActor_def resolved_def default_actor_def no_profiles_def
      ActiveProfileFor_def ProfilesByProjectAndHost_def m_vals_def named_actor_def and_then_def blank_def)

end
