(* ===== verification/Identity_Samples.thy ===== *)
theory Identity_Samples
  imports Identity_Facts Samples
begin

text \<open>
  The theorems on identities at a machine with two projects: a profile of each, one of them the default of
  a session.
\<close>

definition desk :: user_config where
  "desk = \<lparr>uc_active_profile = ''home'', uc_by_session = m_put ''s1'' \<lparr>sp_profile = ''work'', sp_set_at = 0\<rparr> m_empty,
     uc_profiles = m_put ''work'' \<lparr>pr_name = ''work'', pr_project_id = ''p'', pr_actor = ''codex'',
         pr_project_root = ''/p'', pr_host_label = ''term''\<rparr>
       (m_put ''home'' \<lparr>pr_name = ''home'', pr_project_id = ''q'', pr_actor = ''sam'',
         pr_project_root = ''/q'', pr_host_label = []\<rparr> m_empty)\<rparr>"

definition desk_request :: "string \<Rightarrow> actor_request" where
  "desk_request session =
     \<lparr>req_project_id = ''p'', req_project_owner = ''o'', req_session_id = session, req_explicit_actor = [],
      req_explicit_profile = [], req_environment_actor = [], req_host_label = [], req_user_config = desk,
      req_prefer_owner = False\<rparr>"

lemma desk_profiles:
  "m_get (uc_profiles desk) name =
     (if name = ''work'' then Some \<lparr>pr_name = ''work'', pr_project_id = ''p'', pr_actor = ''codex'',
         pr_project_root = ''/p'', pr_host_label = ''term''\<rparr>
      else if name = ''home'' then Some \<lparr>pr_name = ''home'', pr_project_id = ''q'', pr_actor = ''sam'',
         pr_project_root = ''/q'', pr_host_label = []\<rparr> else None)"
  by (simp add: desk_def m_gets)

lemma desk_by_session:
  "ActiveProfileFor 60 desk ''s1'' = ''work''" "ActiveProfileFor 60 desk ''s2'' = []"
  by (simp_all add: desk_def ActiveProfileFor_def m_gets stale_def sub_time_def)

lemma desk_resolves:
  "ResolveActor 60 (desk_request ''s1'') = Inr (resolved (desk_request ''s1'') ''codex'' ActorSourceSessionProfile ''work'')"
  "ResolveActor 60 (desk_request ''s2'') = Inr (resolved (desk_request ''s2'') ''o'' ActorSourceProjectOwner [])"
  by (simp_all add: ResolveActor_def default_actor_def desk_request_def desk_by_session desk_profiles Let_def)

theorem sessions_do_not_interfere_witness:
  "ResolveActor 60 (desk_request ''s2''\<lparr>req_session_id := ''s2'', req_user_config := SetActiveProfileFor 30 desk ''s1'' ''home''\<rparr>) =
   ResolveActor 60 (desk_request ''s2''\<lparr>req_session_id := ''s2'', req_user_config := desk\<rparr>)"
  using sessions_do_not_interfere [where now = 30 and later = 60 and s = "''s1''" and t = "''s2''" and
      r = "desk_request ''s2''" and c = desk and p = "''home''"] by simp

theorem resolved_actor_is_accounted_for_witness:
  "\<exists>name p. m_get (uc_profiles desk) name = Some p \<and> pr_project_id p = ''p'' \<and> pr_actor p = ''codex''"
  using resolved_actor_is_accounted_for [OF desk_resolves(1)]
  by (simp add: resolved_def desk_request_def) metis

theorem forgetting_a_project_is_local_witness:
  "ResolveActor 60 (desk_request ''s1''\<lparr>req_user_config := fst (RemoveProfilesForProject desk ''q'')\<rparr>) =
     Inr (resolved (desk_request ''s1'') ''codex'' ActorSourceSessionProfile ''work'') \<and>
   ResolveActor 60 (desk_request ''s1''\<lparr>req_user_config := fst (RemoveProfilesForProject desk ''p'')\<rparr>) =
     Inr (resolved (desk_request ''s1'') ''o'' ActorSourceProjectOwner [])"
proof -
  have "desk_request ''s1''\<lparr>req_user_config := desk\<rparr> = desk_request ''s1''" by (simp add: desk_request_def)
  then show ?thesis
    using forgetting_a_project_is_local [of desk "''q''" "desk_request ''s1''" 60]
      forgetting_a_project_is_local [of desk "''p''" "desk_request ''s1''" 60] desk_resolves(1)
    by (simp add: desk_request_def)
qed

text \<open>A toy cipher: the key is written in front of the text, and compared when it is opened.\<close>

fun lock :: "string \<Rightarrow> string" where
  "lock [] = ''|''"
| "lock (c # cs) = CHR ''.'' # c # lock cs"

fun unlock :: "string \<Rightarrow> string \<Rightarrow> string option" where
  "unlock [] s = (if s \<noteq> [] \<and> hd s = CHR ''|'' then Some (tl s) else None)"
| "unlock (c # cs) s = (if take 2 s = [CHR ''.'', c] then unlock cs (drop 2 s) else None)"

lemma unlock_lock: "unlock key' (lock key @ raw) = (if key' = key then Some raw else None)"
proof (induction key' arbitrary: key)
  case Nil then show ?case by (cases key) auto
next
  case (Cons c cs) then show ?case by (cases key) auto
qed

definition toy_vault :: vault where
  "toy_vault = \<lparr>va_derive = (\<lambda>passphrase salt. salt @ passphrase), va_seal = (\<lambda>key _ raw. lock key @ raw),
     va_open = (\<lambda>key _ sealed. unlock key sealed)\<rparr>"

theorem credential_round_trip_witness:
  "Decrypted toy toy_vault (GenerateEncrypted toy toy_vault ''p'' ''o:elevated'' ''sesame'' toy_key ''salt''
     ''123456789012'') ''sesame'' = Inr (Generate toy ''p'' ''o:elevated'' toy_key) \<and>
   Decrypted toy toy_vault (GenerateEncrypted toy toy_vault ''p'' ''o:elevated'' ''sesame'' toy_key ''salt''
     ''123456789012'') ''guess'' = Inl (Err ''incorrect passphrase'')"
proof -
  have "b64_decode toy (b64_encode toy x) = Some x" for x by (simp add: toy_def)
  moreover have "va_open toy_vault key' n (va_seal toy_vault key n raw) = (if key' = key then Some raw else None)"
    for key key' n raw by (simp add: toy_vault_def unlock_lock)
  moreover have "length ''123456789012'' = gcm_nonce_size" by simp
  ultimately have "Decrypted toy toy_vault (GenerateEncrypted toy toy_vault ''p'' ''o:elevated'' ''sesame'' toy_key ''salt''
     ''123456789012'') attempt = (if va_derive toy_vault attempt ''salt'' = va_derive toy_vault ''sesame'' ''salt''
       then Inr (Generate toy ''p'' ''o:elevated'' toy_key) else Inl (Err ''incorrect passphrase''))" for attempt
    using credential_round_trip [of toy toy_vault "''123456789012''" "''p''" "''o:elevated''" "''sesame''" toy_key "''salt''" attempt]
    by blast
  then show ?thesis by (simp add: toy_vault_def)
qed

text \<open>The same terminal, with the actor variable set to a blank: the session's profile is not used.\<close>

definition at_desk :: "string \<Rightarrow> string \<Rightarrow> string" where
  "at_desk actor name =
     (if name = ''AGENT_COMMS_ACTOR'' then actor else if name = ''CLAUDE_CODE_SESSION_ID'' then ''s1'' else [])"

theorem blank_actor_hides_profiles_witness:
  "command_line_actor (at_desk '' '') [] (Inr desk) (Inl ()) False [] [] ''p'' ''o'' 60 =
     Inr (\<lparr>res_actor = ''o'', res_source = ActorSourceProjectOwner, res_profile = [],
        res_host_label = [], res_project_id = ''p''\<rparr>, False) \<and>
   command_line_actor (at_desk []) [] (Inr desk) (Inl ()) False [] [] ''p'' ''o'' 60 =
     Inr (\<lparr>res_actor = ''codex'', res_source = ActorSourceSessionProfile, res_profile = ''work'',
        res_host_label = [], res_project_id = ''p''\<rparr>, False)"
proof
  have b: "blank '' ''" by (simp add: blank_def text_eval)
  show "command_line_actor (at_desk '' '') [] (Inr desk) (Inl ()) False [] [] ''p'' ''o'' 60 =
     Inr (\<lparr>res_actor = ''o'', res_source = ActorSourceProjectOwner, res_profile = [],
        res_host_label = [], res_project_id = ''p''\<rparr>, False)"
    using blank_actor_hides_profiles [of "at_desk '' ''" "''p''" "''o''"] b by (simp add: at_desk_def)
  have "trim_space ''s1'' = ''s1''" by (simp add: text_eval)
  then have "fst (Capture (at_desk []) []) = ''s1''"
    by (simp add: Capture_def DetectProviderSessionID_def at_desk_def)
  then show "command_line_actor (at_desk []) [] (Inr desk) (Inl ()) False [] [] ''p'' ''o'' 60 =
     Inr (\<lparr>res_actor = ''codex'', res_source = ActorSourceSessionProfile, res_profile = ''work'',
        res_host_label = [], res_project_id = ''p''\<rparr>, False)"
    using desk_resolves(1)
    by (simp add: command_line_actor_def at_desk_def desk_request_def resolved_def named_actor_def and_then_def Let_def)
qed

end
