(* ===== verification/Client_Samples.thy ===== *)
theory Client_Samples
  imports Client_Safety Daemon_Samples Identity_Samples
begin

text \<open>
  The theorems on clients, applied: the sample project behind its daemon, and a service whose calls are
  answered as the arguments say.
\<close>

definition long_key :: string where "long_key = replicate 64 CHR ''k''"

lemma toy_b64: "b64_decode toy s = Some s" "b64_encode toy s = s" "length long_key = 64"
  by (simp_all add: toy_def long_key_def)

definition home_config :: config where
  "home_config = \<lparr>cf_project_id = ''p'', cf_runtime_mode = ''service'', cf_authority_url = ''https://a'', cf_managed_files = 2\<rparr>"

definition sealed_credential :: credential where
  "sealed_credential = \<lparr>cd_project_id = ''p'', cd_actor = ''o:elevated'', cd_public_key = ''E'', cd_private_key = long_key,
     cd_encrypted = False, cd_salt = [], cd_nonce = []\<rparr>"

definition desk_owner :: agent where
  "desk_owner = zero_agent\<lparr>ag_role := RoleOwner, ag_status := ''ACTIVE'', ag_public_key := ''P'', ag_elevated_public_key := ''E''\<rparr>"

definition desk_view :: state where
  "desk_view = EmptyState\<lparr>st_agents := m_put ''o'' desk_owner m_empty,
     st_approvals := m_put ''a'' (zero_approval\<lparr>ap_tier := ''HUMAN''\<rparr>) m_empty\<rparr>"

definition local_metadata :: result_metadata where
  "local_metadata = \<lparr>md_consistency = [], md_server_sequence = 0, md_cache_sequence = 0, md_connectivity = []\<rparr>"

definition desk_decoders :: "event \<times> receipt \<Rightarrow> decoders" where
  "desk_decoders answer = \<lparr>rd_failure = (\<lambda>_. None), rd_state = (\<lambda>_. Inr (desk_view, local_metadata)),
     rd_command = (\<lambda>_. Inr (fst answer, local_metadata, snd answer)), rd_page = (\<lambda>_. Inl Panic),
     rd_next = (\<lambda>_. Inl Panic), rd_sync = (\<lambda>_. Inl Panic), rd_object = (\<lambda>_. Inr ())\<rparr>"

definition desk_service :: "(call \<Rightarrow> 's \<Rightarrow> 's \<times> exchange) \<Rightarrow> event \<times> receipt \<Rightarrow> 's service" where
  "desk_service transport answer =
     \<lparr>sv_crypto = toy, sv_vault = toy_vault, sv_remote_error = None, sv_ambiguous = False,
      sv_decoders = desk_decoders answer,
      sv_call = transport, sv_recover = None, sv_pause = (\<lambda>_ s. (s, True)), sv_prompt = None,
      sv_config = (\<lambda>_. Inr home_config), sv_credential = (\<lambda>_ _ _. Inr sealed_credential), sv_put = (\<lambda>_ s. (s, None)),
      sv_getenv = (\<lambda>_. []), sv_read_credential = (\<lambda>_. Inl Panic), sv_clock = (\<lambda>_. 1000),
      sv_uuid = (\<lambda>s. (s, ''k2'')), sv_random = (\<lambda>s. (s, Inr long_key)), sv_load_config = (\<lambda>_. Inr desk),
      sv_save_config = (\<lambda>_ s. (s, None)), sv_root = ''/p''\<rparr>"

lemma desk_service_sel [simp]:
  "sv_crypto (desk_service tr a) = toy" "sv_remote_error (desk_service tr a) = None"
  "sv_call (desk_service tr a) = tr" "sv_config (desk_service tr a) = (\<lambda>_. Inr home_config)"
  "sv_credential (desk_service tr a) = (\<lambda>_ _ _. Inr sealed_credential)" "sv_uuid (desk_service tr a) = (\<lambda>s. (s, ''k2''))"
  "sv_recover (desk_service tr a) = None" "sv_prompt (desk_service tr a) = None"
  "sv_pause (desk_service tr a) = (\<lambda>_ s. (s, True))" "sv_clock (desk_service tr a) = (\<lambda>_. 1000)"
  "sv_decoders (desk_service tr a) = desk_decoders a" "rd_failure (desk_decoders a) = (\<lambda>_. None)"
  "rd_object (desk_decoders a) = (\<lambda>_. Inr ())" "rd_state (desk_decoders a) = (\<lambda>_. Inr (desk_view, local_metadata))"
  "rd_command (desk_decoders a) = (\<lambda>_. Inr (fst a, local_metadata, snd a))"
  "sv_load_config (desk_service tr a) = (\<lambda>_. Inr desk)" "sv_save_config (desk_service tr a) = (\<lambda>_ s. (s, None))"
  by (simp_all add: desk_service_def desk_decoders_def)

lemma desk_service_calm: "calm I (desk_service tr a)"
  by (simp add: calm_def keeps_def)

theorem error_survives_the_wire_witness:
  "\<exists>e. daemon_answer (\<lambda>_. Some (''RATE_LIMITED'', ''wait'', 1000)) (\<lambda>_. Inr ())
      (Answered 429 ''429 Too Many Requests'' ''{}'') = Inl e \<and>
    e = Remote ''RATE_LIMITED'' ''wait'' second \<and> retryable (Code e)"
  using error_survives_the_wire [of "\<lparr>we_code = CodeRateLimited, we_message = ''wait'', we_retry_after_ms = 1000\<rparr>"
      "Control \<lparr>ce_code = CodeRateLimited, ce_message = ''wait'', ce_retry_after = 1000 * 1000000\<rparr>"
      "\<lambda>_. ''{}''" "\<lambda>_. Some (''RATE_LIMITED'', ''wait'', 1000)" "\<lambda>_. Inr ()" "''429 Too Many Requests''" "[]"]
  by (simp add: writeControlError_def control_of_def http_status_def Let_def signed_divide_int_def Code_def retryable_def)

subsection \<open>Keys\<close>

definition answers :: "call \<Rightarrow> 's \<Rightarrow> 's \<times> exchange" where
  "answers call s = (s, Answered 200 ''200 OK'' [])"

lemma answers_retry: "retry_from sv (remote_call (desk_service answers a) decode call) i l s =
  (case decode (desk_decoders a) [] of Inr v \<Rightarrow> (s, Inr v) | Inl e \<Rightarrow> (s, Inl (Local e)))"
  by (subst retry_from.simps, cases "decode (desk_decoders a) []")
    (simp_all add: remote_call_def answers_def daemon_answer_def)

lemma desk_State: "service_State (desk_service answers a) s =
    (s, Inr (RefreshRuntimePresence desk_view 1000, local_metadata))"
  by (simp add: service_State_def connected_def and_do_def local_step_def retryOnDaemonOffline_def answers_retry)

theorem client_signs_with_expected_key_witness:
  "\<forall>a. \<exists>s' credential. elevateCredentialIfNeeded (desk_service answers a) home_config ''o'' ''approval.approve'' ''a''
      (ApprovalResponse \<lparr>as_note = []\<rparr>) (sealed_credential\<lparr>cd_public_key := ''P''\<rparr>) [] (0 :: nat) = (s', Inr credential) \<and>
    commandPublicKey desk_view (toy_command ''approval.approve'' ''a'' [] ''k''\<lparr>cm_actor := ''o''\<rparr>)
      (Approval_ev ApprovalApprove) (ApprovalResponse \<lparr>as_note = []\<rparr>) = Inr (cd_public_key credential)"
proof (intro allI, goal_cases)
  case (1 a)
  have t: "parse_type ''approval.approve'' = Some (Approval_ev ApprovalApprove)"
    by (simp add: parse_type_Some)
  have e: "elevateCredentialIfNeeded (desk_service answers a) home_config ''o'' ''approval.approve'' ''a''
      (ApprovalResponse \<lparr>as_note = []\<rparr>) (sealed_credential\<lparr>cd_public_key := ''P''\<rparr>) [] (0 :: nat) = (0, Inr sealed_credential)"
    by (simp add: elevateCredentialIfNeeded_def t desk_State and_do_def RequiresElevatedKey_def RefreshRuntimePresence_def
        desk_view_def m_read_def m_gets decryptElevatedKey_def sealed_credential_def)
  have owner: "m_get (st_agents desk_view) ''o'' = Some desk_owner" by (simp add: desk_view_def m_gets)
  have "commandPublicKey desk_view (toy_command ''approval.approve'' ''a'' [] ''k''\<lparr>cm_actor := ''o''\<rparr>)
      (Approval_ev ApprovalApprove) (ApprovalResponse \<lparr>as_note = []\<rparr>) = Inr (cd_public_key sealed_credential)"
    by (rule client_signs_with_expected_key [OF e t _ owner])
      (auto simp: desk_owner_def sealed_credential_def desk_State RefreshRuntimePresence_def toy_command_def)
  with e show ?case by blast
qed

subsection \<open>A write through the daemon\<close>

definition to_home :: "event \<times> receipt \<Rightarrow> call \<Rightarrow> (db, unit) world \<Rightarrow> (db, unit) world \<times> exchange" where
  "to_home answer call w =
     (case call of
        CallCommand c \<Rightarrow>
          let n = Suc (pj_sequence (project_of ''p'' (wo_authority w))) in
          if n < 2 ^ 64 then
            (case command_handler (Suc n) sample_daemon ''p'' c w of
               Some (w', Inr reply) \<Rightarrow> (w', if (cr_event reply, cr_receipt reply) = answer
                 then Answered 200 ''200 OK'' [] else Interrupted (Err ''unexpected EOF''))
             | Some (w', Inl _) \<Rightarrow> (w', Answered 503 ''503 Service Unavailable'' [])
             | None \<Rightarrow> (w, Unreachable ''timeout''))
          else (w, Unreachable ''timeout'')
      | _ \<Rightarrow> (w, Unreachable ''timeout''))"

lemma to_home_delivers: "delivers toy toy_key (\<lambda>_. None) home ''p'' (desk_service (to_home a) a)"
proof -
  have "(only_outside w w' \<and> (\<forall>v. daemon_answer (\<lambda>_. None) (\<lambda>_. Inr (fst a, local_metadata, snd a)) x \<noteq> Inr v)) \<or>
     (\<exists>fuel w1 w2 res. only_outside w w1 \<and> Suc (pj_sequence (project_of ''p'' (wo_authority w1))) < min fuel (2 ^ 64) \<and>
        command_handler fuel sample_daemon ''p'' c w1 = Some (w2, res) \<and> only_outside w2 w' \<and>
        (\<forall>e md r. daemon_answer (\<lambda>_. None) (\<lambda>_. Inr (fst a, local_metadata, snd a)) x = Inr (e, md, r) \<longrightarrow>
           (\<exists>reply. res = Inr reply \<and> cr_event reply = e \<and> cr_receipt reply = r)))"
    if call: "to_home a (CallCommand c) w = (w', x)" for c w w' x
  proof -
    let ?n = "Suc (pj_sequence (project_of ''p'' (wo_authority w)))"
    show ?thesis
    proof (cases "?n < 2 ^ 64 \<and> command_handler (Suc ?n) sample_daemon ''p'' c w \<noteq> None")
      case False
      then have "\<not> ?n < 2 ^ 64 \<or> command_handler (Suc ?n) sample_daemon ''p'' c w = None" by blast
      then have "to_home a (CallCommand c) w = (w, Unreachable ''timeout'')" unfolding to_home_def Let_def by auto
      with call have "w' = w" "x = Unreachable ''timeout''" by simp_all
      then show ?thesis by (simp add: daemon_answer_def only_outside_refl)
    next
      case True
      then obtain w2 res where h: "command_handler (Suc ?n) sample_daemon ''p'' c w = Some (w2, res)" by fastforce
      with True call have "w' = w2" "\<forall>e md r. daemon_answer (\<lambda>_. None) (\<lambda>_. Inr (fst a, local_metadata, snd a)) x = Inr (e, md, r) \<longrightarrow>
           (\<exists>reply. res = Inr reply \<and> cr_event reply = e \<and> cr_receipt reply = r)"
        by (cases res; auto simp: to_home_def Let_def daemon_answer_def split: if_splits)+
      then show ?thesis using True h only_outside_refl by (intro disjI2 exI [of _ "Suc ?n"] exI [of _ w] exI [of _ w2] exI [of _ res]) auto
    qed
  qed
  then show ?thesis unfolding delivers_def by simp
qed

text \<open>The activation is on record under the key \<open>k2\<close>: every command under that key is answered with it.\<close>

lemma home_answers:
  obtains e r where "\<And>c. cm_project_id c = ''p'' \<Longrightarrow> cm_idempotency_key c = ''k2'' \<Longrightarrow>
    \<exists>w' reply. command_handler 4 sample_daemon ''p'' c home_world = Some (w', Inr reply) \<and>
      cr_event reply = e \<and> cr_receipt reply = r"
proof -
  obtain d e r where m: "Mutate toy toy_key 1000 d activate = Inr (toy_db, e, r)" by (rule toy_run)
  have k: "cm_project_id activate = ''p''" "cm_idempotency_key activate = ''k2''"
    by (simp_all add: toy_command_def)
  from m obtain row intent where s: "IntentHash toy activate = Inr intent" "m_has (db_projects toy_db) (cm_project_id activate)"
    "List.find (\<lambda>r. er_project r = cm_project_id activate \<and> er_key r = cm_idempotency_key activate)
      (db_events toy_db) = Some row"
    "er_intent row = intent" "er_event row = e" "er_receipt row = r" by (rule mutate_stored)
  note f = s [unfolded k]
  have "\<exists>w' reply. command_handler 4 sample_daemon ''p'' c home_world = Some (w', Inr reply) \<and>
      cr_event reply = e \<and> cr_receipt reply = r" if c: "cm_project_id c = ''p''" "cm_idempotency_key c = ''k2''" for c
  proof -
    have "Mutate toy toy_key 1000 toy_db c = Inr (toy_db, e, r)"
      using c f k by (auto simp: Mutate_def replay_def as_control_def m_has_def toy_intent)
    then have "de_command sample_daemon c home_world = (home_world, Inr (e, r))"
      by (auto simp: personal_daemon_def home_world_def)
    moreover obtain w' where "syncProject 4 sample_daemon ''p'' home_world = Some (w', None)" using home_sync by blast
    ultimately show ?thesis using c
      by (cases "apply_to_cache sample_daemon e r home_world")
        (simp_all add: command_handler_def runtime_gate_def accepted_reply_def deliver_now_def)
  qed
  then show thesis by (rule that)
qed

theorem signed_write_commits_once_witness:
  "\<exists>a w' x. executeRemoteWithCredential (desk_service (to_home a) a) home_config ''o'' ''agent.activate'' ''o''
      act sealed_credential home_world = (w', Inr x) \<and>
    List.filter (\<lambda>e. ce_idempotency_key e = ce_idempotency_key (sx_event x)) (project_log (wo_authority w') ''p'') =
      [sx_event x]"
proof -
  obtain e r where er: "\<And>c. cm_project_id c = ''p'' \<Longrightarrow> cm_idempotency_key c = ''k2'' \<Longrightarrow>
    \<exists>w' reply. command_handler 4 sample_daemon ''p'' c home_world = Some (w', Inr reply) \<and>
      cr_event reply = e \<and> cr_receipt reply = r" using home_answers by blast
  let ?sv = "desk_service (to_home (e, r)) (e, r)"
  have t: "parse_type ''agent.activate'' = Some (Agent_ev AgentActivate)" by (simp add: parse_type_Some)
  have enc: "EncodePayload toy ''agent.activate'' act = Inr ''act''"
    by (simp add: EncodePayload_def KnownEventType_def t toy_payloads)
  obtain c where c: "signed_command ?sv ''p'' ''o'' ''agent.activate'' ''o'' ''act'' sealed_credential None home_world =
      (home_world, Inr c)" "cm_project_id c = ''p''" "cm_idempotency_key c = ''k2''"
    by (simp add: signed_command_def local_step_def command_sign_def toy_intent sealed_credential_def toy_b64)
  obtain w' reply where h: "command_handler 4 sample_daemon ''p'' c home_world = Some (w', Inr reply)"
    "cr_event reply = e" "cr_receipt reply = r" using er [OF c(2,3)] by blast
  have n: "Suc (Suc (pj_sequence (project_of ''p'' (wo_authority home_world)))) = 4"
    "Suc (pj_sequence (project_of ''p'' (wo_authority home_world))) < 2 ^ 64" by (simp_all add: home_length)
  have "to_home (e, r) (CallCommand c) home_world = (w', Answered 200 ''200 OK'' [])"
    unfolding to_home_def Let_def call.case n(1) using n(2) h by simp
  then have "remote_call ?sv rd_command (CallCommand c) home_world = (w', Inr (e, local_metadata, r))"
    by (simp add: remote_call_def daemon_answer_def)
  then have run: "executeRemoteWithCredential ?sv home_config ''o'' ''agent.activate'' ''o'' act sealed_credential home_world =
      (w', Inr (service_event_of c e local_metadata r))"
    using c(1) by (simp add: executeRemoteWithCredential_def enc and_do_def local_step_def home_config_def
        retryOnDaemonOffline_def retry_from.simps)
  have k: "cf_project_id home_config = ''p''" by (simp add: home_config_def)
  from signed_write_commits_once [where sv = "desk_service (to_home (e, r)) (e, r)",
      OF toy_equipped to_home_delivers desk_service_calm _ home_tracks k run]
  have "List.filter (\<lambda>y. ce_idempotency_key y = ce_idempotency_key (sx_event (service_event_of c e local_metadata r)))
      (project_log (wo_authority w') ''p'') = [sx_event (service_event_of c e local_metadata r)]" by simp
  with run show ?thesis by blast
qed

subsection \<open>An approval\<close>

definition work_request :: invocation_requested where
  "work_request = \<lparr>ir_target = ''b'', ir_message_id = [], ir_task_id = [], ir_instruction = ''go'', ir_expected_result = [],
     ir_scopes = [], ir_priority = [], ir_consumer_mode = [], ir_preferred_runtime_id = [], ir_deadline = None\<rparr>"

definition work_event :: log_event where
  "work_event = \<lparr>le_id = [], le_sequence = 3, le_time = 5, le_actor = ''a'', le_type = ''approval.request'',
     le_entity_id = ''ap'', le_data = []\<rparr>"

definition marshals :: crypto where "marshals = toy\<lparr>marshal_subject := \<lambda>_ _ _ _. Some ''{}''\<rparr>"

theorem requested_approval_fits_witness:
  "\<exists>st' p. hasBoundApproval st' ''invocation-sensitive:i''
       (ApprovalSubjectDigest marshals ''a'' (Invocation_ev InvRequest) ''i'' (InvocationRequested p)) ''HUMAN'' 90 \<and>
     approval_error st' ''a'' ''i''
       (ApprovalSubjectDigest marshals ''a'' (Invocation_ev InvRequest) ''i'' (InvocationRequested p)) p 90 = None"
proof -
  let ?q = "invocation_approval marshals EmptyState ''a'' ''HUMAN'' ''i'' work_request [] 100"
  let ?st = "apply_approval_response (Approval_ev ApprovalApprove) work_event (apply_approval_requested ?q work_event EmptyState)"
  let ?p = "NormalizeInvocationApprovalSubject EmptyState work_request"
  have same: "NormalizeInvocationApprovalSubject ?st work_request = ?p"
    by (simp add: NormalizeInvocationApprovalSubject_def apply_approval_response_def apply_approval_requested_def Let_def
        work_request_def cong: if_cong)
  have json: "ApprovalSubjectJSON marshals ''a'' (Invocation_ev InvRequest) ''i'' (InvocationRequested ?p) \<noteq> []"
    by (simp add: ApprovalSubjectJSON_def marshals_def)
  have hash: "sha256_hex marshals x \<noteq> []" for x by (simp add: marshals_def toy_def)
  have none: "approval_error ?st ''a'' ''i''
      (ApprovalSubjectDigest marshals ''a'' (Invocation_ev InvRequest) ''i'' (InvocationRequested ?p)) ?p 90 = None"
    using requested_approval_fits [OF refl _ _ hash json refl refl _ refl same, where now = 10 and now' = 90]
    by simp
  moreover have "\<not> actorElevated ?st ''a''" "\<not> policy_configured ?st (ir_target ?p)"
    by (simp_all add: actorElevated_def policy_configured_def apply_approval_response_def apply_approval_requested_def
        m_read_def zero_agent_def m_has_def)
  moreover have "\<not> hasBoundApproval ?st ''invocation:i'' d t 90" for d t
    by (auto simp: hasBoundApproval_def list_ex_iff m_vals_set bound_by_def apply_approval_response_def
        apply_approval_requested_def m_gets split: if_splits)
  ultimately show ?thesis
    by (intro exI [of _ ?st] exI [of _ ?p]) (auto simp: approval_error_def Let_def bound_to_def split: if_splits)
qed

subsection \<open>A deletion\<close>

text \<open>The state says whether the files are there; the authority confirms.\<close>

definition tidy_host :: "bool deletion_host" where
  "tidy_host = \<lparr>ho_directory = ''acme'', ho_client_error = (\<lambda>_. None), ho_capabilities = (\<lambda>_ s. (s, Answered 200 ''200 OK'' ''{}'')),
     ho_schema_version = (\<lambda>_. Inr 4), ho_delete_project = (\<lambda>_ _ s. (s, Answered 200 ''200 OK'' ''{}'')),
     ho_stop_daemon = (\<lambda>_ s. (s, True, None)), ho_delete_credential = (\<lambda>_ _ s. (s, None)),
     ho_remove_runtime = (\<lambda>_. (False, None)), ho_remove_bootstrap = (\<lambda>s. (s, None)), ho_remove_legacy = id\<rparr>"

theorem project_is_deleted_in_order_witness:
  "\<forall>a. \<exists>d c. service_DeleteProject (desk_service answers a) tidy_host ''o'' [] ''acme'' True = (False, Inr d) \<and>
    cm_type c = ''project.delete'' \<and> cm_actor c = ''o'' \<and> cm_project_id c = ''p'' \<and> cm_idempotency_key c = ''k2'' \<and>
    signed_by toy c long_key"
proof (intro allI, goal_cases)
  case (1 a)
  let ?sv = "desk_service answers a :: bool service"
  have owner: "ag_role (agent_of (RefreshRuntimePresence desk_view 1000) ''o'') = RoleOwner"
    by (simp add: desk_view_def RefreshRuntimePresence_def m_read_def m_gets desk_owner_def)
  have signed: "\<exists>c. signed_command ?sv ''p'' ''o'' ''project.delete'' ''p'' [] sealed_credential None True = (True, Inr c)"
    by (simp add: signed_command_def local_step_def command_sign_def toy_intent sealed_credential_def toy_b64)
  then obtain c where "deletion_command ?sv tidy_host ''o'' [] ''acme'' True =
      (True, Inr (home_config, RefreshRuntimePresence desk_view 1000, c))"
    using owner by (auto simp: deletion_command_def and_do_def local_step_def desk_State tidy_host_def home_config_def
        decryptElevatedKey_def sealed_credential_def)
  then have "\<exists>d. service_DeleteProject ?sv tidy_host ''o'' [] ''acme'' True = (False, Inr d)"
    by (simp add: service_DeleteProject_def and_do_def delete_remote_def home_config_def tidy_host_def authority_answer_def
        clean_up_def forget_profiles_def removeRuntimeDirectoryWithRetry.simps split: prod.split)
  then obtain d where d: "service_DeleteProject ?sv tidy_host ''o'' [] ''acme'' True = (False, Inr d)" by blast
  have "keeps I (sv_call ?sv call)" "keeps I (ho_capabilities tidy_host cfg)" "keeps I (ho_delete_project tidy_host cfg c)"
    for I call cfg c by (simp_all add: keeps_def answers_def tidy_host_def)
  note frame = this
  from project_is_deleted_in_order [where files = id, OF desk_service_calm frame d,
    THEN conjunct2, THEN spec, THEN mp, OF refl]
  obtain cfg st credential s1 where r: "owner_confirms ?sv tidy_host ''o'' [] ''acme'' True cfg st credential"
    "cf_runtime_mode cfg = ''service'' \<longrightarrow> (\<exists>c s0 s2 s3 code status raw.
       cm_type c = ''project.delete'' \<and> cm_actor c = ''o'' \<and> cm_project_id c = cf_project_id cfg \<and>
       sv_uuid ?sv s2 = (s3, cm_idempotency_key c) \<and> cm_issued_at c = sv_clock ?sv s3 \<and> id s3 = id True \<and>
       signed_by (sv_crypto ?sv) c (cd_private_key credential) \<and>
       ho_delete_project tidy_host cfg c s0 = (s1, Answered code status raw) \<and> 200 \<le> code \<and> code < 300)" by blast
  from r(1) have "cfg = home_config" "credential = sealed_credential"
    by (auto simp: owner_confirms_def Decrypted_def sealed_credential_def)
  with r(2) obtain c where "cm_type c = ''project.delete''" "cm_actor c = ''o''" "cm_project_id c = ''p''"
    "cm_idempotency_key c = ''k2''" "signed_by toy c long_key"
    by (auto simp: home_config_def sealed_credential_def)
  with d show ?case by (intro exI [of _ d] exI [of _ c] conjI)
qed

end
