(* ===== verification/Spec2Isabelle.thy ===== *)
theory Spec2Isabelle
  imports Cache_Samples Team_Samples Dispatch_Samples Client_Samples
begin

text \<open>
  AgentComms keeps what the agents and humans of a project share (principals, tasks, messages,
  invocations, runtimes, approvals, documents) in a log of signed events. This development models the
  Go code that decides what enters that log, what state it leads to, and how copies of it are kept,
  read and written: \<open>internal/\<close> with its packages \<open>model\<close>, \<open>controlplane\<close>, \<open>protocol\<close>, \<open>projection\<close>,
  \<open>personalauthority\<close>, \<open>authority\<close>, \<open>projectlifecycle\<close>, \<open>localcache\<close>, \<open>draftstore\<close>, \<open>daemon\<close>,
  \<open>daemonclient\<close>, \<open>remote\<close>, \<open>service\<close>, \<open>identity\<close>, \<open>failure\<close>, and a part of \<open>app\<close>. Definitions bear the
  names of the Go functions and list their checks in the order of the source; the block of an event type
  inside a longer function has a name of its own.

  How the parts interact. A command line settles for whom it acts (Identity), builds a command, signs it
  with a credential of this host and sends it to the daemon (Client). The daemon (Daemon) forwards it to the
  authority of the project, the personal one (Engine, over SQLite) or that of a team (Team, over PostgreSQL).
  The authority checks form, age, signature and sequence precondition, has the transition validated against
  the current state (the theories \<open>V_\<dots>\<close>), appends the event with its receipt to the hash chain, and applies
  it to the state (Projection). The daemon copies the events, verified once more, into its cache (Cache),
  answers reads from there (also when the authority is away), and hands pending invocations to the runtimes of
  its agents (Connectors), which itself submits events. Unsent messages are kept as drafts (Drafts). An
  upgrade rebuilds the stored states from the log (Replay).
\<close>

text \<open>
  The data. Model_State has one record per struct of \<open>model/model.go\<close> and the record \<open>state\<close> of maps
  between them. Payloads has a datatype constructor per payload struct, the event types grouped by
  their prefix and the table from types to structs (\<open>model/payloads.go\<close>); Providers the grammar of agent
  ids (\<open>model/provider.go\<close>); Reading the orders and the resolution of references (\<open>model/order.go\<close>,
  \<open>model/resolve.go\<close>); Controlplane commands, events, receipts, pages and error classes
  (\<open>controlplane/contracts.go\<close>). Prelude, GoText and GoTime hold Go's maps, early returns, strings and
  instants. A Go map is an association list with distinct keys; where the code ranges over one, the result is
  shown not to depend on the order (locale \<open>any_order\<close>), or an order is an argument.

  The rules. Protocol_Core and \<open>V_Agents\<close>, \<open>V_Tasks\<close>, \<open>V_Messages\<close>, \<open>V_Invocations\<close>, \<open>V_Runtimes\<close>, \<open>V_Records\<close>
  are \<open>protocol/transitions.go\<close>: each \<open>validate_\<dots>\<close> is the block of one event type and ends with an error or the
  payload to commit; \<open>ValidateTransition\<close> puts them together. Projection is \<open>projection/apply.go\<close>. Each
  block has a lemma \<open>\<dots>_Inr\<close> that says all an acceptance means; the properties of claims, requests,
  grants and life cycles rest on these (Projection_Facts, Typed_State, Owner).

  The authorities. Engine is \<open>personalauthority/engine.go\<close>: a database is a record of project rows and event
  rows, a handler takes it to an answer and the next database, an error rolls back. \<open>reachable\<close> are the
  databases that sequences of requests lead to (Engine_Facts), by the locale \<open>inv_kept\<close> that all invariants
  share. Replay is the check of the chain in \<open>projectlifecycle/timestamps_migration.go\<close>. Engine_Safety,
  History and Owner show that an admitted command is committed, a retry answered from the log, every commit
  signed, the log paged without loss, its head hash binding, the owner permanent. Tables
  (\<open>authority/postgres_projection.go\<close>) and Team (\<open>authority/postgres.go\<close>, deletion and outbox included) are
  the team authority; Tables_Facts, Team_Order and Team_Facts refine the personal one to it (relation
  \<open>same_as\<close>, locale \<open>simulated\<close>), Team_Safety has its own invariants.

  The daemon. Cache (\<open>localcache/cache.go\<close>) with Cache_Facts and Mirror: what a cache holds is verified, and
  fed from an authority it mirrors it. Drafts (\<open>draftstore/store.go\<close> and the drafts of the cache): a store keeps
  its quotas exactly when one save runs at a time, and how far they are exceeded when several overlap. Connectors (\<open>daemon/connectors.go\<close>) is the dispatcher, with Dispatch_Facts; Selection
  the choice of the next invocation (\<open>service/service.go\<close>). Daemon has the handlers of \<open>daemon/daemon.go\<close>;
  the locales \<open>event_source\<close> and \<open>authority_client\<close> (Daemon_Facts, Daemon_Safety) say what it needs of an
  authority behind the Go interface of that name, and are interpreted on the personal one.

  The clients. Identity is \<open>identity/identity.go\<close> and the choice of the actor in \<open>app/app.go\<close>. Client has
  \<open>daemonclient/client.go\<close>, \<open>remote/client.go\<close>, \<open>failure\<close> and the signing part of \<open>service/service.go\<close>: the
  retry loop, the choice of the key, approvals for operations, registration, rotation and elevation of keys,
  and the deletion of a project on the host. Client_Facts and Client_Safety follow a write through all layers
  down to the log. The theories \<open>\<dots>_Samples\<close> evaluate concrete projects to which the properties are applied.
\<close>

text \<open>
  Recursion, bounds and fuel. Loops over lists and maps are structural. A synchronisation
  takes a page per round and has fuel for one page per missing event, which suffices because every page
  that is not the last brings an event (\<open>sync_catches_up\<close>); a client that follows the cursors of
  \<open>Engine.Events\<close> needs no more pages than there are events and one (\<open>pages_cover_log\<close>). The search for a
  free agent id is a partial function, shown to return. A call is tried at most three times, the removal of the
  runtime directory at most forty, a page has at most 500 events, as in the code. A long poll has fuel for
  its rounds; between two of them the outside may change anything. Sequences are natural numbers: the theorems that
  read a cursor back assume that the log is shorter than 2 to the 64; products and shifts that can leave
  64 bits (the wait of a long poll, the delay of a retry) are computed in 64-bit words.

  Parameters. SHA-256, Ed25519, base64 and JSON are the fields of a record \<open>crypto\<close>; that JSON reads back
  what it wrote, that a signature verifies under its own key, and that some hashes do not collide are
  hypotheses of the theorems that need them. The reading of a JSONB column is a parameter of the team
  authority. What a dispatcher does to processes, terminals and web servers, the host's files and key store,
  the encryption of a credential, the HTTP transport with its timer, and a person at a prompt are the fields
  of the records \<open>dispatcher\<close>, \<open>deletion_host\<close>, \<open>vault\<close>, \<open>service\<close> and of \<open>daemon\<close>, over a state of the world that the
  model does not look into. A database or cache may fail at a call where a theorem on daemons or clients
  says so (the driver of the world); inside an authority, errors of the driver are left out.

  Concurrency. The authorities run each request, and the cache the application of an event, in one transaction
  that locks the project, so they are served one after the other, and so they are here; the order is
  arbitrary, that of the request lists. Rebuilding a cache is one transaction and then one per event. A save of
  a draft is three statements without a transaction: Drafts models each of them, and the runs in which
  the saves of many requests overlap (\<open>overlapping\<close>). The verification of a range of the cache asks for a
  second connection where there is one, and never gets past the start of a range above 1. The daemon lets one
  synchronisation of a project run at a time, which later requests join; it is modelled at the grain of
  whole requests, where there is none to join. Answers that get lost, repeated commands, restarts of the
  daemon between attempts and failures half-way are explicit.

  Not modelled: the HTTP server of the team authority and its SQL migrations, foreign keys (the validator
  implies them), opening, closing and health of databases and servers, the decoding of HTTP requests in the
  daemon, its coordinator loop and time-outs, project lifecycle plans (directories, reset, removal), the file
  of session tokens, broker keys, the worker and interactive hosts (PTYs, provider protocols), the service's
  forwarding of drafts, artifacts and exports, the onboarding, doctor, terminal and MCP front ends, and the
  browser demonstration. They are file, process and network I/O or rendering around the parts above.
\<close>

end
